(* ===== verification/Prelude.thy ===== *)
theory Prelude
  imports Main
begin

text \<open>
  Vocabulary and automation shared by the whole development.

  Go values are modelled as follows.  A Go \<^verbatim>\<open>string\<close> is an immutable sequence of
  bytes, which is exactly a HOL \<open>string\<close> (a list of 8-bit characters).  A Go \<^verbatim>\<open>error\<close>
  is represented by the text its \<^verbatim>\<open>Error()\<close> method returns, because the only thing the
  agent ever does with an error is to wrap it, log it or search it for a substring.  A pair
  \<^verbatim>\<open>(T, error)\<close> is the sum \<open>go_error + 'a\<close>.  A Go map is a partial function.  An
  \<^verbatim>\<open>int\<close> (64 bits on every supported platform) is an \<open>int\<close> wherever the code cannot
  come near the bound, and a \<open>64 word\<close> where wrap-around matters.
\<close>

named_theorems go_simps \<open>unfolding equations for the Go string primitives\<close>
named_theorems guard_simps \<open>equations for expiring guard maps\<close>
named_theorems label_simps \<open>equations for container label maps\<close>

type_synonym go_error = string
type_synonym 'a result = "go_error + 'a"
type_synonym go_map = "string \<rightharpoonup> string"

subsection \<open>Results\<close>

fun is_ok :: "'a result \<Rightarrow> bool" where
  "is_ok (Inl _) = False"
| "is_ok (Inr _) = True"

lemma is_ok_iff: "is_ok r \<longleftrightarrow> (\<exists>x. r = Inr x)"
  by (cases r) auto

text \<open>Go's map read: a missing key yields the zero value, the empty string.\<close>

definition map_get :: "go_map \<Rightarrow> string \<Rightarrow> string" where
  "map_get m k = (case m k of None \<Rightarrow> '''' | Some v \<Rightarrow> v)"

lemma map_get_simps [simp]:
  "map_get (m(k \<mapsto> v)) k = v"
  "k \<noteq> k' \<Longrightarrow> map_get (m(k' \<mapsto> v)) k = map_get m k"
  "map_get Map.empty k = ''''"
  by (simp_all add: map_get_def)

text \<open>A Go statement \<^verbatim>\<open>if _, ok := m[k]; !ok { m[k] = v }\<close>.\<close>

definition put_if_absent :: "'k \<Rightarrow> 'v \<Rightarrow> ('k \<rightharpoonup> 'v) \<Rightarrow> ('k \<rightharpoonup> 'v)" where
  "put_if_absent k v m = (case m k of None \<Rightarrow> m(k \<mapsto> v) | Some _ \<Rightarrow> m)"

lemma put_if_absent_keeps: "m k' = Some u \<Longrightarrow> put_if_absent k v m k' = Some u"
  by (auto simp: put_if_absent_def split: option.splits)

lemma put_if_absent_other: "k' \<noteq> k \<Longrightarrow> put_if_absent k v m k' = m k'"
  by (auto simp: put_if_absent_def split: option.splits)

lemma put_if_absent_new: "m k = None \<Longrightarrow> put_if_absent k v m k = Some v"
  by (auto simp: put_if_absent_def)

lemma dom_put_if_absent [simp]: "dom (put_if_absent k v m) = insert k (dom m)"
  by (auto simp: put_if_absent_def split: option.splits)

subsection \<open>Lists\<close>

text \<open>First element of a list that satisfies a test, as a Go search loop returns it.\<close>

fun first_match :: "('a \<Rightarrow> bool) \<Rightarrow> 'a list \<Rightarrow> 'a option" where
  "first_match P [] = None"
| "first_match P (x # xs) = (if P x then Some x else first_match P xs)"

lemma first_match_SomeD: "first_match P xs = Some x \<Longrightarrow> x \<in> set xs \<and> P x"
  by (induction xs) (auto split: if_splits)

lemma first_match_None_iff: "first_match P xs = None \<longleftrightarrow> (\<forall>x \<in> set xs. \<not> P x)"
  by (induction xs) auto

lemma first_match_split:
  "first_match P xs = Some x \<Longrightarrow>
   \<exists>ys zs. xs = ys @ x # zs \<and> P x \<and> (\<forall>y \<in> set ys. \<not> P y)"
proof (induction xs)
  case (Cons a xs)
  show ?case
  proof (cases "P a")
    case True
    with Cons.prems have "a = x" by simp
    with True show ?thesis by (intro exI [of _ "[]"] exI [of _ xs]) auto
  next
    case False
    with Cons.prems have "first_match P xs = Some x" by simp
    with Cons.IH obtain ys zs where
      "xs = ys @ x # zs" "P x" "\<forall>y \<in> set ys. \<not> P y" by blast
    with False show ?thesis by (intro exI [of _ "a # ys"] exI [of _ zs]) auto
  qed
qed simp

text \<open>Appending each fresh element to an accumulator: the \<^verbatim>\<open>seen\<close> map idiom of the source.\<close>

fun dedup_by :: "('a \<Rightarrow> bool) \<Rightarrow> 'a list \<Rightarrow> 'a list \<Rightarrow> 'a list" where
  "dedup_by ok acc [] = acc"
| "dedup_by ok acc (x # xs) =
     dedup_by ok (if ok x \<and> x \<notin> set acc then acc @ [x] else acc) xs"

lemma set_dedup_by: "set (dedup_by ok acc xs) = set acc \<union> {x \<in> set xs. ok x}"
  by (induction xs arbitrary: acc) auto

lemma distinct_dedup_by: "distinct acc \<Longrightarrow> distinct (dedup_by ok acc xs)"
  by (induction xs arbitrary: acc) auto

lemma dedup_by_prefix: "\<exists>ys. dedup_by ok acc xs = acc @ ys"
proof (induction xs arbitrary: acc)
  case (Cons x xs)
  show ?case
  proof (cases "ok x \<and> x \<notin> set acc")
    case True
    with Cons.IH [of "acc @ [x]"] show ?thesis by auto
  next
    case False
    with Cons.IH [of acc] show ?thesis by auto
  qed
qed simp

lemma sum_list_filter_pos_nonneg: "0 \<le> sum_list (map (\<lambda>x. max 0 (f x :: int)) xs)"
  by (induction xs) auto

lemma take_sorted: "sorted xs \<Longrightarrow> sorted (take n xs)"
  by (simp add: sorted_wrt_take)

end
