(* ===== verification/Expiry_Guards.thy ===== *)
theory Expiry_Guards
  imports Prelude
begin

text \<open>
  The two guard maps of \<^verbatim>\<open>CommandHandler\<close> (\<^verbatim>\<open>internal/agent/handler.go\<close>):
  \<^verbatim>\<open>activeDeploys\<close> (service slug to expiry time) keeps stale REMOVE commands away from a
  service that is being deployed, \<^verbatim>\<open>deploymentsSeen\<close> (deployment id to expiry time) drops
  duplicate deploy commands.  Times are nanoseconds as integers.  A nil Go map reads as the
  empty map; the only write to a possibly nil map follows the allocation in the same call chain,
  so both are modelled by the empty map.

  Every operation is one critical section under its mutex.  The contract both maps offer is
  the locale \<open>expiring_guard\<close>; the operations of the code interpret it.  \<open>Deploy_Admission\<close> puts
  them into the interleaved steps of the handlers.
\<close>

type_synonym guard_map = "string \<rightharpoonup> int"

definition second :: int where "second = 1000000000"
definition minute :: int where "minute = 60 * second"
definition hour :: int where "hour = 60 * minute"

definition deployGracePeriod :: int where "deployGracePeriod = 5 * minute"

lemmas time_units = second_def minute_def hour_def deployGracePeriod_def

subsection \<open>The guard operations\<close>

definition markDeployActive :: "int \<Rightarrow> string \<Rightarrow> guard_map \<Rightarrow> guard_map" where
  "markDeployActive now slug m = m(slug \<mapsto> now + 1 * hour)"

definition markDeployDone :: "int \<Rightarrow> string \<Rightarrow> bool \<Rightarrow> guard_map \<Rightarrow> guard_map" where
  "markDeployDone now slug success m =
     (if success then m(slug \<mapsto> now + deployGracePeriod) else m(slug := None))"

definition isDeployActive :: "int \<Rightarrow> string \<Rightarrow> guard_map \<Rightarrow> bool \<times> guard_map" where
  "isDeployActive now slug m =
     (case m slug of
        None \<Rightarrow> (False, m)
      | Some expiry \<Rightarrow> if now > expiry then (False, m(slug := None)) else (True, m))"

definition markDeploymentSeen :: "int \<Rightarrow> string \<Rightarrow> guard_map \<Rightarrow> guard_map" where
  "markDeploymentSeen now deployID m = m(deployID \<mapsto> now + 2 * minute)"

definition isDeploymentSeen :: "int \<Rightarrow> string \<Rightarrow> guard_map \<Rightarrow> bool \<times> guard_map" where
  "isDeploymentSeen now deployID m =
     (case m deployID of
        None \<Rightarrow> (False, m)
      | Some expiry \<Rightarrow> if now > expiry then (False, m(deployID := None)) else (True, m))"

definition clearDeploymentSeen :: "int \<Rightarrow> string \<Rightarrow> guard_map \<Rightarrow> guard_map" where
  "clearDeploymentSeen now deployID m = m(deployID \<mapsto> now + 5 * minute)"

declare markDeployActive_def [guard_simps] markDeployDone_def [guard_simps]
  isDeployActive_def [guard_simps] markDeploymentSeen_def [guard_simps]
  isDeploymentSeen_def [guard_simps] clearDeploymentSeen_def [guard_simps]

subsection \<open>The contract of an expiring guard\<close>

locale expiring_guard =
  fixes mark :: "int \<Rightarrow> 'k \<Rightarrow> 'g \<Rightarrow> 'g"
    and check :: "int \<Rightarrow> 'k \<Rightarrow> 'g \<Rightarrow> bool \<times> 'g"
    and span :: int
  assumes check_mark: "fst (check now k (mark t k g)) \<longleftrightarrow> now \<le> t + span"
    and check_mark_other: "k' \<noteq> k \<Longrightarrow> fst (check now k' (mark t k g)) = fst (check now k' g)"
    and check_purge: "now \<le> now' \<Longrightarrow> fst (check now' k' (snd (check now k g))) = fst (check now' k' g)"
begin

text \<open>Queries, in the order they are made: each may purge the entry it found expired.\<close>

fun run_checks :: "(int \<times> 'k) list \<Rightarrow> 'g \<Rightarrow> 'g" where
  "run_checks [] g = g"
| "run_checks ((t, k) # qs) g = run_checks qs (snd (check t k g))"

lemma check_after_checks:
  "(\<forall>q \<in> set qs. fst q \<le> now) \<Longrightarrow> fst (check now k (run_checks qs g)) = fst (check now k g)"
proof (induction qs arbitrary: g)
  case (Cons q qs)
  then show ?case by (cases q) (simp add: check_purge)
qed simp

lemma protected_until_expiry:
  assumes "\<forall>q \<in> set qs. fst q \<le> now"
  shows "fst (check now k (run_checks qs (mark t k g))) \<longleftrightarrow> now \<le> t + span"
  using check_after_checks [OF assms] by (simp add: check_mark)

lemma mark_leaves_others:
  assumes "\<forall>q \<in> set qs. fst q \<le> now" and "k' \<noteq> k"
  shows "fst (check now k' (run_checks qs (mark t k g))) = fst (check now k' g)"
  using check_after_checks [OF assms(1)] assms(2) by (simp add: check_mark_other)

end

interpretation active: expiring_guard markDeployActive isDeployActive hour
  by unfold_locales (auto simp: guard_simps split: option.splits)

interpretation grace: expiring_guard "\<lambda>now slug. markDeployDone now slug True" isDeployActive deployGracePeriod
  by unfold_locales (auto simp: guard_simps split: option.splits)

interpretation seen: expiring_guard markDeploymentSeen isDeploymentSeen "2 * minute"
  by unfold_locales (auto simp: guard_simps split: option.splits)

interpretation late: expiring_guard clearDeploymentSeen isDeploymentSeen "5 * minute"
  by unfold_locales (auto simp: guard_simps split: option.splits)

end
