(* ===== verification/Deploy_Admission.thy ===== *)
theory Deploy_Admission
  imports Expiry_Guards
begin

text \<open>
  Admission of deploy commands: the control skeleton of \<^verbatim>\<open>HandleDeploy\<close> (build semaphore,
  duplicate check, guard marks, deferred clean-up) and of the REMOVE branch of
  \<^verbatim>\<open>HandleContainerCommand\<close>, as an interleaving of goroutines.  \<^verbatim>\<open>ReceiveCommands\<close>
  starts every handler in a goroutine of its own, so any number of them run at once; one step is
  one critical section.  The deploy itself (disk guard, build, container start) is the stay at
  \<open>Working\<close>; its result is the flag of the step that leaves it.  Deferred calls run last-in
  first-out: \<^verbatim>\<open>markDeployDone\<close>, \<^verbatim>\<open>clearDeploymentSeen\<close>, then the semaphore release.
\<close>

datatype pc = Waiting | Admitted | Unseen | SeenMarked | Working | DoneMarked bool | Cleared bool
  | Skipped | Cancelled | Finished bool

record goroutine =
  gr_pc :: pc
  gr_dep :: string
  gr_slug :: string
  gr_marked :: int   \<comment> \<open>ghost: when \<^verbatim>\<open>markDeploymentSeen\<close> ran\<close>
  gr_active :: int   \<comment> \<open>ghost: when \<^verbatim>\<open>markDeployActive\<close> ran\<close>

record admission =
  ad_now :: int
  ad_active :: guard_map
  ad_seen :: guard_map
  ad_slots :: nat
  ad_gs :: "nat \<rightharpoonup> goroutine"
  ad_removed :: "(int \<times> string) list"  \<comment> \<open>REMOVE commands carried out, latest first\<close>

text \<open>Capacity of \<^verbatim>\<open>buildSem\<close>, as \<^verbatim>\<open>NewCommandHandler\<close> sets it.\<close>

definition maxBuilds :: "int \<Rightarrow> nat" where
  "maxBuilds configured = (if configured \<le> 0 then 2 else nat configured)"

definition admission_init :: admission where
  "admission_init = \<lparr>ad_now = 0, ad_active = Map.empty, ad_seen = Map.empty, ad_slots = 0,
     ad_gs = Map.empty, ad_removed = []\<rparr>"

definition new_goroutine :: "string \<Rightarrow> string \<Rightarrow> goroutine" where
  "new_goroutine dep slug = \<lparr>gr_pc = Waiting, gr_dep = dep, gr_slug = slug, gr_marked = 0, gr_active = 0\<rparr>"

definition at_pc :: "admission \<Rightarrow> nat \<Rightarrow> pc \<Rightarrow> goroutine \<Rightarrow> bool" where
  "at_pc s i p g \<longleftrightarrow> ad_gs s i = Some g \<and> gr_pc g = p"

definition goto :: "nat \<Rightarrow> goroutine \<Rightarrow> pc \<Rightarrow> admission \<Rightarrow> admission" where
  "goto i g p s = s\<lparr>ad_gs := (ad_gs s)(i \<mapsto> g\<lparr>gr_pc := p\<rparr>)\<rparr>"

inductive deploy_step :: "nat \<Rightarrow> admission \<Rightarrow> admission \<Rightarrow> bool" for cap :: nat where
  receive: "ad_gs s i = None \<Longrightarrow>
     deploy_step cap s (s\<lparr>ad_gs := (ad_gs s)(i \<mapsto> new_goroutine dep slug)\<rparr>)"
| acquire: "at_pc s i Waiting g \<Longrightarrow> ad_slots s < cap \<Longrightarrow>
     deploy_step cap s (goto i g Admitted (s\<lparr>ad_slots := Suc (ad_slots s)\<rparr>))"
| ctx_done: "at_pc s i Waiting g \<Longrightarrow> deploy_step cap s (goto i g Cancelled s)"
| duplicate: "at_pc s i Admitted g \<Longrightarrow> isDeploymentSeen (ad_now s) (gr_dep g) (ad_seen s) = (True, m) \<Longrightarrow>
     deploy_step cap s (goto i g Skipped (s\<lparr>ad_seen := m, ad_slots := ad_slots s - 1\<rparr>))"
| not_seen: "at_pc s i Admitted g \<Longrightarrow> isDeploymentSeen (ad_now s) (gr_dep g) (ad_seen s) = (False, m) \<Longrightarrow>
     deploy_step cap s (goto i g Unseen (s\<lparr>ad_seen := m\<rparr>))"
| mark_seen: "at_pc s i Unseen g \<Longrightarrow>
     deploy_step cap s (goto i (g\<lparr>gr_marked := ad_now s\<rparr>) SeenMarked
       (s\<lparr>ad_seen := markDeploymentSeen (ad_now s) (gr_dep g) (ad_seen s)\<rparr>))"
| mark_active: "at_pc s i SeenMarked g \<Longrightarrow>
     deploy_step cap s (goto i (g\<lparr>gr_active := ad_now s\<rparr>) Working
       (s\<lparr>ad_active := markDeployActive (ad_now s) (gr_slug g) (ad_active s)\<rparr>))"
| mark_done: "at_pc s i Working g \<Longrightarrow>
     deploy_step cap s (goto i g (DoneMarked ok)
       (s\<lparr>ad_active := markDeployDone (ad_now s) (gr_slug g) ok (ad_active s)\<rparr>))"
| clear_seen: "at_pc s i (DoneMarked ok) g \<Longrightarrow>
     deploy_step cap s (goto i g (Cleared ok)
       (s\<lparr>ad_seen := clearDeploymentSeen (ad_now s) (gr_dep g) (ad_seen s)\<rparr>))"
| release: "at_pc s i (Cleared ok) g \<Longrightarrow>
     deploy_step cap s (goto i g (Finished ok) (s\<lparr>ad_slots := ad_slots s - 1\<rparr>))"
| remove_skipped: "slug \<noteq> [] \<Longrightarrow> isDeployActive (ad_now s) slug (ad_active s) = (True, m) \<Longrightarrow>
     deploy_step cap s (s\<lparr>ad_active := m\<rparr>)"
| remove_done: "slug \<noteq> [] \<Longrightarrow> isDeployActive (ad_now s) slug (ad_active s) = (False, m) \<Longrightarrow>
     deploy_step cap s (s\<lparr>ad_active := m, ad_removed := (ad_now s, slug) # ad_removed s\<rparr>)"
| tick: "0 \<le> d \<Longrightarrow> deploy_step cap s (s\<lparr>ad_now := ad_now s + d\<rparr>)"

inductive admission_reachable :: "nat \<Rightarrow> admission \<Rightarrow> bool" for cap :: nat where
  start: "admission_reachable cap admission_init"
| step: "admission_reachable cap s \<Longrightarrow> deploy_step cap s t \<Longrightarrow> admission_reachable cap t"

inductive_cases deploy_stepE: "deploy_step cap s t"

lemma at_pc_goto:
  "at_pc (goto i g p s) j q h \<longleftrightarrow>
     (if j = i then h = g\<lparr>gr_pc := p\<rparr> \<and> q = p else at_pc s j q h)"
  by (auto simp: at_pc_def goto_def)

lemma goto_sel [simp]:
  "ad_now (goto i g p s) = ad_now s" "ad_active (goto i g p s) = ad_active s"
  "ad_seen (goto i g p s) = ad_seen s" "ad_slots (goto i g p s) = ad_slots s"
  "ad_removed (goto i g p s) = ad_removed s"
  "ad_gs (goto i g p s) = (ad_gs s)(i \<mapsto> g\<lparr>gr_pc := p\<rparr>)"
  by (simp_all add: goto_def)

subsection \<open>The build semaphore\<close>

fun holds_slot :: "pc \<Rightarrow> bool" where
  "holds_slot Waiting = False"
| "holds_slot Skipped = False"
| "holds_slot Cancelled = False"
| "holds_slot (Finished ok) = False"
| "holds_slot p = True"

definition slot_holders :: "admission \<Rightarrow> nat set" where
  "slot_holders s = {i. \<exists>g. ad_gs s i = Some g \<and> holds_slot (gr_pc g)}"

definition slots_inv :: "nat \<Rightarrow> admission \<Rightarrow> bool" where
  "slots_inv cap s \<longleftrightarrow>
     finite (slot_holders s) \<and> card (slot_holders s) = ad_slots s \<and> ad_slots s \<le> cap"

lemma slot_holders_goto:
  "slot_holders (goto i g p s) =
     (if holds_slot p then insert i (slot_holders s) else slot_holders s - {i})"
  by (auto simp: slot_holders_def split: if_splits)

lemma slot_holders_cong: "ad_gs s = ad_gs t \<Longrightarrow> slot_holders s = slot_holders t"
  by (simp add: slot_holders_def)

lemma slot_holders_upd [simp]:
  "slot_holders (s\<lparr>ad_slots := n\<rparr>) = slot_holders s"
  "slot_holders (s\<lparr>ad_seen := m\<rparr>) = slot_holders s"
  "slot_holders (s\<lparr>ad_active := m\<rparr>) = slot_holders s"
  "slot_holders (s\<lparr>ad_removed := r\<rparr>) = slot_holders s"
  "slot_holders (s\<lparr>ad_now := t\<rparr>) = slot_holders s"
  by (simp_all add: slot_holders_def)

lemma slot_holders_at_pc: "at_pc s i p g \<Longrightarrow> i \<in> slot_holders s \<longleftrightarrow> holds_slot p"
  by (auto simp: slot_holders_def at_pc_def)

lemma slot_holders_receive:
  "ad_gs s i = None \<Longrightarrow>
     slot_holders (s\<lparr>ad_gs := (ad_gs s)(i \<mapsto> new_goroutine dep slug)\<rparr>) = slot_holders s"
  by (auto simp: slot_holders_def new_goroutine_def split: if_splits)

lemma deploy_step_slots: "deploy_step cap s t \<Longrightarrow> slots_inv cap s \<Longrightarrow> slots_inv cap t"
  by (induction rule: deploy_step.induct)
    (auto simp: slots_inv_def slot_holders_goto slot_holders_receive insert_absorb
       dest!: slot_holders_at_pc)

lemma reachable_slots_inv: "admission_reachable cap s \<Longrightarrow> slots_inv cap s"
proof (induction rule: admission_reachable.induct)
  case start
  show ?case by (simp add: slots_inv_def slot_holders_def admission_init_def)
qed (rule deploy_step_slots)

subsection \<open>Duplicates within two minutes, removals within the hour\<close>

fun marked_pc :: "pc \<Rightarrow> bool" where
  "marked_pc SeenMarked = True"
| "marked_pc Working = True"
| "marked_pc (DoneMarked ok) = True"
| "marked_pc p = False"

definition guarded_until :: "guard_map \<Rightarrow> string \<Rightarrow> int \<Rightarrow> int \<Rightarrow> bool" where
  "guarded_until m k now until \<longleftrightarrow> (now \<le> until \<longrightarrow> (\<exists>e. m k = Some e \<and> until \<le> e))"

text \<open>
  \<open>covered P key mark span m s\<close>: every goroutine selected by \<open>P\<close> is still covered by the
  entry it wrote into \<open>m\<close> at time \<open>mark\<close>, until \<open>span\<close> later.
\<close>

definition covered :: "(nat \<Rightarrow> goroutine \<Rightarrow> bool) \<Rightarrow> (goroutine \<Rightarrow> string) \<Rightarrow> (goroutine \<Rightarrow> int) \<Rightarrow> int
    \<Rightarrow> guard_map \<Rightarrow> admission \<Rightarrow> bool" where
  "covered P key mark span m s \<longleftrightarrow> (\<forall>i g. ad_gs s i = Some g \<longrightarrow> P i g \<longrightarrow>
     mark g \<le> ad_now s \<and> guarded_until m (key g) (ad_now s) (mark g + span))"

definition sole_on_slug :: "admission \<Rightarrow> nat \<Rightarrow> string \<Rightarrow> bool" where
  "sole_on_slug s i slug \<longleftrightarrow> (\<forall>j h. ad_gs s j = Some h \<longrightarrow> gr_slug h = slug \<longrightarrow> j = i)"

definition seen_inv :: "admission \<Rightarrow> bool" where
  "seen_inv s \<longleftrightarrow> covered (\<lambda>i g. marked_pc (gr_pc g)) gr_dep gr_marked (2 * minute) (ad_seen s) s"

definition active_inv :: "admission \<Rightarrow> bool" where
  "active_inv s \<longleftrightarrow> covered (\<lambda>i g. gr_pc g = Working \<and> sole_on_slug s i (gr_slug g))
     gr_slug gr_active (hour) (ad_active s) s"

lemma guarded_check:
  "guarded_until m k now until \<Longrightarrow> now \<le> until \<Longrightarrow>
     fst (isDeploymentSeen now k m) \<and> fst (isDeployActive now k m)"
  by (auto simp: guarded_until_def guard_simps)

lemma guarded_purge_seen:
  "guarded_until m k now until \<Longrightarrow> isDeploymentSeen now k' m = (b, m') \<Longrightarrow> guarded_until m' k now until"
  by (auto simp: guarded_until_def guard_simps split: option.splits if_splits)

lemma guarded_purge_active:
  "guarded_until m k now until \<Longrightarrow> isDeployActive now k' m = (b, m') \<Longrightarrow> guarded_until m' k now until"
  by (auto simp: guarded_until_def guard_simps split: option.splits if_splits)

lemma guarded_write:
  "guarded_until m k now until \<Longrightarrow> until \<le> e \<Longrightarrow> guarded_until (m(k' \<mapsto> e)) k now until"
  by (auto simp: guarded_until_def)

lemma guarded_write_same: "until \<le> e \<Longrightarrow> guarded_until (m(k \<mapsto> e)) k now until"
  by (auto simp: guarded_until_def)

lemma guarded_write_other: "k' \<noteq> k \<Longrightarrow> guarded_until (m(k' := v)) k now until = guarded_until m k now until"
  by (auto simp: guarded_until_def)

lemma guarded_later: "guarded_until m k now until \<Longrightarrow> 0 \<le> d \<Longrightarrow> guarded_until m k (now + d) until"
  by (auto simp: guarded_until_def)

lemma done_other:
  "k \<noteq> k' \<Longrightarrow> guarded_until (markDeployDone now k ok m) k' n until = guarded_until m k' n until"
  by (simp add: guarded_until_def markDeployDone_def)

lemma mark_covers:
  "guarded_until (markDeploymentSeen now k m) k now (now + 2 * minute)"
  "guarded_until (markDeployActive now k m) k now (now + hour)"
  by (simp_all add: guarded_until_def markDeploymentSeen_def markDeployActive_def)

lemma mark_keeps:
  "guarded_until m k' now until \<Longrightarrow> until \<le> now + 2 * minute \<Longrightarrow>
     guarded_until (markDeploymentSeen now k m) k' now until"
  "guarded_until m k' now until \<Longrightarrow> until \<le> now + 2 * minute \<Longrightarrow>
     guarded_until (clearDeploymentSeen now k m) k' now until"
  "guarded_until m k' now until \<Longrightarrow> until \<le> now + hour \<Longrightarrow>
     guarded_until (markDeployActive now k m) k' now until"
  by (simp_all add: guarded_write markDeploymentSeen_def clearDeploymentSeen_def
        markDeployActive_def time_units)

text \<open>
  A step keeps such an invariant when each selected goroutine of the new state either was selected
  before and its cover survived, or has just written its entry.
\<close>

lemma covered_step:
  assumes "covered P key mark span m s" and "ad_now t = ad_now s"
    and "\<And>i g'. ad_gs t i = Some g' \<Longrightarrow> P' i g' \<Longrightarrow>
       (\<exists>g. ad_gs s i = Some g \<and> P i g \<and> key g' = key g \<and> mark g' = mark g \<and>
          (mark g \<le> ad_now s \<longrightarrow> guarded_until m (key g) (ad_now s) (mark g + span) \<longrightarrow>
           guarded_until m' (key g) (ad_now s) (mark g + span)))
       \<or> mark g' = ad_now s \<and> guarded_until m' (key g') (ad_now s) (ad_now s + span)"
  shows "covered P' key mark span m' t"
  unfolding covered_def
proof (intro allI impI)
  fix i g' assume g': "ad_gs t i = Some g'" "P' i g'"
  from assms(3) [OF this] assms(1,2)
  show "mark g' \<le> ad_now t \<and> guarded_until m' (key g') (ad_now t) (mark g' + span)"
    by (fastforce simp: covered_def)
qed

lemma covered_tick:
  assumes "covered P key mark span m s" "0 \<le> d"
  shows "covered P key mark span m (s\<lparr>ad_now := ad_now s + d\<rparr>)"
  unfolding covered_def
proof (intro allI impI)
  fix i g assume "ad_gs (s\<lparr>ad_now := ad_now s + d\<rparr>) i = Some g" "P i g"
  with assms(1) have "mark g \<le> ad_now s" "guarded_until m (key g) (ad_now s) (mark g + span)"
    by (simp_all add: covered_def)
  with assms(2) show "mark g \<le> ad_now (s\<lparr>ad_now := ad_now s + d\<rparr>) \<and>
      guarded_until m (key g) (ad_now (s\<lparr>ad_now := ad_now s + d\<rparr>)) (mark g + span)"
    by (simp add: guarded_later)
qed

lemma deploy_step_seen_inv: "deploy_step cap s t \<Longrightarrow> seen_inv s \<Longrightarrow> seen_inv t"
  unfolding seen_inv_def
proof (induction rule: deploy_step.induct)
  case (duplicate s i g m)
  show ?case
    by (rule covered_step [OF duplicate.prems])
      (use duplicate.hyps in \<open>auto simp: at_pc_def intro: guarded_purge_seen [OF _ duplicate.hyps(2)] split: if_splits\<close>)
next
  case (not_seen s i g m)
  show ?case
    by (rule covered_step [OF not_seen.prems])
      (use not_seen.hyps in \<open>auto simp: at_pc_def intro: guarded_purge_seen [OF _ not_seen.hyps(2)] split: if_splits\<close>)
next
  case (mark_seen s i g)
  show ?case
    by (rule covered_step [OF mark_seen.prems])
      (use mark_seen.hyps in \<open>auto simp: at_pc_def mark_covers mark_keeps split: if_splits\<close>)
next
  case (clear_seen s i ok g)
  show ?case
    by (rule covered_step [OF clear_seen.prems])
      (use clear_seen.hyps in \<open>auto simp: at_pc_def mark_keeps split: if_splits\<close>)
next
  case (tick d s)
  from tick.prems tick.hyps show ?case by (simp add: covered_tick)
qed (erule covered_step; auto simp: at_pc_def new_goroutine_def split: if_splits)+

lemma reachable_seen_inv: "admission_reachable cap s \<Longrightarrow> seen_inv s"
proof (induction rule: admission_reachable.induct)
  case start
  show ?case by (simp add: seen_inv_def covered_def admission_init_def)
qed (rule deploy_step_seen_inv)

text \<open>A goroutine alone on its slug was alone before the step too: goroutines never go away.\<close>

lemma sole_on_slug_goto:
  "ad_gs u i = Some g \<Longrightarrow>
     sole_on_slug (goto i g p u) j slug = sole_on_slug u j slug"
  "ad_gs u i = Some g \<Longrightarrow>
     sole_on_slug (goto i (g\<lparr>gr_marked := n\<rparr>) p u) j slug = sole_on_slug u j slug"
  "ad_gs u i = Some g \<Longrightarrow>
     sole_on_slug (goto i (g\<lparr>gr_active := n\<rparr>) p u) j slug = sole_on_slug u j slug"
  by (auto simp: sole_on_slug_def split: if_splits)

lemma sole_on_slug_upd [simp]:
  "sole_on_slug (s\<lparr>ad_slots := n\<rparr>) = sole_on_slug s"
  "sole_on_slug (s\<lparr>ad_seen := m\<rparr>) = sole_on_slug s"
  "sole_on_slug (s\<lparr>ad_active := m\<rparr>) = sole_on_slug s"
  "sole_on_slug (s\<lparr>ad_removed := r\<rparr>) = sole_on_slug s"
  "sole_on_slug (s\<lparr>ad_now := t\<rparr>) = sole_on_slug s"
  by (simp_all add: sole_on_slug_def fun_eq_iff)

lemma sole_on_slug_receive:
  assumes "ad_gs s i = None"
    and "sole_on_slug (s\<lparr>ad_gs := (ad_gs s)(i \<mapsto> new_goroutine dep sl)\<rparr>) j slug"
  shows "sole_on_slug s j slug"
  unfolding sole_on_slug_def
proof (intro allI impI)
  fix k h assume "ad_gs s k = Some h" "gr_slug h = slug"
  moreover from this assms(1) have "k \<noteq> i" by auto
  ultimately show "k = j" using assms(2) by (auto simp: sole_on_slug_def)
qed

lemma mark_done_keeps_others:
  assumes hyp: "at_pc s i Working g" and sole: "sole_on_slug s j (gr_slug h)"
    and j: "j \<noteq> i" "ad_gs s j = Some h"
  shows "guarded_until (markDeployDone now (gr_slug g) ok m) (gr_slug h) n u = guarded_until m (gr_slug h) n u"
proof (rule done_other)
  from hyp have "ad_gs s i = Some g" by (simp add: at_pc_def)
  with sole j show "gr_slug g \<noteq> gr_slug h" unfolding sole_on_slug_def by blast
qed

lemma active_mark_done:
  assumes hyp: "at_pc s i Working g"
    and inv: "covered (\<lambda>i g. gr_pc g = Working \<and> sole_on_slug s i (gr_slug g)) gr_slug gr_active hour (ad_active s) s"
    and t: "t = goto i g (DoneMarked ok) (s\<lparr>ad_active := markDeployDone now (gr_slug g) ok (ad_active s)\<rparr>)"
  shows "covered (\<lambda>i g. gr_pc g = Working \<and> sole_on_slug t i (gr_slug g)) gr_slug gr_active hour (ad_active t) t"
proof (rule covered_step [OF inv])
  fix j g' assume g': "ad_gs t j = Some g'" and w: "gr_pc g' = Working \<and> sole_on_slug t j (gr_slug g')"
  have gi: "ad_gs s i = Some g" using hyp by (simp add: at_pc_def)
  have j: "j \<noteq> i" using g' w by (auto simp: t)
  have gj: "ad_gs s j = Some g'" using g' j by (simp add: t)
  have "sole_on_slug t j (gr_slug g') = sole_on_slug s j (gr_slug g')"
    by (simp add: t sole_on_slug_goto gi)
  with w have sole: "sole_on_slug s j (gr_slug g')" by simp
  have "guarded_until (ad_active t) (gr_slug g') n u = guarded_until (ad_active s) (gr_slug g') n u" for n u
    using mark_done_keeps_others [OF hyp sole j gj] by (simp add: t)
  with gj w sole show "(\<exists>h. ad_gs s j = Some h \<and> (gr_pc h = Working \<and> sole_on_slug s j (gr_slug h)) \<and>
      gr_slug g' = gr_slug h \<and> gr_active g' = gr_active h \<and> (gr_active h \<le> ad_now s \<longrightarrow>
      guarded_until (ad_active s) (gr_slug h) (ad_now s) (gr_active h + hour) \<longrightarrow>
      guarded_until (ad_active t) (gr_slug h) (ad_now s) (gr_active h + hour))) \<or>
      gr_active g' = ad_now s \<and> guarded_until (ad_active t) (gr_slug g') (ad_now s) (ad_now s + hour)"
    by simp
qed (simp add: t)

lemma deploy_step_active_inv: "deploy_step cap s t \<Longrightarrow> active_inv s \<Longrightarrow> active_inv t"
  unfolding active_inv_def
proof (induction rule: deploy_step.induct)
  case (receive s i dep slug)
  show ?case
    by (rule covered_step [OF receive.prems])
      (use receive.hyps sole_on_slug_receive [OF receive.hyps] in
        \<open>auto simp: new_goroutine_def split: if_splits\<close>)
next
  case (mark_active s i g)
  show ?case
    by (rule covered_step [OF mark_active.prems])
      (use mark_active.hyps in \<open>auto simp: at_pc_def mark_covers mark_keeps sole_on_slug_goto split: if_splits\<close>)
next
  case (mark_done s i g ok)
  show ?case by (rule active_mark_done [OF mark_done.hyps mark_done.prems refl])
next
  case (remove_skipped slug s m)
  show ?case
    by (rule covered_step [OF remove_skipped.prems])
      (use remove_skipped.hyps in \<open>auto intro: guarded_purge_active [OF _ remove_skipped.hyps(2)]\<close>)
next
  case (remove_done slug s m)
  show ?case
    by (rule covered_step [OF remove_done.prems])
      (use remove_done.hyps in \<open>auto intro: guarded_purge_active [OF _ remove_done.hyps(2)]\<close>)
next
  case (tick d s)
  from tick.prems tick.hyps show ?case by (simp add: covered_tick)
qed (erule covered_step; auto simp: at_pc_def sole_on_slug_goto split: if_splits)+

lemma reachable_active_inv: "admission_reachable cap s \<Longrightarrow> active_inv s"
proof (induction rule: admission_reachable.induct)
  case start
  show ?case by (simp add: active_inv_def covered_def admission_init_def)
qed (rule deploy_step_active_inv)

subsection \<open>Properties of every interleaving\<close>

text \<open>
  C37. The build semaphore is exact: in every interleaving the number of occupied slots is the
  number of goroutines between acquiring and releasing, and it never exceeds the capacity.
\<close>

theorem build_slots_exact:
  assumes "admission_reachable cap s"
  shows "card (slot_holders s) = ad_slots s \<and> ad_slots s \<le> cap"
  using reachable_slots_inv [OF assms] by (simp add: slots_inv_def)

text \<open>
  For two minutes after a handler marked a deployment, the duplicate check answers true for
  that deployment, whatever the other handlers do.
\<close>

theorem duplicate_rejected_for_two_minutes:
  assumes "admission_reachable cap s" and "ad_gs s i = Some g" and "marked_pc (gr_pc g)"
    and "ad_now s \<le> gr_marked g + 2 * minute"
  shows "fst (isDeploymentSeen (ad_now s) (gr_dep g) (ad_seen s))"
proof -
  from reachable_seen_inv [OF assms(1)] assms(2,3)
  have "guarded_until (ad_seen s) (gr_dep g) (ad_now s) (gr_marked g + 2 * minute)"
    by (auto simp: seen_inv_def covered_def)
  then show ?thesis using guarded_check assms(4) by blast
qed

text \<open>
  C10. While the only handler that ever used a slug is working, for an hour after it marked the
  slug, a REMOVE command for the slug is skipped.
\<close>

theorem sole_deploy_not_removed:
  assumes "admission_reachable cap s" and "at_pc s i Working g"
    and "sole_on_slug s i (gr_slug g)" and "ad_now s \<le> gr_active g + hour"
  shows "fst (isDeployActive (ad_now s) (gr_slug g) (ad_active s))"
proof -
  from reachable_active_inv [OF assms(1)] assms(2,3)
  have "guarded_until (ad_active s) (gr_slug g) (ad_now s) (gr_active g + hour)"
    by (auto simp: active_inv_def covered_def at_pc_def)
  then show ?thesis using guarded_check assms(4) by blast
qed

subsection \<open>Runs that escape the guards\<close>

text \<open>
  An executable scheduler for the step relation: an action names the goroutine that moves; \<open>None\<close>
  means that the action is not enabled.
\<close>

datatype action = Receive nat string string | Acquire nat | Check nat | MarkSeen nat | MarkActive nat
  | MarkDone nat bool | ClearSeen nat | Release nat | Remove string | Tick nat

definition when_at :: "admission \<Rightarrow> nat \<Rightarrow> pc \<Rightarrow> (goroutine \<Rightarrow> admission) \<Rightarrow> admission option" where
  "when_at s i p k =
     (case ad_gs s i of None \<Rightarrow> None | Some g \<Rightarrow> if gr_pc g = p then Some (k g) else None)"

fun act :: "nat \<Rightarrow> action \<Rightarrow> admission \<Rightarrow> admission option" where
  "act cap (Receive i dep slug) s =
     (if ad_gs s i = None then Some (s\<lparr>ad_gs := (ad_gs s)(i \<mapsto> new_goroutine dep slug)\<rparr>) else None)"
| "act cap (Acquire i) s =
     (if ad_slots s < cap
      then when_at s i Waiting (\<lambda>g. goto i g Admitted (s\<lparr>ad_slots := Suc (ad_slots s)\<rparr>)) else None)"
| "act cap (Check i) s =
     when_at s i Admitted (\<lambda>g. case isDeploymentSeen (ad_now s) (gr_dep g) (ad_seen s) of
       (True, m) \<Rightarrow> goto i g Skipped (s\<lparr>ad_seen := m, ad_slots := ad_slots s - 1\<rparr>)
     | (False, m) \<Rightarrow> goto i g Unseen (s\<lparr>ad_seen := m\<rparr>))"
| "act cap (MarkSeen i) s =
     when_at s i Unseen (\<lambda>g. goto i (g\<lparr>gr_marked := ad_now s\<rparr>) SeenMarked
       (s\<lparr>ad_seen := markDeploymentSeen (ad_now s) (gr_dep g) (ad_seen s)\<rparr>))"
| "act cap (MarkActive i) s =
     when_at s i SeenMarked (\<lambda>g. goto i (g\<lparr>gr_active := ad_now s\<rparr>) Working
       (s\<lparr>ad_active := markDeployActive (ad_now s) (gr_slug g) (ad_active s)\<rparr>))"
| "act cap (MarkDone i ok) s =
     when_at s i Working (\<lambda>g. goto i g (DoneMarked ok)
       (s\<lparr>ad_active := markDeployDone (ad_now s) (gr_slug g) ok (ad_active s)\<rparr>))"
| "act cap (ClearSeen i) s =
     (case ad_gs s i of
        Some g \<Rightarrow> (case gr_pc g of
            DoneMarked ok \<Rightarrow> Some (goto i g (Cleared ok)
              (s\<lparr>ad_seen := clearDeploymentSeen (ad_now s) (gr_dep g) (ad_seen s)\<rparr>))
          | _ \<Rightarrow> None)
      | None \<Rightarrow> None)"
| "act cap (Release i) s =
     (case ad_gs s i of
        Some g \<Rightarrow> (case gr_pc g of
            Cleared ok \<Rightarrow> Some (goto i g (Finished ok) (s\<lparr>ad_slots := ad_slots s - 1\<rparr>))
          | _ \<Rightarrow> None)
      | None \<Rightarrow> None)"
| "act cap (Remove slug) s =
     (if slug = [] then None
      else case isDeployActive (ad_now s) slug (ad_active s) of
        (True, m) \<Rightarrow> Some (s\<lparr>ad_active := m\<rparr>)
      | (False, m) \<Rightarrow> Some (s\<lparr>ad_active := m, ad_removed := (ad_now s, slug) # ad_removed s\<rparr>))"
| "act cap (Tick d) s = Some (s\<lparr>ad_now := ad_now s + int d\<rparr>)"

fun run_actions :: "nat \<Rightarrow> action list \<Rightarrow> admission \<Rightarrow> admission option" where
  "run_actions cap [] s = Some s"
| "run_actions cap (a # as) s = (case act cap a s of None \<Rightarrow> None | Some t \<Rightarrow> run_actions cap as t)"

lemma when_at_SomeD: "when_at s i p k = Some t \<Longrightarrow> \<exists>g. at_pc s i p g \<and> t = k g"
  by (auto simp: when_at_def at_pc_def split: option.splits if_splits)

lemma act_step: "act cap a s = Some t \<Longrightarrow> deploy_step cap s t"
proof (induction cap a s rule: act.induct)
  case (3 cap i s)
  then obtain g where g: "at_pc s i Admitted g" and
    t: "t = (case isDeploymentSeen (ad_now s) (gr_dep g) (ad_seen s) of
       (True, m) \<Rightarrow> goto i g Skipped (s\<lparr>ad_seen := m, ad_slots := ad_slots s - 1\<rparr>)
     | (False, m) \<Rightarrow> goto i g Unseen (s\<lparr>ad_seen := m\<rparr>))"
    by (auto dest: when_at_SomeD)
  obtain b m where c: "isDeploymentSeen (ad_now s) (gr_dep g) (ad_seen s) = (b, m)" by fastforce
  show ?case
  proof (cases b)
    case True
    with c deploy_step.duplicate [OF g, of m cap] show ?thesis by (simp add: t)
  next
    case False
    with c deploy_step.not_seen [OF g, of m cap] show ?thesis by (simp add: t)
  qed
next
  case (9 cap slug s)
  then show ?case
    by (cases "isDeployActive (ad_now s) slug (ad_active s)")
      (auto intro: deploy_step.remove_skipped deploy_step.remove_done split: if_splits bool.splits)
qed (auto dest!: when_at_SomeD intro: deploy_step.intros simp: at_pc_def
       simp del: One_nat_def split: if_splits option.splits pc.splits)

lemma run_actions_reachable:
  "run_actions cap as s = Some t \<Longrightarrow> admission_reachable cap s \<Longrightarrow> admission_reachable cap t"
proof (induction as arbitrary: s)
  case (Cons a as)
  then obtain u where u: "act cap a s = Some u" "run_actions cap as u = Some t"
    by (auto split: option.splits)
  from Cons.prems(2) act_step [OF u(1)] have "admission_reachable cap u"
    by (rule admission_reachable.step)
  with Cons.IH u(2) show ?case by blast
qed simp

lemma run_from_init: "run_actions cap as admission_init = Some t \<Longrightarrow> admission_reachable cap t"
  by (rule run_actions_reachable) (auto intro: admission_reachable.start)

lemmas run_simps = when_at_def goto_def admission_init_def new_goroutine_def guard_simps time_units

definition mark_run :: "admission" where
  "mark_run = the (run_actions 2 [Receive 0 ''dep1'' ''web'', Acquire 0, Check 0, MarkSeen 0,
     MarkActive 0, Tick 1000000000] admission_init)"

lemma mark_run_eq: "run_actions 2 [Receive 0 ''dep1'' ''web'', Acquire 0, Check 0, MarkSeen 0,
     MarkActive 0, Tick 1000000000] admission_init = Some mark_run"
  by (simp add: mark_run_def run_simps)

lemma mark_run_sel:
  "ad_gs mark_run 0 = Some \<lparr>gr_pc = Working, gr_dep = ''dep1'', gr_slug = ''web'', gr_marked = 0, gr_active = 0\<rparr>"
  "ad_now mark_run = second" "j \<noteq> 0 \<Longrightarrow> ad_gs mark_run j = None"
  by (simp_all add: mark_run_def run_simps)

lemma build_slots_exact_witness:
  "card (slot_holders mark_run) = ad_slots mark_run \<and> ad_slots mark_run \<le> 2"
  using build_slots_exact [OF run_from_init [OF mark_run_eq]] .

lemma duplicate_rejected_for_two_minutes_witness:
  "fst (isDeploymentSeen second ''dep1'' (ad_seen mark_run))"
  using duplicate_rejected_for_two_minutes [OF run_from_init [OF mark_run_eq] mark_run_sel(1)]
  by (simp add: mark_run_sel time_units)

lemma sole_deploy_not_removed_witness: "fst (isDeployActive second ''web'' (ad_active mark_run))"
proof -
  have "sole_on_slug mark_run 0 ''web''"
    using mark_run_sel(3) by (fastforce simp: sole_on_slug_def)
  then show ?thesis
    using sole_deploy_not_removed [OF run_from_init [OF mark_run_eq], of 0]
    by (simp add: at_pc_def mark_run_sel time_units)
qed

definition working_on :: "admission \<Rightarrow> nat \<Rightarrow> string \<Rightarrow> string \<Rightarrow> bool" where
  "working_on s i dep slug \<longleftrightarrow> (case ad_gs s i of None \<Rightarrow> False
     | Some g \<Rightarrow> gr_pc g = Working \<and> gr_dep g = dep \<and> gr_slug g = slug)"

definition race_run :: "admission" where
  "race_run = the (run_actions 2 [Receive 0 ''dep1'' ''web'', Receive 1 ''dep1'' ''web'', Acquire 0, Acquire 1,
     Check 0, Check 1, MarkSeen 0, MarkSeen 1, MarkActive 0, MarkActive 1] admission_init)"

definition slow_run :: "admission" where
  "slow_run = the (run_actions 2 [Receive 0 ''dep1'' ''web'', Acquire 0, Check 0, MarkSeen 0, MarkActive 0,
     Tick 120000000001, Receive 1 ''dep1'' ''web'', Acquire 1, Check 1, MarkSeen 1, MarkActive 1] admission_init)"

lemma race_run_reachable: "admission_reachable 2 race_run"
  by (rule run_from_init [where as = "[Receive 0 ''dep1'' ''web'', Receive 1 ''dep1'' ''web'', Acquire 0, Acquire 1,
     Check 0, Check 1, MarkSeen 0, MarkSeen 1, MarkActive 0, MarkActive 1]"])
    (simp add: race_run_def run_simps)

lemma slow_run_reachable: "admission_reachable 2 slow_run"
  by (rule run_from_init [where as = "[Receive 0 ''dep1'' ''web'', Acquire 0, Check 0, MarkSeen 0, MarkActive 0,
     Tick 120000000001, Receive 1 ''dep1'' ''web'', Acquire 1, Check 1, MarkSeen 1, MarkActive 1]"])
    (simp add: slow_run_def run_simps)

text \<open>
  The duplicate check does not make deploys of one deployment id exclusive.  Check and mark are
  two critical sections, so two handlers can pass the check at the same instant; and the mark
  expires after two minutes while the first build still runs, so a late redelivery passes it too.
\<close>

theorem duplicate_deploys_can_run_together:
  "(\<exists>s. admission_reachable 2 s \<and> ad_now s = 0
      \<and> working_on s 0 ''dep1'' ''web'' \<and> working_on s 1 ''dep1'' ''web'') \<and>
   (\<exists>s. admission_reachable 2 s \<and> ad_now s = 2 * minute + 1
      \<and> working_on s 0 ''dep1'' ''web'' \<and> working_on s 1 ''dep1'' ''web'')"
proof
  have "ad_now race_run = 0 \<and> working_on race_run 0 ''dep1'' ''web'' \<and> working_on race_run 1 ''dep1'' ''web''"
    by (simp add: race_run_def working_on_def run_simps)
  with race_run_reachable show "\<exists>s. admission_reachable 2 s \<and> ad_now s = 0
      \<and> working_on s 0 ''dep1'' ''web'' \<and> working_on s 1 ''dep1'' ''web''" by blast
  have "ad_now slow_run = 2 * minute + 1 \<and> working_on slow_run 0 ''dep1'' ''web''
      \<and> working_on slow_run 1 ''dep1'' ''web''"
    by (simp add: slow_run_def working_on_def run_simps)
  with slow_run_reachable show "\<exists>s. admission_reachable 2 s \<and> ad_now s = 2 * minute + 1
      \<and> working_on s 0 ''dep1'' ''web'' \<and> working_on s 1 ''dep1'' ''web''" by blast
qed

definition remove_run :: "admission" where
  "remove_run = the (run_actions 2 [Receive 0 ''dep1'' ''web'', Acquire 0, Check 0, MarkSeen 0, MarkActive 0,
     Receive 1 ''dep2'' ''web'', Acquire 1, Check 1, MarkSeen 1, MarkActive 1,
     MarkDone 0 False, Remove ''web''] admission_init)"

lemma remove_run_reachable: "admission_reachable 2 remove_run"
  by (rule run_from_init [where as = "[Receive 0 ''dep1'' ''web'', Acquire 0, Check 0, MarkSeen 0, MarkActive 0,
     Receive 1 ''dep2'' ''web'', Acquire 1, Check 1, MarkSeen 1, MarkActive 1,
     MarkDone 0 False, Remove ''web'']"])
    (simp add: remove_run_def run_simps)

text \<open>
  The guard of a slug is shared by all its deployments: when one of two concurrent deployments
  fails, \<^verbatim>\<open>markDeployDone\<close> drops the entry the other one relies on, and a REMOVE for the slug
  is carried out while that other deployment is still working.
\<close>

theorem failed_deploy_exposes_concurrent_deploy:
  "\<exists>s. admission_reachable 2 s \<and> working_on s 1 ''dep2'' ''web'' \<and> (ad_now s, ''web'') \<in> set (ad_removed s)"
proof -
  have "working_on remove_run 1 ''dep2'' ''web'' \<and> (ad_now remove_run, ''web'') \<in> set (ad_removed remove_run)"
    by (simp add: remove_run_def working_on_def run_simps)
  with remove_run_reachable show ?thesis by blast
qed

end
