(* ===== verification/Docker_Types.thy ===== *)
theory Docker_Types
  imports Prelude Complex_Main
begin

text \<open>
  The data of \<^verbatim>\<open>internal/docker\<close>: \<^verbatim>\<open>types.go\<close>, the metadata records of
  \<^verbatim>\<open>introspect.go\<close>, and the part of the Docker SDK's \<^verbatim>\<open>HealthConfig\<close> the agent fills in.
  Record fields carry a short prefix because Isabelle field names are global.  A nil pointer is
  \<open>None\<close>, a nil slice the empty list (the agent never tells the two apart), durations are
  nanoseconds, a float is the rational it denotes.
\<close>

record HealthcheckMeta =
  hm_Test :: "string list"
  hm_Interval :: string
  hm_Timeout :: string
  hm_Retries :: int

record ImageMeta =
  im_ExposedPorts :: "int list"
  im_Healthcheck :: "HealthcheckMeta option"
  im_Cmd :: "string list"
  im_Entrypoint :: "string list"
  im_Volumes :: "string list"

record DiscoveredPort =
  dp_Port :: int
  dp_Protocol :: string
  dp_Source :: string

record ContainerInspection =
  ci_State :: string
  ci_ExitCode :: int
  ci_OOMKilled :: bool
  ci_IP :: string
  ci_Networks :: "string list"
  ci_Ports :: "DiscoveredPort list"

text \<open>\<^verbatim>\<open>container.HealthConfig\<close> of the SDK.\<close>

record HealthConfig =
  hc_Test :: "string list"
  hc_Interval :: int
  hc_Timeout :: int
  hc_StartPeriod :: int
  hc_Retries :: int

record VolumeMount =
  vm_Name :: string
  vm_MountPath :: string

record RunOpts =
  ro_Image :: string
  ro_Name :: string
  ro_Env :: go_map
  ro_Port :: int
  ro_Labels :: go_map
  ro_Network :: string
  ro_NetworkAlias :: string
  ro_CPULimit :: rat
  ro_MemoryLimitMB :: int
  ro_Command :: "string list"
  ro_Entrypoint :: "string list"
  ro_Volumes :: "VolumeMount list"
  ro_Healthcheck :: "HealthConfig option"

record NetworkInfo =
  ni_ID :: string
  ni_Name :: string

record ContainerInfo =
  cn_ContainerID :: string
  cn_Name :: string
  cn_State :: string
  cn_Image :: string
  cn_Labels :: go_map

record CleanupSection =
  cs_Count :: int
  cs_ReclaimableBytes :: int

record ArtifactOwnership =
  ao_Managed :: bool
  ao_ProspectivelyOwned :: bool
  ao_OwnershipVersion :: string
  ao_ArtifactType :: string
  ao_DeploymentID :: string
  ao_ServiceID :: string
  ao_ServiceSlug :: string
  ao_ProjectID :: string
  ao_RetentionCanaryID :: string

record ImageInventoryItem =
  ii_ID :: string
  ii_RepoTags :: "string list"
  ii_RepoDigests :: "string list"
  ii_SizeBytes :: int
  ii_CreatedUnix :: int
  ii_ContainerIDs :: "string list"
  ii_InUseByRunningContainer :: bool
  ii_Ownership :: ArtifactOwnership

record ContainerInventoryItem =
  ct_ID :: string
  ct_Names :: "string list"
  ct_State :: string
  ct_ImageID :: string
  ct_ImageRef :: string
  ct_SizeRWBytes :: int
  ct_Ownership :: ArtifactOwnership

record DockerArtifactInventory =
  inv_Version :: int
  inv_Complete :: bool
  inv_ImageCount :: int
  inv_ContainerCount :: int
  inv_Images :: "ImageInventoryItem list"
  inv_Containers :: "ContainerInventoryItem list"

record CleanupSummary =
  sm_ProtectedImageRefs :: "string list"
  sm_StoppedContainers :: CleanupSection
  sm_UnusedImages :: CleanupSection
  sm_BuildCache :: CleanupSection
  sm_ReclaimableBytes :: int
  sm_Applied :: bool
  sm_ReclaimedBytesActual :: int
  sm_Inventory :: "DockerArtifactInventory option"

definition no_section :: CleanupSection where
  "no_section = \<lparr>cs_Count = 0, cs_ReclaimableBytes = 0\<rparr>"

end
