(* ===== verification/Go_Utf8.thy ===== *)
theory Go_Utf8
  imports Go_Strings
begin

text \<open>
  UTF-8 as Go's \<^verbatim>\<open>unicode/utf8\<close> and \<^verbatim>\<open>strings.ToValidUTF8\<close> see it, and
  \<^verbatim>\<open>sanitizeUTF8\<close> of \<^verbatim>\<open>internal/agent/handler.go\<close> on top.  Proto3 string fields must be
  valid UTF-8: the marshaller rejects a message that carries anything else, so what these
  functions guarantee decides whether a result can ever reach the control plane.
\<close>

definition byte_in :: "nat \<Rightarrow> nat \<Rightarrow> char \<Rightarrow> bool" where
  "byte_in lo hi c \<longleftrightarrow> lo \<le> (of_char c :: nat) \<and> (of_char c :: nat) \<le> hi"

abbreviation cont_byte :: "char \<Rightarrow> bool" where
  "cont_byte \<equiv> byte_in 128 191"

text \<open>
  Width of the rune a byte string starts with, \<open>0\<close> when it does not start with a well-formed
  one (Go then reports \<^verbatim>\<open>RuneError\<close> with width 1).  The ranges are those of Go's acceptance
  table: overlong forms, surrogates and values above U+10FFFF are rejected.
\<close>

definition rune_width :: "string \<Rightarrow> nat" where
  "rune_width s =
     (case s of
        [] \<Rightarrow> 0
      | a # r \<Rightarrow>
          if byte_in 0 127 a then 1
          else if byte_in 194 223 a then
            (case r of b # _ \<Rightarrow> if cont_byte b then 2 else 0 | [] \<Rightarrow> 0)
          else if byte_in 224 239 a then
            (case r of
               b # c # _ \<Rightarrow>
                 if (if byte_in 224 224 a then byte_in 160 191 b
                     else if byte_in 237 237 a then byte_in 128 159 b else cont_byte b)
                    \<and> cont_byte c then 3 else 0
             | _ \<Rightarrow> 0)
          else if byte_in 240 244 a then
            (case r of
               b # c # d # _ \<Rightarrow>
                 if (if byte_in 240 240 a then byte_in 144 191 b
                     else if byte_in 244 244 a then byte_in 128 143 b else cont_byte b)
                    \<and> cont_byte c \<and> cont_byte d then 4 else 0
             | _ \<Rightarrow> 0)
          else 0)"

text \<open>The width depends only on the bytes of the rune itself.\<close>

lemma rune_width_cases:
  obtains "s = []" | a where "s = [a]" | a b where "s = [a, b]" | a b c where "s = [a, b, c]"
  | a b c d r where "s = a # b # c # d # r"
proof (cases s)
  case (Cons a s1)
  then show ?thesis
  proof (cases s1)
    case (Cons b s2)
    note s1 = this
    then show ?thesis
    proof (cases s2)
      case (Cons c s3)
      then show ?thesis using that s1 \<open>s = a # s1\<close> by (cases s3) auto
    qed (use that s1 \<open>s = a # s1\<close> in auto)
  qed (use that \<open>s = a # s1\<close> in auto)
qed (use that in auto)

lemma rune_width_le: "rune_width s \<le> length s"
  by (cases s rule: rune_width_cases) (simp_all add: rune_width_def)

lemma rune_width_append: "rune_width s \<noteq> 0 \<Longrightarrow> rune_width (s @ t) = rune_width s"
  by (cases s rule: rune_width_cases) (simp_all add: rune_width_def split: if_splits)

lemma rune_width_take_self: "rune_width s \<noteq> 0 \<Longrightarrow> rune_width (take (rune_width s) s) = rune_width s"
  by (cases s rule: rune_width_cases) (simp_all add: rune_width_def split: if_splits)

lemma rune_width_take:
  assumes "rune_width s = w" and "w \<noteq> 0"
  shows "rune_width (take w s @ t) = w"
proof -
  from assms have "rune_width (take w s) = w" using rune_width_take_self [of s] by simp
  with assms(2) rune_width_append [of "take w s" t] show ?thesis by simp
qed

function ValidString :: "string \<Rightarrow> bool" where
  "ValidString s =
     (if s = [] then True
      else if rune_width s = 0 then False
      else ValidString (drop (rune_width s) s))"
  by pat_completeness auto
termination
  by (relation "measure length") auto

declare ValidString.simps [simp del]

lemma ValidString_Nil [simp]: "ValidString []"
  by (subst ValidString.simps) simp

text \<open>
  \<^verbatim>\<open>ToValidUTF8\<close> copies well-formed runes and writes the replacement once per run of bad
  bytes; the flag says that the previous byte was bad.
\<close>

function to_valid_loop :: "string \<Rightarrow> bool \<Rightarrow> string \<Rightarrow> string" where
  "to_valid_loop rep invalid s =
     (if s = [] then []
      else if rune_width s = 0
        then (if invalid then [] else rep) @ to_valid_loop rep True (tl s)
        else take (rune_width s) s @ to_valid_loop rep False (drop (rune_width s) s))"
  by pat_completeness auto
termination
  by (relation "measure (\<lambda>(rep, invalid, s). length s)") auto

declare to_valid_loop.simps [simp del]

definition ToValidUTF8 :: "string \<Rightarrow> string \<Rightarrow> string" where
  "ToValidUTF8 s rep = to_valid_loop rep False s"

text \<open>U+FFFD, the replacement character, in UTF-8.\<close>

definition replacement_char :: string where
  "replacement_char = [char_of (239::nat), char_of (191::nat), char_of (189::nat)]"

definition sanitizeUTF8 :: "string \<Rightarrow> string" where
  "sanitizeUTF8 s = (if ValidString s then s else ToValidUTF8 s replacement_char)"

text \<open>
  The part of \<^verbatim>\<open>sendTerminalProgress\<close> that attaches startup logs: sanitise, then cut to 4096
  bytes.
\<close>

definition attachStartupLogs :: "string \<Rightarrow> string" where
  "attachStartupLogs startup =
     (let logs = sanitizeUTF8 startup in if length logs > 4096 then take 4096 logs else logs)"

subsection \<open>Validity\<close>

lemma ValidString_rune:
  "rune_width s = w \<Longrightarrow> w \<noteq> 0 \<Longrightarrow> ValidString (take w s @ t) = ValidString t"
proof -
  assume w: "rune_width s = w" "w \<noteq> 0"
  then have "w \<le> length s" using rune_width_le [of s] by simp
  with w have "rune_width (take w s @ t) = w" "take w s @ t \<noteq> []" "drop w (take w s @ t) = t"
    by (auto simp: rune_width_take)
  with w(2) show ?thesis by (subst ValidString.simps) simp
qed

lemma ValidString_append: "ValidString s \<Longrightarrow> ValidString (s @ t) = ValidString t"
proof (induction s rule: ValidString.induct)
  case (1 s)
  show ?case
  proof (cases "s = []")
    case False
    with "1.prems" have w: "rune_width s \<noteq> 0" and v: "ValidString (drop (rune_width s) s)"
      by (subst (asm) ValidString.simps, simp split: if_splits)+
    have "s @ t = take (rune_width s) s @ (drop (rune_width s) s @ t)" by simp
    then have "ValidString (s @ t) = ValidString (drop (rune_width s) s @ t)"
      using ValidString_rune [OF refl w] by metis
    with "1.IH" [OF False w v] show ?thesis by simp
  qed simp
qed

lemma replacement_char_width: "rune_width (replacement_char @ t) = 3"
  by (simp add: replacement_char_def rune_width_def byte_in_def)

lemma ValidString_replacement: "ValidString (replacement_char @ t) = ValidString t"
  by (subst ValidString.simps) (simp add: replacement_char_width, simp add: replacement_char_def)

lemma to_valid_loop_valid: "rep = replacement_char \<Longrightarrow> ValidString (to_valid_loop rep bad s)"
proof (induction rep bad s rule: to_valid_loop.induct)
  case (1 rep bad s)
  consider "s = []" | "s \<noteq> []" "rune_width s = 0" | "s \<noteq> []" "rune_width s \<noteq> 0" by blast
  then show ?case
  proof cases
    case 1
    then show ?thesis by (subst to_valid_loop.simps) simp
  next
    case 2
    with "1.IH"(1) "1.prems" have "ValidString (to_valid_loop rep True (tl s))" by simp
    with 2 "1.prems" show ?thesis
      by (subst to_valid_loop.simps) (simp add: ValidString_replacement)
  next
    case 3
    with "1.IH"(2) "1.prems" have "ValidString (to_valid_loop rep False (drop (rune_width s) s))"
      by simp
    with 3 show ?thesis
      by (subst to_valid_loop.simps) (simp add: ValidString_rune [OF refl])
  qed
qed

lemma sanitizeUTF8_valid: "ValidString (sanitizeUTF8 s)"
  by (simp add: sanitizeUTF8_def ToValidUTF8_def to_valid_loop_valid)

lemma sanitizeUTF8_id: "ValidString s \<Longrightarrow> sanitizeUTF8 s = s"
  by (simp add: sanitizeUTF8_def)

text \<open>\<^verbatim>\<open>ToValidUTF8\<close> itself leaves a valid string alone, so the test in \<^verbatim>\<open>sanitizeUTF8\<close> is a fast path.\<close>

lemma to_valid_loop_id: "ValidString s \<Longrightarrow> to_valid_loop rep bad s = s"
proof (induction s arbitrary: bad rule: ValidString.induct)
  case (1 s)
  show ?case
  proof (cases "s = []")
    case True
    then show ?thesis by (subst to_valid_loop.simps) simp
  next
    case False
    with "1.prems" have w: "rune_width s \<noteq> 0" and v: "ValidString (drop (rune_width s) s)"
      by (subst (asm) ValidString.simps, simp split: if_splits)+
    from "1.IH" [OF False w v, of False] False w show ?thesis
      by (subst to_valid_loop.simps) simp
  qed
qed

lemma sanitizeUTF8_is_ToValidUTF8: "sanitizeUTF8 s = ToValidUTF8 s replacement_char"
  by (simp add: sanitizeUTF8_def ToValidUTF8_def to_valid_loop_id)

text \<open>ASCII text is valid, and cutting it anywhere keeps it valid.\<close>

definition is_ascii :: "string \<Rightarrow> bool" where
  "is_ascii s \<longleftrightarrow> list_all (byte_in 0 127) s"

lemma ValidString_ascii_Cons: "byte_in 0 127 c \<Longrightarrow> ValidString (c # s) = ValidString s"
  by (subst ValidString.simps) (simp add: rune_width_def)

lemma ValidString_ascii: "is_ascii s \<Longrightarrow> ValidString s"
  by (induction s) (simp_all add: is_ascii_def ValidString_ascii_Cons)

lemma is_ascii_take: "is_ascii s \<Longrightarrow> is_ascii (take n s)"
  by (auto simp: is_ascii_def list_all_iff dest: in_set_takeD)

lemma ValidString_ascii_append: "is_ascii s \<Longrightarrow> ValidString (s @ t) = ValidString t"
  by (rule ValidString_append) (rule ValidString_ascii)

lemma is_ascii_replicate: "byte_in 0 127 c \<Longrightarrow> is_ascii (replicate n c)"
  by (simp add: is_ascii_def list_all_length)

text \<open>
  A two-byte rune cut in half is not valid any more: the case the 4096-byte limit runs into.
\<close>

lemma ValidString_cut_rune: "\<not> ValidString [char_of (195::nat)]"
  by (subst ValidString.simps) (simp add: rune_width_def byte_in_def)

lemma ValidString_e_acute: "ValidString [char_of (195::nat), char_of (169::nat)]"
  by (subst ValidString.simps) (simp add: rune_width_def byte_in_def)

end
