(* ===== verification/Progress_Messages.thy ===== *)
theory Progress_Messages
  imports Docker_Types Go_Utf8
begin

text \<open>
  The deploy progress messages of \<^verbatim>\<open>internal/agent/handler.go\<close>: the protobuf messages the
  agent fills in, the result of a deploy they are built from (\<^verbatim>\<open>DeployResult\<close>,
  \<^verbatim>\<open>internal/deploy/deployer.go\<close>), \<^verbatim>\<open>buildIntrospectionProto\<close> and the two message
  constructors inside \<^verbatim>\<open>HandleDeploy\<close>.
\<close>

text \<open>Conversion to \<^verbatim>\<open>int32\<close> keeps the low 32 bits.\<close>

definition int32 :: "int \<Rightarrow> int" where
  "int32 x = (x + 2 ^ 31) mod 2 ^ 32 - 2 ^ 31"

record DeployResult =
  dr_ImageMeta :: "ImageMeta option"
  dr_Inspection :: "ContainerInspection option"
  dr_StartupLogs :: string
  dr_Ports :: "DiscoveredPort list"
  dr_EffectivePort :: int
  dr_IsHTTP :: bool
  dr_ImageDigest :: string

definition zero_DeployResult :: DeployResult where
  "zero_DeployResult = \<lparr>dr_ImageMeta = None, dr_Inspection = None, dr_StartupLogs = [], dr_Ports = [],
     dr_EffectivePort = 0, dr_IsHTTP = False, dr_ImageDigest = []\<rparr>"

record ContainerIntrospection =
  in_DiscoveredPorts :: "DiscoveredPort list"
  in_ContainerIp :: string
  in_Networks :: "string list"
  in_ExitCode :: int
  in_OomKilled :: bool
  in_ImageExposePorts :: "int list"
  in_ImageCmd :: "string list"
  in_ImageEntrypoint :: "string list"
  in_HasImageHealthcheck :: bool
  in_ImageVolumes :: "string list"

record DeployProgress =
  pr_DeploymentId :: string
  pr_Status :: string
  pr_Message :: string
  pr_ContainerId :: string
  pr_ContainerName :: string
  pr_ImageTag :: string
  pr_GitSha :: string
  pr_StartupLogs :: string
  pr_Introspection :: "ContainerIntrospection option"
  pr_EffectivePort :: int
  pr_ImageDigest :: string
  pr_DetailsJson :: string

definition buildIntrospectionProto :: "DeployResult option \<Rightarrow> ContainerIntrospection option" where
  "buildIntrospectionProto result = (case result of None \<Rightarrow> None | Some r \<Rightarrow>
     let intro = \<lparr>in_DiscoveredPorts =
             map (\<lambda>p. \<lparr>dp_Port = int32 (dp_Port p), dp_Protocol = dp_Protocol p, dp_Source = dp_Source p\<rparr>)
               (dr_Ports r),
           in_ContainerIp = [], in_Networks = [], in_ExitCode = 0, in_OomKilled = False,
           in_ImageExposePorts = [], in_ImageCmd = [], in_ImageEntrypoint = [],
           in_HasImageHealthcheck = False, in_ImageVolumes = []\<rparr>;
         intro = (case dr_Inspection r of None \<Rightarrow> intro | Some i \<Rightarrow>
             intro\<lparr>in_ContainerIp := ci_IP i, in_Networks := ci_Networks i,
                   in_ExitCode := int32 (ci_ExitCode i), in_OomKilled := ci_OOMKilled i\<rparr>);
         intro = (case dr_ImageMeta r of None \<Rightarrow> intro | Some m \<Rightarrow>
             intro\<lparr>in_ImageExposePorts := map int32 (im_ExposedPorts m), in_ImageCmd := im_Cmd m,
                   in_ImageEntrypoint := im_Entrypoint m,
                   in_HasImageHealthcheck := (im_Healthcheck m \<noteq> None),
                   in_ImageVolumes := im_Volumes m\<rparr>)
     in Some intro)"

text \<open>The message of \<^verbatim>\<open>sendProgress\<close>; \<open>port\<close> is \<^verbatim>\<open>buildEffectivePort\<close>.\<close>

definition progress_message :: "string \<Rightarrow> int \<Rightarrow> string \<Rightarrow> string \<Rightarrow> string \<Rightarrow> string \<Rightarrow> string \<Rightarrow> string \<Rightarrow> DeployProgress" where
  "progress_message deployID port status message containerID containerName imageTag gitSHA =
     \<lparr>pr_DeploymentId = deployID, pr_Status = status, pr_Message = sanitizeUTF8 message,
      pr_ContainerId = containerID, pr_ContainerName = containerName, pr_ImageTag = imageTag,
      pr_GitSha = gitSHA, pr_StartupLogs = [], pr_Introspection = None, pr_EffectivePort = port,
      pr_ImageDigest = [], pr_DetailsJson = []\<rparr>"

text \<open>The message of \<^verbatim>\<open>sendTerminalProgress\<close>.\<close>

definition terminal_message :: "string \<Rightarrow> string \<Rightarrow> string \<Rightarrow> string \<Rightarrow> string \<Rightarrow> string \<Rightarrow> string
    \<Rightarrow> DeployResult option \<Rightarrow> string \<Rightarrow> DeployProgress" where
  "terminal_message deployID status message containerID containerName imageTag gitSHA result detailsJSON =
     (let dp = progress_message deployID 0 status message containerID containerName imageTag gitSHA;
          dp = (case result of None \<Rightarrow> dp | Some r \<Rightarrow>
            let dp = (if dr_StartupLogs r \<noteq> [] then dp\<lparr>pr_StartupLogs := attachStartupLogs (dr_StartupLogs r)\<rparr> else dp);
                dp = (if dr_EffectivePort r > 0 then dp\<lparr>pr_EffectivePort := int32 (dr_EffectivePort r)\<rparr> else dp);
                dp = (if dr_ImageDigest r \<noteq> [] then dp\<lparr>pr_ImageDigest := dr_ImageDigest r\<rparr> else dp)
            in dp\<lparr>pr_Introspection := buildIntrospectionProto result\<rparr>)
      in if detailsJSON \<noteq> [] then dp\<lparr>pr_DetailsJson := sanitizeUTF8 detailsJSON\<rparr> else dp)"

subsection \<open>What the marshaller checks\<close>

definition introspection_utf8 :: "ContainerIntrospection \<Rightarrow> bool" where
  "introspection_utf8 i \<longleftrightarrow>
     list_all (\<lambda>p. ValidString (dp_Protocol p) \<and> ValidString (dp_Source p)) (in_DiscoveredPorts i) \<and>
     ValidString (in_ContainerIp i) \<and> list_all ValidString (in_Networks i) \<and>
     list_all ValidString (in_ImageCmd i) \<and> list_all ValidString (in_ImageEntrypoint i) \<and>
     list_all ValidString (in_ImageVolumes i)"

definition progress_utf8 :: "DeployProgress \<Rightarrow> bool" where
  "progress_utf8 p \<longleftrightarrow>
     ValidString (pr_DeploymentId p) \<and> ValidString (pr_Status p) \<and> ValidString (pr_Message p) \<and>
     ValidString (pr_ContainerId p) \<and> ValidString (pr_ContainerName p) \<and>
     ValidString (pr_ImageTag p) \<and> ValidString (pr_GitSha p) \<and> ValidString (pr_StartupLogs p) \<and>
     (case pr_Introspection p of None \<Rightarrow> True | Some i \<Rightarrow> introspection_utf8 i) \<and>
     ValidString (pr_ImageDigest p) \<and> ValidString (pr_DetailsJson p)"

lemma int32_range: "- (2 ^ 31) \<le> int32 x \<and> int32 x < 2 ^ 31"
  by (simp add: int32_def)

lemma int32_id: "- (2 ^ 31) \<le> x \<Longrightarrow> x < 2 ^ 31 \<Longrightarrow> int32 x = x"
  by (simp add: int32_def)

text \<open>
  A plain progress message is acceptable to the marshaller whatever text the failed step
  produced, as soon as the identifiers it carries are.
\<close>

theorem progress_message_marshals:
  assumes "ValidString deployID" "ValidString status" "ValidString cid" "ValidString cname"
    "ValidString tag" "ValidString sha"
  shows "progress_utf8 (progress_message deployID port status message cid cname tag sha)"
  using assms by (simp add: progress_utf8_def progress_message_def sanitizeUTF8_valid)

lemma progress_message_marshals_witness:
  "progress_utf8 (progress_message ''d1'' 0 ''failed'' [char_of (255::nat)] [] [] ''img'' [])"
  by (rule progress_message_marshals) (simp_all add: ValidString_ascii is_ascii_def byte_in_def)

text \<open>A cut at 4096 bytes can fall inside a rune.\<close>

definition cut_log :: string where
  "cut_log = replicate 4095 (CHR ''a'') @ [char_of (195::nat), char_of (169::nat)]"

lemma cut_log_valid: "ValidString cut_log"
  by (simp add: cut_log_def ValidString_ascii_append is_ascii_replicate byte_in_def ValidString_e_acute)

lemma cut_log_attached: "attachStartupLogs cut_log = replicate 4095 (CHR ''a'') @ [char_of (195::nat)]"
  by (simp add: attachStartupLogs_def sanitizeUTF8_id cut_log_valid Let_def)
    (simp add: cut_log_def)

lemma cut_log_not_valid: "\<not> ValidString (attachStartupLogs cut_log)"
  by (simp add: cut_log_attached ValidString_ascii_append is_ascii_replicate byte_in_def ValidString_cut_rune)

lemma cut_log_not_empty: "cut_log \<noteq> []"
  by (simp add: cut_log_def)

text \<open>
  The startup logs attached to a terminal message are cut to 4096 bytes after they were
  sanitised, and the cut can fall inside a rune: a perfectly valid log then makes the whole
  result message unmarshallable.
\<close>

theorem startup_log_cut_breaks_utf8:
  "ValidString cut_log \<and>
   \<not> progress_utf8 (terminal_message deployID status message cid cname tag sha
        (Some (r\<lparr>dr_StartupLogs := cut_log\<rparr>)) details)"
  using cut_log_valid cut_log_not_valid cut_log_not_empty
  by (simp add: progress_utf8_def terminal_message_def Let_def)

subsection \<open>Other results\<close>

text \<open>The results of a backup and of a push, which are queued like those of a deploy when they cannot be sent.\<close>

record BackupResult =
  br_CommandId :: string
  br_BackupId :: string
  br_Success :: bool
  br_ErrorMessage :: string
  br_SizeBytes :: int
  br_Files :: "string list"

record PushImageResult =
  px_DeploymentId :: string
  px_Success :: bool
  px_ErrorMessage :: string
  px_ImageDigest :: string

end
