(* ===== verification/Control_Stream.thy ===== *)
theory Control_Stream
  imports Progress_Messages "HOL-Library.Sublist" "HOL-Library.Multiset"
begin

text \<open>
  Delivery of messages to the control plane: \<^verbatim>\<open>internal/agent/stream_router.go\<close> (which
  connection is live) and the queue of results in \<^verbatim>\<open>handler.go\<close>.

  A stream is named by the number of its connection, standing for the pointer
  \<^verbatim>\<open>*liveStream\<close>.  What gRPC does with a message is a parameter: \<open>wire sid m w\<close> is the error of
  \<^verbatim>\<open>Send\<close>, if any, and the next state of the outside world.  The ghost fields record what became
  of every message.
\<close>

datatype agent_message = DeployProgressMsg DeployProgress | CommandResultMsg string bool string
  | BackupResultMsg BackupResult | PushImageResultMsg PushImageResult

type_synonym 'w wire = "nat \<Rightarrow> agent_message \<Rightarrow> 'w \<Rightarrow> go_error option \<times> 'w"

record 'w link =
  lk_current :: "nat option"
  lk_pending :: "agent_message list"
  lk_world :: 'w
  lk_delivered :: "(nat \<times> agent_message) list"  \<comment> \<open>ghost: sent without an error, latest first\<close>
  lk_poison :: "agent_message list"             \<comment> \<open>ghost: dropped as unmarshallable\<close>
  lk_overflow :: "agent_message list"           \<comment> \<open>ghost: dropped because the queue was full\<close>

definition terminalDeployStatuses :: "string \<Rightarrow> bool" where
  "terminalDeployStatuses s \<longleftrightarrow> s \<in> {''active'', ''failed'', ''build_failed''}"

definition errNoLiveStream :: go_error where
  "errNoLiveStream = ''no live control-plane stream''"

subsection \<open>The stream router\<close>

definition attach :: "nat \<Rightarrow> ('w, 'z) link_scheme \<Rightarrow> ('w, 'z) link_scheme" where
  "attach ls s = s\<lparr>lk_current := Some ls\<rparr>"

definition detach :: "nat \<Rightarrow> ('w, 'z) link_scheme \<Rightarrow> ('w, 'z) link_scheme" where
  "detach ls s = (if lk_current s = Some ls then s\<lparr>lk_current := None\<rparr> else s)"

definition liveStream_Send :: "'w wire \<Rightarrow> nat \<Rightarrow> agent_message \<Rightarrow> ('w, 'z) link_scheme
    \<Rightarrow> go_error option \<times> ('w, 'z) link_scheme" where
  "liveStream_Send wire ls msg s =
     (case wire ls msg (lk_world s) of
        (None, w) \<Rightarrow> (None, s\<lparr>lk_world := w, lk_delivered := (ls, msg) # lk_delivered s\<rparr>)
      | (Some err, w) \<Rightarrow> (Some err, s\<lparr>lk_world := w\<rparr>))"

definition router_send :: "'w wire \<Rightarrow> agent_message \<Rightarrow> ('w, 'z) link_scheme
    \<Rightarrow> go_error option \<times> ('w, 'z) link_scheme" where
  "router_send wire msg s =
     (case lk_current s of
        None \<Rightarrow> (Some errNoLiveStream, s)
      | Some cur \<Rightarrow> liveStream_Send wire cur msg s)"

text \<open>Handlers get the routed stream: \<open>ls\<close> is the connection the command arrived on.\<close>

definition routedStream_Send :: "'w wire \<Rightarrow> nat \<Rightarrow> agent_message \<Rightarrow> ('w, 'z) link_scheme
    \<Rightarrow> go_error option \<times> ('w, 'z) link_scheme" where
  "routedStream_Send wire ls msg s = router_send wire msg s"

subsection \<open>The queue of pending results\<close>

definition queuePendingResult :: "agent_message \<Rightarrow> ('w, 'z) link_scheme \<Rightarrow> ('w, 'z) link_scheme" where
  "queuePendingResult msg s =
     (if length (lk_pending s) < 64 then s\<lparr>lk_pending := lk_pending s @ [msg]\<rparr>
      else s\<lparr>lk_overflow := msg # lk_overflow s\<rparr>)"

text \<open>One turn of the loop in \<^verbatim>\<open>DrainPendingResults\<close>.\<close>

definition drain_one :: "'w wire \<Rightarrow> nat \<Rightarrow> agent_message \<Rightarrow> ('w, 'z) link_scheme \<Rightarrow> ('w, 'z) link_scheme" where
  "drain_one wire ls msg s =
     (case liveStream_Send wire ls msg s of
        (Some err, s) \<Rightarrow>
          if Contains err ''invalid UTF-8'' then s\<lparr>lk_poison := msg # lk_poison s\<rparr>
          else queuePendingResult msg s
      | (None, s) \<Rightarrow> s)"

fun drain_loop :: "'w wire \<Rightarrow> nat \<Rightarrow> agent_message list \<Rightarrow> ('w, 'z) link_scheme \<Rightarrow> ('w, 'z) link_scheme" where
  "drain_loop wire ls [] s = s"
| "drain_loop wire ls (msg # results) s = drain_loop wire ls results (drain_one wire ls msg s)"

definition DrainPendingResults :: "'w wire \<Rightarrow> nat \<Rightarrow> ('w, 'z) link_scheme \<Rightarrow> ('w, 'z) link_scheme" where
  "DrainPendingResults wire ls s = drain_loop wire ls (lk_pending s) (s\<lparr>lk_pending := []\<rparr>)"

text \<open>The common tail of \<^verbatim>\<open>sendProgress\<close> and \<^verbatim>\<open>sendTerminalProgress\<close>.\<close>

definition send_or_queue :: "'w wire \<Rightarrow> nat \<Rightarrow> DeployProgress \<Rightarrow> ('w, 'z) link_scheme \<Rightarrow> ('w, 'z) link_scheme" where
  "send_or_queue wire ls dp s =
     (case routedStream_Send wire ls (DeployProgressMsg dp) s of
        (None, s) \<Rightarrow> s
      | (Some err, s) \<Rightarrow>
          if terminalDeployStatuses (pr_Status dp) then queuePendingResult (DeployProgressMsg dp) s else s)"

text \<open>The end of \<^verbatim>\<open>HandleBackup\<close> and of \<^verbatim>\<open>HandlePushImage\<close>: their results are queued in the same queue.\<close>

definition send_result_or_queue :: "'w wire \<Rightarrow> nat \<Rightarrow> agent_message \<Rightarrow> ('w, 'z) link_scheme \<Rightarrow> ('w, 'z) link_scheme" where
  "send_result_or_queue wire ls msg s =
     (case routedStream_Send wire ls msg s of
        (None, s) \<Rightarrow> s
      | (Some err, s) \<Rightarrow> queuePendingResult msg s)"

subsection \<open>Which stream is live\<close>

datatype conn_event = Attach nat | Detach nat

fun conn_step :: "conn_event \<Rightarrow> ('w, 'z) link_scheme \<Rightarrow> ('w, 'z) link_scheme" where
  "conn_step (Attach ls) s = attach ls s"
| "conn_step (Detach ls) s = detach ls s"

text \<open>The specification: the stream attached last, unless it was detached since.\<close>

fun live_spec :: "nat option \<Rightarrow> conn_event list \<Rightarrow> nat option" where
  "live_spec newest [] = newest"
| "live_spec newest (Attach ls # es) = live_spec (Some ls) es"
| "live_spec newest (Detach ls # es) = live_spec (if newest = Some ls then None else newest) es"

lemma conn_current: "lk_current (fold conn_step es s) = live_spec (lk_current s) es"
proof (induction es arbitrary: s)
  case (Cons e es)
  then show ?case by (cases e) (simp_all add: attach_def detach_def)
qed simp

lemma live_spec_no_detach: "Detach ls \<notin> set es \<Longrightarrow> \<forall>ls'. Attach ls' \<notin> set es \<Longrightarrow> live_spec (Some ls) es = Some ls"
proof (induction es)
  case (Cons e es)
  then show ?case by (cases e) auto
qed simp

lemma live_spec_append: "live_spec newest (es @ fs) = live_spec (live_spec newest es) fs"
proof (induction es arbitrary: newest)
  case (Cons e es)
  then show ?case by (cases e) simp_all
qed simp

text \<open>
  C23. The newest connection stays the live one however late older ones are torn down, and every
  handler sends on it, whichever connection its command arrived on.
\<close>

theorem late_detach_keeps_newest:
  assumes "\<forall>ls'. Attach ls' \<notin> set later" and "Detach ls \<notin> set later"
    and "s' = fold conn_step (earlier @ Attach ls # later) s"
  shows "lk_current s' = Some ls \<and> routedStream_Send wire origin msg s' = liveStream_Send wire ls msg s'"
proof -
  have "lk_current s' = Some ls"
    using live_spec_no_detach [OF assms(2,1)]
    by (simp add: assms(3) conn_current live_spec_append del: fold_append)
  then show ?thesis by (simp add: routedStream_Send_def router_send_def)
qed

subsection \<open>Nothing is lost silently\<close>

lemmas send_simps = liveStream_Send_def router_send_def routedStream_Send_def queuePendingResult_def
  drain_one_def send_or_queue_def send_result_or_queue_def

text \<open>The multiset of messages in each place.\<close>

definition accounted :: "('w, 'z) link_scheme \<Rightarrow> agent_message multiset" where
  "accounted s = mset (map snd (lk_delivered s)) + mset (lk_poison s) + mset (lk_overflow s) + mset (lk_pending s)"

lemma drain_one_accounted: "accounted (drain_one wire ls msg s) = add_mset msg (accounted s)"
  by (auto simp: accounted_def send_simps split: prod.splits option.splits)

lemma drain_loop_accounted: "accounted (drain_loop wire ls results s) = mset results + accounted s"
  by (induction results arbitrary: s) (simp_all add: drain_one_accounted)

lemma drain_one_pending:
  "lk_pending (drain_one wire ls msg s) = lk_pending s \<or> lk_pending (drain_one wire ls msg s) = lk_pending s @ [msg]"
  by (auto simp: send_simps split: prod.splits option.splits)

lemma drain_one_room:
  "length (lk_pending s) < 64 \<Longrightarrow> lk_overflow (drain_one wire ls msg s) = lk_overflow s"
  by (auto simp: send_simps split: prod.splits option.splits)

lemma drain_loop_pending:
  "\<exists>kept. lk_pending (drain_loop wire ls results s) = lk_pending s @ kept \<and> subseq kept results"
proof (induction results arbitrary: s)
  case (Cons msg results)
  obtain kept where k: "lk_pending (drain_loop wire ls results (drain_one wire ls msg s)) =
      lk_pending (drain_one wire ls msg s) @ kept" "subseq kept results"
    using Cons.IH by blast
  from drain_one_pending [of wire ls msg s] show ?case
  proof
    assume "lk_pending (drain_one wire ls msg s) = lk_pending s"
    with k show ?thesis by (intro exI [of _ kept]) (auto intro: list_emb_Cons)
  next
    assume "lk_pending (drain_one wire ls msg s) = lk_pending s @ [msg]"
    with k show ?thesis by (intro exI [of _ "msg # kept"]) simp
  qed
qed simp

lemma drain_loop_no_overflow:
  "length (lk_pending s) + length results \<le> 64 \<Longrightarrow> lk_overflow (drain_loop wire ls results s) = lk_overflow s"
proof (induction results arbitrary: s)
  case (Cons msg results)
  from Cons.prems drain_one_pending [of wire ls msg s]
  have "length (lk_pending (drain_one wire ls msg s)) + length results \<le> 64" by auto
  with Cons.IH Cons.prems show ?case by (simp add: drain_one_room)
qed simp

text \<open>
  Draining on a new connection accounts for every queued result: it is delivered, dropped as
  unmarshallable, or queued again, and the results queued again keep their order.
\<close>

theorem drain_conserves:
  assumes "length (lk_pending s) \<le> 64"
  shows "let t = DrainPendingResults wire ls s in
    accounted t = accounted s \<and> lk_overflow t = lk_overflow s \<and> subseq (lk_pending t) (lk_pending s)"
proof -
  let ?s = "s\<lparr>lk_pending := []\<rparr>" and ?t = "DrainPendingResults wire ls s"
  have "accounted ?t = accounted s"
    by (simp add: DrainPendingResults_def drain_loop_accounted) (simp add: accounted_def)
  moreover have "lk_overflow ?t = lk_overflow s"
    using drain_loop_no_overflow [of ?s "lk_pending s" wire ls] assms by (simp add: DrainPendingResults_def)
  moreover have "subseq (lk_pending ?t) (lk_pending s)"
    using drain_loop_pending [of wire ls "lk_pending s" ?s] by (auto simp: DrainPendingResults_def)
  ultimately show ?thesis by (simp add: Let_def)
qed

subsection \<open>Concurrent drains and reports\<close>

text \<open>
  Handlers report while drains are under way: \<^verbatim>\<open>DrainPendingResults\<close> takes the whole queue in
  one critical section and then works through it, and it is called by every new connection and
  by every heartbeat.  The writers of the queue are the terminal reports of deploys and the results of backups
  and of pushes; a send and the queueing after its error are one step.  A state adds the batches still being
  worked through and, as a ghost, every result that was to be reported.
\<close>

record 'w outbox = "'w link" +
  ob_batches :: "agent_message list list"
  ob_reported :: "agent_message multiset"

inductive outbox_step :: "'w wire \<Rightarrow> 'w outbox \<Rightarrow> 'w outbox \<Rightarrow> bool" for wire :: "'w wire" where
  connect: "outbox_step wire s (attach ls s)"
| disconnect: "outbox_step wire s (detach ls s)"
| report: "terminalDeployStatuses (pr_Status dp) \<Longrightarrow> outbox_step wire s
     ((send_or_queue wire ls dp s)\<lparr>ob_reported := add_mset (DeployProgressMsg dp) (ob_reported s)\<rparr>)"
| backup: "outbox_step wire s
     ((send_result_or_queue wire ls (BackupResultMsg b) s)\<lparr>ob_reported := add_mset (BackupResultMsg b) (ob_reported s)\<rparr>)"
| push: "outbox_step wire s
     ((send_result_or_queue wire ls (PushImageResultMsg p) s)\<lparr>ob_reported := add_mset (PushImageResultMsg p) (ob_reported s)\<rparr>)"
| take_queue: "outbox_step wire s (s\<lparr>lk_pending := [], ob_batches := ob_batches s @ [lk_pending s]\<rparr>)"
| drain: "i < length (ob_batches s) \<Longrightarrow> ob_batches s ! i = msg # rest \<Longrightarrow>
     outbox_step wire s (drain_one wire ls msg (s\<lparr>ob_batches := (ob_batches s)[i := rest]\<rparr>))"

definition outbox_init :: "'w \<Rightarrow> 'w outbox" where
  "outbox_init w = \<lparr>lk_current = None, lk_pending = [], lk_world = w, lk_delivered = [], lk_poison = [],
     lk_overflow = [], ob_batches = [], ob_reported = {#}\<rparr>"

inductive outbox_reachable :: "'w wire \<Rightarrow> 'w \<Rightarrow> 'w outbox \<Rightarrow> bool" for wire :: "'w wire" and w :: 'w where
  start: "outbox_reachable wire w (outbox_init w)"
| step: "outbox_reachable wire w s \<Longrightarrow> outbox_step wire s t \<Longrightarrow> outbox_reachable wire w t"

definition in_batches :: "'w outbox \<Rightarrow> agent_message multiset" where
  "in_batches s = mset (concat (ob_batches s))"

lemma mset_concat_update:
  "i < length xss \<Longrightarrow> xss ! i = x # xs \<Longrightarrow> mset (concat xss) = add_mset x (mset (concat (xss[i := xs])))"
proof (induction xss arbitrary: i)
  case (Cons ys xss)
  then show ?case by (cases i) auto
qed simp

lemma send_or_queue_accounted:
  "terminalDeployStatuses (pr_Status dp) \<Longrightarrow>
   accounted (send_or_queue wire ls dp s) = add_mset (DeployProgressMsg dp) (accounted s)"
  by (auto simp: accounted_def send_simps split: prod.splits option.splits)

lemma send_result_or_queue_accounted:
  "accounted (send_result_or_queue wire ls msg s) = add_mset msg (accounted s)"
  by (auto simp: accounted_def send_simps split: prod.splits option.splits)

lemma send_ops_frame [simp]:
  "ob_batches (drain_one wire ls msg s) = ob_batches s"
  "ob_reported (drain_one wire ls msg s) = ob_reported s"
  "ob_batches (send_or_queue wire ls dp s) = ob_batches s"
  "ob_reported (send_or_queue wire ls dp s) = ob_reported s"
  "ob_batches (send_result_or_queue wire ls msg s) = ob_batches s"
  "ob_reported (send_result_or_queue wire ls msg s) = ob_reported s"
  "ob_batches (attach ls s) = ob_batches s" "ob_reported (attach ls s) = ob_reported s"
  "ob_batches (detach ls s) = ob_batches s" "ob_reported (detach ls s) = ob_reported s"
  by (auto simp: send_simps attach_def detach_def split: prod.splits option.splits)

lemma accounted_frame [simp]:
  "accounted (s\<lparr>ob_batches := b\<rparr>) = accounted s" "accounted (s\<lparr>ob_reported := r\<rparr>) = accounted s"
  "accounted (attach ls s) = accounted s" "accounted (detach ls s) = accounted s"
  by (simp_all add: accounted_def attach_def detach_def)

definition conserved :: "'w outbox \<Rightarrow> bool" where
  "conserved s \<longleftrightarrow> ob_reported s = accounted s + in_batches s"

lemma outbox_step_conserved: "outbox_step wire s t \<Longrightarrow> conserved s \<Longrightarrow> conserved t"
proof (induction rule: outbox_step.induct)
  case (take_queue s)
  then show ?case by (simp add: conserved_def accounted_def in_batches_def)
next
  case (drain i s msg rest ls)
  from mset_concat_update [OF drain.hyps] drain.prems show ?case
    by (simp add: conserved_def in_batches_def drain_one_accounted)
qed (simp_all add: conserved_def in_batches_def send_or_queue_accounted send_result_or_queue_accounted)

lemma reachable_conserved: "outbox_reachable wire w s \<Longrightarrow> conserved s"
proof (induction rule: outbox_reachable.induct)
  case start
  show ?case by (simp add: conserved_def outbox_init_def accounted_def in_batches_def)
qed (rule outbox_step_conserved)

text \<open>The queue only overflows when 64 other messages are in it.\<close>

definition room_inv :: "'w outbox \<Rightarrow> bool" where
  "room_inv s \<longleftrightarrow> (size (ob_reported s) \<le> 64 \<longrightarrow> lk_overflow s = [])"

lemma send_or_queue_room:
  "length (lk_pending s) < 64 \<Longrightarrow> lk_overflow (send_or_queue wire ls dp s) = lk_overflow s"
  by (auto simp: send_simps split: prod.splits option.splits)

lemma send_result_or_queue_room:
  "length (lk_pending s) < 64 \<Longrightarrow> lk_overflow (send_result_or_queue wire ls msg s) = lk_overflow s"
  by (auto simp: send_simps split: prod.splits option.splits)

lemma conserved_pending: "conserved s \<Longrightarrow> length (lk_pending s) + size (in_batches s) \<le> size (ob_reported s)"
  by (simp add: conserved_def accounted_def)

lemma result_room:
  assumes "conserved s" "room_inv s"
  shows "room_inv ((send_result_or_queue wire ls msg s)\<lparr>ob_reported := add_mset m (ob_reported s)\<rparr>)"
proof -
  have "lk_overflow (send_result_or_queue wire ls msg s) = []" if "size (ob_reported s) < 64"
  proof -
    have "length (lk_pending s) < 64" using conserved_pending [OF assms(1)] that by linarith
    then have "lk_overflow (send_result_or_queue wire ls msg s) = lk_overflow s" by (rule send_result_or_queue_room)
    also have "\<dots> = []" using assms(2) that by (simp add: room_inv_def)
    finally show ?thesis .
  qed
  then show ?thesis by (simp add: room_inv_def)
qed

lemma outbox_step_room: "outbox_step wire s t \<Longrightarrow> conserved s \<Longrightarrow> room_inv s \<Longrightarrow> room_inv t"
proof (induction rule: outbox_step.induct)
  case (report dp s ls)
  have "lk_overflow (send_or_queue wire ls dp s) = []" if "size (ob_reported s) < 64"
  proof -
    have "length (lk_pending s) < 64" using conserved_pending [OF report.prems(1)] that by linarith
    then have "lk_overflow (send_or_queue wire ls dp s) = lk_overflow s" by (rule send_or_queue_room)
    also have "\<dots> = []" using report.prems(2) that by (simp add: room_inv_def)
    finally show ?thesis .
  qed
  then show ?case by (simp add: room_inv_def)
next
  case (drain i s msg rest ls)
  let ?s = "s\<lparr>ob_batches := (ob_batches s)[i := rest]\<rparr>"
  have "lk_overflow (drain_one wire ls msg ?s) = []" if "size (ob_reported s) \<le> 64"
  proof -
    from mset_concat_update [OF drain.hyps] have "0 < size (in_batches s)" by (simp add: in_batches_def)
    with conserved_pending [OF drain.prems(1)] that have "length (lk_pending ?s) < 64" by simp
    then have "lk_overflow (drain_one wire ls msg ?s) = lk_overflow ?s" by (rule drain_one_room)
    also have "\<dots> = []" using drain.prems(2) that by (simp add: room_inv_def)
    finally show ?thesis .
  qed
  then show ?case by (simp add: room_inv_def)
qed (simp_all add: room_inv_def attach_def detach_def, simp_all add: result_room [unfolded room_inv_def, simplified])

lemma reachable_room: "outbox_reachable wire w s \<Longrightarrow> room_inv s"
proof (induction rule: outbox_reachable.induct)
  case start
  show ?case by (simp add: room_inv_def outbox_init_def)
next
  case (step s t)
  show ?case
    by (rule outbox_step_room [OF step.hyps(2) reachable_conserved [OF step.hyps(1)] step.IH])
qed

text \<open>
  C8. However reports of deploys, backups and pushes, reconnections and drains interleave, no
  result is duplicated or forgotten: each terminal deploy result and each backup or push result
  is sent without an error exactly once, still queued, in a batch being drained, dropped as
  unmarshallable, or dropped because 64 others were waiting; and the last case never arises while at
  most 64 results have been reported.
\<close>

theorem terminal_results_conserved:
  assumes "outbox_reachable wire w s"
  shows "ob_reported s = accounted s + in_batches s \<and> (size (ob_reported s) \<le> 64 \<longrightarrow> lk_overflow s = [])"
  using reachable_conserved [OF assms] reachable_room [OF assms] by (simp add: conserved_def room_inv_def)

subsection \<open>A result that can never be delivered\<close>

text \<open>
  What the code relies on of gRPC: a message with an invalid string is refused, with an error
  that says so.
\<close>

definition message_utf8 :: "agent_message \<Rightarrow> bool" where
  "message_utf8 m = (case m of DeployProgressMsg dp \<Rightarrow> progress_utf8 dp
     | CommandResultMsg i ok out \<Rightarrow> ValidString i \<and> ValidString out
     | BackupResultMsg b \<Rightarrow> list_all ValidString ([br_CommandId b, br_BackupId b, br_ErrorMessage b] @ br_Files b)
     | PushImageResultMsg p \<Rightarrow> list_all ValidString [px_DeploymentId p, px_ErrorMessage p, px_ImageDigest p])"

definition checks_utf8 :: "'w wire \<Rightarrow> bool" where
  "checks_utf8 wire \<longleftrightarrow> (\<forall>ls m w. \<not> message_utf8 m \<longrightarrow>
     (\<exists>err. fst (wire ls m w) = Some err \<and> Contains err ''invalid UTF-8''))"

lemma send_invalid:
  assumes "checks_utf8 wire" and "\<not> message_utf8 m"
  obtains err w where "liveStream_Send wire ls m s = (Some err, s\<lparr>lk_world := w\<rparr>)" "Contains err ''invalid UTF-8''"
proof -
  from assms(1) [unfolded checks_utf8_def] assms(2) obtain err where
    "fst (wire ls m (lk_world s)) = Some err" "Contains err ''invalid UTF-8''" by blast
  then show thesis using that by (cases "wire ls m (lk_world s)") (auto simp: liveStream_Send_def)
qed

text \<open>
  A failed deploy whose startup logs are cut inside a rune is never reported: the send fails,
  the message is queued, and the next drain throws it away.
\<close>

theorem cut_logs_lose_result:
  assumes "checks_utf8 wire"
    and "dp = terminal_message d ''failed'' msg cid cname tag sha (Some (r\<lparr>dr_StartupLogs := cut_log\<rparr>)) details"
    and "lk_current s = Some ls" and "lk_pending s = []"
  shows "let t = DrainPendingResults wire ls' (send_or_queue wire ls dp s) in
    lk_delivered t = lk_delivered s \<and> lk_pending t = [] \<and> lk_poison t = DeployProgressMsg dp # lk_poison s"
proof -
  let ?m = "DeployProgressMsg dp"
  have "\<not> ValidString (pr_StartupLogs dp)"
    using cut_log_not_valid cut_log_not_empty by (simp add: assms(2) terminal_message_def Let_def)
  then have bad: "\<not> message_utf8 ?m" by (simp add: message_utf8_def progress_utf8_def)
  have st: "terminalDeployStatuses (pr_Status dp)"
    by (simp add: assms(2) terminal_message_def progress_message_def terminalDeployStatuses_def Let_def)
  obtain err w where "liveStream_Send wire ls ?m s = (Some err, s\<lparr>lk_world := w\<rparr>)"
    by (rule send_invalid [OF assms(1) bad])
  with st assms(3,4) have q: "send_or_queue wire ls dp s = s\<lparr>lk_world := w, lk_pending := [?m]\<rparr>"
    by (simp add: send_or_queue_def routedStream_Send_def router_send_def queuePendingResult_def)
  obtain err' w' where
    "liveStream_Send wire ls' ?m (s\<lparr>lk_world := w, lk_pending := []\<rparr>) =
       (Some err', s\<lparr>lk_world := w, lk_pending := []\<rparr>\<lparr>lk_world := w'\<rparr>)" "Contains err' ''invalid UTF-8''"
    by (rule send_invalid [OF assms(1) bad])
  then show ?thesis by (simp add: q DrainPendingResults_def drain_one_def)
qed

subsection \<open>Witnesses\<close>

definition proto_wire :: "unit wire" where
  "proto_wire ls m w = (if message_utf8 m then None else Some ''string field contains invalid UTF-8'', ())"

definition down_wire :: "unit wire" where
  "down_wire ls m w = (Some ''transport is closing'', ())"

definition link0 :: "unit link" where
  "link0 = \<lparr>lk_current = Some 7, lk_pending = [], lk_world = (), lk_delivered = [], lk_poison = [], lk_overflow = []\<rparr>"

lemma proto_wire_checks: "checks_utf8 proto_wire"
  by (simp add: checks_utf8_def proto_wire_def)

lemma late_detach_keeps_newest_witness:
  "lk_current (fold conn_step ([Attach 1] @ Attach 2 # [Detach 1]) link0) = Some 2"
  using late_detach_keeps_newest [OF _ _ refl, of "[Detach 1]" 2 "[Attach 1]" link0 proto_wire 1 "CommandResultMsg [] True []"]
  by simp

definition waiting_result :: agent_message where
  "waiting_result = DeployProgressMsg (progress_message ''d1'' 0 ''active'' ''ok'' [] [] [] [])"

lemma drain_conserves_witness:
  "accounted (DrainPendingResults down_wire 7 (link0\<lparr>lk_pending := [waiting_result]\<rparr>)) = {#waiting_result#}"
proof -
  let ?s = "link0\<lparr>lk_pending := [waiting_result]\<rparr>"
  have "length (lk_pending ?s) \<le> 64" by simp
  from drain_conserves [OF this, of down_wire 7]
  have "accounted (DrainPendingResults down_wire 7 ?s) = accounted ?s" by (simp add: Let_def)
  also have "\<dots> = {#waiting_result#}" by (simp add: accounted_def link0_def)
  finally show ?thesis .
qed

lemma terminal_results_conserved_witness:
  "\<exists>s. outbox_reachable down_wire () s \<and> lk_pending s \<noteq> [] \<and> ob_reported s = accounted s + in_batches s"
proof -
  let ?dp = "progress_message ''d1'' 0 ''active'' ''ok'' [] [] [] []"
  let ?s = "(send_or_queue down_wire 7 ?dp (outbox_init ()))
     \<lparr>ob_reported := add_mset (DeployProgressMsg ?dp) (ob_reported (outbox_init ()))\<rparr>"
  have "terminalDeployStatuses (pr_Status ?dp)" by (simp add: progress_message_def terminalDeployStatuses_def)
  then have r: "outbox_reachable down_wire () ?s"
    by (intro outbox_reachable.step [OF outbox_reachable.start] outbox_step.report)
  have "lk_pending ?s \<noteq> []"
    by (simp add: send_simps outbox_init_def progress_message_def terminalDeployStatuses_def)
  with r terminal_results_conserved [OF r] show ?thesis by blast
qed

lemma cut_logs_lose_result_witness:
  "lk_pending (DrainPendingResults proto_wire 8 (send_or_queue proto_wire 7
     (terminal_message ''d1'' ''failed'' ''boom'' [] [] [] [] (Some (zero_DeployResult\<lparr>dr_StartupLogs := cut_log\<rparr>)) []) link0)) = []"
  using cut_logs_lose_result [OF proto_wire_checks refl, of link0 7 8 "''d1''" "''boom''" "[]" "[]" "[]" "[]" zero_DeployResult "[]"]
  by (simp add: Let_def link0_def)

end
