(* ===== verification/Log_Frames.thy ===== *)
theory Log_Frames
  imports Docker_Types Go_Utf8
begin

text \<open>
  Startup logs (\<^verbatim>\<open>internal/docker/introspect.go\<close>).  Docker multiplexes stdout and stderr into
  frames of an 8-byte header (stream type, three zero bytes, big-endian payload size) and a
  payload; \<^verbatim>\<open>stripDockerStreamHeaders\<close> removes the headers and \<^verbatim>\<open>GetStartupLogs\<close> bounds,
  trims and sanitises what is left.
\<close>

definition maxStartupLogBytes :: nat where "maxStartupLogBytes = 32 * 1024"

definition byte_at :: "string \<Rightarrow> nat \<Rightarrow> nat" where
  "byte_at s i = of_char (s ! i)"

definition frame_size :: "string \<Rightarrow> nat" where
  "frame_size data = byte_at data 4 * 2 ^ 24 + byte_at data 5 * 2 ^ 16 + byte_at data 6 * 2 ^ 8 + byte_at data 7"

text \<open>The loop: what was written to the buffer, and the bytes left when fewer than 8 remain.\<close>

function strip_loop :: "string \<Rightarrow> string \<Rightarrow> string \<times> string" where
  "strip_loop buf data =
     (if 8 \<le> length data then
        let n = frame_size data; rest = drop 8 data in
        if n \<le> 0 then strip_loop buf rest
        else let m = (if n > length rest then length rest else n) in
             strip_loop (buf @ take m rest) (drop m rest)
      else (buf, data))"
  by pat_completeness auto
termination
  by (relation "measure (\<lambda>(buf, data). length data)") (auto simp: Let_def)

declare strip_loop.simps [simp del]

definition stripDockerStreamHeaders :: "string \<Rightarrow> string" where
  "stripDockerStreamHeaders raw =
     (let (buf, data) = strip_loop [] raw in
      if length buf = 0 \<and> length data > 0 then data else buf)"

text \<open>
  \<open>logs lines\<close> is the answer of the daemon: an error, or the stream's bytes and whether reading
  them fails.
\<close>

definition GetStartupLogs :: "(string \<Rightarrow> (string \<times> go_error option) result) \<Rightarrow> int \<Rightarrow> string result" where
  "GetStartupLogs ContainerLogs lines =
     (let lines = (if lines \<le> 0 then 100 else lines) in
      case ContainerLogs (show_int lines) of
        Inl err \<Rightarrow> Inl (''getting container logs: '' @ err)
      | Inr (body, Some err) \<Rightarrow> Inl (''reading container logs: '' @ err)
      | Inr (body, None) \<Rightarrow>
          let raw = take (maxStartupLogBytes + 8 * nat lines) body;
              cleaned = stripDockerStreamHeaders raw;
              cleaned = (if length cleaned > maxStartupLogBytes then take maxStartupLogBytes cleaned else cleaned);
              logs = TrimSpace cleaned
          in Inr (if \<not> ValidString logs then ToValidUTF8 logs replacement_char else logs))"

subsection \<open>Frames\<close>

text \<open>What the daemon writes for a payload on stream \<open>k\<close> (1 stdout, 2 stderr).\<close>

definition encode_frame :: "nat \<times> string \<Rightarrow> string" where
  "encode_frame f = (case f of (k, p) \<Rightarrow>
     [char_of k, char_of (0::nat), char_of (0::nat), char_of (0::nat),
      char_of (length p div 2 ^ 24), char_of (length p div 2 ^ 16), char_of (length p div 2 ^ 8), char_of (length p)] @ p)"

definition encode_frames :: "(nat \<times> string) list \<Rightarrow> string" where
  "encode_frames fs = concat (map encode_frame fs)"

lemma big_endian_sum:
  fixes n :: nat
  assumes "n < 4294967296"
  shows "n div 16777216 mod 256 * 16777216 + n div 65536 mod 256 * 65536 + n div 256 mod 256 * 256 + n mod 256 = n"
proof -
  have d: "n div 65536 = n div 256 div 256" "n div 16777216 = n div 256 div 256 div 256"
    by (simp_all add: div_mult2_eq [symmetric])
  from assms have c: "n div 256 div 256 div 256 mod 256 = n div 256 div 256 div 256" by simp
  have "n div 256 * 256 + n mod 256 = n"
    "n div 256 div 256 * 256 + n div 256 mod 256 = n div 256"
    "n div 256 div 256 div 256 * 256 + n div 256 div 256 mod 256 = n div 256 div 256"
    by (rule div_mult_mod_eq)+
  then show ?thesis unfolding d c by linarith
qed

lemma header_bytes:
  "byte_at (encode_frame (k, p) @ t) 4 = length p div 16777216 mod 256"
  "byte_at (encode_frame (k, p) @ t) 5 = length p div 65536 mod 256"
  "byte_at (encode_frame (k, p) @ t) 6 = length p div 256 mod 256"
  "byte_at (encode_frame (k, p) @ t) 7 = length p mod 256"
  by (simp_all add: byte_at_def encode_frame_def)

lemma frame_size_encode:
  assumes "length p < 2 ^ 32"
  shows "frame_size (encode_frame (k, p) @ t) = length p"
proof -
  from assms have "length p < 4294967296" by simp
  note sum = big_endian_sum [OF this]
  have "frame_size s = byte_at s 4 * 16777216 + byte_at s 5 * 65536 + byte_at s 6 * 256 + byte_at s 7" for s
    by (simp add: frame_size_def)
  from this [of "encode_frame (k, p) @ t"] show ?thesis unfolding header_bytes using sum by (rule trans)
qed

lemma length_encode_frame: "length (encode_frame (k, p)) = 8 + length p"
  by (simp add: encode_frame_def)

lemma drop_encode_frame: "drop 8 (encode_frame (k, p) @ t) = p @ t"
  by (simp add: encode_frame_def)

lemma strip_loop_step:
  assumes "8 \<le> length data"
  shows "strip_loop buf data =
     strip_loop (buf @ take (frame_size data) (drop 8 data)) (drop (frame_size data) (drop 8 data))"
  using assms by (subst strip_loop.simps) (simp add: Let_def del: drop_drop)

lemma strip_loop_frame:
  assumes "length p < 2 ^ 32"
  shows "strip_loop buf (encode_frame (k, p) @ t) = strip_loop (buf @ p) t"
proof -
  have "8 \<le> length (encode_frame (k, p) @ t)" by (simp add: length_encode_frame)
  from strip_loop_step [OF this, of buf] show ?thesis
    unfolding frame_size_encode [OF assms] drop_encode_frame by simp
qed

lemma strip_loop_short: "length data < 8 \<Longrightarrow> strip_loop buf data = (buf, data)"
  by (subst strip_loop.simps) simp

lemma strip_loop_frames:
  "\<forall>f \<in> set fs. length (snd f) < 2 ^ 32 \<Longrightarrow>
   strip_loop buf (encode_frames fs @ t) = strip_loop (buf @ concat (map snd fs)) t"
proof (induction fs arbitrary: buf)
  case (Cons f fs)
  obtain k p where "f = (k, p)" by (cases f)
  with Cons show ?case by (simp add: encode_frames_def strip_loop_frame)
qed (simp add: encode_frames_def)

text \<open>A frame cut short by the read limit still yields only payload bytes.\<close>

lemma frame_size_cut:
  assumes "length p < 2 ^ 32" "8 \<le> n"
  shows "frame_size (take n (encode_frame (k, p) @ t)) = length p"
  using frame_size_encode [OF assms(1), of k t] assms(2)
  by (simp add: frame_size_def byte_at_def del: take_append)

lemma strip_loop_cut:
  assumes "length p < 2 ^ 32" "8 \<le> n" "n < 8 + length p"
  shows "strip_loop buf (take n (encode_frame (k, p) @ t)) = (buf @ take (n - 8) p, [])"
proof -
  have len: "length (take n (encode_frame (k, p) @ t)) = n"
    using assms by (simp add: length_encode_frame)
  have "drop 8 (take n (encode_frame (k, p) @ t)) = take (n - 8) (drop 8 (encode_frame (k, p) @ t))"
    by (rule drop_take)
  also have "\<dots> = take (n - 8) p" using assms unfolding drop_encode_frame by simp
  finally have d: "drop 8 (take n (encode_frame (k, p) @ t)) = take (n - 8) p" .
  from len assms(2) have "8 \<le> length (take n (encode_frame (k, p) @ t))" by simp
  from strip_loop_step [OF this, of buf] show ?thesis
    unfolding frame_size_cut [OF assms(1,2)] d using assms(3) by (simp add: strip_loop_short)
qed

lemma strip_loop_take:
  "\<forall>f \<in> set fs. length (snd f) < 2 ^ 32 \<Longrightarrow>
   \<exists>m. fst (strip_loop buf (take n (encode_frames fs))) = buf @ take m (concat (map snd fs))"
proof (induction fs arbitrary: buf n)
  case Nil
  show ?case by (simp add: encode_frames_def strip_loop_short)
next
  case (Cons f fs)
  obtain k p where f: "f = (k, p)" by (cases f)
  from Cons.prems f have p: "length p < 2 ^ 32" by simp
  have enc: "encode_frames (f # fs) = encode_frame (k, p) @ encode_frames fs"
    by (simp add: encode_frames_def f)
  consider "n < 8" | "8 \<le> n" "n < 8 + length p" | "8 + length p \<le> n" by linarith
  then show ?case
  proof cases
    case 1
    then show ?thesis by (intro exI [of _ 0]) (simp add: strip_loop_short)
  next
    case 2
    have "take (n - 8) (concat (map snd (f # fs))) = take (n - 8) p" using 2 by (simp add: f)
    with strip_loop_cut [OF p 2, of buf k "encode_frames fs"] show ?thesis
      by (intro exI [of _ "n - 8"]) (simp add: enc)
  next
    case 3
    then have "take n (encode_frames (f # fs)) = encode_frame (k, p) @ take (n - (8 + length p)) (encode_frames fs)"
      by (simp add: enc length_encode_frame)
    then have s: "strip_loop buf (take n (encode_frames (f # fs))) =
        strip_loop (buf @ p) (take (n - (8 + length p)) (encode_frames fs))"
      by (simp add: strip_loop_frame [OF p])
    from Cons.prems Cons.IH [of "buf @ p" "n - (8 + length p)"] obtain m where
      "fst (strip_loop (buf @ p) (take (n - (8 + length p)) (encode_frames fs))) =
         (buf @ p) @ take m (concat (map snd fs))" by auto
    with s show ?thesis by (intro exI [of _ "length p + m"]) (simp add: f)
  qed
qed

subsection \<open>Properties\<close>

text \<open>
  Header stripping inverts Docker's framing, for any sequence of frames, empty ones included.
\<close>

theorem strip_encode_frames:
  assumes "\<forall>f \<in> set fs. length (snd f) < 2 ^ 32"
  shows "stripDockerStreamHeaders (encode_frames fs) = concat (map snd fs)"
proof -
  have "strip_loop [] (encode_frames fs) = (concat (map snd fs), [])"
    using strip_loop_frames [OF assms, of "[]" "[]"] by (simp add: strip_loop_short)
  then show ?thesis by (simp add: stripDockerStreamHeaders_def)
qed

lemma strip_encode_frames_witness:
  "stripDockerStreamHeaders (encode_frames [(1, ''hello ''), (2, []), (2, ''world'')]) = ''hello world''"
  using strip_encode_frames [of "[(1, ''hello ''), (2, []), (2, ''world'')]"] by simp

text \<open>
  When the read limit cuts the stream anywhere after the first payload byte, what is left after
  stripping is a prefix of the log text: no header byte ever leaks into it.
\<close>

theorem strip_cut_stream_is_prefix:
  assumes "\<forall>f \<in> set fs. length (snd f) < 2 ^ 32" and "fs = (k, p) # gs" and "p \<noteq> []" and "8 < n"
  shows "\<exists>m. stripDockerStreamHeaders (take n (encode_frames fs)) = take m (concat (map snd fs))"
proof -
  let ?raw = "take n (encode_frames fs)"
  have p: "length p < 2 ^ 32" using assms(1,2) by simp
  have enc: "encode_frames fs = encode_frame (k, p) @ encode_frames gs"
    using assms(2) by (simp add: encode_frames_def)
  have ne: "fst (strip_loop [] ?raw) \<noteq> []"
  proof (cases "n < 8 + length p")
    case True
    with strip_loop_cut [OF p _ True, of "[]" k "encode_frames gs"] assms(3,4) show ?thesis
      by (simp add: enc)
  next
    case False
    then have "?raw = encode_frame (k, p) @ take (n - (8 + length p)) (encode_frames gs)"
      by (simp add: enc length_encode_frame)
    then have "strip_loop [] ?raw = strip_loop p (take (n - (8 + length p)) (encode_frames gs))"
      by (simp add: strip_loop_frame [OF p])
    with strip_loop_take [of gs p "n - (8 + length p)"] assms(1,2,3) show ?thesis by auto
  qed
  from strip_loop_take [OF assms(1), of "[]" n] obtain m where
    "fst (strip_loop [] ?raw) = take m (concat (map snd fs))" by auto
  moreover have "stripDockerStreamHeaders ?raw = fst (strip_loop [] ?raw)"
    using ne by (cases "strip_loop [] ?raw") (simp add: stripDockerStreamHeaders_def)
  ultimately show ?thesis by auto
qed

lemma strip_cut_stream_is_prefix_witness:
  "\<exists>m. stripDockerStreamHeaders (take 20 (encode_frames [(1, ''hello ''), (2, ''world'')])) = take m ''hello world''"
  using strip_cut_stream_is_prefix [of "[(1, ''hello ''), (2, ''world'')]" 1 "''hello ''" "[(2, ''world'')]" 20]
  by simp

lemma length_to_valid_loop:
  "length rep = 3 \<Longrightarrow> length (to_valid_loop rep bad s) \<le> 3 * length s"
proof (induction rep bad s rule: to_valid_loop.induct)
  case (1 rep bad s)
  consider "s = []" | "s \<noteq> []" "rune_width s = 0" | "s \<noteq> []" "rune_width s \<noteq> 0" by blast
  then show ?case
  proof cases
    case 1
    then show ?thesis by (subst to_valid_loop.simps) simp
  next
    case 2
    with "1.IH"(1) "1.prems" have "length (to_valid_loop rep True (tl s)) \<le> 3 * (length s - 1)" by simp
    moreover have "0 < length s" using 2 by simp
    ultimately have "3 + length (to_valid_loop rep True (tl s)) \<le> 3 * length s" by linarith
    then show ?thesis using 2 "1.prems" by (subst to_valid_loop.simps) simp
  next
    case 3
    with "1.IH"(2) "1.prems"
    have "length (to_valid_loop rep False (drop (rune_width s) s)) \<le> 3 * (length s - rune_width s)" by simp
    with 3 rune_width_le [of s] show ?thesis by (subst to_valid_loop.simps) simp
  qed
qed

lemma length_TrimSpace: "length (TrimSpace s) \<le> length s"
proof -
  have "length (dropWhile is_space (rev (dropWhile is_space s))) \<le> length (dropWhile is_space s)"
    using length_dropWhile_le [of is_space "rev (dropWhile is_space s)"] by simp
  also have "\<dots> \<le> length s" by (rule length_dropWhile_le)
  finally show ?thesis by (simp add: TrimSpace_def)
qed

text \<open>
  Whatever the container writes, the startup log is valid UTF-8 (so the protobuf marshaller
  accepts it) and at most three times the 32 KiB cap long.
\<close>

theorem GetStartupLogs_valid_bounded:
  assumes "GetStartupLogs ContainerLogs lines = Inr s"
  shows "ValidString s \<and> length s \<le> 3 * maxStartupLogBytes"
proof -
  from assms obtain raw cleaned where c: "length cleaned \<le> maxStartupLogBytes"
    and s: "s = sanitizeUTF8 (TrimSpace cleaned)"
    by (fastforce simp: GetStartupLogs_def Let_def sanitizeUTF8_def split: sum.splits option.splits if_splits)
  have "length s \<le> 3 * length (TrimSpace cleaned)"
    unfolding s sanitizeUTF8_is_ToValidUTF8 ToValidUTF8_def
    by (rule length_to_valid_loop) (simp add: replacement_char_def)
  with c length_TrimSpace [of cleaned] s show ?thesis by (simp add: sanitizeUTF8_valid)
qed

lemma strip_encode_frames_small:
  "stripDockerStreamHeaders (encode_frames [(1, ''ready '')]) = ''ready ''"
  using strip_loop_frames [of "[(1, ''ready '')]" "[]" "[]"]
  by (simp add: stripDockerStreamHeaders_def strip_loop_short)

lemma GetStartupLogs_valid_bounded_witness:
  "ValidString ''ready'' \<and> length ''ready'' \<le> 3 * maxStartupLogBytes"
proof (rule GetStartupLogs_valid_bounded)
  show "GetStartupLogs (\<lambda>tail. Inr (encode_frames [(1, ''ready '')], None)) 50 = Inr ''ready''"
    using strip_encode_frames_small
    by (simp add: GetStartupLogs_def encode_frames_def encode_frame_def maxStartupLogBytes_def
        TrimSpace_def is_space_def ValidString_ascii is_ascii_def byte_in_def)
qed

end
