(* ===== verification/Disk_Guard.thy ===== *)
theory Disk_Guard
  imports Docker_Types Go_Strings "HOL-Library.Word"
begin

text \<open>
  The disk guard a deploy passes before anything is built or pulled (\<^verbatim>\<open>evaluateDeployDiskGuard\<close>,
  \<^verbatim>\<open>buildDeployDiskGuardResult\<close> and \<^verbatim>\<open>summarizeDiskGuard\<close>, \<^verbatim>\<open>internal/agent/handler.go\<close>).
  Byte counts are 64-bit words: the telemetry is \<^verbatim>\<open>uint64\<close>, the guard reads it as
  \<^verbatim>\<open>int64\<close>, and the subtraction wraps.
\<close>

record DockerRootUsage =
  du_DockerRootDir :: string
  du_TotalBytes :: "64 word"
  du_UsedBytes :: "64 word"
  du_FreeBytes :: "64 word"

definition deployDiskGuardMinFreeBytes :: "64 word" where
  "deployDiskGuardMinFreeBytes = 8589934592"

definition deployDiskGuardReserveBytes :: "64 word" where
  "deployDiskGuardReserveBytes = 4294967296"

text \<open>The values \<^verbatim>\<open>details["reasons"]\<close> can have: \<^verbatim>\<open>[]string\<close>, \<^verbatim>\<open>[]any\<close> (\<open>None\<close> for an
  element that is not a string), or anything else.\<close>

datatype reasons = Strings "string list" | Anys "string option list" | NoReasons

record DiskGuard =
  dg_blocked :: bool
  dg_would_block :: bool
  dg_forced :: bool
  dg_docker_root_dir :: string
  dg_free_bytes :: "64 word"
  dg_total_bytes :: "64 word"
  dg_used_bytes :: "64 word"
  dg_estimated_bytes :: "64 word"
  dg_min_free_bytes :: "64 word"
  dg_reserve_bytes :: "64 word"
  dg_reclaimable_bytes :: int
  dg_cleanup_preview :: CleanupSummary
  dg_reasons :: reasons

definition buildDeployDiskGuardResult :: "DockerRootUsage \<Rightarrow> 64 word \<Rightarrow> CleanupSummary \<Rightarrow> bool \<Rightarrow> DiskGuard" where
  "buildDeployDiskGuardResult usage estimatedBytes preview force =
     (let freeBytes = du_FreeBytes usage;
          reasons = [];
          reasons = (if sint freeBytes < sint deployDiskGuardMinFreeBytes
            then reasons @ [''Docker root free space '' @ show_int (sint freeBytes) @ '' is below minimum ''
                   @ show_int (sint deployDiskGuardMinFreeBytes)]
            else reasons);
          reasons = (if sint estimatedBytes > 0 \<and> sint (freeBytes - estimatedBytes) < sint deployDiskGuardReserveBytes
            then reasons @ [''Estimated image size would leave less than the required reserve (''
                   @ show_int (sint deployDiskGuardReserveBytes) @ '' bytes)'']
            else reasons);
          wouldBlock = (length reasons > 0)
      in \<lparr>dg_blocked = wouldBlock \<and> \<not> force, dg_would_block = wouldBlock, dg_forced = force,
          dg_docker_root_dir = du_DockerRootDir usage, dg_free_bytes = freeBytes,
          dg_total_bytes = du_TotalBytes usage, dg_used_bytes = du_UsedBytes usage,
          dg_estimated_bytes = estimatedBytes, dg_min_free_bytes = deployDiskGuardMinFreeBytes,
          dg_reserve_bytes = deployDiskGuardReserveBytes,
          dg_reclaimable_bytes = sm_ReclaimableBytes preview, dg_cleanup_preview = preview,
          dg_reasons = Strings reasons\<rparr>)"

definition zero_CleanupSummary :: CleanupSummary where
  "zero_CleanupSummary = \<lparr>sm_ProtectedImageRefs = [], sm_StoppedContainers = no_section, sm_UnusedImages = no_section,
     sm_BuildCache = no_section, sm_ReclaimableBytes = 0, sm_Applied = False, sm_ReclaimedBytesActual = 0,
     sm_Inventory = None\<rparr>"

text \<open>The answers of the Docker manager come in as arguments.\<close>

definition evaluateDeployDiskGuard ::
    "DockerRootUsage result \<Rightarrow> 64 word result \<Rightarrow> CleanupSummary result \<Rightarrow> bool \<Rightarrow> DiskGuard result" where
  "evaluateDeployDiskGuard GetDockerRootUsage EstimateImageSize PreviewCleanup force =
     (case GetDockerRootUsage of
        Inl err \<Rightarrow> Inl ''server storage telemetry unavailable''
      | Inr usage \<Rightarrow>
          let estimatedBytes = (case EstimateImageSize of Inl err \<Rightarrow> 0 | Inr n \<Rightarrow> n);
              preview = (case PreviewCleanup of Inl err \<Rightarrow> zero_CleanupSummary | Inr p \<Rightarrow> p)
          in Inr (buildDeployDiskGuardResult usage estimatedBytes preview force))"

fun present_strings :: "string option list \<Rightarrow> string list" where
  "present_strings [] = []"
| "present_strings (Some s # rs) = (if s \<noteq> [] then s # present_strings rs else present_strings rs)"
| "present_strings (None # rs) = present_strings rs"

definition summarizeDiskGuard :: "DiskGuard \<Rightarrow> string" where
  "summarizeDiskGuard details =
     (let summary = ''Deploy blocked by Docker disk guard on '' @ dg_docker_root_dir details in
      case dg_reasons details of
        Strings rs \<Rightarrow> if length rs > 0 then summary @ '': '' @ Join ''; '' rs else summary
      | Anys rs \<Rightarrow>
          let txt = present_strings rs in if length txt > 0 then summary @ '': '' @ Join ''; '' txt else summary
      | NoReasons \<Rightarrow> summary)"

subsection \<open>Properties\<close>

lemma guard_bounds: "sint deployDiskGuardMinFreeBytes = 8589934592" "sint deployDiskGuardReserveBytes = 4294967296"
  by (simp_all add: deployDiskGuardMinFreeBytes_def deployDiskGuardReserveBytes_def)

lemma sint_sub_small:
  fixes a b :: "64 word"
  assumes "0 \<le> sint a" "0 \<le> sint b"
  shows "sint (a - b) = sint a - sint b"
proof -
  have "sint a < 2 ^ 63" "sint b < 2 ^ 63" using sint_lt [of a] sint_lt [of b] by simp_all
  with assms show ?thesis by (simp add: sint_word_ariths signed_take_bit_int_eq_self)
qed

text \<open>
  The guard decides over the integers: for telemetry below 2^63 bytes it blocks exactly the
  unforced deploys with less than 8 GiB free, or whose estimated image would leave less than
  4 GiB; no wrap-around can flip the decision.
\<close>

theorem disk_guard_decision:
  assumes "0 \<le> sint (du_FreeBytes usage)" and "0 \<le> sint est"
  shows "dg_blocked (buildDeployDiskGuardResult usage est preview force) \<longleftrightarrow>
     \<not> force \<and> (sint (du_FreeBytes usage) < 8 * 1024 ^ 3 \<or>
       0 < sint est \<and> sint (du_FreeBytes usage) - sint est < 4 * 1024 ^ 3)"
  using sint_sub_small [OF assms] by (auto simp: buildDeployDiskGuardResult_def guard_bounds Let_def)

lemma disk_guard_decision_witness:
  "dg_blocked (buildDeployDiskGuardResult \<lparr>du_DockerRootDir = ''/var/lib/docker'', du_TotalBytes = 100000000000,
      du_UsedBytes = 90000000000, du_FreeBytes = 10000000000\<rparr> 6000000000 zero_CleanupSummary False)"
  using disk_guard_decision [of "\<lparr>du_DockerRootDir = ''/var/lib/docker'', du_TotalBytes = 100000000000,
      du_UsedBytes = 90000000000, du_FreeBytes = 10000000000\<rparr>" 6000000000 zero_CleanupSummary False]
  by simp

text \<open>
  Without storage telemetry no deploy passes; a missing size estimate or clean-up preview only
  drops the reserve check and the preview.
\<close>

theorem disk_guard_fails_closed:
  "evaluateDeployDiskGuard (Inl e) est preview force = Inl ''server storage telemetry unavailable'' \<and>
   (\<exists>g. evaluateDeployDiskGuard (Inr usage) (Inl e') (Inl e'') force = Inr g \<and>
      dg_reclaimable_bytes g = 0 \<and>
      dg_blocked g = (\<not> force \<and> sint (du_FreeBytes usage) < 8 * 1024 ^ 3))"
  by (auto simp: evaluateDeployDiskGuard_def buildDeployDiskGuardResult_def guard_bounds Let_def zero_CleanupSummary_def)

lemma Contains_append: "Contains s p \<Longrightarrow> Contains (t @ s @ u) p"
  unfolding Contains_iff by (metis append.assoc)

lemma Contains_refl: "Contains s s"
  by (simp add: Contains_iff) (metis append_Nil append_Nil2)

lemma Contains_Join: "r \<in> set rs \<Longrightarrow> Contains (Join sep rs) r"
proof (induction rs)
  case (Cons x xs)
  show ?case
  proof (cases xs)
    case Nil
    with Cons.prems show ?thesis by (simp add: Contains_refl)
  next
    case (Cons y ys)
    have "Contains (x @ sep @ Join sep xs) r"
    proof (cases "r = x")
      case True
      then show ?thesis using Contains_append [OF Contains_refl, of "[]" x] by simp
    next
      case False
      with Cons.prems have "Contains (Join sep xs) r" using Cons.IH by simp
      from Contains_append [OF this, of "x @ sep" "[]"] show ?thesis by simp
    qed
    with Cons show ?thesis by simp
  qed
qed simp

text \<open>
  Every reason for blocking a deploy is in the message the user gets.
\<close>

theorem disk_guard_summary_complete:
  assumes "dg_reasons g = Strings rs" and "r \<in> set rs"
  shows "Contains (summarizeDiskGuard g) r"
proof -
  from assms(2) have "rs \<noteq> []" by auto
  then have "summarizeDiskGuard g =
      (''Deploy blocked by Docker disk guard on '' @ dg_docker_root_dir g @ '': '') @ Join ''; '' rs @ []"
    using assms(1) by (simp add: summarizeDiskGuard_def)
  then show ?thesis using Contains_append [OF Contains_Join [OF assms(2)]] by metis
qed

lemma disk_guard_summary_complete_witness:
  "Contains (summarizeDiskGuard (buildDeployDiskGuardResult \<lparr>du_DockerRootDir = ''/d'', du_TotalBytes = 10,
      du_UsedBytes = 9, du_FreeBytes = 1\<rparr> 0 zero_CleanupSummary False))
    (''Docker root free space '' @ show_int 1 @ '' is below minimum '' @ show_int 8589934592)"
  by (rule disk_guard_summary_complete [where rs = "[''Docker root free space '' @ show_int 1 @ '' is below minimum '' @ show_int 8589934592]"])
    (simp_all add: buildDeployDiskGuardResult_def guard_bounds Let_def)

end
