(* ===== verification/Effects.thy ===== *)
theory Effects
  imports Prelude "HOL-Library.State_Monad"
begin

text \<open>
  Calls into the outside world (the Docker daemon, the network, the clock) with a record of what
  was asked.  A computation runs on a \<open>rig\<close>: the state of the outside world, of an arbitrary type
  \<open>'w\<close>; the clock in nanoseconds; and the list of events so far, oldest first.  An operation of
  the outside world is a function that gives its answer, the time it took and the next world; any
  behaviour of the daemon is one such function, so what is proved for all of them holds for every
  daemon.  \<open>yields\<close> and \<open>emits\<close> are the two judgements the components reason with: what a
  computation returns together with the events it adds, and which events it can add at all.
\<close>

type_synonym ('r, 'w) op = "'w \<Rightarrow> 'r \<times> nat \<times> 'w"

record ('e, 'w) rig =
  rg_world :: 'w
  rg_clock :: int
  rg_trace :: "'e list"

type_synonym ('e, 'w, 'a) rigged = "(('e, 'w) rig, 'a) state"

definition call :: "('r \<Rightarrow> 'e) \<Rightarrow> ('r, 'w) op \<Rightarrow> ('e, 'w, 'r) rigged" where
  "call ev f = State (\<lambda>s. case f (rg_world s) of (r, d, w) \<Rightarrow>
     (r, s\<lparr>rg_world := w, rg_clock := rg_clock s + int d, rg_trace := rg_trace s @ [ev r]\<rparr>))"

text \<open>A wait of at least \<open>d\<close> nanoseconds.\<close>

definition call_wait :: "int \<Rightarrow> ('r \<Rightarrow> 'e) \<Rightarrow> ('r, 'w) op \<Rightarrow> ('e, 'w, 'r) rigged" where
  "call_wait d ev f = State (\<lambda>s. case f (rg_world s) of (r, late, w) \<Rightarrow>
     (r, s\<lparr>rg_world := w, rg_clock := rg_clock s + max 0 d + int late, rg_trace := rg_trace s @ [ev r]\<rparr>))"

definition now :: "('e, 'w, int) rigged" where
  "now = State (\<lambda>s. (rg_clock s, s))"

lemma run_state_return [simp]: "run_state (State_Monad.return x) s = (x, s)"
  by (simp add: State_Monad.return_def)

lemma run_state_bind:
  "run_state (State_Monad.bind m f) s = (case run_state m s of (a, s') \<Rightarrow> run_state (f a) s')"
  by (simp add: State_Monad.bind_def)

lemma run_call: "run_state (call ev f) s = (fst (f (rg_world s)),
    s\<lparr>rg_world := snd (snd (f (rg_world s))), rg_clock := rg_clock s + int (fst (snd (f (rg_world s)))),
      rg_trace := rg_trace s @ [ev (fst (f (rg_world s)))]\<rparr>)"
  by (simp add: call_def split: prod.split)

lemma run_now: "run_state now s = (rg_clock s, s)"
  by (simp add: now_def)

text \<open>Doing something to each element of a list, in order.\<close>

fun each :: "('a \<Rightarrow> ('s, unit) state) \<Rightarrow> 'a list \<Rightarrow> ('s, unit) state" where
  "each f [] = State_Monad.return ()"
| "each f (x # xs) = do { f x; each f xs }"

subsection \<open>What a computation returns and does\<close>

definition yields :: "('a \<Rightarrow> 'e list \<Rightarrow> bool) \<Rightarrow> ('e, 'w, 'a) rigged \<Rightarrow> bool" where
  "yields R m \<longleftrightarrow> (\<forall>s a s'. run_state m s = (a, s') \<longrightarrow>
     (\<exists>evs. rg_trace s' = rg_trace s @ evs \<and> rg_clock s \<le> rg_clock s' \<and> R a evs))"

definition emits :: "('e \<Rightarrow> bool) \<Rightarrow> ('e, 'w, 'a) rigged \<Rightarrow> bool" where
  "emits P m \<longleftrightarrow> yields (\<lambda>a evs. list_all P evs) m"

lemma yieldsD:
  assumes "yields R m" "run_state m s = (a, s')"
  obtains evs where "rg_trace s' = rg_trace s @ evs" "R a evs" "rg_clock s \<le> rg_clock s'"
proof -
  from assms have "\<exists>evs. rg_trace s' = rg_trace s @ evs \<and> rg_clock s \<le> rg_clock s' \<and> R a evs"
    by (simp add: yields_def)
  with that show thesis by blast
qed

lemma yieldsI:
  assumes "\<And>s a s'. run_state m s = (a, s') \<Longrightarrow>
    \<exists>evs. rg_trace s' = rg_trace s @ evs \<and> rg_clock s \<le> rg_clock s' \<and> R a evs"
  shows "yields R m"
  using assms by (simp add: yields_def)

lemma yields_return: "R x [] \<Longrightarrow> yields R (State_Monad.return x)"
  by (rule yieldsI) auto

lemma yields_call: "(\<And>r. R r [ev r]) \<Longrightarrow> yields R (call ev f)"
  by (rule yieldsI) (auto simp: call_def split: prod.splits)

lemma yields_call_range: "(\<And>w. R (fst (f w)) [ev (fst (f w))]) \<Longrightarrow> yields R (call ev f)"
  by (rule yieldsI) (auto simp: call_def split: prod.splits, metis fst_conv)

lemma yields_call_wait: "(\<And>r. R r [ev r]) \<Longrightarrow> yields R (call_wait d ev f)"
  by (rule yieldsI) (auto simp: call_wait_def split: prod.splits)

lemma yields_now: "(\<And>t. R t []) \<Longrightarrow> yields R now"
  by (rule yieldsI) (auto simp: now_def)

lemma yields_bind:
  assumes "yields R m" and "\<And>a evs. R a evs \<Longrightarrow> yields (\<lambda>b evs'. S b (evs @ evs')) (f a)"
  shows "yields S (State_Monad.bind m f)"
proof (rule yieldsI)
  fix s b s'' assume run: "run_state (State_Monad.bind m f) s = (b, s'')"
  obtain a s' where m: "run_state m s = (a, s')" by fastforce
  with run have f: "run_state (f a) s' = (b, s'')" by (simp add: run_state_bind)
  obtain evs where e: "rg_trace s' = rg_trace s @ evs" "R a evs" "rg_clock s \<le> rg_clock s'"
    by (rule yieldsD [OF assms(1) m])
  obtain evs' where "rg_trace s'' = rg_trace s' @ evs'" "S b (evs @ evs')" "rg_clock s' \<le> rg_clock s''"
    by (rule yieldsD [OF assms(2) [OF e(2)] f])
  with e show "\<exists>evs. rg_trace s'' = rg_trace s @ evs \<and> rg_clock s \<le> rg_clock s'' \<and> S b evs" by auto
qed

lemma yields_mono: "yields R m \<Longrightarrow> (\<And>a evs. R a evs \<Longrightarrow> S a evs) \<Longrightarrow> yields S m"
  unfolding yields_def by blast

lemma yields_conj: "yields R m \<Longrightarrow> yields S m \<Longrightarrow> yields (\<lambda>a evs. R a evs \<and> S a evs) m"
  unfolding yields_def by (metis same_append_eq)

lemma emits_return: "emits P (State_Monad.return x)"
  by (simp add: emits_def yields_return)

lemma emits_call: "(\<And>r. P (ev r)) \<Longrightarrow> emits P (call ev f)"
  by (simp add: emits_def yields_call)

lemma emits_call_wait: "(\<And>r. P (ev r)) \<Longrightarrow> emits P (call_wait d ev f)"
  by (simp add: emits_def yields_call_wait)

lemma emits_now: "emits P now"
  by (simp add: emits_def yields_now)

lemma emits_bind:
  assumes "emits P m" and "\<And>a. emits P (f a)"
  shows "emits P (State_Monad.bind m f)"
  unfolding emits_def
proof (rule yields_bind [OF assms(1) [unfolded emits_def]])
  fix a evs assume "list_all P evs"
  then show "yields (\<lambda>b evs'. list_all P (evs @ evs')) (f a)"
    by (intro yields_mono [OF assms(2) [unfolded emits_def]]) simp
qed

lemma emits_mono: "emits P m \<Longrightarrow> (\<And>e. P e \<Longrightarrow> Q e) \<Longrightarrow> emits Q m"
  unfolding emits_def by (erule yields_mono) (auto simp: list_all_iff)

lemma emits_if: "(b \<Longrightarrow> emits P m) \<Longrightarrow> (\<not> b \<Longrightarrow> emits P m') \<Longrightarrow> emits P (if b then m else m')"
  by simp

lemma emits_option:
  "(x = None \<Longrightarrow> emits P m) \<Longrightarrow> (\<And>y. x = Some y \<Longrightarrow> emits P (f y)) \<Longrightarrow>
   emits P (case x of None \<Rightarrow> m | Some y \<Rightarrow> f y)"
  by (simp split: option.split)

lemma emits_sum:
  "(\<And>y. x = Inl y \<Longrightarrow> emits P (f y)) \<Longrightarrow> (\<And>y. x = Inr y \<Longrightarrow> emits P (g y)) \<Longrightarrow>
   emits P (case x of Inl y \<Rightarrow> f y | Inr y \<Rightarrow> g y)"
  by (simp split: sum.split)

lemma emits_prod: "(\<And>a b. x = (a, b) \<Longrightarrow> emits P (f a b)) \<Longrightarrow> emits P (case x of (a, b) \<Rightarrow> f a b)"
  by (cases x) simp

lemma emits_each: "(\<And>x. emits P (f x)) \<Longrightarrow> emits P (each f xs)"
  by (induction xs) (simp_all add: emits_return emits_bind)

lemmas emits_rules = emits_return emits_call emits_call_wait emits_now emits_bind emits_if emits_option
  emits_sum emits_prod emits_each

lemma yields_if: "(b \<Longrightarrow> yields P m) \<Longrightarrow> (\<not> b \<Longrightarrow> yields P m') \<Longrightarrow> yields P (if b then m else m')"
  by simp

lemma yields_option:
  "(x = None \<Longrightarrow> yields P m) \<Longrightarrow> (\<And>y. x = Some y \<Longrightarrow> yields P (f y)) \<Longrightarrow>
   yields P (case x of None \<Rightarrow> m | Some y \<Rightarrow> f y)"
  by (simp split: option.split)

lemma yields_sum:
  "(\<And>y. x = Inl y \<Longrightarrow> yields P (f y)) \<Longrightarrow> (\<And>y. x = Inr y \<Longrightarrow> yields P (g y)) \<Longrightarrow>
   yields P (case x of Inl y \<Rightarrow> f y | Inr y \<Rightarrow> g y)"
  by (simp split: sum.split)

lemma yields_prod: "(\<And>a b. x = (a, b) \<Longrightarrow> yields P (f a b)) \<Longrightarrow> yields P (case x of (a, b) \<Rightarrow> f a b)"
  by (cases x) simp

text \<open>The same judgement between two states, for loops written on explicit states.\<close>

definition extends :: "('e \<Rightarrow> bool) \<Rightarrow> ('e, 'w) rig \<Rightarrow> ('e, 'w) rig \<Rightarrow> bool" where
  "extends P s s' \<longleftrightarrow> (\<exists>evs. rg_trace s' = rg_trace s @ evs \<and> list_all P evs) \<and> rg_clock s \<le> rg_clock s'"

lemma extends_refl: "extends P s s"
  by (simp add: extends_def)

lemma extends_trans: "extends P s t \<Longrightarrow> extends P t u \<Longrightarrow> extends P s u"
  unfolding extends_def by fastforce

lemma emits_extends: "emits P m \<Longrightarrow> run_state m s = (a, s') \<Longrightarrow> extends P s s'"
  unfolding emits_def extends_def by (elim yieldsD) auto

lemma emits_State: "(\<And>s a s'. f s = (a, s') \<Longrightarrow> extends P s s') \<Longrightarrow> emits P (State f)"
  unfolding emits_def by (rule yieldsI) (auto simp: extends_def)

text \<open>A prefix whose events do not matter to the outcome.\<close>

lemma yields_prefix:
  assumes "emits P m" and "\<And>a. yields R (f a)"
    and "\<And>b evs evs'. list_all P evs \<Longrightarrow> R b evs' \<Longrightarrow> R b (evs @ evs')"
  shows "yields R (State_Monad.bind m f)"
proof (rule yields_bind [OF assms(1) [unfolded emits_def]])
  fix a evs assume "list_all P evs"
  then show "yields (\<lambda>b evs'. R b (evs @ evs')) (f a)"
    by (intro yields_mono [OF assms(2)] assms(3))
qed

text \<open>Backward steps: the events done so far go in front of what the rest must do.\<close>

lemma yields_call_then:
  assumes "\<And>r. yields (\<lambda>b evs. S b (ev r # evs)) (f r)"
  shows "yields S (State_Monad.bind (call ev g) f)"
  by (rule yields_bind [OF yields_call [where R = "\<lambda>r evs. evs = [ev r]"]]) (simp_all add: assms)

lemma yields_wait_then:
  assumes "\<And>r. yields (\<lambda>b evs. S b (ev r # evs)) (f r)"
  shows "yields S (State_Monad.bind (call_wait d ev g) f)"
  by (rule yields_bind [OF yields_call_wait [where R = "\<lambda>r evs. evs = [ev r]"]]) (simp_all add: assms)

lemma yields_return_then: "yields S (f x) \<Longrightarrow> yields S (State_Monad.bind (State_Monad.return x) f)"
  by simp

lemmas yields_rules = yields_return yields_if yields_option yields_sum yields_prod
  yields_call_then yields_wait_then yields_return_then

text \<open>A loop body's judgement carries over to the whole trace of a run.\<close>

lemma yields_run:
  "yields R m \<Longrightarrow> run_state m s = (a, s') \<Longrightarrow> \<exists>evs. rg_trace s' = rg_trace s @ evs \<and> R a evs"
  unfolding yields_def by blast

text \<open>A computation with events of its own, run as a part of one whose events are translated from them.\<close>

definition embed :: "('e \<Rightarrow> 'f) \<Rightarrow> ('e, 'w, 'a) rigged \<Rightarrow> ('f, 'w, 'a) rigged" where
  "embed f m = State (\<lambda>s. case run_state m \<lparr>rg_world = rg_world s, rg_clock = rg_clock s, rg_trace = []\<rparr> of
     (a, s') \<Rightarrow> (a, \<lparr>rg_world = rg_world s', rg_clock = rg_clock s', rg_trace = rg_trace s @ map f (rg_trace s')\<rparr>))"

lemma yields_embed:
  assumes "yields R m" "\<And>a evs. R a evs \<Longrightarrow> S a (map f evs)"
  shows "yields S (embed f m)"
proof (rule yieldsI)
  fix s a s'' assume run: "run_state (embed f m) s = (a, s'')"
  obtain b s' where m: "run_state m \<lparr>rg_world = rg_world s, rg_clock = rg_clock s, rg_trace = []\<rparr> = (b, s')" by fastforce
  then obtain evs where "rg_trace s' = evs" "rg_clock s \<le> rg_clock s'" "R b evs"
    using assms(1) [unfolded yields_def, rule_format, OF m] by auto
  with run m assms(2) show "\<exists>evs. rg_trace s'' = rg_trace s @ evs \<and> rg_clock s \<le> rg_clock s'' \<and> S a evs"
    by (auto simp: embed_def)
qed

end
