(* ===== verification/Endpoint_Env.thy ===== *)
theory Endpoint_Env
  imports Progress_Messages
begin

text \<open>
  The pure part of a deploy's preparation (\<^verbatim>\<open>internal/deploy/deployer.go\<close>): the option
  records, the registry of images with special needs (\<^verbatim>\<open>imageHandlers\<close>,
  \<^verbatim>\<open>dbHealthchecks\<close>) and the environment variables injected into the container.
\<close>

record EndpointInfo =
  ep_EndpointID :: string
  ep_Provider :: string
  ep_Hostname :: string
  ep_PathPrefix :: string
  ep_TLSMode :: string

record DeployHealthConfig =
  dh_Path :: string
  dh_TimeoutSeconds :: int
  dh_Retries :: int
  dh_IntervalSeconds :: int
  dh_StartupGraceSeconds :: int

text \<open>The callback \<^verbatim>\<open>OnLog\<close> is always set by the only caller and is left out of the record.\<close>

record DeployOpts =
  op_DeploymentID :: string
  op_ServiceSlug :: string
  op_ImageTag :: string
  op_Env :: go_map
  op_Port :: int
  op_Domains :: "string list"
  op_Endpoints :: "EndpointInfo list"
  op_HealthConfig :: DeployHealthConfig
  op_CPULimit :: rat
  op_MemoryLimitMB :: int
  op_ProjectNetwork :: string
  op_LANIPs :: "string list"
  op_Volumes :: "VolumeMount list"
  op_ContainerCommand :: "string list"
  op_CompanionSlugs :: "string list"
  op_RegistryAuth :: "(string \<times> string) option"

definition sq :: string where "sq = [CHR 0x27]"
definition dq :: string where "dq = [CHR 0x22]"
definition nl :: string where "nl = [CHR 0x0A]"

subsection \<open>Images with special needs\<close>

datatype inject_kind = InjectWordPress | InjectOpenClaw

record imageHandler =
  ih_name :: string
  ih_prefixes :: "string list"
  ih_inject :: inject_kind
  ih_startupRetries :: int
  ih_startupInterval :: int
  ih_minCPU :: rat
  ih_minMemoryMB :: int

definition imageHandlers :: "imageHandler list" where
  "imageHandlers =
    [\<lparr>ih_name = ''wordpress'',
      ih_prefixes = [''wordpress:'', ''library/wordpress:'', ''docker.io/library/wordpress:''],
      ih_inject = InjectWordPress, ih_startupRetries = 0, ih_startupInterval = 0, ih_minCPU = 0, ih_minMemoryMB = 0\<rparr>,
     \<lparr>ih_name = ''openclaw'',
      ih_prefixes = [''alpine/openclaw:'', ''openclaw/openclaw:'', ''ghcr.io/openclaw/openclaw:'', ''coollabsio/openclaw:''],
      ih_inject = InjectOpenClaw, ih_startupRetries = 12, ih_startupInterval = 15, ih_minCPU = 2, ih_minMemoryMB = 4096\<rparr>]"

definition handler_matches :: "string \<Rightarrow> imageHandler \<Rightarrow> bool" where
  "handler_matches tag h \<longleftrightarrow>
     Contains tag (''/clank/templates/'' @ ih_name h @ '':'') \<or> list_ex (HasPrefix tag) (ih_prefixes h)"

definition matchesImageHandler :: "string \<Rightarrow> imageHandler option" where
  "matchesImageHandler imageTag = first_match (handler_matches (ToLower imageTag)) imageHandlers"

record dbHealthcheck =
  db_prefixes :: "string list"
  db_test :: "string list"
  db_interval :: int
  db_timeout :: int
  db_retries :: int
  db_startPeriod :: int

definition seconds :: "int \<Rightarrow> int" where "seconds n = n * 1000000000"

definition mongo_ping :: string where
  \<open>mongo_ping = ''mongosh --eval 'db.runCommand("ping").ok' --quiet || mongo --eval 'db.runCommand("ping").ok' --quiet''\<close>

definition dbHealthchecks :: "dbHealthcheck list" where
  "dbHealthchecks =
    [\<lparr>db_prefixes = [''postgres:'', ''library/postgres:'', ''docker.io/library/postgres:''],
      db_test = [''CMD-SHELL'', ''pg_isready -U ${POSTGRES_USER:-postgres}''],
      db_interval = seconds 3, db_timeout = seconds 3, db_retries = 10, db_startPeriod = seconds 5\<rparr>,
     \<lparr>db_prefixes = [''mysql:'', ''library/mysql:'', ''docker.io/library/mysql:'', ''mariadb:'', ''library/mariadb:'',
        ''docker.io/library/mariadb:''],
      db_test = [''CMD-SHELL'', ''mysqladmin ping -h localhost --silent''],
      db_interval = seconds 3, db_timeout = seconds 3, db_retries = 10, db_startPeriod = seconds 10\<rparr>,
     \<lparr>db_prefixes = [''redis:'', ''library/redis:'', ''docker.io/library/redis:''],
      db_test = [''CMD-SHELL'', ''redis-cli ping | grep -q PONG''],
      db_interval = seconds 2, db_timeout = seconds 2, db_retries = 5, db_startPeriod = seconds 3\<rparr>,
     \<lparr>db_prefixes = [''mongo:'', ''library/mongo:'', ''docker.io/library/mongo:''],
      db_test = [''CMD-SHELL'', mongo_ping],
      db_interval = seconds 3, db_timeout = seconds 3, db_retries = 10, db_startPeriod = seconds 10\<rparr>]"

definition matchDBHealthcheck :: "string \<Rightarrow> dbHealthcheck option" where
  "matchDBHealthcheck imageTag =
     first_match (\<lambda>h. list_ex (HasPrefix (ToLower imageTag)) (db_prefixes h)) dbHealthchecks"

subsection \<open>Environment variables\<close>

definition resolveEndpointURL :: "EndpointInfo \<Rightarrow> string" where
  "resolveEndpointURL ep =
     (if ep_Hostname ep = [] then []
      else (if ep_TLSMode ep \<in> {''lets_encrypt_http01'', ''cloudflare_edge'', ''tailscale_https''}
            then ''https://'' else ''http://'') @ ep_Hostname ep @ ep_PathPrefix ep)"

text \<open>The search loop: an endpoint with a path prefix wins, otherwise the first with a hostname.\<close>

fun best_endpoint :: "EndpointInfo option \<Rightarrow> EndpointInfo list \<Rightarrow> EndpointInfo option" where
  "best_endpoint best [] = best"
| "best_endpoint best (e # es) =
     (if ep_Hostname e = [] then best_endpoint best es
      else let best = (if best = None then Some e else best) in
           if ep_PathPrefix e \<noteq> [] then Some e else best_endpoint best es)"

definition https_on :: string where
  \<open>https_on = nl @ ''$_SERVER['HTTPS'] = 'on';''\<close>

definition buildWordPressConfig :: "string \<Rightarrow> string \<Rightarrow> string" where
  \<open>buildWordPressConfig resolvedURL pathPrefix =
     (if resolvedURL = [] then []
      else if pathPrefix \<noteq> [] then
        let hostURL = TrimSuffix resolvedURL pathPrefix;
            config =
              ''$clank_prefix = '' @ sq @ pathPrefix @ sq @ '';'' @ nl @
              ''$clank_host = '' @ sq @ hostURL @ sq @ '';'' @ nl @
              ''define('WP_HOME', $clank_host . $clank_prefix);'' @ nl @
              ''define('WP_SITEURL', $clank_host . $clank_prefix);'' @ nl @
              ''if (strpos($_SERVER['REQUEST_URI'], $clank_prefix) !== 0) {'' @ nl @
              ''    $_SERVER['REQUEST_URI'] = $clank_prefix . $_SERVER['REQUEST_URI'];'' @ nl @
              ''}'' @ nl @
              ''if (isset($_SERVER['SCRIPT_NAME']) && strpos($_SERVER['SCRIPT_NAME'], $clank_prefix) !== 0) {'' @ nl @
              ''    $_SERVER['SCRIPT_NAME'] = $clank_prefix . $_SERVER['SCRIPT_NAME'];'' @ nl @
              ''}'' @ nl @
              ''if (isset($_SERVER['PHP_SELF']) && strpos($_SERVER['PHP_SELF'], $clank_prefix) !== 0) {'' @ nl @
              ''    $_SERVER['PHP_SELF'] = $clank_prefix . $_SERVER['PHP_SELF'];'' @ nl @
              ''}''
        in if HasPrefix resolvedURL ''https://'' then config @ https_on else config
      else
        let config = ''define('WP_HOME', '' @ sq @ resolvedURL @ sq @ '');'' @ nl @
              ''define('WP_SITEURL', '' @ sq @ resolvedURL @ sq @ '');''
        in if HasPrefix resolvedURL ''https://'' then config @ https_on else config)\<close>

definition injectWordPressEnvVars :: "go_map \<Rightarrow> string \<Rightarrow> string \<Rightarrow> go_map" where
  "injectWordPressEnvVars env resolvedURL pathPrefix =
     (if env ''WORDPRESS_CONFIG_EXTRA'' \<noteq> None then env
      else let wpConfig = buildWordPressConfig resolvedURL pathPrefix in
           if wpConfig \<noteq> [] then env(''WORDPRESS_CONFIG_EXTRA'' \<mapsto> wpConfig) else env)"

definition url_host :: "string \<Rightarrow> string" where
  "url_host resolvedURL =
     (let hostname = TrimPrefix (TrimPrefix resolvedURL ''https://'') ''http://'' in
      case index_byte (CHR ''/'') hostname of
        Some idx \<Rightarrow> if idx > 0 then take idx hostname else hostname
      | None \<Rightarrow> hostname)"

definition openclaw_origins :: "string \<Rightarrow> string list" where
  "openclaw_origins resolvedURL =
     (if resolvedURL \<noteq> [] then [''https://'' @ url_host resolvedURL, ''http://'' @ url_host resolvedURL] else [])"

definition openclaw_config :: "string \<Rightarrow> string" where
  \<open>openclaw_config originsJSON =
     ''{"gateway":{"mode":"local","bind":"lan","trustedProxies":["172.16.0.0/12","192.168.0.0/16","10.0.0.0/8"],"auth":{"mode":"token"},"controlUi":{"allowedOrigins":''
     @ originsJSON @ ''}}}''\<close>

definition openclaw_command :: "string \<Rightarrow> string" where
  \<open>openclaw_command resolvedURL =
     (let origins = openclaw_origins resolvedURL;
          originsJSON = (if length origins > 0
            then ''['' @ Join '','' (map (\<lambda>o'. dq @ o' @ dq) origins) @ '']'' else ''[]'');
          writeConfig = ''mkdir -p ~/.openclaw && printf '%s' '' @ sq @ openclaw_config originsJSON @ sq @
            '' > ~/.openclaw/openclaw.json''
      in writeConfig @ '' && exec node dist/index.js gateway --allow-unconfigured --auth token'')\<close>

text \<open>\<open>token\<close> is what \<^verbatim>\<open>generateHexToken\<close> draws.\<close>

definition injectOpenClawEnvVars :: "string \<Rightarrow> go_map \<Rightarrow> string \<Rightarrow> string \<Rightarrow> go_map" where
  "injectOpenClawEnvVars token env resolvedURL pathPrefix =
     (let env = put_if_absent ''OPENCLAW_GATEWAY_TOKEN'' token env;
          env = put_if_absent ''NODE_OPTIONS'' ''--max-old-space-size=3584'' env
      in put_if_absent ''CLANK_CONTAINER_CMD'' (openclaw_command resolvedURL) env)"

definition run_inject :: "inject_kind \<Rightarrow> string \<Rightarrow> go_map \<Rightarrow> string \<Rightarrow> string \<Rightarrow> go_map" where
  "run_inject kind token env resolvedURL pathPrefix = (case kind of
     InjectWordPress \<Rightarrow> injectWordPressEnvVars env resolvedURL pathPrefix
   | InjectOpenClaw \<Rightarrow> injectOpenClawEnvVars token env resolvedURL pathPrefix)"

definition public_url_placeholder :: string where
  "public_url_placeholder = ''{{CLANK_PUBLIC_URL}}''"

definition injectEndpointEnvVars :: "string \<Rightarrow> go_map \<Rightarrow> string \<Rightarrow> EndpointInfo list \<Rightarrow> go_map" where
  "injectEndpointEnvVars token env imageTag endpoints =
     (let (resolvedURL, pathPrefix, env) =
            (case best_endpoint None endpoints of
               None \<Rightarrow> ([], [], env)
             | Some best \<Rightarrow>
                 let resolvedURL = resolveEndpointURL best; pathPrefix = ep_PathPrefix best;
                     env = (if pathPrefix \<noteq> [] then put_if_absent ''CLANK_BASE_PATH'' pathPrefix env else env);
                     env = (if resolvedURL \<noteq> [] then put_if_absent ''CLANK_BASE_URL'' resolvedURL env else env)
                 in (resolvedURL, pathPrefix, env));
          env = (if resolvedURL \<noteq> []
                 then (\<lambda>k. map_option (\<lambda>v. ReplaceAll v public_url_placeholder resolvedURL) (env k)) else env)
      in case matchesImageHandler imageTag of
           None \<Rightarrow> env
         | Some handler \<Rightarrow> run_inject (ih_inject handler) token env resolvedURL pathPrefix)"

subsection \<open>Properties\<close>

lemma best_endpoint_acc:
  "best_endpoint best es =
     (case first_match (\<lambda>e. ep_Hostname e \<noteq> [] \<and> ep_PathPrefix e \<noteq> []) es of
        Some e \<Rightarrow> Some e
      | None \<Rightarrow> (if best = None then first_match (\<lambda>e. ep_Hostname e \<noteq> []) es else best))"
  by (induction es arbitrary: best) (auto split: option.splits)

lemma best_endpoint_hostname: "best_endpoint None es = Some e \<Longrightarrow> e \<in> set es \<and> ep_Hostname e \<noteq> []"
  by (auto simp: best_endpoint_acc split: option.splits dest!: first_match_SomeD)

text \<open>
  The endpoint whose URL a container is told about is the first one that has both a hostname
  and a path prefix, or else the first one that has a hostname.
\<close>

theorem best_endpoint_choice:
  "best_endpoint None es =
     (case first_match (\<lambda>e. ep_Hostname e \<noteq> [] \<and> ep_PathPrefix e \<noteq> []) es of
        Some e \<Rightarrow> Some e
      | None \<Rightarrow> first_match (\<lambda>e. ep_Hostname e \<noteq> []) es)"
  by (simp add: best_endpoint_acc)

lemma put_if_absent_Some: "m k = Some v \<Longrightarrow> put_if_absent k' u m k = Some v"
  by (rule put_if_absent_keeps)

lemma injectWordPress_keeps: "env k = Some v \<Longrightarrow> injectWordPressEnvVars env url pre k = Some v"
  by (auto simp: injectWordPressEnvVars_def Let_def)

lemma run_inject_keeps: "env k = Some v \<Longrightarrow> run_inject kind token env url pre k = Some v"
  by (cases kind) (simp_all add: run_inject_def injectWordPress_keeps injectOpenClawEnvVars_def put_if_absent_Some Let_def)

lemma run_inject_dom:
  "dom (run_inject kind token env url pre) \<subseteq> dom env \<union>
     {''WORDPRESS_CONFIG_EXTRA'', ''OPENCLAW_GATEWAY_TOKEN'', ''NODE_OPTIONS'', ''CLANK_CONTAINER_CMD''}"
  by (cases kind)
    (auto simp: run_inject_def injectWordPressEnvVars_def injectOpenClawEnvVars_def Let_def
        dom_put_if_absent [unfolded dom_def, simplified] split: if_splits)

definition public_url :: "EndpointInfo list \<Rightarrow> string" where
  "public_url es = (case best_endpoint None es of None \<Rightarrow> [] | Some e \<Rightarrow> resolveEndpointURL e)"

lemma public_url_set:
  assumes "best_endpoint None es = Some e"
  shows "public_url es = resolveEndpointURL e" "resolveEndpointURL e \<noteq> []"
  using best_endpoint_hostname [OF assms] assms by (simp_all add: public_url_def resolveEndpointURL_def)

definition base_env :: "EndpointInfo \<Rightarrow> go_map \<Rightarrow> go_map" where
  "base_env e env = put_if_absent ''CLANK_BASE_URL'' (resolveEndpointURL e)
     (if ep_PathPrefix e \<noteq> [] then put_if_absent ''CLANK_BASE_PATH'' (ep_PathPrefix e) env else env)"

definition substituted_env :: "EndpointInfo \<Rightarrow> go_map \<Rightarrow> go_map" where
  "substituted_env e env =
     (\<lambda>k. map_option (\<lambda>v. ReplaceAll v public_url_placeholder (resolveEndpointURL e)) (base_env e env k))"

lemma inject_Some:
  assumes "best_endpoint None es = Some e"
  shows "injectEndpointEnvVars token env tag es = (case matchesImageHandler tag of
       None \<Rightarrow> substituted_env e env
     | Some h \<Rightarrow> run_inject (ih_inject h) token (substituted_env e env) (resolveEndpointURL e) (ep_PathPrefix e))"
proof -
  have "resolveEndpointURL e \<noteq> []" by (rule public_url_set [OF assms])
  with assms show ?thesis
    by (cases "ep_PathPrefix e = []")
      (simp_all add: injectEndpointEnvVars_def substituted_env_def base_env_def Let_def cong: option.case_cong)
qed

lemma base_env_keeps: "env k = Some v \<Longrightarrow> base_env e env k = Some v"
  by (simp add: base_env_def put_if_absent_Some)

lemma base_env_dom: "dom (base_env e env) \<subseteq> dom env \<union> {''CLANK_BASE_PATH'', ''CLANK_BASE_URL''}"
  "''CLANK_BASE_URL'' \<in> dom (base_env e env)"
  by (auto simp only: base_env_def dom_put_if_absent split: if_splits)

lemma substituted_env_dom: "dom (substituted_env e env) = dom (base_env e env)"
  by (auto simp: substituted_env_def)

text \<open>
  A variable the user set is never overwritten or dropped, by any image handler: its value
  reaches the container with only the public-URL placeholder replaced.
\<close>

theorem user_env_kept:
  assumes "env k = Some v"
  shows "injectEndpointEnvVars token env tag es k =
     Some (if public_url es = [] then v else ReplaceAll v public_url_placeholder (public_url es))"
proof (cases "best_endpoint None es")
  case None
  with assms show ?thesis
    by (simp add: injectEndpointEnvVars_def public_url_def run_inject_keeps split: option.splits)
next
  case (Some e)
  from assms have "base_env e env k = Some v" by (rule base_env_keeps)
  then have "substituted_env e env k = Some (ReplaceAll v public_url_placeholder (resolveEndpointURL e))"
    by (simp add: substituted_env_def)
  with public_url_set [OF Some] show ?thesis
    by (cases "matchesImageHandler tag") (simp_all add: inject_Some [OF Some] run_inject_keeps)
qed

lemma user_env_kept_witness:
  "injectEndpointEnvVars ''t'' [''SITE'' \<mapsto> ''{{CLANK_PUBLIC_URL}}/app''] ''nginx:1''
     [\<lparr>ep_EndpointID = ''e'', ep_Provider = ''lan_only'', ep_Hostname = ''h.lan'', ep_PathPrefix = [], ep_TLSMode = []\<rparr>] ''SITE''
   = Some ''http://h.lan/app''"
  using user_env_kept [of "[''SITE'' \<mapsto> ''{{CLANK_PUBLIC_URL}}/app'']" "''SITE''" _ "''t''" "''nginx:1''"
      "[\<lparr>ep_EndpointID = ''e'', ep_Provider = ''lan_only'', ep_Hostname = ''h.lan'', ep_PathPrefix = [], ep_TLSMode = []\<rparr>]"]
  by (simp add: public_url_def resolveEndpointURL_def public_url_placeholder_def)

text \<open>
  Injection adds nothing beyond the documented variables, and a service with a reachable
  endpoint always learns its base URL.
\<close>

theorem injected_vars_bounded:
  "dom (injectEndpointEnvVars token env tag es) \<subseteq> dom env \<union>
     {''CLANK_BASE_PATH'', ''CLANK_BASE_URL''} \<union>
     {''WORDPRESS_CONFIG_EXTRA'', ''OPENCLAW_GATEWAY_TOKEN'', ''NODE_OPTIONS'', ''CLANK_CONTAINER_CMD''} \<and>
   (best_endpoint None es = None \<or> ''CLANK_BASE_URL'' \<in> dom (injectEndpointEnvVars token env tag es))"
proof (cases "best_endpoint None es")
  case None
  with run_inject_dom show ?thesis
    by (fastforce simp: injectEndpointEnvVars_def split: option.splits)
next
  case (Some e)
  let ?env = "substituted_env e env"
  have d: "dom ?env \<subseteq> dom env \<union> {''CLANK_BASE_PATH'', ''CLANK_BASE_URL''}" "''CLANK_BASE_URL'' \<in> dom ?env"
    unfolding substituted_env_dom by (fact base_env_dom)+
  then obtain v where v: "?env ''CLANK_BASE_URL'' = Some v" by auto
  show ?thesis
  proof (cases "matchesImageHandler tag")
    case None
    then have inj: "injectEndpointEnvVars token env tag es = ?env" by (simp add: inject_Some [OF Some])
    show ?thesis unfolding inj by (intro conjI disjI2 d(2) subset_trans [OF d(1) Un_upper1])
  next
    case h: (Some h)
    let ?run = "run_inject (ih_inject h) token ?env (resolveEndpointURL e) (ep_PathPrefix e)"
    have inj: "injectEndpointEnvVars token env tag es = ?run"
      by (simp add: inject_Some [OF Some] h)
    from v have "?run ''CLANK_BASE_URL'' = Some v" by (rule run_inject_keeps)
    moreover have "dom ?run \<subseteq> (dom env \<union> {''CLANK_BASE_PATH'', ''CLANK_BASE_URL''}) \<union>
          {''WORDPRESS_CONFIG_EXTRA'', ''OPENCLAW_GATEWAY_TOKEN'', ''NODE_OPTIONS'', ''CLANK_CONTAINER_CMD''}"
      by (rule subset_trans [OF run_inject_dom Un_mono [OF d(1) subset_refl]])
    ultimately show ?thesis unfolding inj by (intro conjI disjI2 domI)
  qed
qed

end
