(* ===== verification/Traefik_Labels.thy ===== *)
theory Traefik_Labels
  imports Endpoint_Env
begin

text \<open>
  The container labels that tell Traefik how to route to a service
  (\<^verbatim>\<open>generateTraefikLabels\<close>, \<^verbatim>\<open>generateLegacyLabels\<close> and
  \<^verbatim>\<open>generateEndpointLabels\<close>, \<^verbatim>\<open>internal/deploy/deployer.go\<close>).  A label map is a Go map;
  the key builders name the format strings of the source.
\<close>

definition alnum :: "char \<Rightarrow> bool" where
  "alnum c \<longleftrightarrow> (let n = (of_char c :: nat) in 97 \<le> n \<and> n \<le> 122 \<or> 65 \<le> n \<and> n \<le> 90 \<or> 48 \<le> n \<and> n \<le> 57)"

text \<open>\<^verbatim>\<open>safeDomainRe\<close>: alphanumeric at both ends, dots and hyphens inside.\<close>

definition safeDomainRe :: "string \<Rightarrow> bool" where
  "safeDomainRe s \<longleftrightarrow> s \<noteq> [] \<and> alnum (hd s) \<and> alnum (last s) \<and>
     list_all (\<lambda>c. alnum c \<or> c = CHR ''.'' \<or> c = CHR ''-'') s"

definition safe_host :: "string \<Rightarrow> bool" where
  "safe_host h \<longleftrightarrow> safeDomainRe h \<and> length h \<le> 253"

definition router_key :: "string \<Rightarrow> string \<Rightarrow> string" where
  "router_key name field = ''traefik.http.routers.'' @ name @ field"

definition middleware_key :: "string \<Rightarrow> string \<Rightarrow> string" where
  "middleware_key name field = ''traefik.http.middlewares.'' @ name @ field"

definition service_key :: "string \<Rightarrow> string \<Rightarrow> string" where
  "service_key name field = ''traefik.http.services.'' @ name @ field"

definition Host :: "string \<Rightarrow> string" where
  "Host h = ''Host(`'' @ h @ ''`)''"

definition legacy_hosts :: "string \<Rightarrow> string list \<Rightarrow> string list \<Rightarrow> string list" where
  "legacy_hosts serviceSlug domains lanIPs =
     (let safeDomains = filter safe_host domains;
          safeDomains = (if safeDomains = [] then [serviceSlug @ ''.localhost''] else safeDomains)
      in safeDomains @ map (\<lambda>ip. serviceSlug @ ''.'' @ ip @ ''.sslip.io'') lanIPs)"

definition generateLegacyLabels :: "go_map \<Rightarrow> string \<Rightarrow> string list \<Rightarrow> string list \<Rightarrow> go_map" where
  "generateLegacyLabels labels serviceSlug domains lanIPs =
     (let routerName = ''clank-'' @ serviceSlug;
          hostRules = Join '' || '' (map Host (legacy_hosts serviceSlug domains lanIPs));
          httpsRouter = routerName @ ''-https-redir'';
          mwName = routerName @ ''-to-http''
      in labels(
           router_key routerName ''.rule'' \<mapsto> hostRules,
           router_key routerName ''.entrypoints'' \<mapsto> ''web'',
           router_key httpsRouter ''.rule'' \<mapsto> hostRules,
           router_key httpsRouter ''.entrypoints'' \<mapsto> ''websecure'',
           router_key httpsRouter ''.tls'' \<mapsto> ''true'',
           router_key httpsRouter ''.middlewares'' \<mapsto> mwName,
           router_key httpsRouter ''.priority'' \<mapsto> ''1'',
           middleware_key mwName ''.redirectscheme.scheme'' \<mapsto> ''http'',
           middleware_key mwName ''.redirectscheme.permanent'' \<mapsto> ''false''))"

definition router_base :: "string \<Rightarrow> nat \<Rightarrow> string" where
  "router_base serviceSlug i = ''clank-'' @ serviceSlug @ ''-ep'' @ show_nat i"

text \<open>The body of the loop in \<^verbatim>\<open>generateEndpointLabels\<close>.\<close>

definition endpoint_labels :: "string \<Rightarrow> nat \<Rightarrow> EndpointInfo \<Rightarrow> go_map \<Rightarrow> go_map" where
  "endpoint_labels serviceSlug i ep labels =
     (let svcName = ''clank-'' @ serviceSlug; hostname = ep_Hostname ep; base = router_base serviceSlug i in
      if hostname = [] then labels
      else if \<not> safe_host hostname then labels
      else if ep_Provider ep = ''public_direct'' then
        labels(
          router_key (base @ ''-secure'') ''.rule'' \<mapsto> Host hostname,
          router_key (base @ ''-secure'') ''.entrypoints'' \<mapsto> ''websecure'',
          router_key (base @ ''-secure'') ''.tls.certresolver'' \<mapsto> ''letsencrypt'',
          router_key (base @ ''-secure'') ''.service'' \<mapsto> svcName,
          router_key (base @ ''-http'') ''.rule'' \<mapsto> Host hostname,
          router_key (base @ ''-http'') ''.entrypoints'' \<mapsto> ''web'',
          router_key (base @ ''-http'') ''.middlewares'' \<mapsto> base @ ''-redirect'',
          middleware_key base ''-redirect.redirectscheme.scheme'' \<mapsto> ''https'')
      else if ep_Provider ep = ''public_tunnel_cloudflare'' then
        labels(
          router_key base ''.rule'' \<mapsto> Host hostname,
          router_key base ''.entrypoints'' \<mapsto> ''web'',
          router_key base ''.service'' \<mapsto> svcName)
      else if ep_Provider ep = ''private_tailscale_https'' then
        let labels = labels(
              router_key base ''.rule'' \<mapsto>
                (if ep_PathPrefix ep \<noteq> [] then Host hostname @ '' && PathPrefix(`'' @ ep_PathPrefix ep @ ''`)''
                 else Host hostname),
              router_key base ''.entrypoints'' \<mapsto> ''web'',
              router_key base ''.service'' \<mapsto> svcName)
        in if ep_PathPrefix ep \<noteq> [] then
             labels(
               router_key base ''.middlewares'' \<mapsto> base @ ''-strip'',
               middleware_key base ''-strip.stripprefix.prefixes'' \<mapsto> ep_PathPrefix ep)
           else labels
      else if ep_Provider ep = ''lan_only'' \<or> ep_Provider ep = ''byo_proxy'' then
        labels(
          router_key base ''.rule'' \<mapsto> Host hostname,
          router_key base ''.entrypoints'' \<mapsto> ''web'',
          router_key base ''.service'' \<mapsto> svcName)
      else labels)"

fun endpoint_labels_from :: "string \<Rightarrow> nat \<Rightarrow> EndpointInfo list \<Rightarrow> go_map \<Rightarrow> go_map" where
  "endpoint_labels_from serviceSlug i [] labels = labels"
| "endpoint_labels_from serviceSlug i (ep # eps) labels =
     endpoint_labels_from serviceSlug (Suc i) eps (endpoint_labels serviceSlug i ep labels)"

definition generateEndpointLabels :: "go_map \<Rightarrow> string \<Rightarrow> EndpointInfo list \<Rightarrow> go_map" where
  "generateEndpointLabels labels serviceSlug endpoints = endpoint_labels_from serviceSlug 0 endpoints labels"

text \<open>\<open>DNSName\<close> is what \<^verbatim>\<open>tailscale status --json\<close> reports, or the error of running it.\<close>

definition resolveTailscaleHostname :: "string result \<Rightarrow> string result" where
  "resolveTailscaleHostname DNSName = (case DNSName of
     Inl err \<Rightarrow> Inl (''tailscale not available: '' @ err)
   | Inr name \<Rightarrow> let hostname = TrimSuffix name ''.'' in
       if hostname = [] then Inl ''tailscale DNSName is empty'' else Inr hostname)"

definition resolve_endpoint :: "string result \<Rightarrow> EndpointInfo \<Rightarrow> EndpointInfo" where
  "resolve_endpoint DNSName ep =
     (if ep_Provider ep = ''private_tailscale_https'' \<and> ep_Hostname ep = [] then
        (case resolveTailscaleHostname DNSName of Inr host \<Rightarrow> ep\<lparr>ep_Hostname := host\<rparr> | Inl err \<Rightarrow> ep)
      else ep)"

text \<open>
  The endpoints are resolved in place, so the caller's slice changes too: both are returned.
\<close>

definition generateTraefikLabels :: "string result \<Rightarrow> string \<Rightarrow> string \<Rightarrow> string list \<Rightarrow> int
    \<Rightarrow> EndpointInfo list \<Rightarrow> string list \<Rightarrow> bool \<Rightarrow> string \<Rightarrow> go_map \<times> EndpointInfo list" where
  "generateTraefikLabels DNSName deploymentID serviceSlug domains port endpoints lanIPs isHTTP healthCheckPath =
     (let labels = [''clank.managed'' \<mapsto> ''true'',
            ''clank.ownership_version'' \<mapsto> ''1'',
            ''clank.artifact_type'' \<mapsto> ''service_container'',
            ''clank.service_slug'' \<mapsto> serviceSlug,
            ''clank.deployment_id'' \<mapsto> deploymentID] in
      if \<not> isHTTP then (labels(''traefik.enable'' \<mapsto> ''false''), endpoints)
      else
        let svcName = ''clank-'' @ serviceSlug;
            labels = labels(''traefik.enable'' \<mapsto> ''true'',
              service_key svcName ''.loadbalancer.server.port'' \<mapsto> show_int port);
            labels = (if healthCheckPath \<noteq> [] then labels(
                service_key svcName ''.loadbalancer.healthcheck.path'' \<mapsto> healthCheckPath,
                service_key svcName ''.loadbalancer.healthcheck.interval'' \<mapsto> ''5s'',
                service_key svcName ''.loadbalancer.healthcheck.timeout'' \<mapsto> ''3s'',
                service_key svcName ''.loadbalancer.healthcheck.followredirects'' \<mapsto> ''false'')
              else labels);
            labels = generateLegacyLabels labels serviceSlug domains lanIPs;
            endpoints = map (resolve_endpoint DNSName) endpoints
        in (if length endpoints > 0 then generateEndpointLabels labels serviceSlug endpoints else labels, endpoints))"

subsection \<open>Keys\<close>

lemma key_inject [simp]:
  "router_key a f = router_key b g \<longleftrightarrow> a @ f = b @ g"
  "middleware_key a f = middleware_key b g \<longleftrightarrow> a @ f = b @ g"
  "service_key a f = service_key b g \<longleftrightarrow> a @ f = b @ g"
  by (simp_all add: router_key_def middleware_key_def service_key_def)

lemma key_kinds [simp]:
  "router_key a f \<noteq> middleware_key b g" "middleware_key b g \<noteq> router_key a f"
  "router_key a f \<noteq> service_key b g" "service_key b g \<noteq> router_key a f"
  "middleware_key a f \<noteq> service_key b g" "service_key b g \<noteq> middleware_key a f"
  by (simp_all add: router_key_def middleware_key_def service_key_def)

lemma key_http [simp]:
  "HasPrefix (router_key a f) ''traefik.http.'' = True"
  by (simp add: router_key_def)

lemma base_inject:
  assumes "x \<noteq> []" "y \<noteq> []" "\<not> is_digit (hd x)" "\<not> is_digit (hd y)"
  shows "router_base slug i @ x = router_base slug j @ y \<longleftrightarrow> i = j \<and> x = y"
proof
  assume "router_base slug i @ x = router_base slug j @ y"
  then have "show_nat i @ x = show_nat j @ y" by (simp add: router_base_def)
  with assms show "i = j \<and> x = y" by (intro show_nat_append_eq) auto
qed auto

lemma not_digits [simp]: "\<not> is_digit (CHR ''-'')" "\<not> is_digit (CHR ''.'')"
  by (simp_all add: is_digit_def)

text \<open>An endpoint leaves the router keys of every other endpoint of the service alone.\<close>

lemma endpoint_labels_other:
  assumes "j \<noteq> i" "x \<noteq> []" "\<not> is_digit (hd x)"
  shows "endpoint_labels slug j ep m (router_key (router_base slug i) x) = m (router_key (router_base slug i) x)"
  using assms by (simp add: endpoint_labels_def base_inject Let_def)

lemma endpoint_labels_from_other:
  assumes "i < k" "x \<noteq> []" "\<not> is_digit (hd x)"
  shows "endpoint_labels_from slug k eps m (router_key (router_base slug i) x) = m (router_key (router_base slug i) x)"
  using assms by (induction eps arbitrary: k m) (simp_all add: endpoint_labels_other)

definition rule_suffix :: "EndpointInfo \<Rightarrow> string" where
  "rule_suffix ep = (if ep_Provider ep = ''public_direct'' then ''-secure.rule'' else ''.rule'')"

definition known_provider :: "string \<Rightarrow> bool" where
  "known_provider p \<longleftrightarrow> p \<in> {''public_direct'', ''public_tunnel_cloudflare'', ''private_tailscale_https'', ''lan_only'', ''byo_proxy''}"

definition endpoint_rule :: "EndpointInfo \<Rightarrow> string" where
  "endpoint_rule ep =
     (if ep_Provider ep = ''private_tailscale_https'' \<and> ep_PathPrefix ep \<noteq> []
      then Host (ep_Hostname ep) @ '' && PathPrefix(`'' @ ep_PathPrefix ep @ ''`)'' else Host (ep_Hostname ep))"

lemma router_key_split: "router_key (a @ b) f = router_key a (b @ f)"
  by (simp add: router_key_def)

lemma endpoint_labels_own:
  assumes "safe_host (ep_Hostname ep)" "known_provider (ep_Provider ep)"
  shows "endpoint_labels slug i ep m (router_key (router_base slug i) (rule_suffix ep)) = Some (endpoint_rule ep)"
proof -
  have "ep_Hostname ep \<noteq> []" using assms(1) by (auto simp: safe_host_def safeDomainRe_def)
  with assms show ?thesis
    by (auto simp: endpoint_labels_def rule_suffix_def endpoint_rule_def known_provider_def Let_def router_key_split)
qed

lemma endpoint_labels_from_own:
  assumes "n < length eps" "safe_host (ep_Hostname (eps ! n))" "known_provider (ep_Provider (eps ! n))"
  shows "endpoint_labels_from slug k eps m (router_key (router_base slug (k + n)) (rule_suffix (eps ! n))) =
    Some (endpoint_rule (eps ! n))"
  using assms
proof (induction eps arbitrary: k m n)
  case (Cons ep eps)
  show ?case
  proof (cases n)
    case 0
    have "rule_suffix ep \<noteq> []" "\<not> is_digit (hd (rule_suffix ep))" by (simp_all add: rule_suffix_def)
    with 0 Cons.prems show ?thesis by (simp add: endpoint_labels_from_other endpoint_labels_own)
  next
    case (Suc n')
    with Cons.prems Cons.IH [of n' "Suc k"] show ?thesis by simp
  qed
qed simp

subsection \<open>Properties\<close>

text \<open>
  Every endpoint with a safe hostname and a known provider gets its own router with its own
  rule: neither the legacy labels nor any other endpoint of the service overwrite it.
\<close>

theorem endpoint_router_kept:
  assumes "isHTTP" and "n < length endpoints"
    and "ep = resolve_endpoint DNSName (endpoints ! n)"
    and "safe_host (ep_Hostname ep)" and "known_provider (ep_Provider ep)"
  shows "fst (generateTraefikLabels DNSName dep slug domains port endpoints lanIPs isHTTP hc)
     (router_key (router_base slug n) (rule_suffix ep)) = Some (endpoint_rule ep)"
  using endpoint_labels_from_own [of n "map (resolve_endpoint DNSName) endpoints" slug 0] assms
  by (simp add: generateTraefikLabels_def generateEndpointLabels_def Let_def) auto

lemma endpoint_router_kept_witness:
  "fst (generateTraefikLabels (Inr ''box.tail1.ts.net.'') ''d'' ''web'' [] 8080
     [\<lparr>ep_EndpointID = ''a'', ep_Provider = ''public_direct'', ep_Hostname = ''a.example'', ep_PathPrefix = [], ep_TLSMode = []\<rparr>,
      \<lparr>ep_EndpointID = ''b'', ep_Provider = ''private_tailscale_https'', ep_Hostname = [], ep_PathPrefix = ''/b'', ep_TLSMode = []\<rparr>]
     [] True []) (router_key (router_base ''web'' 1) ''.rule'')
   = Some ''Host(`box.tail1.ts.net`) && PathPrefix(`/b`)''"
  using endpoint_router_kept [of True 1 "[\<lparr>ep_EndpointID = ''a'', ep_Provider = ''public_direct'', ep_Hostname = ''a.example'', ep_PathPrefix = [], ep_TLSMode = []\<rparr>,
      \<lparr>ep_EndpointID = ''b'', ep_Provider = ''private_tailscale_https'', ep_Hostname = [], ep_PathPrefix = ''/b'', ep_TLSMode = []\<rparr>]"
      "\<lparr>ep_EndpointID = ''b'', ep_Provider = ''private_tailscale_https'', ep_Hostname = ''box.tail1.ts.net'', ep_PathPrefix = ''/b'', ep_TLSMode = []\<rparr>"
      "Inr ''box.tail1.ts.net.''" "''d''" "''web''" "[]" 8080 "[]" "[]"]
  by (simp add: resolve_endpoint_def resolveTailscaleHostname_def TrimSuffix_def HasSuffix_def Let_def
      safe_host_def safeDomainRe_def alnum_def known_provider_def rule_suffix_def endpoint_rule_def Host_def)

text \<open>What a router rule may consist of.\<close>

definition slug_host :: "string \<Rightarrow> string list \<Rightarrow> string \<Rightarrow> bool" where
  "slug_host slug lanIPs h \<longleftrightarrow> safe_host h \<or> h = slug @ ''.localhost'' \<or> (\<exists>ip \<in> set lanIPs. h = slug @ ''.'' @ ip @ ''.sslip.io'')"

definition rule_ok :: "string \<Rightarrow> string list \<Rightarrow> EndpointInfo list \<Rightarrow> string \<Rightarrow> bool" where
  "rule_ok slug lanIPs eps v \<longleftrightarrow>
     (\<exists>hs. list_all (slug_host slug lanIPs) hs \<and> v = Join '' || '' (map Host hs)) \<or>
     (\<exists>ep \<in> set eps. safe_host (ep_Hostname ep) \<and> v \<in> {Host (ep_Hostname ep), endpoint_rule ep})"

definition rules_ok :: "(string \<Rightarrow> bool) \<Rightarrow> go_map \<Rightarrow> bool" where
  "rules_ok ok m \<longleftrightarrow> (\<forall>name v. m (router_key name ''.rule'') = Some v \<longrightarrow> ok v)"

lemma last_neq: "x \<noteq> [] \<Longrightarrow> y \<noteq> [] \<Longrightarrow> last x \<noteq> last y \<Longrightarrow> a @ x \<noteq> b @ y"
  by (metis last_appendR)

lemma rule_not_other [simp]:
  "a @ ''.rule'' \<noteq> b @ ''.entrypoints''" "a @ ''.rule'' \<noteq> b @ ''.tls''" "a @ ''.rule'' \<noteq> b @ ''.middlewares''"
  "a @ ''.rule'' \<noteq> b @ ''.priority''" "a @ ''.rule'' \<noteq> b @ ''.tls.certresolver''"
  by (rule last_neq; simp)+

lemma rule_not_service [simp]: "a @ ''.rule'' \<noteq> b @ ''.service''"
proof
  assume "a @ ''.rule'' = b @ ''.service''"
  then have "butlast (a @ ''.rule'') = butlast (b @ ''.service'')" by (rule arg_cong)
  then have "a @ ''.rul'' = b @ ''.servic''" by (simp add: butlast_append)
  moreover have "a @ ''.rul'' \<noteq> b @ ''.servic''" by (rule last_neq) simp_all
  ultimately show False by blast
qed

lemma rules_ok_router: "rules_ok ok m \<Longrightarrow> (\<forall>name. name @ ''.rule'' \<noteq> a @ f) \<or> ok v \<Longrightarrow> rules_ok ok (m(router_key a f \<mapsto> v))"
  by (auto simp: rules_ok_def)

lemma rules_ok_middleware: "rules_ok ok m \<Longrightarrow> rules_ok ok (m(middleware_key a f \<mapsto> v))"
  by (simp add: rules_ok_def)

lemma rules_ok_service: "rules_ok ok m \<Longrightarrow> rules_ok ok (m(service_key a f \<mapsto> v))"
  by (simp add: rules_ok_def)

lemmas rules_ok_intros = rules_ok_router rules_ok_middleware rules_ok_service

lemma endpoint_labels_rules:
  assumes "rules_ok ok m" and "safe_host (ep_Hostname ep) \<longrightarrow> ok (Host (ep_Hostname ep)) \<and> ok (endpoint_rule ep)"
  shows "rules_ok ok (endpoint_labels slug i ep m)"
  using assms
  by (auto simp: endpoint_labels_def endpoint_rule_def Let_def intro!: rules_ok_intros)

lemma endpoint_labels_from_rules:
  "rules_ok ok m \<Longrightarrow> (\<forall>ep \<in> set eps. safe_host (ep_Hostname ep) \<longrightarrow> ok (Host (ep_Hostname ep)) \<and> ok (endpoint_rule ep)) \<Longrightarrow>
   rules_ok ok (endpoint_labels_from slug i eps m)"
  by (induction eps arbitrary: i m) (simp_all add: endpoint_labels_rules)

lemma legacy_rules:
  "rules_ok ok m \<Longrightarrow> ok (Join '' || '' (map Host (legacy_hosts slug domains lanIPs))) \<Longrightarrow>
   rules_ok ok (generateLegacyLabels m slug domains lanIPs)"
  by (auto simp: generateLegacyLabels_def Let_def intro!: rules_ok_intros)

lemma legacy_hosts_ok: "list_all (slug_host slug lanIPs) (legacy_hosts slug domains lanIPs)"
  by (auto simp: legacy_hosts_def slug_host_def list_all_iff Let_def)

lemma rules_ok_plain: "rules_ok ok m \<Longrightarrow> hd k \<noteq> CHR ''t'' \<Longrightarrow> rules_ok ok (m(k \<mapsto> v))"
  by (auto simp: rules_ok_def router_key_def)

lemma rules_ok_enable: "rules_ok ok m \<Longrightarrow> rules_ok ok (m(''traefik.enable'' \<mapsto> v))"
  by (auto simp: rules_ok_def router_key_def)

text \<open>
  C18. Whatever domains and endpoint hostnames the control plane sends, every router rule of a service is built
  from domains and endpoint hostnames of the safe syntax, the service's own \<open>.localhost\<close> name and its
  \<open>sslip.io\<close> names only, and a path prefix of the endpoint that has it.  The slug and the addresses in the last two,
  and the path prefix, are taken as they were sent.
\<close>

theorem router_rules_safe:
  assumes "gen = generateTraefikLabels DNSName dep slug domains port endpoints lanIPs isHTTP hc"
    and "fst gen (router_key name ''.rule'') = Some v"
  shows "rule_ok slug lanIPs (snd gen) v"
proof -
  let ?ok = "rule_ok slug lanIPs (snd gen)"
  define m0 where "m0 = [''clank.managed'' \<mapsto> ''true'', ''clank.ownership_version'' \<mapsto> ''1'',
      ''clank.artifact_type'' \<mapsto> ''service_container'', ''clank.service_slug'' \<mapsto> slug, ''clank.deployment_id'' \<mapsto> dep]"
  have "rules_ok ?ok Map.empty" by (simp add: rules_ok_def)
  then have m0: "rules_ok ?ok m0" unfolding m0_def by (intro rules_ok_plain) simp_all
  have legacy: "?ok (Join '' || '' (map Host (legacy_hosts slug domains lanIPs)))"
    using legacy_hosts_ok unfolding rule_ok_def by blast
  have eps: "\<forall>ep \<in> set (snd gen). safe_host (ep_Hostname ep) \<longrightarrow> ?ok (Host (ep_Hostname ep)) \<and> ?ok (endpoint_rule ep)"
    by (auto simp: rule_ok_def)
  have "rules_ok ?ok (fst gen)"
  proof (cases isHTTP)
    case False
    then show ?thesis using m0
      by (simp add: assms(1) generateTraefikLabels_def rules_ok_enable flip: m0_def)
  next
    case True
    then have sg: "snd gen = map (resolve_endpoint DNSName) endpoints"
      by (simp add: assms(1) generateTraefikLabels_def Let_def)
    show ?thesis using m0 eps True legacy unfolding sg
      by (auto simp: assms(1) generateTraefikLabels_def generateEndpointLabels_def Let_def simp flip: m0_def
          intro!: endpoint_labels_from_rules legacy_rules rules_ok_service rules_ok_enable)
  qed
  with assms(2) show ?thesis by (simp add: rules_ok_def)
qed

definition plain_endpoint :: "string \<Rightarrow> string \<Rightarrow> string \<Rightarrow> EndpointInfo" where
  "plain_endpoint provider host path =
     \<lparr>ep_EndpointID = ''e'', ep_Provider = provider, ep_Hostname = host, ep_PathPrefix = path, ep_TLSMode = []\<rparr>"

lemma router_rules_safe_witness:
  "rule_ok ''web'' [] [plain_endpoint ''lan_only'' ''a.lan'' []] ''Host(`a.lan`)''"
  using router_rules_safe [OF refl, of "Inl []" "''d''" "''web''" "[]" 80 "[plain_endpoint ''lan_only'' ''a.lan'' []]" "[]" True "[]"
      "''clank-web-ep0''" "''Host(`a.lan`)''"]
  by (simp add: generateTraefikLabels_def generateEndpointLabels_def endpoint_labels_def plain_endpoint_def
      resolve_endpoint_def Let_def safe_host_def safeDomainRe_def alnum_def router_base_def Host_def show_nat_0 router_key_def)

text \<open>
  A service whose port does not speak HTTP gets management labels only: nothing in its label
  map configures Traefik's HTTP routing.
\<close>

theorem tcp_service_not_routed:
  assumes "HasPrefix key ''traefik.http''"
  shows "fst (generateTraefikLabels DNSName dep slug domains port endpoints lanIPs False hc) key = None"
proof -
  from assms obtain t where "key = ''traefik.http'' @ t" by (auto simp: HasPrefix_iff)
  then show ?thesis by (simp add: generateTraefikLabels_def)
qed

lemma tcp_service_not_routed_witness:
  "fst (generateTraefikLabels (Inl []) ''d'' ''db'' [] 5432 [] [] False []) (router_key ''clank-db'' ''.rule'') = None"
  by (rule tcp_service_not_routed) (simp add: router_key_def)

text \<open>
  Router names are not unique across services: the router of endpoint 0 of service \<open>app\<close> is the
  legacy router of a service called \<open>app-ep0\<close>, with another rule under the same Traefik name.
\<close>

theorem router_names_collide:
  "\<exists>name. fst (generateTraefikLabels (Inl []) d1 ''app'' [] 80 [plain_endpoint ''lan_only'' ''a.example'' []] [] True [])
       (router_key name ''.rule'') = Some ''Host(`a.example`)'' \<and>
     fst (generateTraefikLabels (Inl []) d2 ''app-ep0'' [''b.example''] 80 [] [] True [])
       (router_key name ''.rule'') = Some ''Host(`b.example`)''"
proof (intro exI conjI)
  show "fst (generateTraefikLabels (Inl []) d1 ''app'' [] 80 [plain_endpoint ''lan_only'' ''a.example'' []] [] True [])
       (router_key ''clank-app-ep0'' ''.rule'') = Some ''Host(`a.example`)''"
    by (simp add: generateTraefikLabels_def generateEndpointLabels_def endpoint_labels_def plain_endpoint_def
      resolve_endpoint_def Let_def safe_host_def safeDomainRe_def alnum_def router_base_def Host_def show_nat_0)
  show "fst (generateTraefikLabels (Inl []) d2 ''app-ep0'' [''b.example''] 80 [] [] True [])
       (router_key ''clank-app-ep0'' ''.rule'') = Some ''Host(`b.example`)''"
    by (simp add: generateTraefikLabels_def generateLegacyLabels_def legacy_hosts_def Let_def safe_host_def
      safeDomainRe_def alnum_def Host_def)
qed

definition evil_prefix :: string where
  "evil_prefix = ''/x`) || PathPrefix(`/''"

text \<open>
  The path prefix of a Tailscale endpoint goes into the rule unchecked: a prefix with a
  backtick turns the rule of one host into a rule that matches every request, although the same
  text is refused as a hostname.
\<close>

theorem path_prefix_unchecked:
  "\<not> safe_host evil_prefix \<and>
   fst (generateTraefikLabels (Inl []) d ''app'' [] 80 [plain_endpoint ''private_tailscale_https'' ''h.ts.net'' evil_prefix] [] True [])
     (router_key (router_base ''app'' 0) ''.rule'') = Some ''Host(`h.ts.net`) && PathPrefix(`/x`) || PathPrefix(`/`)''"
proof
  show "\<not> safe_host evil_prefix" by (simp add: evil_prefix_def safe_host_def safeDomainRe_def alnum_def)
  have "safe_host ''h.ts.net''" by (simp add: safe_host_def safeDomainRe_def alnum_def)
  moreover have "evil_prefix \<noteq> []" by (simp add: evil_prefix_def)
  ultimately show "fst (generateTraefikLabels (Inl []) d ''app'' [] 80 [plain_endpoint ''private_tailscale_https'' ''h.ts.net'' evil_prefix] [] True [])
     (router_key (router_base ''app'' 0) ''.rule'') = Some ''Host(`h.ts.net`) && PathPrefix(`/x`) || PathPrefix(`/`)''"
    by (simp add: generateTraefikLabels_def generateEndpointLabels_def endpoint_labels_def plain_endpoint_def
      resolve_endpoint_def Let_def Host_def) (simp add: evil_prefix_def)
qed

text \<open>The command of an OpenClaw container quotes the endpoint's host for the shell.\<close>

lemma infix_here: "\<exists>a b. h @ r = a @ h @ b"
  by (metis append_Nil)

lemma infix_later: "\<exists>a b. r = a @ h @ b \<Longrightarrow> \<exists>a b. x @ r = a @ h @ b"
  by (metis append.assoc)

lemma openclaw_command_host:
  assumes "url \<noteq> []"
  shows "\<exists>a b. openclaw_command url = a @ url_host url @ b"
proof -
  have "openclaw_origins url = [''https://'' @ url_host url, ''http://'' @ url_host url]"
    using assms by (simp only: openclaw_origins_def if_True simp_thms)
  then have "\<exists>r. openclaw_command url = ''mkdir -p ~/.openclaw && printf '%s' '' @ sq @
      openclaw_config (''['' @ dq @ ''https://'' @ url_host url @ r @ '']'') @ sq @
      '' > ~/.openclaw/openclaw.json'' @ '' && exec node dist/index.js gateway --allow-unconfigured --auth token''"
    by (intro exI [of _ "dq @ '','' @ dq @ ''http://'' @ url_host url @ dq"]) (simp add: openclaw_command_def Let_def)
  then obtain r where "openclaw_command url = ''mkdir -p ~/.openclaw && printf '%s' '' @ sq @
      openclaw_config (''['' @ dq @ ''https://'' @ url_host url @ r @ '']'') @ sq @
      '' > ~/.openclaw/openclaw.json'' @ '' && exec node dist/index.js gateway --allow-unconfigured --auth token''" ..
  then show ?thesis
    by (simp only: openclaw_config_def append_assoc) (rule infix_here | rule infix_later)+
qed

definition evil_host :: string where
  \<open>evil_host = ''x';id;'y''\<close>

text \<open>
  Hostnames are checked when they become labels, but not when they become environment
  variables: a hostname with quotes is refused for routing and still reaches the shell command of
  an OpenClaw container verbatim, where it closes the quotes.
\<close>

theorem unsafe_hostname_reaches_shell:
  "\<not> safe_host evil_host \<and>
   (\<exists>cmd. injectEndpointEnvVars token Map.empty ''alpine/openclaw:1'' [plain_endpoint ''lan_only'' evil_host []]
      ''CLANK_CONTAINER_CMD'' = Some cmd \<and> Contains cmd evil_host)"
proof
  show "\<not> safe_host evil_host" by (simp add: evil_host_def safe_host_def safeDomainRe_def alnum_def)
  let ?ep = "plain_endpoint ''lan_only'' evil_host []"
  have b: "best_endpoint None [?ep] = Some ?ep" by (simp add: plain_endpoint_def evil_host_def)
  have url: "resolveEndpointURL ?ep = ''http://'' @ evil_host"
    by (simp add: resolveEndpointURL_def plain_endpoint_def evil_host_def)
  have "url_host (''http://'' @ evil_host) = evil_host"
    by (simp add: url_host_def evil_host_def TrimPrefix_def)
  then obtain x y where "openclaw_command (''http://'' @ evil_host) = x @ evil_host @ y"
    using openclaw_command_host [of "''http://'' @ evil_host"] by auto
  then have c: "Contains (openclaw_command (''http://'' @ evil_host)) evil_host"
    unfolding Contains_iff by blast
  have m: "matchesImageHandler ''alpine/openclaw:1'' = Some (imageHandlers ! 1)"
    by (simp add: matchesImageHandler_def imageHandlers_def handler_matches_def ToLower_def lower_char_def)
  have "substituted_env ?ep Map.empty ''CLANK_CONTAINER_CMD'' = None"
    by (simp add: substituted_env_def base_env_def put_if_absent_def plain_endpoint_def)
  with c show "\<exists>cmd. injectEndpointEnvVars token Map.empty ''alpine/openclaw:1'' [?ep] ''CLANK_CONTAINER_CMD'' = Some cmd
      \<and> Contains cmd evil_host"
    by (simp add: inject_Some [OF b] m run_inject_def imageHandlers_def injectOpenClawEnvVars_def url Let_def
        put_if_absent_other put_if_absent_new)
qed

end
