(* ===== verification/Deploy_Env.thy ===== *)
theory Deploy_Env
  imports Effects Traefik_Labels
begin

text \<open>
  What a deploy asks of the outside world, and port probing (\<^verbatim>\<open>internal/docker/probe.go\<close>).

  \<open>docker_env\<close> has one field per method of the Docker manager the deployer calls, and one per
  system service it uses: TCP and HTTP connections, the random token, the Tailscale name, waiting
  (with the error of the context when that ends first) and the two callbacks.  Answers that are a
  value and an error are a sum; \<^verbatim>\<open>FindContainerBy...\<close> gives identifier, name and error.
\<close>

datatype deploy_event =
    Progress string string string string
  | LogLine string
  | EnsuredNetwork string
  | FoundByLabel string string string
  | FoundByName string string
  | StoppedAndRemoved string
  | Pulled string
  | Ran RunOpts "string result"
  | OwnedVolumes "VolumeMount list"
  | ConnectedTraefik string
  | Waited int "go_error option"
  | Asked string

record 'w docker_env =
  de_onProgress :: "string \<Rightarrow> string \<Rightarrow> string \<Rightarrow> string \<Rightarrow> (unit, 'w) op"
  de_onLog :: "string \<Rightarrow> (unit, 'w) op"
  de_EnsureNetwork :: "string \<Rightarrow> (go_error option, 'w) op"
  de_FindContainerByLabel :: "string \<Rightarrow> string \<Rightarrow> (string \<times> string \<times> go_error option, 'w) op"
  de_FindContainerByName :: "string \<Rightarrow> (string \<times> string \<times> go_error option, 'w) op"
  de_StopAndRemove :: "string \<Rightarrow> (go_error option, 'w) op"
  de_PullImage :: "string \<Rightarrow> (string \<times> string) option \<Rightarrow> (string list \<times> go_error option, 'w) op"
  de_InspectImage :: "string \<Rightarrow> (ImageMeta result, 'w) op"
  de_InspectContainer :: "string \<Rightarrow> (ContainerInspection result, 'w) op"
  de_GetImageDigest :: "string \<Rightarrow> (string result, 'w) op"
  de_GetHealthStatus :: "string \<Rightarrow> (string, 'w) op"
  de_GetStartupLogs :: "string \<Rightarrow> int \<Rightarrow> (string result, 'w) op"
  de_GetContainerIP :: "string \<Rightarrow> string \<Rightarrow> (string result, 'w) op"
  de_EnsureVolumeOwnership :: "string \<Rightarrow> VolumeMount list \<Rightarrow> (go_error option, 'w) op"
  de_RunContainer :: "RunOpts \<Rightarrow> (string result, 'w) op"
  de_FindTraefikContainer :: "(string, 'w) op"
  de_ConnectToNetworkIfNeeded :: "string \<Rightarrow> string \<Rightarrow> (go_error option, 'w) op"
  de_DialTCP :: "string \<Rightarrow> (bool, 'w) op"
  de_HTTPGet :: "string \<Rightarrow> int \<Rightarrow> (int result, 'w) op"
  de_probeOrder :: "int list \<Rightarrow> (int list, 'w) op"
  de_tailscaleName :: "(string result, 'w) op"
  de_hexToken :: "(string, 'w) op"
  de_wait :: "int \<Rightarrow> (go_error option, 'w) op"
  de_sleep :: "int \<Rightarrow> (unit, 'w) op"

type_synonym ('w, 'a) deploying = "(deploy_event, 'w, 'a) rigged"

definition onProgress :: "'w docker_env \<Rightarrow> string \<Rightarrow> string \<Rightarrow> string \<Rightarrow> string \<Rightarrow> ('w, unit) deploying" where
  "onProgress env status message cid cname =
     call (\<lambda>_. Progress status message cid cname) (de_onProgress env status message cid cname)"

definition onLog :: "'w docker_env \<Rightarrow> string \<Rightarrow> ('w, unit) deploying" where
  "onLog env line = call (\<lambda>_. LogLine line) (de_onLog env line)"

definition ensureNetwork :: "'w docker_env \<Rightarrow> string \<Rightarrow> ('w, go_error option) deploying" where
  "ensureNetwork env name = call (\<lambda>_. EnsuredNetwork name) (de_EnsureNetwork env name)"

definition findByLabel :: "'w docker_env \<Rightarrow> string \<Rightarrow> string \<Rightarrow> ('w, string \<times> string \<times> go_error option) deploying" where
  "findByLabel env key value = call (\<lambda>r. FoundByLabel key value (fst r)) (de_FindContainerByLabel env key value)"

definition findByName :: "'w docker_env \<Rightarrow> string \<Rightarrow> ('w, string \<times> string \<times> go_error option) deploying" where
  "findByName env name = call (\<lambda>r. FoundByName name (fst r)) (de_FindContainerByName env name)"

definition stopAndRemove :: "'w docker_env \<Rightarrow> string \<Rightarrow> ('w, go_error option) deploying" where
  "stopAndRemove env cid = call (\<lambda>_. StoppedAndRemoved cid) (de_StopAndRemove env cid)"

definition pullImage :: "'w docker_env \<Rightarrow> string \<Rightarrow> (string \<times> string) option \<Rightarrow> ('w, string list \<times> go_error option) deploying" where
  "pullImage env img auth = call (\<lambda>_. Pulled img) (de_PullImage env img auth)"

definition runContainer :: "'w docker_env \<Rightarrow> RunOpts \<Rightarrow> ('w, string result) deploying" where
  "runContainer env ro = call (\<lambda>r. Ran ro r) (de_RunContainer env ro)"

definition ask :: "string \<Rightarrow> ('r, 'w) op \<Rightarrow> ('w, 'r) deploying" where
  "ask what f = call (\<lambda>_. Asked what) f"

text \<open>\<^verbatim>\<open>select { case <-ctx.Done(): ... case <-time.After(d): }\<close> and \<^verbatim>\<open>time.Sleep(d)\<close>.\<close>

definition waitOrDone :: "'w docker_env \<Rightarrow> int \<Rightarrow> ('w, go_error option) deploying" where
  "waitOrDone env d = State (\<lambda>s. case de_wait env d (rg_world s) of
     (None, late, w) \<Rightarrow> run_state (call_wait d (Waited d) (\<lambda>_. (None, late, w))) s
   | (Some err, late, w) \<Rightarrow> run_state (call (Waited d) (\<lambda>_. (Some err, late, w))) s)"

definition sleep :: "'w docker_env \<Rightarrow> int \<Rightarrow> ('w, unit) deploying" where
  "sleep env d = call_wait d (\<lambda>_. Waited d None) (de_sleep env d)"

lemma yields_waitOrDone: "(\<And>r. R r [Waited d r]) \<Longrightarrow> yields R (waitOrDone env d)"
  by (rule yieldsI)
    (auto simp: waitOrDone_def call_def call_wait_def split: prod.splits option.splits)

lemma yields_waitOrDone_then:
  assumes "\<And>r. yields (\<lambda>b evs. S b (Waited d r # evs)) (f r)"
  shows "yields S (State_Monad.bind (waitOrDone env d) f)"
  by (rule yields_bind [OF yields_waitOrDone [where R = "\<lambda>r evs. evs = [Waited d r]"]]) (simp_all add: assms)

lemma waitOrDone_clock:
  "run_state (waitOrDone env d) s = (None, s') \<Longrightarrow> rg_clock s + max 0 d \<le> rg_clock s'"
  by (auto simp: waitOrDone_def call_def call_wait_def split: prod.splits option.splits)

lemma emits_waitOrDone: "(\<And>r. P (Waited d r)) \<Longrightarrow> emits P (waitOrDone env d)"
  by (simp add: emits_def yields_waitOrDone)

lemmas op_defs = onProgress_def onLog_def ensureNetwork_def findByLabel_def findByName_def stopAndRemove_def
  pullImage_def runContainer_def ask_def sleep_def

lemma emits_ops:
  "P (Progress st m ci cn) \<Longrightarrow> emits P (onProgress env st m ci cn)"
  "P (LogLine l) \<Longrightarrow> emits P (onLog env l)"
  "P (EnsuredNetwork n) \<Longrightarrow> emits P (ensureNetwork env n)"
  "(\<And>r. P (FoundByLabel k v r)) \<Longrightarrow> emits P (findByLabel env k v)"
  "(\<And>r. P (FoundByName n r)) \<Longrightarrow> emits P (findByName env n)"
  "P (StoppedAndRemoved c) \<Longrightarrow> emits P (stopAndRemove env c)"
  "P (Pulled i) \<Longrightarrow> emits P (pullImage env i auth)"
  "(\<And>r. P (Ran ro r)) \<Longrightarrow> emits P (runContainer env ro)"
  "P (Asked w) \<Longrightarrow> emits P (ask w f)"
  "P (Waited d None) \<Longrightarrow> emits P (sleep env d)"
  unfolding op_defs by (rule emits_call emits_call_wait, simp)+

subsection \<open>Port probing\<close>

definition maxProbePorts :: nat where "maxProbePorts = 10"

definition JoinHostPort :: "string \<Rightarrow> string \<Rightarrow> string" where
  "JoinHostPort host port =
     (if Contains host '':'' then ''['' @ host @ '']:'' @ port else host @ '':'' @ port)"

definition ProbePort :: "'w docker_env \<Rightarrow> string \<Rightarrow> int \<Rightarrow> ('w, string) deploying" where
  "ProbePort env ip port = (let addr = JoinHostPort ip (show_int port) in do {
     connected \<leftarrow> ask ''dial'' (de_DialTCP env addr);
     if \<not> connected then State_Monad.return ''closed''
     else do {
       resp \<leftarrow> ask ''get'' (de_HTTPGet env (''http://'' @ addr @ ''/'') 3);
       (case resp of Inl err \<Rightarrow> State_Monad.return ''tcp'' | Inr status \<Rightarrow> State_Monad.return ''http'')
     }})"

fun probe_each :: "'w docker_env \<Rightarrow> string \<Rightarrow> int list \<Rightarrow> ('w, DiscoveredPort list) deploying" where
  "probe_each env ip [] = State_Monad.return []"
| "probe_each env ip (p # ps) = do {
     protocol \<leftarrow> ProbePort env ip p;
     rest \<leftarrow> probe_each env ip ps;
     State_Monad.return (\<lparr>dp_Port = p, dp_Protocol = protocol, dp_Source = ''probe''\<rparr> # rest)
   }"

definition unique_ports :: "int list \<Rightarrow> int list" where
  "unique_ports ports = take maxProbePorts (dedup_by (\<lambda>p. p > 0) [] ports)"

text \<open>
  The probes run in parallel and append their result when they finish: the order is the
  environment's choice, as long as it is an order of these ports.
\<close>

definition ProbeAllPorts :: "'w docker_env \<Rightarrow> string \<Rightarrow> int list \<Rightarrow> ('w, DiscoveredPort list) deploying" where
  "ProbeAllPorts env ip ports =
     (let unique = unique_ports ports in
      if unique = [] then State_Monad.return []
      else do {
        ord \<leftarrow> ask ''schedule'' (de_probeOrder env unique);
        probe_each env ip (if distinct ord \<and> set ord = set unique then ord else unique)
      })"

text \<open>\<^verbatim>\<open>autoDetectHealthPath\<close> and \<^verbatim>\<open>checkHTTPHealth\<close> of the deployer.\<close>

fun tryHealthPaths :: "'w docker_env \<Rightarrow> string \<Rightarrow> int \<Rightarrow> string list \<Rightarrow> ('w, string) deploying" where
  "tryHealthPaths env ip port [] = State_Monad.return []"
| "tryHealthPaths env ip port (path # paths) = do {
     resp \<leftarrow> ask ''get'' (de_HTTPGet env (''http://'' @ ip @ '':'' @ show_int port @ path) 3);
     (case resp of
        Inr status \<Rightarrow> if status \<ge> 200 \<and> status < 400 then State_Monad.return path else tryHealthPaths env ip port paths
      | Inl err \<Rightarrow> tryHealthPaths env ip port paths)
   }"

definition autoDetectHealthPath :: "'w docker_env \<Rightarrow> string \<Rightarrow> int \<Rightarrow> ('w, string) deploying" where
  "autoDetectHealthPath env ip port = tryHealthPaths env ip port [''/health'', ''/healthz'', ''/'']"

definition checkHTTPHealth :: "'w docker_env \<Rightarrow> string \<Rightarrow> int \<Rightarrow> ('w, bool) deploying" where
  "checkHTTPHealth env url timeoutSec = do {
     resp \<leftarrow> ask ''get'' (de_HTTPGet env url timeoutSec);
     State_Monad.return (case resp of Inl err \<Rightarrow> False | Inr status \<Rightarrow> status \<ge> 200 \<and> status < 400)
   }"

lemma emits_probes:
  assumes "\<And>w. P (Asked w)"
  shows "emits P (ProbePort env ip port)" "emits P (probe_each env ip ps)" "emits P (ProbeAllPorts env ip ps)"
    "emits P (tryHealthPaths env ip port paths)" "emits P (autoDetectHealthPath env ip port)"
    "emits P (checkHTTPHealth env url t)"
proof -
  have ask: "emits P (ask w f)" for w and f :: "('r, 'w) op" by (simp add: emits_ops assms)
  show pp: "emits P (ProbePort env ip port)" for port
    unfolding ProbePort_def Let_def by (intro emits_rules ask)
  show pe: "emits P (probe_each env ip ps)" for ps
    by (induction ps) (auto intro!: emits_rules pp)
  show "emits P (ProbeAllPorts env ip ps)"
    unfolding ProbeAllPorts_def Let_def by (intro emits_rules ask pe)
  show th: "emits P (tryHealthPaths env ip port paths)" for paths
    by (induction paths) (auto intro!: emits_rules ask)
  show "emits P (autoDetectHealthPath env ip port)" unfolding autoDetectHealthPath_def by (rule th)
  show "emits P (checkHTTPHealth env url t)"
    unfolding checkHTTPHealth_def by (intro emits_rules ask)
qed

lemma probe_each_ports: "yields (\<lambda>r evs. map dp_Port r = ps) (probe_each env ip ps)"
proof (induction ps)
  case (Cons p ps)
  have "emits (\<lambda>_. True) (ProbePort env ip p)" by (simp add: emits_probes)
  then show ?case
    unfolding probe_each.simps
    by (rule yields_prefix) (rule yields_bind [OF Cons.IH], rule yields_return, simp_all)
qed (simp add: yields_return)

text \<open>
  Probing examines at most ten ports, all positive and distinct, and reports each of them
  exactly once, whatever order the parallel probes finish in.
\<close>

theorem probe_results_exact:
  assumes "run_state (ProbeAllPorts env ip ports) s = (results, s')"
  shows "distinct (map dp_Port results) \<and> set (map dp_Port results) = set (unique_ports ports) \<and>
    length results \<le> 10 \<and> set (map dp_Port results) \<subseteq> {p \<in> set ports. 0 < p}"
proof -
  have d: "distinct (unique_ports ports)"
    by (simp add: unique_ports_def distinct_dedup_by)
  have len: "length (unique_ports ports) \<le> 10" by (simp add: unique_ports_def maxProbePorts_def)
  have sub: "set (unique_ports ports) \<subseteq> {p \<in> set ports. 0 < p}"
    using set_dedup_by [of "\<lambda>p. p > 0" "[]" ports] set_take_subset [of maxProbePorts "dedup_by (\<lambda>p. p > 0) [] ports"]
    by (auto simp: unique_ports_def)
  have "yields (\<lambda>r evs. distinct (map dp_Port r) \<and> set (map dp_Port r) = set (unique_ports ports)) (ProbeAllPorts env ip ports)"
  proof (cases "unique_ports ports = []")
    case True
    then show ?thesis by (simp add: ProbeAllPorts_def yields_return)
  next
    case False
    have e: "emits (\<lambda>_. True) (ask ''schedule'' (de_probeOrder env (unique_ports ports)))" by (simp add: emits_ops)
    show ?thesis
      unfolding ProbeAllPorts_def Let_def if_not_P [OF False]
    proof (rule yields_prefix [OF e])
      fix ord
      let ?ps = "if distinct ord \<and> set ord = set (unique_ports ports) then ord else unique_ports ports"
      show "yields (\<lambda>r evs. distinct (map dp_Port r) \<and> set (map dp_Port r) = set (unique_ports ports)) (probe_each env ip ?ps)"
        using d by (intro yields_mono [OF probe_each_ports]) simp
    qed
  qed
  from yields_run [OF this assms] have r: "distinct (map dp_Port results)" "set (map dp_Port results) = set (unique_ports ports)"
    by blast+
  have "length results = card (set (map dp_Port results))" using distinct_card [OF r(1)] by simp
  also have "\<dots> = length (unique_ports ports)" using distinct_card [OF d] r(2) by simp
  finally show ?thesis using r len sub by simp
qed

text \<open>
  A concrete environment for the witnesses: an old container, a daemon that starts \<open>run\<close>, a
  container that answers HTTP with \<open>status\<close>.  Its state is the number of waits that still go
  undisturbed before the context ends.
\<close>

definition sample_env :: "string \<Rightarrow> string \<Rightarrow> int \<Rightarrow> nat docker_env" where
  "sample_env old run status =
    \<lparr>de_onProgress = \<lambda>st m ci cn w. ((), 0, w), de_onLog = \<lambda>l w. ((), 0, w),
     de_EnsureNetwork = \<lambda>n w. (None, 0, w),
     de_FindContainerByLabel = \<lambda>k v w. ((old, [], None), 0, w),
     de_FindContainerByName = \<lambda>n w. (([], [], None), 0, w),
     de_StopAndRemove = \<lambda>c w. (None, 0, w),
     de_PullImage = \<lambda>i a w. (([], None), 0, w),
     de_InspectImage = \<lambda>i w. (Inl ''no such image'', 0, w),
     de_InspectContainer = \<lambda>c w. (Inl ''no such container'', 0, w),
     de_GetImageDigest = \<lambda>i w. (Inl ''none'', 0, w),
     de_GetHealthStatus = \<lambda>c w. (''none'', 0, w),
     de_GetStartupLogs = \<lambda>c n w. (Inr [], 0, w),
     de_GetContainerIP = \<lambda>c n w. (Inr ''10.0.0.2'', 0, w),
     de_EnsureVolumeOwnership = \<lambda>i v w. (None, 0, w),
     de_RunContainer = \<lambda>ro w. (Inr run, 0, w),
     de_FindTraefikContainer = \<lambda>w. ([], 0, w),
     de_ConnectToNetworkIfNeeded = \<lambda>c n w. (None, 0, w),
     de_DialTCP = \<lambda>a w. (True, 0, w),
     de_HTTPGet = \<lambda>u t w. (Inr status, 0, w),
     de_probeOrder = \<lambda>ps w. (rev ps, 0, w),
     de_tailscaleName = \<lambda>w. (Inl ''not connected'', 0, w),
     de_hexToken = \<lambda>w. (''00'', 0, w),
     de_wait = \<lambda>d w. (case w of 0 \<Rightarrow> (Some ''context canceled'', 0, 0) | Suc w' \<Rightarrow> (None, 0, w')),
     de_sleep = \<lambda>d w. ((), 0, w)\<rparr>"

definition start_rig :: "nat \<Rightarrow> (deploy_event, nat) rig" where
  "start_rig w = \<lparr>rg_world = w, rg_clock = 0, rg_trace = []\<rparr>"

lemma probe_results_exact_witness:
  "case run_state (ProbeAllPorts (sample_env [] [] 200) ''10.0.0.2'' [80, 8080, 0, 80]) (start_rig 0) of
     (results, s') \<Rightarrow> distinct (map dp_Port results) \<and> set (map dp_Port results) = {80, 8080} \<and> length results = 2"
proof -
  obtain results s' where run: "run_state (ProbeAllPorts (sample_env [] [] 200) ''10.0.0.2'' [80, 8080, 0, 80]) (start_rig 0)
      = (results, s')" by fastforce
  have u: "unique_ports [80, 8080, 0, 80] = [80, 8080]" by (simp add: unique_ports_def maxProbePorts_def)
  note exact = probe_results_exact [OF run, unfolded u]
  then have "card (set (map dp_Port results)) = length results" using distinct_card [of "map dp_Port results"] by simp
  with exact have "length results = 2" by simp
  with exact run show ?thesis by simp
qed

end
