(* ===== verification/Docker_Client.thy ===== *)
theory Docker_Client
  imports Effects Docker_Types Go_Strings "HOL-Library.Multiset"
begin

text \<open>
  The Docker manager (\<^verbatim>\<open>internal/docker/client.go\<close>): one computation per method, over the
  calls of the Docker SDK it makes.  The SDK is a parameter, the record \<open>docker_sdk\<close>: any
  behaviour of the daemon is one such record.  Every request that changes the daemon's state is
  an event of the trace.
\<close>

text \<open>What \<^verbatim>\<open>ContainerCreate\<close> is asked for.\<close>

record container_request =
  rq_Image :: string
  rq_Name :: string
  rq_Env :: "string list"
  rq_Labels :: go_map
  rq_ExposedPort :: string
  rq_Cmd :: "string list"
  rq_Entrypoint :: "string list"
  rq_User :: string
  rq_Healthcheck :: "HealthConfig option"
  rq_NanoCPUs :: int
  rq_Memory :: int
  rq_PidsLimit :: int
  rq_RestartPolicy :: string
  rq_Mounts :: "(string \<times> string) list"   \<comment> \<open>volume name and target\<close>
  rq_CapDrop :: "string list"
  rq_CapAdd :: "string list"
  rq_SecurityOpt :: "string list"
  rq_Networks :: "(string \<times> string list) list"

record sdk_container =
  sc_ID :: string
  sc_Names :: "string list"
  sc_State :: string
  sc_Image :: string
  sc_Labels :: go_map

record sdk_image =
  si_ID :: string
  si_RepoTags :: "string list"
  si_Created :: int
  si_Size :: int

record sdk_inspect =
  sx_Networks :: "(string \<times> string) list"   \<comment> \<open>network name and IP address, in iteration order\<close>
  sx_IPAddress :: string

record sdk_network =
  sn_ID :: string
  sn_Name :: string
  sn_Containers :: "string list"

datatype daemon_event =
    Created container_request "string result"
  | Started string
  | Stopped string
  | Restarted string
  | Removed string
  | NetworkCreated string
  | NetworkRemoved string
  | NetworkConnected string string
  | ImageRemoved string
  | VolumeRemoved string
  | Queried string

record 'w docker_sdk =
  sdk_ContainerCreate :: "container_request \<Rightarrow> (string result, 'w) op"
  sdk_ContainerStart :: "string \<Rightarrow> (go_error option, 'w) op"
  sdk_ContainerStop :: "string \<Rightarrow> (go_error option, 'w) op"
  sdk_ContainerRestart :: "string \<Rightarrow> (go_error option, 'w) op"
  sdk_ContainerRemove :: "string \<Rightarrow> (go_error option, 'w) op"
  sdk_ContainerWait :: "string \<Rightarrow> (int result, 'w) op"
  sdk_ContainerList :: "bool \<Rightarrow> string \<Rightarrow> string \<Rightarrow> (sdk_container list result, 'w) op"
  sdk_ContainerInspect :: "string \<Rightarrow> (sdk_inspect result, 'w) op"
  sdk_ImageList :: "(sdk_image list result, 'w) op"
  sdk_ImageUser :: "string \<Rightarrow> (string result, 'w) op"
  sdk_ImageSize :: "string \<Rightarrow> (int result, 'w) op"
  sdk_ImageRemove :: "string \<Rightarrow> (go_error option, 'w) op"
  sdk_NetworkCreate :: "string \<Rightarrow> (go_error option, 'w) op"
  sdk_NetworkList :: "(sdk_network list result, 'w) op"
  sdk_NetworkInspect :: "string \<Rightarrow> (sdk_network result, 'w) op"
  sdk_NetworkRemove :: "string \<Rightarrow> (go_error option, 'w) op"
  sdk_NetworkConnect :: "string \<Rightarrow> string \<Rightarrow> (go_error option, 'w) op"
  sdk_VolumeRemove :: "string \<Rightarrow> (go_error option, 'w) op"

type_synonym ('w, 'a) daemon = "(daemon_event, 'w, 'a) rigged"

definition query :: "string \<Rightarrow> ('r, 'w) op \<Rightarrow> ('w, 'r) daemon" where
  "query what f = call (\<lambda>_. Queried what) f"

subsection \<open>Mounts\<close>

definition blockedMountPaths :: "string list" where
  "blockedMountPaths = [''/var/run'', ''/proc'', ''/sys'', ''/dev'', ''/etc'', ''/root'', ''/boot'', ''/lib'', ''/sbin'', ''/bin'']"

definition IsValidMountPath :: "string \<Rightarrow> bool" where
  "IsValidMountPath path \<longleftrightarrow>
     \<not> (\<not> HasPrefix path ''/'' \<or> Contains path ''..'') \<and>
     \<not> list_ex (\<lambda>blocked. path = blocked \<or> HasPrefix path (blocked @ ''/'')) blockedMountPaths"

fun build_mounts :: "VolumeMount list \<Rightarrow> (string \<times> string) list result" where
  "build_mounts [] = Inr []"
| "build_mounts (vol # vols) =
     (if \<not> IsValidMountPath (vm_MountPath vol) then Inl (''invalid volume mount path: '' @ vm_MountPath vol)
      else case build_mounts vols of
          Inl err \<Rightarrow> Inl err
        | Inr mounts \<Rightarrow> Inr ((vm_Name vol, vm_MountPath vol) # mounts))"

subsection \<open>Containers\<close>

text \<open>
  The environment slice follows Go's map iteration; \<open>keys\<close> is the order it visits the variables in.
\<close>

definition env_slice :: "string list \<Rightarrow> go_map \<Rightarrow> string list" where
  "env_slice keys m = concat (map (\<lambda>k. case m k of None \<Rightarrow> [] | Some v \<Rightarrow> [k @ ''='' @ v]) keys)"

definition container_request_of :: "string list \<Rightarrow> RunOpts \<Rightarrow> container_request result" where
  "container_request_of keys opts =
     (case build_mounts (ro_Volumes opts) of
        Inl err \<Rightarrow> Inl err
      | Inr mounts \<Rightarrow> Inr
          \<lparr>rq_Image = ro_Image opts, rq_Name = ro_Name opts, rq_Env = env_slice keys (ro_Env opts),
           rq_Labels = ro_Labels opts, rq_ExposedPort = show_int (ro_Port opts) @ ''/tcp'',
           rq_Cmd = ro_Command opts, rq_Entrypoint = ro_Entrypoint opts, rq_User = [],
           rq_Healthcheck = ro_Healthcheck opts,
           rq_NanoCPUs = (if ro_CPULimit opts > 0 then \<lfloor>ro_CPULimit opts * 1000000000\<rfloor> else 0),
           rq_Memory = (if ro_MemoryLimitMB opts > 0 then ro_MemoryLimitMB opts * 1024 * 1024 else 0),
           rq_PidsLimit = 512, rq_RestartPolicy = ''unless-stopped'', rq_Mounts = mounts,
           rq_CapDrop = [''ALL''],
           rq_CapAdd = [''CHOWN'', ''DAC_OVERRIDE'', ''FOWNER'', ''FSETID'', ''KILL'', ''SETGID'', ''SETUID'', ''NET_BIND_SERVICE''],
           rq_SecurityOpt = [''no-new-privileges''],
           rq_Networks = (if ro_Network opts \<noteq> []
             then [(ro_Network opts, if ro_NetworkAlias opts \<noteq> [] then [ro_NetworkAlias opts] else [])] else [])\<rparr>)"

definition RunContainer :: "'w docker_sdk \<Rightarrow> string list \<Rightarrow> RunOpts \<Rightarrow> ('w, string result) daemon" where
  "RunContainer sdk keys opts =
     (case container_request_of keys opts of
        Inl err \<Rightarrow> State_Monad.return (Inl err)
      | Inr rq \<Rightarrow> do {
          resp \<leftarrow> call (Created rq) (sdk_ContainerCreate sdk rq);
          (case resp of
             Inl err \<Rightarrow> State_Monad.return (Inl (''creating container '' @ ro_Name opts @ '': '' @ err))
           | Inr cid \<Rightarrow> do {
               started \<leftarrow> call (\<lambda>_. Started cid) (sdk_ContainerStart sdk cid);
               (case started of
                  Some err \<Rightarrow> do {
                    _ \<leftarrow> call (\<lambda>_. Removed cid) (sdk_ContainerRemove sdk cid);
                    State_Monad.return (Inl (''starting container '' @ ro_Name opts @ '': '' @ err)) }
                | None \<Rightarrow> State_Monad.return (Inr cid)) })
        })"

definition StopAndRemove :: "'w docker_sdk \<Rightarrow> string \<Rightarrow> ('w, go_error option) daemon" where
  "StopAndRemove sdk cid = do {
     _ \<leftarrow> call (\<lambda>_. Stopped cid) (sdk_ContainerStop sdk cid);
     call (\<lambda>_. Removed cid) (sdk_ContainerRemove sdk cid)
   }"

definition StopContainer :: "'w docker_sdk \<Rightarrow> string \<Rightarrow> ('w, go_error option) daemon" where
  "StopContainer sdk cid = call (\<lambda>_. Stopped cid) (sdk_ContainerStop sdk cid)"

definition StartContainer :: "'w docker_sdk \<Rightarrow> string \<Rightarrow> ('w, go_error option) daemon" where
  "StartContainer sdk cid = call (\<lambda>_. Started cid) (sdk_ContainerStart sdk cid)"

definition RestartContainer :: "'w docker_sdk \<Rightarrow> string \<Rightarrow> ('w, go_error option) daemon" where
  "RestartContainer sdk cid = call (\<lambda>_. Restarted cid) (sdk_ContainerRestart sdk cid)"

definition container_name :: "sdk_container \<Rightarrow> string" where
  "container_name c = (if length (sc_Names c) > 0 then TrimPrefix (sc_Names c ! 0) ''/'' else [])"

text \<open>Identifier, name and error; the list comes from the daemon in its own order.\<close>

definition find_first :: "string \<Rightarrow> sdk_container list result \<Rightarrow> string \<times> string \<times> go_error option" where
  "find_first what r = (case r of
     Inl err \<Rightarrow> ([], [], Some (what @ err))
   | Inr [] \<Rightarrow> ([], [], None)
   | Inr (c # cs) \<Rightarrow> (sc_ID c, container_name c, None))"

definition FindContainerByLabel :: "'w docker_sdk \<Rightarrow> string \<Rightarrow> string \<Rightarrow> ('w, string \<times> string \<times> go_error option) daemon" where
  "FindContainerByLabel sdk key value = do {
     r \<leftarrow> query ''ContainerList'' (sdk_ContainerList sdk False ''label'' (key @ ''='' @ value));
     State_Monad.return (find_first ''listing containers by label: '' r) }"

definition FindContainerByName :: "'w docker_sdk \<Rightarrow> string \<Rightarrow> ('w, string \<times> string \<times> go_error option) daemon" where
  "FindContainerByName sdk name = do {
     r \<leftarrow> query ''ContainerList'' (sdk_ContainerList sdk True ''name'' (''^/'' @ name @ ''$''));
     State_Monad.return (find_first ''listing containers by name: '' r) }"

definition container_info :: "sdk_container \<Rightarrow> ContainerInfo" where
  "container_info c = \<lparr>cn_ContainerID = sc_ID c, cn_Name = container_name c, cn_State = sc_State c,
     cn_Image = sc_Image c, cn_Labels = sc_Labels c\<rparr>"

definition ListContainersByLabel :: "'w docker_sdk \<Rightarrow> string \<Rightarrow> string \<Rightarrow> ('w, ContainerInfo list result) daemon" where
  "ListContainersByLabel sdk key value = do {
     r \<leftarrow> query ''ContainerList'' (sdk_ContainerList sdk True ''label'' (key @ ''='' @ value));
     State_Monad.return (case r of
       Inl err \<Rightarrow> Inl (''listing containers by label '' @ key @ ''='' @ value @ '': '' @ err)
     | Inr cs \<Rightarrow> Inr (map container_info cs)) }"

definition FindTraefikContainer :: "'w docker_sdk \<Rightarrow> ('w, string) daemon" where
  "FindTraefikContainer sdk = do {
     r \<leftarrow> query ''ContainerList'' (sdk_ContainerList sdk False ''label'' ''clank.traefik=true'');
     State_Monad.return (case r of Inr (c # cs) \<Rightarrow> sc_ID c | _ \<Rightarrow> []) }"

text \<open>\<^verbatim>\<open>GetContainerIP\<close> on the inspection the daemon returned.\<close>

definition pick_ip :: "string \<Rightarrow> string \<Rightarrow> sdk_inspect \<Rightarrow> string result" where
  "pick_ip cid networkName i =
     (case (if networkName \<noteq> [] then map_of (sx_Networks i) networkName else None) of
        Some ip \<Rightarrow> if ip \<noteq> [] then Inr ip else
          (if sx_IPAddress i \<noteq> [] then Inr (sx_IPAddress i)
           else case first_match (\<lambda>e. snd e \<noteq> []) (sx_Networks i) of
               Some e \<Rightarrow> Inr (snd e) | None \<Rightarrow> Inl (''no IP address found for container '' @ cid))
      | None \<Rightarrow>
          (if sx_IPAddress i \<noteq> [] then Inr (sx_IPAddress i)
           else case first_match (\<lambda>e. snd e \<noteq> []) (sx_Networks i) of
               Some e \<Rightarrow> Inr (snd e) | None \<Rightarrow> Inl (''no IP address found for container '' @ cid)))"

definition GetContainerIP :: "'w docker_sdk \<Rightarrow> string \<Rightarrow> string \<Rightarrow> ('w, string result) daemon" where
  "GetContainerIP sdk cid networkName = do {
     r \<leftarrow> query ''ContainerInspect'' (sdk_ContainerInspect sdk cid);
     State_Monad.return (case r of
       Inl err \<Rightarrow> Inl (''inspecting container: '' @ err)
     | Inr i \<Rightarrow> pick_ip cid networkName i) }"

subsection \<open>Networks and volumes\<close>

definition EnsureNetwork :: "'w docker_sdk \<Rightarrow> string \<Rightarrow> ('w, go_error option) daemon" where
  "EnsureNetwork sdk name = do {
     err \<leftarrow> call (\<lambda>_. NetworkCreated name) (sdk_NetworkCreate sdk name);
     State_Monad.return (case err of
       None \<Rightarrow> None
     | Some e \<Rightarrow> if Contains e ''already exists'' then None
         else Some (''creating network '' @ name @ '': '' @ e)) }"

definition ListClankProjectNetworks :: "'w docker_sdk \<Rightarrow> ('w, NetworkInfo list result) daemon" where
  "ListClankProjectNetworks sdk = do {
     r \<leftarrow> query ''NetworkList'' (sdk_NetworkList sdk);
     State_Monad.return (case r of
       Inl err \<Rightarrow> Inl (''listing networks: '' @ err)
     | Inr ns \<Rightarrow> Inr (map (\<lambda>n. \<lparr>ni_ID = sn_ID n, ni_Name = sn_Name n\<rparr>)
         (filter (\<lambda>n. HasPrefix (sn_Name n) ''clank-project-'') ns))) }"

definition RemoveNetworkIfEmpty :: "'w docker_sdk \<Rightarrow> string \<Rightarrow> ('w, bool \<times> go_error option) daemon" where
  "RemoveNetworkIfEmpty sdk networkID = do {
     r \<leftarrow> query ''NetworkInspect'' (sdk_NetworkInspect sdk networkID);
     (case r of
        Inl err \<Rightarrow> State_Monad.return
          (if Contains err ''not found'' then (False, None) else (False, Some (''inspecting network: '' @ err)))
      | Inr n \<Rightarrow>
          if length (sn_Containers n) > 0 then State_Monad.return (False, None)
          else do {
            err \<leftarrow> call (\<lambda>_. NetworkRemoved networkID) (sdk_NetworkRemove sdk networkID);
            State_Monad.return (case err of
              None \<Rightarrow> (True, None)
            | Some e \<Rightarrow> if Contains e ''not found'' then (False, None)
                else (False, Some (''removing network '' @ sn_Name n @ '': '' @ e))) })
   }"

definition ConnectToNetworkIfNeeded :: "'w docker_sdk \<Rightarrow> string \<Rightarrow> string \<Rightarrow> ('w, go_error option) daemon" where
  "ConnectToNetworkIfNeeded sdk cid networkName = do {
     r \<leftarrow> query ''ContainerInspect'' (sdk_ContainerInspect sdk cid);
     (case r of
        Inl err \<Rightarrow> State_Monad.return (Some (''inspecting container: '' @ err))
      | Inr i \<Rightarrow> if map_of (sx_Networks i) networkName \<noteq> None then State_Monad.return None
          else call (\<lambda>_. NetworkConnected networkName cid) (sdk_NetworkConnect sdk networkName cid)) }"

definition RemoveVolume :: "'w docker_sdk \<Rightarrow> string \<Rightarrow> ('w, go_error option) daemon" where
  "RemoveVolume sdk name = call (\<lambda>_. VolumeRemoved name) (sdk_VolumeRemove sdk name)"

text \<open>\<open>pid\<close> is the process id the init container is named after; the exit status only reaches the log.\<close>

definition init_request :: "string \<Rightarrow> string \<Rightarrow> VolumeMount list \<Rightarrow> int \<Rightarrow> container_request" where
  "init_request imageName imgUser volumes pid =
     \<lparr>rq_Image = imageName, rq_Name = ''clank-vol-init-'' @ show_int pid, rq_Env = [], rq_Labels = Map.empty,
      rq_ExposedPort = [], rq_Cmd = [],
      rq_Entrypoint = [''/bin/sh'', ''-c'', ''chown -R '' @ imgUser @ '' '' @ Join '' '' (map vm_MountPath volumes)],
      rq_User = ''root'', rq_Healthcheck = None, rq_NanoCPUs = 0, rq_Memory = 0, rq_PidsLimit = 0,
      rq_RestartPolicy = [], rq_Mounts = map (\<lambda>v. (vm_Name v, vm_MountPath v)) volumes,
      rq_CapDrop = [], rq_CapAdd = [], rq_SecurityOpt = [], rq_Networks = []\<rparr>"

definition EnsureVolumeOwnership :: "'w docker_sdk \<Rightarrow> int \<Rightarrow> string \<Rightarrow> VolumeMount list \<Rightarrow> ('w, go_error option) daemon" where
  "EnsureVolumeOwnership sdk pid imageName volumes =
     (if length volumes = 0 then State_Monad.return None
      else do {
        r \<leftarrow> query ''ImageInspect'' (sdk_ImageUser sdk imageName);
        (case r of
           Inl err \<Rightarrow> State_Monad.return None
         | Inr imgUser \<Rightarrow>
             if imgUser \<in> {[], ''root'', ''0'', ''0:0''} then State_Monad.return None
             else do {
               resp \<leftarrow> call (Created (init_request imageName imgUser volumes pid))
                 (sdk_ContainerCreate sdk (init_request imageName imgUser volumes pid));
               (case resp of
                  Inl err \<Rightarrow> State_Monad.return None
                | Inr cid \<Rightarrow> do {
                    started \<leftarrow> call (\<lambda>_. Started cid) (sdk_ContainerStart sdk cid);
                    _ \<leftarrow> (if started = None then query ''ContainerWait'' (sdk_ContainerWait sdk cid)
                          else State_Monad.return (Inr 0));
                    _ \<leftarrow> call (\<lambda>_. Removed cid) (sdk_ContainerRemove sdk cid);
                    State_Monad.return None }) }) })"

subsection \<open>Images\<close>

type_synonym tagged_image = "string \<times> int"   \<comment> \<open>tag and creation time\<close>

definition slug_prefix :: "string \<Rightarrow> string" where
  "slug_prefix slug = ''clank-'' @ slug @ '':''"

definition tagged_images :: "string \<Rightarrow> sdk_image list \<Rightarrow> tagged_image list" where
  "tagged_images tagPrefix imgs =
     concat (map (\<lambda>img. map (\<lambda>tag. (tag, si_Created img)) (filter (\<lambda>tag. HasPrefix tag tagPrefix) (si_RepoTags img))) imgs)"

fun newest_image :: "tagged_image \<Rightarrow> tagged_image list \<Rightarrow> tagged_image" where
  "newest_image best [] = best"
| "newest_image best (x # xs) = newest_image (if snd x > snd best then x else best) xs"

definition LatestImageForSlug :: "'w docker_sdk \<Rightarrow> string \<Rightarrow> ('w, string) daemon" where
  "LatestImageForSlug sdk slug = do {
     r \<leftarrow> query ''ImageList'' (sdk_ImageList sdk);
     State_Monad.return (case r of
       Inl err \<Rightarrow> []
     | Inr imgs \<Rightarrow> fst (newest_image ([], 0) (tagged_images (slug_prefix slug) imgs))) }"

fun remove_images :: "'w docker_sdk \<Rightarrow> string list \<Rightarrow> ('w, nat) daemon" where
  "remove_images sdk [] = State_Monad.return 0"
| "remove_images sdk (tag # tags) = do {
     err \<leftarrow> call (\<lambda>_. ImageRemoved tag) (sdk_ImageRemove sdk tag);
     n \<leftarrow> remove_images sdk tags;
     State_Monad.return (if err = None then Suc n else n) }"

text \<open>Images of equal age may be pruned in any order; the model keeps the daemon's.\<close>

definition prune_targets :: "string \<Rightarrow> nat \<Rightarrow> sdk_image list \<Rightarrow> tagged_image list" where
  "prune_targets slug keep imgs =
     (let matched = tagged_images (slug_prefix slug) imgs in
      if length matched \<le> keep then [] else drop keep (sort_key (\<lambda>t. - snd t) matched))"

definition PruneServiceImages :: "'w docker_sdk \<Rightarrow> string \<Rightarrow> nat \<Rightarrow> ('w, nat result) daemon" where
  "PruneServiceImages sdk slug keep = do {
     r \<leftarrow> query ''ImageList'' (sdk_ImageList sdk);
     (case r of
        Inl err \<Rightarrow> State_Monad.return (Inl (''listing images: '' @ err))
      | Inr imgs \<Rightarrow> do {
          n \<leftarrow> remove_images sdk (map fst (prune_targets slug keep imgs));
          State_Monad.return (Inr n) }) }"

definition RemoveImages :: "'w docker_sdk \<Rightarrow> string \<Rightarrow> ('w, unit) daemon" where
  "RemoveImages sdk tagPrefix = do {
     r \<leftarrow> query ''ImageList'' (sdk_ImageList sdk);
     (case r of
        Inl err \<Rightarrow> State_Monad.return ()
      | Inr imgs \<Rightarrow> do {
          _ \<leftarrow> remove_images sdk (map fst (tagged_images tagPrefix imgs));
          State_Monad.return () }) }"

definition largest_size :: "string \<Rightarrow> int \<Rightarrow> sdk_image list \<Rightarrow> int" where
  "largest_size tagPrefix best imgs = fold (\<lambda>img b.
     if list_ex (\<lambda>tag. HasPrefix tag tagPrefix) (si_RepoTags img) \<and> si_Size img > b then si_Size img else b) imgs best"

definition EstimateImageSize :: "'w docker_sdk \<Rightarrow> string \<Rightarrow> string \<Rightarrow> ('w, int \<times> go_error option) daemon" where
  "EstimateImageSize sdk imageRef serviceSlug = do {
     inspected \<leftarrow> (if imageRef \<noteq> [] then query ''ImageInspect'' (sdk_ImageSize sdk imageRef)
       else State_Monad.return (Inr 0));
     let best = (case inspected of Inr bytes \<Rightarrow> if bytes > 0 then bytes else 0 | Inl err \<Rightarrow> 0);
     (if serviceSlug = [] then State_Monad.return (best, None)
      else do {
        r \<leftarrow> query ''ImageList'' (sdk_ImageList sdk);
        State_Monad.return (case r of
          Inl err \<Rightarrow> (best, Some (''listing images: '' @ err))
        | Inr imgs \<Rightarrow> (largest_size (slug_prefix serviceSlug) best imgs, None)) }) }"

subsection \<open>Properties\<close>

lemma build_mounts_valid:
  "build_mounts vols = Inr mounts \<Longrightarrow> mounts = map (\<lambda>v. (vm_Name v, vm_MountPath v)) vols \<and>
     (\<forall>v \<in> set vols. IsValidMountPath (vm_MountPath v))"
  by (induction vols arbitrary: mounts) (auto split: if_splits sum.splits)

definition hardened :: "container_request \<Rightarrow> bool" where
  "hardened rq \<longleftrightarrow> rq_CapDrop rq = [''ALL''] \<and> rq_PidsLimit rq = 512 \<and> ''no-new-privileges'' \<in> set (rq_SecurityOpt rq) \<and>
     ''NET_RAW'' \<notin> set (rq_CapAdd rq) \<and> ''SYS_ADMIN'' \<notin> set (rq_CapAdd rq) \<and>
     (\<forall>m \<in> set (rq_Mounts rq). IsValidMountPath (snd m))"

lemma container_request_hardened: "container_request_of keys opts = Inr rq \<Longrightarrow> hardened rq"
  by (auto simp: container_request_of_def hardened_def dest!: build_mounts_valid split: sum.splits)


text \<open>What \<^verbatim>\<open>RunContainer\<close> owes its caller.\<close>

fun run_outcome :: "string result \<Rightarrow> daemon_event list \<Rightarrow> bool" where
  "run_outcome (Inl err) evs \<longleftrightarrow> (\<forall>rq cid. Created rq (Inr cid) \<in> set evs \<longrightarrow> Removed cid \<in> set evs)"
| "run_outcome (Inr cid) evs \<longleftrightarrow>
     (\<exists>rq. Created rq (Inr cid) \<in> set evs) \<and> Started cid \<in> set evs \<and> Removed cid \<notin> set evs"

text \<open>
  C12. Starting a container cleans up after itself: when it fails after the container was created, the
  removal of the container is asked for (what the daemon answers to that is ignored); when it succeeds, the
  returned container was created and started, and its removal was not asked for.
\<close>

theorem run_container_cleans_up: "yields run_outcome (RunContainer sdk keys opts)"
  unfolding RunContainer_def by (intro yields_rules) auto

lemma removes_nonempty_never:
  assumes "\<And>w. \<exists>n. fst (sdk_NetworkInspect sdk nid w) = Inr n \<and> sn_Containers n \<noteq> []"
  shows "emits (\<lambda>e. e = Queried ''NetworkInspect'') (RemoveNetworkIfEmpty sdk nid)"
proof -
  have "yields (\<lambda>r evs. (\<exists>n. r = Inr n \<and> sn_Containers n \<noteq> []) \<and> evs = [Queried ''NetworkInspect''])
      (query ''NetworkInspect'' (sdk_NetworkInspect sdk nid))"
    using assms unfolding query_def yields_def call_def by (auto split: prod.splits) (metis fst_conv)
  then show ?thesis
    unfolding RemoveNetworkIfEmpty_def emits_def
    by (rule yields_bind) (auto intro!: yields_return)
qed

text \<open>
  A network that still has containers is never removed: the only thing asked of the daemon is the
  inspection.
\<close>

theorem network_in_use_kept:
  assumes "\<And>w. \<exists>n. fst (sdk_NetworkInspect sdk nid w) = Inr n \<and> sn_Containers n \<noteq> []"
  shows "emits (\<lambda>e. e = Queried ''NetworkInspect'') (RemoveNetworkIfEmpty sdk nid)"
  by (rule removes_nonempty_never) (rule assms)

lemma set_prune: "set (prune_targets slug keep imgs) \<subseteq> set (tagged_images (slug_prefix slug) imgs)"
  by (auto simp: prune_targets_def Let_def dest: in_set_dropD)

lemma tagged_images_prefix: "t \<in> set (tagged_images p imgs) \<Longrightarrow> HasPrefix (fst t) p"
  by (auto simp: tagged_images_def)

definition prune_split :: "nat \<Rightarrow> tagged_image list \<Rightarrow> tagged_image list \<Rightarrow> bool" where
  "prune_split keep matched gone \<longleftrightarrow>
     (\<exists>kept. mset kept + mset gone = mset matched \<and> length kept = min keep (length matched) \<and>
       list_all (\<lambda>g. list_all (\<lambda>k. snd g \<le> snd k) kept) gone)"

text \<open>
  Pruning splits a service's images into those removed and those kept: it removes none while
  there are at most \<open>keep\<close>, otherwise exactly \<open>keep\<close> stay, and no image that goes is newer than one
  that stays.
\<close>

theorem prune_keeps_newest: "prune_split keep (tagged_images (slug_prefix slug) imgs) (prune_targets slug keep imgs)"
proof -
  define matched where "matched = tagged_images (slug_prefix slug) imgs"
  show ?thesis
  proof (cases "length matched \<le> keep")
    case True
    then show ?thesis unfolding prune_split_def
      by (intro exI [of _ matched]) (simp add: prune_targets_def matched_def)
  next
    case False
    define sorted where "sorted = sort_key (\<lambda>t. - snd t) matched"
    have gone: "prune_targets slug keep imgs = drop keep sorted"
      using False by (simp add: prune_targets_def matched_def sorted_def)
    have "mset (take keep sorted) + mset (drop keep sorted) = mset matched"
      by (simp add: sorted_def flip: mset_append)
    moreover have "length (take keep sorted) = min keep (length matched)" by (simp add: sorted_def)
    moreover have "list_all (\<lambda>g. list_all (\<lambda>k. snd g \<le> snd k) (take keep sorted)) (drop keep sorted)"
    proof -
      have "sorted_wrt (\<lambda>a b. snd b \<le> snd a) sorted"
        using sorted_sort_key [of "\<lambda>t. - snd t" matched] by (simp add: sorted_def sorted_map)
      then have "sorted_wrt (\<lambda>a b. snd b \<le> snd a) (take keep sorted @ drop keep sorted)" by simp
      then show ?thesis unfolding sorted_wrt_append by (auto simp: list_all_iff)
    qed
    ultimately show ?thesis unfolding prune_split_def gone matched_def by blast
  qed
qed

lemma emits_remove_images:
  "emits (\<lambda>e. \<exists>t \<in> set tags. e = ImageRemoved t) (remove_images sdk tags)"
proof (induction tags)
  case (Cons t tags)
  have "emits (\<lambda>e. \<exists>t' \<in> set (t # tags). e = ImageRemoved t') (remove_images sdk tags)"
    by (rule emits_mono [OF Cons.IH]) auto
  then show ?case unfolding remove_images.simps by (intro emits_rules) auto
qed (simp add: emits_return)

definition image_event :: "string \<Rightarrow> daemon_event \<Rightarrow> bool" where
  "image_event slug e \<longleftrightarrow> e = Queried ''ImageList'' \<or> (\<exists>tag. e = ImageRemoved (''clank-'' @ slug @ '':'' @ tag))"

lemma emits_remove_tagged:
  assumes "set ts \<subseteq> set (tagged_images (slug_prefix slug) imgs)"
  shows "emits (image_event slug) (remove_images sdk (map fst ts))"
proof (rule emits_mono [OF emits_remove_images])
  fix e assume "\<exists>t \<in> set (map fst ts). e = ImageRemoved t"
  with assms obtain t where "t \<in> set (tagged_images (slug_prefix slug) imgs)" "e = ImageRemoved (fst t)" by auto
  with tagged_images_prefix [OF this(1)] show "image_event slug e" by (auto simp: HasPrefix_iff slug_prefix_def image_event_def)
qed

lemma emits_PruneServiceImages: "emits (image_event slug) (PruneServiceImages sdk slug keep)"
  unfolding PruneServiceImages_def query_def by (intro emits_rules emits_remove_tagged [OF set_prune]) (simp add: image_event_def)

lemma emits_RemoveImages: "emits (image_event slug) (RemoveImages sdk (slug_prefix slug))"
  unfolding RemoveImages_def query_def by (intro emits_rules emits_remove_tagged [OF subset_refl]) (simp add: image_event_def)

text \<open>
  C27. Pruning a service, or removing its images, touches only images tagged for that service, and
  nothing else on the host.
\<close>

theorem image_removal_scoped:
  "emits (\<lambda>e. e = Queried ''ImageList'' \<or> (\<exists>tag. e = ImageRemoved (''clank-'' @ slug @ '':'' @ tag))) (PruneServiceImages sdk slug keep) \<and>
   emits (\<lambda>e. e = Queried ''ImageList'' \<or> (\<exists>tag. e = ImageRemoved (''clank-'' @ slug @ '':'' @ tag))) (RemoveImages sdk (slug_prefix slug))"
  using emits_PruneServiceImages [of slug sdk keep] emits_RemoveImages [of slug sdk] unfolding image_event_def by blast

definition no_container_left :: "daemon_event list \<Rightarrow> bool" where
  "no_container_left evs \<longleftrightarrow> (\<forall>rq cid. Created rq (Inr cid) \<in> set evs \<longrightarrow> Removed cid \<in> set evs)"

text \<open>
  The init container that fixes volume ownership never outlives the call.
\<close>

theorem init_container_removed: "yields (\<lambda>r evs. r = None \<and> no_container_left evs) (EnsureVolumeOwnership sdk pid img vols)"
  unfolding EnsureVolumeOwnership_def query_def
  by (intro yields_rules) (auto simp: no_container_left_def intro!: yields_rules)

text \<open>
  The mount check compares texts, not paths: it refuses \<open>/etc\<close> but accepts \<open>//etc\<close> and
  \<open>/./etc\<close>, which Docker mounts at the same place.
\<close>

theorem mount_check_is_textual:
  "\<not> IsValidMountPath ''/etc'' \<and> IsValidMountPath ''//etc'' \<and> IsValidMountPath ''/./etc'' \<and> IsValidMountPath ''/''"
  by (simp add: IsValidMountPath_def blockedMountPaths_def)

subsection \<open>Witnesses\<close>

definition some_network :: sdk_network where
  "some_network = \<lparr>sn_ID = ''n1'', sn_Name = ''clank-project-a'', sn_Containers = [''c1'']\<rparr>"

definition sdk0 :: "unit docker_sdk" where
  "sdk0 = \<lparr>sdk_ContainerCreate = (\<lambda>rq w. (Inr ''c1'', 0, w)), sdk_ContainerStart = (\<lambda>c w. (None, 0, w)),
     sdk_ContainerStop = (\<lambda>c w. (None, 0, w)), sdk_ContainerRestart = (\<lambda>c w. (None, 0, w)),
     sdk_ContainerRemove = (\<lambda>c w. (None, 0, w)), sdk_ContainerWait = (\<lambda>c w. (Inr 0, 0, w)),
     sdk_ContainerList = (\<lambda>a k v w. (Inr [], 0, w)),
     sdk_ContainerInspect = (\<lambda>c w. (Inr \<lparr>sx_Networks = [], sx_IPAddress = []\<rparr>, 0, w)),
     sdk_ImageList = (\<lambda>w. (Inr [], 0, w)), sdk_ImageUser = (\<lambda>i w. (Inr [], 0, w)),
     sdk_ImageSize = (\<lambda>i w. (Inr 0, 0, w)), sdk_ImageRemove = (\<lambda>i w. (None, 0, w)),
     sdk_NetworkCreate = (\<lambda>n w. (None, 0, w)), sdk_NetworkList = (\<lambda>w. (Inr [some_network], 0, w)),
     sdk_NetworkInspect = (\<lambda>n w. (Inr some_network, 0, w)), sdk_NetworkRemove = (\<lambda>n w. (None, 0, w)),
     sdk_NetworkConnect = (\<lambda>n c w. (None, 0, w)), sdk_VolumeRemove = (\<lambda>v w. (None, 0, w))\<rparr>"

lemma network_in_use_kept_witness:
  "emits (\<lambda>e. e = Queried ''NetworkInspect'') (RemoveNetworkIfEmpty sdk0 ''n1'')"
  by (rule network_in_use_kept) (simp add: sdk0_def some_network_def)

end
