(* ===== verification/Deployer.thy ===== *)
theory Deployer
  imports Deploy_Env Docker_Client Expiry_Guards
begin

text \<open>
  \<^verbatim>\<open>Deployer.Deploy\<close> (\<^verbatim>\<open>internal/deploy/deployer.go\<close>) as a computation over the operations
  of \<open>Deploy_Env\<close>.  The function is cut into phases at its own comments; each phase passes its
  locals on, so that every early return of the source is a leaf.  A slice such as
  \<^verbatim>\<open>id[:12]\<close> of a shorter string panics; the goroutine that runs the handler recovers, and the
  outcome here is \<open>Panicked\<close>.
\<close>

datatype deploy_outcome = Returned DeployResult "go_error option" | Panicked

abbreviation finish :: "DeployResult \<Rightarrow> ('w, deploy_outcome) deploying" where
  "finish result \<equiv> State_Monad.return (Returned result None)"

abbreviation fail_with :: "DeployResult \<Rightarrow> go_error \<Rightarrow> ('w, deploy_outcome) deploying" where
  "fail_with result err \<equiv> State_Monad.return (Returned result (Some err))"

abbreviation panic :: "('w, deploy_outcome) deploying" where
  "panic \<equiv> State_Monad.return Panicked"

definition servicesNetwork :: string where "servicesNetwork = ''clank-services''"
definition platformDefaultPort :: int where "platformDefaultPort = 8080"

text \<open>The locals that live from the preparation to the end of the function.\<close>

record deploy_locals =
  dl_opts :: DeployOpts
  dl_network :: string
  dl_oldID :: string
  dl_blueGreen :: bool
  dl_imageMeta :: "ImageMeta option"
  dl_port :: int
  dl_containerName :: string
  dl_healthcheck :: "HealthConfig option"

subsection \<open>Pure decisions\<close>

definition shouldBlueGreen :: "DeployOpts \<Rightarrow> bool" where
  "shouldBlueGreen opts \<longleftrightarrow> dh_Path (op_HealthConfig opts) \<noteq> [] \<and> length (op_Volumes opts) = 0"

definition effective_port :: "int \<Rightarrow> ImageMeta option \<Rightarrow> int" where
  "effective_port port imageMeta = (case imageMeta of
     None \<Rightarrow> port
   | Some m \<Rightarrow> if port = platformDefaultPort \<and> length (im_ExposedPorts m) = 1 \<and>
         im_ExposedPorts m ! 0 \<noteq> platformDefaultPort
       then im_ExposedPorts m ! 0 else port)"

definition volume_name :: "string \<Rightarrow> string \<Rightarrow> string" where
  "volume_name slug volPath = ''clank-'' @ slug @ ''-vol-'' @ ReplaceAll (TrimPrefix volPath ''/'') ''/'' ''-''"

text \<open>The configured paths are collected before the loop, so a volume added by it does not count.\<close>

definition auto_volumes :: "DeployOpts \<Rightarrow> ImageMeta option \<Rightarrow> VolumeMount list" where
  "auto_volumes opts imageMeta = (case imageMeta of
     None \<Rightarrow> op_Volumes opts
   | Some m \<Rightarrow> op_Volumes opts @
       map (\<lambda>p. \<lparr>vm_Name = volume_name (op_ServiceSlug opts) p, vm_MountPath = p\<rparr>)
         (filter (\<lambda>p. p \<notin> vm_MountPath ` set (op_Volumes opts) \<and> IsValidMountPath p) (im_Volumes m)))"

definition resource_limits :: "DeployOpts \<Rightarrow> rat \<times> int" where
  "resource_limits opts = (case matchesImageHandler (op_ImageTag opts) of
     None \<Rightarrow> (op_CPULimit opts, op_MemoryLimitMB opts)
   | Some h \<Rightarrow>
      (if ih_minCPU h > 0 \<and> ih_minCPU h > op_CPULimit opts then ih_minCPU h else op_CPULimit opts,
       if ih_minMemoryMB h > 0 \<and> ih_minMemoryMB h > op_MemoryLimitMB opts then ih_minMemoryMB h
       else op_MemoryLimitMB opts))"

text \<open>Command, entrypoint and the environment without the legacy variable.\<close>

definition command_override :: "DeployOpts \<Rightarrow> string list \<times> string list \<times> go_map" where
  "command_override opts =
     (if length (op_ContainerCommand opts) > 0 then (op_ContainerCommand opts, [[]], op_Env opts)
      else case op_Env opts ''CLANK_CONTAINER_CMD'' of
        Some cmdStr \<Rightarrow> if cmdStr \<noteq> [] then ([''sh'', ''-c'', cmdStr], [[]], (op_Env opts)(''CLANK_CONTAINER_CMD'' := None))
          else ([], [], op_Env opts)
      | None \<Rightarrow> ([], [], op_Env opts))"

definition injected_healthcheck :: "string \<Rightarrow> ImageMeta option \<Rightarrow> HealthConfig option" where
  "injected_healthcheck imageTag imageMeta = (case matchDBHealthcheck imageTag of
     None \<Rightarrow> None
   | Some db \<Rightarrow>
       if (case imageMeta of None \<Rightarrow> True | Some m \<Rightarrow> im_Healthcheck m = None)
       then Some \<lparr>hc_Test = db_test db, hc_Interval = db_interval db, hc_Timeout = db_timeout db,
                  hc_StartPeriod = db_startPeriod db, hc_Retries = db_retries db\<rparr>
       else None)"

definition crash_message :: "string \<Rightarrow> ContainerInspection \<Rightarrow> go_error" where
  "crash_message what ci = (if ci_OOMKilled ci then ''Container killed: out of memory (OOMKilled)''
     else what @ '' (exit code '' @ show_int (ci_ExitCode ci) @ '')'')"

definition exited :: "ContainerInspection \<Rightarrow> bool" where
  "exited ci \<longleftrightarrow> ci_State ci = ''exited'' \<or> ci_State ci = ''dead''"

subsection \<open>Waiting for other containers\<close>

text \<open>One round over the companions: whether all are ready.\<close>

fun check_companions :: "'w docker_env \<Rightarrow> bool \<Rightarrow> string list \<Rightarrow> ('w, bool) deploying" where
  "check_companions env allReady [] = State_Monad.return allReady"
| "check_companions env allReady (slug # slugs) = do {
     found \<leftarrow> findByLabel env ''clank.service_slug'' slug;
     (case found of (cid, name, err) \<Rightarrow>
        if err \<noteq> None \<or> cid = [] then check_companions env False slugs
        else do {
          health \<leftarrow> ask ''health'' (de_GetHealthStatus env cid);
          if health = ''starting'' \<or> health = ''unhealthy'' then check_companions env False slugs
          else check_companions env allReady slugs
        }) }"

lemma check_companions_emits:
  "(\<And>s r. P (FoundByLabel ''clank.service_slug'' s r)) \<Longrightarrow> P (Asked ''health'') \<Longrightarrow>
   emits P (check_companions env ready slugs)"
  by (induction slugs arbitrary: ready) (auto intro!: emits_rules emits_ops)

lemma emits_clock: "emits P m \<Longrightarrow> run_state m s = (a, s') \<Longrightarrow> rg_clock s \<le> rg_clock s'"
  unfolding emits_def by (elim yieldsD) auto

lemma check_companions_clock:
  "run_state (check_companions env ready slugs) s = (b, s') \<Longrightarrow> rg_clock s \<le> rg_clock s'"
  by (rule emits_clock [OF check_companions_emits [where P = "\<lambda>_. True"]]) auto

definition slugs_text :: "string list \<Rightarrow> string" where
  "slugs_text slugs = ''['' @ Join '' '' slugs @ '']''"

text \<open>The polling loop, on explicit states: it ends because every wait moves the clock.\<close>

function companions_loop :: "'w docker_env \<Rightarrow> string list \<Rightarrow> int \<Rightarrow> (deploy_event, 'w) rig
    \<Rightarrow> go_error option \<times> (deploy_event, 'w) rig" where
  "companions_loop env slugs deadline s =
     (case run_state (check_companions env True slugs) s of
        (allReady, s1) \<Rightarrow>
          if allReady then
            (let msg = ''All '' @ show_int (int (length slugs)) @ '' companion service(s) are ready'' in
             run_state (do { onProgress env ''deploying'' msg [] []; onLog env msg; State_Monad.return None }) s1)
          else if rg_clock s1 > deadline then
            (Some (''companion services '' @ slugs_text slugs @ '' did not become ready within 2m0s''), s1)
          else case run_state (waitOrDone env (3 * second)) s1 of
              (Some err, s2) \<Rightarrow> (Some err, s2)
            | (None, s2) \<Rightarrow> companions_loop env slugs deadline s2)"
  by pat_completeness auto
termination
proof (relation "measure (\<lambda>(env, slugs, deadline, s). nat (deadline + 1 - rg_clock s))", simp)
  fix env :: "'w docker_env" and slugs deadline s allReady s1 x s2
  assume c: "(allReady, s1) = run_state (check_companions env True slugs) s"
    and d: "\<not> deadline < rg_clock s1"
    and w: "(x, s2) = run_state (waitOrDone env (3 * second)) s1" "x = None"
  from check_companions_clock [OF c [symmetric]] have "rg_clock s \<le> rg_clock s1" .
  moreover from waitOrDone_clock [of env "3 * second" s1 s2] w have "rg_clock s1 + 3 * second \<le> rg_clock s2"
    by (simp add: second_def)
  ultimately show "((env, slugs, deadline, s2), (env, slugs, deadline, s)) \<in>
      measure (\<lambda>(env, slugs, deadline, s). nat (deadline + 1 - rg_clock s))"
    using d by (simp add: second_def)
qed

declare companions_loop.simps [simp del]

definition waitForCompanions :: "'w docker_env \<Rightarrow> string list \<Rightarrow> ('w, go_error option) deploying" where
  "waitForCompanions env slugs =
     (if length slugs = 0 then State_Monad.return None
      else do {
        start \<leftarrow> now;
        onProgress env ''deploying'' (''Waiting for '' @ show_int (int (length slugs)) @ '' companion service(s) to start...'') [] [];
        onLog env (''Waiting for companion services: '' @ slugs_text slugs);
        State (companions_loop env slugs (start + 120 * second))
      })"

text \<open>
  \<^verbatim>\<open>waitForDockerHealthy\<close>, always called with a timeout of 60 seconds.  One round of the loop:
  \<open>Some r\<close> when it returns \<open>r\<close>, \<open>None\<close> when it goes on.
\<close>

definition health_poll :: "'w docker_env \<Rightarrow> string \<Rightarrow> nat \<Rightarrow> ('w, go_error option option) deploying" where
  "health_poll env cid attempt = do {
     ci \<leftarrow> ask ''inspect'' (de_InspectContainer env cid);
     (case (case ci of Inr c \<Rightarrow> if exited c then Some c else None | Inl err \<Rightarrow> None) of
        Some c \<Rightarrow> State_Monad.return (Some (Some (''container exited (exit code '' @ show_int (ci_ExitCode c) @ '')'')))
      | None \<Rightarrow> do {
          health \<leftarrow> ask ''health'' (de_GetHealthStatus env cid);
          (if health = ''healthy'' then State_Monad.return (Some None)
           else if health = ''unhealthy'' then State_Monad.return (Some (Some ''Docker HEALTHCHECK reports unhealthy''))
           else do {
             (if attempt mod 3 = 0
              then onLog env (''Waiting for database health check (attempt '' @ show_nat attempt @ '', status: '' @ health @ '')...'')
              else State_Monad.return ());
             State_Monad.return None }) }) }"

function healthy_loop :: "'w docker_env \<Rightarrow> string \<Rightarrow> int \<Rightarrow> nat \<Rightarrow> (deploy_event, 'w) rig
    \<Rightarrow> go_error option \<times> (deploy_event, 'w) rig" where
  "healthy_loop env cid deadline attempt s =
     (if \<not> rg_clock s < deadline then (Some ''timed out waiting for Docker HEALTHCHECK to pass after 1m0s'', s)
      else case run_state (waitOrDone env (2 * second)) s of
          (Some err, s1) \<Rightarrow> (Some err, s1)
        | (None, s1) \<Rightarrow>
            (case run_state (health_poll env cid (Suc attempt)) s1 of
               (Some r, s2) \<Rightarrow> (r, s2)
             | (None, s2) \<Rightarrow> healthy_loop env cid deadline (Suc attempt) s2))"
  by pat_completeness auto
termination
proof (relation "measure (\<lambda>(env, cid, deadline, attempt, s). nat (deadline - rg_clock s))", simp)
  fix env :: "'w docker_env" and cid deadline attempt s x s1 y s2
  assume d: "\<not> \<not> rg_clock s < deadline"
    and w: "(x, s1) = run_state (waitOrDone env (2 * second)) s" "x = None"
    and p: "(y, s2) = run_state (health_poll env cid (Suc attempt)) s1" "y = None"
  have "rg_clock s + 2 * second \<le> rg_clock s1"
    using waitOrDone_clock [of env "2 * second" s s1] w by (simp add: second_def)
  also have "rg_clock s1 \<le> rg_clock s2"
    by (rule emits_clock [OF _ p(1) [symmetric], where P = "\<lambda>_. True"])
      (unfold health_poll_def, intro emits_rules emits_ops, simp_all)
  finally show "((env, cid, deadline, Suc attempt, s2), (env, cid, deadline, attempt, s)) \<in>
      measure (\<lambda>(env, cid, deadline, attempt, s). nat (deadline - rg_clock s))"
    using d by (simp add: second_def)
qed

declare healthy_loop.simps [simp del]

definition waitForDockerHealthy :: "'w docker_env \<Rightarrow> string \<Rightarrow> ('w, go_error option) deploying" where
  "waitForDockerHealthy env cid = do {
     start \<leftarrow> now;
     State (healthy_loop env cid (start + 60 * second) 0)
   }"

subsection \<open>Health checks over HTTP\<close>

text \<open>
  \<^verbatim>\<open>runHTTPHealthChecks\<close>: \<open>n\<close> attempts are left out of \<open>retries\<close>.
\<close>

definition short :: "string \<Rightarrow> string" where "short cid = take 12 cid"

text \<open>The startup logs go into the result only when they could be read.\<close>

definition with_logs :: "string result \<Rightarrow> DeployResult \<Rightarrow> DeployResult" where
  "with_logs logs result = (case logs of Inr l \<Rightarrow> result\<lparr>dr_StartupLogs := l\<rparr> | Inl err \<Rightarrow> result)"

fun http_attempts :: "'w docker_env \<Rightarrow> DeployResult \<Rightarrow> string \<Rightarrow> string \<Rightarrow> string \<Rightarrow> string \<Rightarrow> int \<Rightarrow> int \<Rightarrow> int
    \<Rightarrow> nat \<Rightarrow> ('w, deploy_outcome) deploying" where
  "http_attempts env result cid cname url path timeout interval retries 0 = do {
     logs \<leftarrow> ask ''logs'' (de_GetStartupLogs env cid 100);
     _ \<leftarrow> stopAndRemove env cid;
     fail_with (with_logs logs result) (''health checks failed after '' @ show_int retries @ '' attempts'')
   }"
| "http_attempts env result cid cname url path timeout interval retries (Suc n) =
     (let attempt = retries - int n in do {
        onLog env (''Health check '' @ path @ '' attempt '' @ show_int attempt @ ''/'' @ show_int retries @ ''...'');
        healthy \<leftarrow> checkHTTPHealth env url timeout;
        (if healthy then do {
           onLog env (''Health check passed (attempt '' @ show_int attempt @ '')'');
           onProgress env ''active'' (''Health check passed (attempt '' @ show_int attempt @ '')'') (short cid) cname;
           finish result }
         else do {
           onLog env (''Health check failed (attempt '' @ show_int attempt @ ''/'' @ show_int retries @ '')'');
           (if n > 0 then do {
              ctx \<leftarrow> waitOrDone env (seconds interval);
              (case ctx of
                 Some err \<Rightarrow> fail_with result err
               | None \<Rightarrow> http_attempts env result cid cname url path timeout interval retries n) }
            else http_attempts env result cid cname url path timeout interval retries n) })
      })"

definition runHTTPHealthChecks :: "'w docker_env \<Rightarrow> DeployResult \<Rightarrow> string \<Rightarrow> string \<Rightarrow> string \<Rightarrow> int
    \<Rightarrow> DeployHealthConfig \<Rightarrow> ('w, deploy_outcome) deploying" where
  "runHTTPHealthChecks env result cid cname ip port hc =
     (let retries = (if dh_Retries hc \<le> 0 then 3 else dh_Retries hc);
          interval = (if dh_IntervalSeconds hc \<le> 0 then 10 else dh_IntervalSeconds hc);
          timeout = (if dh_TimeoutSeconds hc \<le> 0 then 5 else dh_TimeoutSeconds hc);
          url = ''http://'' @ ip @ '':'' @ show_int port @ dh_Path hc;
          attempts = http_attempts env result cid cname url (dh_Path hc) timeout interval retries (nat retries)
      in if dh_StartupGraceSeconds hc > 0 then do {
           ctx \<leftarrow> waitOrDone env (seconds (dh_StartupGraceSeconds hc));
           (case ctx of Some err \<Rightarrow> fail_with result err | None \<Rightarrow> attempts) }
         else attempts)"

subsection \<open>After the container was started\<close>

text \<open>Logs, removal and error for a container that exited.\<close>

definition crashed :: "'w docker_env \<Rightarrow> DeployResult \<Rightarrow> string \<Rightarrow> string \<Rightarrow> ContainerInspection \<Rightarrow> ('w, deploy_outcome) deploying" where
  "crashed env result cid what ci = do {
     logs \<leftarrow> ask ''logs'' (de_GetStartupLogs env cid 100);
     _ \<leftarrow> stopAndRemove env cid;
     fail_with (with_logs logs (result\<lparr>dr_Inspection := Some ci\<rparr>)) (crash_message what ci)
   }"

definition db_health_failed :: "'w docker_env \<Rightarrow> DeployResult \<Rightarrow> string \<Rightarrow> go_error \<Rightarrow> ('w, deploy_outcome) deploying" where
  "db_health_failed env result cid err = do {
     logs \<leftarrow> ask ''logs'' (de_GetStartupLogs env cid 100);
     fail_with (result\<lparr>dr_StartupLogs := (case logs of Inr l \<Rightarrow> l | Inl e \<Rightarrow> [])\<rparr>) (''database health check failed: '' @ err)
   }"

text \<open>The closed-port loop; \<open>n\<close> attempts are left.  \<open>None\<close> means that the port never opened.\<close>

fun startup_loop :: "'w docker_env \<Rightarrow> deploy_locals \<Rightarrow> DeployResult \<Rightarrow> string \<Rightarrow> string \<Rightarrow> int \<Rightarrow> int
    \<Rightarrow> nat \<Rightarrow> ('w, deploy_outcome option) deploying" where
  "startup_loop env d result cid ip interval retries 0 = State_Monad.return None"
| "startup_loop env d result cid ip interval retries (Suc n) =
     (let attempt = retries - int n in do {
        ctx \<leftarrow> waitOrDone env (seconds interval);
        (case ctx of
           Some err \<Rightarrow> State_Monad.return (Some (Returned result (Some err)))
         | None \<Rightarrow> do {
             ci2 \<leftarrow> ask ''inspect'' (de_InspectContainer env cid);
             (case (case ci2 of Inr c \<Rightarrow> if exited c then Some c else None | Inl err \<Rightarrow> None) of
                Some c \<Rightarrow> do {
                  r \<leftarrow> crashed env result cid ''Container exited during startup'' c;
                  State_Monad.return (Some r) }
              | None \<Rightarrow> do {
                  proto \<leftarrow> ProbePort env ip (dl_port d);
                  (if proto = ''http'' \<or> proto = ''tcp'' \<and> dl_healthcheck d = None then do {
                     onProgress env ''active'' (''Deployment active ('' @ proto @ '' port responding, attempt '' @ show_int attempt @ '')'')
                       (short cid) (dl_containerName d);
                     State_Monad.return (Some (Returned result None)) }
                   else if proto = ''tcp'' then do {
                     unhealthy \<leftarrow> waitForDockerHealthy env cid;
                     (case unhealthy of
                        Some err \<Rightarrow> do { r \<leftarrow> db_health_failed env result cid err; State_Monad.return (Some r) }
                      | None \<Rightarrow> do {
                          onProgress env ''active'' ''Deployment active (database health check passed)'' (short cid) (dl_containerName d);
                          State_Monad.return (Some (Returned result None)) }) }
                   else do {
                     onLog env (''Port '' @ show_int (dl_port d) @ '' still closed, container running (attempt '' @ show_int attempt
                       @ ''/'' @ show_int retries @ '')'');
                     startup_loop env d result cid ip interval retries n }) }) }) })"

definition startup_retries :: "deploy_locals \<Rightarrow> int" where
  "startup_retries d =
     (let hc = op_HealthConfig (dl_opts d);
          retries = (if dh_Retries hc > 6 then dh_Retries hc else 6)
      in case matchesImageHandler (op_ImageTag (dl_opts d)) of
           Some h \<Rightarrow> if ih_startupRetries h > 0 then ih_startupRetries h else retries
         | None \<Rightarrow> retries)"

definition startup_interval :: "deploy_locals \<Rightarrow> int" where
  "startup_interval d =
     (let hc = op_HealthConfig (dl_opts d);
          interval = (if dh_IntervalSeconds hc > 10 then dh_IntervalSeconds hc else 10)
      in case matchesImageHandler (op_ImageTag (dl_opts d)) of
           Some h \<Rightarrow> if ih_startupInterval h > 0 then ih_startupInterval h else interval
         | None \<Rightarrow> interval)"

definition exposed_ports :: "ImageMeta option \<Rightarrow> int list" where
  "exposed_ports m = (case m of None \<Rightarrow> [] | Some i \<Rightarrow> im_ExposedPorts i)"

definition open_ports_hint :: "int \<Rightarrow> DiscoveredPort list \<Rightarrow> string" where
  "open_ports_hint port probes =
     (let open_ports = map (\<lambda>p. show_int (dp_Port p) @ '' ('' @ dp_Protocol p @ '')'')
            (filter (\<lambda>p. dp_Protocol p \<noteq> ''closed'' \<and> dp_Port p \<noteq> port) probes)
      in if length open_ports > 0
         then ''. Detected open ports: '' @ Join '', '' open_ports @ '' '' @ [CHR 0xE2, CHR 0x80, CHR 0x94] @ '' update your port setting?''
         else [])"

definition port_never_opened :: "'w docker_env \<Rightarrow> deploy_locals \<Rightarrow> DeployResult \<Rightarrow> string \<Rightarrow> string \<Rightarrow> ('w, deploy_outcome) deploying" where
  "port_never_opened env d result cid ip =
     (let retries = startup_retries d; interval = startup_interval d in do {
        finalProbe \<leftarrow> ProbeAllPorts env ip
          ([dl_port d, 80, 443, 3000, 4000, 5000, 5173, 8000, 8080, 8443, 9000] @ exposed_ports (dl_imageMeta d));
        logs \<leftarrow> ask ''logs'' (de_GetStartupLogs env cid 100);
        _ \<leftarrow> stopAndRemove env cid;
        fail_with (with_logs logs (result\<lparr>dr_Ports := finalProbe\<rparr>))
          (''port '' @ show_int (dl_port d) @ '' never opened after '' @ show_int retries @ '' attempts (~''
            @ show_int (retries * interval) @ ''s total)'' @ open_ports_hint (dl_port d) finalProbe)
      })"

definition wait_for_startup :: "'w docker_env \<Rightarrow> deploy_locals \<Rightarrow> DeployResult \<Rightarrow> string \<Rightarrow> string \<Rightarrow> ('w, deploy_outcome) deploying" where
  "wait_for_startup env d result cid ip =
     (let hc = op_HealthConfig (dl_opts d);
          rest = do {
            r \<leftarrow> startup_loop env d result cid ip (startup_interval d) (startup_retries d) (nat (startup_retries d));
            (case r of Some outcome \<Rightarrow> State_Monad.return outcome | None \<Rightarrow> port_never_opened env d result cid ip) }
      in if dh_StartupGraceSeconds hc > 0 then do {
           onLog env (''Waiting '' @ show_int (dh_StartupGraceSeconds hc) @ ''s startup grace before probing port '' @ show_int (dl_port d) @ ''...'');
           ctx \<leftarrow> waitOrDone env (seconds (dh_StartupGraceSeconds hc));
           (case ctx of Some err \<Rightarrow> fail_with result err | None \<Rightarrow> rest) }
         else rest)"

subsection \<open>The phases of Deploy\<close>

text \<open>Smart health checks: everything after the port probe.\<close>

definition primary_protocol :: "int \<Rightarrow> DiscoveredPort list \<Rightarrow> string" where
  "primary_protocol port probes = (case first_match (\<lambda>p. dp_Port p = port) probes of
     Some p \<Rightarrow> dp_Protocol p | None \<Rightarrow> ''closed'')"

definition explicit_health_check :: "'w docker_env \<Rightarrow> deploy_locals \<Rightarrow> DeployResult \<Rightarrow> string \<Rightarrow> string \<Rightarrow> ('w, deploy_outcome) deploying" where
  "explicit_health_check env d result cid ip = do {
     r \<leftarrow> runHTTPHealthChecks env result cid (dl_containerName d) ip (dl_port d) (op_HealthConfig (dl_opts d));
     (case r of
        Returned result None \<Rightarrow>
          if dl_blueGreen d \<and> dl_oldID d \<noteq> [] \<and> dl_oldID d \<noteq> cid then do {
            sleep env (2 * second);
            _ \<leftarrow> stopAndRemove env (dl_oldID d);
            onProgress env ''deploying'' ''Traffic switched to new version'' [] [];
            finish result }
          else finish result
      | failed \<Rightarrow> State_Monad.return failed)
   }"

definition smart_health_check :: "'w docker_env \<Rightarrow> deploy_locals \<Rightarrow> DeployResult \<Rightarrow> string \<Rightarrow> string \<Rightarrow> string \<Rightarrow> ('w, deploy_outcome) deploying" where
  "smart_health_check env d result cid ip protocol =
     (if protocol = ''http'' then do {
        autoPath \<leftarrow> autoDetectHealthPath env ip (dl_port d);
        (if autoPath \<noteq> [] then
           runHTTPHealthChecks env result cid (dl_containerName d) ip (dl_port d)
             ((op_HealthConfig (dl_opts d))\<lparr>dh_Path := autoPath\<rparr>)
         else do {
           onProgress env ''active'' ''Deployment active (HTTP port responding)'' (short cid) (dl_containerName d);
           finish result }) }
      else if protocol = ''tcp'' then
        (if dl_healthcheck d \<noteq> None then do {
           onLog env ''TCP port responding. Waiting for database health check...'';
           unhealthy \<leftarrow> waitForDockerHealthy env cid;
           (case unhealthy of
              Some err \<Rightarrow> db_health_failed env result cid err
            | None \<Rightarrow> do {
                onProgress env ''active'' ''Deployment active (database health check passed)'' (short cid) (dl_containerName d);
                finish result }) }
         else do {
           onProgress env ''active'' ''Deployment active (TCP port responding)'' (short cid) (dl_containerName d);
           finish result })
      else if protocol = ''closed'' then wait_for_startup env d result cid ip
      else do {
        onProgress env ''active'' ''Deployment active (health check skipped)'' (short cid) (dl_containerName d);
        finish result })"

definition probe_ports :: "deploy_locals \<Rightarrow> int list" where
  "probe_ports d = dl_port d # filter (\<lambda>p. p \<noteq> dl_port d) (exposed_ports (dl_imageMeta d))"

definition deploy_probe :: "'w docker_env \<Rightarrow> deploy_locals \<Rightarrow> DeployResult \<Rightarrow> string \<Rightarrow> string \<Rightarrow> ('w, deploy_outcome) deploying" where
  "deploy_probe env d result cid ip = do {
     probeResults \<leftarrow> ProbeAllPorts env ip (probe_ports d);
     let protocol = primary_protocol (dl_port d) probeResults;
     let result = result\<lparr>dr_Ports := probeResults, dr_IsHTTP := (protocol = ''http'')\<rparr>;
     (if dh_Path (op_HealthConfig (dl_opts d)) \<noteq> [] then explicit_health_check env d result cid ip
      else smart_health_check env d result cid ip protocol)
   }"

text \<open>The lookup of the container's address: three attempts.\<close>

datatype ip_outcome = GotIP string | NoIP go_error | ExitedWith ContainerInspection

fun lookup_ip :: "'w docker_env \<Rightarrow> string \<Rightarrow> string \<Rightarrow> go_error \<Rightarrow> nat \<Rightarrow> ('w, ip_outcome) deploying" where
  "lookup_ip env cid network lastErr 0 = State_Monad.return (NoIP lastErr)"
| "lookup_ip env cid network lastErr (Suc n) = do {
     r \<leftarrow> ask ''ip'' (de_GetContainerIP env cid network);
     (case r of
        Inr ip \<Rightarrow> State_Monad.return (GotIP ip)
      | Inl err \<Rightarrow> do {
          ci2 \<leftarrow> ask ''inspect'' (de_InspectContainer env cid);
          (case (case ci2 of Inr c \<Rightarrow> if exited c then Some c else None | Inl e \<Rightarrow> None) of
             Some c \<Rightarrow> State_Monad.return (ExitedWith c)
           | None \<Rightarrow> do { sleep env second; lookup_ip env cid network err n }) })
   }"

definition deploy_watch :: "'w docker_env \<Rightarrow> deploy_locals \<Rightarrow> DeployResult \<Rightarrow> string \<Rightarrow> ('w, deploy_outcome) deploying" where
  "deploy_watch env d result cid = do {
     ctx \<leftarrow> waitOrDone env (2 * second);
     (case ctx of
        Some err \<Rightarrow> fail_with result err
      | None \<Rightarrow> do {
          inspected \<leftarrow> ask ''inspect'' (de_InspectContainer env cid);
          let result = (case inspected of Inr ci \<Rightarrow> result\<lparr>dr_Inspection := Some ci\<rparr> | Inl err \<Rightarrow> result);
          (case (case inspected of Inr ci \<Rightarrow> if exited ci then Some ci else None | Inl err \<Rightarrow> None) of
             Some ci \<Rightarrow> crashed env result cid ''Container crashed on startup'' ci
           | None \<Rightarrow> do {
               onProgress env ''health_checking'' ''Container started, running health checks...'' (short cid) (dl_containerName d);
               onLog env (''Container '' @ dl_containerName d @ '' started, running health checks...'');
               r \<leftarrow> lookup_ip env cid (dl_network d) [] 3;
               (case r of
                  ExitedWith c \<Rightarrow> crashed env result cid ''Container crashed on startup'' c
                | NoIP err \<Rightarrow> do {
                    logs \<leftarrow> ask ''logs'' (de_GetStartupLogs env cid 100);
                    fail_with (with_logs logs result) (''getting container IP: '' @ err) }
                | GotIP ip \<Rightarrow>
                    deploy_probe env d
                      (case inspected of Inr ci \<Rightarrow> result\<lparr>dr_Inspection := Some (ci\<lparr>ci_IP := ip\<rparr>)\<rparr> | Inl err \<Rightarrow> result)
                      cid ip) }) })
   }"

definition run_opts :: "deploy_locals \<Rightarrow> go_map \<Rightarrow> RunOpts" where
  "run_opts d labels =
     (let opts = dl_opts d; (cmd, entrypoint, envvars) = command_override opts in
      \<lparr>ro_Image = op_ImageTag opts, ro_Name = dl_containerName d, ro_Env = envvars, ro_Port = dl_port d,
       ro_Labels = labels, ro_Network = dl_network d, ro_NetworkAlias = op_ServiceSlug opts,
       ro_CPULimit = fst (resource_limits opts), ro_MemoryLimitMB = snd (resource_limits opts),
       ro_Command = cmd, ro_Entrypoint = entrypoint, ro_Volumes = op_Volumes opts,
       ro_Healthcheck = dl_healthcheck d\<rparr>)"

text \<open>Start the container, or adopt the one that holds the name, and connect Traefik.\<close>

definition deploy_started :: "'w docker_env \<Rightarrow> deploy_locals \<Rightarrow> DeployResult \<Rightarrow> string \<Rightarrow> ('w, deploy_outcome) deploying" where
  "deploy_started env d result cid =
     (if length cid < 12 then panic
      else do {
        digest \<leftarrow> ask ''digest'' (de_GetImageDigest env (op_ImageTag (dl_opts d)));
        let result = (case digest of Inr g \<Rightarrow> result\<lparr>dr_ImageDigest := g\<rparr> | Inl err \<Rightarrow> result);
        (if op_ProjectNetwork (dl_opts d) \<noteq> [] then do {
           traefikID \<leftarrow> ask ''traefik'' (de_FindTraefikContainer env);
           (if traefikID \<noteq> [] then do {
              _ \<leftarrow> call (\<lambda>_. ConnectedTraefik (op_ProjectNetwork (dl_opts d)))
                (de_ConnectToNetworkIfNeeded env traefikID (op_ProjectNetwork (dl_opts d)));
              State_Monad.return () }
            else State_Monad.return ()) }
         else State_Monad.return ());
        deploy_watch env d result cid
      })"

definition deploy_start :: "'w docker_env \<Rightarrow> deploy_locals \<Rightarrow> DeployResult \<Rightarrow> go_map \<Rightarrow> ('w, deploy_outcome) deploying" where
  "deploy_start env d result labels = do {
     (if length (op_Volumes (dl_opts d)) > 0 then do {
        _ \<leftarrow> call (\<lambda>_. OwnedVolumes (op_Volumes (dl_opts d)))
          (de_EnsureVolumeOwnership env (op_ImageTag (dl_opts d)) (op_Volumes (dl_opts d)));
        State_Monad.return () }
      else State_Monad.return ());
     r \<leftarrow> runContainer env (run_opts d labels);
     (case r of
        Inr cid \<Rightarrow> deploy_started env d result cid
      | Inl err \<Rightarrow>
          if Contains err ''is already in use'' then do {
            found \<leftarrow> findByName env (dl_containerName d);
            (case found of (existingID, name, findErr) \<Rightarrow>
               if findErr = None \<and> existingID \<noteq> [] then
                 (if length existingID < 12 then panic else deploy_started env d result existingID)
               else fail_with result (''starting container: '' @ err)) }
          else fail_with result (''starting container: '' @ err))
   }"

text \<open>Environment variables, health check and companions; then the start.\<close>

definition deploy_configure :: "'w docker_env \<Rightarrow> deploy_locals \<Rightarrow> DeployResult \<Rightarrow> go_map \<Rightarrow> ('w, deploy_outcome) deploying" where
  "deploy_configure env d result labels = do {
     token \<leftarrow> ask ''token'' (de_hexToken env);
     let opts = dl_opts d;
     let opts = opts\<lparr>op_Env := injectEndpointEnvVars token (op_Env opts) (op_ImageTag opts) (op_Endpoints opts)\<rparr>;
     let d = d\<lparr>dl_opts := opts, dl_healthcheck := injected_healthcheck (op_ImageTag opts) (dl_imageMeta d)\<rparr>;
     (if length (op_CompanionSlugs opts) > 0 then do {
        waited \<leftarrow> waitForCompanions env (op_CompanionSlugs opts);
        (case waited of
           Some err \<Rightarrow> fail_with result (''waiting for companions: '' @ err)
         | None \<Rightarrow> deploy_start env d result labels) }
      else deploy_start env d result labels)
   }"

text \<open>
  Introspection, port, volumes, labels and the fast path for a retried deployment.  The Tailscale
  name is asked for once per endpoint that needs it; the label generator then finds every endpoint
  resolved (one that could not be resolved keeps its empty hostname).
\<close>

fun resolve_each :: "'w docker_env \<Rightarrow> EndpointInfo list \<Rightarrow> ('w, EndpointInfo list) deploying" where
  "resolve_each env [] = State_Monad.return []"
| "resolve_each env (ep # eps) = do {
     ep \<leftarrow> (if ep_Provider ep = ''private_tailscale_https'' \<and> ep_Hostname ep = [] then do {
           name \<leftarrow> ask ''tailscale'' (de_tailscaleName env);
           State_Monad.return (resolve_endpoint name ep) }
         else State_Monad.return ep);
     eps \<leftarrow> resolve_each env eps;
     State_Monad.return (ep # eps) }"

definition deploy_prepare :: "'w docker_env \<Rightarrow> DeployOpts \<Rightarrow> DeployResult \<Rightarrow> string \<Rightarrow> string \<Rightarrow> bool \<Rightarrow> ('w, deploy_outcome) deploying" where
  "deploy_prepare env opts result network oldID blueGreen = do {
     inspected \<leftarrow> ask ''image'' (de_InspectImage env (op_ImageTag opts));
     let imageMeta = (case inspected of Inr m \<Rightarrow> Some m | Inl err \<Rightarrow> None);
     let port = effective_port (op_Port opts) imageMeta;
     let result = result\<lparr>dr_ImageMeta := imageMeta, dr_EffectivePort := port\<rparr>;
     let opts = opts\<lparr>op_Volumes := auto_volumes opts imageMeta\<rparr>;
     endpoints \<leftarrow> resolve_each env (op_Endpoints opts);
     let opts = opts\<lparr>op_Endpoints := endpoints\<rparr>;
     let labels = fst (generateTraefikLabels (Inl []) (op_DeploymentID opts) (op_ServiceSlug opts)
       (op_Domains opts) port endpoints (op_LANIPs opts) True (dh_Path (op_HealthConfig opts)));
     let labels = (if op_ProjectNetwork opts \<noteq> [] then labels(''traefik.docker.network'' \<mapsto> op_ProjectNetwork opts) else labels);
     (if length (op_DeploymentID opts) < 8 then panic
      else do {
        let containerName = ''clank-'' @ op_ServiceSlug opts @ ''-'' @ take 8 (op_DeploymentID opts);
        let d = \<lparr>dl_opts = opts, dl_network = network, dl_oldID = oldID, dl_blueGreen = blueGreen,
          dl_imageMeta = imageMeta, dl_port = port, dl_containerName = containerName, dl_healthcheck = None\<rparr>;
        found \<leftarrow> findByName env containerName;
        (case found of (existingID, name, findErr) \<Rightarrow>
           if findErr = None \<and> existingID \<noteq> [] then do {
             ci \<leftarrow> ask ''inspect'' (de_InspectContainer env existingID);
             (case (case ci of Inr c \<Rightarrow> if ci_State c = ''running'' then Some c else None | Inl err \<Rightarrow> None) of
                Some c \<Rightarrow>
                  if length existingID < 12 then panic
                  else do {
                    digest \<leftarrow> ask ''digest'' (de_GetImageDigest env (op_ImageTag opts));
                    onProgress env ''active'' ''Container already running (reconnect fast path)'' (short existingID) containerName;
                    finish (case digest of
                        Inr g \<Rightarrow> result\<lparr>dr_Inspection := Some c, dr_ImageDigest := g\<rparr>
                      | Inl err \<Rightarrow> result\<lparr>dr_Inspection := Some c\<rparr>) }
              | None \<Rightarrow> deploy_configure env d result labels) }
           else deploy_configure env d result labels) })
   }"

definition deploy_pull :: "'w docker_env \<Rightarrow> DeployOpts \<Rightarrow> DeployResult \<Rightarrow> string \<Rightarrow> string \<Rightarrow> bool \<Rightarrow> ('w, deploy_outcome) deploying" where
  "deploy_pull env opts result network oldID blueGreen =
     (if op_ImageTag opts \<noteq> [] \<and> \<not> HasPrefix (op_ImageTag opts) ''clank-'' then do {
        onLog env (''Pulling image '' @ op_ImageTag opts @ ''...'');
        pulled \<leftarrow> pullImage env (op_ImageTag opts) (op_RegistryAuth opts);
        each (onLog env) (fst pulled);
        (case snd pulled of
           Some err \<Rightarrow> fail_with result (''pulling image: '' @ err)
         | None \<Rightarrow> do {
             onLog env ''Image pulled successfully'';
             deploy_prepare env opts result network oldID blueGreen }) }
      else deploy_prepare env opts result network oldID blueGreen)"

definition Deploy :: "'w docker_env \<Rightarrow> DeployOpts \<Rightarrow> ('w, deploy_outcome) deploying" where
  "Deploy env opts =
     (let result = zero_DeployResult\<lparr>dr_EffectivePort := op_Port opts\<rparr>;
          network = (if op_ProjectNetwork opts = [] then servicesNetwork else op_ProjectNetwork opts) in do {
        onProgress env ''deploying'' ''Starting deployment...'' [] [];
        ensured \<leftarrow> ensureNetwork env network;
        (case ensured of
           Some err \<Rightarrow> fail_with result (''ensuring network: '' @ err)
         | None \<Rightarrow> do {
             found \<leftarrow> findByLabel env ''clank.service_slug'' (op_ServiceSlug opts);
             (case found of (oldID, oldName, findErr) \<Rightarrow>
                let useBlueGreen = (shouldBlueGreen opts \<and> oldID \<noteq> []) in
                if oldID = [] then deploy_pull env opts result network [] False
                else if length oldID < 12 then panic
                else if \<not> useBlueGreen then do {
                  _ \<leftarrow> stopAndRemove env oldID;
                  deploy_pull env opts result network [] False }
                else do {
                  onProgress env ''deploying'' ''Starting new container (current version remains active)'' [] [];
                  deploy_pull env opts result network oldID True }) })
      })"

end
