(* ===== verification/Deployer_Laws.thy ===== *)
theory Deployer_Laws
  imports Deployer
begin

text \<open>
  What \<open>Deploy\<close> promises, for every behaviour of the Docker daemon, the network and the clock.
  The locale \<open>after_start\<close> collects what an outcome law must satisfy at the leaves of the
  phases that run once the new container exists, and proves it for all of them; the laws of the
  second half are its interpretations.
\<close>

fun is_active :: "deploy_event \<Rightarrow> bool" where
  "is_active (Progress status m ci cn) \<longleftrightarrow> status = ''active''"
| "is_active _ \<longleftrightarrow> False"

fun is_failed :: "deploy_event \<Rightarrow> bool" where
  "is_failed (Progress status m ci cn) \<longleftrightarrow> status \<in> {''failed'', ''build_failed''}"
| "is_failed _ \<longleftrightarrow> False"

fun succeeded :: "deploy_outcome \<Rightarrow> bool" where
  "succeeded (Returned res None) = True"
| "succeeded _ = False"

text \<open>Events that report nothing final, stop nothing and start nothing.\<close>

definition is_quiet :: "deploy_event \<Rightarrow> bool" where
  "is_quiet e \<longleftrightarrow> \<not> is_active e \<and> \<not> is_failed e \<and> (\<forall>c. e \<noteq> StoppedAndRemoved c) \<and> (\<forall>ro r. e \<noteq> Ran ro r)"

subsection \<open>The contract of an outcome law\<close>

locale after_start =
  fixes Q :: "deploy_event \<Rightarrow> bool" and R :: "deploy_outcome \<Rightarrow> deploy_event list \<Rightarrow> bool"
    and cid :: string and old :: string
  assumes quiet: "is_quiet e \<Longrightarrow> Q e"
    and prefix: "list_all Q evs \<Longrightarrow> R r evs' \<Longrightarrow> R r (evs @ evs')"
    and ctx_leaf: "R (Returned res (Some err)) [Waited w (Some err)]"
    and stop_leaf: "R (Returned res (Some err)) [StoppedAndRemoved cid]"
    and ip_leaf: "R (Returned res (Some (''getting container IP: '' @ err))) []"
    and db_leaf: "R (Returned res (Some (''database health check failed: '' @ err))) []"
    and ok_leaf: "R (Returned res None) [Progress ''active'' m c n]"
    and switch: "R (Returned res None) evs \<Longrightarrow>
      R (Returned res None) (evs @ [Waited (2 * second) None, StoppedAndRemoved old, Progress ''deploying'' m [] []])"
begin

lemma quiet_events [simp]:
  "Q (LogLine l)" "Q (Asked w)" "Q (Waited t r)" "Q (FoundByLabel k v i)" "Q (FoundByName n i)"
  "Q (Pulled i)" "Q (OwnedVolumes vols)" "Q (ConnectedTraefik n)" "Q (EnsuredNetwork n)"
  "st \<notin> {''active'', ''failed'', ''build_failed''} \<Longrightarrow> Q (Progress st m c n)"
  by (simp_all add: quiet is_quiet_def)

lemma skip: "emits Q m \<Longrightarrow> (\<And>a. yields R (f a)) \<Longrightarrow> yields R (State_Monad.bind m f)"
  by (erule yields_prefix) (simp_all add: prefix)

lemma wait_then:
  assumes "\<And>err. yields (\<lambda>r evs. R r (Waited t (Some err) # evs)) (f (Some err))" and "yields R (f None)"
  shows "yields R (State_Monad.bind (waitOrDone env t) f)"
proof (rule yields_waitOrDone_then)
  fix x
  have "yields (\<lambda>r evs. R r ([Waited t None] @ evs)) (f None)"
    by (intro yields_mono [OF assms(2)] prefix) simp_all
  then show "yields (\<lambda>r evs. R r (Waited t x # evs)) (f x)"
    using assms(1) by (cases x) simp_all
qed

lemma ctx_fail: "yields (\<lambda>r evs. R r (Waited t (Some err) # evs)) (fail_with res err)"
  by (simp add: yields_return ctx_leaf)

lemma stop_then_fail: "yields R (do { x \<leftarrow> stopAndRemove env cid; fail_with res err })"
  unfolding stopAndRemove_def by (intro yields_call_then yields_return stop_leaf)

lemma active_then_finish: "yields R (do { onProgress env ''active'' m c n; finish res })"
  unfolding onProgress_def by (intro yields_call_then yields_return ok_leaf)

lemma emits_ask: "emits Q (ask w f)"
  by (rule emits_ops) simp

lemma emits_log: "emits Q (onLog env l)"
  by (rule emits_ops) simp

lemma emits_health: "emits Q (checkHTTPHealth env url t)" "emits Q (ProbePort env ip p)"
  "emits Q (ProbeAllPorts env ip ps)" "emits Q (autoDetectHealthPath env ip p)"
  by (rule emits_probes, simp)+

lemmas skips = emits_ask emits_log emits_health

lemma http_attempts_law:
  "yields R (http_attempts env res cid cn url path timeout interval retries n)"
proof (induction n)
  case 0
  show ?case unfolding http_attempts.simps by (intro skip skips stop_then_fail)
next
  case (Suc n)
  show ?case unfolding http_attempts.simps Let_def
    by (intro active_then_finish wait_then yields_if skip skips)
      (simp_all only: option.case ctx_fail Suc.IH)
qed

lemma runHTTPHealthChecks_law: "yields R (runHTTPHealthChecks env res cid cn ip port hc)"
  unfolding runHTTPHealthChecks_def Let_def
  by (intro yields_if wait_then http_attempts_law) (auto intro: ctx_fail http_attempts_law)

lemma crashed_law: "yields R (crashed env res cid what ci)"
  unfolding crashed_def by (intro skip skips stop_then_fail)

lemma db_failed_law: "yields R (db_health_failed env res cid err)"
  unfolding db_health_failed_def by (intro skip skips yields_return db_leaf)

lemma healthy_loop_quiet:
  "healthy_loop env c deadline attempt s = (r, s') \<Longrightarrow> extends Q s s'"
proof (induction env c deadline attempt s rule: healthy_loop.induct)
  case (1 env c deadline attempt s)
  note step = "1.prems" [unfolded healthy_loop.simps [of env c deadline attempt s]]
  show ?case
  proof (cases "rg_clock s < deadline")
    case False
    with step have "s' = s" by simp
    then show ?thesis by (simp add: extends_refl)
  next
    case True
    obtain x s1 where w: "run_state (waitOrDone env (2 * second)) s = (x, s1)" by fastforce
    have "emits Q (waitOrDone env (2 * second))" by (rule emits_waitOrDone) simp
    note s1 = emits_extends [OF this w]
    obtain y s2 where p: "run_state (health_poll env c (Suc attempt)) s1 = (y, s2)" by fastforce
    have "emits Q (health_poll env c (Suc attempt))"
      unfolding health_poll_def by (intro emits_rules emits_ask emits_log)
    note s2 = extends_trans [OF s1 emits_extends [OF this p]]
    show ?thesis
    proof (cases x)
      case (Some err)
      with True step w s1 show ?thesis by simp
    next
      case none: None
      show ?thesis
      proof (cases y)
        case (Some r')
        with True none step w p s2 show ?thesis by simp
      next
        case None
        with True none step w p have "healthy_loop env c deadline (Suc attempt) s2 = (r, s')" by simp
        with "1.IH" [OF _ w [symmetric] none p [symmetric] None] True show ?thesis
          by (blast intro: extends_trans [OF s2])
      qed
    qed
  qed
qed

lemma waits_quiet: "emits Q (waitForDockerHealthy env c)"
  unfolding waitForDockerHealthy_def
  by (intro emits_rules emits_State) (auto dest: healthy_loop_quiet)

subsection \<open>The phases after the start\<close>

text \<open>The closed-port loop: either an outcome, or quiet events and the port is still closed.\<close>

definition or_quiet :: "deploy_outcome option \<Rightarrow> deploy_event list \<Rightarrow> bool" where
  "or_quiet x evs = (case x of None \<Rightarrow> list_all Q evs | Some r \<Rightarrow> R r evs)"

lemma or_quiet_prefix: "list_all Q evs \<Longrightarrow> or_quiet x evs' \<Longrightarrow> or_quiet x (evs @ evs')"
  by (cases x) (simp_all add: or_quiet_def prefix)

lemma skip_opt: "emits Q m \<Longrightarrow> (\<And>a. yields or_quiet (f a)) \<Longrightarrow> yields or_quiet (State_Monad.bind m f)"
  by (erule yields_prefix) (simp_all add: or_quiet_prefix)

lemma outcome_opt: "yields R m \<Longrightarrow> yields or_quiet (do { r \<leftarrow> m; State_Monad.return (Some r) })"
  by (erule yields_bind) (simp add: yields_return or_quiet_def)

lemma active_opt: "yields or_quiet (do { onProgress env ''active'' m c n; State_Monad.return (Some (Returned res None)) })"
  unfolding onProgress_def by (intro yields_call_then yields_return) (simp add: or_quiet_def ok_leaf)

lemma wait_opt:
  assumes "\<And>err. yields (\<lambda>r evs. or_quiet r (Waited t (Some err) # evs)) (f (Some err))" and "yields or_quiet (f None)"
  shows "yields or_quiet (State_Monad.bind (waitOrDone env t) f)"
proof (rule yields_waitOrDone_then)
  fix x
  have "yields (\<lambda>r evs. or_quiet r ([Waited t None] @ evs)) (f None)"
    by (intro yields_mono [OF assms(2)] or_quiet_prefix) simp_all
  then show "yields (\<lambda>r evs. or_quiet r (Waited t x # evs)) (f x)"
    using assms(1) by (cases x) simp_all
qed

lemma ctx_opt: "yields (\<lambda>r evs. or_quiet r (Waited t (Some err) # evs)) (State_Monad.return (Some (Returned res (Some err))))"
  by (simp add: yields_return or_quiet_def ctx_leaf)

lemma none_opt: "yields or_quiet (State_Monad.return None)"
  by (simp add: yields_return or_quiet_def)

lemma startup_loop_law: "yields or_quiet (startup_loop env d res cid ip interval retries n)"
proof (induction n)
  case 0
  show ?case unfolding startup_loop.simps by (rule none_opt)
next
  case (Suc n)
  have hc: "yields or_quiet (do { unhealthy \<leftarrow> waitForDockerHealthy env cid;
      (case unhealthy of
         Some err \<Rightarrow> do { r \<leftarrow> db_health_failed env res cid err; State_Monad.return (Some r) }
       | None \<Rightarrow> do { onProgress env ''active'' ''Deployment active (database health check passed)'' (short cid) (dl_containerName d);
                    State_Monad.return (Some (Returned res None)) }) })"
    by (intro skip_opt waits_quiet yields_option active_opt outcome_opt db_failed_law)
  show ?case unfolding startup_loop.simps Let_def
  proof (rule wait_opt, simp_all only: option.case ctx_opt)
    show "yields or_quiet (do {
             ci2 \<leftarrow> ask ''inspect'' (de_InspectContainer env cid);
             (case (case ci2 of Inr c \<Rightarrow> if exited c then Some c else None | Inl err \<Rightarrow> None) of
                Some c \<Rightarrow> do {
                  r \<leftarrow> crashed env res cid ''Container exited during startup'' c;
                  State_Monad.return (Some r) }
              | None \<Rightarrow> do {
                  proto \<leftarrow> ProbePort env ip (dl_port d);
                  (if proto = ''http'' \<or> proto = ''tcp'' \<and> dl_healthcheck d = None then do {
                     onProgress env ''active'' (''Deployment active ('' @ proto @ '' port responding, attempt '' @ show_int (retries - int n) @ '')'')
                       (short cid) (dl_containerName d);
                     State_Monad.return (Some (Returned res None)) }
                   else if proto = ''tcp'' then do {
                     unhealthy \<leftarrow> waitForDockerHealthy env cid;
                     (case unhealthy of
                        Some err \<Rightarrow> do { r \<leftarrow> db_health_failed env res cid err; State_Monad.return (Some r) }
                      | None \<Rightarrow> do {
                          onProgress env ''active'' ''Deployment active (database health check passed)'' (short cid) (dl_containerName d);
                          State_Monad.return (Some (Returned res None)) }) }
                   else do {
                     onLog env (''Port '' @ show_int (dl_port d) @ '' still closed, container running (attempt '' @ show_int (retries - int n)
                       @ ''/'' @ show_int retries @ '')'');
                     startup_loop env d res cid ip interval retries n }) }) })"
      by (intro active_opt hc outcome_opt crashed_law yields_if yields_option skip_opt skips Suc.IH)
  qed
qed

lemma port_never_opened_law: "yields R (port_never_opened env d res cid ip)"
  unfolding port_never_opened_def Let_def by (intro skip skips stop_then_fail)

lemma wait_for_startup_law: "yields R (wait_for_startup env d res cid ip)"
proof -
  let ?rest = "do { r \<leftarrow> startup_loop env d res cid ip (startup_interval d) (startup_retries d) (nat (startup_retries d));
      (case r of Some outcome \<Rightarrow> State_Monad.return outcome | None \<Rightarrow> port_never_opened env d res cid ip) }"
  have rest: "yields R ?rest"
  proof (rule yields_bind [OF startup_loop_law])
    fix x evs assume x: "or_quiet x evs"
    show "yields (\<lambda>b evs'. R b (evs @ evs')) (case x of Some outcome \<Rightarrow> State_Monad.return outcome | None \<Rightarrow> port_never_opened env d res cid ip)"
    proof (cases x)
      case None
      with x show ?thesis
        by (simp add: or_quiet_def) (rule yields_mono [OF port_never_opened_law prefix])
    next
      case (Some r)
      with x show ?thesis by (simp add: or_quiet_def yields_return)
    qed
  qed
  show ?thesis unfolding wait_for_startup_def Let_def
    by (intro rest wait_then yields_if skip skips) (simp_all only: option.case ctx_fail rest)
qed

lemma smart_health_check_law: "yields R (smart_health_check env d res cid ip protocol)"
  unfolding smart_health_check_def
  by (intro active_then_finish yields_if yields_option skip skips waits_quiet runHTTPHealthChecks_law
      db_failed_law wait_for_startup_law)

lemma explicit_health_check_law:
  assumes "dl_oldID d = old"
  shows "yields R (explicit_health_check env d res cid ip)"
  unfolding explicit_health_check_def
proof (rule yields_bind [OF runHTTPHealthChecks_law])
  fix a evs assume a: "R a evs"
  let ?next = "case a of
        Returned result None \<Rightarrow>
          if dl_blueGreen d \<and> dl_oldID d \<noteq> [] \<and> dl_oldID d \<noteq> cid then do {
            sleep env (2 * second);
            _ \<leftarrow> stopAndRemove env (dl_oldID d);
            onProgress env ''deploying'' ''Traffic switched to new version'' [] [];
            finish result }
          else finish result
      | failed \<Rightarrow> State_Monad.return failed"
  show "yields (\<lambda>b evs'. R b (evs @ evs')) ?next"
  proof (cases "succeeded a")
    case False
    then have "?next = State_Monad.return a"
      by (cases a rule: succeeded.cases) simp_all
    with a show ?thesis by (simp add: yields_return)
  next
    case True
    then obtain r where r: "a = Returned r None" by (cases a rule: succeeded.cases) simp_all
    with a assms show ?thesis
      by (simp add: sleep_def stopAndRemove_def onProgress_def)
        (intro conjI impI yields_wait_then yields_call_then yields_return switch; simp)
  qed
qed

lemma deploy_probe_law:
  assumes "dl_oldID d = old"
  shows "yields R (deploy_probe env d res cid ip)"
  unfolding deploy_probe_def Let_def
  by (intro yields_if skip skips explicit_health_check_law smart_health_check_law assms)

lemma lookup_ip_quiet: "emits Q (lookup_ip env c network e n)"
proof (induction n arbitrary: e)
  case (Suc n)
  have "emits Q (sleep env second)" by (rule emits_ops) simp
  then show ?case unfolding lookup_ip.simps by (intro emits_rules emits_ask Suc.IH)
qed (simp add: emits_return)

lemma ip_failed_law: "yields R (do { logs \<leftarrow> ask ''logs'' (de_GetStartupLogs env cid 100);
    fail_with (with_logs logs res) (''getting container IP: '' @ err) })"
  by (intro skip skips yields_return ip_leaf)

lemma deploy_watch_law:
  assumes "dl_oldID d = old"
  shows "yields R (deploy_watch env d res cid)"
proof -
  have announce: "emits Q (onProgress env ''health_checking'' m c n)" for m c n by (rule emits_ops) simp
  have ip: "yields R (case r of ExitedWith c \<Rightarrow> crashed env res' cid ''Container crashed on startup'' c
      | NoIP err \<Rightarrow> do { logs \<leftarrow> ask ''logs'' (de_GetStartupLogs env cid 100);
          fail_with (with_logs logs res') (''getting container IP: '' @ err) }
      | GotIP ip \<Rightarrow> deploy_probe env d (res'' ip) cid ip)" for r res' res''
    by (cases r) (simp_all only: ip_outcome.case crashed_law ip_failed_law deploy_probe_law [OF assms])
  show ?thesis unfolding deploy_watch_def Let_def
  proof (rule wait_then, simp_all only: option.case ctx_fail)
    show "yields R (do {
          inspected \<leftarrow> ask ''inspect'' (de_InspectContainer env cid);
          (case (case inspected of Inr ci \<Rightarrow> if exited ci then Some ci else None | Inl err \<Rightarrow> None) of
             Some ci \<Rightarrow> crashed env (case inspected of Inr ci \<Rightarrow> res\<lparr>dr_Inspection := Some ci\<rparr> | Inl err \<Rightarrow> res) cid
               ''Container crashed on startup'' ci
           | None \<Rightarrow> do {
               onProgress env ''health_checking'' ''Container started, running health checks...'' (short cid) (dl_containerName d);
               onLog env (''Container '' @ dl_containerName d @ '' started, running health checks...'');
               r \<leftarrow> lookup_ip env cid (dl_network d) [] 3;
               (case r of
                  ExitedWith c \<Rightarrow> crashed env (case inspected of Inr ci \<Rightarrow> res\<lparr>dr_Inspection := Some ci\<rparr> | Inl err \<Rightarrow> res) cid
                    ''Container crashed on startup'' c
                | NoIP err \<Rightarrow> do {
                    logs \<leftarrow> ask ''logs'' (de_GetStartupLogs env cid 100);
                    fail_with (with_logs logs (case inspected of Inr ci \<Rightarrow> res\<lparr>dr_Inspection := Some ci\<rparr> | Inl err \<Rightarrow> res))
                      (''getting container IP: '' @ err) }
                | GotIP ip \<Rightarrow>
                    deploy_probe env d
                      (case inspected of Inr ci \<Rightarrow> (case inspected of Inr ci \<Rightarrow> res\<lparr>dr_Inspection := Some ci\<rparr> | Inl err \<Rightarrow> res)
                           \<lparr>dr_Inspection := Some (ci\<lparr>ci_IP := ip\<rparr>)\<rparr>
                       | Inl err \<Rightarrow> (case inspected of Inr ci \<Rightarrow> res\<lparr>dr_Inspection := Some ci\<rparr> | Inl err \<Rightarrow> res))
                      cid ip) }) })"
      by (intro yields_option ip crashed_law skip skips announce lookup_ip_quiet)
  qed
qed

lemma deploy_started_law:
  assumes "dl_oldID d = old" and panic: "R Panicked []"
  shows "yields R (deploy_started env d res cid)"
proof -
  have connect: "emits Q (if op_ProjectNetwork (dl_opts d) \<noteq> [] then do {
           traefikID \<leftarrow> ask ''traefik'' (de_FindTraefikContainer env);
           (if traefikID \<noteq> [] then do {
              _ \<leftarrow> call (\<lambda>_. ConnectedTraefik (op_ProjectNetwork (dl_opts d)))
                (de_ConnectToNetworkIfNeeded env traefikID (op_ProjectNetwork (dl_opts d)));
              State_Monad.return () }
            else State_Monad.return ()) }
         else State_Monad.return ())"
    by (intro emits_rules emits_ask) simp
  show ?thesis unfolding deploy_started_def Let_def
    by (intro yields_if yields_return panic skip skips connect deploy_watch_law assms)
qed

end

subsection \<open>Success and the active report\<close>

definition one_active :: "deploy_outcome \<Rightarrow> deploy_event list \<Rightarrow> bool" where
  "one_active r evs \<longleftrightarrow> length (filter is_active evs) = (if succeeded r then 1 else 0)"

lemma filter_active_quiet: "list_all (\<lambda>e. \<not> is_active e) evs \<Longrightarrow> filter is_active evs = []"
  by (simp add: filter_empty_conv list_all_iff)

interpretation report: after_start "\<lambda>e. \<not> is_active e" one_active cid old for cid old
  by unfold_locales (auto simp: one_active_def filter_active_quiet is_quiet_def)

text \<open>Waiting for companions is quiet under every law.\<close>

definition waiting :: "deploy_event \<Rightarrow> bool" where
  "waiting e \<longleftrightarrow> (case e of Progress st m c n \<Rightarrow> st = ''deploying'' | LogLine l \<Rightarrow> True | Asked w \<Rightarrow> True
     | FoundByLabel k v i \<Rightarrow> True | Waited t r \<Rightarrow> True | _ \<Rightarrow> False)"

lemma waiting_quiet: "waiting e \<Longrightarrow> is_quiet e"
  by (auto simp: waiting_def is_quiet_def split: deploy_event.splits)

lemma companions_loop_quiet:
  "companions_loop env slugs deadline s = (r, s') \<Longrightarrow> extends waiting s s'"
proof (induction env slugs deadline s rule: companions_loop.induct)
  case (1 env slugs deadline s)
  note step = "1.prems" [unfolded companions_loop.simps [of env slugs deadline s]]
  obtain ready s1 where c: "run_state (check_companions env True slugs) s = (ready, s1)" by fastforce
  have "emits waiting (check_companions env True slugs)" by (rule check_companions_emits) (simp_all add: waiting_def)
  note s1 = emits_extends [OF this c]
  consider "ready" | "\<not> ready" "rg_clock s1 > deadline" | "\<not> ready" "\<not> rg_clock s1 > deadline" by blast
  then show ?case
  proof cases
    case 1
    let ?msg = "''All '' @ show_int (int (length slugs)) @ '' companion service(s) are ready''"
    have "emits waiting (do { onProgress env ''deploying'' ?msg [] []; onLog env ?msg; State_Monad.return None })"
      by (intro emits_rules emits_ops) (simp_all add: waiting_def)
    moreover from step c 1 have
      "run_state (do { onProgress env ''deploying'' ?msg [] []; onLog env ?msg; State_Monad.return None }) s1 = (r, s')"
      by (simp only: prod.case if_True Let_def)
    ultimately show ?thesis by (rule extends_trans [OF s1 emits_extends])
  next
    case 2
    with step c have "s' = s1" by simp
    with s1 show ?thesis by simp
  next
    case 3
    obtain x s2 where w: "run_state (waitOrDone env (3 * second)) s1 = (x, s2)" by fastforce
    have "emits waiting (waitOrDone env (3 * second))" by (rule emits_waitOrDone) (simp add: waiting_def)
    note s2 = extends_trans [OF s1 emits_extends [OF this w]]
    show ?thesis
    proof (cases x)
      case (Some err)
      with 3 step c w have "s' = s2" by simp
      with s2 show ?thesis by simp
    next
      case None
      with 3 step c w have "companions_loop env slugs deadline s2 = (r, s')" by simp
      then show ?thesis using "1.IH" [OF c [symmetric] 3 w [symmetric] None] extends_trans [OF s2] by blast
    qed
  qed
qed

lemma waitForCompanions_quiet: "emits is_quiet (waitForCompanions env slugs)"
proof -
  have "emits waiting (waitForCompanions env slugs)"
    unfolding waitForCompanions_def
    by (intro emits_rules emits_ops emits_State) (auto simp: waiting_def dest: companions_loop_quiet)
  then show ?thesis by (rule emits_mono) (rule waiting_quiet)
qed

subsection \<open>Clean-up after a failure\<close>

text \<open>A failure that leaves the new container behind is one of three kinds.\<close>

fun cleaned :: "string \<Rightarrow> deploy_outcome \<Rightarrow> deploy_event list \<Rightarrow> bool" where
  "cleaned cid (Returned res (Some err)) evs \<longleftrightarrow>
     StoppedAndRemoved cid \<in> set evs \<or> HasPrefix err ''getting container IP: '' \<or>
     HasPrefix err ''database health check failed: '' \<or> (\<exists>w. Waited w (Some err) \<in> set evs)"
| "cleaned cid _ evs \<longleftrightarrow> True"

lemma cleaned_prefix: "cleaned cid r evs' \<Longrightarrow> cleaned cid r (evs @ evs')"
  by (cases "(cid, r, evs')" rule: cleaned.cases) auto

interpretation cleanup: after_start "\<lambda>_. True" "cleaned cid" cid old for cid old
  by unfold_locales (auto simp: cleaned_prefix)

text \<open>Nothing after the start reports a failure, and nothing runs another container.\<close>

definition not_ran :: "deploy_event \<Rightarrow> bool" where
  "not_ran e \<longleftrightarrow> (\<forall>ro r. e \<noteq> Ran ro r)"

interpretation unfailed: after_start "\<lambda>e. \<not> is_failed e" "\<lambda>r evs. list_all (\<lambda>e. \<not> is_failed e) evs" cid old for cid old
  by unfold_locales (auto simp: is_quiet_def)

interpretation single: after_start not_ran "\<lambda>r evs. list_all not_ran evs" cid old for cid old
  by unfold_locales (auto simp: not_ran_def is_quiet_def)

subsection \<open>The old container in a blue-green deploy\<close>

text \<open>
  The old container may be stopped only once the new one was reported active; the one exception is
  that the daemon named the old container itself as the deploy's own: as the answer to the start,
  or, when the start was refused, as the container that already has the name.
\<close>

definition adopted :: "string \<Rightarrow> deploy_event list \<Rightarrow> bool" where
  "adopted old evs \<longleftrightarrow> (\<exists>ro. Ran ro (Inr old) \<in> set evs) \<or>
     (\<exists>x ro err n y. evs = x @ Ran ro (Inl err) # FoundByName n old # y)"

definition protected :: "string \<Rightarrow> deploy_event list \<Rightarrow> bool" where
  "protected old evs \<longleftrightarrow> (\<forall>a b. evs = a @ StoppedAndRemoved old # b \<longrightarrow> list_ex is_active a \<or> adopted old a)"

lemma split_event:
  assumes "evs @ evs' = a @ x # b"
  obtains b' where "evs = a @ x # b'" | a' where "a = evs @ a'" "evs' = a' @ x # b"
proof -
  from assms consider us where "evs = a @ us" "us @ evs' = x # b" | us where "evs @ us = a" "evs' = us @ x # b"
    by (auto simp: append_eq_append_conv2)
  then show thesis
  proof cases
    case 1
    then show thesis
    proof (cases us)
      case Nil
      with 1 that(2) [of "[]"] show thesis by simp
    next
      case (Cons y ys)
      with 1 that(1) [of ys] show thesis by simp
    qed
  next
    case 2
    with that(2) [of us] show thesis by simp
  qed
qed

lemma protectedI:
  "(\<And>a b. evs = a @ StoppedAndRemoved old # b \<Longrightarrow> list_ex is_active a \<or> adopted old a) \<Longrightarrow> protected old evs"
  by (simp add: protected_def)

lemma protectedD: "protected old evs \<Longrightarrow> evs = a @ StoppedAndRemoved old # b \<Longrightarrow> list_ex is_active a \<or> adopted old a"
  by (simp add: protected_def)

lemma adopted_append: "adopted old a \<or> adopted old b \<Longrightarrow> adopted old (a @ b)"
proof (elim disjE)
  assume "adopted old a"
  then consider "\<exists>ro. Ran ro (Inr old) \<in> set a" | x ro err n y where "a = x @ Ran ro (Inl err) # FoundByName n old # y"
    unfolding adopted_def by blast
  then show "adopted old (a @ b)"
  proof cases
    case 1
    then show ?thesis by (auto simp: adopted_def)
  next
    case (2 x ro err n y)
    then have "a @ b = x @ Ran ro (Inl err) # FoundByName n old # (y @ b)" by simp
    then show ?thesis unfolding adopted_def by blast
  qed
next
  assume "adopted old b"
  then consider "\<exists>ro. Ran ro (Inr old) \<in> set b" | x ro err n y where "b = x @ Ran ro (Inl err) # FoundByName n old # y"
    unfolding adopted_def by blast
  then show "adopted old (a @ b)"
  proof cases
    case 1
    then show ?thesis by (auto simp: adopted_def)
  next
    case (2 x ro err n y)
    then have "a @ b = (a @ x) @ Ran ro (Inl err) # FoundByName n old # y" by simp
    then show ?thesis unfolding adopted_def by blast
  qed
qed

lemma adopted_start: "adopted old (Ran ro (Inr old) # evs)"
  by (auto simp: adopted_def)

lemma adopted_conflict: "adopted old (Ran ro (Inl err) # FoundByName n old # evs)"
  unfolding adopted_def by (rule disjI2) (rule exI [of _ "[]"], simp)

lemma protected_prefix:
  assumes "list_all (\<lambda>e. e \<noteq> StoppedAndRemoved old) evs" "protected old evs'"
  shows "protected old (evs @ evs')"
proof (rule protectedI)
  fix a b assume "evs @ evs' = a @ StoppedAndRemoved old # b"
  then show "list_ex is_active a \<or> adopted old a"
  proof (cases rule: split_event)
    case (1 b')
    with assms(1) show ?thesis by (simp add: list_all_iff)
  next
    case (2 a')
    with protectedD [OF assms(2) 2(2)] show ?thesis by (auto simp: adopted_append)
  qed
qed

lemma protected_after_active:
  assumes "protected old evs" "list_ex is_active evs"
  shows "protected old (evs @ evs')"
proof (rule protectedI)
  fix a b assume "evs @ evs' = a @ StoppedAndRemoved old # b"
  then show "list_ex is_active a \<or> adopted old a"
    by (cases rule: split_event) (use assms protectedD in auto)
qed

lemma protected_none: "StoppedAndRemoved old \<notin> set evs \<Longrightarrow> protected old evs"
  by (auto simp: protected_def)

lemma protected_adopted:
  assumes "adopted old evs" "StoppedAndRemoved old \<notin> set evs"
  shows "protected old (evs @ evs')"
proof (rule protectedI)
  fix a b assume "evs @ evs' = a @ StoppedAndRemoved old # b"
  then show "list_ex is_active a \<or> adopted old a"
    by (cases rule: split_event) (use assms in \<open>auto simp: adopted_append\<close>)
qed

interpretation keep: after_start "\<lambda>e. e \<noteq> StoppedAndRemoved old"
    "\<lambda>r evs. (succeeded r \<longrightarrow> list_ex is_active evs) \<and> (cid = old \<or> protected old evs)" cid old for cid old
proof unfold_locales
  fix evs r evs'
  assume "list_all (\<lambda>e. e \<noteq> StoppedAndRemoved old) evs"
    "(succeeded r \<longrightarrow> list_ex is_active evs') \<and> (cid = old \<or> protected old evs')"
  then show "(succeeded r \<longrightarrow> list_ex is_active (evs @ evs')) \<and> (cid = old \<or> protected old (evs @ evs'))"
    by (auto simp: protected_prefix)
next
  fix res err
  show "(succeeded (Returned res (Some err)) \<longrightarrow> list_ex is_active [StoppedAndRemoved cid]) \<and>
      (cid = old \<or> protected old [StoppedAndRemoved cid])"
    by (cases "cid = old") (simp_all add: protected_none)
qed (auto simp: protected_none protected_after_active is_quiet_def)

end
