(* ===== verification/Deploy_Properties.thy ===== *)
theory Deploy_Properties
  imports Deployer_Laws
begin

text \<open>
  The laws of \<open>Deployer_Laws\<close> carried through the whole of \<open>Deploy\<close>, and the properties of the
  deployer.  The locale \<open>whole_deploy\<close> is the contract of a law over a complete run: closed under
  what happens before the new container exists, and established by what follows a started or an
  adopted container.
\<close>

locale whole_deploy =
  fixes Q :: "deploy_event \<Rightarrow> bool" and R :: "deploy_outcome \<Rightarrow> deploy_event list \<Rightarrow> bool"
    and old :: string and env :: "'w docker_env"
  assumes quiet: "is_quiet e \<Longrightarrow> Q e"
    and prefix: "list_all Q evs \<Longrightarrow> R r evs' \<Longrightarrow> R r (evs @ evs')"
    and fail_leaf: "R (Returned res (Some err)) []"
    and unstarted_leaf: "R (Returned res (Some err)) [Ran ro (Inl err')]"
    and panic_leaf: "R Panicked []"
    and fast_leaf: "R (Returned res None) [Progress ''active'' m c n]"
    and started: "dl_oldID d = old \<Longrightarrow> yields (\<lambda>r evs. R r (Ran ro (Inr cid) # evs)) (deploy_started env d res cid)"
    and adopts: "dl_oldID d = old \<Longrightarrow>
      yields (\<lambda>r evs. R r (Ran ro (Inl err) # FoundByName n cid # evs)) (deploy_started env d res cid)"
    and adopt_panic: "R Panicked [Ran ro (Inl err), FoundByName n cid]"
    and unadopted: "R (Returned res (Some err)) [Ran ro (Inl err'), FoundByName n c]"
begin

lemma quiet_events [simp]:
  "Q (LogLine l)" "Q (Asked w)" "Q (Waited t r)" "Q (FoundByLabel k v i)" "Q (FoundByName n i)"
  "Q (Pulled i)" "Q (OwnedVolumes vols)" "Q (ConnectedTraefik n)" "Q (EnsuredNetwork n)"
  "st \<notin> {''active'', ''failed'', ''build_failed''} \<Longrightarrow> Q (Progress st m c n)"
  by (simp_all add: quiet is_quiet_def)

lemma skip: "emits Q m \<Longrightarrow> (\<And>a. yields R (f a)) \<Longrightarrow> yields R (State_Monad.bind m f)"
  by (erule yields_prefix) (simp_all add: prefix)

lemma emits_ask: "emits Q (ask w f)"
  by (rule emits_ops) simp

lemma emits_log: "emits Q (onLog env l)"
  by (rule emits_ops) simp

lemma start_law:
  assumes "dl_oldID d = old"
  shows "yields R (deploy_start env d res labels)"
proof -
  have volumes: "emits Q (if length (op_Volumes (dl_opts d)) > 0 then do {
        _ \<leftarrow> call (\<lambda>_. OwnedVolumes (op_Volumes (dl_opts d)))
          (de_EnsureVolumeOwnership env (op_ImageTag (dl_opts d)) (op_Volumes (dl_opts d)));
        State_Monad.return () }
      else State_Monad.return ())"
    by (intro emits_rules) simp
  show ?thesis unfolding deploy_start_def runContainer_def findByName_def
    by (intro skip volumes yields_call_then yields_sum yields_if yields_prod)
      (auto intro!: yields_if yields_return started adopts assms unstarted_leaf adopt_panic unadopted)
qed

lemma companions_quiet: "emits Q (waitForCompanions env slugs)"
  by (rule emits_mono [OF waitForCompanions_quiet]) (rule quiet)

lemma configure_law:
  assumes "dl_oldID d = old"
  shows "yields R (deploy_configure env d res labels)"
  unfolding deploy_configure_def Let_def
  by (intro yields_if yields_option skip emits_ask companions_quiet yields_return fail_leaf start_law)
    (simp_all add: assms)

lemma resolve_quiet: "emits Q (resolve_each env eps)"
  by (induction eps) (auto intro!: emits_rules emits_ask)

lemma fast_path_law: "yields R (do {
      digest \<leftarrow> ask ''digest'' (de_GetImageDigest env img);
      onProgress env ''active'' m c n;
      finish (res digest) })"
  unfolding onProgress_def by (intro skip emits_ask yields_call_then yields_return fast_leaf)

lemma prepare_law: "yields R (deploy_prepare env opts res network old blueGreen)"
proof -
  have find: "emits Q (findByName env n)" for n by (rule emits_ops) simp
  show ?thesis unfolding deploy_prepare_def Let_def
    by (intro fast_path_law configure_law yields_if yields_option yields_prod skip emits_ask resolve_quiet find
        yields_return panic_leaf) simp_all
qed

lemma pull_law: "yields R (deploy_pull env opts res network old blueGreen)"
proof -
  have "emits Q (pullImage env i a)" for i a by (rule emits_ops) simp
  then show ?thesis unfolding deploy_pull_def
    by (intro yields_if yields_option skip emits_log emits_each yields_return fail_leaf prepare_law)
qed

end

subsection \<open>The laws over a complete deploy\<close>

lemma one_active_quiet: "list_all (\<lambda>e. \<not> is_active e) evs \<Longrightarrow> one_active r evs' \<Longrightarrow> one_active r (evs @ evs')"
  by (simp add: one_active_def filter_active_quiet)

interpretation report_all: whole_deploy "\<lambda>e. \<not> is_active e" one_active old env for old env
proof unfold_locales
  fix d :: deploy_locals and res ro cid err n assume "dl_oldID d = old"
  then have law: "yields one_active (deploy_started env d res cid)"
    by (rule report.deploy_started_law) (simp add: one_active_def)
  show "yields (\<lambda>r evs. one_active r (Ran ro (Inr cid) # evs)) (deploy_started env d res cid)"
    by (rule yields_mono [OF law]) (simp add: one_active_def)
  show "yields (\<lambda>r evs. one_active r (Ran ro (Inl err) # FoundByName n cid # evs)) (deploy_started env d res cid)"
    by (rule yields_mono [OF law]) (simp add: one_active_def)
qed (auto simp: one_active_def filter_active_quiet is_quiet_def)

text \<open>The deployer leaves the report of a failure to its caller.\<close>

interpretation unfailed_all: whole_deploy "\<lambda>e. \<not> is_failed e" "\<lambda>r evs. list_all (\<lambda>e. \<not> is_failed e) evs" old env for old env
proof unfold_locales
  fix d :: deploy_locals and res ro cid err n assume "dl_oldID d = old"
  then have law: "yields (\<lambda>r evs. list_all (\<lambda>e. \<not> is_failed e) evs) (deploy_started env d res cid)"
    by (rule unfailed.deploy_started_law) simp
  show "yields (\<lambda>r evs. list_all (\<lambda>e. \<not> is_failed e) (Ran ro (Inr cid) # evs)) (deploy_started env d res cid)"
    by (rule yields_mono [OF law]) simp
  show "yields (\<lambda>r evs. list_all (\<lambda>e. \<not> is_failed e) (Ran ro (Inl err) # FoundByName n cid # evs)) (deploy_started env d res cid)"
    by (rule yields_mono [OF law]) simp
qed (auto simp: is_quiet_def)

text \<open>A container that was run is accounted for; at most one is run.\<close>

definition run_ids :: "deploy_event list \<Rightarrow> string list" where
  "run_ids evs = concat (map (\<lambda>e. case e of Ran ro (Inr cid) \<Rightarrow> [cid] | _ \<Rightarrow> []) evs)"

definition started_container :: "deploy_outcome \<Rightarrow> deploy_event list \<Rightarrow> bool" where
  "started_container r evs \<longleftrightarrow> length (run_ids evs) \<le> 1 \<and> list_all (\<lambda>cid. cleaned cid r evs) (run_ids evs)"

lemma run_ids_simps [simp]:
  "run_ids [] = []" "run_ids (Ran ro (Inr cid) # evs) = cid # run_ids evs"
  "run_ids (Ran ro (Inl err) # evs) = run_ids evs" "run_ids (FoundByName n c # evs) = run_ids evs"
  "run_ids (Progress s m c n # evs) = run_ids evs"
  "run_ids (evs @ evs') = run_ids evs @ run_ids evs'"
  by (simp_all add: run_ids_def)

lemma run_ids_none: "list_all not_ran evs \<Longrightarrow> run_ids evs = []"
  by (auto simp: run_ids_def not_ran_def list_all_iff split: deploy_event.splits sum.splits)

interpretation leak_all: whole_deploy not_ran started_container old env for old env
proof unfold_locales
  fix d :: deploy_locals and res ro cid err n assume d: "dl_oldID d = old"
  have law: "yields (\<lambda>r evs. cleaned cid r evs \<and> list_all not_ran evs) (deploy_started env d res cid)"
    using cleanup.deploy_started_law [OF d, of cid env res] single.deploy_started_law [OF d, of env res cid]
    by (intro yields_conj) simp_all
  show "yields (\<lambda>r evs. started_container r (Ran ro (Inr cid) # evs)) (deploy_started env d res cid)"
    using cleaned_prefix [of cid _ _ "[Ran ro (Inr cid)]"]
    by (intro yields_mono [OF law]) (simp add: started_container_def run_ids_none)
  show "yields (\<lambda>r evs. started_container r (Ran ro (Inl err) # FoundByName n cid # evs)) (deploy_started env d res cid)"
    by (intro yields_mono [OF law]) (simp add: started_container_def run_ids_none)
next
  fix evs r evs' assume "list_all not_ran evs" "started_container r evs'"
  then show "started_container r (evs @ evs')"
    by (auto simp: started_container_def run_ids_none list_all_iff cleaned_prefix)
qed (auto simp: started_container_def not_ran_def is_quiet_def)

definition kept_until_active :: "string \<Rightarrow> deploy_outcome \<Rightarrow> deploy_event list \<Rightarrow> bool" where
  "kept_until_active old r evs \<longleftrightarrow> (succeeded r \<longrightarrow> list_ex is_active evs) \<and> protected old evs"

interpretation keep_all: whole_deploy "\<lambda>e. e \<noteq> StoppedAndRemoved old" "kept_until_active old" old env for old env
proof unfold_locales
  fix d :: deploy_locals and res ro cid err n assume d: "dl_oldID d = old"
  have law: "yields (\<lambda>r evs. (succeeded r \<longrightarrow> list_ex is_active evs) \<and> (cid = old \<or> protected old evs))
      (deploy_started env d res cid)"
    using keep.deploy_started_law [OF d, of cid env res] by (simp add: protected_none)
  have other: "protected old (pre @ evs)" if "list_all (\<lambda>e. e \<noteq> StoppedAndRemoved old) pre" "cid = old \<longrightarrow> adopted old pre"
      "cid = old \<or> protected old evs" for pre evs
    using that by (cases "cid = old") (auto intro: protected_adopted protected_prefix simp: list_all_iff)
  show "yields (\<lambda>r evs. kept_until_active old r (Ran ro (Inr cid) # evs)) (deploy_started env d res cid)"
    by (intro yields_mono [OF law])
      (use other [of "[Ran ro (Inr cid)]"] in \<open>auto simp: kept_until_active_def adopted_start\<close>)
  show "yields (\<lambda>r evs. kept_until_active old r (Ran ro (Inl err) # FoundByName n cid # evs)) (deploy_started env d res cid)"
    by (intro yields_mono [OF law])
      (use other [of "[Ran ro (Inl err), FoundByName n cid]"] in \<open>auto simp: kept_until_active_def adopted_conflict\<close>)
next
  fix evs r evs' assume "list_all (\<lambda>e. e \<noteq> StoppedAndRemoved old) evs" "kept_until_active old r evs'"
  then show "kept_until_active old r (evs @ evs')" by (simp add: kept_until_active_def protected_prefix)
qed (auto simp: kept_until_active_def is_quiet_def intro!: protected_none)

subsection \<open>Properties of Deploy\<close>

lemma deploy_one_active: "yields one_active (Deploy env opts)"
proof -
  have q: "emits (\<lambda>e. \<not> is_active e) (onProgress env ''deploying'' m c n)"
    "emits (\<lambda>e. \<not> is_active e) (ensureNetwork env n)" "emits (\<lambda>e. \<not> is_active e) (findByLabel env k v)"
    "emits (\<lambda>e. \<not> is_active e) (stopAndRemove env c)" for m c n k v
    by (rule emits_ops, simp)+
  show ?thesis unfolding Deploy_def Let_def
    by (intro report_all.skip q yields_option yields_prod yields_if report_all.pull_law yields_return)
      (simp_all add: one_active_def)
qed

lemma deploy_unfailed: "yields (\<lambda>r evs. list_all (\<lambda>e. \<not> is_failed e) evs) (Deploy env opts)"
proof -
  have q: "emits (\<lambda>e. \<not> is_failed e) (onProgress env ''deploying'' m c n)"
    "emits (\<lambda>e. \<not> is_failed e) (ensureNetwork env n)" "emits (\<lambda>e. \<not> is_failed e) (findByLabel env k v)"
    "emits (\<lambda>e. \<not> is_failed e) (stopAndRemove env c)" for m c n k v
    by (rule emits_ops, simp)+
  show ?thesis unfolding Deploy_def Let_def
    by (intro unfailed_all.skip q yields_option yields_prod yields_if unfailed_all.pull_law yields_return) simp_all
qed

text \<open>
  C1. A deploy reports \<^verbatim>\<open>active\<close> exactly once when it succeeds and never when it fails or panics,
  whatever Docker, the network and the container do.
\<close>

theorem active_reported_iff_success: "yields one_active (Deploy env opts)"
  by (rule deploy_one_active)

text \<open>
  C4. A deploy starts at most one container, and when it fails after starting it, it has stopped
  and removed it, except in three cases: the container's address could not be found, the database
  health check failed, or the context ended while it waited.
\<close>

theorem failed_deploy_cleans_up: "yields started_container (Deploy env opts)"
proof -
  have q: "emits not_ran (onProgress env st m c n)"
    "emits not_ran (ensureNetwork env n)" "emits not_ran (findByLabel env k v)"
    "emits not_ran (stopAndRemove env c)" for st m c n k v
    by (rule emits_ops, simp add: not_ran_def)+
  show ?thesis unfolding Deploy_def Let_def
    by (intro leak_all.skip q yields_option yields_prod yields_if leak_all.pull_law yields_return)
      (simp_all add: started_container_def)
qed

text \<open>The container of the service that a deploy found before it did anything else.\<close>

fun old_container :: "deploy_event list \<Rightarrow> string" where
  "old_container (a # b # FoundByLabel k v cid # evs) = cid"
| "old_container _ = []"

lemma blue_green_kept:
  assumes "shouldBlueGreen opts"
  shows "yields (\<lambda>r evs. kept_until_active (old_container evs) r evs) (Deploy env opts)"
proof -
  let ?R = "\<lambda>r evs. kept_until_active (old_container evs) r evs"
  have after: "yields (\<lambda>r evs. ?R r (Progress st m c n # EnsuredNetwork k # FoundByLabel l v old # evs)) comp"
    if "yields (kept_until_active old) comp" for st m c n k l v old and comp :: "('a, deploy_outcome) deploying"
    by (rule yields_mono [OF that])
      (use keep_all.prefix [of old "[Progress st m c n, EnsuredNetwork k, FoundByLabel l v old]"] in simp)
  have kept: "kept_until_active old r (Progress st m c n # evs)" if "kept_until_active old r evs" for old r st m c n evs
    using keep_all.prefix [of old "[Progress st m c n]" r evs] that by simp
  have rest: "yields (kept_until_active old) (do { onProgress env st m c n; deploy_pull env opts res net old b })"
    for st m c n res net old b
    unfolding onProgress_def by (intro yields_call_then yields_mono [OF keep_all.pull_law] kept)
  have panic: "yields (kept_until_active old) panic" for old
    by (intro yields_return keep_all.panic_leaf)
  have found: "yields (\<lambda>r evs. ?R r (Progress st m c n # EnsuredNetwork k # FoundByLabel l v (fst found) # evs))
     (case found of (oldID, oldName, findErr) \<Rightarrow>
        if oldID = [] then deploy_pull env opts res net [] False
        else if length oldID < 12 then panic
        else if \<not> (shouldBlueGreen opts \<and> oldID \<noteq> []) then do {
          _ \<leftarrow> stopAndRemove env oldID;
          deploy_pull env opts res net [] False }
        else do {
          onProgress env ''deploying'' ''Starting new container (current version remains active)'' [] [];
          deploy_pull env opts res net oldID True })" for st m c n k l v res net found
  proof (rule after, rule yields_prod)
    fix old oldName_err oldName findErr assume f: "found = (old, oldName_err)"
    show "yields (kept_until_active (fst found)) (case oldName_err of (oldName, findErr) \<Rightarrow>
        if old = [] then deploy_pull env opts res net [] False
        else if length old < 12 then panic
        else if \<not> (shouldBlueGreen opts \<and> old \<noteq> []) then do {
          _ \<leftarrow> stopAndRemove env old;
          deploy_pull env opts res net [] False }
        else do {
          onProgress env ''deploying'' ''Starting new container (current version remains active)'' [] [];
          deploy_pull env opts res net old True })"
      using assms by (auto simp: f intro: rest panic keep_all.pull_law split: prod.split)
  qed
  show ?thesis
    unfolding Deploy_def Let_def onProgress_def [of env _ "''Starting deployment...''"] ensureNetwork_def findByLabel_def
    by (intro yields_call_then yields_option yields_return found) (simp add: kept_until_active_def protected_none)
qed

text \<open>
  C3. In a blue-green deploy the container that serves the current version is stopped only after the
  new one was reported \<^verbatim>\<open>active\<close>, whatever fails on the way, with one exception: when the daemon names that
  very container as the one of this deploy, as its answer to the start or, after it refused the
  start, as the container that has the name.  A redelivered command can meet that exception; the
  container is then treated as the new one, and a failing health check removes it.
\<close>

theorem blue_green_keeps_old:
  assumes "shouldBlueGreen opts"
  shows "yields (\<lambda>r evs. \<forall>a b. evs = a @ StoppedAndRemoved (old_container evs) # b \<longrightarrow>
      list_ex is_active a \<or> adopted (old_container evs) a) (Deploy env opts)"
  by (rule yields_mono [OF blue_green_kept [OF assms]]) (simp add: kept_until_active_def protected_def)

text \<open>
  A concrete deployment: image \<^verbatim>\<open>clank-web\<close> (built here, so nothing is pulled), port 80, one
  health-check attempt on the given path.
\<close>

definition sample_opts :: "string \<Rightarrow> DeployOpts" where
  "sample_opts path =
    \<lparr>op_DeploymentID = ''12345678-abcd'', op_ServiceSlug = ''web'', op_ImageTag = ''clank-web:1'', op_Env = Map.empty,
     op_Port = 80, op_Domains = [], op_Endpoints = [],
     op_HealthConfig = \<lparr>dh_Path = path, dh_TimeoutSeconds = 5, dh_Retries = 2, dh_IntervalSeconds = 10, dh_StartupGraceSeconds = 0\<rparr>,
     op_CPULimit = 0, op_MemoryLimitMB = 0, op_ProjectNetwork = [], op_LANIPs = [], op_Volumes = [],
     op_ContainerCommand = [], op_CompanionSlugs = [], op_RegistryAuth = None\<rparr>"

lemma blue_green_keeps_old_witness:
  "shouldBlueGreen (sample_opts ''/healthz'') \<and>
   yields (\<lambda>r evs. \<forall>a b. evs = a @ StoppedAndRemoved (old_container evs) # b \<longrightarrow>
      list_ex is_active a \<or> adopted (old_container evs) a)
     (Deploy (sample_env ''old-container-1'' ''new-container-1'' 500) (sample_opts ''/healthz''))"
proof -
  have "shouldBlueGreen (sample_opts ''/healthz'')" by (simp add: shouldBlueGreen_def sample_opts_def)
  with blue_green_keeps_old [OF this] show ?thesis by simp
qed

text \<open>The first four events of a recreate deploy.\<close>

definition recreated_first :: "deploy_event list \<Rightarrow> bool" where
  "recreated_first evs \<longleftrightarrow>
     (length (old_container evs) < 12 \<or> take 1 (drop 3 evs) = [StoppedAndRemoved (old_container evs)])"

text \<open>
  A deploy that is not blue-green removes the container it found for the service before anything
  else: before the image is pulled, before the configuration is known to be usable, and before the
  look-up that lets a redelivered command go on with a running container.  So a pull error takes
  the service down, and a redelivered command kills the container the first delivery started.
\<close>

theorem recreate_removes_first:
  assumes "\<not> shouldBlueGreen opts"
  shows "yields (\<lambda>r evs. recreated_first evs) (Deploy env opts)"
proof -
  have pull: "yields (\<lambda>r evs. True) (deploy_pull env opts res net old b)" for res net old b
    by (rule yields_mono [OF report_all.pull_law]) simp
  have found: "yields (\<lambda>r evs. recreated_first (Progress st m c n # EnsuredNetwork k # FoundByLabel l v (fst found) # evs))
     (case found of (oldID, oldName, findErr) \<Rightarrow>
        if oldID = [] then deploy_pull env opts res net [] False
        else if length oldID < 12 then panic
        else if \<not> (shouldBlueGreen opts \<and> oldID \<noteq> []) then do {
          _ \<leftarrow> stopAndRemove env oldID;
          deploy_pull env opts res net [] False }
        else do {
          onProgress env ''deploying'' ''Starting new container (current version remains active)'' [] [];
          deploy_pull env opts res net oldID True })" for st m c n k l v res net found
  proof (cases found)
    case (fields old oldName findErr)
    show ?thesis
    proof (cases "length old < 12")
      case True
      then show ?thesis by (simp add: fields recreated_first_def pull yields_return)
    next
      case False
      then have "old \<noteq> []" by auto
      with False assms show ?thesis
        unfolding fields stopAndRemove_def
        by (simp add: recreated_first_def) (intro yields_call_then, simp add: pull)
    qed
  qed
  show ?thesis
    unfolding Deploy_def Let_def onProgress_def [of env _ "''Starting deployment...''"] ensureNetwork_def findByLabel_def
    by (intro yields_call_then yields_option yields_return found) (simp add: recreated_first_def)
qed

lemma recreate_removes_first_witness:
  "\<not> shouldBlueGreen (sample_opts []) \<and>
   yields (\<lambda>r evs. recreated_first evs) (Deploy (sample_env ''old-container-1'' ''new-container-1'' 200) (sample_opts []))"
proof -
  have "\<not> shouldBlueGreen (sample_opts [])" by (simp add: shouldBlueGreen_def sample_opts_def)
  with recreate_removes_first [OF this] show ?thesis by simp
qed

definition removed_ids :: "deploy_event list \<Rightarrow> string list" where
  "removed_ids evs = concat (map (\<lambda>e. case e of StoppedAndRemoved c \<Rightarrow> [c] | _ \<Rightarrow> []) evs)"

definition sample_locals :: deploy_locals where
  "sample_locals = \<lparr>dl_opts = sample_opts ''/healthz'', dl_network = servicesNetwork, dl_oldID = ''old-container-1'',
     dl_blueGreen = True, dl_imageMeta = None, dl_port = 80, dl_containerName = ''clank-web-12345678'', dl_healthcheck = None\<rparr>"

text \<open>
  When the context ends between two health-check attempts, the deploy fails and leaves the
  container it started, although the caller's comment says that it was stopped: a run with one
  failed attempt before the context ends removes nothing.
\<close>

theorem cancelled_health_check_leaks:
  "case run_state (explicit_health_check (sample_env ''old-container-1'' ''new-container-1'' 500) sample_locals
      zero_DeployResult ''new-container-1'' ''10.0.0.2'') (start_rig 0) of
     (r, s') \<Rightarrow> (case r of Returned res (Some err) \<Rightarrow> err = ''context canceled'' | _ \<Rightarrow> False) \<and>
       removed_ids (rg_trace s') = []"
  by code_simp

text \<open>
  The exception of the blue-green deploy: the command is delivered again while the container of its
  first delivery, the current one of the service, cannot be inspected.  The start is refused because
  the name is taken, the deploy goes on with the container that has it, and when the health check
  of that container fails it is removed, without any report that another version is active.
\<close>

definition redelivered_env :: "nat docker_env" where
  "redelivered_env = (sample_env ''old-container-1'' [] 500)\<lparr>
     de_FindContainerByName := \<lambda>n w. ((''old-container-1'', n, None), 0, w),
     de_RunContainer := \<lambda>ro w. (Inl ''the name is already in use'', 0, w)\<rparr>"

theorem redelivered_deploy_removes_current:
  "(\<exists>evs. run_state (deploy_start redelivered_env sample_locals zero_DeployResult Map.empty) (start_rig 8) =
     run_state (deploy_started redelivered_env sample_locals zero_DeployResult (dl_oldID sample_locals))
       \<lparr>rg_world = 8, rg_clock = 0, rg_trace = evs\<rparr>) \<and>
   (case run_state (explicit_health_check redelivered_env sample_locals zero_DeployResult (dl_oldID sample_locals) ''10.0.0.2'')
       (start_rig 8) of
     (r, s') \<Rightarrow> \<not> succeeded r \<and> removed_ids (rg_trace s') = [dl_oldID sample_locals] \<and> \<not> list_ex is_active (rg_trace s'))"
proof (intro conjI)
  have taken: "Contains ''the name is already in use'' ''is already in use''" by code_simp
  show "\<exists>evs. run_state (deploy_start redelivered_env sample_locals zero_DeployResult Map.empty) (start_rig 8) =
     run_state (deploy_started redelivered_env sample_locals zero_DeployResult (dl_oldID sample_locals))
       \<lparr>rg_world = 8, rg_clock = 0, rg_trace = evs\<rparr>"
    by (simp add: deploy_start_def runContainer_def findByName_def call_def redelivered_env_def sample_env_def
        sample_locals_def sample_opts_def start_rig_def taken call_wait_def) (rule exI, rule refl)
qed code_simp

end
