(* ===== verification/Files.thy ===== *)
theory Files
  imports Go_Strings "HOL-Library.AList" "HOL-Library.State_Monad"
begin

text \<open>
  Files, faults and crashes.  A path is the list of its components (every path the agent builds is
  joined from components without a slash), a disk an association list from the paths of the
  regular files to their contents; directories exist as soon as a file needs them.

  Each operation asks the oracle \<open>fs_fail\<close> whether it fails this time; a failing write leaves a
  prefix behind.  \<open>fs_history\<close> records every content the disk had: these are the states a crash
  can leave.  \<open>safe\<close> is the judgement the components reason with; its last argument holds of
  every recorded disk.  The loss of unsynced data in a power failure is not modelled.
\<close>

type_synonym path = "string list"
type_synonym disk = "(path \<times> string) list"

datatype fs_op =
    Mkdir path | CreateFile path | Chmod path | WriteFile path | Sync path | CloseFile path
  | Rename path path | RemoveFile path | ReadFile path | Stat path

record fs =
  fs_disk :: disk
  fs_fail :: "nat \<Rightarrow> fs_op \<Rightarrow> bool"
  fs_short :: "nat \<Rightarrow> nat"
  fs_count :: nat
  fs_history :: "disk list"

type_synonym 'a fsm = "(fs, 'a) state"

definition os_error :: go_error where "os_error = ''input/output error''"

subsection \<open>Operations\<close>

text \<open>An operation that changes the disk by \<open>f\<close> unless it fails.\<close>

definition attempt :: "fs_op \<Rightarrow> (disk \<Rightarrow> disk) \<Rightarrow> bool fsm" where
  "attempt x f = State (\<lambda>s.
     if fs_fail s (fs_count s) x then (False, s\<lparr>fs_count := Suc (fs_count s)\<rparr>)
     else (True, s\<lparr>fs_disk := f (fs_disk s), fs_count := Suc (fs_count s),
                  fs_history := fs_history s @ [f (fs_disk s)]\<rparr>))"

definition mkdir :: "path \<Rightarrow> bool fsm" where
  "mkdir p = attempt (Mkdir p) (\<lambda>d. d)"

definition temp_path :: "path \<Rightarrow> string \<Rightarrow> disk \<Rightarrow> path" where
  "temp_path dir pat d =
     (case filter (\<lambda>p. map_of d p = None) (map (\<lambda>k. dir @ [pat @ show_nat k]) [0..<Suc (length d)]) of
        p # _ \<Rightarrow> p | [] \<Rightarrow> dir @ [pat @ show_nat (length d)])"

definition create_temp :: "path \<Rightarrow> string \<Rightarrow> path option fsm" where
  "create_temp dir pat = do {
     p \<leftarrow> State (\<lambda>s. (temp_path dir pat (fs_disk s), s));
     ok \<leftarrow> attempt (CreateFile p) (AList.update p []);
     State_Monad.return (if ok then Some p else None) }"

text \<open>A write first leaves some prefix, and then the whole content unless it fails.\<close>

definition write_file :: "path \<Rightarrow> string \<Rightarrow> bool fsm" where
  "write_file p content = State (\<lambda>s.
     let part = AList.update p (take (fs_short s (fs_count s)) content) (fs_disk s);
         full = AList.update p content (fs_disk s)
     in if fs_fail s (fs_count s) (WriteFile p)
        then (False, s\<lparr>fs_disk := part, fs_count := Suc (fs_count s), fs_history := fs_history s @ [part]\<rparr>)
        else (True, s\<lparr>fs_disk := full, fs_count := Suc (fs_count s), fs_history := fs_history s @ [part, full]\<rparr>))"

definition rename_file :: "path \<Rightarrow> path \<Rightarrow> bool fsm" where
  "rename_file p q = State (\<lambda>s. case map_of (fs_disk s) p of
     None \<Rightarrow> (False, s)
   | Some content \<Rightarrow> run_state (attempt (Rename p q) (\<lambda>d. AList.update q content (AList.delete p d))) s)"

datatype remove_result = Gone | NotExist | RemoveFailed

definition remove_file :: "path \<Rightarrow> remove_result fsm" where
  "remove_file p = State (\<lambda>s. if map_of (fs_disk s) p = None then (NotExist, s)
     else run_state (do { ok \<leftarrow> attempt (RemoveFile p) (AList.delete p);
                          State_Monad.return (if ok then Gone else RemoveFailed) }) s)"

fun remove_each :: "path list \<Rightarrow> bool fsm" where
  "remove_each [] = State_Monad.return True"
| "remove_each (p # ps) = do {
     r \<leftarrow> remove_file p;
     ok \<leftarrow> remove_each ps;
     State_Monad.return (r \<noteq> RemoveFailed \<and> ok) }"

definition below :: "path \<Rightarrow> path \<Rightarrow> bool" where
  "below dir p \<longleftrightarrow> take (length dir) p = dir"

definition remove_all :: "path \<Rightarrow> go_error option fsm" where
  "remove_all dir = do {
     ps \<leftarrow> State (\<lambda>s. (filter (below dir) (map fst (fs_disk s)), s));
     ok \<leftarrow> remove_each ps;
     State_Monad.return (if ok then None else Some os_error) }"

definition read_file :: "path \<Rightarrow> string option fsm" where
  "read_file p = do {
     ok \<leftarrow> attempt (ReadFile p) (\<lambda>d. d);
     State (\<lambda>s. (if ok then map_of (fs_disk s) p else None, s)) }"

definition regularFile :: "path \<Rightarrow> bool fsm" where
  "regularFile p = do {
     ok \<leftarrow> attempt (Stat p) (\<lambda>d. d);
     State (\<lambda>s. (ok \<and> map_of (fs_disk s) p \<noteq> None, s)) }"

text \<open>
  Writing through a temporary file in the same directory, as \<^verbatim>\<open>atomicWrite\<close>
  (\<^verbatim>\<open>internal/certs/store.go\<close>) and the body of \<^verbatim>\<open>SaveConfig\<close>
  (\<^verbatim>\<open>internal/agent/config.go\<close>) do, the removal of the target after a failed rename included.
\<close>

definition fill_temp :: "path \<Rightarrow> string \<Rightarrow> bool fsm" where
  "fill_temp tmp content = do {
     ok \<leftarrow> attempt (Chmod tmp) (\<lambda>d. d);
     if \<not> ok then State_Monad.return False else do {
     ok \<leftarrow> write_file tmp content;
     if \<not> ok then State_Monad.return False else do {
     ok \<leftarrow> attempt (Sync tmp) (\<lambda>d. d);
     if \<not> ok then State_Monad.return False else attempt (CloseFile tmp) (\<lambda>d. d) } } }"

definition move_temp :: "path \<Rightarrow> path \<Rightarrow> bool fsm" where
  "move_temp tmp target = do {
     ok \<leftarrow> rename_file tmp target;
     if ok then State_Monad.return True
     else do {
       r \<leftarrow> remove_file target;
       if r = RemoveFailed then State_Monad.return False else rename_file tmp target } }"

definition write_via_temp :: "string \<Rightarrow> path \<Rightarrow> string \<Rightarrow> go_error option fsm" where
  "write_via_temp pat target content = do {
     t \<leftarrow> create_temp (butlast target) pat;
     (case t of
        None \<Rightarrow> State_Monad.return (Some os_error)
      | Some tmp \<Rightarrow> do {
          filled \<leftarrow> fill_temp tmp content;
          moved \<leftarrow> (if filled then move_temp tmp target else State_Monad.return False);
          (if moved then State_Monad.return None
           else do { _ \<leftarrow> remove_file tmp; State_Monad.return (Some os_error) }) }) }"

text \<open>A file system that fails in the same way all the time.\<close>

definition fs_with :: "(fs_op \<Rightarrow> bool) \<Rightarrow> disk \<Rightarrow> fs" where
  "fs_with fail d = \<lparr>fs_disk = d, fs_fail = \<lambda>n. fail, fs_short = \<lambda>n. 0, fs_count = 0, fs_history = []\<rparr>"

fun fails_rename :: "fs_op \<Rightarrow> bool" where
  "fails_rename (Rename p q) = True"
| "fails_rename _ = False"

subsection \<open>The judgement\<close>

text \<open>
  A file system whose renames, reads and stats work.  Every other operation may fail at any time: making
  a directory or a file, changing a mode, writing, syncing, closing, removing.  The restriction is
  real: when a rename fails, \<^verbatim>\<open>SaveConfig\<close> and the updater fall back to steps that can leave no file
  at all (\<open>failed_rename_loses_config\<close>).
\<close>

definition renames_and_reads_work :: "(nat \<Rightarrow> fs_op \<Rightarrow> bool) \<Rightarrow> bool" where
  "renames_and_reads_work fail \<longleftrightarrow> (\<forall>n p q. \<not> fail n (Rename p q)) \<and> (\<forall>n p. \<not> fail n (ReadFile p)) \<and> (\<forall>n p. \<not> fail n (Stat p))"

definition safe :: "(disk \<Rightarrow> bool) \<Rightarrow> 'a fsm \<Rightarrow> ('a \<Rightarrow> disk \<Rightarrow> bool) \<Rightarrow> (disk \<Rightarrow> bool) \<Rightarrow> bool" where
  "safe P m Q C \<longleftrightarrow> (\<forall>s a s'. renames_and_reads_work (fs_fail s) \<and> P (fs_disk s) \<and> run_state m s = (a, s') \<longrightarrow>
     fs_fail s' = fs_fail s \<and> Q a (fs_disk s') \<and> (\<exists>hs. fs_history s' = fs_history s @ hs \<and> list_all C hs))"

lemma safeI:
  assumes "\<And>s a s'. renames_and_reads_work (fs_fail s) \<Longrightarrow> P (fs_disk s) \<Longrightarrow> run_state m s = (a, s') \<Longrightarrow>
     fs_fail s' = fs_fail s \<and> Q a (fs_disk s') \<and> (\<exists>hs. fs_history s' = fs_history s @ hs \<and> list_all C hs)"
  shows "safe P m Q C"
  using assms by (auto simp: safe_def)

lemma safeD:
  assumes "safe P m Q C" "renames_and_reads_work (fs_fail s)" "P (fs_disk s)" "run_state m s = (a, s')"
  obtains hs where "fs_fail s' = fs_fail s" "Q a (fs_disk s')" "fs_history s' = fs_history s @ hs" "list_all C hs"
  using assms unfolding safe_def by blast

lemma safe_conseq:
  assumes "safe P m Q C" "\<And>d. P' d \<Longrightarrow> P d" "\<And>a d. Q a d \<Longrightarrow> Q' a d" "\<And>d. C d \<Longrightarrow> C' d"
  shows "safe P' m Q' C'"
proof (rule safeI)
  fix s a s' assume "renames_and_reads_work (fs_fail s)" "P' (fs_disk s)" "run_state m s = (a, s')"
  from safeD [OF assms(1) this(1) assms(2) [OF this(2)] this(3)] obtain hs where
    "fs_fail s' = fs_fail s" "Q a (fs_disk s')" "fs_history s' = fs_history s @ hs" "list_all C hs" .
  then show "fs_fail s' = fs_fail s \<and> Q' a (fs_disk s') \<and> (\<exists>hs. fs_history s' = fs_history s @ hs \<and> list_all C' hs)"
    using assms(3, 4) by (auto elim!: list.pred_mono_strong)
qed

lemma safe_return: "(\<And>d. P d \<Longrightarrow> Q x d) \<Longrightarrow> safe P (State_Monad.return x) Q C"
  by (rule safeI) (auto simp: State_Monad.return_def)

lemma safe_bind:
  assumes "safe P m Q C" "\<And>a. safe (Q a) (f a) R C"
  shows "safe P (State_Monad.bind m f) R C"
proof (rule safeI)
  fix s b s'' assume r: "renames_and_reads_work (fs_fail s)" "P (fs_disk s)" and run: "run_state (State_Monad.bind m f) s = (b, s'')"
  obtain a s' where m: "run_state m s = (a, s')" by fastforce
  with run have f: "run_state (f a) s' = (b, s'')" by (simp add: State_Monad.bind_def)
  obtain hs where s': "fs_fail s' = fs_fail s" "Q a (fs_disk s')" "fs_history s' = fs_history s @ hs" "list_all C hs"
    by (rule safeD [OF assms(1) r m])
  with r(1) have "renames_and_reads_work (fs_fail s')" by simp
  from safeD [OF assms(2) this s'(2) f] obtain hs' where
    "fs_fail s'' = fs_fail s'" "R b (fs_disk s'')" "fs_history s'' = fs_history s' @ hs'" "list_all C hs'" .
  with s' show "fs_fail s'' = fs_fail s \<and> R b (fs_disk s'') \<and> (\<exists>hs. fs_history s'' = fs_history s @ hs \<and> list_all C hs)"
    by simp
qed

lemma safe_if: "(b \<Longrightarrow> safe P m Q C) \<Longrightarrow> (\<not> b \<Longrightarrow> safe P m' Q C) \<Longrightarrow> safe P (if b then m else m') Q C"
  by simp

lemma safe_option:
  "(x = None \<Longrightarrow> safe P m Q C) \<Longrightarrow> (\<And>y. x = Some y \<Longrightarrow> safe P (f y) Q C) \<Longrightarrow>
   safe P (case x of None \<Rightarrow> m | Some y \<Rightarrow> f y) Q C"
  by (simp split: option.split)

lemma safe_pre: "(\<And>d. P d \<Longrightarrow> safe (\<lambda>d'. d' = d) m Q C) \<Longrightarrow> safe P m Q C"
  unfolding safe_def by blast

lemma safe_assume: "(F \<Longrightarrow> safe P m Q C) \<Longrightarrow> safe (\<lambda>d. P d \<and> F) m Q C"
  unfolding safe_def by blast

lemma safe_attempt:
  assumes "\<And>d. P d \<Longrightarrow> Q True (f d) \<and> Q False d \<and> C (f d)"
  shows "safe P (attempt x f) Q C"
  using assms by (intro safeI) (auto simp: attempt_def split: if_splits)

subsection \<open>Writing is atomic on a reliable file system\<close>

definition is_temp :: "path \<Rightarrow> bool" where
  "is_temp p \<longleftrightarrow> p \<noteq> [] \<and> (HasPrefix (last p) ''.clank-credential-'' \<or> HasPrefix (last p) ''.config-'')"

text \<open>The disk without the temporary files.\<close>

definition view :: "disk \<Rightarrow> path \<rightharpoonup> string" where
  "view d = (\<lambda>p. if is_temp p then None else map_of d p)"

lemma view_update: "view (AList.update p c d) = (if is_temp p then view d else (view d)(p \<mapsto> c))"
  by (auto simp: view_def update_conv')

lemma view_delete: "view (AList.delete p d) = (if is_temp p then view d else (view d)(p := None))"
  by (auto simp: view_def delete_conv')

lemma is_temp_path:
  assumes "pat \<in> {''.clank-credential-'', ''.config-''}"
  shows "is_temp (temp_path dir pat d)"
proof -
  have temp: "is_temp (dir @ [pat @ k])" for k using assms by (auto simp: is_temp_def)
  show ?thesis
  proof (cases "filter (\<lambda>p. map_of d p = None) (map (\<lambda>k. dir @ [pat @ show_nat k]) [0..<Suc (length d)])")
    case Nil
    then show ?thesis using temp unfolding temp_path_def Nil by simp
  next
    case (Cons p ps)
    then have "p \<in> set (map (\<lambda>k. dir @ [pat @ show_nat k]) [0..<Suc (length d)])"
      by (metis filter_is_subset list.set_intros(1) subsetD)
    then show ?thesis using temp unfolding temp_path_def Cons by auto
  qed
qed

lemma safe_create_temp:
  assumes "pat \<in> {''.clank-credential-'', ''.config-''}" "\<And>d. view d = v \<Longrightarrow> C d"
  shows "safe (\<lambda>d. view d = v) (create_temp dir pat) (\<lambda>t d. view d = v \<and> (\<forall>p. t = Some p \<longrightarrow> is_temp p)) C"
proof (rule safeI)
  fix s a s' assume "view (fs_disk s) = v" "run_state (create_temp dir pat) s = (a, s')"
  moreover have "is_temp (temp_path dir pat (fs_disk s))" by (rule is_temp_path [OF assms(1)])
  ultimately show "fs_fail s' = fs_fail s \<and> (view (fs_disk s') = v \<and> (\<forall>p. a = Some p \<longrightarrow> is_temp p)) \<and>
      (\<exists>hs. fs_history s' = fs_history s @ hs \<and> list_all C hs)"
    using assms(2) by (auto simp: create_temp_def attempt_def State_Monad.bind_def State_Monad.return_def view_update split: if_splits)
qed

lemma safe_keep: "(\<And>d. P d \<Longrightarrow> C d) \<Longrightarrow> safe P (attempt x (\<lambda>d. d)) (\<lambda>_. P) C"
  by (rule safe_attempt) simp

lemma safe_write_temp:
  assumes "is_temp p" "\<And>d. view d = v \<Longrightarrow> C d"
  shows "safe (\<lambda>d. view d = v) (write_file p content) (\<lambda>ok d. view d = v \<and> (ok \<longrightarrow> map_of d p = Some content)) C"
  by (rule safeI) (use assms in \<open>auto simp: write_file_def Let_def view_update update_conv' split: if_splits\<close>)

lemma safe_fill_temp:
  assumes "is_temp p" "\<And>d. view d = v \<Longrightarrow> C d"
  shows "safe (\<lambda>d. view d = v) (fill_temp p content) (\<lambda>ok d. view d = v \<and> (ok \<longrightarrow> map_of d p = Some content)) C"
  unfolding fill_temp_def
proof (rule safe_bind [OF safe_keep], simp add: assms(2), rule safe_if, rule safe_return, simp,
    rule safe_bind [OF safe_write_temp [OF assms]], simp, rule safe_if, rule safe_return, simp, rule safe_bind)
  fix ok ok'
  let ?F = "\<lambda>d. view d = v \<and> map_of d p = Some content"
  show "safe (\<lambda>d. view d = v \<and> (ok' \<longrightarrow> map_of d p = Some content)) (attempt (Sync p) (\<lambda>d. d))
      (\<lambda>_ d. view d = v \<and> (ok' \<longrightarrow> map_of d p = Some content)) C"
    by (rule safe_keep) (simp add: assms(2))
  show "safe (\<lambda>d. view d = v \<and> (ok' \<longrightarrow> map_of d p = Some content))
      (if \<not> a then State_Monad.return False else attempt (CloseFile p) (\<lambda>d. d))
      (\<lambda>ok d. view d = v \<and> (ok \<longrightarrow> map_of d p = Some content)) C" if "\<not> \<not> ok'" for a
    using that
    by (intro safe_if safe_return safe_conseq [OF safe_keep [where P = ?F and C = C and x = "CloseFile p"]])
      (simp_all add: assms(2))
qed

lemma safe_rename_temp:
  assumes "is_temp p" "\<not> is_temp q" "\<And>d. view d = v(q \<mapsto> content) \<Longrightarrow> C d"
  shows "safe (\<lambda>d. view d = v \<and> map_of d p = Some content) (rename_file p q) (\<lambda>ok d. ok \<and> view d = v(q \<mapsto> content)) C"
  by (rule safeI)
    (use assms in \<open>auto simp: rename_file_def attempt_def view_update view_delete renames_and_reads_work_def split: if_splits\<close>)

lemma safe_remove_temp:
  assumes "is_temp p" "\<And>d. view d = v \<Longrightarrow> C d"
  shows "safe (\<lambda>d. view d = v) (remove_file p) (\<lambda>_ d. view d = v) C"
  by (rule safeI)
    (use assms in \<open>auto simp: remove_file_def attempt_def State_Monad.bind_def State_Monad.return_def view_delete split: if_splits\<close>)

lemma safe_move_temp:
  assumes "is_temp p" "\<not> is_temp q" "\<And>d. view d = v(q \<mapsto> content) \<Longrightarrow> C d"
  shows "safe (\<lambda>d. view d = v \<and> map_of d p = Some content) (move_temp p q) (\<lambda>ok d. ok \<and> view d = v(q \<mapsto> content)) C"
  unfolding move_temp_def
proof (rule safe_bind [OF safe_rename_temp [OF assms]], assumption, rule safe_if)
  fix ok
  let ?rest = "do { r \<leftarrow> remove_file q; if r = RemoveFailed then State_Monad.return False else rename_file p q }"
  show "safe (\<lambda>d. ok \<and> view d = v(q \<mapsto> content)) (State_Monad.return True) (\<lambda>ok d. ok \<and> view d = v(q \<mapsto> content)) C"
    by (rule safe_return) simp
  show "safe (\<lambda>d. ok \<and> view d = v(q \<mapsto> content)) ?rest (\<lambda>ok d. ok \<and> view d = v(q \<mapsto> content)) C" if "\<not> ok"
    using that by (simp add: safe_def)
qed

text \<open>
  The file has its old or its new content at every moment, and no other file changes.
\<close>

theorem write_via_temp_atomic:
  assumes "pat \<in> {''.clank-credential-'', ''.config-''}" "\<not> is_temp target"
    and "\<And>d. view d = v \<Longrightarrow> C d" "\<And>d. view d = v(target \<mapsto> content) \<Longrightarrow> C d"
  shows "safe (\<lambda>d. view d = v) (write_via_temp pat target content)
    (\<lambda>r d. view d = (if r = None then v(target \<mapsto> content) else v)) C"
  unfolding write_via_temp_def
proof (rule safe_bind [OF safe_create_temp [OF assms(1,3)]], assumption, rule safe_option)
  fix t
  let ?Q = "\<lambda>r d. view d = (if r = None then v(target \<mapsto> content) else v)"
  show "safe (\<lambda>d. view d = v \<and> (\<forall>p. t = Some p \<longrightarrow> is_temp p)) (State_Monad.return (Some os_error)) ?Q C"
    by (rule safe_return) simp
  show "safe (\<lambda>d. view d = v \<and> (\<forall>p. t = Some p \<longrightarrow> is_temp p)) (do {
          filled \<leftarrow> fill_temp tmp content;
          moved \<leftarrow> (if filled then move_temp tmp target else State_Monad.return False);
          (if moved then State_Monad.return None
           else do { _ \<leftarrow> remove_file tmp; State_Monad.return (Some os_error) }) }) ?Q C" if t: "t = Some tmp" for tmp
  proof (rule safe_assume, rule safe_bind)
    assume "\<forall>p. t = Some p \<longrightarrow> is_temp p"
    then have tmp: "is_temp tmp" using t by simp
    show "safe (\<lambda>d. view d = v) (fill_temp tmp content) (\<lambda>ok d. view d = v \<and> (ok \<longrightarrow> map_of d tmp = Some content)) C"
      by (rule safe_fill_temp [OF tmp assms(3)])
    fix filled
    show "safe (\<lambda>d. view d = v \<and> (filled \<longrightarrow> map_of d tmp = Some content)) (do {
          moved \<leftarrow> (if filled then move_temp tmp target else State_Monad.return False);
          (if moved then State_Monad.return None
           else do { _ \<leftarrow> remove_file tmp; State_Monad.return (Some os_error) }) }) ?Q C"
    proof (rule safe_bind)
      show "safe (\<lambda>d. view d = v \<and> (filled \<longrightarrow> map_of d tmp = Some content))
          (if filled then move_temp tmp target else State_Monad.return False)
          (\<lambda>moved d. view d = (if moved then v(target \<mapsto> content) else v)) C"
        by (intro safe_if safe_return safe_conseq [OF safe_move_temp [OF tmp assms(2), of v content C]])
          (auto simp: assms(4))
      fix moved
      show "safe (\<lambda>d. view d = (if moved then v(target \<mapsto> content) else v))
          (if moved then State_Monad.return None else do { _ \<leftarrow> remove_file tmp; State_Monad.return (Some os_error) }) ?Q C"
      proof (rule safe_if)
        show "safe (\<lambda>d. view d = (if moved then v(target \<mapsto> content) else v)) (State_Monad.return None) ?Q C" if "moved"
          by (rule safe_return) (simp add: that)
        show "safe (\<lambda>d. view d = (if moved then v(target \<mapsto> content) else v))
            (do { _ \<leftarrow> remove_file tmp; State_Monad.return (Some os_error) }) ?Q C" if "\<not> moved"
          using that by (intro safe_bind [OF safe_conseq [OF safe_remove_temp [OF tmp assms(3)]]] safe_return) auto
      qed
    qed
  qed
qed

lemma safe_read:
  assumes "\<not> is_temp p" "\<And>d. view d = v \<Longrightarrow> C d"
  shows "safe (\<lambda>d. view d = v) (read_file p) (\<lambda>r d. view d = v \<and> r = v p) C"
  by (rule safeI) (use assms in \<open>auto simp: read_file_def attempt_def State_Monad.bind_def renames_and_reads_work_def view_def\<close>)

lemma safe_regular:
  assumes "\<not> is_temp p" "\<And>d. view d = v \<Longrightarrow> C d"
  shows "safe (\<lambda>d. view d = v) (regularFile p) (\<lambda>r d. view d = v \<and> r = (v p \<noteq> None)) C"
  by (rule safeI) (use assms in \<open>auto simp: regularFile_def attempt_def State_Monad.bind_def renames_and_reads_work_def view_def\<close>)

subsection \<open>Running from a view\<close>

text \<open>
  \<open>runs_reliably I v m Q\<close>: on a file system whose renames, reads and stats work, started where the named files are
  \<open>v\<close>, every disk on the way satisfies \<open>I\<close>, and \<open>Q\<close> relates the answer to the named files at the
  end, whatever else fails.  The rules work backwards, one per operation.
\<close>

type_synonym named = "path \<rightharpoonup> string"

definition runs_reliably :: "(named \<Rightarrow> bool) \<Rightarrow> named \<Rightarrow> 'a fsm \<Rightarrow> ('a \<Rightarrow> named \<Rightarrow> bool) \<Rightarrow> bool" where
  "runs_reliably I v m Q \<longleftrightarrow> safe (\<lambda>d. view d = v) m (\<lambda>r d. Q r (view d)) (\<lambda>d. I (view d))"

lemma runs_return: "Q x v \<Longrightarrow> runs_reliably I v (State_Monad.return x) Q"
  unfolding runs_reliably_def by (rule safe_return) simp

lemma runs_if: "(b \<Longrightarrow> runs_reliably I v m Q) \<Longrightarrow> (\<not> b \<Longrightarrow> runs_reliably I v m' Q) \<Longrightarrow> runs_reliably I v (if b then m else m') Q"
  by simp

lemma runs_option:
  "(x = None \<Longrightarrow> runs_reliably I v m Q) \<Longrightarrow> (\<And>y. x = Some y \<Longrightarrow> runs_reliably I v (f y) Q) \<Longrightarrow>
   runs_reliably I v (case x of None \<Rightarrow> m | Some y \<Rightarrow> f y) Q"
  by (simp split: option.split)

lemma runs_bind:
  assumes "runs_reliably I v m R" "\<And>r w. R r w \<Longrightarrow> runs_reliably I w (f r) Q"
  shows "runs_reliably I v (State_Monad.bind m f) Q"
proof -
  have "safe (\<lambda>d. R r (view d)) (f r) (\<lambda>r d. Q r (view d)) (\<lambda>d. I (view d))" for r
    by (rule safe_pre) (rule safe_conseq [OF assms(2) [unfolded runs_reliably_def]], auto)
  with assms(1) show ?thesis unfolding runs_reliably_def by (rule safe_bind)
qed

lemma runs_mono: "runs_reliably I v m Q \<Longrightarrow> (\<And>r w. Q r w \<Longrightarrow> Q' r w) \<Longrightarrow> runs_reliably I v m Q'"
  unfolding runs_reliably_def by (erule safe_conseq) auto

lemma runs_strengthen: "runs_reliably J v m Q \<Longrightarrow> (\<And>w. J w \<Longrightarrow> I w) \<Longrightarrow> runs_reliably I v m Q"
  unfolding runs_reliably_def by (erule safe_conseq) auto

lemma runs_keep_then:
  "I v \<Longrightarrow> (\<And>ok. runs_reliably I v (f ok) Q) \<Longrightarrow> runs_reliably I v (State_Monad.bind (attempt x (\<lambda>d. d)) f) Q"
  unfolding runs_reliably_def by (rule safe_bind [OF safe_keep]) auto

lemma runs_mkdir_then:
  "I v \<Longrightarrow> (\<And>ok. runs_reliably I v (f ok) Q) \<Longrightarrow> runs_reliably I v (State_Monad.bind (mkdir p) f) Q"
  unfolding mkdir_def by (rule runs_keep_then)

lemma runs_read_then:
  assumes "\<not> is_temp p" "I v" "runs_reliably I v (f (v p)) Q"
  shows "runs_reliably I v (State_Monad.bind (read_file p) f) Q"
  by (rule runs_bind [where R = "\<lambda>r w. w = v \<and> r = v p"])
    (use assms safe_read [OF assms(1), of v "\<lambda>d. I (view d)"] in \<open>auto simp: runs_reliably_def\<close>)

lemma runs_regular_then:
  assumes "\<not> is_temp p" "I v" "runs_reliably I v (f (v p \<noteq> None)) Q"
  shows "runs_reliably I v (State_Monad.bind (regularFile p) f) Q"
  by (rule runs_bind [where R = "\<lambda>r w. w = v \<and> r = (v p \<noteq> None)"])
    (use assms safe_regular [OF assms(1), of v "\<lambda>d. I (view d)"] in \<open>auto simp: runs_reliably_def\<close>)

lemma runs_regular: "\<not> is_temp p \<Longrightarrow> I v \<Longrightarrow> Q (v p \<noteq> None) v \<Longrightarrow> runs_reliably I v (regularFile p) Q"
  unfolding runs_reliably_def by (rule safe_conseq [OF safe_regular [of p v "\<lambda>d. I (view d)"]]) auto

lemma runs_read: "\<not> is_temp p \<Longrightarrow> I v \<Longrightarrow> Q (v p) v \<Longrightarrow> runs_reliably I v (read_file p) Q"
  unfolding runs_reliably_def by (rule safe_conseq [OF safe_read [of p v "\<lambda>d. I (view d)"]]) auto

lemma runs_write:
  assumes "pat \<in> {''.clank-credential-'', ''.config-''}" "\<not> is_temp p" "I v" "I (v(p \<mapsto> c))"
    and "Q None (v(p \<mapsto> c))" "\<And>err. Q (Some err) v"
  shows "runs_reliably I v (write_via_temp pat p c) Q"
  unfolding runs_reliably_def
proof (rule safe_conseq [OF write_via_temp_atomic [where v = v and C = "\<lambda>d. I (view d)"]])
  show "Q r (view d)" if "view d = (if r = None then v(p \<mapsto> c) else v)" for r d
    using that assms(5, 6) by (cases r) simp_all
qed (use assms in auto)

lemma runs_remove:
  assumes "\<not> is_temp p" "I v" "I (v(p := None))" "Q Gone (v(p := None))" "v p = None \<Longrightarrow> Q NotExist v" "Q RemoveFailed v"
  shows "runs_reliably I v (remove_file p) Q"
  unfolding runs_reliably_def
  by (rule safeI) (use assms in \<open>auto simp: remove_file_def attempt_def State_Monad.bind_def State_Monad.return_def
      view_delete split: if_splits\<close>, simp_all add: view_def)

text \<open>Writing a named file in place is not atomic: a prefix can be seen, or be all that is left.\<close>

lemma runs_write_file_then:
  assumes "\<not> is_temp p" "\<And>k. I (v(p \<mapsto> take k c))" "\<And>k. runs_reliably I (v(p \<mapsto> take k c)) (f False) Q" "runs_reliably I (v(p \<mapsto> c)) (f True) Q"
  shows "runs_reliably I v (State_Monad.bind (write_file p c) f) Q"
proof (rule runs_bind)
  have full: "I (v(p \<mapsto> c))" using assms(2) [of "length c"] by simp
  show "runs_reliably I v (write_file p c) (\<lambda>ok w. (ok \<longrightarrow> w = v(p \<mapsto> c)) \<and> (\<not> ok \<longrightarrow> (\<exists>k. w = v(p \<mapsto> take k c))))"
    unfolding runs_reliably_def
    by (rule safeI) (use assms(1, 2) full in \<open>auto simp: write_file_def Let_def view_update split: if_splits\<close>)
  show "runs_reliably I w (f ok) Q" if "(ok \<longrightarrow> w = v(p \<mapsto> c)) \<and> (\<not> ok \<longrightarrow> (\<exists>k. w = v(p \<mapsto> take k c)))" for ok w
    using that assms(3, 4) by (cases ok) auto
qed

lemma runs_rename_then:
  assumes "\<not> is_temp p" "\<not> is_temp q" "p \<noteq> q" "v p = Some c"
    and "I (v(p := None, q \<mapsto> c))" "runs_reliably I (v(p := None, q \<mapsto> c)) (f True) Q"
  shows "runs_reliably I v (State_Monad.bind (rename_file p q) f) Q"
proof (rule runs_bind)
  have "map_of d p = Some c" if "view d = v" for d using assms(1, 4) that by (auto simp: view_def split: if_splits)
  then show "runs_reliably I v (rename_file p q) (\<lambda>ok w. ok \<and> w = v(p := None, q \<mapsto> c))"
    unfolding runs_reliably_def
    by (intro safeI) (use assms in \<open>auto simp: rename_file_def attempt_def view_update view_delete renames_and_reads_work_def split: if_splits\<close>)
qed (use assms in auto)

lemma runs_remove_then:
  assumes "\<not> is_temp p" "I v" "I (v(p := None))" "runs_reliably I (v(p := None)) (f Gone) Q"
    "v p = None \<Longrightarrow> runs_reliably I v (f NotExist) Q" "runs_reliably I v (f RemoveFailed) Q"
  shows "runs_reliably I v (State_Monad.bind (remove_file p) f) Q"
  by (rule runs_bind [OF runs_remove [where Q = "\<lambda>r w. runs_reliably I w (f r) Q"]]) (use assms in auto)

text \<open>Two views that differ only below a directory.\<close>

definition outside :: "path \<Rightarrow> (path \<rightharpoonup> string) \<Rightarrow> (path \<rightharpoonup> string) \<Rightarrow> bool" where
  "outside dir v w \<longleftrightarrow> (\<forall>p. \<not> below dir p \<longrightarrow> w p = v p)"

lemma outside_refl [simp]: "outside dir v v"
  by (simp add: outside_def)

lemma outside_trans: "outside dir u v \<Longrightarrow> outside dir v w \<Longrightarrow> outside dir u w"
  by (simp add: outside_def)

lemma outside_update: "below dir p \<Longrightarrow> outside dir v w \<Longrightarrow> outside dir v (w(p := c))"
  by (auto simp: outside_def)

lemma outsideD: "outside dir v w \<Longrightarrow> \<not> below dir p \<Longrightarrow> w p = v p"
  by (simp add: outside_def)

lemma below_append [simp]: "below dir (dir @ p)"
  by (simp add: below_def)

lemma runs_remove_each:
  assumes "\<And>w. outside path v w \<Longrightarrow> I w" "outside path v w" "\<forall>p \<in> set ps. below path p"
  shows "runs_reliably I w (remove_each ps) (\<lambda>_. outside path v)"
  using assms(2, 3)
proof (induction ps arbitrary: w)
  case Nil
  then show ?case unfolding remove_each.simps by (intro runs_return)
next
  case (Cons p ps)
  have "runs_reliably I w (remove_file p) (\<lambda>_. outside path v)"
    unfolding runs_reliably_def
    by (rule safeI) (use assms(1) Cons.prems in \<open>auto simp: remove_file_def attempt_def State_Monad.bind_def
        State_Monad.return_def view_delete outside_update split: if_splits\<close>)
  then show ?case unfolding remove_each.simps
    by (rule runs_bind) (rule runs_bind [OF Cons.IH], use Cons.prems in \<open>auto intro: runs_return\<close>)
qed

lemma runs_remove_all:
  assumes "\<And>w. outside path v w \<Longrightarrow> I w" "\<And>r w. outside path v w \<Longrightarrow> Q r w"
  shows "runs_reliably I v (remove_all path) Q"
proof -
  have "runs_reliably I v (State (\<lambda>s. (filter (below path) (map fst (fs_disk s)), s)))
      (\<lambda>ps w. w = v \<and> (\<forall>p \<in> set ps. below path p))"
    unfolding runs_reliably_def by (rule safeI) auto
  then show ?thesis unfolding remove_all_def
    by (rule runs_bind) (rule runs_bind [OF runs_remove_each [where v = v]],
      use assms in \<open>auto intro: runs_return\<close>)
qed

subsection \<open>Without faults\<close>

definition healthy :: "fs \<Rightarrow> bool" where
  "healthy s \<longleftrightarrow> (\<forall>n x. \<not> fs_fail s n x)"

text \<open>Total correctness on a healthy file system: the answer and the named files at the end.\<close>

definition delivers :: "named \<Rightarrow> 'a fsm \<Rightarrow> 'a \<Rightarrow> named \<Rightarrow> bool" where
  "delivers v m r w \<longleftrightarrow> (\<forall>s. healthy s \<and> view (fs_disk s) = v \<longrightarrow>
     (\<exists>s'. run_state m s = (r, s') \<and> healthy s' \<and> view (fs_disk s') = w))"

lemma deliversI:
  "(\<And>s. healthy s \<Longrightarrow> view (fs_disk s) = v \<Longrightarrow> \<exists>s'. run_state m s = (r, s') \<and> healthy s' \<and> view (fs_disk s') = w) \<Longrightarrow>
   delivers v m r w"
  by (simp add: delivers_def)

lemma delivers_return: "delivers v (State_Monad.return x) x v"
  by (simp add: delivers_def State_Monad.return_def)

lemma delivers_bind:
  assumes "delivers v m r u" "delivers u (f r) q w"
  shows "delivers v (State_Monad.bind m f) q w"
proof (rule deliversI)
  fix s assume "healthy s" "view (fs_disk s) = v"
  with assms(1) obtain s' where "run_state m s = (r, s')" "healthy s'" "view (fs_disk s') = u"
    unfolding delivers_def by blast
  moreover with assms(2) obtain s'' where "run_state (f r) s' = (q, s'')" "healthy s''" "view (fs_disk s'') = w"
    unfolding delivers_def by blast
  ultimately show "\<exists>s'. run_state (State_Monad.bind m f) s = (q, s') \<and> healthy s' \<and> view (fs_disk s') = w"
    by (simp add: State_Monad.bind_def)
qed

lemma delivers_mkdir: "delivers v (mkdir p) True v"
  by (auto simp: delivers_def mkdir_def attempt_def healthy_def)

lemma delivers_read: "\<not> is_temp p \<Longrightarrow> delivers v (read_file p) (v p) v"
  by (auto simp: delivers_def read_file_def attempt_def healthy_def State_Monad.bind_def view_def)

lemma delivers_regular: "\<not> is_temp p \<Longrightarrow> delivers v (regularFile p) (v p \<noteq> None) v"
  by (auto simp: delivers_def regularFile_def attempt_def healthy_def State_Monad.bind_def view_def)

lemma delivers_write:
  assumes "pat \<in> {''.clank-credential-'', ''.config-''}" "\<not> is_temp p"
  shows "delivers v (write_via_temp pat p c) None (v(p \<mapsto> c))"
proof (rule deliversI)
  fix s assume "healthy s" "view (fs_disk s) = v"
  moreover have "is_temp (temp_path (butlast p) pat (fs_disk s))" by (rule is_temp_path [OF assms(1)])
  ultimately show "\<exists>s'. run_state (write_via_temp pat p c) s = (None, s') \<and> healthy s' \<and> view (fs_disk s') = v(p \<mapsto> c)"
    using assms(2)
    by (simp add: write_via_temp_def create_temp_def fill_temp_def move_temp_def rename_file_def write_file_def attempt_def
        healthy_def State_Monad.bind_def State_Monad.return_def Let_def update_conv' view_update view_delete)
qed

text \<open>The rules for the operations one by one, working backwards.\<close>

lemma delivers_keep_then:
  "delivers v (f True) r w \<Longrightarrow> delivers v (State_Monad.bind (attempt x (\<lambda>d. d)) f) r w"
  by (rule delivers_bind) (auto simp: delivers_def attempt_def healthy_def)

lemma delivers_write_file: "\<not> is_temp p \<Longrightarrow> delivers v (write_file p c) True (v(p \<mapsto> c))"
  by (auto simp: delivers_def write_file_def Let_def healthy_def view_update)

lemma delivers_read_then:
  "\<not> is_temp p \<Longrightarrow> delivers v (f (v p)) r w \<Longrightarrow> delivers v (State_Monad.bind (read_file p) f) r w"
  by (rule delivers_bind [OF delivers_read])

lemma delivers_regular_then:
  "\<not> is_temp p \<Longrightarrow> delivers v (f (v p \<noteq> None)) r w \<Longrightarrow> delivers v (State_Monad.bind (regularFile p) f) r w"
  by (rule delivers_bind [OF delivers_regular])

lemma delivers_remove_then:
  assumes "\<not> is_temp p" "delivers (v(p := None)) (f (if v p = None then NotExist else Gone)) r w"
  shows "delivers v (State_Monad.bind (remove_file p) f) r w"
proof (rule delivers_bind)
  show "delivers v (remove_file p) (if v p = None then NotExist else Gone) (v(p := None))"
  proof (rule deliversI)
    fix s assume s: "healthy s" "view (fs_disk s) = v"
    then have "map_of (fs_disk s) p = v p" using assms(1) by (auto simp: view_def)
    moreover have "v p = None \<Longrightarrow> v(p := None) = v" by auto
    ultimately show "\<exists>s'. run_state (remove_file p) s = (if v p = None then NotExist else Gone, s') \<and> healthy s' \<and>
        view (fs_disk s') = v(p := None)"
      using s assms(1)
      by (auto simp: remove_file_def attempt_def State_Monad.bind_def State_Monad.return_def healthy_def view_delete)
  qed
qed (rule assms(2))

lemma delivers_rename_then:
  assumes "\<not> is_temp p" "\<not> is_temp q" "v p = Some c" "delivers (v(p := None, q \<mapsto> c)) (f True) r w"
  shows "delivers v (State_Monad.bind (rename_file p q) f) r w"
proof (rule delivers_bind)
  have "map_of d p = Some c" if "view d = v" for d using assms(1, 3) that by (auto simp: view_def split: if_splits)
  then show "delivers v (rename_file p q) True (v(p := None, q \<mapsto> c))"
    using assms(1, 2) by (auto simp: delivers_def rename_file_def attempt_def healthy_def view_update view_delete)
qed (rule assms(4))

end
