(* ===== verification/Cert_Store.thy ===== *)
theory Cert_Store
  imports Files
begin

text \<open>
  The certificate store (\<^verbatim>\<open>internal/certs/store.go\<close>): versioned credential bundles on disk
  and the pointer to the active one.  Parsing, signing and verifying certificates is the crypto
  library's work and a parameter (\<open>x509\<close>); everything the store does with the answers, and every
  file operation, is the code's.  Paths are lists of components, so \<^verbatim>\<open>filepath.Join\<close> is append.
\<close>

record leaf_cert =
  lf_NotAfter :: int
  lf_URIs :: "string list"

record x509 =
  x_X509KeyPair :: "string \<Rightarrow> string \<Rightarrow> string list result"
  x_ParseCertificate :: "string \<Rightarrow> leaf_cert result"
  x_AppendCertsFromPEM :: "string \<Rightarrow> bool"
  x_Verify :: "leaf_cert \<Rightarrow> string \<Rightarrow> go_error option"
  x_GenerateKey :: "string result"
  x_CreateRequest :: "string \<Rightarrow> string \<Rightarrow> string result"

definition clientCertFile :: string where "clientCertFile = ''client.crt''"
definition clientKeyFile :: string where "clientKeyFile = ''client.key''"
definition caCertFile :: string where "caCertFile = ''ca.crt''"
definition bundlesDir :: string where "bundlesDir = ''credential-bundles''"
definition currentFile :: string where "currentFile = ''current-credentials''"
definition csrFile :: string where "csrFile = ''rotation.csr''"

lemmas file_names = clientCertFile_def clientKeyFile_def caCertFile_def bundlesDir_def currentFile_def csrFile_def

definition id_char :: "char \<Rightarrow> bool" where
  "id_char c \<longleftrightarrow> (let n = of_char c :: nat in
     (65 \<le> n \<and> n \<le> 90) \<or> (97 \<le> n \<and> n \<le> 122) \<or> (48 \<le> n \<and> n \<le> 57) \<or> n = 95 \<or> n = 45)"

definition bundleIDPattern :: "string \<Rightarrow> bool" where
  "bundleIDPattern s \<longleftrightarrow> 1 \<le> length s \<and> length s \<le> 64 \<and> list_all id_char s"

record Activation =
  ac_PreviousBundle :: string
  ac_HadPointer :: bool

definition bundlePath :: "path \<Rightarrow> string \<Rightarrow> path" where
  "bundlePath dir bundle = dir @ [bundlesDir, bundle]"

definition atomicWrite :: "path \<Rightarrow> string \<Rightarrow> go_error option fsm" where
  "atomicWrite target content = do {
     ok \<leftarrow> mkdir (butlast target);
     if \<not> ok then State_Monad.return (Some os_error)
     else write_via_temp ''.clank-credential-'' target content }"

definition validateBundle :: "x509 \<Rightarrow> int \<Rightarrow> string \<Rightarrow> string \<Rightarrow> string \<Rightarrow> string \<Rightarrow> go_error option" where
  "validateBundle x now certPEM keyPEM caPEM serverID =
     (case x_X509KeyPair x certPEM keyPEM of
        Inl err \<Rightarrow> Some (''credential certificate/key mismatch: '' @ err)
      | Inr [] \<Rightarrow> Some ''credential certificate is empty''
      | Inr (der # _) \<Rightarrow>
         (case x_ParseCertificate x der of
            Inl err \<Rightarrow> Some (''parsing client certificate: '' @ err)
          | Inr cert \<Rightarrow>
              if \<not> x_AppendCertsFromPEM x caPEM then Some ''parsing CA certificate''
              else case x_Verify x cert caPEM of
                Some err \<Rightarrow> Some (''verifying client certificate: '' @ err)
              | None \<Rightarrow>
                  if lf_NotAfter cert - now < 24 * 3600 * 1000000000 then Some ''new client certificate expires too soon''
                  else if serverID \<noteq> [] \<and> (''clank://server/'' @ serverID) \<notin> set (lf_URIs cert)
                    then Some ''client certificate has wrong server identity''
                  else None))"

definition completeBundle :: "path \<Rightarrow> bool fsm" where
  "completeBundle path = do {
     a \<leftarrow> regularFile (path @ [clientCertFile]);
     if \<not> a then State_Monad.return False else do {
     b \<leftarrow> regularFile (path @ [clientKeyFile]);
     if \<not> b then State_Monad.return False else regularFile (path @ [caCertFile]) } }"

definition readPointer :: "path \<Rightarrow> string option fsm" where
  "readPointer dir = do {
     content \<leftarrow> read_file (dir @ [currentFile]);
     State_Monad.return (case content of
       None \<Rightarrow> None
     | Some text \<Rightarrow> let bundle = TrimSpace text in if bundleIDPattern bundle then Some bundle else None) }"

definition CurrentPointer :: "path \<Rightarrow> string option fsm" where
  "CurrentPointer dir = readPointer dir"

definition ActivePaths :: "path \<Rightarrow> (path \<times> path \<times> path) fsm" where
  "ActivePaths dir = do {
     p \<leftarrow> readPointer dir;
     let legacy = (dir @ [clientCertFile], dir @ [clientKeyFile], dir @ [caCertFile]);
     (case p of
        None \<Rightarrow> State_Monad.return legacy
      | Some bundle \<Rightarrow> do {
          ok \<leftarrow> completeBundle (bundlePath dir bundle);
          let path = bundlePath dir bundle;
          State_Monad.return (if ok then (path @ [clientCertFile], path @ [clientKeyFile], path @ [caCertFile]) else legacy) }) }"

definition Exists :: "path \<Rightarrow> bool fsm" where
  "Exists dir = do {
     paths \<leftarrow> ActivePaths dir;
     (case paths of (cert, key, ca) \<Rightarrow> do {
        a \<leftarrow> regularFile cert;
        if \<not> a then State_Monad.return False else do {
        b \<leftarrow> regularFile key;
        if \<not> b then State_Monad.return False else regularFile ca } }) }"

text \<open>Go iterates over the map of the three files in any order: \<open>files\<close> lists them in the order taken.\<close>

fun write_bundle_files :: "path \<Rightarrow> (string \<times> string) list \<Rightarrow> go_error option fsm" where
  "write_bundle_files path [] = State_Monad.return None"
| "write_bundle_files path ((name, content) # files) = do {
     err \<leftarrow> atomicWrite (path @ [name]) content;
     (case err of
        Some e \<Rightarrow> do { _ \<leftarrow> remove_all path; State_Monad.return (Some (''writing '' @ name @ '': '' @ e)) }
      | None \<Rightarrow> write_bundle_files path files) }"

definition writeCompleteBundle :: "path \<Rightarrow> string \<Rightarrow> (string \<times> string) list \<Rightarrow> go_error option fsm" where
  "writeCompleteBundle dir bundle files = do {
     ok \<leftarrow> mkdir (bundlePath dir bundle);
     if \<not> ok then State_Monad.return (Some (''creating credential bundle: '' @ os_error))
     else write_bundle_files (bundlePath dir bundle) files }"

text \<open>\<^verbatim>\<open>Save\<close>: \<open>bundle\<close> is the random identifier, if one could be drawn, and \<open>order\<close> the map's order.\<close>

definition Save :: "x509 \<Rightarrow> int \<Rightarrow> path \<Rightarrow> string result \<Rightarrow> ((string \<times> string) list \<Rightarrow> (string \<times> string) list)
    \<Rightarrow> string \<Rightarrow> string \<Rightarrow> string \<Rightarrow> go_error option fsm" where
  "Save x now dir drawn order clientCert clientKey caCert =
     (case validateBundle x now clientCert clientKey caCert [] of
        Some err \<Rightarrow> State_Monad.return (Some err)
      | None \<Rightarrow>
         (case drawn of
            Inl err \<Rightarrow> State_Monad.return (Some err)
          | Inr bundle \<Rightarrow> do {
              err \<leftarrow> writeCompleteBundle dir bundle
                (order [(clientCertFile, clientCert), (clientKeyFile, clientKey), (caCertFile, caCert)]);
              (case err of
                 Some e \<Rightarrow> State_Monad.return (Some e)
               | None \<Rightarrow> do {
                   err \<leftarrow> atomicWrite (dir @ [currentFile]) (bundle @ [CHR 0x0A]);
                   (case err of
                      Some e \<Rightarrow> do {
                        _ \<leftarrow> remove_all (bundlePath dir bundle);
                        State_Monad.return (Some (''activating enrollment credentials: '' @ e)) }
                    | None \<Rightarrow> State_Monad.return None) }) }))"

definition PrepareRotation :: "x509 \<Rightarrow> path \<Rightarrow> string \<Rightarrow> string \<Rightarrow> string result fsm" where
  "PrepareRotation x dir requestID serverID =
     (if \<not> bundleIDPattern requestID then State_Monad.return (Inl ''invalid rotation request ID'')
      else do {
        existing \<leftarrow> read_file (bundlePath dir requestID @ [csrFile]);
        (case existing of
           Some csr \<Rightarrow> State_Monad.return (Inr csr)
         | None \<Rightarrow> do {
             ok \<leftarrow> mkdir (bundlePath dir requestID);
             if \<not> ok then State_Monad.return (Inl (''creating rotation bundle: '' @ os_error))
             else case x_GenerateKey x of
               Inl err \<Rightarrow> State_Monad.return (Inl (''generating rotation key: '' @ err))
             | Inr keyPEM \<Rightarrow>
                (case x_CreateRequest x keyPEM serverID of
                   Inl err \<Rightarrow> State_Monad.return (Inl (''creating certificate request: '' @ err))
                 | Inr csrPEM \<Rightarrow> do {
                     err \<leftarrow> atomicWrite (bundlePath dir requestID @ [clientKeyFile]) keyPEM;
                     (case err of
                        Some e \<Rightarrow> State_Monad.return (Inl (''saving rotation key: '' @ e))
                      | None \<Rightarrow> do {
                          err \<leftarrow> atomicWrite (bundlePath dir requestID @ [csrFile]) csrPEM;
                          (case err of
                             Some e \<Rightarrow> State_Monad.return (Inl (''saving certificate request: '' @ e))
                           | None \<Rightarrow> State_Monad.return (Inr csrPEM)) }) }) }) })"

definition StageRotation :: "x509 \<Rightarrow> int \<Rightarrow> path \<Rightarrow> string \<Rightarrow> string \<Rightarrow> string \<Rightarrow> string \<Rightarrow> go_error option fsm" where
  "StageRotation x now dir requestID serverID clientCert caCert =
     (if \<not> bundleIDPattern requestID then State_Monad.return (Some ''invalid rotation request ID'')
      else do {
        key \<leftarrow> read_file (bundlePath dir requestID @ [clientKeyFile]);
        (case key of
           None \<Rightarrow> State_Monad.return (Some (''reading pending rotation key: '' @ os_error))
         | Some k \<Rightarrow>
            (case validateBundle x now clientCert k caCert serverID of
               Some err \<Rightarrow> State_Monad.return (Some err)
             | None \<Rightarrow> do {
                 err \<leftarrow> atomicWrite (bundlePath dir requestID @ [clientCertFile]) clientCert;
                 (case err of
                    Some e \<Rightarrow> State_Monad.return (Some (''staging client certificate: '' @ e))
                  | None \<Rightarrow> do {
                      err \<leftarrow> atomicWrite (bundlePath dir requestID @ [caCertFile]) caCert;
                      (case err of
                         Some e \<Rightarrow> State_Monad.return (Some (''staging CA certificate: '' @ e))
                       | None \<Rightarrow> State_Monad.return None) }) })) })"

definition activation_of :: "string option \<Rightarrow> Activation" where
  "activation_of previous = (case previous of
     None \<Rightarrow> \<lparr>ac_PreviousBundle = [], ac_HadPointer = False\<rparr>
   | Some bundle \<Rightarrow> \<lparr>ac_PreviousBundle = bundle, ac_HadPointer = True\<rparr>)"

definition ActivateRotation :: "path \<Rightarrow> string \<Rightarrow> Activation result fsm" where
  "ActivateRotation dir requestID =
     (if \<not> bundleIDPattern requestID then State_Monad.return (Inl ''invalid rotation request ID'')
      else do {
        ok \<leftarrow> completeBundle (bundlePath dir requestID);
        if \<not> ok then State_Monad.return (Inl ''rotation bundle is incomplete'')
        else do {
          previous \<leftarrow> readPointer dir;
          err \<leftarrow> atomicWrite (dir @ [currentFile]) (requestID @ [CHR 0x0A]);
          (case err of
             Some e \<Rightarrow> State_Monad.return (Inl (''activating rotation bundle: '' @ e))
           | None \<Rightarrow> State_Monad.return (Inr (activation_of previous))) } })"

definition Rollback :: "path \<Rightarrow> Activation \<Rightarrow> go_error option fsm" where
  "Rollback dir activation =
     (if \<not> ac_HadPointer activation then do {
        r \<leftarrow> remove_file (dir @ [currentFile]);
        State_Monad.return (if r = RemoveFailed then Some (''restoring legacy credentials: '' @ os_error) else None) }
      else if \<not> bundleIDPattern (ac_PreviousBundle activation) then State_Monad.return (Some ''previous credential pointer is invalid'')
      else atomicWrite (dir @ [currentFile]) (ac_PreviousBundle activation @ [CHR 0x0A]))"

definition DiscardRotation :: "path \<Rightarrow> string \<Rightarrow> go_error option fsm" where
  "DiscardRotation dir requestID =
     (if \<not> bundleIDPattern requestID then State_Monad.return (Some ''invalid rotation request ID'')
      else do {
        active \<leftarrow> readPointer dir;
        if active = Some requestID then State_Monad.return (Some ''cannot discard active credential bundle'')
        else remove_all (bundlePath dir requestID) })"

subsection \<open>What the operations do to the named files\<close>

definition pointer_of :: "path \<Rightarrow> (path \<rightharpoonup> string) \<Rightarrow> string option" where
  "pointer_of dir v = (case v (dir @ [currentFile]) of
     None \<Rightarrow> None
   | Some text \<Rightarrow> let bundle = TrimSpace text in if bundleIDPattern bundle then Some bundle else None)"

definition complete :: "path \<Rightarrow> (path \<rightharpoonup> string) \<Rightarrow> bool" where
  "complete path v \<longleftrightarrow> v (path @ [clientCertFile]) \<noteq> None \<and> v (path @ [clientKeyFile]) \<noteq> None \<and> v (path @ [caCertFile]) \<noteq> None"

definition valid_bundle :: "x509 \<Rightarrow> int \<Rightarrow> path \<Rightarrow> string \<Rightarrow> string \<Rightarrow> (path \<rightharpoonup> string) \<Rightarrow> bool" where
  "valid_bundle x now dir bundle serverID v \<longleftrightarrow> (\<exists>cert key ca.
     v (bundlePath dir bundle @ [clientCertFile]) = Some cert \<and> v (bundlePath dir bundle @ [clientKeyFile]) = Some key \<and>
     v (bundlePath dir bundle @ [caCertFile]) = Some ca \<and> validateBundle x now cert key ca serverID = None)"

lemma valid_complete: "valid_bundle x now dir bundle serverID v \<Longrightarrow> complete (bundlePath dir bundle) v"
  by (auto simp: valid_bundle_def complete_def)

lemma below_bundle [simp]: "\<not> below (bundlePath dir bundle) (dir @ [name])"
  by (simp add: below_def bundlePath_def)

lemma not_temp [simp]: "\<not> is_temp (dir @ [clientCertFile])" "\<not> is_temp (dir @ [clientKeyFile])"
  "\<not> is_temp (dir @ [caCertFile])" "\<not> is_temp (dir @ [currentFile])" "\<not> is_temp (dir @ [csrFile])"
  by (simp_all add: is_temp_def file_names)

lemma names_distinct [simp]:
  "clientCertFile \<noteq> clientKeyFile" "clientCertFile \<noteq> caCertFile" "clientKeyFile \<noteq> caCertFile"
  "clientKeyFile \<noteq> clientCertFile" "caCertFile \<noteq> clientCertFile" "caCertFile \<noteq> clientKeyFile"
  by (simp_all add: file_names)

lemma pointer_of_outside: "outside (bundlePath dir bundle) v w \<Longrightarrow> pointer_of dir w = pointer_of dir v"
  by (simp add: pointer_of_def outsideD)

lemma id_char_not_space: "id_char c \<Longrightarrow> \<not> is_space c"
  by (auto simp: id_char_def is_space_def Let_def)

lemma pointer_of_update: "bundleIDPattern bundle \<Longrightarrow> pointer_of dir (v(dir @ [currentFile] \<mapsto> bundle @ [CHR 0x0A])) = Some bundle"
proof -
  assume b: "bundleIDPattern bundle"
  then have sp: "\<forall>c \<in> set bundle. \<not> is_space c" by (auto simp: bundleIDPattern_def list_all_iff id_char_not_space)
  from b have "bundle \<noteq> []" by (auto simp: bundleIDPattern_def)
  have drop: "dropWhile is_space xs = xs" if "\<forall>c \<in> set xs. \<not> is_space c" for xs
    using that by (cases xs) auto
  have "dropWhile is_space (bundle @ [CHR 0x0A]) = bundle @ [CHR 0x0A]"
    using sp \<open>bundle \<noteq> []\<close> by (cases "bundle") auto
  moreover have "is_space (CHR 0x0A)" by (simp add: is_space_def)
  ultimately have "TrimSpace (bundle @ [CHR 0x0A]) = bundle" using sp by (simp add: TrimSpace_def drop)
  with b show ?thesis by (simp add: pointer_of_def)
qed

lemma complete_update: "\<not> below path p \<Longrightarrow> complete path (v(p := c)) = complete path v"
  by (auto simp: complete_def)

subsection \<open>The operations, backwards\<close>

lemma runs_atomicWrite:
  assumes "\<not> is_temp p" "I v" "I (v(p \<mapsto> c))" "Q None (v(p \<mapsto> c))" "\<And>err. Q (Some err) v"
  shows "runs_reliably I v (atomicWrite p c) Q"
  unfolding atomicWrite_def
  by (intro runs_mkdir_then runs_if runs_return runs_write) (simp_all add: assms)

lemma runs_atomicWrite_then:
  assumes "\<not> is_temp p" "I v" "I (v(p \<mapsto> c))" "runs_reliably I (v(p \<mapsto> c)) (f None) Q" "\<And>err. runs_reliably I v (f (Some err)) Q"
  shows "runs_reliably I v (State_Monad.bind (atomicWrite p c) f) Q"
proof (rule runs_bind [where R = "\<lambda>r w. w = (if r = None then v(p \<mapsto> c) else v)"])
  show "runs_reliably I v (atomicWrite p c) (\<lambda>r w. w = (if r = None then v(p \<mapsto> c) else v))"
    by (rule runs_atomicWrite) (simp_all add: assms)
  show "runs_reliably I w (f r) Q" if "w = (if r = None then v(p \<mapsto> c) else v)" for r w
    using that assms(4, 5) by (cases r) simp_all
qed

lemma runs_readPointer_then:
  assumes "I v" "runs_reliably I v (f (pointer_of dir v)) Q"
  shows "runs_reliably I v (State_Monad.bind (readPointer dir) f) Q"
proof (rule runs_bind)
  show "runs_reliably I v (readPointer dir) (\<lambda>r w. w = v \<and> r = pointer_of dir v)"
    unfolding readPointer_def by (intro runs_read_then runs_return) (simp_all add: assms(1) pointer_of_def)
qed (use assms in auto)

lemma runs_complete_then:
  assumes "I v" "runs_reliably I v (f (complete path v)) Q"
  shows "runs_reliably I v (State_Monad.bind (completeBundle path) f) Q"
proof (rule runs_bind)
  show "runs_reliably I v (completeBundle path) (\<lambda>r w. w = v \<and> r = complete path v)"
    unfolding completeBundle_def
    by (intro runs_regular_then runs_regular runs_if runs_return) (simp_all add: assms(1) complete_def)
qed (use assms in auto)

text \<open>
  Staging changes files of the bundle only, and when it succeeds the bundle is complete and its
  certificate was validated against the key on this machine.
\<close>

lemma runs_StageRotation:
  assumes I: "\<And>w. outside (bundlePath dir req) v w \<Longrightarrow> I w"
    and ok: "\<And>w. outside (bundlePath dir req) v w \<Longrightarrow> valid_bundle x now dir req serverID w \<Longrightarrow> bundleIDPattern req \<Longrightarrow> Q None w"
    and failed: "\<And>err w. outside (bundlePath dir req) v w \<Longrightarrow> Q (Some err) w"
  shows "runs_reliably I v (StageRotation x now dir req serverID cert ca) Q"
proof -
  let ?b = "bundlePath dir req"
  have two: "outside ?b v (v(?b @ [clientCertFile] \<mapsto> cert, ?b @ [caCertFile] \<mapsto> ca))"
    and one: "outside ?b v (v(?b @ [clientCertFile] \<mapsto> cert))"
    by (simp_all add: outside_update)
  show ?thesis
    unfolding StageRotation_def
    by (intro runs_if runs_return runs_read_then runs_option runs_atomicWrite_then)
      (use I failed ok two one in \<open>auto simp: valid_bundle_def\<close>)
qed

lemma runs_ActivateRotation:
  assumes "I v" "complete (bundlePath dir req) v \<Longrightarrow> bundleIDPattern req \<Longrightarrow> I (v(dir @ [currentFile] \<mapsto> req @ [CHR 0x0A]))"
    and "\<And>err. Q (Inl err) v"
    and "complete (bundlePath dir req) v \<Longrightarrow> bundleIDPattern req \<Longrightarrow>
      Q (Inr (activation_of (pointer_of dir v))) (v(dir @ [currentFile] \<mapsto> req @ [CHR 0x0A]))"
  shows "runs_reliably I v (ActivateRotation dir req) Q"
  unfolding ActivateRotation_def
  by (intro runs_if runs_return runs_complete_then runs_readPointer_then runs_atomicWrite_then)
    (use assms in \<open>auto intro: runs_return\<close>)

definition rolled_back :: "path \<Rightarrow> Activation \<Rightarrow> named \<Rightarrow> named" where
  "rolled_back dir a v = (if ac_HadPointer a then v(dir @ [currentFile] \<mapsto> ac_PreviousBundle a @ [CHR 0x0A])
     else v(dir @ [currentFile] := None))"

lemma runs_Rollback:
  assumes "I v" "I (rolled_back dir a v)" "\<And>err. Q (Some err) v" "Q None (rolled_back dir a v)"
  shows "runs_reliably I v (Rollback dir a) Q"
proof -
  have absent: "rolled_back dir a v = v" if "\<not> ac_HadPointer a" "v (dir @ [currentFile]) = None"
    using that by (auto simp: rolled_back_def fun_upd_idem_iff)
  have remove: "runs_reliably I v (remove_file (dir @ [currentFile]))
      (\<lambda>r w. (r \<noteq> RemoveFailed \<longrightarrow> w = rolled_back dir a v) \<and> (r = RemoveFailed \<longrightarrow> w = v))" if "\<not> ac_HadPointer a"
    by (rule runs_remove) (use assms that absent in \<open>auto simp: rolled_back_def\<close>)
  show ?thesis unfolding Rollback_def
    by (intro runs_if runs_bind [OF remove] runs_return runs_atomicWrite)
      (use assms in \<open>auto simp: rolled_back_def\<close>)
qed

lemma runs_DiscardRotation:
  assumes "\<And>w. outside (bundlePath dir req) v w \<Longrightarrow> (pointer_of dir v = Some req \<Longrightarrow> w = v) \<Longrightarrow> I w"
    and "\<And>r w. outside (bundlePath dir req) v w \<Longrightarrow> (pointer_of dir v = Some req \<Longrightarrow> w = v) \<Longrightarrow> Q r w"
  shows "runs_reliably I v (DiscardRotation dir req) Q"
  unfolding DiscardRotation_def
  by (intro runs_if runs_return runs_readPointer_then runs_remove_all) (use assms in auto)

lemma runs_PrepareRotation:
  assumes "\<And>w. outside (bundlePath dir req) v w \<Longrightarrow> I w" "\<And>r w. outside (bundlePath dir req) v w \<Longrightarrow> Q r w"
  shows "runs_reliably I v (PrepareRotation x dir req serverID) Q"
proof -
  have step: "outside (bundlePath dir req) v (w(bundlePath dir req @ [f] \<mapsto> c))" if "outside (bundlePath dir req) v w" for w f c
    using that by (simp add: outside_update)
  show ?thesis unfolding PrepareRotation_def
    by (intro runs_if runs_return runs_read_then runs_mkdir_then runs_option runs_atomicWrite_then)
      (use assms step in \<open>auto split: sum.split intro!: runs_return runs_atomicWrite_then runs_option\<close>)
qed

lemma delivers_atomicWrite: "\<not> is_temp p \<Longrightarrow> delivers v (atomicWrite p c) None (v(p \<mapsto> c))"
  unfolding atomicWrite_def by (rule delivers_bind [OF delivers_mkdir]) (simp add: delivers_write)

lemma delivers_readPointer: "delivers v (readPointer dir) (pointer_of dir v) v"
  unfolding readPointer_def pointer_of_def by (rule delivers_bind [OF delivers_read]) (simp_all add: delivers_return)

lemma delivers_completeBundle: "complete path v \<Longrightarrow> delivers v (completeBundle path) True v"
  unfolding completeBundle_def complete_def
  by (rule delivers_bind [OF delivers_regular], simp, simp, rule delivers_bind [OF delivers_regular], simp, simp)
    (use delivers_regular [of "path @ [caCertFile]" v] in simp)

lemma delivers_ActivateRotation:
  assumes "bundleIDPattern req" "complete (bundlePath dir req) v"
  shows "delivers v (ActivateRotation dir req) (Inr (activation_of (pointer_of dir v))) (v(dir @ [currentFile] \<mapsto> req @ [CHR 0x0A]))"
  unfolding ActivateRotation_def
  by (simp add: assms(1), rule delivers_bind [OF delivers_completeBundle [OF assms(2)]], simp,
      rule delivers_bind [OF delivers_readPointer], rule delivers_bind [OF delivers_atomicWrite])
    (simp_all add: delivers_return)

end
