(* ===== verification/Credentials.thy ===== *)
theory Credentials
  imports Cert_Store Expiry_Guards
begin

text \<open>
  Rotation of the agent's control credential (\<^verbatim>\<open>internal/agent/credentials.go\<close>, the
  inspection helpers of \<^verbatim>\<open>internal/credentials/status.go\<close>, and \<^verbatim>\<open>SaveConfig\<close> of
  \<^verbatim>\<open>internal/agent/config.go\<close>).  The cut-over touches three things that a crash can separate: the
  configuration file, the pointer of the certificate store, and the bundle it points to.

  The agent's configuration in memory is passed explicitly; each operation returns it.  YAML, JSON
  and base64 are library work and parameters (\<open>cred_env\<close>).  Times are nanoseconds.
\<close>

record Config =
  cf_ServerID :: string
  cf_GRPCEndpoint :: string
  cf_CertDir :: path
  cf_AuthMode :: string
  cf_AuthToken :: string
  cf_RenewalToken :: string
  cf_RenewalEndpoint :: string
  cf_CredentialExpiresUnix :: int
  cf_AuthGeneration :: int
  cf_RenewalStatus :: string
  cf_RenewalAttempts :: int
  cf_RenewalLastError :: string
  cf_RenewalLastSuccessUnix :: int
  cf_RenewalNextRetryUnix :: int
  cf_PendingRotationID :: string
  cf_PendingAuthToken :: string
  cf_PendingRenewalToken :: string
  cf_PendingExpiresUnix :: int
  cf_PendingAuthGeneration :: int
  cf_PendingPreviousBundle :: string
  cf_PendingHadPointer :: bool
  cf_TunnelToken :: string
  cf_TunnelID :: string
  cf_RegistryURL :: string
  cf_RegistryUsername :: string
  cf_RegistryPassword :: string
  cf_MaxConcurrentBuilds :: int

record JWTClaims =
  jc_Subject :: string
  jc_ExpiresAt :: int
  jc_AuthGeneration :: int

record CredentialRotation =
  ro_RequestId :: string
  ro_ErrorCode :: string
  ro_ClientCert :: string
  ro_CaCert :: string
  ro_AuthToken :: string
  ro_RenewalToken :: string
  ro_ExpiresUnix :: int
  ro_AuthGeneration :: int

record cred_env =
  ce_x509 :: x509
  ce_yaml_Marshal :: "Config \<Rightarrow> string result"
  ce_jwt_payload :: "string \<Rightarrow> JWTClaims result"   \<comment> \<open>base64 and JSON of the middle part\<close>
  ce_cert_NotAfter :: "string \<Rightarrow> int result"   \<comment> \<open>PEM and X.509 of the active certificate\<close>
  ce_split_host :: "string \<Rightarrow> string"   \<comment> \<open>the host of an address\<close>
  ce_cfgDir :: path

definition unix :: "int \<Rightarrow> int" where "unix t = t div second"

subsection \<open>Configuration file\<close>

definition config_path :: "path \<Rightarrow> path" where
  "config_path dir = dir @ [''config.yaml'']"

definition SaveConfig :: "cred_env \<Rightarrow> path \<Rightarrow> Config \<Rightarrow> go_error option fsm" where
  "SaveConfig env dir cfg = do {
     ok \<leftarrow> mkdir dir;
     if \<not> ok then State_Monad.return (Some os_error)
     else case ce_yaml_Marshal env cfg of
       Inl err \<Rightarrow> State_Monad.return (Some err)
     | Inr text \<Rightarrow> write_via_temp ''.config-'' (config_path dir) text }"

definition copyCredentialFields :: "Config \<Rightarrow> Config \<Rightarrow> Config" where
  "copyCredentialFields dst src = dst\<lparr>
     cf_AuthToken := cf_AuthToken src, cf_RenewalToken := cf_RenewalToken src,
     cf_RenewalEndpoint := cf_RenewalEndpoint src, cf_CredentialExpiresUnix := cf_CredentialExpiresUnix src,
     cf_AuthGeneration := cf_AuthGeneration src, cf_RenewalStatus := cf_RenewalStatus src,
     cf_RenewalAttempts := cf_RenewalAttempts src, cf_RenewalLastError := cf_RenewalLastError src,
     cf_RenewalLastSuccessUnix := cf_RenewalLastSuccessUnix src, cf_RenewalNextRetryUnix := cf_RenewalNextRetryUnix src,
     cf_PendingRotationID := cf_PendingRotationID src, cf_PendingAuthToken := cf_PendingAuthToken src,
     cf_PendingRenewalToken := cf_PendingRenewalToken src, cf_PendingExpiresUnix := cf_PendingExpiresUnix src,
     cf_PendingAuthGeneration := cf_PendingAuthGeneration src, cf_PendingPreviousBundle := cf_PendingPreviousBundle src,
     cf_PendingHadPointer := cf_PendingHadPointer src\<rparr>"

text \<open>The configuration in memory follows the file only when the file was written.\<close>

definition saveCredentialConfig :: "cred_env \<Rightarrow> Config \<Rightarrow> Config \<Rightarrow> (Config \<times> go_error option) fsm" where
  "saveCredentialConfig env mem cfg = do {
     err \<leftarrow> SaveConfig env (ce_cfgDir env) cfg;
     State_Monad.return (case err of
       Some e \<Rightarrow> (mem, Some e)
     | None \<Rightarrow> (copyCredentialFields mem cfg, None)) }"

subsection \<open>Pure parts\<close>

definition clearPendingCredentialFields :: "Config \<Rightarrow> Config" where
  "clearPendingCredentialFields cfg = cfg\<lparr>cf_PendingRotationID := [], cf_PendingAuthToken := [],
     cf_PendingRenewalToken := [], cf_PendingExpiresUnix := 0, cf_PendingAuthGeneration := 0,
     cf_PendingPreviousBundle := [], cf_PendingHadPointer := False\<rparr>"

definition normalizedAuthMode :: "string \<Rightarrow> string" where
  "normalizedAuthMode mode = (if mode = ''token'' then ''token'' else ''mtls'')"

definition known_codes :: "string list" where
  "known_codes = [''activation_failed'', ''agent_stage_failed'', ''auth_mode_mismatch'', ''ca_unavailable'',
     ''expiry_unavailable'', ''internal_error'', ''invalid_auth_mode'', ''invalid_csr'', ''invalid_request'',
     ''invalid_server'', ''prepare_failed'', ''recovery_failed'', ''resume_failed'', ''rotation_in_progress'',
     ''send_failed'', ''server_inactive'', ''unknown'']"

definition safeCode :: "string \<Rightarrow> string" where
  "safeCode code = (let cleaned = take 100 (filter id_char code) in
     if cleaned \<in> set known_codes then cleaned else ''unknown'')"

definition defaultRenewalEndpoint :: "cred_env \<Rightarrow> string \<Rightarrow> string" where
  "defaultRenewalEndpoint env grpcEndpoint =
     ''https://'' @ TrimPrefix (ce_split_host env grpcEndpoint) ''grpc.'' @ ''/api/agent/renew''"

definition renewalBackoff :: "int \<Rightarrow> int" where
  "renewalBackoff n =
     (let n = (if n < 1 then 1 else n);
          n = (if n > 12 then 12 else n);
          delay = minute * 2 ^ nat (n - 1)
      in if delay > 24 * hour then 24 * hour else delay)"

definition RenewalWindow :: int where "RenewalWindow = 30 * 24 * hour"
definition renewalResponseRetry :: int where "renewalResponseRetry = 5 * minute"

definition credentialRenewalDue :: "Config \<Rightarrow> int \<Rightarrow> int \<Rightarrow> bool" where
  "credentialRenewalDue cfg expires now \<longleftrightarrow>
     cf_PendingRotationID cfg \<noteq> [] \<or> cf_RenewalToken cfg = [] \<or> expires - now \<le> RenewalWindow"

definition ParseJWTClaims :: "cred_env \<Rightarrow> string \<Rightarrow> JWTClaims result" where
  "ParseJWTClaims env token =
     (case Split token (CHR ''.'') of
        [_, middle, _] \<Rightarrow>
          (case ce_jwt_payload env middle of
             Inl err \<Rightarrow> Inl err
           | Inr claims \<Rightarrow>
               if jc_Subject claims = [] \<or> jc_ExpiresAt claims = 0 then Inl ''JWT is missing required claims''
               else Inr claims)
      | _ \<Rightarrow> Inl ''invalid JWT format'')"

definition ValidateJWT :: "cred_env \<Rightarrow> int \<Rightarrow> string \<Rightarrow> string \<Rightarrow> int \<Rightarrow> int \<Rightarrow> go_error option" where
  "ValidateJWT env now token serverID authGeneration expiresUnix =
     (case ParseJWTClaims env token of
        Inl err \<Rightarrow> Some err
      | Inr claims \<Rightarrow>
          if jc_Subject claims \<noteq> ''server:'' @ serverID then Some ''renewed JWT has wrong server identity''
          else if jc_AuthGeneration claims \<noteq> authGeneration then Some ''renewed JWT has wrong auth generation''
          else if jc_ExpiresAt claims \<noteq> expiresUnix then Some ''renewed JWT has inconsistent expiry''
          else if jc_ExpiresAt claims * second - now < 24 * hour then Some ''renewed JWT expires too soon''
          else None)"

text \<open>The expiry of the credential in use, in nanoseconds.\<close>

definition Expiry :: "cred_env \<Rightarrow> string \<Rightarrow> string \<Rightarrow> path \<Rightarrow> int \<Rightarrow> int result fsm" where
  "Expiry env authMode authToken dir configuredUnix =
     (if authMode = ''token'' then
        State_Monad.return (case ParseJWTClaims env authToken of
          Inl err \<Rightarrow> if configuredUnix > 0 then Inr (configuredUnix * second) else Inl err
        | Inr claims \<Rightarrow> Inr (jc_ExpiresAt claims * second))
      else do {
        paths \<leftarrow> ActivePaths dir;
        content \<leftarrow> read_file (fst paths);
        State_Monad.return (case content of
          None \<Rightarrow> if configuredUnix > 0 then Inr (configuredUnix * second) else Inl (''reading active certificate: '' @ os_error)
        | Some pem \<Rightarrow> ce_cert_NotAfter env pem) })"

subsection \<open>Requests\<close>

definition beginCredentialRequest :: "cred_env \<Rightarrow> int \<Rightarrow> string result \<Rightarrow> Config
    \<Rightarrow> (Config \<times> (Config \<times> string) result) fsm" where
  "beginCredentialRequest env now drawn mem =
     (case (if cf_PendingRotationID mem = [] then drawn else Inr (cf_PendingRotationID mem)) of
        Inl err \<Rightarrow> State_Monad.return (mem, Inl err)
      | Inr requestID \<Rightarrow> do {
          let cfg = mem\<lparr>cf_PendingRotationID := requestID\<rparr>;
          csr \<leftarrow> PrepareRotation (ce_x509 env) (cf_CertDir mem) requestID (cf_ServerID mem);
          (case csr of
             Inl err \<Rightarrow> State_Monad.return (mem, Inl err)
           | Inr pem \<Rightarrow> do {
               let cfg = cfg\<lparr>cf_RenewalStatus := ''pending'', cf_RenewalAttempts := cf_RenewalAttempts cfg + 1,
                 cf_RenewalLastError := [], cf_RenewalNextRetryUnix := unix (now + renewalResponseRetry)\<rparr>;
               saved \<leftarrow> saveCredentialConfig env mem cfg;
               State_Monad.return (case saved of
                 (mem', Some err) \<Rightarrow> (mem', Inl (''saving pending renewal state: '' @ err))
               | (mem', None) \<Rightarrow> (mem', Inr (cfg, pem))) }) })"

definition recordCredentialFailure :: "cred_env \<Rightarrow> int \<Rightarrow> string \<Rightarrow> bool \<Rightarrow> Config \<Rightarrow> Config fsm" where
  "recordCredentialFailure env now code clearPending mem =
     (let attempts = (if cf_RenewalAttempts mem < 1 then 1 else cf_RenewalAttempts mem);
          cfg = mem\<lparr>cf_RenewalStatus := ''failed'', cf_RenewalLastError := safeCode code, cf_RenewalAttempts := attempts,
            cf_RenewalNextRetryUnix := unix (now + renewalBackoff attempts)\<rparr>;
          requestID = cf_PendingRotationID cfg;
          cfg = (if clearPending then clearPendingCredentialFields cfg else cfg) in do {
        saved \<leftarrow> saveCredentialConfig env mem cfg;
        (if clearPending \<and> requestID \<noteq> [] then do {
           _ \<leftarrow> DiscardRotation (cf_CertDir mem) requestID;
           State_Monad.return () }
         else State_Monad.return ());
        State_Monad.return (fst saved) })"

subsection \<open>The cut-over\<close>

text \<open>The configuration with the new tokens pending, and the committed one.\<close>

definition pending_config :: "Config \<Rightarrow> CredentialRotation \<Rightarrow> string option \<Rightarrow> Config" where
  "pending_config old rot pointer = old\<lparr>cf_PendingAuthToken := ro_AuthToken rot,
     cf_PendingRenewalToken := ro_RenewalToken rot, cf_PendingExpiresUnix := ro_ExpiresUnix rot,
     cf_PendingAuthGeneration := ro_AuthGeneration rot,
     cf_PendingPreviousBundle := ac_PreviousBundle (activation_of pointer),
     cf_PendingHadPointer := ac_HadPointer (activation_of pointer)\<rparr>"

definition committed :: "int \<Rightarrow> Config \<Rightarrow> Config" where
  "committed now cfg = clearPendingCredentialFields (cfg\<lparr>cf_AuthToken := cf_PendingAuthToken cfg,
     cf_RenewalToken := cf_PendingRenewalToken cfg, cf_CredentialExpiresUnix := cf_PendingExpiresUnix cfg,
     cf_AuthGeneration := cf_PendingAuthGeneration cfg, cf_RenewalStatus := ''healthy'', cf_RenewalAttempts := 0,
     cf_RenewalLastError := [], cf_RenewalLastSuccessUnix := unix now, cf_RenewalNextRetryUnix := 0\<rparr>)"

definition with_endpoint :: "cred_env \<Rightarrow> Config \<Rightarrow> Config" where
  "with_endpoint env cfg = (if cf_RenewalEndpoint cfg = []
     then cfg\<lparr>cf_RenewalEndpoint := defaultRenewalEndpoint env (cf_GRPCEndpoint cfg)\<rparr> else cfg)"

definition show_error :: "go_error option \<Rightarrow> string" where
  "show_error err = (case err of None \<Rightarrow> ''<nil>'' | Some e \<Rightarrow> e)"

text \<open>After the pointer was switched: commit the configuration, or undo the switch.\<close>

definition commit_rotation :: "cred_env \<Rightarrow> int \<Rightarrow> Config \<Rightarrow> Config \<Rightarrow> Config \<Rightarrow> string \<Rightarrow> Activation
    \<Rightarrow> (Config \<times> go_error option) fsm" where
  "commit_rotation env now old pend mem requestID activation = do {
     saved \<leftarrow> saveCredentialConfig env mem (committed now (with_endpoint env pend));
     (case saved of
        (mem', None) \<Rightarrow> State_Monad.return (mem', None)
      | (mem', Some err) \<Rightarrow> do {
          pointerErr \<leftarrow> Rollback (cf_CertDir old) activation;
          restored \<leftarrow> saveCredentialConfig env mem' old;
          (case restored of
             (mem'', None) \<Rightarrow> do {
               _ \<leftarrow> DiscardRotation (cf_CertDir old) requestID;
               State_Monad.return (mem'', Some (''committing credential metadata: '' @ err @
                 (if pointerErr = None then []
                  else '' (pointer rollback: '' @ show_error pointerErr @ '', config rollback: <nil>)''))) }
           | (mem'', Some configErr) \<Rightarrow>
               State_Monad.return (mem'', Some (''committing credential metadata: '' @ err @
                 '' (pointer rollback: '' @ show_error pointerErr @ '', config rollback: '' @ configErr @ '')''))) }) }"

definition rotation_rejected :: "cred_env \<Rightarrow> int \<Rightarrow> Config \<Rightarrow> CredentialRotation \<Rightarrow> go_error option" where
  "rotation_rejected env now old rot =
     (if ro_RequestId rot = [] \<or> ro_RequestId rot \<noteq> cf_PendingRotationID old
        then Some ''rotation response does not match pending request''
      else if length (ro_ClientCert rot) = 0 \<or> length (ro_CaCert rot) = 0 \<or> ro_RenewalToken rot = [] \<or> ro_ExpiresUnix rot = 0
        then Some ''rotation response is incomplete''
      else if normalizedAuthMode (cf_AuthMode old) = ''token''
        then ValidateJWT env now (ro_AuthToken rot) (cf_ServerID old) (ro_AuthGeneration rot) (ro_ExpiresUnix rot)
      else None)"

definition applyCredentialRotation :: "cred_env \<Rightarrow> int \<Rightarrow> CredentialRotation \<Rightarrow> Config \<Rightarrow> (Config \<times> go_error option) fsm" where
  "applyCredentialRotation env now rot old =
     (case rotation_rejected env now old rot of
        Some err \<Rightarrow> State_Monad.return (old, Some err)
      | None \<Rightarrow> do {
          staged \<leftarrow> StageRotation (ce_x509 env) now (cf_CertDir old) (ro_RequestId rot) (cf_ServerID old)
            (ro_ClientCert rot) (ro_CaCert rot);
          (case staged of
             Some err \<Rightarrow> State_Monad.return (old, Some err)
           | None \<Rightarrow> do {
               pointer \<leftarrow> readPointer (cf_CertDir old);
               let pend = pending_config old rot pointer;
               saved \<leftarrow> saveCredentialConfig env old pend;
               (case saved of
                  (mem, Some err) \<Rightarrow> do {
                    _ \<leftarrow> DiscardRotation (cf_CertDir old) (ro_RequestId rot);
                    State_Monad.return (mem, Some (''persisting pending credential metadata: '' @ err)) }
                | (mem, None) \<Rightarrow> do {
                    activated \<leftarrow> ActivateRotation (cf_CertDir old) (ro_RequestId rot);
                    (case activated of
                       Inr activation \<Rightarrow> commit_rotation env now old pend mem (ro_RequestId rot) activation
                     | Inl err \<Rightarrow> do {
                         restored \<leftarrow> saveCredentialConfig env mem old;
                         (case restored of
                            (mem', None) \<Rightarrow> do {
                              _ \<leftarrow> DiscardRotation (cf_CertDir old) (ro_RequestId rot);
                              State_Monad.return (mem', Some err) }
                          | (mem', Some rollbackErr) \<Rightarrow>
                              State_Monad.return (mem', Some (''activating credential bundle: '' @ err @ '' (config rollback failed: '' @ rollbackErr @ '')''))) }) }) }) })"

definition resumePendingCredentialCutover :: "cred_env \<Rightarrow> int \<Rightarrow> Config \<Rightarrow> (Config \<times> go_error option) fsm" where
  "resumePendingCredentialCutover env now cfg =
     (if cf_PendingRotationID cfg = [] \<or> cf_PendingRenewalToken cfg = [] \<or> cf_PendingExpiresUnix cfg = 0
      then State_Monad.return (cfg, None)
      else do {
        activated \<leftarrow> ActivateRotation (cf_CertDir cfg) (cf_PendingRotationID cfg);
        (case activated of
           Inl err \<Rightarrow> State_Monad.return (cfg, Some (''resuming credential activation: '' @ err))
         | Inr _ \<Rightarrow> do {
             saved \<leftarrow> saveCredentialConfig env cfg (committed now cfg);
             (case saved of
                (mem, None) \<Rightarrow> State_Monad.return (mem, None)
              | (mem, Some err) \<Rightarrow> do {
                  _ \<leftarrow> Rollback (cf_CertDir cfg)
                    \<lparr>ac_PreviousBundle = cf_PendingPreviousBundle cfg, ac_HadPointer = cf_PendingHadPointer cfg\<rparr>;
                  restored \<leftarrow> saveCredentialConfig env mem cfg;
                  State_Monad.return (fst restored, Some err) }) }) })"

subsection \<open>The drivers\<close>

record CredentialRenewalRequest =
  rr_RequestId :: string
  rr_CsrPem :: string
  rr_CurrentAuthGeneration :: int
  rr_AuthMode :: string

text \<open>
  \<open>send\<close> is the outcome of sending on the stream.  The second component is the request that was
  sent, if any.
\<close>

definition maybeRequestCredentialRenewal :: "cred_env \<Rightarrow> int \<Rightarrow> string result \<Rightarrow> (CredentialRenewalRequest \<Rightarrow> go_error option)
    \<Rightarrow> Config \<Rightarrow> (Config \<times> CredentialRenewalRequest option \<times> go_error option) fsm" where
  "maybeRequestCredentialRenewal env now drawn send mem = do {
     expires \<leftarrow> Expiry env (cf_AuthMode mem) (cf_AuthToken mem) (cf_CertDir mem) (cf_CredentialExpiresUnix mem);
     (case expires of
        Inl err \<Rightarrow> do {
          mem' \<leftarrow> recordCredentialFailure env now ''expiry_unavailable'' False mem;
          State_Monad.return (mem', None, None) }
      | Inr t \<Rightarrow>
          if \<not> credentialRenewalDue mem t now then State_Monad.return (mem, None, None)
          else if cf_RenewalNextRetryUnix mem > unix now then State_Monad.return (mem, None, None)
          else do {
            begun \<leftarrow> beginCredentialRequest env now drawn mem;
            (case begun of
               (mem', Inl err) \<Rightarrow> do {
                 mem'' \<leftarrow> recordCredentialFailure env now ''prepare_failed'' True mem';
                 State_Monad.return (mem'', None, None) }
             | (mem', Inr (cfg, csr)) \<Rightarrow>
                 (let req = \<lparr>rr_RequestId = cf_PendingRotationID cfg, rr_CsrPem = csr,
                      rr_CurrentAuthGeneration = cf_AuthGeneration cfg, rr_AuthMode = normalizedAuthMode (cf_AuthMode cfg)\<rparr> in
                  case send req of
                    None \<Rightarrow> State_Monad.return (mem', Some req, None)
                  | Some err \<Rightarrow> do {
                      mem'' \<leftarrow> recordCredentialFailure env now ''send_failed'' False mem';
                      State_Monad.return (mem'', Some req, Some (''sending credential renewal request: '' @ err)) })) }) }"

record CredentialRotationResult =
  rt_RequestId :: string
  rt_Success :: bool
  rt_Stage :: string
  rt_ErrorCode :: string

text \<open>The answer is whether to reconnect; the result message is sent on a best-effort basis.\<close>

definition handleCredentialRotation :: "cred_env \<Rightarrow> int \<Rightarrow> CredentialRotation \<Rightarrow> Config
    \<Rightarrow> (Config \<times> CredentialRotationResult option \<times> bool) fsm" where
  "handleCredentialRotation env now rot mem =
     (if ro_ErrorCode rot \<noteq> [] then do {
        mem' \<leftarrow> recordCredentialFailure env now (ro_ErrorCode rot) True mem;
        State_Monad.return (mem', None, False) }
      else do {
        applied \<leftarrow> applyCredentialRotation env now rot mem;
        (case applied of
           (mem', Some err) \<Rightarrow> do {
             mem'' \<leftarrow> recordCredentialFailure env now ''activation_failed'' False mem';
             State_Monad.return (mem'', Some \<lparr>rt_RequestId = ro_RequestId rot, rt_Success = False,
               rt_Stage = ''activation'', rt_ErrorCode = ''activation_failed''\<rparr>, False) }
         | (mem', None) \<Rightarrow>
             State_Monad.return (mem', Some \<lparr>rt_RequestId = ro_RequestId rot, rt_Success = True,
               rt_Stage = ''activated'', rt_ErrorCode = []\<rparr>, True)) })"

text \<open>\<open>renew\<close> is the answer of the renewal endpoint, given its address, the token and the request.\<close>

definition recoverCredentials :: "cred_env \<Rightarrow> int \<Rightarrow> bool \<Rightarrow> string result
    \<Rightarrow> (string \<Rightarrow> string \<Rightarrow> CredentialRenewalRequest \<Rightarrow> CredentialRotation result) \<Rightarrow> Config \<Rightarrow> (Config \<times> go_error option) fsm" where
  "recoverCredentials env now force drawn renew mem = do {
     resumed \<leftarrow> resumePendingCredentialCutover env now mem;
     (case resumed of
        (mem, Some err) \<Rightarrow> do {
          mem' \<leftarrow> recordCredentialFailure env now ''resume_failed'' False mem;
          State_Monad.return (mem', Some err) }
      | (mem, None) \<Rightarrow> do {
          expires \<leftarrow> Expiry env (cf_AuthMode mem) (cf_AuthToken mem) (cf_CertDir mem) (cf_CredentialExpiresUnix mem);
          (case (case expires of Inl err \<Rightarrow> if force then None else Some (Some err)
               | Inr t \<Rightarrow> if \<not> force \<and> now < t then Some None else None) of
             Some answer \<Rightarrow> State_Monad.return (mem, answer)
           | None \<Rightarrow>
              if cf_RenewalToken mem = []
              then State_Monad.return (mem, Some ''control credential expired and no renewal credential is available; re-enroll the agent'')
              else if cf_RenewalNextRetryUnix mem > unix now
              then State_Monad.return (mem, Some ''credential recovery is waiting for retry backoff'')
              else do {
                begun \<leftarrow> beginCredentialRequest env now drawn mem;
                (case begun of
                   (mem', Inl err) \<Rightarrow> do {
                     mem'' \<leftarrow> recordCredentialFailure env now ''prepare_failed'' True mem';
                     State_Monad.return (mem'', Some err) }
                 | (mem', Inr (cfg, csr)) \<Rightarrow>
                     (let endpoint = (if cf_RenewalEndpoint cfg = [] then defaultRenewalEndpoint env (cf_GRPCEndpoint cfg)
                            else cf_RenewalEndpoint cfg);
                          req = \<lparr>rr_RequestId = cf_PendingRotationID cfg, rr_CsrPem = csr,
                            rr_CurrentAuthGeneration = cf_AuthGeneration cfg, rr_AuthMode = normalizedAuthMode (cf_AuthMode cfg)\<rparr> in
                      case renew endpoint (cf_RenewalToken cfg) req of
                        Inl err \<Rightarrow> do {
                          mem'' \<leftarrow> recordCredentialFailure env now ''recovery_failed'' False mem';
                          State_Monad.return (mem'', Some err) }
                      | Inr rot \<Rightarrow> do {
                          applied \<leftarrow> applyCredentialRotation env now rot mem';
                          (case applied of
                             (mem'', Some err) \<Rightarrow> do {
                               mem3 \<leftarrow> recordCredentialFailure env now ''activation_failed'' False mem'';
                               State_Monad.return (mem3, Some err) }
                           | (mem'', None) \<Rightarrow> State_Monad.return (mem'', None)) })) }) }) }"

subsection \<open>Back-off\<close>

text \<open>
  The wait between renewal attempts doubles from one minute on each failure and is capped at a
  day: the shift never overflows, whatever number of attempts the configuration file holds.
\<close>

theorem renewalBackoff_bounds:
  "minute \<le> renewalBackoff n \<and> renewalBackoff n \<le> 24 * hour \<and>
   renewalBackoff (n + 1) = (if n < 1 then minute else min (2 * renewalBackoff n) (24 * hour))"
proof -
  have small: "list_all (\<lambda>n. minute \<le> renewalBackoff n \<and> renewalBackoff n \<le> 24 * hour \<and>
      renewalBackoff (n + 1) = min (2 * renewalBackoff n) (24 * hour)) [1..12]"
    by code_simp
  consider "n < 0" | "n = 0" | "n \<in> {1..12}" | "n > 12" by fastforce
  then show ?thesis
  proof cases
    case 3
    with small show ?thesis by (simp add: list_all_iff)
  qed (simp_all add: renewalBackoff_def time_units Let_def min_def)
qed

end
