(* ===== verification/Deploy_Handler.thy ===== *)
theory Deploy_Handler
  imports Deploy_Properties Disk_Guard Source_Build Credentials Control_Stream
begin

text \<open>
  \<^verbatim>\<open>HandleDeploy\<close> (\<^verbatim>\<open>internal/agent/handler.go\<close>) from its admission on: the disk guard, the
  build, the deploy, and the reports to the control plane.  The handler runs the builder of
  \<open>Source_Build\<close> and the deployer of \<open>Deploy_Properties\<close> on one world; their progress callbacks are
  the handler's own \<^verbatim>\<open>sendProgress\<close>.  \<open>he_report\<close> sends a message or queues it
  (\<open>send_or_queue\<close> of \<open>Control_Stream\<close>).  Admission, duplicate check and removal guard, which frame
  this, are in \<open>Deploy_Admission\<close>.
\<close>

record HealthConfigCmd =
  hc_Path :: string
  hc_TimeoutSeconds :: int
  hc_Retries :: int
  hc_IntervalSeconds :: int
  hc_StartupGraceSeconds :: int

record DeployCommand =
  dc_DeploymentId :: string
  dc_ServiceSlug :: string
  dc_ImageTag :: string
  dc_RepoUrl :: string
  dc_Branch :: string
  dc_GitToken :: string
  dc_DockerfilePath :: string
  dc_GeneratedDockerfile :: string
  dc_BuildTimeoutSeconds :: int
  dc_Port :: int
  dc_Force :: bool
  dc_HealthConfig :: "HealthConfigCmd option"
  dc_ResourceConfig :: "(rat \<times> int) option"   \<comment> \<open>CPU and memory limit\<close>
  dc_ActiveEndpoints :: "EndpointInfo list"
  dc_EnvVars :: go_map
  dc_Domains :: "string list"
  dc_ProjectNetwork :: string
  dc_VolumeMounts :: "VolumeMount list"
  dc_ContainerCommand :: "string list"
  dc_CompanionSlugs :: "string list"
  dc_RegistryAuth :: string

datatype handler_event = Reported DeployProgress | Built_by build_event | Deployed_by deploy_event | Examined string

record 'w handler_env =
  he_docker :: "'w docker_env"
  he_build :: "'w build_env"
  he_report :: "DeployProgress \<Rightarrow> (unit, 'w) op"
  he_inject_log :: "string \<Rightarrow> (unit, 'w) op"
  he_GetDockerRootUsage :: "(DockerRootUsage result, 'w) op"
  he_EstimateImageSize :: "string \<Rightarrow> string \<Rightarrow> (64 word result, 'w) op"
  he_PreviewCleanup :: "(CleanupSummary result, 'w) op"
  he_CollectNetworkInfo :: "(string list \<times> string, 'w) op"   \<comment> \<open>LAN addresses and public address\<close>
  he_DecodeRegistryAuth :: "string \<Rightarrow> (string \<times> string) option"
  he_json :: "DiskGuard \<Rightarrow> string"
  he_show_duration :: "int \<Rightarrow> string"

type_synonym ('w, 'a) handling = "(handler_event, 'w, 'a) rigged"

datatype handler_outcome = Handled bool | HandlerPanicked

definition report :: "'w handler_env \<Rightarrow> DeployProgress \<Rightarrow> ('w, unit) handling" where
  "report env dp = call (\<lambda>_. Reported dp) (he_report env dp)"

text \<open>The handler's callbacks, as the builder and the deployer get them.\<close>

fun build_event_of :: "string \<Rightarrow> build_event \<Rightarrow> handler_event" where
  "build_event_of deployID (BProgress status message) = Reported (progress_message deployID 0 status message [] [] [] [])"
| "build_event_of deployID e = Built_by e"

definition building_env :: "'w handler_env \<Rightarrow> string \<Rightarrow> 'w build_env" where
  "building_env env deployID = (he_build env)\<lparr>
     be_onProgress := \<lambda>status message. he_report env (progress_message deployID 0 status message [] [] [] []),
     be_onLog := he_inject_log env\<rparr>"

fun deploy_event_of :: "string \<Rightarrow> int \<Rightarrow> string \<Rightarrow> string \<Rightarrow> deploy_event \<Rightarrow> handler_event" where
  "deploy_event_of deployID port imageTag gitSHA (Progress status message cid cname) =
     Reported (progress_message deployID port status message cid cname imageTag gitSHA)"
| "deploy_event_of deployID port imageTag gitSHA e = Deployed_by e"

definition deploying_env :: "'w handler_env \<Rightarrow> string \<Rightarrow> int \<Rightarrow> string \<Rightarrow> string \<Rightarrow> 'w docker_env" where
  "deploying_env env deployID port imageTag gitSHA = (he_docker env)\<lparr>
     de_onProgress := \<lambda>status message cid cname.
       he_report env (progress_message deployID port status message cid cname imageTag gitSHA),
     de_onLog := he_inject_log env\<rparr>"

subsection \<open>The options of the deploy\<close>

definition health_config_of :: "HealthConfigCmd option \<Rightarrow> DeployHealthConfig" where
  "health_config_of hc = (case hc of
     None \<Rightarrow> \<lparr>dh_Path = [], dh_TimeoutSeconds = 0, dh_Retries = 0, dh_IntervalSeconds = 0, dh_StartupGraceSeconds = 0\<rparr>
   | Some h \<Rightarrow> \<lparr>dh_Path = hc_Path h, dh_TimeoutSeconds = hc_TimeoutSeconds h, dh_Retries = hc_Retries h,
       dh_IntervalSeconds = hc_IntervalSeconds h, dh_StartupGraceSeconds = hc_StartupGraceSeconds h\<rparr>)"

text \<open>The command's credentials, or those of the agent for images of its own registry.\<close>

definition registry_auth_of :: "'w handler_env \<Rightarrow> Config \<Rightarrow> DeployCommand \<Rightarrow> string \<Rightarrow> (string \<times> string) option" where
  "registry_auth_of env cfg cmd imageTag =
     (if dc_RegistryAuth cmd \<noteq> [] then he_DecodeRegistryAuth env (dc_RegistryAuth cmd)
      else if cf_RegistryURL cfg \<noteq> [] \<and> cf_RegistryUsername cfg \<noteq> [] \<and> HasPrefix imageTag (cf_RegistryURL cfg @ ''/'')
      then Some (cf_RegistryUsername cfg, cf_RegistryPassword cfg)
      else None)"

definition deploy_opts_of :: "'w handler_env \<Rightarrow> Config \<Rightarrow> DeployCommand \<Rightarrow> string \<Rightarrow> int \<Rightarrow> string list \<times> string \<Rightarrow> DeployOpts" where
  "deploy_opts_of env cfg cmd imageTag buildPort net =
     \<lparr>op_DeploymentID = dc_DeploymentId cmd, op_ServiceSlug = dc_ServiceSlug cmd, op_ImageTag = imageTag,
      op_Env = dc_EnvVars cmd, op_Port = (if buildPort > 0 then buildPort else dc_Port cmd), op_Domains = dc_Domains cmd,
      op_Endpoints = dc_ActiveEndpoints cmd, op_HealthConfig = health_config_of (dc_HealthConfig cmd),
      op_CPULimit = (case dc_ResourceConfig cmd of None \<Rightarrow> 0 | Some rc \<Rightarrow> fst rc),
      op_MemoryLimitMB = (case dc_ResourceConfig cmd of None \<Rightarrow> 0 | Some rc \<Rightarrow> snd rc),
      op_ProjectNetwork = dc_ProjectNetwork cmd,
      op_LANIPs = (case net of (lan, public) \<Rightarrow> if public \<noteq> [] then lan @ [public] else lan),
      op_Volumes = dc_VolumeMounts cmd, op_ContainerCommand = dc_ContainerCommand cmd,
      op_CompanionSlugs = dc_CompanionSlugs cmd, op_RegistryAuth = registry_auth_of env cfg cmd imageTag\<rparr>"

definition build_opts_of :: "DeployCommand \<Rightarrow> BuildOpts" where
  "build_opts_of cmd = \<lparr>bo_RepoURL = dc_RepoUrl cmd, bo_Branch = dc_Branch cmd, bo_GitToken = dc_GitToken cmd,
     bo_DockerfilePath = dc_DockerfilePath cmd, bo_ServiceSlug = dc_ServiceSlug cmd, bo_DeploymentID = dc_DeploymentId cmd,
     bo_BuildTimeoutSeconds = dc_BuildTimeoutSeconds cmd, bo_GeneratedDockerfile = dc_GeneratedDockerfile cmd\<rparr>"

subsection \<open>The handler\<close>

definition has_extras :: "DeployCommand \<Rightarrow> DeployResult \<Rightarrow> bool" where
  "has_extras cmd res \<longleftrightarrow> dr_Inspection res \<noteq> None \<or> length (dr_Ports res) > 0 \<or>
     dr_EffectivePort res \<noteq> dc_Port cmd \<or> dr_ImageDigest res \<noteq> []"

definition deploy_image :: "'w handler_env \<Rightarrow> Config \<Rightarrow> DeployCommand \<Rightarrow> string \<Rightarrow> string \<Rightarrow> int \<Rightarrow> ('w, handler_outcome) handling" where
  "deploy_image env cfg cmd imageTag gitSHA buildPort =
     (let deployID = dc_DeploymentId cmd in
      if imageTag = [] then do {
        report env (progress_message deployID buildPort ''failed'' ''No image to deploy (no repo_url and no image_tag)'' [] [] [] []);
        State_Monad.return (Handled False) }
      else do {
        net \<leftarrow> call (\<lambda>_. Examined ''network'') (he_CollectNetworkInfo env);
        r \<leftarrow> embed (deploy_event_of deployID buildPort imageTag gitSHA)
          (Deploy (deploying_env env deployID buildPort imageTag gitSHA) (deploy_opts_of env cfg cmd imageTag buildPort net));
        (case r of
           Panicked \<Rightarrow> State_Monad.return HandlerPanicked
         | Returned res err \<Rightarrow> (case err of
             Some e \<Rightarrow> do {
               report env (terminal_message deployID ''failed'' (''Deploy failed: '' @ e) [] [] imageTag gitSHA (Some res) []);
               State_Monad.return (Handled False) }
           | None \<Rightarrow> do {
               (if has_extras cmd res
                then report env (terminal_message deployID ''active'' ''Deployment active (introspection attached)'' [] []
                  imageTag gitSHA (Some res) [])
                else State_Monad.return ());
               State_Monad.return (Handled True) })) })"

definition build_and_deploy :: "'w handler_env \<Rightarrow> Config \<Rightarrow> DeployCommand \<Rightarrow> ('w, handler_outcome) handling" where
  "build_and_deploy env cfg cmd =
     (let deployID = dc_DeploymentId cmd in
      if dc_RepoUrl cmd = [] then deploy_image env cfg cmd (dc_ImageTag cmd) [] 0
      else do {
        report env (progress_message deployID 0 ''cloning'' (''Cloning '' @ dc_RepoUrl cmd @ ''...'') [] [] [] []);
        r \<leftarrow> embed (build_event_of deployID)
          (BuildFromSource (building_env env deployID) (he_show_duration env) (build_opts_of cmd));
        (case r of
           BuildPanicked \<Rightarrow> State_Monad.return HandlerPanicked
         | BuildFailed e \<Rightarrow> do {
             report env (progress_message deployID 0 ''build_failed'' (''Build failed: '' @ e) [] [] [] []);
             State_Monad.return (Handled False) }
         | Built b \<Rightarrow> (let buildPort = (if br_EffectivePort b > 0 \<and> br_EffectivePort b \<noteq> dc_Port cmd
               then int32 (br_EffectivePort b) else 0) in do {
             report env (progress_message deployID buildPort ''built'' ''Build complete'' [] [] (br_ImageTag b) (br_GitSHA b));
             deploy_image env cfg cmd (br_ImageTag b) (br_GitSHA b) buildPort })) })"

definition disk_guard :: "'w handler_env \<Rightarrow> DeployCommand \<Rightarrow> ('w, DiskGuard result) handling" where
  "disk_guard env cmd = do {
     usage \<leftarrow> call (\<lambda>_. Examined ''disk'') (he_GetDockerRootUsage env);
     (case usage of
        Inl err \<Rightarrow> State_Monad.return (evaluateDeployDiskGuard (Inl err) (Inr 0) (Inl err) (dc_Force cmd))
      | Inr u \<Rightarrow> do {
          estimate \<leftarrow> call (\<lambda>_. Examined ''image size'') (he_EstimateImageSize env (dc_ImageTag cmd) (dc_ServiceSlug cmd));
          preview \<leftarrow> call (\<lambda>_. Examined ''clean-up'') (he_PreviewCleanup env);
          State_Monad.return (evaluateDeployDiskGuard (Inr u) estimate preview (dc_Force cmd)) }) }"

definition HandleDeploy :: "'w handler_env \<Rightarrow> Config \<Rightarrow> DeployCommand \<Rightarrow> ('w, handler_outcome) handling" where
  "HandleDeploy env cfg cmd = do {
     diskGuard \<leftarrow> disk_guard env cmd;
     (case diskGuard of
        Inl err \<Rightarrow> do {
          report env (terminal_message (dc_DeploymentId cmd) ''failed'' (''Deploy failed: '' @ err) [] [] (dc_ImageTag cmd) [] None []);
          State_Monad.return (Handled False) }
      | Inr guard \<Rightarrow>
          if dg_blocked guard then do {
            report env (terminal_message (dc_DeploymentId cmd) ''failed'' (summarizeDiskGuard guard) [] []
              (dc_ImageTag cmd) [] None (he_json env guard));
            State_Monad.return (Handled False) }
          else do {
            (if dg_would_block guard \<and> dc_Force cmd then call (\<lambda>_. Examined ''disk guard overridden'')
               (he_inject_log env ''WARNING: Docker disk guard would have blocked this deploy, but --force was set so deployment is continuing.'')
             else State_Monad.return ());
            build_and_deploy env cfg cmd }) }"

subsection \<open>What the control plane is told\<close>

fun reports :: "handler_event list \<Rightarrow> DeployProgress list" where
  "reports [] = []"
| "reports (Reported dp # es) = dp # reports es"
| "reports (e # es) = reports es"

definition terminals :: "handler_event list \<Rightarrow> string list" where
  "terminals evs = filter terminalDeployStatuses (map pr_Status (reports evs))"

text \<open>
  The reports of a handler that ended with the outcome: all carry the deployment's identifier; a
  success is reported as active, at most twice; a failure is reported exactly once, and last.
\<close>

definition reports_ok :: "string \<Rightarrow> handler_outcome \<Rightarrow> handler_event list \<Rightarrow> bool" where
  "reports_ok deployID r evs \<longleftrightarrow> list_all (\<lambda>dp. pr_DeploymentId dp = deployID) (reports evs) \<and>
     (case r of
        Handled ok \<Rightarrow>
          if ok then terminals evs = [''active''] \<or> terminals evs = [''active'', ''active'']
          else \<exists>st. (st = ''failed'' \<or> st = ''build_failed'') \<and> terminals evs = [st] \<and> pr_Status (last (reports evs)) = st
      | HandlerPanicked \<Rightarrow> terminals evs = [])"

lemma terminal_statuses [simp]:
  "terminalDeployStatuses ''active''" "terminalDeployStatuses ''failed''" "terminalDeployStatuses ''build_failed''"
  "\<not> terminalDeployStatuses ''cloning''" "\<not> terminalDeployStatuses ''building''" "\<not> terminalDeployStatuses ''built''"
  by (simp_all add: terminalDeployStatuses_def)

lemma reports_append [simp]: "reports (es @ fs) = reports es @ reports fs"
  by (induction es rule: reports.induct) simp_all

lemma terminals_simps [simp]: "terminals [] = []" "terminals (es @ fs) = terminals es @ terminals fs"
    "terminals (Reported dp # es) = (if terminalDeployStatuses (pr_Status dp) then pr_Status dp # terminals es else terminals es)"
    "terminals (Built_by b # es) = terminals es" "terminals (Deployed_by d # es) = terminals es" "terminals (Examined x # es) = terminals es"
  by (simp_all add: terminals_def)

lemma message_status [simp]:
  "pr_Status (progress_message i p st m c n t s) = st" "pr_DeploymentId (progress_message i p st m c n t s) = i"
  "pr_Status (terminal_message i st m c n t s r d) = st" "pr_DeploymentId (terminal_message i st m c n t s r d) = i"
  by (auto simp: progress_message_def terminal_message_def Let_def split: option.split)

text \<open>What comes before the outcome is decided.\<close>

definition undecided :: "string \<Rightarrow> handler_event \<Rightarrow> bool" where
  "undecided deployID e \<longleftrightarrow> (case e of Reported dp \<Rightarrow> pr_DeploymentId dp = deployID \<and> \<not> terminalDeployStatuses (pr_Status dp) | _ \<Rightarrow> True)"

lemma undecided_simps [simp]: "undecided i (Examined x)" "undecided i (Built_by b)" "undecided i (Deployed_by d)"
    "undecided i (Reported dp) \<longleftrightarrow> pr_DeploymentId dp = i \<and> \<not> terminalDeployStatuses (pr_Status dp)"
  by (simp_all add: undecided_def)

lemma undecided_reports:
  "list_all (undecided i) evs \<Longrightarrow> terminals evs = [] \<and> list_all (\<lambda>dp. pr_DeploymentId dp = i) (reports evs)"
  by (induction evs rule: reports.induct) auto

lemma reports_ok_prefix:
  assumes "list_all (undecided i) evs" "reports_ok i r evs'"
  shows "reports_ok i r (evs @ evs')"
proof -
  have "reports evs' \<noteq> []" if "terminals evs' = [st]" for st using that by (auto simp: terminals_def)
  with assms undecided_reports [OF assms(1)] show ?thesis
    by (auto simp: reports_ok_def split: handler_outcome.splits if_splits)
qed

lemma undecided_then: "emits (undecided i) m \<Longrightarrow> (\<And>a. yields (reports_ok i) (f a)) \<Longrightarrow> yields (reports_ok i) (State_Monad.bind m f)"
  by (rule yields_prefix [where P = "undecided i"]) (simp_all add: reports_ok_prefix)

lemma deploy_reports:
  "list_all (\<lambda>e. \<not> is_failed e) evs \<Longrightarrow>
   terminals (map (deploy_event_of i p t s) evs) = replicate (length (filter is_active evs)) ''active'' \<and>
   list_all (\<lambda>dp. pr_DeploymentId dp = i) (reports (map (deploy_event_of i p t s) evs))"
proof (induction evs)
  case (Cons e evs)
  then show ?case by (cases e) (auto simp: terminalDeployStatuses_def)
qed simp

lemma deploy_image_reports: "yields (reports_ok (dc_DeploymentId cmd)) (deploy_image env cfg cmd tag sha port)"
  unfolding deploy_image_def Let_def
proof (rule yields_if)
  let ?i = "dc_DeploymentId cmd"
  show "yields (reports_ok ?i) (do {
        report env (progress_message ?i port ''failed'' ''No image to deploy (no repo_url and no image_tag)'' [] [] [] []);
        State_Monad.return (Handled False) })"
    unfolding report_def by (intro yields_rules) (simp add: reports_ok_def)
  show "yields (reports_ok ?i) (do {
        net \<leftarrow> call (\<lambda>_. Examined ''network'') (he_CollectNetworkInfo env);
        r \<leftarrow> embed (deploy_event_of ?i port tag sha)
          (Deploy (deploying_env env ?i port tag sha) (deploy_opts_of env cfg cmd tag port net));
        (case r of
           Panicked \<Rightarrow> State_Monad.return HandlerPanicked
         | Returned res err \<Rightarrow> (case err of
             Some e \<Rightarrow> do {
               report env (terminal_message ?i ''failed'' (''Deploy failed: '' @ e) [] [] tag sha (Some res) []);
               State_Monad.return (Handled False) }
           | None \<Rightarrow> do {
               (if has_extras cmd res
                then report env (terminal_message ?i ''active'' ''Deployment active (introspection attached)'' [] [] tag sha (Some res) [])
                else State_Monad.return ());
               State_Monad.return (Handled True) })) })"
  proof (rule undecided_then, (rule emits_call, simp), rule yields_bind)
    fix net
    show "yields (\<lambda>r evs. terminals evs = (if succeeded r then [''active''] else []) \<and> list_all (\<lambda>dp. pr_DeploymentId dp = ?i) (reports evs))
        (embed (deploy_event_of ?i port tag sha)
          (Deploy (deploying_env env ?i port tag sha) (deploy_opts_of env cfg cmd tag port net)))"
      by (rule yields_embed [OF yields_conj [OF deploy_one_active deploy_unfailed]])
        (auto simp: deploy_reports one_active_def)
    fix r evs assume "terminals evs = (if succeeded r then [''active''] else []) \<and> list_all (\<lambda>dp. pr_DeploymentId dp = ?i) (reports evs)"
    then show "yields (\<lambda>b evs'. reports_ok ?i b (evs @ evs')) (case r of
           Panicked \<Rightarrow> State_Monad.return HandlerPanicked
         | Returned res err \<Rightarrow> (case err of
             Some e \<Rightarrow> do {
               report env (terminal_message ?i ''failed'' (''Deploy failed: '' @ e) [] [] tag sha (Some res) []);
               State_Monad.return (Handled False) }
           | None \<Rightarrow> do {
               (if has_extras cmd res
                then report env (terminal_message ?i ''active'' ''Deployment active (introspection attached)'' [] [] tag sha (Some res) [])
                else State_Monad.return ());
               State_Monad.return (Handled True) }))"
      unfolding report_def by (cases r rule: succeeded.cases) (auto simp: reports_ok_def intro!: yields_rules)
  qed
qed

text \<open>The builder reports that it clones and that it builds.\<close>

definition early_progress :: "build_event \<Rightarrow> bool" where
  "early_progress e \<longleftrightarrow> (case e of BProgress st m \<Rightarrow> \<not> terminalDeployStatuses st | _ \<Rightarrow> True)"

lemma early_progress_simps [simp]: "early_progress (BLog l)" "early_progress (MadeDir d)" "early_progress (RemovedDir d)"
    "early_progress (MadeScript p)" "early_progress (WroteScript p c)" "early_progress (RemovedScript p)"
    "early_progress (Git d a x)" "early_progress (WroteFile d c)" "early_progress (Docker_Build rq e)" "early_progress (BAsked q)"
    "early_progress (BProgress st m) \<longleftrightarrow> \<not> terminalDeployStatuses st"
  by (simp_all add: early_progress_def)

lemma build_early: "emits early_progress (BuildFromSource env sd opts)"
proof -
  have into: "emits early_progress (clone_into env url branch token d extra)" for url branch token d extra
    unfolding clone_into_def building_defs by (intro emits_rules) simp_all
  have "emits early_progress (writeAskpassHelper env token)" for token
    unfolding writeAskpassHelper_def building_defs by (intro emits_rules) (auto split: sum.split)
  then have token: "emits early_progress (clone_with_token env url branch token d)" for url branch token d
    unfolding clone_with_token_def building_defs by (intro emits_rules into) simp_all
  have clone: "emits early_progress (CloneRepo env url branch token)" for url branch token
    unfolding CloneRepo_def by (intro emits_rules into token) (auto split: sum.split)
  have docker: "emits early_progress (docker_build env rq)" for rq
    unfolding docker_build_def building_defs by (intro emits_rules) simp_all
  have "emits early_progress (build_image env sd opts d sha)" for d sha
    unfolding build_image_def build_tagged_def build_with_cache_def building_defs by (intro emits_rules docker) simp_all
  then have "emits early_progress (build_cloned env sd opts d sha)" for d sha
    unfolding build_cloned_def place_dockerfile_def Let_def building_defs by (intro emits_rules) simp_all
  then show ?thesis
    unfolding BuildFromSource_def build_and_clean_def Let_def building_defs by (intro emits_rules clone) simp_all
qed

lemma build_reports: "list_all early_progress evs \<Longrightarrow> list_all (undecided i) (map (build_event_of i) evs)"
proof (induction evs)
  case (Cons e evs)
  then show ?case by (cases e) simp_all
qed simp

lemma embedded_build: "emits (undecided i) (embed (build_event_of i) (BuildFromSource env sd opts))"
  unfolding emits_def by (rule yields_embed [OF build_early [unfolded emits_def]]) (rule build_reports)

lemma build_and_deploy_reports: "yields (reports_ok (dc_DeploymentId cmd)) (build_and_deploy env cfg cmd)"
  unfolding build_and_deploy_def Let_def
proof (intro yields_if deploy_image_reports undecided_then embedded_build)
  show "emits (undecided (dc_DeploymentId cmd)) (report env (progress_message (dc_DeploymentId cmd) 0 ''cloning'' m [] [] [] []))" for m
    unfolding report_def by (rule emits_call) simp
  fix r
  show "yields (reports_ok (dc_DeploymentId cmd)) (case r of
       Built b \<Rightarrow> do {
           report env (progress_message (dc_DeploymentId cmd)
             (if br_EffectivePort b > 0 \<and> br_EffectivePort b \<noteq> dc_Port cmd then int32 (br_EffectivePort b) else 0)
             ''built'' ''Build complete'' [] [] (br_ImageTag b) (br_GitSHA b));
           deploy_image env cfg cmd (br_ImageTag b) (br_GitSHA b)
             (if br_EffectivePort b > 0 \<and> br_EffectivePort b \<noteq> dc_Port cmd then int32 (br_EffectivePort b) else 0) }
     | BuildFailed e \<Rightarrow> do {
           report env (progress_message (dc_DeploymentId cmd) 0 ''build_failed'' (''Build failed: '' @ e) [] [] [] []);
           State_Monad.return (Handled False) }
     | BuildPanicked \<Rightarrow> State_Monad.return HandlerPanicked)"
  proof (cases r)
    case (Built b)
    then show ?thesis unfolding report_def
      by (simp only: build_outcome.case) (rule undecided_then, rule emits_call, simp, rule deploy_image_reports)
  qed (auto simp: report_def reports_ok_def intro!: yields_rules)
qed

text \<open>
  C2. Every admitted deploy that does not panic is reported to its end, whatever the disk, the
  build, Docker and the service do: a success as active, a failure exactly once as failed or
  build_failed and then nothing more; a panic is never reported, and every report names the deployment.
\<close>

theorem deploy_reported_to_end: "yields (reports_ok (dc_DeploymentId cmd)) (HandleDeploy env cfg cmd)"
proof -
  have guard: "emits (undecided i) (disk_guard env cmd)" for i
    unfolding disk_guard_def by (intro emits_rules) simp_all
  have leaf: "yields (reports_ok (dc_DeploymentId cmd)) (do {
      report env (terminal_message (dc_DeploymentId cmd) ''failed'' m [] [] t [] None d); State_Monad.return (Handled False) })" for m t d
    unfolding report_def by (intro yields_rules) (simp add: reports_ok_def)
  show ?thesis unfolding HandleDeploy_def
    by (rule undecided_then [OF guard])
      (intro yields_sum yields_if leaf undecided_then build_and_deploy_reports emits_if emits_call emits_return, simp)
qed

subsection \<open>A deploy that is never reported\<close>

definition sample_handler_env :: "nat handler_env" where
  "sample_handler_env = \<lparr>he_docker = sample_env [] ''new-container-1'' 200, he_build = sample_build_env,
     he_report = \<lambda>dp w. ((), 0, w), he_inject_log = \<lambda>l w. ((), 0, w),
     he_GetDockerRootUsage = \<lambda>w. (Inr \<lparr>du_DockerRootDir = ''/var/lib/docker'', du_TotalBytes = 100000000000,
       du_UsedBytes = 0, du_FreeBytes = 100000000000\<rparr>, 0, w),
     he_EstimateImageSize = \<lambda>i s w. (Inr 0, 0, w), he_PreviewCleanup = \<lambda>w. (Inr zero_CleanupSummary, 0, w),
     he_CollectNetworkInfo = \<lambda>w. (([], []), 0, w), he_DecodeRegistryAuth = \<lambda>s. None, he_json = \<lambda>g. [],
     he_show_duration = \<lambda>d. ''10m0s''\<rparr>"

definition sample_command :: DeployCommand where
  "sample_command = \<lparr>dc_DeploymentId = ''0123456789abcdef'', dc_ServiceSlug = ''web'', dc_ImageTag = [],
     dc_RepoUrl = ''https://example.org/app.git'', dc_Branch = ''main'', dc_GitToken = [], dc_DockerfilePath = [],
     dc_GeneratedDockerfile = ''FROM scratch'', dc_BuildTimeoutSeconds = 0, dc_Port = 8080, dc_Force = False,
     dc_HealthConfig = None, dc_ResourceConfig = None, dc_ActiveEndpoints = [], dc_EnvVars = Map.empty, dc_Domains = [],
     dc_ProjectNetwork = [], dc_VolumeMounts = [], dc_ContainerCommand = [], dc_CompanionSlugs = [], dc_RegistryAuth = []\<rparr>"

text \<open>
  A deploy whose clone works but whose commit cannot be read ends in a panic that only the log
  shows: the control plane is told that the deploy is cloning and never hears of it again.
\<close>

theorem unreadable_commit_unreported:
  "case run_state (HandleDeploy sample_handler_env cfg sample_command) \<lparr>rg_world = 0, rg_clock = 0, rg_trace = []\<rparr> of
     (r, s) \<Rightarrow> r = HandlerPanicked \<and> map pr_Status (reports (rg_trace s)) = [''cloning'', ''cloning'']"
  by code_simp

end
