(* ===== verification/Artifact_Cleanup.thy ===== *)
theory Artifact_Cleanup
  imports Docker_Client "HOL-Library.Char_ord" "HOL-Library.List_Lexorder" "HOL-Library.Word"
begin

text \<open>
  Disk usage, the artifact inventory and the clean-up preview of the Docker manager (the end of
  \<^verbatim>\<open>internal/docker/client.go\<close>).  The observation is one answer of the daemon's
  \<^verbatim>\<open>/system/df\<close>; its slices hold pointers that may be nil, here \<open>None\<close>.  Byte counts are
  added at 64 bits.  Strings are sorted bytewise, as Go does.
\<close>

definition add64 :: "int \<Rightarrow> int \<Rightarrow> int" where
  "add64 a b = signed_take_bit 63 (a + b)"

record df_container =
  dfc_ID :: string
  dfc_Names :: "string list"
  dfc_State :: string
  dfc_Image :: string
  dfc_ImageID :: string
  dfc_SizeRw :: int
  dfc_Labels :: go_map

record df_image =
  dfi_ID :: string
  dfi_RepoTags :: "string list"
  dfi_RepoDigests :: "string list"
  dfi_Size :: int
  dfi_Created :: int
  dfi_Labels :: go_map

record df_cache =
  dfb_InUse :: bool
  dfb_Size :: int

record df_volume =
  dfv_Name :: string
  dfv_UsageSize :: "int option"

record docker_df =
  df_LayersSize :: int
  df_Containers :: "df_container option list"
  df_Images :: "df_image option list"
  df_BuildCache :: "df_cache option list"
  df_Volumes :: "df_volume option list"

record VolumeUsage =
  vu_Name :: string
  vu_SizeBytes :: int

record DiskUsageResult =
  dur_ImagesBytes :: int
  dur_BuildCacheBytes :: int
  dur_ContainersBytes :: int
  dur_Volumes :: "VolumeUsage list"

record cleanupArtifact =
  ca_ID :: string
  ca_Bytes :: int

record cleanupPlan =
  cp_summary :: CleanupSummary
  cp_stoppedContainers :: "cleanupArtifact list"
  cp_unusedImages :: "cleanupArtifact list"

text \<open>The elements that are not nil.\<close>

definition present :: "'a option list \<Rightarrow> 'a list" where
  "present xs = map the (filter (\<lambda>x. x \<noteq> None) xs)"

definition total64 :: "int list \<Rightarrow> int" where
  "total64 xs = foldl add64 0 xs"

definition positive_total :: "int list \<Rightarrow> int" where
  "positive_total xs = total64 (filter (\<lambda>n. n > 0) xs)"

definition DiskUsage :: "docker_df result \<Rightarrow> DiskUsageResult result" where
  "DiskUsage r = (case r of
     Inl err \<Rightarrow> Inl (''docker disk usage: '' @ err)
   | Inr du \<Rightarrow> Inr \<lparr>dur_ImagesBytes = df_LayersSize du,
       dur_BuildCacheBytes = total64 (map dfb_Size (present (df_BuildCache du))),
       dur_ContainersBytes = total64 (map dfc_SizeRw (present (df_Containers du))),
       dur_Volumes = map (\<lambda>v. \<lparr>vu_Name = dfv_Name v,
           vu_SizeBytes = (case dfv_UsageSize v of Some n \<Rightarrow> if n \<ge> 0 then n else 0 | None \<Rightarrow> 0)\<rparr>)
         (present (df_Volumes du))\<rparr>)"

subsection \<open>Inventory\<close>

definition artifactInventoryVersion :: int where "artifactInventoryVersion = 1"
definition artifactInventoryMaxItems :: int where "artifactInventoryMaxItems = 2000"

definition ownershipFromLabels :: "go_map \<Rightarrow> bool \<Rightarrow> ArtifactOwnership" where
  "ownershipFromLabels labels imageArtifact =
     (let managed = (map_get labels ''clank.managed'' = ''true'');
          version = map_get labels ''clank.ownership_version'';
          kind = map_get labels ''clank.artifact_type'';
          deployment = map_get labels ''clank.deployment_id'';
          slug = map_get labels ''clank.service_slug'';
          validType = (if imageArtifact then kind = ''service_image'' \<or> kind = ''preview_image''
                       else kind = ''service_container'')
      in \<lparr>ao_Managed = managed,
          ao_ProspectivelyOwned = (managed \<and> version = ''1'' \<and> validType \<and> deployment \<noteq> [] \<and> slug \<noteq> []),
          ao_OwnershipVersion = version, ao_ArtifactType = kind, ao_DeploymentID = deployment,
          ao_ServiceID = map_get labels ''clank.service_id'', ao_ServiceSlug = slug,
          ao_ProjectID = map_get labels ''clank.project_id'',
          ao_RetentionCanaryID = map_get labels ''clank.retention_canary_id''\<rparr>)"

definition seen_containers :: "docker_df \<Rightarrow> df_container list" where
  "seen_containers du = filter (\<lambda>c. dfc_ID c \<noteq> []) (present (df_Containers du))"

definition seen_images :: "docker_df \<Rightarrow> df_image list" where
  "seen_images du = filter (\<lambda>i. dfi_ID i \<noteq> []) (present (df_Images du))"

definition inventory_container :: "df_container \<Rightarrow> ContainerInventoryItem" where
  "inventory_container c =
     \<lparr>ct_ID = dfc_ID c, ct_Names = sort (dfc_Names c), ct_State = dfc_State c, ct_ImageID = dfc_ImageID c,
      ct_ImageRef = dfc_Image c, ct_SizeRWBytes = max 0 (dfc_SizeRw c),
      ct_Ownership = ownershipFromLabels (dfc_Labels c) False\<rparr>"

text \<open>
  \<^verbatim>\<open>containersByImage\<close> and \<^verbatim>\<open>runningImageIDs\<close> are filled from the containers with an
  identifier and an image identifier; an image is only looked up under a non-empty identifier.
\<close>

definition inventory_image :: "df_container list \<Rightarrow> df_image \<Rightarrow> ImageInventoryItem" where
  "inventory_image containers i =
     (let using = filter (\<lambda>c. dfc_ImageID c \<noteq> [] \<and> dfc_ImageID c = dfi_ID i) containers in
      \<lparr>ii_ID = dfi_ID i, ii_RepoTags = sort (dfi_RepoTags i), ii_RepoDigests = sort (dfi_RepoDigests i),
       ii_SizeBytes = max 0 (dfi_Size i), ii_CreatedUnix = max 0 (dfi_Created i),
       ii_ContainerIDs = sort (map dfc_ID using),
       ii_InUseByRunningContainer = list_ex (\<lambda>c. dfc_State c = ''running'') using,
       ii_Ownership = ownershipFromLabels (dfi_Labels i) True\<rparr>)"

definition buildDockerArtifactInventory :: "docker_df \<Rightarrow> int \<Rightarrow> DockerArtifactInventory" where
  "buildDockerArtifactInventory du maxItems =
     (let maxItems = (if maxItems < 0 then 0 else maxItems);
          containers = map inventory_container (seen_containers du);
          images = map (inventory_image (seen_containers du)) (seen_images du);
          images = sort_key ii_ID images;
          containers = sort_key ct_ID containers
      in \<lparr>inv_Version = artifactInventoryVersion,
          inv_Complete = (int (length images) \<le> maxItems \<and> int (length containers) \<le> maxItems),
          inv_ImageCount = int (length images), inv_ContainerCount = int (length containers),
          inv_Images = take (nat maxItems) images,
          inv_Containers = take (nat maxItems) containers\<rparr>)"

subsection \<open>The clean-up plan\<close>

definition image_refs :: "df_image \<Rightarrow> string list" where
  "image_refs i = filter (\<lambda>t. t \<noteq> [] \<and> t \<noteq> ''<none>:<none>'') (dfi_RepoTags i) @
     filter (\<lambda>d. d \<noteq> [] \<and> d \<noteq> ''<none>@<none>'') (dfi_RepoDigests i)"

definition sortedKeys :: "string list \<Rightarrow> string list" where
  "sortedKeys refs = sort (remdups refs)"

text \<open>The images no running container uses; those without a reference are dangling.\<close>

definition idle_images :: "docker_df \<Rightarrow> df_image list" where
  "idle_images du =
     (let running = map dfc_ImageID (filter (\<lambda>c. dfc_State c = ''running'' \<and> dfc_ImageID c \<noteq> []) (present (df_Containers du)))
      in filter (\<lambda>i. dfi_ID i \<notin> set running) (present (df_Images du)))"

definition removable_images :: "string list \<Rightarrow> docker_df \<Rightarrow> df_image list" where
  "removable_images protected_refs du =
     filter (\<lambda>i. image_refs i \<noteq> [] \<and> \<not> list_ex (\<lambda>ref. ref \<in> set protected_refs) (image_refs i)) (idle_images du)"

definition computeCleanupPlan :: "docker_df result \<Rightarrow> string list \<Rightarrow> cleanupPlan result" where
  "computeCleanupPlan r protectedImageRefs = (case r of
     Inl err \<Rightarrow> Inl (''docker disk usage: '' @ err)
   | Inr du \<Rightarrow>
      (let protected_refs = filter (\<lambda>ref. ref \<noteq> []) protectedImageRefs;
           idle_containers = filter (\<lambda>c. dfc_State c \<noteq> ''running'') (present (df_Containers du));
           stopped = map (\<lambda>c. \<lparr>ca_ID = dfc_ID c, ca_Bytes = dfc_SizeRw c\<rparr>) (filter (\<lambda>c. dfc_ID c \<noteq> []) idle_containers);
           stoppedBytes = positive_total (map dfc_SizeRw idle_containers);
           dangling = filter (\<lambda>i. image_refs i = []) (idle_images du);
           danglingBytes = positive_total (map dfi_Size dangling);
           unused = removable_images protected_refs du;
           unusedImages = map (\<lambda>i. \<lparr>ca_ID = hd (image_refs i), ca_Bytes = dfi_Size i\<rparr>) unused;
           unusedBytes = positive_total (map dfi_Size unused);
           cache = filter (\<lambda>b. \<not> dfb_InUse b) (present (df_BuildCache du));
           cacheBytes = positive_total (map dfb_Size cache)
       in Inr \<lparr>cp_summary =
           \<lparr>sm_ProtectedImageRefs = sortedKeys protected_refs,
            sm_StoppedContainers = \<lparr>cs_Count = int (length stopped), cs_ReclaimableBytes = stoppedBytes\<rparr>,
            sm_UnusedImages = \<lparr>cs_Count = int (length unusedImages), cs_ReclaimableBytes = unusedBytes\<rparr>,
            sm_BuildCache = \<lparr>cs_Count = int (length cache) + int (length dangling), cs_ReclaimableBytes = add64 cacheBytes danglingBytes\<rparr>,
            sm_ReclaimableBytes = add64 (add64 (add64 stoppedBytes unusedBytes) cacheBytes) danglingBytes,
            sm_Applied = False, sm_ReclaimedBytesActual = 0,
            sm_Inventory = Some (buildDockerArtifactInventory du artifactInventoryMaxItems)\<rparr>,
          cp_stoppedContainers = stopped, cp_unusedImages = unusedImages\<rparr>))"

definition PreviewCleanup :: "docker_df result \<Rightarrow> string list \<Rightarrow> CleanupSummary result" where
  "PreviewCleanup r protectedImageRefs = (case computeCleanupPlan r protectedImageRefs of
     Inl err \<Rightarrow> Inl err | Inr plan \<Rightarrow> Inr (cp_summary plan))"

definition ApplyCleanup :: "string list \<Rightarrow> CleanupSummary result" where
  "ApplyCleanup protectedImageRefs = Inl ''legacy broad Docker cleanup is disabled; preview only''"

subsection \<open>Properties\<close>

lemma set_present [simp]: "x \<in> set (present xs) \<longleftrightarrow> Some x \<in> set xs"
  by (force simp: present_def image_iff)

definition running_on :: "docker_df \<Rightarrow> string \<Rightarrow> bool" where
  "running_on du image_id \<longleftrightarrow> list_ex (\<lambda>c. dfc_State c = ''running'' \<and> dfc_ImageID c = image_id \<and> dfc_ImageID c \<noteq> [])
     (present (df_Containers du))"

text \<open>
  C30. The plan never touches what is in use: every container it lists is not running, and every
  image it lists is one of the observation that no running container uses and none of whose
  references is protected; and applying a plan is refused.
\<close>

theorem cleanup_plan_spares_in_use:
  assumes "computeCleanupPlan (Inr du) protectedImageRefs = Inr plan"
  shows "(\<forall>a \<in> set (cp_stoppedContainers plan). \<exists>c. Some c \<in> set (df_Containers du) \<and> dfc_ID c = ca_ID a \<and> dfc_State c \<noteq> ''running'') \<and>
    (\<forall>a \<in> set (cp_unusedImages plan). \<exists>i. Some i \<in> set (df_Images du) \<and> ca_ID a = hd (image_refs i) \<and> image_refs i \<noteq> [] \<and>
       \<not> running_on du (dfi_ID i) \<and> set (image_refs i) \<inter> set protectedImageRefs \<subseteq> {[]}) \<and>
    (\<exists>err. ApplyCleanup protectedImageRefs = Inl err)"
proof -
  from assms have stopped: "cp_stoppedContainers plan = map (\<lambda>c. \<lparr>ca_ID = dfc_ID c, ca_Bytes = dfc_SizeRw c\<rparr>)
      (filter (\<lambda>c. dfc_ID c \<noteq> []) (filter (\<lambda>c. dfc_State c \<noteq> ''running'') (present (df_Containers du))))"
    and unused: "cp_unusedImages plan = map (\<lambda>i. \<lparr>ca_ID = hd (image_refs i), ca_Bytes = dfi_Size i\<rparr>)
      (removable_images (filter (\<lambda>ref. ref \<noteq> []) protectedImageRefs) du)"
    by (auto simp: computeCleanupPlan_def Let_def)
  have idle: "\<not> running_on du (dfi_ID i)" if "i \<in> set (idle_images du)" for i
  proof
    let ?cs = "filter (\<lambda>c. dfc_State c = ''running'' \<and> dfc_ImageID c \<noteq> []) (present (df_Containers du))"
    assume "running_on du (dfi_ID i)"
    then obtain c where "c \<in> set (present (df_Containers du))"
        and c: "dfc_State c = ''running''" "dfc_ImageID c = dfi_ID i" "dfc_ImageID c \<noteq> []"
      unfolding running_on_def list_ex_iff by blast
    then have "c \<in> set ?cs" by simp
    then have "dfc_ImageID c \<in> set (map dfc_ImageID ?cs)" unfolding set_map by (rule imageI)
    moreover from that have "dfi_ID i \<notin> set (map dfc_ImageID ?cs)"
      unfolding idle_images_def Let_def set_filter by blast
    ultimately show False unfolding c(2) by blast
  qed
  have present: "Some i \<in> set (df_Images du)" if "i \<in> set (idle_images du)" for i
    using that by (simp add: idle_images_def)
  show ?thesis
    using idle present
    by (auto simp: stopped unused removable_images_def list_ex_iff ApplyCleanup_def)
qed

text \<open>
  C31. The inventory sent to the control plane never hides that it was cut: the counts are those of
  the observation, at most the given number of items is listed, and it says complete exactly when
  every image and container of the observation is listed; and an image that is listed is marked as
  used by a running container exactly when one uses it, whether or not that container is listed.
\<close>

theorem inventory_complete_exact:
  "let inv = buildDockerArtifactInventory du maxItems in
   inv_ImageCount inv = int (length (seen_images du)) \<and>
   inv_ContainerCount inv = int (length (seen_containers du)) \<and>
   int (length (inv_Images inv)) \<le> max 0 maxItems \<and> int (length (inv_Containers inv)) \<le> max 0 maxItems \<and>
   inv_Complete inv =
     (mset (inv_Images inv) = mset (map (inventory_image (seen_containers du)) (seen_images du)) \<and>
      mset (inv_Containers inv) = mset (map inventory_container (seen_containers du))) \<and>
   list_all (\<lambda>i. ii_InUseByRunningContainer i =
      list_ex (\<lambda>c. dfc_State c = ''running'' \<and> dfc_ImageID c = ii_ID i) (seen_containers du)) (inv_Images inv)"
proof -
  let ?imgs = "map (inventory_image (seen_containers du)) (seen_images du)"
  let ?cs = "map inventory_container (seen_containers du)"
  have cut: "mset (take n (sort_key f xs)) = mset xs \<longleftrightarrow> length xs \<le> n" for n and f :: "'b \<Rightarrow> string" and xs
  proof
    assume "mset (take n (sort_key f xs)) = mset xs"
    then have "size (mset (take n (sort_key f xs))) = size (mset xs)" by simp
    then show "length xs \<le> n" by simp
  qed simp
  let ?used = "\<lambda>i. ii_InUseByRunningContainer i =
      list_ex (\<lambda>c. dfc_State c = ''running'' \<and> dfc_ImageID c = ii_ID i) (seen_containers du)"
  have "?used (inventory_image (seen_containers du) i)" if "dfi_ID i \<noteq> []" for i
    using that by (auto simp: list_ex_iff inventory_image_def Let_def)
  then have all: "\<forall>i \<in> set ?imgs. ?used i" by (simp add: seen_images_def)
  have used: "list_all ?used (take n (sort_key ii_ID ?imgs))" for n
    using all set_take_subset [of n "sort_key ii_ID ?imgs"] unfolding list_all_iff set_sort by blast
  show ?thesis
    by (auto simp: buildDockerArtifactInventory_def Let_def cut used simp del: mset_map)
qed

text \<open>
  The totals: as long as the positive sizes of a section add up to less than 2 to the 63, its
  bytes are their sum; no negative size the daemon reports lowers a total.
\<close>

lemma total64_exact:
  assumes "\<forall>x \<in> set xs. 0 \<le> x" "sum_list xs < 9223372036854775808"
  shows "total64 xs = sum_list xs"
proof -
  have "foldl add64 a xs = a + sum_list xs" if "0 \<le> a" "a + sum_list xs < 9223372036854775808" for a
    using assms(1) that
  proof (induction xs arbitrary: a)
    case (Cons x xs)
    have "0 \<le> sum_list xs" using Cons.prems(1) by (auto intro: sum_list_nonneg)
    then have "add64 a x = a + x"
      using Cons.prems unfolding add64_def by (intro signed_take_bit_int_eq_self) auto
    with Cons show ?case by simp
  qed simp
  with assms show ?thesis by (simp add: total64_def)
qed

lemma positive_total_exact:
  "sum_list (filter (\<lambda>n. n > 0) xs) < 9223372036854775808 \<Longrightarrow> positive_total xs = sum_list (filter (\<lambda>n. n > 0) xs)"
  unfolding positive_total_def by (rule total64_exact) auto

definition sample_df :: docker_df where
  "sample_df = \<lparr>df_LayersSize = 10,
     df_Containers = [None,
       Some \<lparr>dfc_ID = ''c1'', dfc_Names = [], dfc_State = ''running'', dfc_Image = ''a:1'', dfc_ImageID = ''i1'', dfc_SizeRw = 5, dfc_Labels = Map.empty\<rparr>,
       Some \<lparr>dfc_ID = ''c2'', dfc_Names = [], dfc_State = ''exited'', dfc_Image = ''b:1'', dfc_ImageID = ''i2'', dfc_SizeRw = 7, dfc_Labels = Map.empty\<rparr>],
     df_Images = [
       Some \<lparr>dfi_ID = ''i1'', dfi_RepoTags = [''a:1''], dfi_RepoDigests = [], dfi_Size = 3, dfi_Created = 0, dfi_Labels = Map.empty\<rparr>,
       Some \<lparr>dfi_ID = ''i2'', dfi_RepoTags = [''b:1''], dfi_RepoDigests = [], dfi_Size = 4, dfi_Created = 0, dfi_Labels = Map.empty\<rparr>,
       Some \<lparr>dfi_ID = ''i3'', dfi_RepoTags = [''keep:1''], dfi_RepoDigests = [], dfi_Size = 6, dfi_Created = 0, dfi_Labels = Map.empty\<rparr>],
     df_BuildCache = [], df_Volumes = []\<rparr>"

lemma cleanup_plan_spares_in_use_witness:
  "case computeCleanupPlan (Inr sample_df) [''keep:1''] of
     Inr plan \<Rightarrow> map ca_ID (cp_unusedImages plan) = [''b:1''] \<and> map ca_ID (cp_stoppedContainers plan) = [''c2''] \<and>
       list_all (\<lambda>a. ca_ID a \<noteq> ''keep:1'') (cp_unusedImages plan)
   | Inl err \<Rightarrow> False"
proof -
  obtain plan where plan: "computeCleanupPlan (Inr sample_df) [''keep:1''] = Inr plan"
    by (cases "computeCleanupPlan (Inr sample_df) [''keep:1'']") (auto simp: computeCleanupPlan_def Let_def)
  have listed: "map ca_ID (cp_unusedImages plan) = [''b:1''] \<and> map ca_ID (cp_stoppedContainers plan) = [''c2'']"
    using plan by (auto simp: computeCleanupPlan_def Let_def sample_df_def removable_images_def idle_images_def
        present_def image_refs_def)
  have "\<forall>a \<in> set (cp_unusedImages plan). ca_ID a \<noteq> ''keep:1''"
  proof
    fix a assume "a \<in> set (cp_unusedImages plan)"
    with cleanup_plan_spares_in_use [OF plan] obtain i where
      "ca_ID a = hd (image_refs i)" "image_refs i \<noteq> []" "set (image_refs i) \<inter> set [''keep:1''] \<subseteq> {[]}" by blast
    then have "ca_ID a \<in> set (image_refs i)" "''keep:1'' \<notin> set (image_refs i)" by auto
    then show "ca_ID a \<noteq> ''keep:1''" by metis
  qed
  with listed plan show ?thesis by (simp add: list_all_iff)
qed

end
