(* ===== verification/Credential_Cutover.thy ===== *)
theory Credential_Cutover
  imports Credentials
begin

text \<open>
  The cut-over to new credentials is crash-safe while renames and reads work: whatever other operation fails and
  wherever the agent is killed, the disk is in one of three recognisable states, from each of which the agent can
  connect, and the activated bundle is always one that was validated against the local key.
\<close>

definition holds_config :: "cred_env \<Rightarrow> named \<Rightarrow> Config \<Rightarrow> bool" where
  "holds_config env w cfg \<longleftrightarrow> (\<exists>text. ce_yaml_Marshal env cfg = Inr text \<and> w (config_path (ce_cfgDir env)) = Some text)"

abbreviation new_bundle :: "cred_env \<Rightarrow> int \<Rightarrow> Config \<Rightarrow> CredentialRotation \<Rightarrow> named \<Rightarrow> bool" where
  "new_bundle env now old rot \<equiv> valid_bundle (ce_x509 env) now (cf_CertDir old) (ro_RequestId rot) (cf_ServerID old)"

definition final_config :: "cred_env \<Rightarrow> int \<Rightarrow> Config \<Rightarrow> Config" where
  "final_config env now pend = committed now (with_endpoint env pend)"

text \<open>The three states, by what the configuration file holds: old, pending, or committed.\<close>

definition others_kept :: "cred_env \<Rightarrow> Config \<Rightarrow> CredentialRotation \<Rightarrow> named \<Rightarrow> named \<Rightarrow> bool" where
  "others_kept env old rot v w \<longleftrightarrow> (\<forall>p. p \<noteq> config_path (ce_cfgDir env) \<longrightarrow> p \<noteq> cf_CertDir old @ [currentFile] \<longrightarrow>
     \<not> below (bundlePath (cf_CertDir old) (ro_RequestId rot)) p \<longrightarrow> w p = v p)"

definition pointer_ok :: "cred_env \<Rightarrow> int \<Rightarrow> Config \<Rightarrow> CredentialRotation \<Rightarrow> named \<Rightarrow> named \<Rightarrow> bool" where
  "pointer_ok env now old rot v w \<longleftrightarrow> (let dir = cf_CertDir old in
     pointer_of dir w = pointer_of dir v \<or> pointer_of dir w = Some (ro_RequestId rot) \<and> new_bundle env now old rot w)"

definition cutover_state :: "cred_env \<Rightarrow> int \<Rightarrow> Config \<Rightarrow> CredentialRotation \<Rightarrow> named \<Rightarrow> named \<Rightarrow> bool" where
  "cutover_state env now old rot v w \<longleftrightarrow>
     (let dir = cf_CertDir old; pend = pending_config old rot (pointer_of dir v) in
      others_kept env old rot v w \<and> pointer_ok env now old rot v w \<and>
      (holds_config env w old \<or>
       holds_config env w pend \<and> new_bundle env now old rot w \<or>
       holds_config env w (final_config env now pend) \<and> new_bundle env now old rot w \<and> pointer_of dir w = Some (ro_RequestId rot)))"

definition cutover_result :: "cred_env \<Rightarrow> int \<Rightarrow> Config \<Rightarrow> CredentialRotation \<Rightarrow> named \<Rightarrow> Config \<times> go_error option \<Rightarrow> named \<Rightarrow> bool" where
  "cutover_result env now old rot v r w \<longleftrightarrow>
     (let dir = cf_CertDir old; pend = pending_config old rot (pointer_of dir v) in
      cutover_state env now old rot v w \<and> holds_config env w (fst r) \<and>
      (if snd r = None then fst r = final_config env now pend \<and> pointer_of dir w = Some (ro_RequestId rot) \<and> new_bundle env now old rot w
       else fst r = old \<or> fst r = pend \<and> new_bundle env now old rot w))"

text \<open>
  Before the rotation: the file holds the configuration in memory, the bundle to come is not the
  active one, and the configuration file is not inside it.
\<close>

definition rotation_setup :: "cred_env \<Rightarrow> Config \<Rightarrow> CredentialRotation \<Rightarrow> named \<Rightarrow> bool" where
  "rotation_setup env old rot v \<longleftrightarrow> holds_config env v old \<and>
     pointer_of (cf_CertDir old) v \<noteq> Some (ro_RequestId rot) \<and>
     \<not> below (bundlePath (cf_CertDir old) (ro_RequestId rot)) (config_path (ce_cfgDir env))"

subsection \<open>What each write leaves alone\<close>

lemma config_path_simps [simp]: "\<not> is_temp (config_path dir)" "config_path dir \<noteq> dir' @ [currentFile]" "dir' @ [currentFile] \<noteq> config_path dir"
  by (simp_all add: config_path_def is_temp_def currentFile_def)

lemma pointer_of_other: "p \<noteq> dir @ [currentFile] \<Longrightarrow> pointer_of dir (v(p := c)) = pointer_of dir v"
  by (simp add: pointer_of_def)

lemma valid_bundle_other: "\<not> below (bundlePath dir b) p \<Longrightarrow> valid_bundle x now dir b sid (v(p := c)) = valid_bundle x now dir b sid v"
  by (auto simp: valid_bundle_def)

lemma holds_config_other: "p \<noteq> config_path (ce_cfgDir env) \<Longrightarrow> holds_config env (v(p := c)) cfg = holds_config env v cfg"
  by (simp add: holds_config_def)

lemma holds_config_written: "ce_yaml_Marshal env cfg = Inr text \<Longrightarrow> holds_config env (v(config_path (ce_cfgDir env) \<mapsto> text)) cfg"
  by (simp add: holds_config_def)

lemma pointer_of_pattern: "pointer_of dir v = Some b \<Longrightarrow> bundleIDPattern b"
  by (auto simp: pointer_of_def Let_def split: option.splits if_splits)

lemma pointer_of_rolled_back: "pointer_of dir (rolled_back dir (activation_of (pointer_of dir v)) w) = pointer_of dir v"
proof (cases "pointer_of dir v")
  case None
  then show ?thesis by (simp add: activation_of_def rolled_back_def pointer_of_def)
next
  case (Some b)
  then show ?thesis using pointer_of_update [OF pointer_of_pattern [OF Some]]
    by (simp add: activation_of_def rolled_back_def)
qed

lemma rolled_back_other: "p \<noteq> dir @ [currentFile] \<Longrightarrow> rolled_back dir a v p = v p"
  by (simp add: rolled_back_def)

lemmas frame_simps = pointer_of_other valid_bundle_other holds_config_other holds_config_written

lemma copyCredentialFields_simps [simp]:
  "copyCredentialFields old (pending_config old rot p) = pending_config old rot p"
  "copyCredentialFields (pending_config old rot p) old = old"
  "copyCredentialFields (pending_config old rot p) (final_config env now (pending_config old rot p)) = final_config env now (pending_config old rot p)"
  "copyCredentialFields cfg (committed now cfg) = committed now cfg"
  "copyCredentialFields cfg cfg = cfg"
  by (simp_all add: copyCredentialFields_def pending_config_def committed_def with_endpoint_def
      clearPendingCredentialFields_def final_config_def)

lemma runs_saveCredentialConfig:
  assumes "I v" "\<And>text. ce_yaml_Marshal env cfg = Inr text \<Longrightarrow> I (v(config_path (ce_cfgDir env) \<mapsto> text))"
    and "\<And>err. Q (mem, Some err) v"
    and "\<And>text. ce_yaml_Marshal env cfg = Inr text \<Longrightarrow>
      Q (copyCredentialFields mem cfg, None) (v(config_path (ce_cfgDir env) \<mapsto> text))"
  shows "runs_reliably I v (saveCredentialConfig env mem cfg) Q"
proof -
  have "runs_reliably I v (SaveConfig env (ce_cfgDir env) cfg)
      (\<lambda>r w. Q (case r of Some e \<Rightarrow> (mem, Some e) | None \<Rightarrow> (copyCredentialFields mem cfg, None)) w)"
    unfolding SaveConfig_def
    by (intro runs_mkdir_then runs_if runs_return)
      (use assms in \<open>auto split: sum.split intro!: runs_return runs_write\<close>)
  then show ?thesis unfolding saveCredentialConfig_def by (rule runs_bind) (rule runs_return)
qed

lemma runs_saveCredentialConfig_then:
  assumes "I v" "\<And>text. ce_yaml_Marshal env cfg = Inr text \<Longrightarrow> I (v(config_path (ce_cfgDir env) \<mapsto> text))"
    and "\<And>err. runs_reliably I v (f (mem, Some err)) Q"
    and "\<And>text. ce_yaml_Marshal env cfg = Inr text \<Longrightarrow>
      runs_reliably I (v(config_path (ce_cfgDir env) \<mapsto> text)) (f (copyCredentialFields mem cfg, None)) Q"
  shows "runs_reliably I v (State_Monad.bind (saveCredentialConfig env mem cfg) f) Q"
  by (rule runs_bind [OF runs_saveCredentialConfig [where Q = "\<lambda>r w. runs_reliably I w (f r) Q"]]) (use assms in auto)

lemma others_kept_simps:
  "others_kept env old rot v v"
  "others_kept env old rot v w \<Longrightarrow> others_kept env old rot v (w(config_path (ce_cfgDir env) := c))"
  "others_kept env old rot v w \<Longrightarrow> others_kept env old rot v (w(cf_CertDir old @ [currentFile] := c))"
  "others_kept env old rot v w \<Longrightarrow> outside (bundlePath (cf_CertDir old) (ro_RequestId rot)) w w' \<Longrightarrow> others_kept env old rot v w'"
  by (auto simp: others_kept_def outside_def)

lemma others_kept_rolled_back:
  "others_kept env old rot v w \<Longrightarrow> others_kept env old rot v (rolled_back (cf_CertDir old) a w)"
  by (auto simp: rolled_back_def intro: others_kept_simps)

lemma holds_config_outside:
  "outside b w w' \<Longrightarrow> \<not> below b (config_path (ce_cfgDir env)) \<Longrightarrow> holds_config env w cfg \<Longrightarrow> holds_config env w' cfg"
  by (simp add: holds_config_def outsideD)

lemma valid_bundle_rolled_back: "valid_bundle x now dir b sid (rolled_back dir a w) = valid_bundle x now dir b sid w"
  by (simp add: rolled_back_def valid_bundle_other)

text \<open>A disk with the old configuration stays one while the new bundle is discarded.\<close>

definition is_old :: "cred_env \<Rightarrow> int \<Rightarrow> Config \<Rightarrow> CredentialRotation \<Rightarrow> named \<Rightarrow> named \<Rightarrow> bool" where
  "is_old env now old rot v w \<longleftrightarrow> others_kept env old rot v w \<and> pointer_ok env now old rot v w \<and> holds_config env w old"

lemma is_old_state: "is_old env now old rot v w \<Longrightarrow> cutover_state env now old rot v w"
  by (simp add: is_old_def cutover_state_def Let_def)

lemma is_old_result: "is_old env now old rot v w \<Longrightarrow> cutover_result env now old rot v (old, Some err) w"
  by (simp add: cutover_result_def is_old_state Let_def) (simp add: is_old_def)

lemma is_old_outside:
  assumes "rotation_setup env old rot v" "is_old env now old rot v w"
    and "outside (bundlePath (cf_CertDir old) (ro_RequestId rot)) w w'" "pointer_of (cf_CertDir old) w = Some (ro_RequestId rot) \<Longrightarrow> w' = w"
  shows "is_old env now old rot v w'"
proof (cases "pointer_of (cf_CertDir old) w = Some (ro_RequestId rot)")
  case True
  with assms show ?thesis by simp
next
  case False
  with assms pointer_of_outside [OF assms(3)] show ?thesis
    by (auto simp: is_old_def pointer_ok_def rotation_setup_def Let_def intro: others_kept_simps holds_config_outside)
qed

lemma discard_from_old:
  assumes "rotation_setup env old rot v" "is_old env now old rot v w"
  shows "runs_reliably (cutover_state env now old rot v) w
    (do { x \<leftarrow> DiscardRotation (cf_CertDir old) (ro_RequestId rot); State_Monad.return (old, Some err) })
    (cutover_result env now old rot v)"
  by (rule runs_bind [OF runs_DiscardRotation [where Q = "\<lambda>_. is_old env now old rot v"]])
    (use assms in \<open>auto intro: is_old_outside is_old_state is_old_result runs_return\<close>)

text \<open>A disk with pending tokens, from which the rotation is undone or committed.\<close>

definition is_pending :: "cred_env \<Rightarrow> int \<Rightarrow> Config \<Rightarrow> CredentialRotation \<Rightarrow> named \<Rightarrow> named \<Rightarrow> bool" where
  "is_pending env now old rot v w \<longleftrightarrow> others_kept env old rot v w \<and> pointer_ok env now old rot v w \<and>
     holds_config env w (pending_config old rot (pointer_of (cf_CertDir old) v)) \<and> new_bundle env now old rot w"

lemma is_pending_state: "is_pending env now old rot v w \<Longrightarrow> cutover_state env now old rot v w"
  by (simp add: is_pending_def cutover_state_def Let_def)

lemma is_pending_result:
  "is_pending env now old rot v w \<Longrightarrow>
   cutover_result env now old rot v (pending_config old rot (pointer_of (cf_CertDir old) v), Some err) w"
  by (simp add: cutover_result_def is_pending_state Let_def) (simp add: is_pending_def)

lemma pending_undone:
  assumes "rotation_setup env old rot v" "is_pending env now old rot v w" "ce_yaml_Marshal env old = Inr text"
  shows "is_old env now old rot v (w(config_path (ce_cfgDir env) \<mapsto> text))"
  using assms by (auto simp: is_old_def is_pending_def pointer_ok_def rotation_setup_def Let_def frame_simps intro: others_kept_simps)

lemma pending_switched:
  assumes "is_pending env now old rot v w" "bundleIDPattern (ro_RequestId rot)"
  shows "is_pending env now old rot v (w(cf_CertDir old @ [currentFile] \<mapsto> ro_RequestId rot @ [CHR 0x0A]))"
  using assms by (auto simp: is_pending_def pointer_ok_def Let_def frame_simps pointer_of_update intro: others_kept_simps)

lemma pending_rolled_back:
  assumes "is_pending env now old rot v w"
  shows "is_pending env now old rot v (rolled_back (cf_CertDir old) (activation_of (pointer_of (cf_CertDir old) v)) w)"
  using assms by (auto simp: is_pending_def pointer_ok_def Let_def pointer_of_rolled_back valid_bundle_rolled_back
      others_kept_rolled_back holds_config_def rolled_back_other)

lemma pending_committed:
  assumes "rotation_setup env old rot v" "is_pending env now old rot v w" "pointer_of (cf_CertDir old) w = Some (ro_RequestId rot)"
    and "ce_yaml_Marshal env (final_config env now (pending_config old rot (pointer_of (cf_CertDir old) v))) = Inr text"
  shows "cutover_result env now old rot v
    (final_config env now (pending_config old rot (pointer_of (cf_CertDir old) v)), None) (w(config_path (ce_cfgDir env) \<mapsto> text))"
  using assms by (auto simp: cutover_result_def cutover_state_def is_pending_def pointer_ok_def rotation_setup_def Let_def
      frame_simps intro: others_kept_simps)

lemma undo_from_pending:
  assumes "rotation_setup env old rot v" "is_pending env now old rot v w"
  shows "runs_reliably (cutover_state env now old rot v) w
    (do { restored \<leftarrow> saveCredentialConfig env (pending_config old rot (pointer_of (cf_CertDir old) v)) old;
          (case restored of
             (mem, None) \<Rightarrow> do { x \<leftarrow> DiscardRotation (cf_CertDir old) (ro_RequestId rot); State_Monad.return (mem, Some e1) }
           | (mem, Some err) \<Rightarrow> State_Monad.return (mem, Some (e2 err))) })
    (cutover_result env now old rot v)"
  by (rule runs_saveCredentialConfig_then)
    (use assms in \<open>auto intro: is_pending_state is_old_state pending_undone runs_return is_pending_result discard_from_old\<close>)

lemma commit_from_pending:
  assumes start: "rotation_setup env old rot v" and w: "is_pending env now old rot v w"
    and active: "pointer_of (cf_CertDir old) w = Some (ro_RequestId rot)"
  defines "pend \<equiv> pending_config old rot (pointer_of (cf_CertDir old) v)"
  shows "runs_reliably (cutover_state env now old rot v) w
    (commit_rotation env now old pend pend (ro_RequestId rot) (activation_of (pointer_of (cf_CertDir old) v)))
    (cutover_result env now old rot v)"
proof -
  let ?I = "cutover_state env now old rot v" and ?Q = "cutover_result env now old rot v"
  let ?undo = "\<lambda>pointerErr err. do { restored \<leftarrow> saveCredentialConfig env pend old;
          (case restored of
             (mem'', None) \<Rightarrow> do {
               _ \<leftarrow> DiscardRotation (cf_CertDir old) (ro_RequestId rot);
               State_Monad.return (mem'', Some (''committing credential metadata: '' @ err @
                 (if pointerErr = None then []
                  else '' (pointer rollback: '' @ show_error pointerErr @ '', config rollback: <nil>)''))) }
           | (mem'', Some configErr) \<Rightarrow>
               State_Monad.return (mem'', Some (''committing credential metadata: '' @ err @
                 '' (pointer rollback: '' @ show_error pointerErr @ '', config rollback: '' @ configErr @ '')''))) }"
  have undo: "runs_reliably ?I w' (?undo pe err) ?Q" if "is_pending env now old rot v w'" for w' pe err
    unfolding pend_def by (rule undo_from_pending [OF start that])
  have rolled: "runs_reliably ?I w (do { pe \<leftarrow> Rollback (cf_CertDir old) (activation_of (pointer_of (cf_CertDir old) v)); ?undo pe err }) ?Q" for err
  proof (rule runs_bind)
    show "runs_reliably ?I w (Rollback (cf_CertDir old) (activation_of (pointer_of (cf_CertDir old) v))) (\<lambda>_. is_pending env now old rot v)"
      by (rule runs_Rollback) (use w in \<open>auto intro: is_pending_state pending_rolled_back\<close>)
  qed (rule undo)
  have fin: "?Q (final_config env now pend, None) (w(config_path (ce_cfgDir env) \<mapsto> y))"
    if "ce_yaml_Marshal env (final_config env now pend) = Inr y" for y
    using pending_committed [OF start w active] that unfolding pend_def by blast
  have copy: "copyCredentialFields pend (final_config env now pend) = final_config env now pend"
    by (simp add: pend_def)
  show ?thesis
    unfolding commit_rotation_def final_config_def [symmetric]
  proof (rule runs_saveCredentialConfig_then)
    show "?I w" using w by (rule is_pending_state)
    show "?I (w(config_path (ce_cfgDir env) \<mapsto> y))" if "ce_yaml_Marshal env (final_config env now pend) = Inr y" for y
      using fin [OF that] by (simp add: cutover_result_def Let_def)
  qed (simp_all only: prod.case option.case copy rolled runs_return fin)
qed

text \<open>
  C5. Applying a credential rotation is crash-safe as long as renames, reads and stats work
  (\<open>runs_reliably\<close>): whatever other operations fail and at whatever moment the agent is killed, the configuration file holds the old, the pending or the committed configuration, the
  pointer names the bundle it named before or the new one, and the new bundle was validated
  against the local key before either refers to it; at the end the configuration in memory is the
  one in the file, committed with the new bundle active exactly when no error is returned.
\<close>

theorem rotation_crash_safe:
  assumes "rotation_setup env old rot v"
  shows "runs_reliably (cutover_state env now old rot v) v (applyCredentialRotation env now rot old)
    (cutover_result env now old rot v)"
proof -
  let ?I = "cutover_state env now old rot v" and ?Q = "cutover_result env now old rot v"
  let ?dir = "cf_CertDir old" and ?r = "ro_RequestId rot"
  let ?pend = "pending_config old rot (pointer_of ?dir v)"
  have old: "is_old env now old rot v w" if "outside (bundlePath ?dir ?r) v w" for w
    using assms that pointer_of_outside [OF that]
    by (auto simp: is_old_def rotation_setup_def pointer_ok_def Let_def intro: others_kept_simps holds_config_outside)
  have pend: "is_pending env now old rot v (w(config_path (ce_cfgDir env) \<mapsto> y))"
    if "outside (bundlePath ?dir ?r) v w" "new_bundle env now old rot w" "ce_yaml_Marshal env ?pend = Inr y" for w y
    using assms that pointer_of_outside [OF that(1)]
    by (auto simp: is_pending_def rotation_setup_def pointer_ok_def Let_def frame_simps intro: others_kept_simps)
  have activate: "runs_reliably ?I w (do {
        activated \<leftarrow> ActivateRotation ?dir ?r;
        (case activated of
           Inr activation \<Rightarrow> commit_rotation env now old ?pend ?pend ?r activation
         | Inl err \<Rightarrow> do {
             restored \<leftarrow> saveCredentialConfig env ?pend old;
             (case restored of
                (mem', None) \<Rightarrow> do { _ \<leftarrow> DiscardRotation ?dir ?r; State_Monad.return (mem', Some err) }
              | (mem', Some rollbackErr) \<Rightarrow>
                  State_Monad.return (mem', Some (''activating credential bundle: '' @ err @ '' (config rollback failed: '' @ rollbackErr @ '')''))) }) }) ?Q"
    if w: "is_pending env now old rot v w" and p: "pointer_of ?dir w = pointer_of ?dir v" for w
    by (rule runs_bind [OF runs_ActivateRotation [where Q = "\<lambda>a w'. is_pending env now old rot v w' \<and>
          (\<forall>act. a = Inr act \<longrightarrow> act = activation_of (pointer_of ?dir v) \<and> pointer_of ?dir w' = Some ?r)"]])
      (use w p assms in \<open>auto split: sum.split intro: is_pending_state pending_switched pointer_of_update
        undo_from_pending commit_from_pending\<close>)
  show ?thesis unfolding applyCredentialRotation_def
  proof (rule runs_option)
    show "runs_reliably ?I v (State_Monad.return (old, Some err)) ?Q" for err
      by (rule runs_return) (rule is_old_result [OF old], simp)
    show "runs_reliably ?I v (do {
          staged \<leftarrow> StageRotation (ce_x509 env) now ?dir ?r (cf_ServerID old) (ro_ClientCert rot) (ro_CaCert rot);
          (case staged of
             Some err \<Rightarrow> State_Monad.return (old, Some err)
           | None \<Rightarrow> do {
               pointer \<leftarrow> readPointer ?dir;
               let pend = pending_config old rot pointer;
               saved \<leftarrow> saveCredentialConfig env old pend;
               (case saved of
                  (mem, Some err) \<Rightarrow> do {
                    _ \<leftarrow> DiscardRotation ?dir ?r;
                    State_Monad.return (mem, Some (''persisting pending credential metadata: '' @ err)) }
                | (mem, None) \<Rightarrow> do {
                    activated \<leftarrow> ActivateRotation ?dir ?r;
                    (case activated of
                       Inr activation \<Rightarrow> commit_rotation env now old pend mem ?r activation
                     | Inl err \<Rightarrow> do {
                         restored \<leftarrow> saveCredentialConfig env mem old;
                         (case restored of
                            (mem', None) \<Rightarrow> do {
                              _ \<leftarrow> DiscardRotation ?dir ?r;
                              State_Monad.return (mem', Some err) }
                          | (mem', Some rollbackErr) \<Rightarrow>
                              State_Monad.return (mem', Some (''activating credential bundle: '' @ err @
                                '' (config rollback failed: '' @ rollbackErr @ '')''))) }) }) }) }) ?Q"
    proof (rule runs_bind [OF runs_StageRotation [where v = v and Q = "\<lambda>e w. outside (bundlePath ?dir ?r) v w \<and>
          (e = None \<longrightarrow> new_bundle env now old rot w)"]], goal_cases)
      case (4 e w)
      then have p: "pointer_of ?dir w = pointer_of ?dir v" by (blast intro: pointer_of_outside)
      show ?case
      proof (rule runs_option)
        show "runs_reliably ?I w (State_Monad.return (old, Some err)) ?Q" for err
          by (rule runs_return) (use 4 in \<open>blast intro: is_old_result old\<close>)
        assume none: "e = None"
        have I: "?I w" "is_old env now old rot v w" using 4 by (auto intro: is_old_state old)
        have new: "is_pending env now old rot v (w(config_path (ce_cfgDir env) \<mapsto> y))"
          if "ce_yaml_Marshal env ?pend = Inr y" for y
          using 4 none that by (blast intro: pend)
        note steps = I(1) is_pending_state [OF new] discard_from_old [OF assms I(2)] activate [OF new]
        show "runs_reliably ?I w (do {
               pointer \<leftarrow> readPointer ?dir;
               let pend = pending_config old rot pointer;
               saved \<leftarrow> saveCredentialConfig env old pend;
               (case saved of
                  (mem, Some err) \<Rightarrow> do {
                    _ \<leftarrow> DiscardRotation ?dir ?r;
                    State_Monad.return (mem, Some (''persisting pending credential metadata: '' @ err)) }
                | (mem, None) \<Rightarrow> do {
                    activated \<leftarrow> ActivateRotation ?dir ?r;
                    (case activated of
                       Inr activation \<Rightarrow> commit_rotation env now old pend mem ?r activation
                     | Inl err \<Rightarrow> do {
                         restored \<leftarrow> saveCredentialConfig env mem old;
                         (case restored of
                            (mem', None) \<Rightarrow> do {
                              _ \<leftarrow> DiscardRotation ?dir ?r;
                              State_Monad.return (mem', Some err) }
                          | (mem', Some rollbackErr) \<Rightarrow>
                              State_Monad.return (mem', Some (''activating credential bundle: '' @ err @
                                '' (config rollback failed: '' @ rollbackErr @ '')''))) }) }) }) ?Q"
          unfolding Let_def
          by (rule runs_readPointer_then, rule I(1), unfold p, rule runs_saveCredentialConfig_then)
            (simp_all only: prod.case option.case copyCredentialFields_simps steps pointer_of_other [OF config_path_simps(2)] p)
      qed
    qed (auto intro: is_old_state old)
  qed
qed

subsection \<open>After a restart\<close>

text \<open>
  The state of the disk decides what a restart does: a pending configuration is completed, an old
  or a committed one is left alone.
\<close>

lemma pending_resumed:
  assumes "pend = pending_config old rot (pointer_of (cf_CertDir old) v)" "holds_config env w pend" "new_bundle env now old rot w"
    and "rotation_rejected env now old rot = None" "bundleIDPattern (ro_RequestId rot)"
    and "ce_yaml_Marshal env (committed later pend) = Inr y"
  shows "\<exists>w'. delivers w (resumePendingCredentialCutover env later pend) (committed later pend, None) w' \<and>
    holds_config env w' (committed later pend) \<and> pointer_of (cf_CertDir old) w' = Some (ro_RequestId rot)"
proof -
  let ?dir = "cf_CertDir old" and ?r = "ro_RequestId rot"
  let ?w1 = "w(?dir @ [currentFile] \<mapsto> ?r @ [CHR 0x0A])" and ?cp = "config_path (ce_cfgDir env)"
  from assms(4) have req: "cf_PendingRotationID old = ?r" "?r \<noteq> []" "ro_RenewalToken rot \<noteq> []" "ro_ExpiresUnix rot \<noteq> 0"
    by (auto simp: rotation_rejected_def split: if_splits)
  then have p: "cf_PendingRotationID pend = ?r" "cf_PendingRenewalToken pend \<noteq> []" "cf_PendingExpiresUnix pend \<noteq> 0"
    "cf_CertDir pend = ?dir"
    by (simp_all add: assms(1) pending_config_def)
  have activate: "delivers w (ActivateRotation ?dir ?r) (Inr (activation_of (pointer_of ?dir w))) ?w1"
    by (rule delivers_ActivateRotation [OF assms(5) valid_complete [OF assms(3)]])
  have save: "delivers ?w1 (saveCredentialConfig env pend (committed later pend)) (committed later pend, None) (?w1(?cp \<mapsto> y))"
    unfolding saveCredentialConfig_def
  proof (rule delivers_bind)
    show "delivers ?w1 (SaveConfig env (ce_cfgDir env) (committed later pend)) None (?w1(?cp \<mapsto> y))"
      unfolding SaveConfig_def by (rule delivers_bind [OF delivers_mkdir]) (simp add: assms(6) delivers_write)
    show "delivers (?w1(?cp \<mapsto> y)) (State_Monad.return (case None of Some e \<Rightarrow> (pend, Some e)
        | None \<Rightarrow> (copyCredentialFields pend (committed later pend), None))) (committed later pend, None) (?w1(?cp \<mapsto> y))"
      by (simp add: delivers_return)
  qed
  have "delivers w (resumePendingCredentialCutover env later pend) (committed later pend, None) (?w1(?cp \<mapsto> y))"
    unfolding resumePendingCredentialCutover_def
    by (simp add: req(2) p, rule delivers_bind [OF activate], simp, rule delivers_bind [OF save])
      (simp add: delivers_return)
  moreover have "holds_config env (?w1(?cp \<mapsto> y)) (committed later pend)" by (simp add: holds_config_written assms(6))
  moreover have "pointer_of ?dir (?w1(?cp \<mapsto> y)) = Some ?r"
    by (simp add: pointer_of_other pointer_of_update assms(5))
  ultimately show ?thesis by blast
qed


lemma not_pending_resumed:
  "cf_PendingRenewalToken cfg = [] \<Longrightarrow> delivers w (resumePendingCredentialCutover env later cfg) (cfg, None) w"
  by (simp add: resumePendingCredentialCutover_def delivers_return)

lemma final_config_not_pending: "cf_PendingRenewalToken (final_config env now pend) = []"
  by (simp add: final_config_def committed_def clearPendingCredentialFields_def)

text \<open>
  C6. Every crash in a rotation is repaired by a restart.  From each of the three states a crash can
  leave, when the rotation was not rejected and none was pending before it, an agent that starts
  with the configuration the file holds ends without an error on a working file system: with the
  old configuration it changes nothing, and the request can be made again; with the pending one it
  commits, with the new bundle active; with the committed one it has nothing left to do.
\<close>

theorem restart_completes_rotation:
  fixes env :: cred_env
  assumes "cutover_state env now old rot v w"
    and "rotation_rejected env now old rot = None" "bundleIDPattern (ro_RequestId rot)" "cf_PendingRenewalToken old = []"
    and "pend = pending_config old rot (pointer_of (cf_CertDir old) v)" "ce_yaml_Marshal env (committed later pend) = Inr y"
  shows "holds_config env w old \<and> delivers w (resumePendingCredentialCutover env later old) (old, None) w
    \<or> holds_config env w pend \<and>
      (\<exists>w'. delivers w (resumePendingCredentialCutover env later pend) (committed later pend, None) w' \<and>
        holds_config env w' (committed later pend) \<and> pointer_of (cf_CertDir old) w' = Some (ro_RequestId rot))
    \<or> holds_config env w (final_config env now pend) \<and> pointer_of (cf_CertDir old) w = Some (ro_RequestId rot) \<and>
      delivers w (resumePendingCredentialCutover env later (final_config env now pend)) (final_config env now pend, None) w"
proof -
  have "holds_config env w old \<or> holds_config env w pend \<and> new_bundle env now old rot w \<or>
      holds_config env w (final_config env now pend) \<and> pointer_of (cf_CertDir old) w = Some (ro_RequestId rot)"
    using assms(1) by (auto simp: cutover_state_def Let_def assms(5))
  with not_pending_resumed [OF assms(4)] not_pending_resumed [OF final_config_not_pending]
    pending_resumed [OF assms(5) _ _ assms(2,3,6)] show ?thesis by blast
qed

subsection \<open>Concrete rotations\<close>

definition sample_x509 :: x509 where
  "sample_x509 = \<lparr>x_X509KeyPair = \<lambda>cert key. if key = ''key'' then Inr [cert] else Inl ''private key does not match public key'',
     x_ParseCertificate = \<lambda>der. Inr \<lparr>lf_NotAfter = 90000000000000000, lf_URIs = [''clank://server/s1'']\<rparr>,
     x_AppendCertsFromPEM = \<lambda>ca. True, x_Verify = \<lambda>cert ca. None,
     x_GenerateKey = Inr ''another key'', x_CreateRequest = \<lambda>key sid. Inr ''csr''\<rparr>"

definition sample_cred_env :: cred_env where
  "sample_cred_env = \<lparr>ce_x509 = sample_x509,
     ce_yaml_Marshal = \<lambda>c. Inr (cf_RenewalToken c @ ''/'' @ cf_PendingRenewalToken c),
     ce_jwt_payload = \<lambda>t. Inl ''no token'', ce_cert_NotAfter = \<lambda>pem. Inl ''no certificate'',
     ce_split_host = \<lambda>a. a, ce_cfgDir = [''etc'']\<rparr>"

definition sample_config :: Config where
  "sample_config = \<lparr>cf_ServerID = ''s1'', cf_GRPCEndpoint = ''grpc.example'', cf_CertDir = [''etc''], cf_AuthMode = ''mtls'',
     cf_AuthToken = [], cf_RenewalToken = ''old'', cf_RenewalEndpoint = [], cf_CredentialExpiresUnix = 0, cf_AuthGeneration = 1,
     cf_RenewalStatus = ''pending'', cf_RenewalAttempts = 1, cf_RenewalLastError = [], cf_RenewalLastSuccessUnix = 0,
     cf_RenewalNextRetryUnix = 0, cf_PendingRotationID = ''rotation-1'', cf_PendingAuthToken = [], cf_PendingRenewalToken = [],
     cf_PendingExpiresUnix = 0, cf_PendingAuthGeneration = 0, cf_PendingPreviousBundle = [], cf_PendingHadPointer = False,
     cf_TunnelToken = [], cf_TunnelID = [], cf_RegistryURL = [], cf_RegistryUsername = [], cf_RegistryPassword = [],
     cf_MaxConcurrentBuilds = 0\<rparr>"

definition sample_rotation :: CredentialRotation where
  "sample_rotation = \<lparr>ro_RequestId = ''rotation-1'', ro_ErrorCode = [], ro_ClientCert = ''cert'', ro_CaCert = ''ca'',
     ro_AuthToken = [], ro_RenewalToken = ''new'', ro_ExpiresUnix = 90000000, ro_AuthGeneration = 2\<rparr>"

definition sample_disk :: disk where
  "sample_disk = [([''etc'', ''config.yaml''], ''old/''),
     ([''etc'', ''credential-bundles'', ''rotation-1'', ''client.key''], ''key''),
     ([''etc'', ''credential-bundles'', ''rotation-1'', ''rotation.csr''], ''csr'')]"

lemmas sample_defs = sample_cred_env_def sample_x509_def sample_config_def sample_rotation_def sample_disk_def

lemma sample_setup: "rotation_setup sample_cred_env sample_config sample_rotation (view sample_disk)"
  by (simp add: rotation_setup_def holds_config_def pointer_of_def view_def is_temp_def below_def bundlePath_def
      config_path_def file_names sample_defs)

lemma rotation_crash_safe_witness:
  "rotation_setup sample_cred_env sample_config sample_rotation (view sample_disk) \<and>
   runs_reliably (cutover_state sample_cred_env 0 sample_config sample_rotation (view sample_disk)) (view sample_disk)
     (applyCredentialRotation sample_cred_env 0 sample_rotation sample_config)
     (cutover_result sample_cred_env 0 sample_config sample_rotation (view sample_disk))"
  using sample_setup rotation_crash_safe [OF sample_setup] by blast

text \<open>A disk as a crash after the pending configuration was written leaves it.\<close>

definition crashed_disk :: disk where
  "crashed_disk = [([''etc'', ''config.yaml''], ''old/new''),
     ([''etc'', ''credential-bundles'', ''rotation-1'', ''client.key''], ''key''),
     ([''etc'', ''credential-bundles'', ''rotation-1'', ''client.crt''], ''cert''),
     ([''etc'', ''credential-bundles'', ''rotation-1'', ''ca.crt''], ''ca''),
     ([''etc'', ''credential-bundles'', ''rotation-1'', ''rotation.csr''], ''csr'')]"

lemma restart_completes_rotation_witness:
  "let pend = pending_config sample_config sample_rotation None in
   \<exists>w'. delivers (view crashed_disk) (resumePendingCredentialCutover sample_cred_env 5 pend) (committed 5 pend, None) w' \<and>
    holds_config sample_cred_env w' (committed 5 pend) \<and> pointer_of [''etc''] w' = Some ''rotation-1''"
proof -
  let ?pend = "pending_config sample_config sample_rotation (pointer_of (cf_CertDir sample_config) (view sample_disk))"
  have none: "pointer_of (cf_CertDir sample_config) (view sample_disk) = None"
    by (simp add: pointer_of_def view_def is_temp_def file_names sample_defs)
  have new: "new_bundle sample_cred_env 0 sample_config sample_rotation (view crashed_disk)"
    by (simp add: valid_bundle_def validateBundle_def view_def is_temp_def bundlePath_def file_names crashed_disk_def sample_defs)
  have holds: "holds_config sample_cred_env (view crashed_disk) ?pend"
    by (simp add: holds_config_def view_def is_temp_def config_path_def crashed_disk_def pending_config_def sample_defs)
  have "others_kept sample_cred_env sample_config sample_rotation (view sample_disk) (view crashed_disk)"
    by (auto simp: others_kept_def view_def below_def bundlePath_def config_path_def file_names crashed_disk_def sample_defs)
  moreover have "pointer_of (cf_CertDir sample_config) (view crashed_disk) = None"
    by (simp add: pointer_of_def view_def is_temp_def file_names crashed_disk_def sample_defs)
  ultimately have "cutover_state sample_cred_env 0 sample_config sample_rotation (view sample_disk) (view crashed_disk)"
    using new holds by (simp add: cutover_state_def pointer_ok_def none)
  moreover have "rotation_rejected sample_cred_env 0 sample_config sample_rotation = None"
    by (simp add: rotation_rejected_def normalizedAuthMode_def sample_defs)
  moreover have "bundleIDPattern (ro_RequestId sample_rotation)"
    by (simp add: bundleIDPattern_def id_char_def sample_rotation_def)
  moreover have "ce_yaml_Marshal sample_cred_env (committed 5 ?pend) = Inr ''new/''"
    by (simp add: committed_def clearPendingCredentialFields_def pending_config_def sample_defs)
  moreover have "cf_PendingRenewalToken sample_config = []" by (simp add: sample_config_def)
  ultimately have "holds_config sample_cred_env (view crashed_disk) sample_config \<and> delivers (view crashed_disk)
        (resumePendingCredentialCutover sample_cred_env 5 sample_config) (sample_config, None) (view crashed_disk)
    \<or> holds_config sample_cred_env (view crashed_disk) ?pend \<and>
      (\<exists>w'. delivers (view crashed_disk) (resumePendingCredentialCutover sample_cred_env 5 ?pend) (committed 5 ?pend, None) w' \<and>
        holds_config sample_cred_env w' (committed 5 ?pend) \<and> pointer_of (cf_CertDir sample_config) w' = Some (ro_RequestId sample_rotation))
    \<or> holds_config sample_cred_env (view crashed_disk) (final_config sample_cred_env 0 ?pend) \<and>
      pointer_of (cf_CertDir sample_config) (view crashed_disk) = Some (ro_RequestId sample_rotation) \<and>
      delivers (view crashed_disk) (resumePendingCredentialCutover sample_cred_env 5 (final_config sample_cred_env 0 ?pend))
        (final_config sample_cred_env 0 ?pend, None) (view crashed_disk)"
    by (intro restart_completes_rotation [where now = 0 and v = "view sample_disk" and y = "''new/''"]) simp_all
  moreover have "\<not> holds_config sample_cred_env (view crashed_disk) sample_config"
    by (simp add: holds_config_def view_def is_temp_def config_path_def crashed_disk_def sample_defs)
  moreover have "pointer_of (cf_CertDir sample_config) (view crashed_disk) = None"
    by (simp add: pointer_of_def view_def is_temp_def file_names crashed_disk_def sample_defs)
  moreover have "cf_CertDir sample_config = [''etc'']" "ro_RequestId sample_rotation = ''rotation-1''"
    by (simp_all add: sample_defs)
  ultimately show ?thesis unfolding none Let_def by simp
qed

subsection \<open>Beyond a full disk\<close>

text \<open>
  Saving the configuration is not atomic when the rename fails: the fallback meant for Windows
  removes the file before it tries again, and the agent is left with no configuration at all.
\<close>

theorem failed_rename_loses_config:
  "map_of sample_disk (config_path [''etc'']) = Some ''old/'' \<and>
   (case run_state (SaveConfig sample_cred_env [''etc''] sample_config) (fs_with fails_rename sample_disk) of
      (err, s') \<Rightarrow> err = Some os_error \<and> map_of (fs_disk s') (config_path [''etc'']) = None)"
  by code_simp

fun config_unwritable :: "fs_op \<Rightarrow> bool" where
  "config_unwritable (CreateFile p) = HasPrefix (last p) ''.config-''"
| "config_unwritable _ = False"

text \<open>
  When the pending configuration cannot be saved, the key of the request is discarded but its
  identifier stays pending: the next request carries another key under the same identifier, so the
  certificate that an idempotent server returns for that identifier is refused from then on.
\<close>

theorem discarded_key_wedges_rotation:
  "case run_state (applyCredentialRotation sample_cred_env 0 sample_rotation sample_config) (fs_with config_unwritable sample_disk) of
     ((mem, err), s1) \<Rightarrow> err \<noteq> None \<and> cf_PendingRotationID mem = ro_RequestId sample_rotation \<and>
       map_of (fs_disk s1) [''etc'', ''credential-bundles'', ''rotation-1'', ''client.key''] = None \<and>
       (case run_state (beginCredentialRequest sample_cred_env 0 (Inr ''unused'') mem) (fs_with (\<lambda>x. False) (fs_disk s1)) of
          ((mem2, req), s2) \<Rightarrow> is_ok req \<and>
            (case run_state (applyCredentialRotation sample_cred_env 0 sample_rotation mem2) s2 of
               ((mem3, err3), s3) \<Rightarrow> err3 = Some ''credential certificate/key mismatch: private key does not match public key''))"
  by code_simp

end
