(* ===== verification/Channels.thy ===== *)
theory Channels
  imports Prelude "HOL-Library.Sublist" "HOL-Library.Multiset"
begin

text \<open>
  Buffered Go channels with non-blocking sends, as the log and the metrics collectors use them:
  \<^verbatim>\<open>select { case ch <- x: default: }\<close> puts \<^verbatim>\<open>x\<close> into the buffer or drops it.  Beside the
  buffer a channel records, for the proofs, what was offered to it, what was dropped and what was
  received from it.
\<close>

record 'a channel =
  ch_buffer :: "'a list"
  ch_offered :: "'a list"
  ch_lost :: "'a list"
  ch_taken :: "'a list"

definition empty_channel :: "'a channel" where
  "empty_channel = \<lparr>ch_buffer = [], ch_offered = [], ch_lost = [], ch_taken = []\<rparr>"

definition offer :: "nat \<Rightarrow> 'a \<Rightarrow> 'a channel \<Rightarrow> bool \<times> 'a channel" where
  "offer capacity x ch =
     (if length (ch_buffer ch) < capacity
      then (True, ch\<lparr>ch_buffer := ch_buffer ch @ [x], ch_offered := ch_offered ch @ [x]\<rparr>)
      else (False, ch\<lparr>ch_lost := ch_lost ch @ [x], ch_offered := ch_offered ch @ [x]\<rparr>))"

definition receive :: "'a channel \<Rightarrow> ('a \<times> 'a channel) option" where
  "receive ch = (case ch_buffer ch of
     [] \<Rightarrow> None
   | x # xs \<Rightarrow> Some (x, ch\<lparr>ch_buffer := xs, ch_taken := ch_taken ch @ [x]\<rparr>))"

text \<open>Bounded, nothing made up, nothing forgotten, nothing overtaken.\<close>

definition channel_ok :: "nat \<Rightarrow> 'a channel \<Rightarrow> bool" where
  "channel_ok capacity ch \<longleftrightarrow>
     length (ch_buffer ch) \<le> capacity \<and>
     mset (ch_offered ch) = mset (ch_taken ch) + mset (ch_buffer ch) + mset (ch_lost ch) \<and>
     subseq (ch_taken ch @ ch_buffer ch) (ch_offered ch)"

lemma channel_ok_empty [simp]: "channel_ok capacity empty_channel"
  by (simp add: channel_ok_def empty_channel_def)

lemma offer_ok:
  assumes "channel_ok capacity ch"
  shows "channel_ok capacity (snd (offer capacity x ch))"
proof -
  from assms have sub: "subseq (ch_taken ch @ ch_buffer ch) (ch_offered ch)" by (simp add: channel_ok_def)
  from list_emb_append_mono [OF sub, of "[x]" "[x]"]
  have "subseq (ch_taken ch @ ch_buffer ch @ [x]) (ch_offered ch @ [x])" by simp
  moreover from list_emb_append_mono [OF sub, of "[]" "[x]"]
  have "subseq (ch_taken ch @ ch_buffer ch) (ch_offered ch @ [x])" by simp
  ultimately show ?thesis using assms by (simp add: channel_ok_def offer_def)
qed

lemma receive_ok: "channel_ok capacity ch \<Longrightarrow> receive ch = Some (x, ch') \<Longrightarrow> channel_ok capacity ch'"
  by (auto simp: channel_ok_def receive_def split: list.splits)

lemma offer_room: "length (ch_buffer ch) < capacity \<Longrightarrow> ch_buffer (snd (offer capacity x ch)) = ch_buffer ch @ [x]"
  by (simp add: offer_def)

lemma offer_lost: "length (ch_lost (snd (offer capacity x ch))) = length (ch_lost ch) + (if fst (offer capacity x ch) then 0 else 1)"
  by (simp add: offer_def)

lemma receive_lost: "receive ch = Some (x, ch') \<Longrightarrow> ch_lost ch' = ch_lost ch"
  by (auto simp: receive_def split: list.splits)

end
