(* ===== verification/Log_Collector.thy ===== *)
theory Log_Collector
  imports Log_Frames Channels
begin

text \<open>
  The log collector (\<^verbatim>\<open>internal/logs/collector.go\<close>): one goroutine per running container
  follows its multiplexed log stream and puts the lines into a bounded channel, and a reconciliation
  every ten seconds starts and cancels these goroutines.  The collector is a state with the actions of
  all goroutines; a goroutine is a number.  A cancelled goroutine may still write the lines of the
  payload it has read, until it returns.
\<close>

definition channelSize :: nat where "channelSize = 4096"

record LogEntry =
  le_DeploymentId :: string
  le_ContainerId :: string
  le_Line :: string
  le_TimestampNs :: int
  le_Stream :: string

subsection \<open>Reading a stream\<close>

text \<open>
  \<^verbatim>\<open>bufio.Scanner\<close> over the lines of a payload: carriage returns at the end of a line are cut,
  and a line that does not fit into the buffer of 64 kilobytes ends the scan.
\<close>

definition drop_CR :: "string \<Rightarrow> string" where
  "drop_CR l = (if l \<noteq> [] \<and> last l = CHR 0x0D then butlast l else l)"

function scan_lines :: "string \<Rightarrow> string list" where
  "scan_lines s =
     (if s = [] then []
      else let l = takeWhile (\<lambda>c. c \<noteq> CHR 0x0A) s in
        if length l \<ge> 65536 then [] else drop_CR l # scan_lines (drop (Suc (length l)) s))"
  by pat_completeness auto
termination
  by (relation "measure length") (auto simp: Let_def)

declare scan_lines.simps [simp del]

text \<open>The non-empty lines of a stream with the name of the stream they came on, up to its end.\<close>

function tail_lines :: "string \<Rightarrow> (string \<times> string) list" where
  "tail_lines data =
     (if length data < 8 then []
      else let streamType = (if byte_at data 0 = 2 then ''stderr'' else ''stdout'');
               n = frame_size data; rest = drop 8 data in
        if n = 0 then tail_lines rest
        else if length rest < n then []
        else map (Pair streamType) (filter (\<lambda>line. line \<noteq> []) (scan_lines (take n rest))) @ tail_lines (drop n rest))"
  by pat_completeness auto
termination
  by (relation "measure length") (auto simp: Let_def)

declare tail_lines.simps [simp del]

text \<open>\<open>stamps i\<close> is the clock when line \<open>i\<close> is read.\<close>

definition tail_entries :: "ContainerInfo \<Rightarrow> (nat \<Rightarrow> int) \<Rightarrow> string \<Rightarrow> LogEntry list" where
  "tail_entries ci stamps data = map (\<lambda>(i, stream, line).
      \<lparr>le_DeploymentId = map_get (cn_Labels ci) ''clank.deployment_id'', le_ContainerId = cn_ContainerID ci,
       le_Line = line, le_TimestampNs = stamps i, le_Stream = stream\<rparr>) (enumerate 0 (tail_lines data))"

subsection \<open>The collector\<close>

record collector =
  co_outCh :: "LogEntry channel"
  co_dropped :: int
  co_tailers :: "(string \<times> nat) list"             \<comment> \<open>container and the goroutine whose cancel function is stored\<close>
  co_alive :: "(nat \<times> ContainerInfo) list"         \<comment> \<open>the goroutines that have not returned\<close>
  co_cancelled :: "nat list"
  co_next :: nat
  co_reported :: int                                   \<comment> \<open>ghost: the sum of the numbers logged as dropped\<close>
  co_crashed :: bool                                   \<comment> \<open>a goroutine panicked, which ends the agent\<close>

definition collector0 :: collector where
  "collector0 = \<lparr>co_outCh = empty_channel, co_dropped = 0, co_tailers = [], co_alive = [], co_cancelled = [], co_next = 0, co_reported = 0,
     co_crashed = False\<rparr>"

text \<open>The non-blocking send.\<close>

definition Inject :: "LogEntry \<Rightarrow> collector \<Rightarrow> collector" where
  "Inject entry s = (case offer channelSize entry (co_outCh s) of
     (True, ch) \<Rightarrow> s\<lparr>co_outCh := ch\<rparr>
   | (False, ch) \<Rightarrow> s\<lparr>co_outCh := ch, co_dropped := co_dropped s + 1\<rparr>)"

definition followed :: "ContainerInfo \<Rightarrow> bool" where
  "followed ci \<longleftrightarrow> cn_State ci = ''running'' \<and> map_get (cn_Labels ci) ''clank.deployment_id'' \<noteq> []"

text \<open>The map \<^verbatim>\<open>current\<close>: of containers with one identifier the last counts.\<close>

definition current_containers :: "ContainerInfo list \<Rightarrow> (string \<times> ContainerInfo) list" where
  "current_containers cs =
     (let ids = remdups (map cn_ContainerID (filter followed cs)) in
      map (\<lambda>i. (i, last (filter (\<lambda>ci. cn_ContainerID ci = i) (filter followed cs)))) ids)"

text \<open>A goroutine's first statement logs eight bytes of the deployment identifier.\<close>

definition start_tailer :: "string \<times> ContainerInfo \<Rightarrow> collector \<Rightarrow> collector" where
  "start_tailer entry s = (case entry of (i, ci) \<Rightarrow>
     if i \<in> set (map fst (co_tailers s)) then s
     else let s = s\<lparr>co_tailers := co_tailers s @ [(i, co_next s)], co_next := Suc (co_next s)\<rparr> in
       if length (map_get (cn_Labels ci) ''clank.deployment_id'') < 8 then s\<lparr>co_crashed := True\<rparr>
       else s\<lparr>co_alive := co_alive s @ [(co_next s - 1, ci)]\<rparr>)"

definition stop_tailers :: "string list \<Rightarrow> collector \<Rightarrow> collector" where
  "stop_tailers ids s = s\<lparr>
     co_cancelled := co_cancelled s @ map snd (filter (\<lambda>(i, g). i \<notin> set ids) (co_tailers s)),
     co_tailers := filter (\<lambda>(i, g). i \<in> set ids) (co_tailers s)\<rparr>"

definition reconcile :: "ContainerInfo list result \<Rightarrow> collector \<Rightarrow> collector" where
  "reconcile r s = (case r of
     Inl err \<Rightarrow> s
   | Inr cs \<Rightarrow> stop_tailers (map fst (current_containers cs)) (foldl (\<lambda>s e. start_tailer e s) s (current_containers cs)))"

definition stopAll :: "collector \<Rightarrow> collector" where
  "stopAll s = s\<lparr>co_cancelled := co_cancelled s @ map snd (co_tailers s), co_tailers := []\<rparr>"

text \<open>What the goroutines do, one action at a time; \<open>None\<close> when the action is not possible.\<close>

datatype collector_action =
    Reconcile "ContainerInfo list result"
  | WriteLine nat LogEntry
  | TailReturns nat
  | InjectEntry LogEntry
  | TakeEntry
  | ReportDropped
  | StopAll

fun collector_act :: "collector_action \<Rightarrow> collector \<Rightarrow> collector option" where
  "collector_act (Reconcile r) s = Some (reconcile r s)"
| "collector_act (WriteLine g entry) s = (case map_of (co_alive s) g of
     None \<Rightarrow> None
   | Some ci \<Rightarrow> if le_ContainerId entry = cn_ContainerID ci then Some (Inject entry s) else None)"
| "collector_act (TailReturns g) s = Some (s\<lparr>co_alive := filter (\<lambda>(h, ci). h \<noteq> g) (co_alive s)\<rparr>)"
| "collector_act (InjectEntry entry) s = Some (Inject entry s)"
| "collector_act TakeEntry s = map_option (\<lambda>(e, ch). s\<lparr>co_outCh := ch\<rparr>) (receive (co_outCh s))"
| "collector_act ReportDropped s = Some (if co_dropped s > 0
     then s\<lparr>co_dropped := 0, co_reported := co_reported s + co_dropped s\<rparr> else s)"
| "collector_act StopAll s = Some (stopAll s)"

fun collector_run :: "collector_action list \<Rightarrow> collector \<Rightarrow> collector option" where
  "collector_run [] s = Some s"
| "collector_run (a # as) s = (case collector_act a s of None \<Rightarrow> None | Some t \<Rightarrow> collector_run as t)"


subsection \<open>The lines of a stream\<close>

lemma scan_lines_Nil: "scan_lines [] = []"
  by (subst scan_lines.simps) simp

lemma scan_lines_line:
  assumes "CHR 0x0A \<notin> set l" "length l < 65536"
  shows "scan_lines (l @ CHR 0x0A # s) = drop_CR l # scan_lines s"
proof -
  have "\<forall>c \<in> set l. c \<noteq> CHR 0x0A" using assms(1) by metis
  then have t: "takeWhile (\<lambda>c. c \<noteq> CHR 0x0A) (l @ CHR 0x0A # s) = l" by (simp add: takeWhile_append2)
  show ?thesis by (subst scan_lines.simps) (use assms(2) in \<open>simp add: t Let_def\<close>)
qed

lemma tail_lines_end: "length data < 8 \<Longrightarrow> tail_lines data = []"
  by (subst tail_lines.simps) simp

definition stream_name :: "nat \<Rightarrow> string" where
  "stream_name k = (if k = 2 then ''stderr'' else ''stdout'')"

lemma tail_lines_frame:
  assumes "length p < 2 ^ 32" "k < 256"
  shows "tail_lines (encode_frame (k, p) @ t) =
    map (Pair (stream_name k)) (filter (\<lambda>line. line \<noteq> []) (scan_lines p)) @ tail_lines t"
proof -
  have k: "byte_at (encode_frame (k, p) @ t) 0 = k"
    using assms(2) by (simp add: byte_at_def encode_frame_def)
  have step: "tail_lines D = (if frame_size D = 0 then tail_lines (drop 8 D)
      else map (Pair (stream_name (byte_at D 0))) (filter (\<lambda>line. line \<noteq> []) (scan_lines (take (frame_size D) (drop 8 D))))
        @ tail_lines (drop (frame_size D) (drop 8 D)))"
    if "8 \<le> length D" "frame_size D \<le> length (drop 8 D)" for D
    using that by (subst tail_lines.simps) (simp add: Let_def stream_name_def del: drop_drop)
  have len: "8 \<le> length (encode_frame (k, p) @ t)"
    "frame_size (encode_frame (k, p) @ t) \<le> length (drop 8 (encode_frame (k, p) @ t))"
    unfolding frame_size_encode [OF assms(1)] drop_encode_frame by (simp_all add: length_encode_frame)
  show ?thesis
    unfolding step [OF len] k frame_size_encode [OF assms(1)] drop_encode_frame
    by (simp add: scan_lines_Nil)
qed

text \<open>A frame per line, as a container that writes whole lines gives them.\<close>

definition line_frame :: "nat \<times> string \<Rightarrow> nat \<times> string" where
  "line_frame f = (case f of (k, l) \<Rightarrow> (k, l @ [CHR 0x0A]))"

definition plain_line :: "string \<Rightarrow> bool" where
  "plain_line l \<longleftrightarrow> l \<noteq> [] \<and> CHR 0x0A \<notin> set l \<and> last l \<noteq> CHR 0x0D \<and> length l < 65536"

lemma tail_lines_line_frames:
  "\<forall>(k, l) \<in> set ls. k < 256 \<and> plain_line l \<Longrightarrow>
   tail_lines (encode_frames (map line_frame ls)) = map (\<lambda>(k, l). (stream_name k, l)) ls"
proof (induction ls)
  case Nil
  then show ?case by (simp add: encode_frames_def tail_lines_end)
next
  case (Cons f ls)
  obtain k l where f: "f = (k, l)" by (cases f)
  from Cons.prems f have k: "k < 256" and l: "plain_line l" by auto
  from l have len: "length (l @ [CHR 0x0A]) < 2 ^ 32" by (simp add: plain_line_def)
  have "scan_lines (l @ [CHR 0x0A]) = [l]"
    using l scan_lines_line [of l "[]"] by (simp add: plain_line_def scan_lines_Nil drop_CR_def)
  with tail_lines_frame [OF len k, of "encode_frames (map line_frame ls)"] l
  have "tail_lines (encode_frames (map line_frame (f # ls))) =
      (stream_name k, l) # tail_lines (encode_frames (map line_frame ls))"
    by (simp add: f line_frame_def encode_frames_def plain_line_def)
  also have "tail_lines (encode_frames (map line_frame ls)) = map (\<lambda>(k, l). (stream_name k, l)) ls"
    by (rule Cons.IH) (use Cons.prems in simp)
  finally show ?case by (simp only: f list.map prod.case)
qed

text \<open>Lines offered to a channel with room are queued in their order.\<close>

lemma Inject_buffer:
  "length (ch_buffer (co_outCh s)) < channelSize \<Longrightarrow> ch_buffer (co_outCh (Inject e s)) = ch_buffer (co_outCh s) @ [e]"
  by (simp add: Inject_def offer_def)

lemma Inject_room:
  "length (ch_buffer (co_outCh s)) + length es \<le> channelSize \<Longrightarrow>
   ch_buffer (co_outCh (fold Inject es s)) = ch_buffer (co_outCh s) @ es"
proof (induction es arbitrary: s)
  case (Cons e es)
  then show ?case using Cons.IH [of "Inject e s"] Inject_buffer [of s e] by simp
qed simp

text \<open>
   What a container writes arrives: for a stream of whole lines (no line empty or of 64 kilobytes
  or more), on either output, the entries a goroutine puts into a channel with room for them are the
  lines, in order, each with its stream, its container and its deployment.
\<close>

theorem container_lines_collected:
  assumes "\<forall>(k, l) \<in> set ls. k < 256 \<and> plain_line l"
    and "length (ch_buffer (co_outCh s)) + length ls \<le> channelSize"
  shows "ch_buffer (co_outCh (fold Inject (tail_entries ci stamps (encode_frames (map line_frame ls))) s)) =
    ch_buffer (co_outCh s) @ map (\<lambda>(i, k, l).
      \<lparr>le_DeploymentId = map_get (cn_Labels ci) ''clank.deployment_id'', le_ContainerId = cn_ContainerID ci,
       le_Line = l, le_TimestampNs = stamps i, le_Stream = stream_name k\<rparr>) (enumerate 0 ls)"
proof -
  have e: "tail_entries ci stamps (encode_frames (map line_frame ls)) = map (\<lambda>(i, k, l).
      \<lparr>le_DeploymentId = map_get (cn_Labels ci) ''clank.deployment_id'', le_ContainerId = cn_ContainerID ci,
       le_Line = l, le_TimestampNs = stamps i, le_Stream = stream_name k\<rparr>) (enumerate 0 ls)"
    unfolding tail_entries_def tail_lines_line_frames [OF assms(1)]
    by (rule nth_equalityI) (simp_all add: nth_enumerate_eq split: prod.split)
  show ?thesis using assms(2) Inject_room [of s] by (simp add: e)
qed

subsection \<open>Invariants of the collector\<close>

definition tailers_ok :: "(string \<times> nat) list \<Rightarrow> (nat \<times> ContainerInfo) list \<Rightarrow> nat list \<Rightarrow> nat \<Rightarrow> bool" where
  "tailers_ok tailers alive cancelled n \<longleftrightarrow>
     distinct (map fst tailers) \<and> distinct (map snd tailers) \<and> distinct (map fst alive) \<and>
     (\<forall>x \<in> set tailers. snd x < n) \<and> (\<forall>x \<in> set alive. fst x < n) \<and> (\<forall>g \<in> set cancelled. g < n) \<and>
     (\<forall>x \<in> set alive. fst x \<in> set cancelled \<or> (cn_ContainerID (snd x), fst x) \<in> set tailers)"

definition collector_ok :: "collector \<Rightarrow> bool" where
  "collector_ok s \<longleftrightarrow> channel_ok channelSize (co_outCh s) \<and>
     tailers_ok (co_tailers s) (co_alive s) (co_cancelled s) (co_next s)"

definition accounted :: "collector \<Rightarrow> bool" where
  "accounted s \<longleftrightarrow> int (length (ch_lost (co_outCh s))) = co_dropped s + co_reported s \<and> 0 \<le> co_dropped s"

text \<open>The fields the two invariants read.\<close>

lemma Inject_frame:
  "co_tailers (Inject e s) = co_tailers s" "co_alive (Inject e s) = co_alive s"
  "co_cancelled (Inject e s) = co_cancelled s" "co_next (Inject e s) = co_next s"
  by (simp_all add: Inject_def split: prod.split bool.split)

lemma Inject_channel: "co_outCh (Inject e s) = snd (offer channelSize e (co_outCh s))"
  by (simp add: Inject_def split: prod.split bool.split)

lemma Inject_ok: "collector_ok s \<Longrightarrow> collector_ok (Inject e s)"
  by (simp add: collector_ok_def Inject_frame Inject_channel offer_ok)

lemma Inject_accounted: "accounted s \<Longrightarrow> accounted (Inject e s)"
  by (simp add: accounted_def Inject_def offer_def)

lemma new_tailer_ok:
  assumes ok: "tailers_ok ts al ca n" and new: "i \<notin> set (map fst ts)" and id: "cn_ContainerID ci = i"
  shows "tailers_ok (ts @ [(i, n)]) al ca (Suc n)" "tailers_ok (ts @ [(i, n)]) (al @ [(n, ci)]) ca (Suc n)"
proof -
  from ok have ts: "\<forall>x \<in> set ts. snd x < n" and al: "\<forall>x \<in> set al. fst x < n" and ca: "\<forall>g \<in> set ca. g < n"
    and live: "\<forall>x \<in> set al. fst x \<in> set ca \<or> (cn_ContainerID (snd x), fst x) \<in> set ts"
    and d: "distinct (map fst ts)" "distinct (map snd ts)" "distinct (map fst al)"
    unfolding tailers_ok_def by blast+
  from ts have "n \<notin> set (map snd ts)" by fastforce
  moreover from al have "n \<notin> set (map fst al)" by fastforce
  ultimately show "tailers_ok (ts @ [(i, n)]) al ca (Suc n)" "tailers_ok (ts @ [(i, n)]) (al @ [(n, ci)]) ca (Suc n)"
    using d new ts al ca live id by (simp_all add: tailers_ok_def less_SucI) blast+
qed

lemma start_tailer_ok:
  assumes "collector_ok s" "cn_ContainerID ci = i"
  shows "collector_ok (start_tailer (i, ci) s)"
proof -
  have "start_tailer (i, ci) s =
     (if i \<in> set (map fst (co_tailers s)) then s
      else if length (map_get (cn_Labels ci) ''clank.deployment_id'') < 8
      then s\<lparr>co_tailers := co_tailers s @ [(i, co_next s)], co_next := Suc (co_next s), co_crashed := True\<rparr>
      else s\<lparr>co_tailers := co_tailers s @ [(i, co_next s)], co_next := Suc (co_next s),
             co_alive := co_alive s @ [(co_next s, ci)]\<rparr>)"
    by (simp add: start_tailer_def Let_def)
  with assms show ?thesis
    using new_tailer_ok [OF _ _ assms(2), of "co_tailers s" "co_alive s" "co_cancelled s" "co_next s"]
    by (simp add: collector_ok_def)
qed

lemma start_tailers_ok:
  "collector_ok s \<Longrightarrow> \<forall>(i, ci) \<in> set es. cn_ContainerID ci = i \<Longrightarrow> collector_ok (foldl (\<lambda>s e. start_tailer e s) s es)"
proof (induction es arbitrary: s)
  case (Cons e es)
  obtain i ci where "e = (i, ci)" by (cases e)
  with Cons show ?case using start_tailer_ok [of s ci i] by simp
qed simp

text \<open>Cancelling some tailers and forgetting exactly these.\<close>

lemma cancel_tailers_ok:
  assumes "tailers_ok ts al ca n"
  shows "tailers_ok (filter P ts) al (ca @ map snd (filter (\<lambda>x. \<not> P x) ts)) n"
proof -
  let ?ca = "ca @ map snd (filter (\<lambda>x. \<not> P x) ts)"
  have live: "\<forall>x \<in> set al. fst x \<in> set ?ca \<or> (cn_ContainerID (snd x), fst x) \<in> set (filter P ts)"
  proof
    fix x assume "x \<in> set al"
    with assms have "fst x \<in> set ca \<or> (cn_ContainerID (snd x), fst x) \<in> set ts" unfolding tailers_ok_def by blast
    then show "fst x \<in> set ?ca \<or> (cn_ContainerID (snd x), fst x) \<in> set (filter P ts)" by force
  qed
  from assms have "\<forall>g \<in> set ?ca. g < n" unfolding tailers_ok_def by auto
  moreover from assms have "distinct (map fst (filter P ts))" "distinct (map snd (filter P ts))"
    unfolding tailers_ok_def by (auto intro: distinct_map_filter)
  moreover from assms have "distinct (map fst al)" "\<forall>x \<in> set (filter P ts). snd x < n" "\<forall>x \<in> set al. fst x < n"
    unfolding tailers_ok_def by auto
  ultimately show ?thesis using live unfolding tailers_ok_def by blast
qed

lemma tailers_ok_return:
  "tailers_ok ts al ca n \<Longrightarrow> tailers_ok ts (filter P al) ca n"
  unfolding tailers_ok_def by (auto intro: distinct_map_filter)

lemma tailers_ok_one:
  assumes "tailers_ok ts al ca n"
  shows "distinct (map (\<lambda>x. cn_ContainerID (snd x)) (filter (\<lambda>x. fst x \<notin> set ca) al))"
proof -
  have stored: "(cn_ContainerID (snd x), fst x) \<in> set ts" if "x \<in> set (filter (\<lambda>x. fst x \<notin> set ca) al)" for x
    using assms that unfolding tailers_ok_def by auto
  from assms have ts: "distinct (map fst ts)" and al: "distinct (map fst al)" unfolding tailers_ok_def by blast+
  have "inj_on (\<lambda>x. cn_ContainerID (snd x)) (set (filter (\<lambda>x. fst x \<notin> set ca) al))"
  proof (rule inj_onI)
    fix x y
    assume x: "x \<in> set (filter (\<lambda>x. fst x \<notin> set ca) al)" and y: "y \<in> set (filter (\<lambda>x. fst x \<notin> set ca) al)"
      and "cn_ContainerID (snd x) = cn_ContainerID (snd y)"
    with stored [OF x] stored [OF y] have "fst x = fst y" using eq_key_imp_eq_value [OF ts] by simp
    with x y al show "x = y" by (auto simp: distinct_map dest: inj_onD)
  qed
  moreover from al have "distinct (filter (\<lambda>x. fst x \<notin> set ca) al)" by (simp add: distinct_map)
  ultimately show ?thesis by (simp only: distinct_map)
qed

lemma cancel_ok:
  assumes "collector_ok s"
  shows "collector_ok (s\<lparr>co_cancelled := co_cancelled s @ map snd (filter (\<lambda>x. \<not> P x) (co_tailers s)),
    co_tailers := filter P (co_tailers s)\<rparr>)"
  using assms by (simp add: collector_ok_def cancel_tailers_ok)

lemma stop_tailers_ok: "collector_ok s \<Longrightarrow> collector_ok (stop_tailers ids s)"
  using cancel_ok [of s "\<lambda>(i, g). i \<in> set ids"] by (simp add: stop_tailers_def case_prod_unfold)

lemma stopAll_ok: "collector_ok s \<Longrightarrow> collector_ok (stopAll s)"
  using cancel_ok [of s "\<lambda>x. False"] by (simp add: stopAll_def)

lemma current_containers_id: "\<forall>(i, ci) \<in> set (current_containers cs). cn_ContainerID ci = i"
proof -
  have "cn_ContainerID (last (filter (\<lambda>ci. cn_ContainerID ci = i) ds)) = i" if "i \<in> cn_ContainerID ` set ds" for i ds
  proof -
    from that have "filter (\<lambda>ci. cn_ContainerID ci = i) ds \<noteq> []" by (auto simp: filter_empty_conv)
    then have "last (filter (\<lambda>ci. cn_ContainerID ci = i) ds) \<in> set (filter (\<lambda>ci. cn_ContainerID ci = i) ds)" by (rule last_in_set)
    then show ?thesis by simp
  qed
  from this [of _ "filter followed cs"] show ?thesis by (auto simp: current_containers_def Let_def)
qed

lemma reconcile_ok: "collector_ok s \<Longrightarrow> collector_ok (reconcile r s)"
  by (cases r) (simp_all add: reconcile_def stop_tailers_ok start_tailers_ok current_containers_id)

lemma collector_act_ok:
  assumes "collector_act a s = Some t" "collector_ok s"
  shows "collector_ok t"
  using assms
proof (cases a)
  case (TailReturns g)
  with assms show ?thesis by (auto simp: collector_ok_def tailers_ok_return)
next
  case TakeEntry
  with assms show ?thesis by (auto simp: collector_ok_def intro: receive_ok)
next
  case ReportDropped
  with assms show ?thesis by (auto simp: collector_ok_def)
qed (auto simp: Inject_ok reconcile_ok stopAll_ok split: option.splits if_splits)


lemma start_tailers_ghost:
  "accounted (foldl (\<lambda>s e. start_tailer e s) s es) = accounted s"
proof (induction es arbitrary: s)
  case (Cons e es)
  have "accounted (start_tailer e s) = accounted s"
    by (auto simp: start_tailer_def accounted_def Let_def split: prod.split)
  with Cons show ?case by simp
qed simp

lemma collector_act_accounted:
  assumes "collector_act a s = Some t" "accounted s"
  shows "accounted t"
proof (cases a)
  case (Reconcile r)
  have "accounted (stop_tailers ids s) = accounted s" for ids s by (simp add: stop_tailers_def accounted_def)
  with assms Reconcile show ?thesis by (cases r) (auto simp: reconcile_def start_tailers_ghost)
next
  case TakeEntry
  with assms show ?thesis by (auto simp: accounted_def receive_lost)
next
  case ReportDropped
  with assms show ?thesis by (auto simp: accounted_def)
next
  case StopAll
  with assms show ?thesis by (auto simp: accounted_def stopAll_def)
next
  case (TailReturns g)
  with assms show ?thesis by (auto simp: accounted_def)
qed (use assms in \<open>auto simp: Inject_accounted split: option.splits if_splits\<close>)

lemma collector_run_invariant:
  assumes "\<And>a s t. collector_act a s = Some t \<Longrightarrow> I s \<Longrightarrow> I t"
  shows "collector_run as s = Some t \<Longrightarrow> I s \<Longrightarrow> I t"
  by (induction as arbitrary: s) (auto split: option.splits dest: assms)

lemma collector_ok_reachable:
  assumes "collector_run as collector0 = Some s"
  shows "collector_ok s"
proof -
  have "collector_ok collector0" by (simp add: collector_ok_def tailers_ok_def collector0_def)
  from collector_run_invariant [of collector_ok, OF collector_act_ok assms this] show ?thesis .
qed

lemma accounted_reachable:
  assumes "collector_run as collector0 = Some s"
  shows "accounted s"
proof -
  have "accounted collector0" by (simp add: accounted_def collector0_def empty_channel_def)
  from collector_run_invariant [of accounted, OF collector_act_accounted assms this] show ?thesis .
qed

lemma log_lines_ordered:
  "collector_run as collector0 = Some s \<Longrightarrow> subseq (ch_taken (co_outCh s) @ ch_buffer (co_outCh s)) (ch_offered (co_outCh s))"
  using collector_ok_reachable [of as s] by (simp add: collector_ok_def channel_ok_def)

text \<open>
   After any actions of the goroutines, in any order, no container has two goroutines that follow it and are not cancelled.
\<close>

theorem one_tailer_per_container:
  assumes "collector_run as collector0 = Some s"
  shows "distinct (map (\<lambda>x. cn_ContainerID (snd x)) (filter (\<lambda>x. fst x \<notin> set (co_cancelled s)) (co_alive s)))"
  using collector_ok_reachable [OF assms] tailers_ok_one unfolding collector_ok_def by blast

text \<open>
   Nothing is lost unnoticed: after any actions every line offered was taken by the log stream,
  waits in the channel, which holds at most 4096, or is counted in a number that was or will be
  logged; and what was taken and waits is in the order in which it was offered.
\<close>

theorem log_lines_accounted:
  assumes "collector_run as collector0 = Some s"
  shows "let ch = co_outCh s in
    mset (ch_offered ch) = mset (ch_taken ch) + mset (ch_buffer ch) + mset (ch_lost ch) \<and>
    subseq (ch_taken ch @ ch_buffer ch) (ch_offered ch) \<and> length (ch_buffer ch) \<le> channelSize \<and>
    int (length (ch_lost ch)) = co_dropped s + co_reported s"
  using accounted_reachable [OF assms] collector_ok_reachable [OF assms]
  by (simp add: accounted_def collector_ok_def channel_ok_def)

subsection \<open>A container that restarts\<close>

text \<open>
  Docker ends the log stream when a container stops, so the goroutine returns; a container that is
  running again at the next reconciliation has kept its identifier.
\<close>

definition unfollowed :: "string \<Rightarrow> collector \<Rightarrow> bool" where
  "unfollowed i s \<longleftrightarrow> i \<in> fst ` set (co_tailers s) \<and> (\<forall>(g, ci) \<in> set (co_alive s). cn_ContainerID ci \<noteq> i)"

definition stays_running :: "string \<Rightarrow> collector_action \<Rightarrow> bool" where
  "stays_running i a = (case a of
     Reconcile (Inr cs) \<Rightarrow> (\<exists>ci \<in> set cs. followed ci \<and> cn_ContainerID ci = i)
   | StopAll \<Rightarrow> False
   | _ \<Rightarrow> True)"

lemma start_tailer_unfollowed:
  "unfollowed i s \<Longrightarrow> cn_ContainerID ci = j \<Longrightarrow> unfollowed i (start_tailer (j, ci) s)"
  by (auto simp: unfollowed_def start_tailer_def Let_def)

lemma start_tailers_unfollowed:
  "unfollowed i s \<Longrightarrow> \<forall>(j, ci) \<in> set es. cn_ContainerID ci = j \<Longrightarrow>
   unfollowed i (foldl (\<lambda>s e. start_tailer e s) s es)"
proof (induction es arbitrary: s)
  case (Cons e es)
  obtain j ci where "e = (j, ci)" by (cases e)
  with Cons show ?case using start_tailer_unfollowed [of i s ci j] by simp
qed simp

lemma current_containers_ids: "fst ` set (current_containers cs) = cn_ContainerID ` set (filter followed cs)"
  by (auto simp: current_containers_def Let_def image_comp)

lemma collector_act_unfollowed:
  assumes "collector_act a s = Some t" "stays_running i a" "unfollowed i s"
  shows "unfollowed i t"
proof (cases a)
  case (Reconcile r)
  show ?thesis
  proof (cases r)
    case (Inr cs)
    let ?s = "foldl (\<lambda>s e. start_tailer e s) s (current_containers cs)"
    from assms(3) have u: "unfollowed i ?s" by (rule start_tailers_unfollowed) (rule current_containers_id)
    from assms(2) Reconcile Inr have "i \<in> fst ` set (current_containers cs)"
      by (auto simp: stays_running_def current_containers_ids)
    with u have "unfollowed i (stop_tailers (map fst (current_containers cs)) ?s)"
      by (auto simp: unfollowed_def stop_tailers_def image_iff)
    with assms(1) Reconcile Inr show ?thesis by (simp add: reconcile_def)
  qed (use assms Reconcile in \<open>simp add: reconcile_def\<close>)
qed (use assms in \<open>auto simp: unfollowed_def stays_running_def Inject_frame split: option.splits if_splits list.splits\<close>)

text \<open>
   Once the goroutine of a container has returned while the container stays among those followed,
  no reconciliation starts another: whatever happens next, as long as the container is running at each
  of them, none of its lines is collected.
\<close>

theorem restarted_container_unfollowed:
  assumes "unfollowed i s" "collector_run as s = Some t" "\<forall>a \<in> set as. stays_running i a"
  shows "unfollowed i t \<and> (\<forall>g e. WriteLine g e \<in> set as \<longrightarrow> le_ContainerId e \<noteq> i)"
  using assms
proof (induction as arbitrary: s)
  case (Cons a as)
  from Cons.prems obtain u where u: "collector_act a s = Some u" "collector_run as u = Some t" by (auto split: option.splits)
  with Cons.prems have "unfollowed i u" using collector_act_unfollowed by simp
  moreover have "le_ContainerId e \<noteq> i" if "a = WriteLine g e" for g e
    using that u(1) Cons.prems(1) by (auto simp: unfollowed_def split: option.splits if_splits dest: map_of_SomeD)
  ultimately show ?case using Cons.IH [OF _ u(2)] Cons.prems(3) by auto
qed simp


text \<open>A container whose log ends, which runs again at the next reconciliation and writes a line.\<close>

definition sample_container :: ContainerInfo where
  "sample_container = \<lparr>cn_ContainerID = ''c1'', cn_Name = ''web'', cn_State = ''running'', cn_Image = ''nginx'',
     cn_Labels = [''clank.deployment_id'' \<mapsto> ''deployment-1'']\<rparr>"

definition sample_restarted :: collector where
  "sample_restarted = collector0\<lparr>co_tailers := [(''c1'', 0)], co_next := 1\<rparr>"

lemma sample_current: "current_containers [sample_container] = [(''c1'', sample_container)]"
  by (simp add: current_containers_def followed_def sample_container_def)

lemma sample_restart:
  "collector_run [Reconcile (Inr [sample_container]), TailReturns 0] collector0 = Some sample_restarted"
  by (simp add: reconcile_def sample_current start_tailer_def Let_def stop_tailers_def collector0_def sample_restarted_def)
     (simp add: sample_container_def)

lemma sample_stays:
  "\<forall>a \<in> set [Reconcile (Inr [sample_container]), ReportDropped]. stays_running ''c1'' a"
  by (simp add: stays_running_def followed_def sample_container_def)

lemma sample_runs_on:
  "collector_run [Reconcile (Inr [sample_container]), ReportDropped] sample_restarted = Some sample_restarted"
  by (simp add: reconcile_def sample_current start_tailer_def Let_def stop_tailers_def collector0_def sample_restarted_def)

lemma sample_unfollowed: "unfollowed ''c1'' sample_restarted"
  by (simp add: unfollowed_def sample_restarted_def collector0_def)

lemma restarted_container_unfollowed_witness:
  "collector_run [Reconcile (Inr [sample_container]), TailReturns 0] collector0 = Some sample_restarted \<and>
   unfollowed ''c1'' sample_restarted \<and> followed sample_container"
proof -
  have "followed sample_container" by (simp add: followed_def sample_container_def)
  with restarted_container_unfollowed [OF sample_unfollowed sample_runs_on sample_stays] sample_restart
  show ?thesis by simp
qed

lemma one_tailer_per_container_witness:
  "collector_run [Reconcile (Inr [sample_container]), TailReturns 0] collector0 = Some sample_restarted \<and>
   distinct (map (\<lambda>x. cn_ContainerID (snd x))
     (filter (\<lambda>x. fst x \<notin> set (co_cancelled sample_restarted)) (co_alive sample_restarted)))"
  using one_tailer_per_container [OF sample_restart] sample_restart by (rule conjI [rotated])

lemma log_lines_accounted_witness:
  "collector_run [Reconcile (Inr [sample_container]), TailReturns 0] collector0 = Some sample_restarted \<and>
   length (ch_buffer (co_outCh sample_restarted)) \<le> channelSize"
  using log_lines_accounted [OF sample_restart] sample_restart by (simp add: Let_def)

lemma container_lines_collected_witness:
  "ch_buffer (co_outCh (fold Inject
     (tail_entries sample_container int (encode_frames (map line_frame [(2, ''up'')]))) collector0)) =
   [\<lparr>le_DeploymentId = ''deployment-1'', le_ContainerId = ''c1'', le_Line = ''up'', le_TimestampNs = 0, le_Stream = ''stderr''\<rparr>]"
proof -
  have "\<forall>(k, l) \<in> set [(2 :: nat, ''up'')]. k < 256 \<and> plain_line l" by (simp add: plain_line_def)
  moreover have "length (ch_buffer (co_outCh collector0)) + length [(2 :: nat, ''up'')] \<le> channelSize"
    by (simp add: collector0_def channelSize_def empty_channel_def)
  moreover have "map_get (cn_Labels sample_container) ''clank.deployment_id'' = ''deployment-1''"
    by (simp add: sample_container_def)
  moreover have "cn_ContainerID sample_container = ''c1''" "ch_buffer (co_outCh collector0) = []" "stream_name 2 = ''stderr''"
    by (simp_all add: sample_container_def collector0_def stream_name_def empty_channel_def)
  ultimately show ?thesis
    using container_lines_collected [of "[(2, ''up'')]" collector0 sample_container int] by simp
qed

end
