(* ===== verification/Telemetry_Streams.thy ===== *)
theory Telemetry_Streams
  imports Log_Collector Expiry_Guards
begin

text \<open>
  The client-streaming calls that carry lg entries and metric batches to the control plane
  (\<^verbatim>\<open>internal/grpcclient/logstream.go\<close>, \<^verbatim>\<open>metricstream.go\<close>) and the loops that open them again
  (\<^verbatim>\<open>runLogStreamer\<close>, \<^verbatim>\<open>runMetricStreamer\<close> in \<^verbatim>\<open>internal/agent/agent.go\<close>).  What a
  \<^verbatim>\<open>select\<close> chooses is a trace; the connection is a record of the answers of the library.
\<close>

definition streamReconnectWait :: int where "streamReconnectWait = 5 * second"

text \<open>What a \<^verbatim>\<open>select\<close> yields: the channel gives a message or is closed, or the context has ended.\<close>

datatype 'a selected = Message 'a | ChannelClosed | ContextDone

record 'a sender =
  sd_open :: "go_error option"                     \<comment> \<open>opening the stream\<close>
  sd_send :: "nat \<Rightarrow> 'a \<Rightarrow> go_error option"         \<comment> \<open>the n-th send on it\<close>
  sd_close :: "go_error option"                    \<comment> \<open>\<^verbatim>\<open>CloseAndRecv\<close>\<close>
  sd_ended :: bool                                 \<comment> \<open>the context has ended when the call has failed\<close>
  sd_random :: int                                 \<comment> \<open>the draw for the pause after it\<close>
  sd_pauseEnds :: bool                             \<comment> \<open>the context ends during the pause\<close>

text \<open>
  A call: what it received, each with whether it was sent, the rest of the trace, and its error; the
  result is \<open>None\<close> when the trace is over and the call still waits.
\<close>

datatype call_result = Waiting | Ended "go_error option" | Stopped

fun stream_loop :: "string \<Rightarrow> 'a sender \<Rightarrow> nat \<Rightarrow> 'a selected list \<Rightarrow> ('a \<times> bool) list \<times> 'a selected list \<times> call_result" where
  "stream_loop what sd k [] = ([], [], Waiting)"
| "stream_loop what sd k (ContextDone # es) = ([], es, Stopped)"
| "stream_loop what sd k (ChannelClosed # es) = ([], es, Ended (sd_close sd))"
| "stream_loop what sd k (Message x # es) = (case sd_send sd k x of
     Some err \<Rightarrow> ([(x, False)], es, Ended (Some (''sending '' @ what @ '': '' @ err)))
   | None \<Rightarrow> (let (lg, rest, r) = stream_loop what sd (k + 1) es in ((x, True) # lg, rest, r)))"

definition StreamLogs :: "LogEntry sender \<Rightarrow> LogEntry selected list \<Rightarrow> (LogEntry \<times> bool) list \<times> LogEntry selected list \<times> call_result" where
  "StreamLogs sd es = (case sd_open sd of
     Some err \<Rightarrow> ([], es, Ended (Some (''opening StreamLogs: '' @ err)))
   | None \<Rightarrow> stream_loop ''log entry'' sd 0 es)"

text \<open>The batches are a type of the metrics collector; nothing here depends on it.\<close>

definition StreamMetrics :: "'b sender \<Rightarrow> 'b selected list \<Rightarrow> ('b \<times> bool) list \<times> 'b selected list \<times> call_result" where
  "StreamMetrics sd es = (case sd_open sd of
     Some err \<Rightarrow> ([], es, Ended (Some (''opening StreamMetrics: '' @ err)))
   | None \<Rightarrow> stream_loop ''metric batch'' sd 0 es)"

text \<open>
  The loop around a call, over the connections it gets: all it received, the pauses it made, and what
  is left of the trace.
\<close>

fun run_streamer :: "('a sender \<Rightarrow> 'a selected list \<Rightarrow> ('a \<times> bool) list \<times> 'a selected list \<times> call_result) \<Rightarrow>
    'a sender list \<Rightarrow> 'a selected list \<Rightarrow> ('a \<times> bool) list \<times> int list \<times> 'a selected list" where
  "run_streamer stream [] es = ([], [], es)"
| "run_streamer stream (sd # sds) es = (case stream sd es of
     (lg, rest, Ended err) \<Rightarrow>
       if sd_ended sd then (lg, [], rest)
       else let jitter = streamReconnectWait + sd_random sd mod (3 * second) in
         if sd_pauseEnds sd then (lg, [jitter], rest)
         else (let (lg', waits, rest') = run_streamer stream sds rest in (lg @ lg', jitter # waits, rest'))
   | (lg, rest, _) \<Rightarrow> (lg, [], rest))"

definition runLogStreamer :: "LogEntry sender list \<Rightarrow> LogEntry selected list \<Rightarrow> (LogEntry \<times> bool) list \<times> int list \<times> LogEntry selected list" where
  "runLogStreamer = run_streamer StreamLogs"

definition runMetricStreamer :: "'b sender list \<Rightarrow> 'b selected list \<Rightarrow> ('b \<times> bool) list \<times> int list \<times> 'b selected list" where
  "runMetricStreamer = run_streamer StreamMetrics"

subsection \<open>What a call does\<close>

text \<open>The messages of a trace.\<close>

fun messages :: "'a selected list \<Rightarrow> 'a list" where
  "messages [] = []"
| "messages (Message x # es) = x # messages es"
| "messages (_ # es) = messages es"

definition failures :: "('a \<times> bool) list \<Rightarrow> 'a list" where
  "failures lg = map fst (filter (\<lambda>(x, ok). \<not> ok) lg)"

text \<open>
  The messages handed to gRPC: \<^verbatim>\<open>Send\<close> returned no error for them.  Whether the control plane received
  them is not known to the agent, as nothing is acknowledged.
\<close>

definition handed :: "('a \<times> bool) list \<Rightarrow> 'a list" where
  "handed lg = map fst (filter snd lg)"

text \<open>
  The contract of a call that the loop relies on: it accounts for what it takes from the channel,
  loses at most the message whose sending failed, and then ends.
\<close>

locale streaming_call =
  fixes stream :: "'a sender \<Rightarrow> 'a selected list \<Rightarrow> ('a \<times> bool) list \<times> 'a selected list \<times> call_result"
  assumes received: "stream sd es = (lg, rest, r) \<Longrightarrow> messages es = map fst lg @ messages rest"
    and one_failure: "stream sd es = (lg, rest, r) \<Longrightarrow> length (failures lg) \<le> (case r of Ended _ \<Rightarrow> 1 | _ \<Rightarrow> 0)"
    and refused: "stream sd es = (lg, rest, r) \<Longrightarrow> (x, True) \<in> set lg \<Longrightarrow> \<exists>n. sd_send sd n x = None"
begin

lemma run_received:
  "run_streamer stream sds es = (lg, waits, rest) \<Longrightarrow> messages es = map fst lg @ messages rest"
proof (induction sds arbitrary: es lg waits rest)
  case (Cons sd sds)
  obtain l m r where s: "stream sd es = (l, m, r)" by (cases "stream sd es") auto
  from received [OF s] have "messages es = map fst l @ messages m" .
  with s Cons show ?case by (fastforce simp: Let_def split: call_result.splits if_splits prod.splits)
qed simp

lemma pause_bounds: "0 \<le> r mod (3 * second) \<and> r mod (3 * second) < 3 * second"
  by (simp add: second_def)

lemma run_failures:
  "run_streamer stream sds es = (lg, waits, rest) \<Longrightarrow>
   length (failures lg) \<le> length waits + 1 \<and>
   (\<forall>w \<in> set waits. streamReconnectWait \<le> w \<and> w < streamReconnectWait + 3 * second)"
proof (induction sds arbitrary: es lg waits rest)
  case (Cons sd sds)
  obtain l m r where s: "stream sd es = (l, m, r)" by (cases "stream sd es") auto
  from one_failure [OF s] have l: "length (failures l) \<le> 1" by (cases r) simp_all
  obtain l' ws m' where next_call: "run_streamer stream sds m = (l', ws, m')" by (cases "run_streamer stream sds m") auto
  show ?case
  proof (cases "\<exists>err. r = Ended err \<and> \<not> sd_ended sd \<and> \<not> sd_pauseEnds sd")
    case True
    with s next_call Cons.prems have lg: "lg = l @ l'" "waits = (streamReconnectWait + sd_random sd mod (3 * second)) # ws"
      by (auto simp: Let_def)
    have "failures (l @ l') = failures l @ failures l'" by (simp add: failures_def)
    with lg l Cons.IH [OF next_call] pause_bounds [of "sd_random sd"] show ?thesis by simp
  next
    case False
    with s Cons.prems have "lg = l" "waits = [] \<or> waits = [streamReconnectWait + sd_random sd mod (3 * second)]"
      by (auto simp: Let_def split: call_result.splits if_splits)
    with l pause_bounds [of "sd_random sd"] show ?thesis by auto
  qed
qed (simp add: failures_def)

lemma run_refused:
  "run_streamer stream sds es = (lg, waits, rest) \<Longrightarrow> (x, True) \<in> set lg \<Longrightarrow>
   \<exists>sd \<in> set sds. \<exists>n. sd_send sd n x = None"
proof (induction sds arbitrary: es lg waits rest)
  case (Cons sd sds)
  obtain l m r where s: "stream sd es = (l, m, r)" by (cases "stream sd es") auto
  from s Cons refused [OF s] show ?case
    by (fastforce simp: Let_def split: call_result.splits if_splits prod.splits)
qed simp

end

lemma stream_loop_received:
  "stream_loop what sd n es = (lg, rest, r) \<Longrightarrow> messages es = map fst lg @ messages rest"
  by (induction what sd n es arbitrary: lg rest r rule: stream_loop.induct)
    (auto split: option.splits prod.splits)

lemma stream_loop_failure:
  "stream_loop what sd n es = (lg, rest, r) \<Longrightarrow> length (failures lg) \<le> (case r of Ended _ \<Rightarrow> 1 | _ \<Rightarrow> 0)"
  by (induction what sd n es arbitrary: lg rest r rule: stream_loop.induct)
    (auto simp: failures_def split: option.splits prod.splits call_result.splits)

lemma stream_loop_refused:
  "stream_loop what sd n es = (lg, rest, r) \<Longrightarrow> (x, True) \<in> set lg \<Longrightarrow> \<exists>n. sd_send sd n x = None"
  by (induction what sd n es arbitrary: lg rest r rule: stream_loop.induct)
    (auto split: option.splits prod.splits)

interpretation logs: streaming_call StreamLogs
  by unfold_locales
    (auto simp: StreamLogs_def failures_def split: option.splits call_result.splits
      dest: stream_loop_received stream_loop_failure [unfolded failures_def] stream_loop_refused)

interpretation batches: streaming_call StreamMetrics
  by unfold_locales
    (auto simp: StreamMetrics_def failures_def split: option.splits call_result.splits
      dest: stream_loop_received stream_loop_failure [unfolded failures_def] stream_loop_refused)

subsection \<open>Properties\<close>

lemma handed_subseq: "subseq (handed lg) (map fst lg)"
  by (simp add: handed_def subseq_map)

lemma subseq_mset: "subseq xs ys \<Longrightarrow> mset xs \<subseteq># mset ys"
proof (induction rule: list_emb.induct)
  case (list_emb_Cons xs ys y)
  have "mset ys \<subseteq># add_mset y (mset ys)" by simp
  with list_emb_Cons.IH show ?case by (simp add: subset_mset.order_trans [of "mset xs" "mset ys"])
qed simp_all

text \<open>
  Every connection starts a streamer of its own, and an old one can still be running when the next has
  started; all of them receive from the one channel.  \<open>deals\<close> lists what was taken from it, each with
  the number of the streamer that took it.
\<close>

definition dealt :: "(nat \<times> 'a) list \<Rightarrow> nat \<Rightarrow> 'a list" where
  "dealt deals d = map snd (filter (\<lambda>(c, x). c = d) deals)"

lemma mset_concat_upt: "mset (concat (map f [0..<n])) = (\<Sum>d<n. mset (f d))"
  by (induction n) (simp_all add: add.commute)

lemma dealt_subseq: "subseq (dealt deals d) (map snd deals)"
  by (simp add: dealt_def subseq_map)

lemma dealt_once: "(\<Sum>d<n. mset (dealt deals d)) \<subseteq># mset (map snd deals)"
proof (induction deals)
  case (Cons a deals)
  obtain c x where a: "a = (c, x)" by (cases a)
  have "mset (dealt (a # deals) d) = (if d = c then {#x#} else {#}) + mset (dealt deals d)" for d
    by (simp add: dealt_def a)
  then have "(\<Sum>d<n. mset (dealt (a # deals) d)) = (if c < n then {#x#} else {#}) + (\<Sum>d<n. mset (dealt deals d))"
    by (simp add: sum.distrib sum.delta)
  also have "\<dots> \<subseteq># {#x#} + mset (map snd deals)"
    by (rule subset_mset.add_mono [OF _ Cons.IH]) simp
  finally show ?case by (simp add: a)
qed (simp add: dealt_def)

lemma sum_subset_mset: "(\<And>d. d < n \<Longrightarrow> f d \<subseteq># g d) \<Longrightarrow> (\<Sum>d<n. f d) \<subseteq># (\<Sum>d<n. g d :: 'a multiset)" for n :: nat
  by (induction n) (auto intro: subset_mset.add_mono)

text \<open>
  C14. Log lines are handed over in the order in which the containers and the builds offered them, none twice,
  through any number of lost connections.  However the streamers of all connections share what is taken
  from the collector's channel, what each of them hands to gRPC (\<^verbatim>\<open>Send\<close> returned no error) is a
  subsequence of what was offered, and together they hand over nothing more often than it was offered.
  Each streamer has at most one send that fails per pause, besides the last, and a pause takes five to eight
  seconds.
\<close>

theorem log_lines_sent_in_order:
  assumes "collector_run as collector0 = Some s" and "map snd deals = ch_taken (co_outCh s)"
    and "\<And>d. runLogStreamer (sds d) (es d) = (lg d, waits d, rest d)" and "\<And>d. messages (es d) = dealt deals d"
  shows "subseq (handed (lg d)) (ch_offered (co_outCh s)) \<and>
    mset (concat (map (\<lambda>d. handed (lg d)) [0..<n])) \<subseteq># mset (ch_offered (co_outCh s)) \<and>
    length (failures (lg d)) \<le> length (waits d) + 1 \<and>
    (\<forall>w \<in> set (waits d). streamReconnectWait \<le> w \<and> w < streamReconnectWait + 3 * second)"
proof (intro conjI)
  have taken: "subseq (ch_taken (co_outCh s)) (ch_offered (co_outCh s))"
    by (rule subseq_order.trans [OF _ log_lines_ordered [OF assms(1)]]) (simp add: prefix_imp_subseq)
  have part: "subseq (handed (lg d)) (dealt deals d)" for d
  proof -
    have "run_streamer StreamLogs (sds d) (es d) = (lg d, waits d, rest d)" using assms(3) by (simp add: runLogStreamer_def)
    from logs.run_received [OF this] have "dealt deals d = map fst (lg d) @ messages (rest d)" by (simp add: assms(4))
    with handed_subseq [of "lg d"] prefix_imp_subseq [of "map fst (lg d)" "map fst (lg d) @ messages (rest d)"]
    show ?thesis by (auto intro: subseq_order.trans)
  qed
  show "subseq (handed (lg d)) (ch_offered (co_outCh s))"
    using subseq_order.trans [OF part dealt_subseq] taken unfolding assms(2) by (rule subseq_order.trans)
  have "(\<Sum>d<n. mset (handed (lg d))) \<subseteq># (\<Sum>d<n. mset (dealt deals d))"
    by (rule sum_subset_mset) (rule subseq_mset [OF part])
  also have "\<dots> \<subseteq># mset (ch_taken (co_outCh s))" using dealt_once [of deals n] by (simp only: assms(2))
  also have "\<dots> \<subseteq># mset (ch_offered (co_outCh s))" by (rule subseq_mset [OF taken])
  finally show "mset (concat (map (\<lambda>d. handed (lg d)) [0..<n])) \<subseteq># mset (ch_offered (co_outCh s))"
    by (simp only: mset_concat_upt)
  have "run_streamer StreamLogs (sds d) (es d) = (lg d, waits d, rest d)" using assms(3) by (simp add: runLogStreamer_def)
  from logs.run_failures [OF this] show "length (failures (lg d)) \<le> length (waits d) + 1"
    "\<forall>w \<in> set (waits d). streamReconnectWait \<le> w \<and> w < streamReconnectWait + 3 * second" by blast+
qed

text \<open>
   A line that is not valid UTF-8 stops the log stream: the collector does not sanitise lines and the
  marshaller refuses such a string, so it is not handed over, and each one received costs a reconnection;
  while \<open>n\<close> of them are received the stream pauses for at least five seconds for all but one of them.
\<close>

theorem invalid_lines_stall_logs:
  assumes "runLogStreamer sds es = (lg, waits, rest)"
    and "\<forall>sd \<in> set sds. \<forall>n e. sd_send sd n e = None \<longrightarrow> ValidString (le_Line e)"
  shows "(\<forall>e \<in> set (handed lg). ValidString (le_Line e)) \<and>
    streamReconnectWait * (int (length (filter (\<lambda>e. \<not> ValidString (le_Line e)) (map fst lg))) - 1) \<le> sum_list waits"
proof -
  from assms(1) have run: "run_streamer StreamLogs sds es = (lg, waits, rest)" by (simp add: runLogStreamer_def)
  have valid: "ValidString (le_Line e)" if "(e, True) \<in> set lg" for e
    using logs.run_refused [OF run that] assms(2) by blast
  then have "length (filter (\<lambda>e. \<not> ValidString (le_Line e)) (map fst lg)) \<le> length (failures lg)"
    unfolding failures_def
  proof (induction lg)
    case (Cons x lg)
    then show ?case by (cases x; cases "snd x") auto
  qed simp
  moreover from logs.run_failures [OF run] have "length (failures lg) \<le> length waits + 1" by blast
  ultimately have "int (length (filter (\<lambda>e. \<not> ValidString (le_Line e)) (map fst lg))) - 1 \<le> int (length waits)"
    by linarith
  moreover have "streamReconnectWait * int (length ws) \<le> sum_list ws" if "\<forall>w \<in> set ws. streamReconnectWait \<le> w" for ws
    using that by (induction ws) (auto simp: algebra_simps)
  moreover from logs.run_failures [OF run] have "\<forall>w \<in> set waits. streamReconnectWait \<le> w" by blast
  ultimately have "streamReconnectWait * (int (length (filter (\<lambda>e. \<not> ValidString (le_Line e)) (map fst lg))) - 1)
      \<le> sum_list waits"
    by (smt (verit) mult_left_mono streamReconnectWait_def second_def)
  moreover have "\<forall>e \<in> set (handed lg). ValidString (le_Line e)"
    using valid by (auto simp: handed_def)
  ultimately show ?thesis by blast
qed

subsection \<open>Witnesses\<close>

definition sample_sender :: "LogEntry sender" where
  "sample_sender = \<lparr>sd_open = None,
     sd_send = (\<lambda>n e. if ValidString (le_Line e) then None else Some ''string field contains invalid UTF-8''),
     sd_close = None, sd_ended = False, sd_random = 0, sd_pauseEnds = False\<rparr>"

definition sample_entry :: "string \<Rightarrow> LogEntry" where
  "sample_entry l = \<lparr>le_DeploymentId = ''deployment-1'', le_ContainerId = ''c1'', le_Line = l, le_TimestampNs = 0,
     le_Stream = ''stdout''\<rparr>"


lemma sample_run:
  "runLogStreamer [sample_sender, sample_sender] [Message (sample_entry [CHR 0xFF]), Message (sample_entry ''up'')] =
   ([(sample_entry [CHR 0xFF], False), (sample_entry ''up'', True)], [5000000000], [])"
  by code_simp

lemma sample_refuses:
  "\<forall>sd \<in> set [sample_sender, sample_sender]. \<forall>n e. sd_send sd n e = None \<longrightarrow> ValidString (le_Line e)"
  by (simp add: sample_sender_def split: if_split)

lemma invalid_lines_stall_logs_witness:
  "list_all (\<lambda>e. ValidString (le_Line e)) (handed [(sample_entry [CHR 0xFF], False), (sample_entry ''up'', True)])"
  unfolding list_all_iff by (rule conjunct1 [OF invalid_lines_stall_logs [OF sample_run sample_refuses]])

definition sample_collector :: collector where
  "sample_collector = (let e = sample_entry ''up'' in
     collector0\<lparr>co_outCh := \<lparr>ch_buffer = [], ch_offered = [e], ch_lost = [], ch_taken = [e]\<rparr>\<rparr>)"

lemma sample_injected: "collector_run [InjectEntry (sample_entry ''up''), TakeEntry] collector0 = Some sample_collector"
  by (simp add: sample_collector_def Inject_def offer_def receive_def collector0_def empty_channel_def channelSize_def Let_def)

lemma sample_delivery:
  "runLogStreamer [sample_sender] [Message (sample_entry ''up'')] = ([(sample_entry ''up'', True)], [], [])"
  by code_simp

text \<open>Streamer 1 takes the line that was offered; the other streamers take nothing.\<close>

lemma log_lines_sent_in_order_witness:
  "subseq (handed [(sample_entry ''up'', True)]) (ch_offered (co_outCh sample_collector))"
proof -
  let ?deals = "[(1, sample_entry ''up'')]"
  let ?sds = "\<lambda>d :: nat. if d = 1 then [sample_sender] else []" and ?es = "\<lambda>d :: nat. if d = 1 then [Message (sample_entry ''up'')] else []"
  let ?lg = "\<lambda>d :: nat. if d = 1 then [(sample_entry ''up'', True)] else []"
  have deals: "map snd ?deals = ch_taken (co_outCh sample_collector)" by (simp add: sample_collector_def Let_def)
  have runs: "runLogStreamer (?sds d) (?es d) = (?lg d, [], [])" for d
    using sample_delivery by (simp add: runLogStreamer_def)
  have share: "messages (?es d) = dealt ?deals d" for d by (simp add: dealt_def)
  from log_lines_sent_in_order [OF sample_injected deals runs share, of 1 2] show ?thesis by simp
qed

end
