(* ===== verification/Agent_Loop.thy ===== *)
theory Agent_Loop
  imports Control_Stream Docker_Client Credentials Telemetry_Streams
begin

text \<open>
  The agent's main loop: \<^verbatim>\<open>Run\<close>, \<^verbatim>\<open>connectAndStream\<close> and the heartbeats of
  \<^verbatim>\<open>internal/agent/agent.go\<close>, and the dispatch of \<^verbatim>\<open>ReceiveCommands\<close>
  (\<^verbatim>\<open>internal/grpcclient/stream.go\<close>).  What the loop learns from outside (the context, the
  network, the outcome of a credential recovery) is an operation of \<open>agent_env\<close>; one turn of the
  loop is \<open>iteration\<close>, and \<open>loop_reachable\<close> are the states it can be in at the start of a turn.
  The housekeeping of networks runs on the Docker manager of \<open>Docker_Client\<close>.
\<close>

definition heartbeatInterval :: int where "heartbeatInterval = 30 * second"
definition reconnectBaseWait :: int where "reconnectBaseWait = 2 * second"
definition reconnectMaxWait :: int where "reconnectMaxWait = 60 * second"

text \<open>How a connection ends: \<^verbatim>\<open>ErrCredentialRotated\<close> is recognised by identity, others by text.\<close>

datatype stream_error = CredentialRotated | StreamError string

fun error_text :: "stream_error \<Rightarrow> string" where
  "error_text CredentialRotated = ''credential rotation activated''"
| "error_text (StreamError t) = t"

definition isExpectedDisconnect :: "stream_error \<Rightarrow> bool" where
  "isExpectedDisconnect err \<longleftrightarrow> Contains (error_text err) ''524'' \<or> Contains (error_text err) ''RST_STREAM''"

definition isAuthenticationFailure :: "stream_error option \<Rightarrow> bool" where
  "isAuthenticationFailure err = (case err of
     None \<Rightarrow> False
   | Some e \<Rightarrow> (let msg = ToLower (error_text e) in
       Contains msg ''unauthenticated'' \<or> Contains msg ''permissiondenied'' \<or> Contains msg ''permission denied''))"

subsection \<open>Dispatch of commands\<close>

datatype 'c control_message = PingMsg | DeployMsg 'c | ContainerMsg 'c | TunnelMsg 'c | UpdateMsg 'c | EndpointMsg 'c
  | BackupMsg 'c | PushImageMsg 'c | MaintenanceMsg 'c | RotationMsg 'c | UnknownMsg

datatype 'c received = Received "'c control_message" | EOF | RecvError string

record command_handlers =
  has_OnDeploy :: bool
  has_OnContainerCommand :: bool
  has_OnTunnelConfig :: bool
  has_OnUpdate :: bool
  has_OnEndpoint :: bool
  has_OnBackup :: bool
  has_OnPushImage :: bool
  has_OnMaintenance :: bool
  has_OnCredentialRotation :: bool

text \<open>The handler a message is given to, in a goroutine of its own that recovers from panics.\<close>

fun handled :: "command_handlers \<Rightarrow> 'c control_message \<Rightarrow> bool" where
  "handled hs (DeployMsg c) = has_OnDeploy hs"
| "handled hs (ContainerMsg c) = has_OnContainerCommand hs"
| "handled hs (TunnelMsg c) = has_OnTunnelConfig hs"
| "handled hs (UpdateMsg c) = has_OnUpdate hs"
| "handled hs (EndpointMsg c) = has_OnEndpoint hs"
| "handled hs (BackupMsg c) = has_OnBackup hs"
| "handled hs (PushImageMsg c) = has_OnPushImage hs"
| "handled hs (MaintenanceMsg c) = has_OnMaintenance hs"
| "handled hs m = False"

datatype receive_end = Closed | Failed_with stream_error | Still_open

text \<open>
  The loop over what \<^verbatim>\<open>Recv\<close> answers; \<open>onRotation\<close> is the rotation handler, which runs in the loop
  itself.  The result: the messages handed to goroutines, in order, and how the loop ended, if it did.
\<close>

fun ReceiveCommands :: "command_handlers \<Rightarrow> ('c \<Rightarrow> 's \<Rightarrow> bool \<times> 's) \<Rightarrow> 'c received list \<Rightarrow> 's
    \<Rightarrow> 'c control_message list \<times> receive_end \<times> 's" where
  "ReceiveCommands hs onRotation [] s = ([], Still_open, s)"
| "ReceiveCommands hs onRotation (EOF # rs) s = ([], Closed, s)"
| "ReceiveCommands hs onRotation (RecvError e # rs) s = ([], Failed_with (StreamError (''receiving command: '' @ e)), s)"
| "ReceiveCommands hs onRotation (Received m # rs) s =
     (case m of
        RotationMsg c \<Rightarrow>
          (case if has_OnCredentialRotation hs then onRotation c s else (False, s) of
             (True, s') \<Rightarrow> ([], Failed_with CredentialRotated, s')
           | (False, s') \<Rightarrow> ReceiveCommands hs onRotation rs s')
      | _ \<Rightarrow> (case ReceiveCommands hs onRotation rs s of
          (ms, r, s') \<Rightarrow> (if handled hs m then m # ms else ms, r, s')))"

subsection \<open>One connection\<close>

datatype agent_event =
    Recovery bool "go_error option"
  | CtxChecked bool
  | Waited int bool                 \<comment> \<open>how long, and whether the context ended first\<close>
  | Drew
  | Credentials_read
  | Dialled bool
  | ConnClosed
  | StreamOpened bool
  | StreamAttached | StreamDetached | Drained
  | StreamEnded
  | HeartbeatSent bool | InfoCollected | RenewalAsked | Ticked bool

record 'w agent_env =
  ae_ctx_err :: "(bool, 'w) op"
  ae_select :: "int \<Rightarrow> (bool, 'w) op"       \<comment> \<open>the context against a timer: whether the context ended\<close>
  ae_rand :: "(int, 'w) op"
  ae_recover :: "bool \<Rightarrow> (go_error option, 'w) op"
  ae_credentials :: "(Config, 'w) op"
  ae_TransportCredentials :: "(unit result, 'w) op"
  ae_Dial :: "bool \<Rightarrow> string \<Rightarrow> (unit result, 'w) op"   \<comment> \<open>with a token or with certificates\<close>
  ae_OpenConnectStream :: "(unit result, 'w) op"
  ae_attach :: "(unit, 'w) op"
  ae_detach :: "(unit, 'w) op"
  ae_drain :: "(unit, 'w) op"
  ae_stream_end :: "bool \<Rightarrow> (stream_error option option, 'w) op"  \<comment> \<open>the first answer of heartbeats or receiver, or the context\<close>
  ae_conn_close :: "(unit, 'w) op"
  ae_collectInfo :: "(unit, 'w) op"
  ae_SendHeartbeat :: "(go_error option, 'w) op"
  ae_request_renewal :: "(go_error option, 'w) op"
  ae_tick :: "(bool, 'w) op"                \<comment> \<open>a tick, or the end of the context\<close>

type_synonym ('w, 'a) agent = "(agent_event, 'w, 'a) rigged"

definition pause :: "'w agent_env \<Rightarrow> int \<Rightarrow> ('w, bool) agent" where
  "pause env d = State (\<lambda>s. case ae_select env d (rg_world s) of (cancelled, late, w) \<Rightarrow>
     (cancelled, s\<lparr>rg_world := w, rg_clock := rg_clock s + (if cancelled then 0 else max 0 d) + int late,
        rg_trace := rg_trace s @ [Waited d cancelled]\<rparr>))"

definition dial :: "'w agent_env \<Rightarrow> ('w, unit result) agent" where
  "dial env = do {
     cfg \<leftarrow> call (\<lambda>_. Credentials_read) (ae_credentials env);
     creds \<leftarrow> (if cf_AuthMode cfg = ''token'' then State_Monad.return (Inr ())
       else call (\<lambda>_. Credentials_read) (ae_TransportCredentials env));
     (case creds of
        Inl err \<Rightarrow> State_Monad.return (Inl (''loading TLS credentials: '' @ err))
      | Inr _ \<Rightarrow> do {
          conn \<leftarrow> call (\<lambda>r. Dialled (is_ok r)) (ae_Dial env (cf_AuthMode cfg = ''token'') (cf_GRPCEndpoint cfg));
          State_Monad.return (case conn of
              Inl err \<Rightarrow> Inl (''dialing '' @ cf_GRPCEndpoint cfg @ '': '' @ err)
            | Inr _ \<Rightarrow> Inr ()) }) }"

definition stream_on :: "'w agent_env \<Rightarrow> bool \<Rightarrow> ('w, stream_error option) agent" where
  "stream_on env quiet = do {
     raw \<leftarrow> call (\<lambda>r. StreamOpened (is_ok r)) (ae_OpenConnectStream env);
     (case raw of
        Inl err \<Rightarrow> State_Monad.return (Some (StreamError (''opening stream: '' @ ''opening Connect stream: '' @ err)))
      | Inr _ \<Rightarrow> do {
          _ \<leftarrow> call (\<lambda>_. StreamAttached) (ae_attach env);
          _ \<leftarrow> call (\<lambda>_. Drained) (ae_drain env);
          first \<leftarrow> call (\<lambda>_. StreamEnded) (ae_stream_end env quiet);
          _ \<leftarrow> call (\<lambda>_. StreamDetached) (ae_detach env);
          State_Monad.return (case first of None \<Rightarrow> None | Some err \<Rightarrow> err) }) }"

definition connectAndStream :: "'w agent_env \<Rightarrow> bool \<Rightarrow> ('w, stream_error option) agent" where
  "connectAndStream env quiet = do {
     conn \<leftarrow> dial env;
     (case conn of
        Inl err \<Rightarrow> State_Monad.return (Some (StreamError err))
      | Inr _ \<Rightarrow> do {
          err \<leftarrow> stream_on env quiet;
          _ \<leftarrow> call (\<lambda>_. ConnClosed) (ae_conn_close env);
          State_Monad.return err }) }"

subsection \<open>The loop\<close>

record loop_state =
  ls_wait :: int
  ls_quiet :: bool

datatype turn_outcome = Continue loop_state | RunReturned | RunPanicked

text \<open>\<^verbatim>\<open>rand.Int63n\<close> panics unless its argument is positive.\<close>

definition Int63n :: "'w agent_env \<Rightarrow> int \<Rightarrow> ('w, int option) agent" where
  "Int63n env n = (if n \<le> 0 then State_Monad.return None
     else do { v \<leftarrow> call (\<lambda>_. Drew) (ae_rand env); State_Monad.return (Some (v mod n)) })"

definition back_off :: "'w agent_env \<Rightarrow> bool \<Rightarrow> int \<Rightarrow> ('w, turn_outcome) agent" where
  "back_off env healthyConn wait = do {
     jittered \<leftarrow> Int63n env wait;
     (case jittered of
        None \<Rightarrow> State_Monad.return RunPanicked
      | Some d \<Rightarrow> do {
          stopped \<leftarrow> pause env d;
          State_Monad.return (if stopped then RunReturned
            else Continue \<lparr>ls_wait = (if healthyConn then wait
                else if wait * 2 > reconnectMaxWait then reconnectMaxWait else wait * 2),
              ls_quiet = False\<rparr>) }) }"

definition reconnect :: "'w agent_env \<Rightarrow> int \<Rightarrow> int \<Rightarrow> stream_error option \<Rightarrow> ('w, turn_outcome) agent" where
  "reconnect env connStart wait err = do {
     t \<leftarrow> now;
     (let healthyConn = t - connStart \<ge> heartbeatInterval;
          expectedDisconnect = (case err of None \<Rightarrow> False | Some e \<Rightarrow> isExpectedDisconnect e);
          silentReconnect = (expectedDisconnect \<and> healthyConn);
          wait = (if healthyConn then reconnectBaseWait else wait) in
      if silentReconnect then State_Monad.return (Continue \<lparr>ls_wait = wait, ls_quiet = True\<rparr>)
      else back_off env healthyConn wait) }"

definition after_stream :: "'w agent_env \<Rightarrow> int \<Rightarrow> int \<Rightarrow> stream_error option \<Rightarrow> ('w, turn_outcome) agent" where
  "after_stream env connStart wait err =
     (if err = Some CredentialRotated then State_Monad.return (Continue \<lparr>ls_wait = reconnectBaseWait, ls_quiet = True\<rparr>)
      else if isAuthenticationFailure err then do {
        recoverErr \<leftarrow> call (Recovery True) (ae_recover env True);
        (if recoverErr = None then State_Monad.return (Continue \<lparr>ls_wait = reconnectBaseWait, ls_quiet = False\<rparr>)
         else reconnect env connStart wait err) }
      else reconnect env connStart wait err)"

definition connect_turn :: "'w agent_env \<Rightarrow> loop_state \<Rightarrow> ('w, turn_outcome) agent" where
  "connect_turn env st = do {
     connStart \<leftarrow> now;
     err \<leftarrow> connectAndStream env (ls_quiet st);
     ended \<leftarrow> call CtxChecked (ae_ctx_err env);
     (if ended then State_Monad.return RunReturned
      else after_stream env connStart (ls_wait st) err) }"

definition recovery_pending :: "'w agent_env \<Rightarrow> loop_state \<Rightarrow> ('w, turn_outcome) agent" where
  "recovery_pending env st = do {
     stopped \<leftarrow> pause env (ls_wait st);
     State_Monad.return (if stopped then RunReturned
       else Continue (st\<lparr>ls_wait := (if ls_wait st < reconnectMaxWait then ls_wait st * 2 else ls_wait st)\<rparr>)) }"

definition iteration :: "'w agent_env \<Rightarrow> loop_state \<Rightarrow> ('w, turn_outcome) agent" where
  "iteration env st = do {
     recoverErr \<leftarrow> call (Recovery False) (ae_recover env False);
     (if recoverErr \<noteq> None then recovery_pending env st else connect_turn env st) }"

definition loop_start :: loop_state where
  "loop_start = \<lparr>ls_wait = reconnectBaseWait, ls_quiet = False\<rparr>"

text \<open>The loop, for at most \<open>n\<close> turns.\<close>

fun turns :: "'w agent_env \<Rightarrow> nat \<Rightarrow> loop_state \<Rightarrow> ('w, turn_outcome) agent" where
  "turns env 0 st = State_Monad.return (Continue st)"
| "turns env (Suc n) st = do {
     r \<leftarrow> iteration env st;
     (case r of Continue st' \<Rightarrow> turns env n st' | ended \<Rightarrow> State_Monad.return ended) }"

inductive loop_reachable :: "'w agent_env \<Rightarrow> loop_state \<Rightarrow> bool" for env where
  starts: "loop_reachable env loop_start"
| turn: "loop_reachable env st \<Longrightarrow> run_state (iteration env st) s = (Continue st', s') \<Longrightarrow> loop_reachable env st'"

subsection \<open>How long the loop waits\<close>

lemma pause_eq: "run_state (pause env d) s = (c, s') \<Longrightarrow>
    rg_trace s' = rg_trace s @ [Waited d c] \<and> rg_clock s \<le> rg_clock s' \<and> c = fst (ae_select env d (rg_world s))"
  by (auto simp: pause_def split: prod.splits if_splits)

lemma yields_pause: "(\<And>c. R c [Waited d c]) \<Longrightarrow> yields R (pause env d)"
  by (rule yieldsI) (auto dest!: pause_eq)

lemma yields_pause_then:
  assumes "\<And>c. yields (\<lambda>b evs. S b (Waited d c # evs)) (f c)"
  shows "yields S (State_Monad.bind (pause env d) f)"
  by (rule yields_bind [OF yields_pause [where R = "\<lambda>r evs. evs = [Waited d r]"]]) (simp_all add: assms)

lemma yields_now_then: "(\<And>t. yields S (f t)) \<Longrightarrow> yields S (State_Monad.bind now f)"
  by (rule yields_bind [OF yields_now [where R = "\<lambda>t evs. evs = []"]]) simp_all

lemma yields_Int63n:
  assumes "0 < n" "\<And>d. 0 \<le> d \<Longrightarrow> d < n \<Longrightarrow> yields (\<lambda>b evs. S b (Drew # evs)) (f (Some d))"
  shows "yields S (State_Monad.bind (Int63n env n) f)"
proof (rule yields_bind)
  show "yields (\<lambda>r evs. \<exists>d. r = Some d \<and> 0 \<le> d \<and> d < n \<and> evs = [Drew]) (Int63n env n)"
    unfolding Int63n_def using assms(1) by (auto intro!: yields_rules)
qed (auto intro: assms(2))

definition waits :: "int set" where
  "waits = (\<lambda>n. n * second) ` {2, 4, 8, 16, 32, 60, 64}"

lemma waits_pos: "w \<in> waits \<Longrightarrow> 0 < w \<and> w \<le> 64 * second"
  by (auto simp: waits_def second_def)

lemma waits_doubled: "w \<in> waits \<Longrightarrow> (if w * 2 > reconnectMaxWait then reconnectMaxWait else w * 2) \<in> waits"
  by (auto simp: waits_def reconnectMaxWait_def second_def)

lemma waits_doubled_pending: "w \<in> waits \<Longrightarrow> (if w < reconnectMaxWait then w * 2 else w) \<in> waits"
  by (auto simp: waits_def reconnectMaxWait_def second_def)

lemma base_in_waits: "reconnectBaseWait \<in> waits"
  by (auto simp: waits_def reconnectBaseWait_def second_def)

text \<open>What a turn keeps: the next wait is one of \<open>waits\<close>, no pause is longer than the largest of them, no panic.\<close>

definition short_wait :: "agent_event \<Rightarrow> bool" where
  "short_wait e \<longleftrightarrow> (case e of Waited d c \<Rightarrow> 0 \<le> d \<and> d \<le> 64 * second | _ \<Rightarrow> True)"

fun steady :: "turn_outcome \<Rightarrow> agent_event list \<Rightarrow> bool" where
  "steady (Continue st) evs \<longleftrightarrow> ls_wait st \<in> waits \<and> list_all short_wait evs"
| "steady RunReturned evs \<longleftrightarrow> list_all short_wait evs"
| "steady RunPanicked evs \<longleftrightarrow> False"

lemma short_wait_simps [simp]: "short_wait (Recovery f e)" "short_wait (CtxChecked c)" "short_wait Drew" "short_wait Credentials_read"
    "short_wait (Dialled b)" "short_wait ConnClosed" "short_wait (StreamOpened b)" "short_wait StreamAttached"
    "short_wait StreamDetached" "short_wait Drained" "short_wait StreamEnded"
    "short_wait (Waited d c) \<longleftrightarrow> 0 \<le> d \<and> d \<le> 64 * second"
  by (simp_all add: short_wait_def)

lemma steady_prefix: "list_all short_wait evs \<Longrightarrow> steady r evs' \<Longrightarrow> steady r (evs @ evs')"
  by (cases r) auto

lemma steady_then: "emits short_wait m \<Longrightarrow> (\<And>a. yields steady (f a)) \<Longrightarrow> yields steady (State_Monad.bind m f)"
  by (rule yields_prefix [where P = short_wait]) (simp_all add: steady_prefix)

lemma connection_short: "emits short_wait (connectAndStream env quiet)"
  unfolding connectAndStream_def dial_def stream_on_def by (intro emits_rules) simp_all

lemma back_off_steady: "w \<in> waits \<Longrightarrow> yields steady (back_off env hc w)"
  unfolding back_off_def using waits_pos [of w] waits_doubled [of w]
  by (intro yields_Int63n) (auto intro!: yields_pause_then yields_return)

lemma reconnect_steady: "w \<in> waits \<Longrightarrow> yields steady (reconnect env start w err)"
  unfolding reconnect_def Let_def
  by (intro yields_now_then yields_if back_off_steady yields_return) (simp_all add: base_in_waits)

lemma after_stream_steady: "w \<in> waits \<Longrightarrow> yields steady (after_stream env start w err)"
  unfolding after_stream_def
  by (intro yields_if steady_then reconnect_steady emits_call yields_return) (simp_all add: base_in_waits)

lemma iteration_steady:
  assumes "ls_wait st \<in> waits"
  shows "yields steady (iteration env st)"
proof -
  have "yields steady (connect_turn env st)"
    unfolding connect_turn_def
    by (intro yields_now_then steady_then connection_short emits_call yields_if after_stream_steady yields_return)
      (simp_all add: assms)
  moreover have "yields steady (recovery_pending env st)"
    unfolding recovery_pending_def using waits_pos [OF assms] waits_doubled_pending [OF assms]
    by (auto intro!: yields_pause_then yields_return)
  ultimately show ?thesis
    unfolding iteration_def by (intro steady_then emits_call yields_if) simp_all
qed

lemma reachable_wait: "loop_reachable env st \<Longrightarrow> ls_wait st \<in> waits"
proof (induction rule: loop_reachable.induct)
  case starts
  then show ?case by (simp add: loop_start_def base_in_waits)
next
  case (turn st s st' s')
  then show ?case using yields_run [OF iteration_steady [OF turn.IH] turn.hyps(2)] by auto
qed

text \<open>
  C13. Wherever the main loop is, its wait is 2, 4, 8, 16, 32, 60 or 64 seconds; a turn never panics
  on the jitter and never pauses longer than 64 seconds.
\<close>

theorem loop_waits_bounded:
  assumes "loop_reachable env st"
  shows "ls_wait st \<in> (\<lambda>n. n * 1000000000) ` {2, 4, 8, 16, 32, 60, 64} \<and>
    yields (\<lambda>r evs. r \<noteq> RunPanicked \<and> list_all (\<lambda>e. \<forall>d c. e = Waited d c \<longrightarrow> 0 \<le> d \<and> d \<le> 64 * 1000000000) evs)
      (iteration env st)"
proof
  have w: "ls_wait st \<in> waits" by (rule reachable_wait [OF assms])
  then show "ls_wait st \<in> (\<lambda>n. n * 1000000000) ` {2, 4, 8, 16, 32, 60, 64}" by (simp add: waits_def second_def)
  have "list_all (\<lambda>e. \<forall>d c. e = Waited d c \<longrightarrow> 0 \<le> d \<and> d \<le> 64 * 1000000000) evs" if "list_all short_wait evs" for evs
    using that by (auto simp: list_all_iff short_wait_def second_def)
  then show "yields (\<lambda>r evs. r \<noteq> RunPanicked \<and> list_all (\<lambda>e. \<forall>d c. e = Waited d c \<longrightarrow> 0 \<le> d \<and> d \<le> 64 * 1000000000) evs)
      (iteration env st)"
    by (intro yields_mono [OF iteration_steady [OF w]]) (elim steady.elims, auto)
qed

subsection \<open>Failing fast\<close>

lemma run_pause: "fst (ae_select env d (rg_world s)) = c \<Longrightarrow> fst (run_state (pause env d) s) = c"
  by (auto simp: pause_def split: prod.split)

lemma back_off_doubles:
  assumes "0 < w" "\<And>d v. fst (ae_select env d v) = False"
  shows "fst (run_state (back_off env False w) s) =
    Continue \<lparr>ls_wait = (if w * 2 > reconnectMaxWait then reconnectMaxWait else w * 2), ls_quiet = False\<rparr>"
proof -
  have "fst (run_state (pause env d) s') = False" for d s' using assms(2) by (rule run_pause)
  then show ?thesis
    using assms(1) by (simp add: back_off_def Int63n_def run_state_bind run_call split: prod.split)
      (metis fst_conv)
qed

lemma failing_turn:
  assumes recovered: "\<And>v. fst (ae_recover env False v) = None"
    and running: "\<And>v. \<exists>v'. ae_ctx_err env v = (False, 0, v')" "\<And>d v. fst (ae_select env d v) = False"
    and refused: "\<And>q s err s'. run_state (connectAndStream env q) s = (err, s') \<Longrightarrow>
      err \<noteq> Some CredentialRotated \<and> \<not> isAuthenticationFailure err \<and> rg_clock s' - rg_clock s < heartbeatInterval"
    and w: "0 < ls_wait st"
  shows "fst (run_state (iteration env st) s) =
    Continue \<lparr>ls_wait = (if ls_wait st * 2 > reconnectMaxWait then reconnectMaxWait else ls_wait st * 2), ls_quiet = False\<rparr>"
proof -
  define s1 where "s1 = snd (run_state (call (Recovery False) (ae_recover env False)) s)"
  have turn: "run_state (iteration env st) s = run_state (connect_turn env st) s1"
    using recovered [of "rg_world s"] by (simp add: iteration_def run_state_bind run_call s1_def)
  obtain err s2 where c: "run_state (connectAndStream env (ls_quiet st)) s1 = (err, s2)" by fastforce
  obtain v where v: "ae_ctx_err env (rg_world s2) = (False, 0, v)" using running(1) by blast
  define s3 where "s3 = snd (run_state (call CtxChecked (ae_ctx_err env)) s2)"
  have clock: "rg_clock s3 = rg_clock s2" by (simp add: s3_def run_call v)
  have "run_state (connect_turn env st) s1 = run_state (after_stream env (rg_clock s1) (ls_wait st) err) s3"
    by (simp add: connect_turn_def run_state_bind run_now c) (simp add: run_call v s3_def)
  also have "\<dots> = run_state (reconnect env (rg_clock s1) (ls_wait st) err) s3"
    using refused [OF c] by (simp add: after_stream_def)
  also have "\<dots> = run_state (back_off env False (ls_wait st)) s3"
    using refused [OF c] by (simp add: reconnect_def run_state_bind run_now clock Let_def)
  finally show ?thesis using turn back_off_doubles [OF w running(2)] by simp
qed

lemma doubled_min: "(if min a m * 2 > m then m else min a m * 2) = min (2 * a) (m :: int)" if "0 < m"
  using that by auto

text \<open>
  While every attempt to connect fails within thirty seconds, for a reason other than the
  credentials, the wait after \<open>n\<close> failures is the smaller of two to the power \<open>n + 1\<close> and sixty seconds.
\<close>

theorem rapid_failures_back_off:
  assumes "\<And>v. fst (ae_recover env False v) = None"
    and "\<And>v. \<exists>v'. ae_ctx_err env v = (False, 0, v')" "\<And>d v. fst (ae_select env d v) = False"
    and "\<And>q s err s'. run_state (connectAndStream env q) s = (err, s') \<Longrightarrow>
      err \<noteq> Some CredentialRotated \<and> \<not> isAuthenticationFailure err \<and> rg_clock s' - rg_clock s < heartbeatInterval"
  shows "fst (run_state (turns env n loop_start) s) = Continue \<lparr>ls_wait = min (2 ^ (n + 1)) 60 * second, ls_quiet = False\<rparr>"
proof -
  have "fst (run_state (turns env n \<lparr>ls_wait = min (2 ^ (k + 1) * second) reconnectMaxWait, ls_quiet = False\<rparr>) s) =
      Continue \<lparr>ls_wait = min (2 ^ (k + n + 1) * second) reconnectMaxWait, ls_quiet = False\<rparr>" for k
  proof (induction n arbitrary: k s)
    case (Suc n)
    let ?st = "\<lparr>ls_wait = min (2 ^ (k + 1) * second) reconnectMaxWait, ls_quiet = False\<rparr>"
    have pos: "0 < ls_wait ?st" "0 < reconnectMaxWait" by (simp_all add: second_def reconnectMaxWait_def)
    have "fst (run_state (iteration env ?st) s) =
        Continue \<lparr>ls_wait = (if ls_wait ?st * 2 > reconnectMaxWait then reconnectMaxWait else ls_wait ?st * 2), ls_quiet = False\<rparr>"
      by (rule failing_turn [OF assms(1-3) _ pos(1)]) (rule assms(4))
    also have "(if ls_wait ?st * 2 > reconnectMaxWait then reconnectMaxWait else ls_wait ?st * 2) =
        min (2 ^ (Suc k + 1) * second) reconnectMaxWait"
      unfolding loop_state.select_convs doubled_min [OF pos(2)] by (simp add: mult.assoc)
    finally have "fst (run_state (iteration env ?st) s) =
        Continue \<lparr>ls_wait = min (2 ^ (Suc k + 1) * second) reconnectMaxWait, ls_quiet = False\<rparr>" .
    with Suc.IH [of "Suc k"] show ?case by (cases "run_state (iteration env ?st) s") (simp add: run_state_bind)
  qed simp
  from this [of 0] show ?thesis
    by (simp add: loop_start_def reconnectBaseWait_def reconnectMaxWait_def second_def)
qed

subsection \<open>Turns without a wait\<close>

definition never_waited :: "agent_event list \<Rightarrow> bool" where
  "never_waited evs \<longleftrightarrow> list_all (\<lambda>e. case e of Waited d c \<Rightarrow> False | _ \<Rightarrow> True) evs"

definition attempts :: "agent_event list \<Rightarrow> nat" where
  "attempts evs = length (filter (\<lambda>e. case e of CtxChecked c \<Rightarrow> True | _ \<Rightarrow> False) evs)"

lemma never_waited_append [simp]: "never_waited (es @ fs) \<longleftrightarrow> never_waited es \<and> never_waited fs"
  by (simp add: never_waited_def)

lemma attempts_append [simp]: "attempts (es @ fs) = attempts es + attempts fs"
  by (simp add: attempts_def)

definition in_connection :: "agent_event \<Rightarrow> bool" where
  "in_connection e \<longleftrightarrow> (case e of Waited d c \<Rightarrow> False | CtxChecked c \<Rightarrow> False | Recovery f r \<Rightarrow> False | _ \<Rightarrow> True)"

lemma connection_events: "emits in_connection (connectAndStream env quiet)"
  unfolding connectAndStream_def dial_def stream_on_def by (intro emits_rules) (simp_all add: in_connection_def)

lemma in_connection_quiet: "list_all in_connection evs \<Longrightarrow> never_waited evs \<and> attempts evs = 0"
  by (induction evs) (auto simp: never_waited_def attempts_def in_connection_def split: agent_event.splits)

lemma rejected_turn:
  assumes recovered: "\<And>f v. fst (ae_recover env f v) = None"
    and running: "\<And>v. fst (ae_ctx_err env v) = False"
    and rejected: "\<And>q. yields (\<lambda>err evs. isAuthenticationFailure err) (connectAndStream env q)"
  shows "yields (\<lambda>r evs. r = Continue loop_start \<and> attempts evs = 1 \<and> never_waited evs) (iteration env st)"
proof -
  have "yields (\<lambda>r evs. r = Continue loop_start \<and> attempts evs = 1 \<and> never_waited evs) (connect_turn env st)"
    unfolding connect_turn_def
  proof (intro yields_now_then, rule yields_bind)
    show "yields (\<lambda>err evs. isAuthenticationFailure err \<and> never_waited evs \<and> attempts evs = 0) (connectAndStream env (ls_quiet st))"
      by (rule yields_mono [OF yields_conj [OF rejected connection_events [unfolded emits_def]]])
        (simp add: in_connection_quiet)
    fix t err evs assume auth: "isAuthenticationFailure err \<and> never_waited evs \<and> attempts evs = 0"
    then have "err \<noteq> Some CredentialRotated" by (auto simp: isAuthenticationFailure_def ToLower_def lower_char_def Let_def)
    with auth have stream: "after_stream env t (ls_wait st) err = do {
        recoverErr \<leftarrow> call (Recovery True) (ae_recover env True);
        (if recoverErr = None then State_Monad.return (Continue \<lparr>ls_wait = reconnectBaseWait, ls_quiet = False\<rparr>)
         else reconnect env t (ls_wait st) err) }"
      by (simp add: after_stream_def)
    have "yields (\<lambda>r evs'. r = Continue loop_start \<and> attempts (evs @ CtxChecked False # evs') = 1 \<and> never_waited (evs @ CtxChecked False # evs'))
        (after_stream env t (ls_wait st) err)"
      unfolding stream
      by (rule yields_bind [OF yields_call_range [where R = "\<lambda>r evs. r = None \<and> evs = [Recovery True None]"]])
        (use auth in \<open>auto simp: recovered loop_start_def never_waited_def attempts_def intro!: yields_return\<close>)
    then show "yields (\<lambda>r evs'. r = Continue loop_start \<and> attempts (evs @ evs') = 1 \<and> never_waited (evs @ evs')) (do {
        ended \<leftarrow> call CtxChecked (ae_ctx_err env);
        (if ended then State_Monad.return RunReturned else after_stream env t (ls_wait st) err) })"
      by (intro yields_bind [OF yields_call_range [where R = "\<lambda>r evs. r = False \<and> evs = [CtxChecked False]"]]) (auto simp: running)
  qed
  then show ?thesis
    unfolding iteration_def
    by (intro yields_bind [OF yields_call_range [where R = "\<lambda>r evs. r = None \<and> evs = [Recovery False None]"]])
      (auto simp: recovered never_waited_def attempts_def)
qed

text \<open>
  A control plane that rejects the agent's credentials while it keeps renewing them is dialled
  in a loop: any number of connection attempts follow one another without a single pause.
\<close>

theorem rejected_agent_never_waits:
  assumes "\<And>f v. fst (ae_recover env f v) = None" "\<And>v. fst (ae_ctx_err env v) = False"
    and "\<And>q. yields (\<lambda>err evs. isAuthenticationFailure err) (connectAndStream env q)"
  shows "yields (\<lambda>r evs. r = Continue loop_start \<and> attempts evs = n \<and> never_waited evs) (turns env n loop_start)"
proof (induction n)
  case (Suc n)
  show ?case unfolding turns.simps
    by (rule yields_bind [OF rejected_turn [OF assms]]) (auto intro: yields_mono [OF Suc.IH])
qed (simp add: yields_return attempts_def never_waited_def)

text \<open>
  C22. Once the context has ended the main loop returns: from every reachable state within one turn,
  in which it tries to connect at most once and completes no wait.
\<close>

theorem ended_context_stops_loop:
  assumes "loop_reachable env st" and "\<And>v. fst (ae_ctx_err env v) = True"
    and "\<And>d v. 0 < d \<Longrightarrow> fst (ae_select env d v) = True"
  shows "yields (\<lambda>r evs. r = RunReturned \<and> attempts evs \<le> 1 \<and> (\<forall>d. Waited d False \<notin> set evs)) (turns env (Suc n) st)"
proof -
  have pos: "0 < ls_wait st" using reachable_wait [OF assms(1)] waits_pos by blast
  have "yields (\<lambda>r evs. r = RunReturned \<and> attempts evs \<le> 1 \<and> (\<forall>d. Waited d False \<notin> set evs)) (recovery_pending env st)"
    unfolding recovery_pending_def
  proof (rule yields_bind)
    show "yields (\<lambda>c evs. c \<and> evs = [Waited (ls_wait st) True]) (pause env (ls_wait st))"
      by (rule yieldsI) (auto dest!: pause_eq simp: assms(3) [OF pos])
  qed (auto simp: attempts_def intro!: yields_return)
  moreover have "yields (\<lambda>r evs. r = RunReturned \<and> attempts evs \<le> 1 \<and> (\<forall>d. Waited d False \<notin> set evs)) (connect_turn env st)"
    unfolding connect_turn_def
  proof (intro yields_now_then, rule yields_bind [OF connection_events [unfolded emits_def]])
    fix t err evs assume evs: "list_all in_connection evs"
    show "yields (\<lambda>r evs'. r = RunReturned \<and> attempts (evs @ evs') \<le> 1 \<and> (\<forall>d. Waited d False \<notin> set (evs @ evs'))) (do {
        ended \<leftarrow> call CtxChecked (ae_ctx_err env);
        (if ended then State_Monad.return RunReturned else after_stream env t (ls_wait st) err) })"
    proof (rule yields_bind [OF yields_call_range [where R = "\<lambda>r evs. r \<and> evs = [CtxChecked True]"]])
      fix r evs' assume "r \<and> evs' = [CtxChecked True]"
      with evs in_connection_quiet [OF evs] show "yields (\<lambda>b evs''. b = RunReturned \<and> attempts (evs @ evs' @ evs'') \<le> 1 \<and>
          (\<forall>d. Waited d False \<notin> set (evs @ evs' @ evs'')))
          (if r then State_Monad.return RunReturned else after_stream env t (ls_wait st) err)"
        by (auto simp: attempts_def list_all_iff in_connection_def intro!: yields_return)
    qed (simp add: assms(2))
  qed
  ultimately have "yields (\<lambda>r evs. r = RunReturned \<and> attempts evs \<le> 1 \<and> (\<forall>d. Waited d False \<notin> set evs)) (iteration env st)"
    unfolding iteration_def
    by (intro yields_call_then yields_if) (auto elim!: yields_mono simp: attempts_def)
  then show ?thesis unfolding turns.simps
    by (rule yields_bind) (auto simp: attempts_def intro!: yields_return)
qed

text \<open>
  A rejected connection followed by a recovery attempt that fails only after thirty seconds
  counts as healthy: the wait falls back to two seconds, whatever it had grown to.
\<close>

theorem slow_recovery_resets_wait:
  assumes "isAuthenticationFailure err" "\<not> isExpectedDisconnect (the err)"
    and "\<And>v. \<exists>e late v'. ae_recover env True v = (Some e, late, v') \<and> int late \<ge> heartbeatInterval"
    and "\<And>d v. fst (ae_select env d v) = False"
  shows "fst (run_state (after_stream env start w err) (s\<lparr>rg_clock := start\<rparr>)) =
    Continue \<lparr>ls_wait = reconnectBaseWait, ls_quiet = False\<rparr>"
proof -
  obtain e where e: "err = Some e" using assms(1) by (cases err) (auto simp: isAuthenticationFailure_def)
  with assms(1) have "err \<noteq> Some CredentialRotated" by (auto simp: isAuthenticationFailure_def ToLower_def lower_char_def Let_def)
  moreover obtain r late v where "ae_recover env True (rg_world s) = (Some r, late, v)" "int late \<ge> heartbeatInterval"
    using assms(3) by blast
  moreover have "fst (run_state (pause env d) s') = False" for d s' using assms(4) by (rule run_pause)
  then have "fst (run_state (back_off env True reconnectBaseWait) s') = Continue \<lparr>ls_wait = reconnectBaseWait, ls_quiet = False\<rparr>" for s'
    by (simp add: back_off_def Int63n_def run_state_bind run_call reconnectBaseWait_def second_def split: prod.split) (metis fst_conv)
  ultimately show ?thesis
    using assms(1,2) by (simp add: after_stream_def run_state_bind run_call reconnect_def run_now e Let_def)
qed

text \<open>What a connection opens it closes: the stream is detached and the connection closed on every path.\<close>

lemma connection_balanced:
  "yields (\<lambda>err evs. (Dialled True \<in> set evs \<longleftrightarrow> ConnClosed \<in> set evs) \<and> (StreamAttached \<in> set evs \<longleftrightarrow> StreamDetached \<in> set evs) \<and>
     (ConnClosed \<in> set evs \<longrightarrow> last evs = ConnClosed)) (connectAndStream env quiet)"
proof -
  have dialled: "yields (\<lambda>r evs. (Dialled True \<in> set evs \<longleftrightarrow> is_ok r) \<and> ConnClosed \<notin> set evs \<and> StreamAttached \<notin> set evs \<and>
      StreamDetached \<notin> set evs) (dial env)"
    unfolding dial_def by (auto intro!: yields_rules split: sum.splits if_splits)
  have streamed: "yields (\<lambda>r evs. (StreamAttached \<in> set evs \<longleftrightarrow> StreamDetached \<in> set evs) \<and> ConnClosed \<notin> set evs \<and>
      Dialled True \<notin> set evs) (stream_on env quiet)"
    unfolding stream_on_def by (auto intro!: yields_rules)
  show ?thesis
    unfolding connectAndStream_def
    by (intro yields_bind [OF dialled] yields_sum yields_return yields_bind [OF streamed] yields_call_then) auto
qed

text \<open>
  Every message before the end of the stream is dispatched, in order; after an activated rotation
  nothing is.
\<close>

fun is_rotation :: "'c control_message \<Rightarrow> bool" where
  "is_rotation (RotationMsg c) = True"
| "is_rotation m = False"

lemma receive_in_order:
  "list_all (\<lambda>m. \<not> is_rotation m) ms \<Longrightarrow> ReceiveCommands hs rot rs s = (ms', r, s') \<Longrightarrow>
   ReceiveCommands hs rot (map Received ms @ rs) s = (filter (handled hs) ms @ ms', r, s')"
proof (induction ms)
  case (Cons m ms)
  then show ?case by (cases m) auto
qed simp

theorem rotation_ends_stream:
  assumes "list_all (\<lambda>m. \<not> is_rotation m) ms" "has_OnCredentialRotation hs" "rot c s = (True, s')"
  shows "ReceiveCommands hs rot (map Received ms @ Received (RotationMsg c) # rs) s =
    (filter (handled hs) ms, Failed_with CredentialRotated, s')"
  using receive_in_order [OF assms(1), of hs rot "Received (RotationMsg c) # rs" s] assms(2,3) by simp

subsection \<open>Heartbeats\<close>

definition beat :: "'w agent_env \<Rightarrow> ('w, go_error option) agent" where
  "beat env = do {
     _ \<leftarrow> call (\<lambda>_. InfoCollected) (ae_collectInfo env);
     sent \<leftarrow> call (\<lambda>r. HeartbeatSent (r = None)) (ae_SendHeartbeat env);
     (case sent of
        Some err \<Rightarrow> State_Monad.return (Some (''sending heartbeat: '' @ err))
      | None \<Rightarrow> call (\<lambda>_. RenewalAsked) (ae_request_renewal env)) }"

text \<open>The loop for at most \<open>n\<close> ticks; \<open>None\<close> is a loop that is still running.\<close>

fun beats :: "'w agent_env \<Rightarrow> nat \<Rightarrow> ('w, go_error option option) agent" where
  "beats env 0 = State_Monad.return None"
| "beats env (Suc n) = do {
     stopped \<leftarrow> call Ticked (ae_tick env);
     (if stopped then State_Monad.return (Some None)
      else do {
        failed \<leftarrow> beat env;
        (case failed of
           Some err \<Rightarrow> State_Monad.return (Some (Some err))
         | None \<Rightarrow> do {
             _ \<leftarrow> call (\<lambda>_. Drained) (ae_drain env);
             beats env n }) }) }"

definition sendHeartbeats :: "'w agent_env \<Rightarrow> nat \<Rightarrow> ('w, go_error option option) agent" where
  "sendHeartbeats env n = do {
     failed \<leftarrow> beat env;
     (case failed of Some err \<Rightarrow> State_Monad.return (Some (Some err)) | None \<Rightarrow> beats env n) }"

definition count_of :: "agent_event \<Rightarrow> agent_event list \<Rightarrow> nat" where
  "count_of e evs = length (filter (\<lambda>x. x = e) evs)"

lemma count_of_simps [simp]: "count_of e [] = 0" "count_of e (x # xs) = (if x = e then Suc (count_of e xs) else count_of e xs)"
  "count_of e (xs @ ys) = count_of e xs + count_of e ys"
  by (simp_all add: count_of_def)

lemma beat_yields: "yields (\<lambda>r evs. count_of Drained evs = 0 \<and> count_of (HeartbeatSent False) evs \<le> 1 \<and>
    (count_of (HeartbeatSent False) evs = 1 \<longrightarrow> r \<noteq> None) \<and> (r = None \<longrightarrow> count_of (HeartbeatSent True) evs = 1) \<and>
    count_of (HeartbeatSent True) evs \<le> 1) (beat env)"
  unfolding beat_def
  by (auto intro!: yields_rules yields_call)

lemma beats_drain:
  "yields (\<lambda>r evs. (\<forall>err. r \<noteq> Some (Some err)) \<longrightarrow> count_of Drained evs = count_of (HeartbeatSent True) evs) (beats env n)"
proof (induction n)
  case (Suc n)
  show ?case unfolding beats.simps
    by (intro yields_call_then yields_if yields_bind [OF beat_yields] yields_option yields_return yields_call_then yields_mono [OF Suc.IH])
      auto
qed (simp add: yields_return)

text \<open>
  While the heartbeats go on, the queue of pending results is drained after every heartbeat but the
  first of the connection.
\<close>

lemma heartbeats_drain:
  "yields (\<lambda>r evs. (\<forall>err. r \<noteq> Some (Some err)) \<longrightarrow> Suc (count_of Drained evs) = count_of (HeartbeatSent True) evs) (sendHeartbeats env n)"
  unfolding sendHeartbeats_def
  by (intro yields_bind [OF beat_yields] yields_option yields_return yields_mono [OF beats_drain]) auto

subsection \<open>Networks\<close>

fun prune_networks :: "'w docker_sdk \<Rightarrow> NetworkInfo list \<Rightarrow> nat \<Rightarrow> ('w, nat) daemon" where
  "prune_networks sdk [] pruned = State_Monad.return pruned"
| "prune_networks sdk (net # networks) pruned = do {
     r \<leftarrow> RemoveNetworkIfEmpty sdk (ni_ID net);
     (case r of (removed, err) \<Rightarrow>
        if err \<noteq> None then prune_networks sdk networks pruned
        else prune_networks sdk networks (if removed then pruned + 1 else pruned)) }"

definition pruneOrphanedNetworks :: "'w docker_sdk \<Rightarrow> ('w, nat) daemon" where
  "pruneOrphanedNetworks sdk = do {
     nets \<leftarrow> ListClankProjectNetworks sdk;
     (case nets of
        Inl err \<Rightarrow> State_Monad.return 0
      | Inr networks \<Rightarrow> prune_networks sdk networks 0) }"

definition ListManagedContainers :: "'w docker_sdk \<Rightarrow> ('w, ContainerInfo list result) daemon" where
  "ListManagedContainers sdk = do {
     r \<leftarrow> query ''ContainerList'' (sdk_ContainerList sdk True ''label'' ''clank.managed=true'');
     State_Monad.return (case r of
       Inl err \<Rightarrow> Inl (''listing managed containers: '' @ err)
     | Inr cs \<Rightarrow> Inr (map (\<lambda>c. (container_info c)\<lparr>cn_ContainerID := take 12 (sc_ID c)\<rparr>) cs)) }"

text \<open>One connection for every project network the managed containers name, the first time it is named.\<close>

fun reconnect_networks :: "'w docker_sdk \<Rightarrow> string \<Rightarrow> ContainerInfo list \<Rightarrow> string list \<Rightarrow> ('w, unit) daemon" where
  "reconnect_networks sdk traefikID [] seen = State_Monad.return ()"
| "reconnect_networks sdk traefikID (c # cs) seen =
     (case cn_Labels c ''traefik.docker.network'' of
        None \<Rightarrow> reconnect_networks sdk traefikID cs seen
      | Some net \<Rightarrow>
          if net = [] \<or> net \<in> set seen then reconnect_networks sdk traefikID cs seen
          else do {
            _ \<leftarrow> ConnectToNetworkIfNeeded sdk traefikID net;
            reconnect_networks sdk traefikID cs (net # seen) })"

definition reconnectTraefikToProjectNetworks :: "'w docker_sdk \<Rightarrow> ('w, unit) daemon" where
  "reconnectTraefikToProjectNetworks sdk = do {
     traefikID \<leftarrow> FindTraefikContainer sdk;
     (if traefikID = [] then State_Monad.return ()
      else do {
        managed \<leftarrow> ListManagedContainers sdk;
        (case managed of
           Inl err \<Rightarrow> State_Monad.return ()
         | Inr cs \<Rightarrow> reconnect_networks sdk traefikID cs []) }) }"

definition other_network :: "string \<Rightarrow> daemon_event \<Rightarrow> bool" where
  "other_network nid e \<longleftrightarrow> e \<noteq> NetworkRemoved nid"

lemma prune_networks_scoped:
  "(\<And>n. n \<in> set nets \<Longrightarrow> ni_ID n \<noteq> nid) \<Longrightarrow> emits (other_network nid) (prune_networks sdk nets k)"
proof (induction nets arbitrary: k)
  case (Cons n nets)
  have "emits (other_network nid) (RemoveNetworkIfEmpty sdk (ni_ID n))"
    unfolding RemoveNetworkIfEmpty_def query_def using Cons.prems by (intro emits_rules) (auto simp: other_network_def)
  with Cons show ?case unfolding prune_networks.simps by (auto intro!: emits_bind)
qed (simp add: emits_return)

text \<open>
  The periodic pruning never removes a network that is not listed as a project network of the agent.
\<close>

theorem pruning_spares_other_networks:
  assumes "\<And>v ns n. fst (sdk_NetworkList sdk v) = Inr ns \<Longrightarrow> n \<in> set ns \<Longrightarrow> sn_ID n = nid \<Longrightarrow>
    \<not> HasPrefix (sn_Name n) ''clank-project-''"
  shows "emits (\<lambda>e. e \<noteq> NetworkRemoved nid) (pruneOrphanedNetworks sdk)"
proof -
  have "yields (\<lambda>r evs. (\<forall>ns. r = Inr ns \<longrightarrow> (\<forall>n \<in> set ns. ni_ID n \<noteq> nid)) \<and> list_all (other_network nid) evs)
      (ListClankProjectNetworks sdk)"
    unfolding ListClankProjectNetworks_def query_def
  proof (rule yields_bind [OF yields_call_range [where R = "\<lambda>(r :: sdk_network list result) evs. (\<forall>ns n. r = Inr ns \<and> n \<in> set ns \<and> sn_ID n = nid \<longrightarrow>
      \<not> HasPrefix (sn_Name n) ''clank-project-'') \<and> evs = [Queried ''NetworkList'']"]])
    fix v show "(\<forall>ns n. fst (sdk_NetworkList sdk v) = Inr ns \<and> n \<in> set ns \<and> sn_ID n = nid \<longrightarrow>
      \<not> HasPrefix (sn_Name n) ''clank-project-'') \<and> [Queried ''NetworkList''] = [Queried ''NetworkList'']"
      using assms by blast
  next
    fix r :: "sdk_network list result" and evs assume r: "(\<forall>ns n. r = Inr ns \<and> n \<in> set ns \<and> sn_ID n = nid \<longrightarrow>
      \<not> HasPrefix (sn_Name n) ''clank-project-'') \<and> evs = [Queried ''NetworkList'']"
    show "yields (\<lambda>r evs'. (\<forall>ns. r = Inr ns \<longrightarrow> (\<forall>n \<in> set ns. ni_ID n \<noteq> nid)) \<and> list_all (other_network nid) (evs @ evs'))
      (State_Monad.return (case r of Inl err \<Rightarrow> Inl (''listing networks: '' @ err)
         | Inr ns \<Rightarrow> Inr (map (\<lambda>n. \<lparr>ni_ID = sn_ID n, ni_Name = sn_Name n\<rparr>) (filter (\<lambda>n. HasPrefix (sn_Name n) ''clank-project-'') ns))))"
      by (rule yields_return) (use r in \<open>auto simp: other_network_def split: sum.split\<close>)
  qed
  then have "emits (other_network nid) (pruneOrphanedNetworks sdk)"
    unfolding pruneOrphanedNetworks_def emits_def
  proof (rule yields_bind)
    fix r :: "NetworkInfo list result" and evs assume r: "(\<forall>ns. r = Inr ns \<longrightarrow> (\<forall>n \<in> set ns. ni_ID n \<noteq> nid)) \<and> list_all (other_network nid) evs"
    show "yields (\<lambda>b evs'. list_all (other_network nid) (evs @ evs'))
        (case r of Inl err \<Rightarrow> State_Monad.return 0 | Inr networks \<Rightarrow> prune_networks sdk networks 0)"
    proof (cases r)
      case (Inr ns)
      with r have "yields (\<lambda>b evs'. list_all (other_network nid) evs') (prune_networks sdk ns 0)"
        by (intro prune_networks_scoped [unfolded emits_def]) blast
      with r Inr show ?thesis by (auto elim: yields_mono)
    qed (use r in \<open>auto intro: yields_return\<close>)
  qed
  then show ?thesis by (rule emits_mono) (simp add: other_network_def)
qed

fun connected :: "daemon_event list \<Rightarrow> string list" where
  "connected [] = []"
| "connected (NetworkConnected n c # es) = n # connected es"
| "connected (e # es) = connected es"

lemma connected_append [simp]: "connected (es @ fs) = connected es @ connected fs"
  by (induction es rule: connected.induct) simp_all

lemma reconnect_distinct:
  "yields (\<lambda>r evs. distinct (connected evs) \<and> set (connected evs) \<inter> set seen = {}) (reconnect_networks sdk tid cs seen)"
proof (induction cs arbitrary: seen)
  case (Cons c cs)
  have one: "yields (\<lambda>r evs. connected evs = [] \<or> connected evs = [net]) (ConnectToNetworkIfNeeded sdk tid net)" for net
    unfolding ConnectToNetworkIfNeeded_def query_def by (auto intro!: yields_rules yields_call)
  have "yields (\<lambda>r evs. distinct (connected evs) \<and> set (connected evs) \<inter> set seen = {}) (do {
            _ \<leftarrow> ConnectToNetworkIfNeeded sdk tid net;
            reconnect_networks sdk tid cs (net # seen) })" if "net \<notin> set seen" for net
    by (rule yields_bind [OF one], rule yields_mono [OF Cons.IH]) (use that in auto)
  with Cons.IH show ?case by (auto split: option.split)
qed (simp add: yields_return)

text \<open>After a restart of the proxy, each project network is joined at most once.\<close>

lemma traefik_joins_once: "yields (\<lambda>r evs. distinct (connected evs)) (reconnectTraefikToProjectNetworks sdk)"
proof -
  have "yields (\<lambda>r evs. distinct (connected evs)) (reconnect_networks sdk tid cs [])" for tid cs
    by (rule yields_mono [OF reconnect_distinct]) simp
  then show ?thesis
    unfolding reconnectTraefikToProjectNetworks_def FindTraefikContainer_def ListManagedContainers_def query_def
    by (auto intro!: yields_rules split: sum.splits)
qed

subsection \<open>Witnesses\<close>

definition config0 :: Config where
  "config0 = \<lparr>cf_ServerID = ''s1'', cf_GRPCEndpoint = ''grpc.example.org:443'', cf_CertDir = [''var'', ''lib'', ''certs''],
     cf_AuthMode = ''token'', cf_AuthToken = [], cf_RenewalToken = [], cf_RenewalEndpoint = [],
     cf_CredentialExpiresUnix = 0, cf_AuthGeneration = 0, cf_RenewalStatus = [], cf_RenewalAttempts = 0,
     cf_RenewalLastError = [], cf_RenewalLastSuccessUnix = 0, cf_RenewalNextRetryUnix = 0, cf_PendingRotationID =
     [], cf_PendingAuthToken = [], cf_PendingRenewalToken = [], cf_PendingExpiresUnix = 0, cf_PendingAuthGeneration
     = 0, cf_PendingPreviousBundle = [], cf_PendingHadPointer = False, cf_TunnelToken = [], cf_TunnelID = [],
     cf_RegistryURL = [], cf_RegistryUsername = [], cf_RegistryPassword = [], cf_MaxConcurrentBuilds = 0\<rparr>"

text \<open>An agent whose connections end as told; \<open>ended\<close> says whether its context has ended.\<close>

definition agent0 :: "bool \<Rightarrow> unit result \<Rightarrow> stream_error option \<Rightarrow> unit agent_env" where
  "agent0 ended dialled end_of_stream = \<lparr>ae_ctx_err = \<lambda>w. (ended, 0, w), ae_select = \<lambda>d w. (ended, 0, w), ae_rand = \<lambda>w. (5, 0, w),
     ae_recover = \<lambda>f w. (None, 0, w), ae_credentials = \<lambda>w. (config0, 0, w), ae_TransportCredentials = \<lambda>w. (Inr (), 0, w),
     ae_Dial = \<lambda>t e w. (dialled, 0, w), ae_OpenConnectStream = \<lambda>w. (Inr (), 0, w), ae_attach = \<lambda>w. ((), 0, w),
     ae_detach = \<lambda>w. ((), 0, w), ae_drain = \<lambda>w. ((), 0, w), ae_stream_end = \<lambda>q w. (Some end_of_stream, 0, w),
     ae_conn_close = \<lambda>w. ((), 0, w), ae_collectInfo = \<lambda>w. ((), 0, w), ae_SendHeartbeat = \<lambda>w. (None, 0, w),
     ae_request_renewal = \<lambda>w. (None, 0, w), ae_tick = \<lambda>w. (False, 0, w)\<rparr>"

lemma connection_outcome:
  "run_state (connectAndStream (agent0 c (Inr ()) e) q) s = (e, s\<lparr>rg_trace := rg_trace s @ [Credentials_read, Dialled True,
     StreamOpened True, StreamAttached, Drained, StreamEnded, StreamDetached, ConnClosed]\<rparr>)"
  by (simp add: connectAndStream_def dial_def stream_on_def run_state_bind run_call agent0_def config0_def)

lemma refused_outcome:
  "run_state (connectAndStream (agent0 c (Inl e) r) q) s = (Some (StreamError (''dialing grpc.example.org:443: '' @ e)),
     s\<lparr>rg_trace := rg_trace s @ [Credentials_read, Dialled False]\<rparr>)"
  by (simp add: connectAndStream_def dial_def run_state_bind run_call agent0_def config0_def)

lemma authentication_samples:
  "isAuthenticationFailure (Some (StreamError ''receiving command: rpc error: code = Unauthenticated''))"
  "\<not> isAuthenticationFailure (Some (StreamError ''dialing grpc.example.org:443: connection refused''))"
  "\<not> isExpectedDisconnect (StreamError ''receiving command: rpc error: code = Unauthenticated'')"
  by code_simp+

lemma loop_waits_bounded_witness:
  "ls_wait loop_start \<in> (\<lambda>n. n * 1000000000) ` {2, 4, 8, 16, 32, 60, 64} \<and>
    yields (\<lambda>r evs. r \<noteq> RunPanicked \<and> list_all (\<lambda>e. \<forall>d c. e = Waited d c \<longrightarrow> 0 \<le> d \<and> d \<le> 64 * 1000000000) evs)
      (iteration (agent0 False (Inr ()) None) loop_start)"
  by (rule loop_waits_bounded) (rule loop_reachable.starts)

lemma rapid_failures_back_off_witness:
  "fst (run_state (turns (agent0 False (Inl ''connection refused'') None) 3 loop_start) \<lparr>rg_world = (), rg_clock = 0, rg_trace = []\<rparr>) =
     Continue \<lparr>ls_wait = min (2 ^ (3 + 1)) 60 * second, ls_quiet = False\<rparr>"
proof (rule rapid_failures_back_off)
  fix q and s :: "(agent_event, unit) rig" and err s'
  assume "run_state (connectAndStream (agent0 False (Inl ''connection refused'') None) q) s = (err, s')"
  then have "err = Some (StreamError ''dialing grpc.example.org:443: connection refused'')" "rg_clock s' = rg_clock s"
    by (auto simp: refused_outcome)
  then show "err \<noteq> Some CredentialRotated \<and> \<not> isAuthenticationFailure err \<and> rg_clock s' - rg_clock s < heartbeatInterval"
    by (simp add: authentication_samples heartbeatInterval_def second_def)
qed (simp_all add: agent0_def)

lemma rejected_agent_never_waits_witness:
  "yields (\<lambda>r evs. r = Continue loop_start \<and> attempts evs = 1000 \<and> never_waited evs)
     (turns (agent0 False (Inr ()) (Some (StreamError ''receiving command: rpc error: code = Unauthenticated''))) 1000 loop_start)"
proof (rule rejected_agent_never_waits)
  show "yields (\<lambda>err evs. isAuthenticationFailure err)
      (connectAndStream (agent0 False (Inr ()) (Some (StreamError ''receiving command: rpc error: code = Unauthenticated''))) q)" for q
    by (rule yieldsI)
      (auto simp: connection_outcome authentication_samples)
qed (simp_all add: agent0_def)

lemma ended_context_stops_loop_witness:
  "yields (\<lambda>r evs. r = RunReturned \<and> attempts evs \<le> 1 \<and> (\<forall>d. Waited d False \<notin> set evs)) (turns (agent0 True (Inr ()) None) (Suc 4) loop_start)"
  by (rule ended_context_stops_loop) (simp_all add: agent0_def loop_reachable.starts)

lemma slow_recovery_resets_wait_witness:
  "fst (run_state (after_stream ((agent0 False (Inr ()) None)\<lparr>ae_recover := \<lambda>f w. (Some ''context deadline exceeded'', 30000000000, w)\<rparr>)
      0 (60 * second) (Some (StreamError ''receiving command: rpc error: code = Unauthenticated''))) (\<lparr>rg_world = (), rg_clock = 7, rg_trace = []\<rparr>\<lparr>rg_clock := 0\<rparr>)) =
    Continue \<lparr>ls_wait = reconnectBaseWait, ls_quiet = False\<rparr>"
  by (rule slow_recovery_resets_wait)
    (simp_all add: agent0_def authentication_samples heartbeatInterval_def second_def)

lemma rotation_ends_stream_witness:
  "ReceiveCommands \<lparr>has_OnDeploy = True, has_OnContainerCommand = True, has_OnTunnelConfig = True, has_OnUpdate = True, has_OnEndpoint = True,
      has_OnBackup = True, has_OnPushImage = True, has_OnMaintenance = True, has_OnCredentialRotation = True\<rparr> (\<lambda>c s. (True, s + c))
      (map Received [PingMsg, DeployMsg 1] @ Received (RotationMsg 3) # [Received (DeployMsg (2 :: nat))]) 4 =
    (filter (handled \<lparr>has_OnDeploy = True, has_OnContainerCommand = True, has_OnTunnelConfig = True, has_OnUpdate = True, has_OnEndpoint = True,
      has_OnBackup = True, has_OnPushImage = True, has_OnMaintenance = True, has_OnCredentialRotation = True\<rparr>) [PingMsg, DeployMsg 1],
     Failed_with CredentialRotated, 7)"
  by (rule rotation_ends_stream) simp_all

lemma pruning_spares_other_networks_witness: "emits (\<lambda>e. e \<noteq> NetworkRemoved ''n2'') (pruneOrphanedNetworks sdk0)"
  by (rule pruning_spares_other_networks) (auto simp: sdk0_def some_network_def)

end
