(* ===== verification/Go_Base64.thy ===== *)
theory Go_Base64
  imports Prelude
begin

text \<open>
  The padded coders of Go's \<^verbatim>\<open>encoding/base64\<close> that the Docker manager uses: the standard
  alphabet to read what the control plane sends, the URL alphabet for the header of the daemon.  The
  decoder skips line breaks and refuses everything that is not whole quanta.  What a coder promises is
  the locale \<open>alphabet\<close>, interpreted on both alphabets.
\<close>

definition letters :: string where
  "letters = ''ABCDEFGHIJKLMNOPQRSTUVWXYZabcdefghijklmnopqrstuvwxyz0123456789''"

definition std_alphabet :: string where "std_alphabet = letters @ ''+/''"
definition url_alphabet :: string where "url_alphabet = letters @ ''-_''"

definition pad :: char where "pad = CHR ''=''"

definition byte :: "char \<Rightarrow> nat" where "byte c = of_char c"

fun base64_encode :: "string \<Rightarrow> string \<Rightarrow> string" where
  "base64_encode al [] = []"
| "base64_encode al [a] = [al ! (byte a div 4), al ! (byte a mod 4 * 16), pad, pad]"
| "base64_encode al [a, b] = [al ! (byte a div 4), al ! (byte a mod 4 * 16 + byte b div 16), al ! (byte b mod 16 * 4), pad]"
| "base64_encode al (a # b # c # s) =
     [al ! (byte a div 4), al ! (byte a mod 4 * 16 + byte b div 16), al ! (byte b mod 16 * 4 + byte c div 64), al ! (byte c mod 64)] @
     base64_encode al s"

text \<open>Position of a character, as the decoding table holds it.\<close>

fun position :: "string \<Rightarrow> char \<Rightarrow> nat option" where
  "position [] c = None"
| "position (a # al) c = (if a = c then Some 0 else map_option Suc (position al c))"

definition byte_of :: "nat \<Rightarrow> char" where "byte_of n = char_of n"

fun base64_quanta :: "string \<Rightarrow> string \<Rightarrow> string option" where
  "base64_quanta al [] = Some []"
| "base64_quanta al (a # b # c # d # s) =
     (case (position al a, position al b) of
        (Some i, Some j) \<Rightarrow>
          if c = pad then (if d = pad \<and> s = [] then Some [byte_of (i * 4 + j div 16)] else None)
          else (case position al c of
             None \<Rightarrow> None
           | Some k \<Rightarrow>
               if d = pad then (if s = [] then Some [byte_of (i * 4 + j div 16), byte_of (j mod 16 * 16 + k div 4)] else None)
               else (case (position al d, base64_quanta al s) of
                   (Some l, Some t) \<Rightarrow>
                     Some (byte_of (i * 4 + j div 16) # byte_of (j mod 16 * 16 + k div 4) # byte_of (k mod 4 * 64 + l) # t)
                 | _ \<Rightarrow> None))
      | _ \<Rightarrow> None)"
| "base64_quanta al s = None"

definition line_break :: "char \<Rightarrow> bool" where
  "line_break c \<longleftrightarrow> c = CHR 0x0A \<or> c = CHR 0x0D"

definition base64_decode :: "string \<Rightarrow> string \<Rightarrow> string option" where
  "base64_decode al s = base64_quanta al (filter (\<lambda>c. \<not> line_break c) s)"

lemma byte_bound: "byte c < 256"
  unfolding byte_def by (subst of_char_mod_256 [symmetric]) simp

lemma byte_halves: "byte c div 16 div 16 = 0" "byte c div 16 mod 16 = byte c div 16"
    "byte c div 64 div 4 = 0" "byte c div 64 mod 4 = byte c div 64"
  using byte_bound [of c] by (simp_all add: div_mult2_eq [symmetric])

lemma byte_of_byte [simp]: "byte_of (byte c) = c"
  by (simp add: byte_of_def byte_def)

lemma position_nth: "distinct al \<Longrightarrow> n < length al \<Longrightarrow> position al (al ! n) = Some n"
proof (induction al arbitrary: n)
  case (Cons a al)
  then show ?case by (cases n) (auto simp: nth_mem)
qed simp

text \<open>The first and the last byte, and the middle one, from the four numbers of a quantum.\<close>

lemma regroup:
  fixes a b c :: nat
  assumes "a < 256" "b < 256" "c < 256"
  shows "a div 4 * 4 + (a mod 4 * 16 + b div 16) div 16 = a"
    "(a mod 4 * 16 + b div 16) mod 16 * 16 + (b mod 16 * 4 + c div 64) div 4 = b"
    "(b mod 16 * 4 + c div 64) mod 4 * 64 + c mod 64 = c"
    "a div 4 < 64" "a mod 4 * 16 + b div 16 < 64" "b mod 16 * 4 + c div 64 < 64" "c mod 64 < 64"
    "a mod 4 * 16 < 64" "b mod 16 * 4 < 64"
proof -
  have small: "b div 16 < 16" "c div 64 < 4" "a mod 4 < 4" "b mod 16 < 16" using assms by simp_all
  have "(a mod 4 * 16 + b div 16) div 16 = a mod 4" "(a mod 4 * 16 + b div 16) mod 16 = b div 16"
    "(b mod 16 * 4 + c div 64) div 4 = b mod 16" "(b mod 16 * 4 + c div 64) mod 4 = c div 64"
    using small by simp_all
  then show "a div 4 * 4 + (a mod 4 * 16 + b div 16) div 16 = a"
    "(a mod 4 * 16 + b div 16) mod 16 * 16 + (b mod 16 * 4 + c div 64) div 4 = b"
    "(b mod 16 * 4 + c div 64) mod 4 * 64 + c mod 64 = c"
    by (simp_all only: div_mult_mod_eq)
  show "a div 4 < 64" "c mod 64 < 64" using assms by simp_all
  show "a mod 4 * 16 + b div 16 < 64" "b mod 16 * 4 + c div 64 < 64" "a mod 4 * 16 < 64" "b mod 16 * 4 < 64"
    using small by linarith+
qed

text \<open>The same for the quanta that end the text.\<close>

lemma regroup_end:
  fixes a b :: nat
  shows "a div 4 * 4 + a mod 4 * 16 div 16 = a"
    "b < 256 \<Longrightarrow> (a mod 4 * 16 + b div 16) mod 16 * 16 + b mod 16 * 4 div 4 = b"
  by simp_all

lemma triples_induct:
  fixes P :: "string \<Rightarrow> bool"
  assumes "P []" "\<And>a. P [a]" "\<And>a b. P [a, b]" "\<And>a b c s. P s \<Longrightarrow> P (a # b # c # s)"
  shows "P s"
  by (rule base64_encode.induct [where P = "\<lambda>al s. P s"]) (use assms in blast)+

locale alphabet =
  fixes al :: string
  assumes size64: "length al = 64" and distinct: "distinct al"
    and no_pad: "pad \<notin> set al" and no_breaks: "\<forall>c \<in> set al. \<not> line_break c"
begin

lemma at: "n < 64 \<Longrightarrow> position al (al ! n) = Some n"
  by (rule position_nth) (simp_all add: distinct size64)

lemma not_pad: "n < 64 \<Longrightarrow> al ! n \<noteq> pad"
  using no_pad nth_mem [of n al] size64 by metis

lemma quanta_encode: "base64_quanta al (base64_encode al s) = Some s"
proof (induction s rule: triples_induct)
  case (2 a)
  note r = regroup [of "byte a" "byte a" "byte a", OF byte_bound byte_bound byte_bound]
  show ?case by (simp add: at r regroup_end)
next
  case (3 a b)
  note r = regroup [of "byte a" "byte b" "byte b", OF byte_bound byte_bound byte_bound]
  show ?case by (simp add: at not_pad r regroup_end byte_halves)
next
  case (4 a b c s)
  note r = regroup [of "byte a" "byte b" "byte c", OF byte_bound byte_bound byte_bound]
  from 4 show ?case by (simp add: at not_pad r byte_halves)
qed simp

lemma encode_alphabet: "set (base64_encode al s) \<subseteq> insert pad (set al)"
proof (induction s rule: triples_induct)
  case (2 a)
  show ?case using regroup [of "byte a" "byte a" "byte a", OF byte_bound byte_bound byte_bound] by (auto simp: size64)
next
  case (3 a b)
  show ?case using regroup [of "byte a" "byte b" "byte b", OF byte_bound byte_bound byte_bound] by (auto simp: size64)
next
  case (4 a b c s)
  then show ?case using regroup [of "byte a" "byte b" "byte c", OF byte_bound byte_bound byte_bound] by (auto simp: size64)
qed simp

lemma encode_breaks: "filter (\<lambda>c. \<not> line_break c) (base64_encode al s) = base64_encode al s"
  using encode_alphabet [of s] no_breaks by (intro filter_True) (auto simp: pad_def line_break_def)

lemma decode_encode: "base64_decode al (base64_encode al s) = Some s"
  by (simp add: base64_decode_def encode_breaks quanta_encode)

lemma encode_length: "length (base64_encode al s) = 4 * ((length s + 2) div 3)"
  by (induction s rule: triples_induct) (simp_all, presburger)

end

interpretation std64: alphabet std_alphabet
  by unfold_locales code_simp+

interpretation url64: alphabet url_alphabet
  by unfold_locales code_simp+

end
