(* ===== verification/Image_Transfer.thy ===== *)
theory Image_Transfer
  imports Effects Go_Strings Go_Base64
begin

text \<open>
  Images between the host and a registry: the registry credentials, pull, push, tag, build and
  inspection of the Docker manager (the beginning of \<^verbatim>\<open>internal/docker/client.go\<close>).  The daemon
  answers a transfer with a stream of JSON messages; here the stream is the list of what
  \<^verbatim>\<open>Decode\<close> returns, whose end is the end of the stream.  JSON itself is a parameter.
\<close>

record RegistryAuth =
  ra_Username :: string
  ra_Password :: string

record transfer_message =
  tm_Status :: string
  tm_Progress :: string
  tm_Error :: string

record build_message =
  bm_Stream :: string
  bm_Error :: string

datatype 'm decoded = Decoded 'm | Undecodable go_error

datatype image_answer = FoundImage string int | NoSuchImage go_error | InspectError go_error   \<comment> \<open>identifier and size\<close>

record image_build =
  ib_Context :: string          \<comment> \<open>the archive\<close>
  ib_Tags :: "string list"
  ib_Dockerfile :: string
  ib_Remove :: bool
  ib_CacheFrom :: "string list"
  ib_Labels :: go_map
  ib_Memory :: int
  ib_CPUQuota :: int

datatype image_event =
    Pulling string string "transfer_message decoded list result"   \<comment> \<open>reference, header, answer\<close>
  | Pushing string string "transfer_message decoded list result"
  | Building image_build "build_message decoded list result"
  | Archived string "string result"
  | Tagged string string "go_error option"
  | Inspected string image_answer
  | Logged string

record 'w image_env =
  ie_ImagePull :: "string \<Rightarrow> string \<Rightarrow> (transfer_message decoded list result, 'w) op"
  ie_ImagePush :: "string \<Rightarrow> string \<Rightarrow> (transfer_message decoded list result, 'w) op"
  ie_ImageBuild :: "image_build \<Rightarrow> (build_message decoded list result, 'w) op"
  ie_TarWithOptions :: "string \<Rightarrow> (string result, 'w) op"
  ie_ImageTag :: "string \<Rightarrow> string \<Rightarrow> (go_error option, 'w) op"
  ie_ImageInspect :: "string \<Rightarrow> (image_answer, 'w) op"
  ie_json_Marshal :: "string \<Rightarrow> string \<Rightarrow> string"                 \<comment> \<open>of an \<open>AuthConfig\<close> with these two fields\<close>
  ie_json_Unmarshal :: "string \<Rightarrow> (string \<times> string) result"       \<comment> \<open>the two fields, empty when absent\<close>

type_synonym ('w, 'a) imaging = "(image_event, 'w, 'a) rigged"

type_synonym 'w logger = "string \<Rightarrow> (unit, 'w) op"

subsection \<open>Registry credentials\<close>

definition DecodeRegistryAuth :: "(string \<Rightarrow> (string \<times> string) result) \<Rightarrow> string \<Rightarrow> RegistryAuth option" where
  "DecodeRegistryAuth json_Unmarshal encoded =
     (if encoded = [] then None
      else case base64_decode std_alphabet encoded of
          None \<Rightarrow> None
        | Some raw \<Rightarrow> (case json_Unmarshal raw of
            Inl err \<Rightarrow> None
          | Inr (username, password) \<Rightarrow>
              if username = [] then None else Some \<lparr>ra_Username = username, ra_Password = password\<rparr>))"

definition encodeRegistryAuth :: "(string \<Rightarrow> string \<Rightarrow> string) \<Rightarrow> RegistryAuth option \<Rightarrow> string" where
  "encodeRegistryAuth json_Marshal auth = (case auth of
     None \<Rightarrow> []
   | Some a \<Rightarrow> if ra_Username a = [] \<and> ra_Password a = [] then []
       else base64_encode url_alphabet (json_Marshal (ra_Username a) (ra_Password a)))"

subsection \<open>Pull and push\<close>

fun drain :: "string \<Rightarrow> transfer_message decoded list \<Rightarrow> go_error option" where
  "drain what [] = None"
| "drain what (Undecodable err # msgs) = Some (''reading '' @ what @ '' progress: '' @ err)"
| "drain what (Decoded m # msgs) =
     (if tm_Error m \<noteq> [] then Some (what @ '' error: '' @ tm_Error m) else drain what msgs)"

definition PullImage :: "'w image_env \<Rightarrow> string \<Rightarrow> RegistryAuth option \<Rightarrow> 'w logger \<Rightarrow> ('w, go_error option) imaging" where
  "PullImage env img auth onLog = do {
     _ \<leftarrow> call (\<lambda>_. Logged (''Pulling image '' @ img @ ''...'')) (onLog (''Pulling image '' @ img @ ''...''));
     r \<leftarrow> (let header = encodeRegistryAuth (ie_json_Marshal env) auth in
          call (Pulling img header) (ie_ImagePull env img header));
     (case r of
        Inl err \<Rightarrow> State_Monad.return (Some (''pulling image '' @ img @ '': '' @ err))
      | Inr msgs \<Rightarrow> (case drain ''pull'' msgs of
          Some err \<Rightarrow> State_Monad.return (Some err)
        | None \<Rightarrow> do {
            _ \<leftarrow> call (\<lambda>_. Logged (''Image '' @ img @ '' pulled'')) (onLog (''Image '' @ img @ '' pulled''));
            State_Monad.return None })) }"

definition ImageExists :: "'w image_env \<Rightarrow> string \<Rightarrow> ('w, bool \<times> go_error option) imaging" where
  "ImageExists env ref = do {
     r \<leftarrow> call (Inspected ref) (ie_ImageInspect env ref);
     State_Monad.return (case r of
       FoundImage i n \<Rightarrow> (True, None)
     | NoSuchImage err \<Rightarrow> (False, None)
     | InspectError err \<Rightarrow> (False, Some (''inspecting image '' @ ref @ '': '' @ err))) }"

definition TagImage :: "'w image_env \<Rightarrow> string \<Rightarrow> string \<Rightarrow> ('w, go_error option) imaging" where
  "TagImage env source target = call (Tagged source target) (ie_ImageTag env source target)"

definition PushImage :: "'w image_env \<Rightarrow> string \<Rightarrow> RegistryAuth option \<Rightarrow> 'w logger \<Rightarrow> ('w, go_error option) imaging" where
  "PushImage env img auth onLog = do {
     _ \<leftarrow> call (\<lambda>_. Logged (''Pushing image '' @ img @ ''...'')) (onLog (''Pushing image '' @ img @ ''...''));
     r \<leftarrow> (let header = encodeRegistryAuth (ie_json_Marshal env) auth in
          call (Pushing img header) (ie_ImagePush env img header));
     (case r of
        Inl err \<Rightarrow> State_Monad.return (Some (''pushing image '' @ img @ '': '' @ err))
      | Inr msgs \<Rightarrow> (case drain ''push'' msgs of
          Some err \<Rightarrow> State_Monad.return (Some err)
        | None \<Rightarrow> do {
            _ \<leftarrow> call (\<lambda>_. Logged (''Image '' @ img @ '' pushed'')) (onLog (''Image '' @ img @ '' pushed''));
            State_Monad.return None })) }"

definition GetImageDigest :: "'w image_env \<Rightarrow> string \<Rightarrow> ('w, string result) imaging" where
  "GetImageDigest env ref = do {
     r \<leftarrow> call (Inspected ref) (ie_ImageInspect env ref);
     State_Monad.return (case r of
       FoundImage i n \<Rightarrow> Inr i
     | NoSuchImage err \<Rightarrow> Inl (''inspecting image '' @ ref @ '': '' @ err)
     | InspectError err \<Rightarrow> Inl (''inspecting image '' @ ref @ '': '' @ err)) }"

subsection \<open>Build\<close>

text \<open>Where the loop over the build output is: the lines it logs are events as they come.\<close>

fun build_output :: "'w logger \<Rightarrow> build_message decoded list \<Rightarrow> ('w, go_error option) imaging" where
  "build_output onLog [] = State_Monad.return None"
| "build_output onLog (Undecodable err # msgs) = State_Monad.return (Some (''reading build output: '' @ err))"
| "build_output onLog (Decoded m # msgs) =
     (if bm_Error m \<noteq> [] then State_Monad.return (Some (''build error: '' @ bm_Error m))
      else let line = TrimSpace (bm_Stream m) in
        if bm_Stream m \<noteq> [] \<and> line \<noteq> [] then do {
          _ \<leftarrow> call (\<lambda>_. Logged line) (onLog line);
          build_output onLog msgs }
        else build_output onLog msgs)"

definition image_build_request :: "string \<Rightarrow> string \<Rightarrow> string \<Rightarrow> string list \<Rightarrow> go_map \<Rightarrow> image_build" where
  "image_build_request tar tag dockerfile cacheFrom labels =
     \<lparr>ib_Context = tar, ib_Tags = [tag], ib_Dockerfile = dockerfile, ib_Remove = True, ib_CacheFrom = cacheFrom,
      ib_Labels = labels, ib_Memory = 2 * 1024 * 1024 * 1024, ib_CPUQuota = 200000\<rparr>"

definition BuildImage :: "'w image_env \<Rightarrow> string \<Rightarrow> string \<Rightarrow> string \<Rightarrow> string list \<Rightarrow> go_map \<Rightarrow> 'w logger
    \<Rightarrow> ('w, go_error option) imaging" where
  "BuildImage env contextPath tag dockerfile cacheFrom labels onLog = do {
     _ \<leftarrow> call (\<lambda>_. Logged (''Building image '' @ tag @ ''...'')) (onLog (''Building image '' @ tag @ ''...''));
     archive \<leftarrow> call (Archived contextPath) (ie_TarWithOptions env contextPath);
     (case archive of
        Inl err \<Rightarrow> State_Monad.return (Some (''creating build context tar: '' @ err))
      | Inr tar \<Rightarrow> do {
          r \<leftarrow> (let rq = image_build_request tar tag dockerfile cacheFrom labels in call (Building rq) (ie_ImageBuild env rq));
          (case r of
             Inl err \<Rightarrow> State_Monad.return (Some (''building image: '' @ err))
           | Inr msgs \<Rightarrow> do {
               failed \<leftarrow> build_output onLog msgs;
               (case failed of
                  Some err \<Rightarrow> State_Monad.return (Some err)
                | None \<Rightarrow> do {
                    _ \<leftarrow> call (\<lambda>_. Logged (''Image '' @ tag @ '' built'')) (onLog (''Image '' @ tag @ '' built''));
                    State_Monad.return None }) }) }) }"

subsection \<open>What a transfer answers\<close>

text \<open>A stream whose messages all decode and carry no error.\<close>

definition clean :: "('m \<Rightarrow> string) \<Rightarrow> 'm decoded list \<Rightarrow> bool" where
  "clean error msgs \<longleftrightarrow> (\<forall>x \<in> set msgs. \<exists>m. x = Decoded m \<and> error m = [])"

definition accepted :: "('m \<Rightarrow> string) \<Rightarrow> 'm decoded list result \<Rightarrow> bool" where
  "accepted error ans \<longleftrightarrow> (\<exists>msgs. ans = Inr msgs \<and> clean error msgs)"

lemma accepted_simps [simp]: "\<not> accepted error (Inl e)" "accepted error (Inr msgs) = clean error msgs"
  by (simp_all add: accepted_def)

lemma clean_simps [simp]: "clean error []" "\<not> clean error (Undecodable e # msgs)"
    "clean error (Decoded m # msgs) \<longleftrightarrow> error m = [] \<and> clean error msgs"
  by (auto simp: clean_def)

lemma drain_clean: "drain what msgs = None \<longleftrightarrow> clean tm_Error msgs"
  by (induction what msgs rule: drain.induct) simp_all

lemma drain_fails: "drain what msgs = Some e \<Longrightarrow> \<not> clean tm_Error msgs"
  using drain_clean [of what msgs] by simp

text \<open>The events that ask the daemon for something, the log left out.\<close>

definition asks :: "image_event \<Rightarrow> bool" where
  "asks e \<longleftrightarrow> (case e of Logged line \<Rightarrow> False | _ \<Rightarrow> True)"

lemma asks_simps [simp]: "\<not> asks (Logged line)" "asks (Pulling i h a)" "asks (Pushing i h a)" "asks (Building rq b)"
    "asks (Archived p t)" "asks (Tagged i j e)" "asks (Inspected i x)"
  by (simp_all add: asks_def)

lemma yields_pull: "yields (\<lambda>r evs. \<exists>ans. filter asks evs = [Pulling img (encodeRegistryAuth (ie_json_Marshal env) auth) ans] \<and>
    (r = None \<longleftrightarrow> accepted tm_Error ans)) (PullImage env img auth onLog)"
  unfolding PullImage_def Let_def
  by (intro yields_call_then yields_sum yields_option yields_return) (auto simp: drain_clean drain_fails)

lemma yields_push: "yields (\<lambda>r evs. \<exists>ans. filter asks evs = [Pushing img (encodeRegistryAuth (ie_json_Marshal env) auth) ans] \<and>
    (r = None \<longleftrightarrow> accepted tm_Error ans)) (PushImage env img auth onLog)"
  unfolding PushImage_def Let_def
  by (intro yields_call_then yields_sum yields_option yields_return) (auto simp: drain_clean drain_fails)

text \<open>The lines of a build: of the messages before the first that fails, the ones that are not blank.\<close>

fun build_lines :: "build_message decoded list \<Rightarrow> string list" where
  "build_lines (Decoded m # msgs) = (if bm_Error m \<noteq> [] then [] else
     (if TrimSpace (bm_Stream m) \<noteq> [] then [TrimSpace (bm_Stream m)] else []) @ build_lines msgs)"
| "build_lines msgs = []"

lemma TrimSpace_Nil [simp]: "TrimSpace [] = []"
  by (simp add: TrimSpace_def)

lemma yields_build_output: "yields (\<lambda>r evs. evs = map Logged (build_lines msgs) \<and> (r = None \<longleftrightarrow> clean bm_Error msgs))
    (build_output onLog msgs)"
proof (induction onLog msgs rule: build_output.induct)
  case (3 onLog m msgs)
  show ?case
  proof (cases "bm_Error m = []")
    case True
    then show ?thesis using 3 by (auto simp: Let_def intro!: yields_call_then elim!: yields_mono)
  qed (simp add: yields_return)
qed (simp_all add: yields_return)

fun logged :: "image_event list \<Rightarrow> string list" where
  "logged [] = []"
| "logged (Logged line # evs) = line # logged evs"
| "logged (e # evs) = logged evs"

lemma logged_append [simp]: "logged (es @ fs) = logged es @ logged fs"
  by (induction es rule: logged.induct) simp_all

lemma logged_lines [simp]: "logged (map Logged ls) = ls" "filter asks (map Logged ls) = []"
  by (induction ls) simp_all

definition build_exact :: "string \<Rightarrow> string \<Rightarrow> string \<Rightarrow> string list \<Rightarrow> go_map \<Rightarrow> go_error option \<Rightarrow> image_event list \<Rightarrow> bool" where
  "build_exact path tag dockerfile cacheFrom labels r evs \<longleftrightarrow> (case filter asks evs of
     [Archived q (Inl err)] \<Rightarrow> q = path \<and> r = Some (''creating build context tar: '' @ err)
   | [Archived q (Inr content), Building rq ans] \<Rightarrow>
       q = path \<and> rq = image_build_request content tag dockerfile cacheFrom labels \<and> (r = None \<longleftrightarrow> accepted bm_Error ans) \<and>
       logged evs = [''Building image '' @ tag @ ''...''] @
         (case ans of Inl err \<Rightarrow> [] | Inr msgs \<Rightarrow> build_lines msgs) @ (if r = None then [''Image '' @ tag @ '' built''] else [])
   | _ \<Rightarrow> False)"

text \<open>
  A build is reported as done exactly when the context could be archived, the daemon took the
  request and every message of its output decoded and carried no error; the request is for the one tag
  with the limits on memory and processor time, and the callback gets every line that is not blank, in
  order, up to the first failure.
\<close>

theorem image_build_exact:
  "yields (build_exact path tag dockerfile cacheFrom labels) (BuildImage env path tag dockerfile cacheFrom labels onLog)"
proof -
  have out: "yields (\<lambda>r evs. evs = map Logged (build_lines msgs) \<and> (r = None \<longleftrightarrow> clean bm_Error msgs)) (build_output onLog msgs)" for msgs
    by (rule yields_build_output)
  show ?thesis unfolding BuildImage_def Let_def
    by (intro yields_call_then yields_sum yields_bind [OF out] yields_option yields_return) (auto simp: build_exact_def)
qed

text \<open>
  C40. Registry credentials survive both codings, as far as the JSON library reads back what it writes:
  what the control plane encodes is read back by the agent, unless the username is empty, when there are no
  credentials for the agent; and the header the agent sends to the daemon decodes to exactly the JSON
  text of the credentials, unless they are empty altogether, when there is no header.
\<close>

theorem registry_credentials_round_trip:
  assumes "json_Unmarshal (json_Marshal u p) = Inr (u, p)" and "json_Marshal u p \<noteq> []"
  shows "DecodeRegistryAuth json_Unmarshal (base64_encode std_alphabet (json_Marshal u p)) =
      (if u = [] then None else Some \<lparr>ra_Username = u, ra_Password = p\<rparr>) \<and>
    (let header = encodeRegistryAuth json_Marshal (Some \<lparr>ra_Username = u, ra_Password = p\<rparr>)
     in if u = [] \<and> p = [] then header = [] else base64_decode url_alphabet header = Some (json_Marshal u p))"
proof -
  have "base64_encode std_alphabet (json_Marshal u p) \<noteq> []"
    using std64.encode_length [of "json_Marshal u p"] assms(2) by (cases "json_Marshal u p") auto
  then show ?thesis
    using assms by (simp add: DecodeRegistryAuth_def encodeRegistryAuth_def Let_def std64.decode_encode url64.decode_encode)
qed

definition sample_marshal :: "string \<Rightarrow> string \<Rightarrow> string" where
  "sample_marshal u p = u @ '':'' @ p"

definition sample_unmarshal :: "string \<Rightarrow> (string \<times> string) result" where
  "sample_unmarshal s = Inr (takeWhile (\<lambda>c. c \<noteq> CHR '':'') s, drop 1 (dropWhile (\<lambda>c. c \<noteq> CHR '':'') s))"

theorem registry_credentials_round_trip_witness:
  "DecodeRegistryAuth sample_unmarshal (base64_encode std_alphabet (sample_marshal ''ci'' ''s3:cret?'')) =
     Some \<lparr>ra_Username = ''ci'', ra_Password = ''s3:cret?''\<rparr> \<and>
   base64_decode url_alphabet (encodeRegistryAuth sample_marshal (Some \<lparr>ra_Username = ''ci'', ra_Password = ''s3:cret?''\<rparr>)) =
     Some (sample_marshal ''ci'' ''s3:cret?'')"
  using registry_credentials_round_trip [of sample_unmarshal sample_marshal "''ci''" "''s3:cret?''"]
  by (simp add: sample_marshal_def sample_unmarshal_def Let_def)

text \<open>A daemon whose registry cannot be reached.\<close>

definition offline_images :: "unit image_env" where
  "offline_images = \<lparr>ie_ImagePull = \<lambda>i h w. (Inl ''no route to host'', 0, w), ie_ImagePush = \<lambda>i h w. (Inl ''no route to host'', 0, w),
     ie_ImageBuild = \<lambda>rq w. (Inr [], 0, w), ie_TarWithOptions = \<lambda>p w. (Inr p, 0, w), ie_ImageTag = \<lambda>i j w. (None, 0, w),
     ie_ImageInspect = \<lambda>i w. (FoundImage ''sha256:0'' 0, 0, w), ie_json_Marshal = sample_marshal,
     ie_json_Unmarshal = sample_unmarshal\<rparr>"

end
