(* ===== verification/Host_Containers.thy ===== *)
theory Host_Containers
  imports Docker_Client Image_Transfer
begin

text \<open>
  The containers the agent runs for itself: the Traefik proxy (\<^verbatim>\<open>internal/docker/traefik.go\<close>)
  and the cloudflared tunnels (\<^verbatim>\<open>cloudflared.go\<close>).  They use the operations of the Docker manager
  (\<open>Docker_Client\<close>), the image pull (\<open>Image_Transfer\<close>) and \<^verbatim>\<open>ContainerCreate\<close> with settings of
  their own.  A container identifier shorter than the twelve bytes that are logged makes the code panic.
\<close>

record host_mount =
  hm_Type :: string
  hm_Source :: string
  hm_Target :: string
  hm_ReadOnly :: bool

record host_request =
  hr_Name :: string
  hr_Image :: string
  hr_Cmd :: "string list"
  hr_Labels :: go_map
  hr_ExposedPorts :: "string list"
  hr_PortBindings :: "(string \<times> (string \<times> string) list) list"   \<comment> \<open>port, then host address and host port\<close>
  hr_Mounts :: "host_mount list"
  hr_NetworkMode :: string
  hr_RestartPolicy :: string
  hr_Networks :: "string list"

datatype host_event = Daemon daemon_event | Images image_event | HostCreated host_request "string result" | Slept int

record 'w host_env =
  hn_sdk :: "'w docker_sdk"
  hn_images :: "'w image_env"
  hn_log :: "'w logger"
  hn_ContainerCreate :: "host_request \<Rightarrow> (string result, 'w) op"
  hn_Sleep :: "(unit, 'w) op"

type_synonym ('w, 'a) hosting = "(host_event, 'w, 'a) rigged"

datatype host_outcome = Ended "go_error option" | IdTooShort

abbreviation docker :: "('w, 'a) daemon \<Rightarrow> ('w, 'a) hosting" where
  "docker \<equiv> embed Daemon"

definition pull :: "'w host_env \<Rightarrow> string \<Rightarrow> ('w, go_error option) hosting" where
  "pull env img = embed Images (PullImage (hn_images env) img None (hn_log env))"

text \<open>Creating and starting a container, removing it when it does not start.\<close>

definition create_and_start :: "'w host_env \<Rightarrow> host_request \<Rightarrow> string \<Rightarrow> string
    \<Rightarrow> (string \<Rightarrow> ('w, host_outcome) hosting) \<Rightarrow> ('w, host_outcome) hosting" where
  "create_and_start env rq creating starting go_on = do {
     resp \<leftarrow> call (HostCreated rq) (hn_ContainerCreate env rq);
     (case resp of
        Inl err \<Rightarrow> State_Monad.return (Ended (Some (creating @ err)))
      | Inr cid \<Rightarrow> do {
          started \<leftarrow> docker (StartContainer (hn_sdk env) cid);
          (case started of
             Some err \<Rightarrow> do {
               _ \<leftarrow> docker (call (\<lambda>_. Removed cid) (sdk_ContainerRemove (hn_sdk env) cid));
               State_Monad.return (Ended (Some (starting @ err))) }
           | None \<Rightarrow> go_on cid) }) }"

definition log_started :: "string \<Rightarrow> ('w, host_outcome) hosting \<Rightarrow> ('w, host_outcome) hosting" where
  "log_started cid go_on = (if length cid < 12 then State_Monad.return IdTooShort else go_on)"

subsection \<open>Traefik\<close>

definition traefikContainerName :: string where "traefikContainerName = ''clank-traefik''"
definition traefikImage :: string where "traefikImage = ''traefik:v3.6''"
definition proxyServicesNetwork :: string where "proxyServicesNetwork = ''clank-services''"

definition traefikPortBindings :: "string \<Rightarrow> (string \<times> (string \<times> string) list) list" where
  "traefikPortBindings bindIP =
     (if bindIP = [] then [(''80/tcp'', [([], ''80'')]), (''443/tcp'', [([], ''443'')])]
      else [(''80/tcp'', [(bindIP, ''80''), (''127.0.0.1'', ''80'')]), (''443/tcp'', [(bindIP, ''443''), (''127.0.0.1'', ''443'')])])"

definition docker_socket :: host_mount where
  "docker_socket = \<lparr>hm_Type = ''bind'', hm_Source = ''/var/run/docker.sock'', hm_Target = ''/var/run/docker.sock'', hm_ReadOnly = True\<rparr>"

definition traefik_request :: "string \<Rightarrow> host_request" where
  "traefik_request publicIP =
     \<lparr>hr_Name = traefikContainerName, hr_Image = traefikImage,
      hr_Cmd = [''--providers.docker=true'', ''--providers.docker.exposedByDefault=false'',
        ''--providers.docker.network='' @ proxyServicesNetwork, ''--entrypoints.web.address=:80'',
        ''--entrypoints.websecure.address=:443'', ''--api.insecure=true''],
      hr_Labels = [''clank.traefik'' \<mapsto> ''true'', ''clank.managed'' \<mapsto> ''true''],
      hr_ExposedPorts = [''80/tcp'', ''443/tcp'', ''8080/tcp''], hr_PortBindings = traefikPortBindings publicIP,
      hr_Mounts = [docker_socket], hr_NetworkMode = [], hr_RestartPolicy = ''unless-stopped'', hr_Networks = [proxyServicesNetwork]\<rparr>"

definition acme_request :: "string \<Rightarrow> host_request" where
  "acme_request publicIP =
     \<lparr>hr_Name = traefikContainerName, hr_Image = traefikImage,
      hr_Cmd = [''--providers.docker=true'', ''--providers.docker.exposedByDefault=false'',
        ''--providers.docker.network='' @ proxyServicesNetwork, ''--entrypoints.web.address=:80'',
        ''--entrypoints.websecure.address=:443'',
        ''--certificatesresolvers.letsencrypt.acme.httpchallenge.entrypoint=web'',
        ''--certificatesresolvers.letsencrypt.acme.storage=/acme/acme.json'', ''--api.insecure=true''],
      hr_Labels = [''clank.traefik'' \<mapsto> ''true'', ''clank.traefik.acme'' \<mapsto> ''true'', ''clank.managed'' \<mapsto> ''true''],
      hr_ExposedPorts = [''80/tcp'', ''443/tcp'', ''8080/tcp''], hr_PortBindings = traefikPortBindings publicIP,
      hr_Mounts = [docker_socket, \<lparr>hm_Type = ''volume'', hm_Source = ''clank-acme'', hm_Target = ''/acme'', hm_ReadOnly = False\<rparr>],
      hr_NetworkMode = [], hr_RestartPolicy = ''unless-stopped'', hr_Networks = [proxyServicesNetwork]\<rparr>"

text \<open>The number of bindings found only reaches the log.\<close>

definition verify_bindings :: "'w host_env \<Rightarrow> string \<Rightarrow> ('w, unit) hosting" where
  "verify_bindings env cid = do {
     _ \<leftarrow> docker (query ''ContainerInspect'' (sdk_ContainerInspect (hn_sdk env) cid));
     State_Monad.return () }"

definition EnsureTraefik :: "'w host_env \<Rightarrow> string \<Rightarrow> ('w, host_outcome) hosting" where
  "EnsureTraefik env publicIP = do {
     found \<leftarrow> docker (FindContainerByLabel (hn_sdk env) ''clank.traefik'' ''true'');
     (case found of (cid, name, err) \<Rightarrow> (case err of
        Some e \<Rightarrow> State_Monad.return (Ended (Some (''checking for traefik: '' @ e)))
      | None \<Rightarrow>
          if cid \<noteq> [] then State_Monad.return (Ended None)
          else do {
            network \<leftarrow> docker (EnsureNetwork (hn_sdk env) proxyServicesNetwork);
            (case network of
               Some e \<Rightarrow> State_Monad.return (Ended (Some (''ensuring services network: '' @ e)))
             | None \<Rightarrow> do {
                 pulled \<leftarrow> pull env traefikImage;
                 (case pulled of
                    Some e \<Rightarrow> State_Monad.return (Ended (Some (''pulling traefik image: '' @ e)))
                  | None \<Rightarrow>
                      create_and_start env (traefik_request publicIP) ''creating traefik container: '' ''starting traefik container: ''
                        (\<lambda>cid. do {
                           verify_bindings env cid;
                           log_started cid (State_Monad.return (Ended None)) })) }) })) }"

fun reconnect_all :: "'w host_env \<Rightarrow> string \<Rightarrow> string list \<Rightarrow> ('w, host_outcome) hosting" where
  "reconnect_all env cid [] = State_Monad.return (Ended None)"
| "reconnect_all env cid (n # ns) = do {
     _ \<leftarrow> docker (ConnectToNetworkIfNeeded (hn_sdk env) cid n);
     reconnect_all env cid ns }"

text \<open>What follows the removal of the old proxy.\<close>

definition start_acme :: "'w host_env \<Rightarrow> string \<Rightarrow> string list \<Rightarrow> ('w, host_outcome) hosting" where
  "start_acme env publicIP extraNetworks = do {
     network \<leftarrow> docker (EnsureNetwork (hn_sdk env) proxyServicesNetwork);
     (case network of
        Some e \<Rightarrow> State_Monad.return (Ended (Some (''ensuring services network: '' @ e)))
      | None \<Rightarrow> do {
          pulled \<leftarrow> pull env traefikImage;
          (case pulled of
             Some e \<Rightarrow> State_Monad.return (Ended (Some (''pulling traefik image: '' @ e)))
           | None \<Rightarrow>
               create_and_start env (acme_request publicIP) ''creating traefik container (ACME): ''
                 ''starting traefik container (ACME): ''
                 (\<lambda>cid. do {
                    verify_bindings env cid;
                    log_started cid (reconnect_all env cid extraNetworks) })) }) }"

definition ReconfigureTraefikACME :: "'w host_env \<Rightarrow> string \<Rightarrow> ('w, host_outcome) hosting" where
  "ReconfigureTraefikACME env publicIP = do {
     found \<leftarrow> docker (FindContainerByLabel (hn_sdk env) ''clank.traefik'' ''true'');
     (case found of (cid, name, err) \<Rightarrow> (case err of
        Some e \<Rightarrow> State_Monad.return (Ended (Some (''checking for traefik: '' @ e)))
      | None \<Rightarrow>
          if cid \<noteq> [] then do {
            inspected \<leftarrow> docker (query ''ContainerInspect'' (sdk_ContainerInspect (hn_sdk env) cid));
            removed \<leftarrow> docker (StopAndRemove (hn_sdk env) cid);
            (case removed of
               Some e \<Rightarrow> State_Monad.return (Ended (Some (''stopping traefik: '' @ e)))
             | None \<Rightarrow> start_acme env publicIP (case inspected of
                 Inl e \<Rightarrow> [] | Inr i \<Rightarrow> filter (\<lambda>n. n \<noteq> proxyServicesNetwork) (map fst (sx_Networks i)))) }
          else start_acme env publicIP [])) }"

definition HasACME :: "'w host_env \<Rightarrow> ('w, bool) hosting" where
  "HasACME env = do {
     found \<leftarrow> docker (FindContainerByLabel (hn_sdk env) ''clank.traefik.acme'' ''true'');
     State_Monad.return (case found of (cid, name, err) \<Rightarrow> err = None \<and> cid \<noteq> []) }"

subsection \<open>Cloudflared\<close>

definition cloudflaredContainerName :: string where "cloudflaredContainerName = ''clank-cloudflared''"
definition cloudflaredImage :: string where "cloudflaredImage = ''cloudflare/cloudflared:latest''"

definition cloudflared_request :: "string \<Rightarrow> go_map \<Rightarrow> string \<Rightarrow> host_request" where
  "cloudflared_request name labels tunnelToken =
     \<lparr>hr_Name = name, hr_Image = cloudflaredImage, hr_Cmd = [''tunnel'', ''run'', ''--token'', tunnelToken], hr_Labels = labels,
      hr_ExposedPorts = [], hr_PortBindings = [], hr_Mounts = [], hr_NetworkMode = ''host'',
      hr_RestartPolicy = ''unless-stopped'', hr_Networks = []\<rparr>"

text \<open>From the removal by name to the end, which both operations share.\<close>

definition start_cloudflared :: "'w host_env \<Rightarrow> host_request \<Rightarrow> int \<Rightarrow> string \<Rightarrow> string \<Rightarrow> ('w, host_outcome) hosting" where
  "start_cloudflared env rq wait creating starting = do {
     _ \<leftarrow> docker (call (\<lambda>_. Removed (hr_Name rq)) (sdk_ContainerRemove (hn_sdk env) (hr_Name rq)));
     _ \<leftarrow> call_wait wait (\<lambda>_. Slept wait) (hn_Sleep env);
     pulled \<leftarrow> pull env cloudflaredImage;
     (case pulled of
        Some e \<Rightarrow> State_Monad.return (Ended (Some (''pulling cloudflared image: '' @ e)))
      | None \<Rightarrow> create_and_start env rq creating starting
          (\<lambda>cid. log_started cid (State_Monad.return (Ended None)))) }"

definition EnsureCloudflared :: "'w host_env \<Rightarrow> string \<Rightarrow> ('w, host_outcome) hosting" where
  "EnsureCloudflared env tunnelToken =
     (if tunnelToken = [] then State_Monad.return (Ended (Some ''tunnel token is empty''))
      else do {
        found \<leftarrow> docker (FindContainerByLabel (hn_sdk env) ''clank.cloudflared'' ''true'');
        (case found of (cid, name, err) \<Rightarrow> (case err of
           Some e \<Rightarrow> State_Monad.return (Ended (Some (''checking for cloudflared: '' @ e)))
         | None \<Rightarrow> do {
             _ \<leftarrow> (if cid \<noteq> [] then docker (StopAndRemove (hn_sdk env) cid) else State_Monad.return None);
             start_cloudflared env
               (cloudflared_request cloudflaredContainerName [''clank.cloudflared'' \<mapsto> ''true'', ''clank.managed'' \<mapsto> ''true''] tunnelToken)
               1000000000 ''creating cloudflared container: '' ''starting cloudflared container: '' })) })"

definition EnsureCloudflaredNamed :: "'w host_env \<Rightarrow> string \<Rightarrow> string \<Rightarrow> ('w, host_outcome) hosting" where
  "EnsureCloudflaredNamed env name tunnelToken =
     (if tunnelToken = [] then State_Monad.return (Ended (Some ''tunnel token is empty''))
      else do {
        found \<leftarrow> docker (FindContainerByLabel (hn_sdk env) ''clank.cftunnel.name'' name);
        (case found of (cid, cname, err) \<Rightarrow> (case err of
           Some e \<Rightarrow> State_Monad.return (Ended (Some (''checking for cloudflared '' @ name @ '': '' @ e)))
         | None \<Rightarrow>
             if cid \<noteq> [] then State_Monad.return (Ended None)
             else start_cloudflared env
               (cloudflared_request name [''clank.cftunnel.name'' \<mapsto> name, ''clank.cftunnel.endpoint'' \<mapsto> ''true'',
                  ''clank.managed'' \<mapsto> ''true''] tunnelToken)
               500000000 (''creating cloudflared '' @ name @ '': '') (''starting cloudflared '' @ name @ '': ''))) })"

subsection \<open>What setting up a container promises\<close>

text \<open>
  The containers that were created and whose removal was not asked for since, and what was asked to be
  created.  The answer of the daemon to the removal is left out, as the code ignores it.
\<close>

fun unremoved :: "string set \<Rightarrow> host_event list \<Rightarrow> string set" where
  "unremoved A [] = A"
| "unremoved A (HostCreated rq (Inr cid) # evs) = unremoved (insert cid A) evs"
| "unremoved A (Daemon (Removed cid) # evs) = unremoved (A - {cid}) evs"
| "unremoved A (e # evs) = unremoved A evs"

fun requests :: "host_event list \<Rightarrow> host_request list" where
  "requests [] = []"
| "requests (HostCreated rq r # evs) = rq # requests evs"
| "requests (e # evs) = requests evs"

text \<open>Events that create nothing, and of these the ones that remove nothing either.\<close>

definition quiet :: "host_event \<Rightarrow> bool" where
  "quiet e \<longleftrightarrow> (case e of HostCreated rq r \<Rightarrow> False | _ \<Rightarrow> True)"

definition calm :: "host_event \<Rightarrow> bool" where
  "calm e \<longleftrightarrow> (case e of HostCreated rq r \<Rightarrow> False | Daemon (Removed cid) \<Rightarrow> False | _ \<Rightarrow> True)"

definition settled :: "host_request \<Rightarrow> host_outcome \<Rightarrow> host_event list \<Rightarrow> bool" where
  "settled rq r evs \<longleftrightarrow> (requests evs = [] \<or> requests evs = [rq]) \<and> (case r of
     Ended None \<Rightarrow> (requests evs = [] \<and> unremoved {} evs = {}) \<or> (requests evs = [rq] \<and> (\<exists>cid. unremoved {} evs = {cid}))
   | Ended (Some err) \<Rightarrow> unremoved {} evs = {}
   | IdTooShort \<Rightarrow> \<exists>cid. unremoved {} evs = {cid} \<and> length cid < 12)"

lemma live_append: "unremoved A (evs @ evs') = unremoved (unremoved A evs) evs'"
  by (induction A evs rule: unremoved.induct) simp_all

lemma requests_append: "requests (evs @ evs') = requests evs @ requests evs'"
  by (induction evs rule: requests.induct) simp_all

lemma quiet_prefix: "list_all quiet evs \<Longrightarrow> unremoved {} evs = {} \<and> requests evs = []"
proof (induction evs)
  case (Cons e evs)
  show ?case
  proof (cases e)
    case (Daemon d)
    with Cons show ?thesis by (cases d) simp_all
  qed (use Cons in \<open>simp_all add: quiet_def\<close>)
qed simp

lemma calm_both: "list_all calm evs \<Longrightarrow> unremoved A evs = A \<and> requests evs = []"
proof (induction evs)
  case (Cons e evs)
  show ?case
  proof (cases e)
    case (Daemon d)
    with Cons show ?thesis by (cases d) (simp_all add: calm_def)
  qed (use Cons in \<open>simp_all add: calm_def\<close>)
qed simp

lemmas calm_keeps = calm_both [THEN conjunct1] calm_both [THEN conjunct2]

lemma settled_after: "list_all quiet evs \<Longrightarrow> settled rq r evs' \<Longrightarrow> settled rq r (evs @ evs')"
  unfolding settled_def by (simp only: live_append requests_append quiet_prefix append_Nil)

lemma settled_failed: "settled rq (Ended (Some e)) evs \<longleftrightarrow> (requests evs = [] \<or> requests evs = [rq]) \<and> unremoved {} evs = {}"
  by (simp add: settled_def)

lemma settled_unasked: "settled rq (Ended x) []"
  by (cases x) (simp_all add: settled_def)

lemma emits_embed: "emits P m \<Longrightarrow> (\<And>e. P e \<Longrightarrow> Q (f e)) \<Longrightarrow> emits Q (embed f m)"
  unfolding emits_def by (erule yields_embed) (auto simp: list_all_iff)

lemma quiet_daemon: "quiet (Daemon d)" "quiet (Images i)" "quiet (Slept n)"
  by (simp_all add: quiet_def)

lemma docker_quiet: "emits (\<lambda>e. True) m \<Longrightarrow> emits quiet (docker m)"
  by (erule emits_embed) (rule quiet_daemon)

lemma daemon_runs:
  "emits (\<lambda>e. True) (FindContainerByLabel sdk k v)" "emits (\<lambda>e. True) (EnsureNetwork sdk n)"
  "emits (\<lambda>e. True) (StopAndRemove sdk cid)" "emits (\<lambda>e. True) (query q f)" "emits (\<lambda>e. True) (StartContainer sdk cid)"
  "emits (\<lambda>e. True) (call ev g)"
  unfolding FindContainerByLabel_def EnsureNetwork_def StopAndRemove_def query_def StartContainer_def
  by (intro emits_rules TrueI)+

lemma pull_quiet: "emits quiet (pull env img)"
proof -
  have "emits (\<lambda>e. True) (PullImage (hn_images env) img None (hn_log env))"
    unfolding emits_def by (rule yields_mono [OF yields_pull]) (simp add: list_all_iff)
  then show ?thesis unfolding pull_def by (rule emits_embed) (rule quiet_daemon)
qed

lemma connect_calm: "emits calm (docker (ConnectToNetworkIfNeeded sdk cid n))"
  unfolding ConnectToNetworkIfNeeded_def query_def
  by (rule emits_embed [where P = "\<lambda>d. \<forall>c. d \<noteq> Removed c"], intro emits_rules) (auto simp: calm_def split: daemon_event.split)

lemma inspect_calm: "emits calm (verify_bindings env cid)"
proof -
  have "emits calm (docker (query ''ContainerInspect'' (sdk_ContainerInspect (hn_sdk env) cid)))"
    unfolding query_def
    by (rule emits_embed [where P = "\<lambda>d. \<forall>c. d \<noteq> Removed c"], intro emits_rules) (auto simp: calm_def split: daemon_event.split)
  then show ?thesis unfolding verify_bindings_def by (intro emits_rules)
qed

text \<open>The end of a set-up that worked: nothing is created or removed, and only the log can panic.\<close>

definition went_well :: "string \<Rightarrow> host_outcome \<Rightarrow> host_event list \<Rightarrow> bool" where
  "went_well cid r evs \<longleftrightarrow> list_all calm evs \<and> (r = Ended None \<or> r = IdTooShort \<and> length cid < 12)"

lemma yields_create:
  assumes "\<And>cid. yields (went_well cid) (go_on cid)"
  shows "yields (settled rq) (create_and_start env rq creating starting go_on)"
proof -
  have start: "yields (\<lambda>r evs. evs = [Daemon (Started cid)]) (docker (StartContainer (hn_sdk env) cid))" for cid
    unfolding StartContainer_def by (rule yields_embed [OF yields_call [where R = "\<lambda>r evs. evs = [Started cid]"]]) simp_all
  have remove: "yields (\<lambda>r evs. evs = [Daemon (Removed cid)]) (docker (call (\<lambda>_. Removed cid) (sdk_ContainerRemove (hn_sdk env) cid)))" for cid
    by (rule yields_embed [OF yields_call [where R = "\<lambda>r evs. evs = [Removed cid]"]]) simp_all
  have well: "yields (\<lambda>r evs. settled rq r (HostCreated rq (Inr cid) # Daemon (Started cid) # evs)) (go_on cid)" for cid
    by (rule yields_mono [OF assms]) (auto simp: went_well_def settled_def calm_keeps)
  show ?thesis unfolding create_and_start_def
    by (intro yields_call_then yields_sum yields_bind [OF start] yields_option yields_bind [OF remove] yields_return)
      (auto simp: settled_failed intro: well)
qed

text \<open>
  What the agent relies on when it sets up a container of its own: only the one container is asked for,
  after success it is there, and after a failure none that was created is left.
\<close>

locale host_service =
  fixes ensure :: "'w host_env \<Rightarrow> string \<Rightarrow> ('w, host_outcome) hosting" and request :: "string \<Rightarrow> host_request"
  assumes settles: "yields (settled (request arg)) (ensure env arg)"
begin

lemma failure_leaves_none: "yields (\<lambda>r evs. \<forall>err. r = Ended (Some err) \<longrightarrow> unremoved {} evs = {}) (ensure env arg)"
  by (rule yields_mono [OF settles]) (auto simp: settled_def)

lemma at_most_one_request: "yields (\<lambda>r evs. length (requests evs) \<le> 1) (ensure env arg)"
  by (rule yields_mono [OF settles]) (auto simp: settled_def)

end

lemma started_well: "yields (went_well cid) (log_started cid (State_Monad.return (Ended None)))"
  unfolding log_started_def by (intro yields_if yields_return) (simp_all add: went_well_def)

lemma went_well_after: "list_all calm evs \<Longrightarrow> went_well cid r evs' \<Longrightarrow> went_well cid r (evs @ evs')"
  by (auto simp: went_well_def)

lemma reconnect_well: "yields (went_well cid) (reconnect_all env c ns)"
proof (induction ns)
  case (Cons n ns)
  show ?case unfolding reconnect_all.simps
    by (rule yields_prefix [OF connect_calm]) (use Cons in \<open>auto intro: went_well_after\<close>)
qed (simp add: went_well_def yields_return)

lemma started_acme_well: "yields (went_well cid) (log_started cid (reconnect_all env cid ns))"
  unfolding log_started_def by (intro yields_if yields_return reconnect_well) (simp add: went_well_def)

lemma verified_well:
  assumes "yields (went_well cid) m"
  shows "yields (went_well cid) (do { verify_bindings env cid; m })"
  by (rule yields_prefix [OF inspect_calm]) (use assms in \<open>auto intro: went_well_after\<close>)

lemma settled_prefix:
  assumes "emits quiet m" and "\<And>a. yields (settled rq) (f a)"
  shows "yields (settled rq) (State_Monad.bind m f)"
  by (rule yields_prefix [OF assms]) (rule settled_after)

lemmas settled_steps = settled_prefix [OF docker_quiet [OF daemon_runs(1)]] settled_prefix [OF docker_quiet [OF daemon_runs(2)]]
  settled_prefix [OF docker_quiet [OF daemon_runs(3)]] settled_prefix [OF docker_quiet [OF daemon_runs(4)]]
  settled_prefix [OF docker_quiet [OF daemon_runs(6)]] settled_prefix [OF pull_quiet]
  yields_create yields_option yields_prod yields_if yields_return

interpretation traefik: host_service EnsureTraefik traefik_request
  unfolding host_service_def EnsureTraefik_def
  by (intro allI settled_steps verified_well started_well settled_unasked)

lemma acme_started: "yields (settled (acme_request publicIP)) (start_acme env publicIP ns)"
  unfolding start_acme_def by (intro settled_steps verified_well started_acme_well settled_unasked)

interpretation acme: host_service ReconfigureTraefikACME acme_request
  unfolding host_service_def ReconfigureTraefikACME_def
  by (intro allI settled_steps acme_started settled_unasked)

lemma cloudflared_started: "yields (settled rq) (start_cloudflared env rq d creating starting)"
proof -
  have "emits quiet (call_wait d (\<lambda>_. Slept d) (hn_Sleep env))" by (rule emits_call_wait) (rule quiet_daemon)
  then show ?thesis unfolding start_cloudflared_def
    by (intro settled_steps settled_prefix started_well settled_unasked)
qed

definition platform_request :: "string \<Rightarrow> host_request" where
  "platform_request = cloudflared_request cloudflaredContainerName [''clank.cloudflared'' \<mapsto> ''true'', ''clank.managed'' \<mapsto> ''true'']"

interpretation cloudflared: host_service EnsureCloudflared platform_request
proof
  fix env :: "'w host_env" and token
  have "emits quiet (if b then docker (StopAndRemove (hn_sdk env) cid) else State_Monad.return None)" for b cid
    by (intro emits_if docker_quiet daemon_runs emits_return)
  then show "yields (settled (platform_request token)) (EnsureCloudflared env token)"
    unfolding EnsureCloudflared_def platform_request_def
    by (intro settled_steps settled_prefix cloudflared_started settled_unasked)
qed

definition named_request :: "string \<Rightarrow> string \<Rightarrow> host_request" where
  "named_request name = cloudflared_request name
     [''clank.cftunnel.name'' \<mapsto> name, ''clank.cftunnel.endpoint'' \<mapsto> ''true'', ''clank.managed'' \<mapsto> ''true'']"

interpretation tunnel: host_service "\<lambda>env. EnsureCloudflaredNamed env name" "named_request name" for name
  unfolding host_service_def EnsureCloudflaredNamed_def named_request_def
  by (intro allI settled_steps cloudflared_started settled_unasked)

text \<open>
  C16. Each of the four set-ups asks the daemon to create at most its own container.  After success the removal of
  the container it created was not asked for; after an error the removal of every container it created was
  asked for, whatever the daemon answered to that; and only an identifier too short for the log can make it panic.
\<close>

theorem host_containers_settle:
  "yields (settled (traefik_request ip)) (EnsureTraefik env ip) \<and>
   yields (settled (acme_request ip)) (ReconfigureTraefikACME env ip) \<and>
   yields (settled (platform_request token)) (EnsureCloudflared env token) \<and>
   yields (settled (named_request name token)) (EnsureCloudflaredNamed env name token)"
  by (intro conjI traefik.settles acme.settles cloudflared.settles tunnel.settles)

subsection \<open>An upgrade of the proxy that fails\<close>

lemma pull_refused:
  assumes "\<And>h w. \<exists>e. fst (ie_ImagePull (hn_images env) img h w) = Inl e"
  shows "yields (\<lambda>r evs. \<exists>e. r = Some e) (pull env img)"
proof -
  have refused: "yields (\<lambda>r evs. \<exists>e. r = Inl e) (call ev (ie_ImagePull (hn_images env) img h))" for ev h
    by (rule yields_call_range) (rule assms)
  have "yields (\<lambda>r evs. \<exists>e. r = Some e) (PullImage (hn_images env) img None (hn_log env))"
    unfolding PullImage_def Let_def
    by (intro yields_bind [OF refused] yields_call_then) (auto intro!: yields_return)
  then show ?thesis unfolding pull_def by (rule yields_embed)
qed

lemma found_running:
  assumes "\<And>w. fst (sdk_ContainerList sdk False ''label'' (k @ ''='' @ v) w) = Inr (c # cs)"
  shows "yields (\<lambda>r evs. r = (sc_ID c, container_name c, None) \<and> list_all quiet evs) (docker (FindContainerByLabel sdk k v))"
proof (rule yields_embed)
  show "yields (\<lambda>r evs. r = (sc_ID c, container_name c, None)) (FindContainerByLabel sdk k v)"
    unfolding FindContainerByLabel_def query_def
    by (rule yields_bind [OF yields_call_range [where R = "\<lambda>r evs. r = Inr (c # cs)", OF assms]])
      (simp add: find_first_def yields_return)
qed (simp add: list_all_iff quiet_daemon)

lemma stop_removes: "yields (\<lambda>r evs. Daemon (Removed cid) \<in> set evs \<and> requests evs = []) (docker (StopAndRemove sdk cid))"
  by (rule yields_embed [where R = "\<lambda>r evs. evs = [Stopped cid, Removed cid]"])
    (auto simp: StopAndRemove_def intro!: yields_call_then yields_call)

definition proxy_gone :: "string \<Rightarrow> host_outcome \<Rightarrow> host_event list \<Rightarrow> bool" where
  "proxy_gone cid r evs \<longleftrightarrow> Daemon (Removed cid) \<in> set evs \<and> requests evs = [] \<and> (\<exists>e. r = Ended (Some e))"

text \<open>
  The upgrade of the proxy for certificates removes the running proxy before it pulls the image,
  which the agent had pulled before: on a host that cannot reach the registry it fails after the
  removal and creates nothing, so no service of the host is reachable any more.
\<close>

theorem failed_upgrade_leaves_no_proxy:
  assumes running: "\<And>w. fst (sdk_ContainerList (hn_sdk env) False ''label'' ''clank.traefik=true'' w) = Inr (c # cs)"
    and named: "sc_ID c \<noteq> []"
    and offline: "\<And>h w. \<exists>e. fst (ie_ImagePull (hn_images env) traefikImage h w) = Inl e"
  shows "yields (proxy_gone (sc_ID c)) (ReconfigureTraefikACME env ip)"
proof -
  have found: "yields (\<lambda>r evs. r = (sc_ID c, container_name c, None) \<and> list_all quiet evs)
      (docker (FindContainerByLabel (hn_sdk env) ''clank.traefik'' ''true''))"
    by (rule found_running) (use running in simp)
  have start: "yields (\<lambda>r evs. requests evs = [] \<and> (\<exists>e. r = Ended (Some e))) (start_acme env ip ns)" for ns
    unfolding start_acme_def
  proof (rule yields_prefix [OF docker_quiet [OF daemon_runs(2)]])
    fix network
    have pulled: "yields (\<lambda>r evs. (\<exists>e. r = Some e) \<and> list_all quiet evs) (pull env traefikImage)"
      by (rule yields_conj [OF pull_refused [OF offline] pull_quiet [unfolded emits_def]])
    show "yields (\<lambda>r evs. requests evs = [] \<and> (\<exists>e. r = Ended (Some e))) (case network of
        Some e \<Rightarrow> State_Monad.return (Ended (Some (''ensuring services network: '' @ e)))
      | None \<Rightarrow> do {
          pulled \<leftarrow> pull env traefikImage;
          (case pulled of
             Some e \<Rightarrow> State_Monad.return (Ended (Some (''pulling traefik image: '' @ e)))
           | None \<Rightarrow>
               create_and_start env (acme_request ip) ''creating traefik container (ACME): ''
                 ''starting traefik container (ACME): ''
                 (\<lambda>cid. do {
                    verify_bindings env cid;
                    log_started cid (reconnect_all env cid ns) })) })"
      by (intro yields_option yields_return yields_bind [OF pulled])
        (auto simp: quiet_prefix intro: yields_return)
  qed (simp add: requests_append quiet_prefix)
  have stop: "yields (\<lambda>r evs. Daemon (Removed (sc_ID c)) \<in> set evs \<and> requests evs = []) (docker (StopAndRemove (hn_sdk env) (sc_ID c)))"
    by (rule stop_removes)
  have inspect: "emits quiet (docker (query ''ContainerInspect'' (sdk_ContainerInspect (hn_sdk env) (sc_ID c))))"
    by (rule docker_quiet [OF daemon_runs(4)])
  have gone: "proxy_gone cid r evs' \<Longrightarrow> proxy_gone cid r (evs @ evs')" if "list_all quiet evs" for cid r evs evs'
    using quiet_prefix [OF that] by (auto simp: proxy_gone_def requests_append)
  have rest: "yields (proxy_gone (sc_ID c)) (do {
      inspected \<leftarrow> docker (query ''ContainerInspect'' (sdk_ContainerInspect (hn_sdk env) (sc_ID c)));
      removed \<leftarrow> docker (StopAndRemove (hn_sdk env) (sc_ID c));
      (case removed of
         Some e \<Rightarrow> State_Monad.return (Ended (Some (''stopping traefik: '' @ e)))
       | None \<Rightarrow> start_acme env ip (case inspected of
           Inl e \<Rightarrow> [] | Inr i \<Rightarrow> filter (\<lambda>n. n \<noteq> proxyServicesNetwork) (map fst (sx_Networks i)))) })"
    by (rule yields_prefix [OF inspect], intro yields_bind [OF stop] yields_option yields_return yields_mono [OF start])
      (auto simp: proxy_gone_def requests_append quiet_prefix)
  show ?thesis unfolding ReconfigureTraefikACME_def
  proof (rule yields_bind [OF found])
    fix a :: "string \<times> string \<times> go_error option" and evs
    assume a: "a = (sc_ID c, container_name c, None) \<and> list_all quiet evs"
    show "yields (\<lambda>r evs'. proxy_gone (sc_ID c) r (evs @ evs')) (case a of (cid, name, err) \<Rightarrow> (case err of
        Some e \<Rightarrow> State_Monad.return (Ended (Some (''checking for traefik: '' @ e)))
      | None \<Rightarrow>
          if cid \<noteq> [] then do {
            inspected \<leftarrow> docker (query ''ContainerInspect'' (sdk_ContainerInspect (hn_sdk env) cid));
            removed \<leftarrow> docker (StopAndRemove (hn_sdk env) cid);
            (case removed of
               Some e \<Rightarrow> State_Monad.return (Ended (Some (''stopping traefik: '' @ e)))
             | None \<Rightarrow> start_acme env ip (case inspected of
                 Inl e \<Rightarrow> [] | Inr i \<Rightarrow> filter (\<lambda>n. n \<noteq> proxyServicesNetwork) (map fst (sx_Networks i)))) }
          else start_acme env ip []))"
      using yields_mono [OF rest, where S = "\<lambda>r evs'. proxy_gone (sc_ID c) r (evs @ evs')"] gone [of evs] a named
      by (simp add: quiet_prefix)
  qed
qed

definition running_proxy :: sdk_container where
  "running_proxy = \<lparr>sc_ID = ''0123456789ab'', sc_Names = [''/clank-traefik''], sc_State = ''running'', sc_Image = traefikImage,
     sc_Labels = [''clank.traefik'' \<mapsto> ''true'']\<rparr>"

definition offline_host :: "unit host_env" where
  "offline_host = \<lparr>hn_sdk = sdk0\<lparr>sdk_ContainerList := \<lambda>a k v w. (Inr [running_proxy], 0, w)\<rparr>, hn_images = offline_images,
     hn_log = \<lambda>line w. ((), 0, w), hn_ContainerCreate = \<lambda>rq w. (Inr ''0123456789ab'', 0, w), hn_Sleep = \<lambda>w. ((), 0, w)\<rparr>"

theorem failed_upgrade_leaves_no_proxy_witness:
  "yields (proxy_gone ''0123456789ab'') (ReconfigureTraefikACME offline_host ''192.0.2.1'')"
  using failed_upgrade_leaves_no_proxy [of offline_host running_proxy "[]" "''192.0.2.1''"]
  by (simp add: offline_host_def offline_images_def running_proxy_def)

end
