(* ===== verification/Retention_Canary.thy ===== *)
theory Retention_Canary
  imports Image_Transfer Artifact_Cleanup
begin

text \<open>
  The retention canary (\<^verbatim>\<open>internal/docker/retention_canary.go\<close>): a tiny image the control plane
  asks for, to see that images it owns survive the clean-ups.  The archive of the build context is
  library work and a parameter.
\<close>

definition retentionCanaryRepository :: string where "retentionCanaryRepository = ''clank-retention-canary''"

text \<open>The two patterns, anchored at both ends.\<close>

definition hex_digit :: "char \<Rightarrow> bool" where
  "hex_digit c \<longleftrightarrow> c \<in> set ''0123456789abcdef''"

definition hex_run :: "nat \<Rightarrow> string \<Rightarrow> bool" where
  "hex_run n s \<longleftrightarrow> length s = n \<and> list_all hex_digit s"

fun hex_groups :: "nat list \<Rightarrow> string \<Rightarrow> bool" where
  "hex_groups [] s \<longleftrightarrow> s = []"
| "hex_groups [n] s \<longleftrightarrow> hex_run n s"
| "hex_groups (n # ns) s \<longleftrightarrow> hex_run n (take n s) \<and> take 1 (drop n s) = ''-'' \<and> hex_groups ns (drop (Suc n) s)"

definition retentionCanaryUUIDPattern :: "string \<Rightarrow> bool" where
  "retentionCanaryUUIDPattern = hex_groups [8, 4, 4, 4, 12]"

definition retentionCanaryImageIDPattern :: "string \<Rightarrow> bool" where
  "retentionCanaryImageIDPattern s \<longleftrightarrow> HasPrefix s ''sha256:'' \<and> hex_run 64 (drop 7 s)"

record RetentionCanaryImage =
  rc_CanaryID :: string
  rc_ImageID :: string
  rc_ImageRef :: string

record canary_inspect =
  cx_ID :: string
  cx_RepoTags :: "string list"
  cx_Labels :: "go_map option"     \<comment> \<open>none when the image has no configuration\<close>

record canary_build =
  cb_Context :: string
  cb_Tags :: "string list"
  cb_Dockerfile :: string
  cb_NoCache :: bool
  cb_Remove :: bool
  cb_ForceRemove :: bool
  cb_PullParent :: bool
  cb_NetworkMode :: string
  cb_Memory :: int
  cb_CPUQuota :: int
  cb_Labels :: go_map

datatype canary_event = CanaryBuilt canary_build "string decoded list result" | CanaryInspected string "canary_inspect result"

record 'w canary_env =
  cv_tar :: "string \<Rightarrow> int \<Rightarrow> string \<Rightarrow> string result"       \<comment> \<open>name, mode and content of the one entry\<close>
  cv_ImageBuild :: "canary_build \<Rightarrow> (string decoded list result, 'w) op"   \<comment> \<open>the error fields of the messages\<close>
  cv_ImageInspect :: "string \<Rightarrow> (canary_inspect result, 'w) op"

type_synonym ('w, 'a) canary = "(canary_event, 'w, 'a) rigged"

definition expectedRetentionCanaryRef :: "string \<Rightarrow> string result" where
  "expectedRetentionCanaryRef canaryID =
     (if \<not> retentionCanaryUUIDPattern canaryID then Inl ''invalid retention canary request''
      else Inr (retentionCanaryRepository @ '':'' @ canaryID))"

definition canary_labels :: "string \<Rightarrow> (string \<times> string) list" where
  "canary_labels canaryID = [(''clank.managed'', ''true''), (''clank.ownership_version'', ''1''),
     (''clank.artifact_type'', ''retention_canary_image''), (''clank.retention_canary_id'', canaryID)]"

definition retentionCanaryLabels :: "string \<Rightarrow> go_map" where
  "retentionCanaryLabels canaryID = map_of (canary_labels canaryID)"

definition retentionCanaryBuildContext :: "'w canary_env \<Rightarrow> string result" where
  "retentionCanaryBuildContext env = (case cv_tar env ''Dockerfile'' 384 (''FROM scratch'' @ [CHR 0x0A]) of
     Inl err \<Rightarrow> Inl ''creating retention canary context'' | Inr payload \<Rightarrow> Inr payload)"

definition canary_unverified :: go_error where
  "canary_unverified = ''retention canary identity verification failed''"

definition validateRetentionCanaryIdentity :: "string \<Rightarrow> string \<Rightarrow> canary_inspect \<Rightarrow> RetentionCanaryImage result" where
  "validateRetentionCanaryIdentity canaryID imageRef inspect =
     (case expectedRetentionCanaryRef canaryID of
        Inl err \<Rightarrow> Inl canary_unverified
      | Inr expectedRef \<Rightarrow>
          if imageRef \<noteq> expectedRef then Inl canary_unverified
          else (case cx_Labels inspect of
             None \<Rightarrow> Inl canary_unverified
           | Some labels \<Rightarrow>
               if \<not> retentionCanaryImageIDPattern (cx_ID inspect) then Inl canary_unverified
               else if \<not> list_ex (\<lambda>tag. tag = imageRef) (cx_RepoTags inspect) then Inl canary_unverified
               else if list_ex (\<lambda>(key, value). map_get labels key \<noteq> value) (canary_labels canaryID) then Inl canary_unverified
               else Inr \<lparr>rc_CanaryID = canaryID, rc_ImageID = cx_ID inspect, rc_ImageRef = imageRef\<rparr>))"

definition canary_request :: "string \<Rightarrow> string \<Rightarrow> string \<Rightarrow> canary_build" where
  "canary_request payload canaryID imageRef =
     \<lparr>cb_Context = payload, cb_Tags = [imageRef], cb_Dockerfile = ''Dockerfile'', cb_NoCache = True, cb_Remove = True,
      cb_ForceRemove = True, cb_PullParent = False, cb_NetworkMode = ''none'', cb_Memory = 64 * 1024 * 1024,
      cb_CPUQuota = 100000, cb_Labels = retentionCanaryLabels canaryID\<rparr>"

fun canary_output :: "string decoded list \<Rightarrow> bool" where
  "canary_output [] = True"
| "canary_output (Undecodable err # msgs) = False"
| "canary_output (Decoded e # msgs) = (if e \<noteq> [] then False else canary_output msgs)"

definition CreateRetentionCanary :: "'w canary_env \<Rightarrow> string \<Rightarrow> string \<Rightarrow> ('w, RetentionCanaryImage result) canary" where
  "CreateRetentionCanary env canaryID imageRef =
     (if expectedRetentionCanaryRef canaryID \<noteq> Inr imageRef then State_Monad.return (Inl ''invalid retention canary request'')
      else (case retentionCanaryBuildContext env of
         Inl err \<Rightarrow> State_Monad.return (Inl err)
       | Inr payload \<Rightarrow> do {
           response \<leftarrow> (let rq = canary_request payload canaryID imageRef in call (CanaryBuilt rq) (cv_ImageBuild env rq));
           (case response of
              Inl err \<Rightarrow> State_Monad.return (Inl ''retention canary build failed'')
            | Inr msgs \<Rightarrow>
                if \<not> canary_output msgs then State_Monad.return (Inl ''retention canary build failed'')
                else do {
                  found \<leftarrow> call (CanaryInspected imageRef) (cv_ImageInspect env imageRef);
                  State_Monad.return (case found of
                    Inl err \<Rightarrow> Inl canary_unverified
                  | Inr inspect \<Rightarrow> validateRetentionCanaryIdentity canaryID imageRef inspect) }) }))"

subsection \<open>Properties\<close>

lemma canary_output_clean: "canary_output msgs \<longleftrightarrow> clean id msgs"
  by (induction msgs rule: canary_output.induct) simp_all

text \<open>What an inspection must show for the canary to be accepted.\<close>

definition is_canary :: "string \<Rightarrow> canary_inspect \<Rightarrow> bool" where
  "is_canary canaryID i \<longleftrightarrow> (\<exists>labels. cx_Labels i = Some labels \<and>
     (\<forall>key \<in> dom (retentionCanaryLabels canaryID). map_get labels key = map_get (retentionCanaryLabels canaryID) key)) \<and>
     retentionCanaryImageIDPattern (cx_ID i) \<and> retentionCanaryRepository @ '':'' @ canaryID \<in> set (cx_RepoTags i)"

lemma labels_agree: "list_ex (\<lambda>(key, value). map_get labels key \<noteq> value) (canary_labels c) \<longleftrightarrow>
    \<not> (\<forall>key \<in> dom (retentionCanaryLabels c). map_get labels key = map_get (retentionCanaryLabels c) key)"
  by (simp add: retentionCanaryLabels_def canary_labels_def map_get_def)

lemma expected_ref: "expectedRetentionCanaryRef c = Inr r \<longleftrightarrow> retentionCanaryUUIDPattern c \<and> r = retentionCanaryRepository @ '':'' @ c"
  by (auto simp: expectedRetentionCanaryRef_def)

lemma validate_ok: "validateRetentionCanaryIdentity c ref i = Inr img \<longleftrightarrow>
    retentionCanaryUUIDPattern c \<and> ref = retentionCanaryRepository @ '':'' @ c \<and> is_canary c i \<and>
    img = \<lparr>rc_CanaryID = c, rc_ImageID = cx_ID i, rc_ImageRef = ref\<rparr>"
proof (cases "expectedRetentionCanaryRef c")
  case (Inl e)
  then have "\<not> retentionCanaryUUIDPattern c" by (simp add: expectedRetentionCanaryRef_def split: if_splits)
  with Inl show ?thesis by (simp add: validateRetentionCanaryIdentity_def)
next
  case (Inr r)
  with expected_ref [of c r] show ?thesis
    unfolding validateRetentionCanaryIdentity_def is_canary_def labels_agree
    by (auto simp: list_ex_iff split: option.splits)
qed

definition canary_verdict :: "string \<Rightarrow> string \<Rightarrow> RetentionCanaryImage result \<Rightarrow> canary_inspect \<Rightarrow> bool" where
  "canary_verdict c ref r i \<longleftrightarrow> (case r of
     Inl err \<Rightarrow> \<not> is_canary c i
   | Inr img \<Rightarrow> is_canary c i \<and> img = \<lparr>rc_CanaryID = c, rc_ImageID = cx_ID i, rc_ImageRef = ref\<rparr>)"

lemma validate_verdict:
  assumes "expectedRetentionCanaryRef c = Inr ref"
  shows "canary_verdict c ref (validateRetentionCanaryIdentity c ref i) i"
proof (cases "validateRetentionCanaryIdentity c ref i")
  case (Inl e)
  let ?img = "\<lparr>rc_CanaryID = c, rc_ImageID = cx_ID i, rc_ImageRef = ref\<rparr>"
  from assms have "retentionCanaryUUIDPattern c" "ref = retentionCanaryRepository @ '':'' @ c"
    unfolding expected_ref by blast+
  moreover have "validateRetentionCanaryIdentity c ref i \<noteq> Inr ?img" unfolding Inl by simp
  ultimately have "\<not> is_canary c i" using validate_ok [of c ref i ?img] by blast
  then show ?thesis unfolding Inl by (simp add: canary_verdict_def)
next
  case (Inr img)
  with validate_ok [of c ref i img] show ?thesis by (simp add: canary_verdict_def)
qed

definition canary_made :: "string \<Rightarrow> string \<Rightarrow> RetentionCanaryImage result \<Rightarrow> canary_event list \<Rightarrow> bool" where
  "canary_made canaryID imageRef r evs \<longleftrightarrow> (case evs of
     [] \<Rightarrow> \<exists>err. r = Inl err
   | CanaryBuilt rq ans # rest \<Rightarrow>
       expectedRetentionCanaryRef canaryID = Inr imageRef \<and> cb_Tags rq = [imageRef] \<and> cb_NetworkMode rq = ''none'' \<and>
       cb_Labels rq = retentionCanaryLabels canaryID \<and>
       (case rest of
          [] \<Rightarrow> \<not> accepted id ans \<and> (\<exists>err. r = Inl err)
        | [CanaryInspected ref found] \<Rightarrow> accepted id ans \<and> ref = imageRef \<and>
            (case found of Inl e \<Rightarrow> \<exists>err. r = Inl err | Inr i \<Rightarrow> canary_verdict canaryID imageRef r i)
        | _ \<Rightarrow> False)
   | _ \<Rightarrow> False)"

lemma canary_found:
  assumes "canary_made c ref (Inr img) evs"
  shows "\<exists>ref i. CanaryInspected ref (Inr i) \<in> set evs \<and> is_canary c i"
proof (cases evs)
  case (Cons e rest)
  with assms obtain rq ans where "e = CanaryBuilt rq ans" by (cases e) (auto simp: canary_made_def)
  with assms Cons obtain e' rest' where rest: "rest = e' # rest'" by (cases rest) (auto simp: canary_made_def)
  with assms Cons \<open>e = _\<close> obtain ref' found where e': "e' = CanaryInspected ref' found" and nil: "rest' = []"
    by (cases e'; cases rest') (simp_all add: canary_made_def)
  with assms Cons \<open>e = _\<close> rest obtain i where i: "found = Inr i" by (cases found) (simp_all add: canary_made_def)
  with assms Cons \<open>e = _\<close> rest e' nil have "is_canary c i" by (simp add: canary_made_def canary_verdict_def)
  with Cons rest e' i show ?thesis by auto
qed (use assms in \<open>simp add: canary_made_def\<close>)

lemma yields_canary: "yields (canary_made canaryID imageRef) (CreateRetentionCanary env canaryID imageRef)"
proof (cases "expectedRetentionCanaryRef canaryID = Inr imageRef")
  case True
  have request: "cb_Tags (canary_request p canaryID imageRef) = [imageRef]"
    "cb_NetworkMode (canary_request p canaryID imageRef) = ''none''"
    "cb_Labels (canary_request p canaryID imageRef) = retentionCanaryLabels canaryID" for p
    by (simp_all only: canary_request_def canary_build.select_convs)
  have done_build: "canary_made canaryID imageRef (Inl e) [CanaryBuilt (canary_request p canaryID imageRef) ans]"
    if "\<not> accepted id ans" for e p ans
    unfolding canary_made_def by (simp add: request True that)
  have done_all: "canary_made canaryID imageRef r
      [CanaryBuilt (canary_request p canaryID imageRef) (Inr msgs), CanaryInspected imageRef found]"
    if "canary_output msgs" "case found of Inl e \<Rightarrow> \<exists>err. r = Inl err | Inr i \<Rightarrow> canary_verdict canaryID imageRef r i" for r p msgs found
    unfolding canary_made_def using that by (simp add: request True canary_output_clean)
  show ?thesis unfolding CreateRetentionCanary_def Let_def
  proof (simp only: True not_not if_False refl simp_thms, intro yields_sum yields_call_then yields_if yields_return)
    show "canary_made canaryID imageRef (Inl e) []" for e by (simp add: canary_made_def)
    show "canary_made canaryID imageRef (Inl ''retention canary build failed'')
        [CanaryBuilt (canary_request p canaryID imageRef) ans]" if "ans = Inl e" for p ans and e :: go_error
      by (rule done_build) (simp add: that)
    show "canary_made canaryID imageRef (Inl ''retention canary build failed'')
        [CanaryBuilt (canary_request p canaryID imageRef) ans]" if "ans = Inr msgs" "\<not> canary_output msgs" for p ans msgs
      by (rule done_build) (use that in \<open>simp add: canary_output_clean\<close>)
    show "canary_made canaryID imageRef (case found of Inl err \<Rightarrow> Inl canary_unverified
          | Inr i \<Rightarrow> validateRetentionCanaryIdentity canaryID imageRef i)
        [CanaryBuilt (canary_request p canaryID imageRef) ans, CanaryInspected imageRef found]"
      if "ans = Inr msgs" "\<not> \<not> canary_output msgs" for p ans msgs found
      unfolding that(1)
      by (rule done_all) (use that(2) in \<open>simp_all add: validate_verdict [OF True] split: sum.split\<close>)
  qed
qed (simp add: CreateRetentionCanary_def yields_return canary_made_def)

text \<open>
  A canary is reported exactly when its identifier is a canonical UUID, the reference is the one of
  that identifier, the build of it (without network) went through, and the image then found under the
  reference carries the tag, a well-formed identifier and all its labels; nothing is asked of the daemon
  for an invalid request, and nothing but that build and that inspection in any case.
\<close>

theorem retention_canary_exact: "yields (canary_made canaryID imageRef) (CreateRetentionCanary env canaryID imageRef)"
  by (rule yields_canary)

text \<open>The clean-up inventory does not count a canary among the images it owns.\<close>

theorem canary_not_owned: "\<not> ao_ProspectivelyOwned (ownershipFromLabels (retentionCanaryLabels canaryID) True) \<and>
    ao_RetentionCanaryID (ownershipFromLabels (retentionCanaryLabels canaryID) True) = canaryID"
  by (simp add: ownershipFromLabels_def retentionCanaryLabels_def canary_labels_def map_get_def Let_def)

end
