(* ===== verification/Backup_Executor.thy ===== *)
theory Backup_Executor
  imports Effects Log_Frames Expiry_Guards Progress_Messages "HOL-Library.Char_ord" "HOL-Library.List_Lexorder"
begin

text \<open>
  \<^verbatim>\<open>internal/backup/executor.go\<close>: backups of a service into the volume
  \<^verbatim>\<open>clank-backups\<close> by helper containers.  The interface \<^verbatim>\<open>dockerManager\<close> of the source
  is the record \<open>backup_docker\<close>; what a helper does to the volume is up to the shell command it is
  given, which the model builds character by character.  A helper's name takes the first eight bytes
  of the backup's identifier, which panics on a shorter one: \<open>Crashed\<close>.
\<close>

definition backupVolumeName :: string where "backupVolumeName = ''clank-backups''"
definition alpineHelperImage :: string where "alpineHelperImage = ''alpine:3.20''"
definition helperImagePullTimeout :: int where "helperImagePullTimeout = 2 * minute"

record BackupCommand =
  bc_CommandId :: string
  bc_BackupId :: string
  bc_ServiceSlug :: string
  bc_ContainerName :: string
  bc_ProjectSlug :: string
  bc_BackupType :: string
  bc_DatabaseType :: string
  bc_EnvVars :: go_map
  bc_VolumeMounts :: "VolumeMount list"
  bc_RetentionCount :: int
  bc_DeleteOnly :: bool

record BackupMeta =
  mt_backup_id :: string
  mt_service_slug :: string
  mt_project_slug :: string
  mt_backup_type :: string
  mt_database_type :: string
  mt_size_bytes :: int
  mt_files :: "string list"
  mt_created_at :: string

datatype backup_event =
    Asked string
  | LockTaken | LockReleased
  | ImagePulled string
  | Executed string "string list"
  | HelperStarted RunOpts "string result"
  | HelperWaited string "int result"
  | HelperRemoved string

record 'w backup_docker =
  bd_ImageExists :: "string \<Rightarrow> (bool result, 'w) op"
  bd_PullImage :: "string \<Rightarrow> (go_error option, 'w) op"
  bd_FindContainerByLabel :: "string \<Rightarrow> string \<Rightarrow> (string \<times> string \<times> go_error option, 'w) op"
  bd_ContainerExec :: "string \<Rightarrow> string list \<Rightarrow> ((int \<times> string) result, 'w) op"
  bd_RunContainer :: "RunOpts \<Rightarrow> (string result, 'w) op"
  bd_StopAndRemove :: "string \<Rightarrow> (go_error option, 'w) op"
  bd_WaitContainer :: "string \<Rightarrow> (int result, 'w) op"
  bd_ContainerLogs :: "string \<Rightarrow> (string result, 'w) op"  \<comment> \<open>the bytes of the first read\<close>
  bd_ctx_err :: "int \<Rightarrow> (go_error option, 'w) op"          \<comment> \<open>of the context with this timeout\<close>
  bd_lock :: "(go_error option, 'w) op"                     \<comment> \<open>the helper image's lock against that context\<close>
  bd_unlock :: "(unit, 'w) op"
  bd_UnixNano :: "(int, 'w) op"
  bd_created_at :: "(string, 'w) op"
  bd_json :: "BackupMeta \<Rightarrow> string result"

type_synonym ('w, 'a) backing = "(backup_event, 'w, 'a) rigged"

text \<open>A computation of the executor returns, or panics.\<close>

datatype 'a run = Finished 'a | Crashed

subsection \<open>Texts\<close>

text \<open>\<^verbatim>\<open>filepath.Join\<close>: empty elements before the first other one are dropped, then the path is cleaned.\<close>

fun clean_step :: "bool \<Rightarrow> string list \<Rightarrow> string list \<Rightarrow> string list" where
  "clean_step rooted out [] = out"
| "clean_step rooted out (c # cs) =
     (if c = [] \<or> c = ''.'' then clean_step rooted out cs
      else if c = ''..'' then
        (if out \<noteq> [] \<and> last out \<noteq> ''..'' then clean_step rooted (butlast out) cs
         else if rooted then clean_step rooted out cs
         else clean_step rooted (out @ [''..'']) cs)
      else clean_step rooted (out @ [c]) cs)"

definition Clean :: "string \<Rightarrow> string" where
  "Clean p = (let rooted = HasPrefix p ''/''; out = Join ''/'' (clean_step rooted [] (Split p (CHR ''/''))) in
     if rooted then CHR ''/'' # out else if out = [] then ''.'' else out)"

definition filepath_Join :: "string list \<Rightarrow> string" where
  "filepath_Join elems = (case dropWhile (\<lambda>e. e = []) elems of [] \<Rightarrow> [] | es \<Rightarrow> Clean (Join ''/'' es))"

text \<open>\<^verbatim>\<open>strings.Fields\<close> for texts without the white space beyond ASCII.\<close>

function Fields :: "string \<Rightarrow> string list" where
  "Fields s = (let t = dropWhile is_space s in
     if t = [] then [] else takeWhile (\<lambda>c. \<not> is_space c) t # Fields (dropWhile (\<lambda>c. \<not> is_space c) t))"
  by pat_completeness auto
termination
proof (relation "measure length")
  fix s t assume t: "(t :: string) = dropWhile is_space s" "t \<noteq> []"
  then have "\<not> is_space (hd t)" using hd_dropWhile by blast
  then have "dropWhile (\<lambda>c. \<not> is_space c) t = dropWhile (\<lambda>c. \<not> is_space c) (tl t)" using t(2) by (cases t) auto
  then have "length (dropWhile (\<lambda>c. \<not> is_space c) t) < length t"
    using length_dropWhile_le [of "\<lambda>c. \<not> is_space c" "tl t"] t(2) by (cases t) auto
  also have "length t \<le> length s" by (simp add: t(1) length_dropWhile_le)
  finally show "(dropWhile (\<lambda>c. \<not> is_space c) t, s) \<in> measure length" by simp
qed simp

declare Fields.simps [simp del]

text \<open>\<^verbatim>\<open>fmt.Sscanf(s, "%d", &n)\<close> into a zero: an optional sign and digits, zero when there is no number in range.\<close>

definition scan_size :: "string \<Rightarrow> int" where
  "scan_size s = (let t = dropWhile is_space s;
       sign = (case t of c # cs \<Rightarrow> if c = CHR ''-'' \<or> c = CHR ''+'' then [c] else [] | [] \<Rightarrow> []);
       digits = takeWhile is_digit (drop (length sign) t) in
     if digits \<noteq> [] \<and> Atoi_ok (sign @ digits) then Atoi_value (sign @ digits) else 0)"

definition envOrDefault :: "go_map \<Rightarrow> string \<Rightarrow> string \<Rightarrow> string" where
  "envOrDefault m key fallback = (case m key of Some v \<Rightarrow> if v \<noteq> [] then v else fallback | None \<Rightarrow> fallback)"

definition truncate_text :: "string \<Rightarrow> nat \<Rightarrow> string" where
  "truncate_text s maxLen = (if length s \<le> maxLen then s else take maxLen s @ ''...'')"

definition int64 :: "int \<Rightarrow> int" where
  "int64 i = (i + 2 ^ 63) mod 2 ^ 64 - 2 ^ 63"

subsection \<open>Helper containers\<close>

definition ensure_image :: "'w backup_docker \<Rightarrow> ('w, go_error option) backing" where
  "ensure_image env = do {
     exists \<leftarrow> call (\<lambda>_. Asked ''ImageExists'') (bd_ImageExists env alpineHelperImage);
     (case exists of
        Inl err \<Rightarrow> State_Monad.return (Some (''checking local image: '' @ err))
      | Inr found \<Rightarrow>
          if found then State_Monad.return None
          else do {
            err \<leftarrow> call (\<lambda>_. ImagePulled alpineHelperImage) (bd_PullImage env alpineHelperImage);
            State_Monad.return (map_option (\<lambda>e. ''pull failed: '' @ e) err) }) }"

definition ensure :: "'w backup_docker \<Rightarrow> int \<Rightarrow> ('w, go_error option) backing" where
  "ensure env limit = do {
     expired \<leftarrow> call (\<lambda>_. Asked ''ctx.Err'') (bd_ctx_err env limit);
     (case expired of
        Some err \<Rightarrow> State_Monad.return (Some (''waiting for image check: '' @ err))
      | None \<Rightarrow> do {
          waited \<leftarrow> call (\<lambda>r. if r = None then LockTaken else Asked ''lock'') (bd_lock env);
          (case waited of
             Some err \<Rightarrow> State_Monad.return (Some (''waiting for image check: '' @ err))
           | None \<Rightarrow> do {
               result \<leftarrow> ensure_image env;
               _ \<leftarrow> call (\<lambda>_. LockReleased) (bd_unlock env);
               State_Monad.return result }) }) }"

definition runAlpineHelper :: "'w backup_docker \<Rightarrow> RunOpts \<Rightarrow> ('w, string result) backing" where
  "runAlpineHelper env opts = do {
     err \<leftarrow> ensure env helperImagePullTimeout;
     (case err of
        Some e \<Rightarrow> State_Monad.return (Inl (''ensuring backup helper image '' @ alpineHelperImage @ '': '' @ e))
      | None \<Rightarrow> (let opts = opts\<lparr>ro_Image := alpineHelperImage\<rparr> in
          call (HelperStarted opts) (bd_RunContainer env opts))) }"

definition helper_opts :: "string \<Rightarrow> string list \<Rightarrow> string list \<Rightarrow> string \<Rightarrow> VolumeMount list \<Rightarrow> RunOpts" where
  "helper_opts name entry cmd network volumes = \<lparr>ro_Image = [], ro_Name = name, ro_Env = Map.empty, ro_Port = 0,
     ro_Labels = Map.empty, ro_Network = network, ro_NetworkAlias = [], ro_CPULimit = 0, ro_MemoryLimitMB = 0,
     ro_Command = cmd, ro_Entrypoint = entry, ro_Volumes = volumes, ro_Healthcheck = None\<rparr>"

definition backups_mount :: VolumeMount where
  "backups_mount = \<lparr>vm_Name = backupVolumeName, vm_MountPath = ''/backups''\<rparr>"

definition shell_helper :: "string \<Rightarrow> string \<Rightarrow> RunOpts" where
  "shell_helper name shellCmd = helper_opts name [''sh'', ''-c''] [shellCmd] [] [backups_mount]"

definition remove_helper :: "'w backup_docker \<Rightarrow> string \<Rightarrow> ('w, unit) backing" where
  "remove_helper env helperID = do {
     _ \<leftarrow> call (\<lambda>_. HelperRemoved helperID) (bd_StopAndRemove env helperID);
     State_Monad.return () }"

text \<open>Waiting for a helper: an error, or one for an exit status other than zero.\<close>

definition await :: "'w backup_docker \<Rightarrow> string \<Rightarrow> string \<Rightarrow> string \<Rightarrow> ('w, go_error option) backing" where
  "await env waiting exited helperID = do {
     code \<leftarrow> call (HelperWaited helperID) (bd_WaitContainer env helperID);
     State_Monad.return (case code of
         Inl err \<Rightarrow> Some (waiting @ err)
       | Inr c \<Rightarrow> if c \<noteq> 0 then Some (exited @ '' exited with code '' @ show_int c) else None) }"

definition execInHelper :: "'w backup_docker \<Rightarrow> string \<Rightarrow> ('w, string result) backing" where
  "execInHelper env shellCmd = do {
     t \<leftarrow> call (\<lambda>_. Asked ''time'') (bd_UnixNano env);
     started \<leftarrow> runAlpineHelper env (shell_helper (''clank-backup-helper-'' @ show_int (t mod 100000)) shellCmd);
     (case started of
        Inl err \<Rightarrow> State_Monad.return (Inl err)
      | Inr helperID \<Rightarrow> do {
          _ \<leftarrow> call (HelperWaited helperID) (bd_WaitContainer env helperID);
          logs \<leftarrow> call (\<lambda>_. Asked ''logs'') (bd_ContainerLogs env helperID);
          remove_helper env helperID;
          State_Monad.return (map_sum id (take (64 * 1024)) logs) }) }"

text \<open>\<^verbatim>\<open>id[:8]\<close> of a shorter identifier panics.\<close>

definition with_name :: "string \<Rightarrow> string \<Rightarrow> (string \<Rightarrow> ('w, 'a run) backing) \<Rightarrow> ('w, 'a run) backing" where
  "with_name prefix backupId f = (if length backupId < 8 then State_Monad.return Crashed else f (prefix @ take 8 backupId))"

subsection \<open>Database dumps\<close>

definition dump_exec :: "string \<Rightarrow> go_map \<Rightarrow> (string list \<times> string) option" where
  "dump_exec dbType env =
     (if dbType = ''postgres'' then
        Some ([''pg_dump'', ''-U'', envOrDefault env ''POSTGRES_USER'' ''postgres'', envOrDefault env ''POSTGRES_DB'' ''postgres''], ''dump.sql'')
      else if dbType = ''mysql'' then
        Some ([''mysqldump'', ''-u'', ''root'', ''-p'' @ envOrDefault env ''MYSQL_ROOT_PASSWORD'' [], ''--all-databases''], ''dump.sql'')
      else if dbType = ''mongo'' then Some ([''mongodump'', ''--archive''], ''dump.archive'')
      else None)"

text \<open>The quote that surrounds a password.\<close>

abbreviation quote :: char where "quote \<equiv> CHR 0x27"

definition dump_shell :: "string \<Rightarrow> go_map \<Rightarrow> string \<Rightarrow> string \<Rightarrow> string \<Rightarrow> string \<times> string" where
  "dump_shell dbType env serviceSlug backupDir outFile =
     (let mk = ''mkdir -p /backups/'' @ backupDir @ '' && ''; file = ''/backups/'' @ backupDir @ ''/'' @ outFile in
      if dbType = ''postgres'' then
        (''postgres:16-alpine'', mk @ ''PGPASSWORD='' @ [quote] @ envOrDefault env ''POSTGRES_PASSWORD'' [] @ [quote] @
           '' pg_dump -h '' @ serviceSlug @ '' -U '' @ envOrDefault env ''POSTGRES_USER'' ''postgres'' @ '' '' @
           envOrDefault env ''POSTGRES_DB'' ''postgres'' @ '' > '' @ file)
      else if dbType = ''mysql'' then
        (''mysql:8.0'', mk @ ''mysqldump -h '' @ serviceSlug @ '' -u root -p'' @ [quote] @
           envOrDefault env ''MYSQL_ROOT_PASSWORD'' [] @ [quote] @ '' --all-databases > '' @ file @ '' 2>/dev/null'')
      else if dbType = ''mongo'' then (''mongo:7'', mk @ ''mongodump --host '' @ serviceSlug @ '' --archive='' @ file)
      else ([], []))"

definition dump_size :: "'w backup_docker \<Rightarrow> string \<Rightarrow> string \<Rightarrow> ('w, int) backing" where
  "dump_size env backupDir outFile = do {
     sizeOut \<leftarrow> execInHelper env (''stat -c %s /backups/'' @ backupDir @ ''/'' @ outFile @ '' 2>/dev/null || echo 0'');
     State_Monad.return (case sizeOut of Inl err \<Rightarrow> 0 | Inr out \<Rightarrow> scan_size (TrimSpace out)) }"

definition runDumpViaHelper :: "'w backup_docker \<Rightarrow> BackupCommand \<Rightarrow> string \<Rightarrow> string \<Rightarrow> string \<Rightarrow> ('w, int result run) backing" where
  "runDumpViaHelper env cmd backupDir outFile dbType =
     (case dump_shell dbType (bc_EnvVars cmd) (bc_ServiceSlug cmd) backupDir outFile of (img, shellCmd) \<Rightarrow>
      with_name ''clank-backup-'' (bc_BackupId cmd) (\<lambda>helperName.
       (let opts = (helper_opts helperName [''sh'', ''-c''] [shellCmd] (''clank-project-'' @ bc_ProjectSlug cmd)
              [backups_mount])\<lparr>ro_Image := img\<rparr> in do {
          started \<leftarrow> call (HelperStarted opts) (bd_RunContainer env opts);
          (case started of
             Inl err \<Rightarrow> State_Monad.return (Finished (Inl (''starting dump helper: '' @ err)))
           | Inr helperID \<Rightarrow> do {
               failed \<leftarrow> await env ''waiting for dump: '' ''dump helper'' helperID;
               size \<leftarrow> (if failed = None then dump_size env backupDir outFile else State_Monad.return 0);
               remove_helper env helperID;
               State_Monad.return (Finished (case failed of Some err \<Rightarrow> Inl err | None \<Rightarrow> Inr size)) }) })))"

text \<open>The first helper, removed before it has done anything; the dump then runs in a second one.\<close>

definition write_dump :: "'w backup_docker \<Rightarrow> BackupCommand \<Rightarrow> string \<Rightarrow> string \<Rightarrow> ('w, (int \<times> string list) result run) backing" where
  "write_dump env cmd backupDir outFile = with_name ''clank-backup-write-'' (bc_BackupId cmd) (\<lambda>helperName. do {
     started \<leftarrow> runAlpineHelper env (helper_opts helperName []
       [''sh'', ''-c'', ''mkdir -p /backups/'' @ backupDir @ '' && cat > /backups/'' @ backupDir @ ''/'' @ outFile] [] [backups_mount]);
     (case started of
        Inl err \<Rightarrow> State_Monad.return (Finished (Inl (''starting backup writer: '' @ err)))
      | Inr helperID \<Rightarrow> do {
          remove_helper env helperID;
          size \<leftarrow> runDumpViaHelper env cmd backupDir outFile (bc_DatabaseType cmd);
          remove_helper env helperID;
          State_Monad.return (case size of
              Crashed \<Rightarrow> Crashed
            | Finished (Inl err) \<Rightarrow> Finished (Inl err)
            | Finished (Inr n) \<Rightarrow> Finished (Inr (n, [outFile]))) }) })"

definition databaseBackup :: "'w backup_docker \<Rightarrow> BackupCommand \<Rightarrow> string \<Rightarrow> ('w, (int \<times> string list) result run) backing" where
  "databaseBackup env cmd backupDir =
     (if bc_ContainerName cmd = [] then State_Monad.return (Finished (Inl ''no container name for database backup''))
      else do {
        found \<leftarrow> call (\<lambda>_. Asked ''container'') (bd_FindContainerByLabel env ''clank.service_slug'' (bc_ServiceSlug cmd));
        (case found of
           (containerID, name, Some err) \<Rightarrow> State_Monad.return (Finished (Inl (''finding container: '' @ err)))
         | (containerID, name, None) \<Rightarrow>
             (case dump_exec (bc_DatabaseType cmd) (bc_EnvVars cmd) of
                None \<Rightarrow> State_Monad.return (Finished (Inl (''unsupported database type: '' @ bc_DatabaseType cmd)))
              | Some (dumpCmd, outFile) \<Rightarrow> do {
                  r \<leftarrow> call (\<lambda>_. Executed containerID dumpCmd) (bd_ContainerExec env containerID dumpCmd);
                  (case r of
                     Inl err \<Rightarrow> State_Monad.return (Finished (Inl (''exec dump: '' @ err)))
                   | Inr (exitCode, output) \<Rightarrow>
                       if exitCode \<noteq> 0 then State_Monad.return (Finished (Inl
                         (''dump exited with code '' @ show_int exitCode @ '': '' @ truncate_text output 500)))
                       else write_dump env cmd backupDir outFile) })) })"

subsection \<open>Volumes\<close>

definition src_path :: "nat \<Rightarrow> string" where "src_path i = ''/src'' @ show_nat i"
definition tar_name :: "nat \<Rightarrow> string" where "tar_name i = ''volume_'' @ show_nat i @ ''.tar.gz''"

definition volume_plan :: "string \<Rightarrow> VolumeMount list \<Rightarrow> VolumeMount list \<times> string list \<times> string" where
  "volume_plan backupDir vms =
     (let is = [0 ..< length vms] in
      (backups_mount # map (\<lambda>i. \<lparr>vm_Name = vm_Name (vms ! i), vm_MountPath = src_path i\<rparr>) is,
       map tar_name is,
       Join '' && '' ((''mkdir -p /backups/'' @ backupDir) #
         map (\<lambda>i. ''tar czf /backups/'' @ backupDir @ ''/'' @ tar_name i @ '' -C '' @ src_path i @ '' .'') is)))"

definition volumeBackup :: "'w backup_docker \<Rightarrow> BackupCommand \<Rightarrow> string \<Rightarrow> ('w, (int \<times> string list) result run) backing" where
  "volumeBackup env cmd backupDir =
     (if bc_VolumeMounts cmd = [] then State_Monad.return (Finished (Inr (0, [])))
      else (case volume_plan backupDir (bc_VolumeMounts cmd) of (mounts, files, shellCmd) \<Rightarrow>
        with_name ''clank-backup-vol-'' (bc_BackupId cmd) (\<lambda>helperName. do {
          started \<leftarrow> runAlpineHelper env (helper_opts helperName [''sh'', ''-c''] [shellCmd] [] mounts);
          (case started of
             Inl err \<Rightarrow> State_Monad.return (Finished (Inl (''starting volume backup helper: '' @ err)))
           | Inr helperID \<Rightarrow> do {
               failed \<leftarrow> await env ''waiting for volume backup: '' ''volume backup helper'' helperID;
               sizeOut \<leftarrow> (if failed = None
                 then execInHelper env (''du -sb /backups/'' @ backupDir @ ''/ | cut -f1'')
                 else State_Monad.return (Inl []));
               remove_helper env helperID;
               State_Monad.return (Finished (case failed of
                   Some err \<Rightarrow> Inl err
                 | None \<Rightarrow> Inr (case sizeOut of Inl e \<Rightarrow> 0 | Inr out \<Rightarrow> scan_size (TrimSpace out), files))) }) })))"

subsection \<open>Metadata, deletion, retention\<close>

definition writeMetadata :: "'w backup_docker \<Rightarrow> BackupCommand \<Rightarrow> string \<Rightarrow> int \<Rightarrow> string list \<Rightarrow> ('w, unit run) backing" where
  "writeMetadata env cmd backupDir totalSize files = do {
     created \<leftarrow> call (\<lambda>_. Asked ''time'') (bd_created_at env);
     (case bd_json env \<lparr>mt_backup_id = bc_BackupId cmd, mt_service_slug = bc_ServiceSlug cmd, mt_project_slug = bc_ProjectSlug cmd,
          mt_backup_type = bc_BackupType cmd, mt_database_type = bc_DatabaseType cmd, mt_size_bytes = totalSize,
          mt_files = files, mt_created_at = created\<rparr> of
        Inl err \<Rightarrow> State_Monad.return (Finished ())
      | Inr metaJSON \<Rightarrow> with_name ''clank-backup-meta-'' (bc_BackupId cmd) (\<lambda>helperName. do {
          started \<leftarrow> runAlpineHelper env (shell_helper helperName
            (''echo '' @ [quote] @ metaJSON @ [quote] @ '' > /backups/'' @ backupDir @ ''/metadata.json''));
          (case started of
             Inl err \<Rightarrow> State_Monad.return (Finished ())
           | Inr helperID \<Rightarrow> do {
               _ \<leftarrow> call (HelperWaited helperID) (bd_WaitContainer env helperID);
               remove_helper env helperID;
               State_Monad.return (Finished ()) }) })) }"

definition backup_dir :: "BackupCommand \<Rightarrow> string" where
  "backup_dir cmd = filepath_Join [bc_ProjectSlug cmd, bc_ServiceSlug cmd, bc_BackupId cmd]"

definition deleteBackup :: "'w backup_docker \<Rightarrow> BackupCommand \<Rightarrow> ('w, go_error option run) backing" where
  "deleteBackup env cmd = with_name ''clank-backup-del-'' (bc_BackupId cmd) (\<lambda>helperName. do {
     started \<leftarrow> runAlpineHelper env (shell_helper helperName (''rm -rf /backups/'' @ backup_dir cmd));
     (case started of
        Inl err \<Rightarrow> State_Monad.return (Finished (Some (''starting delete helper: '' @ err)))
      | Inr helperID \<Rightarrow> do {
          failed \<leftarrow> await env ''waiting for delete: '' ''delete helper'' helperID;
          remove_helper env helperID;
          State_Monad.return (Finished failed) }) })"

definition expired :: "nat \<Rightarrow> string list \<Rightarrow> string list" where
  "expired retention dirs = (if length dirs \<le> retention then [] else take (length dirs - retention) (sort dirs))"

definition delete_dirs :: "'w backup_docker \<Rightarrow> string \<Rightarrow> string list \<Rightarrow> ('w, unit) backing" where
  "delete_dirs env serviceDir = each (\<lambda>d. do {
     _ \<leftarrow> execInHelper env (''rm -rf /backups/'' @ serviceDir @ ''/'' @ d);
     State_Monad.return () })"

definition enforceRetention :: "'w backup_docker \<Rightarrow> BackupCommand \<Rightarrow> ('w, unit) backing" where
  "enforceRetention env cmd =
     (let serviceDir = filepath_Join [bc_ProjectSlug cmd, bc_ServiceSlug cmd];
          retention = (if bc_RetentionCount cmd < 1 then 5 else nat (bc_RetentionCount cmd)) in do {
      output \<leftarrow> execInHelper env (''ls -1 /backups/'' @ serviceDir @ ''/ 2>/dev/null || true'');
      (case output of
         Inl err \<Rightarrow> State_Monad.return ()
       | Inr out \<Rightarrow> delete_dirs env serviceDir (expired retention (Fields (TrimSpace out)))) })"

subsection \<open>The executor\<close>

definition no_result :: "BackupCommand \<Rightarrow> BackupResult" where
  "no_result cmd = \<lparr>br_CommandId = bc_CommandId cmd, br_BackupId = bc_BackupId cmd, br_Success = False,
     br_ErrorMessage = [], br_SizeBytes = 0, br_Files = []\<rparr>"

definition failure :: "BackupCommand \<Rightarrow> string \<Rightarrow> BackupResult" where
  "failure cmd err = (no_result cmd)\<lparr>br_ErrorMessage := err\<rparr>"

definition complete_backup :: "'w backup_docker \<Rightarrow> BackupCommand \<Rightarrow> int \<Rightarrow> string list \<Rightarrow> ('w, BackupResult run) backing" where
  "complete_backup env cmd totalSize allFiles = do {
     written \<leftarrow> writeMetadata env cmd (backup_dir cmd) totalSize allFiles;
     (case written of
        Crashed \<Rightarrow> State_Monad.return Crashed
      | Finished _ \<Rightarrow> do {
          (if bc_RetentionCount cmd > 0 then enforceRetention env cmd else State_Monad.return ());
          State_Monad.return (Finished ((no_result cmd)\<lparr>br_Success := True, br_SizeBytes := totalSize,
            br_Files := allFiles @ [''metadata.json'']\<rparr>)) }) }"

text \<open>One part of a backup: its error ends it, its result goes on.\<close>

definition then_with :: "BackupCommand \<Rightarrow> string \<Rightarrow> (int \<times> string list) result run \<Rightarrow> (int \<Rightarrow> string list \<Rightarrow> ('w, BackupResult run) backing)
    \<Rightarrow> ('w, BackupResult run) backing" where
  "then_with cmd what r f = (case r of
     Crashed \<Rightarrow> State_Monad.return Crashed
   | Finished (Inl err) \<Rightarrow> State_Monad.return (Finished (failure cmd (what @ '' backup failed: '' @ err)))
   | Finished (Inr (n, files)) \<Rightarrow> f n files)"

definition Execute :: "'w backup_docker \<Rightarrow> BackupCommand \<Rightarrow> ('w, BackupResult run) backing" where
  "Execute env cmd =
     (if bc_DeleteOnly cmd then do {
        r \<leftarrow> deleteBackup env cmd;
        State_Monad.return (case r of
            Crashed \<Rightarrow> Crashed
          | Finished (Some err) \<Rightarrow> Finished (failure cmd err)
          | Finished None \<Rightarrow> Finished ((no_result cmd)\<lparr>br_Success := True\<rparr>)) }
      else if bc_BackupType cmd = ''database'' then do {
        db \<leftarrow> databaseBackup env cmd (backup_dir cmd);
        then_with cmd ''database'' db (complete_backup env cmd) }
      else if bc_BackupType cmd = ''volume'' then do {
        vol \<leftarrow> volumeBackup env cmd (backup_dir cmd);
        then_with cmd ''volume'' vol (complete_backup env cmd) }
      else if bc_BackupType cmd = ''all'' then do {
        db \<leftarrow> databaseBackup env cmd (backup_dir cmd);
        then_with cmd ''database'' db (\<lambda>dbSize dbFiles. do {
          vol \<leftarrow> volumeBackup env cmd (backup_dir cmd);
          then_with cmd ''volume'' vol (\<lambda>volSize volFiles. complete_backup env cmd (int64 (dbSize + volSize)) (dbFiles @ volFiles)) }) }
      else State_Monad.return (Finished (failure cmd (''unknown backup type: '' @ bc_BackupType cmd))))"

subsection \<open>The removal of every helper is asked for\<close>

text \<open>
  The helpers that were started and whose removal was not asked for since, given those before.  The answer of
  the daemon to the removal is left out, as the code ignores it.
\<close>

fun unremoved_helpers :: "string set \<Rightarrow> backup_event \<Rightarrow> string set" where
  "unremoved_helpers S (HelperStarted opts (Inr h)) = insert h S"
| "unremoved_helpers S (HelperRemoved h) = S - {h}"
| "unremoved_helpers S e = S"

definition locks_free :: "backup_event list \<Rightarrow> bool" where
  "locks_free evs \<longleftrightarrow> length (filter (\<lambda>e. e = LockTaken) evs) = length (filter (\<lambda>e. e = LockReleased) evs)"

text \<open>The three judgements: nothing new stays; only \<open>h\<close> may; nothing new stays and \<open>h\<close> is gone.\<close>

definition tidy :: "backup_event list \<Rightarrow> bool" where
  "tidy evs \<longleftrightarrow> (\<forall>S. foldl unremoved_helpers S evs \<subseteq> S) \<and> locks_free evs"

definition holding :: "string \<Rightarrow> backup_event list \<Rightarrow> bool" where
  "holding h evs \<longleftrightarrow> (\<forall>S. foldl unremoved_helpers S evs \<subseteq> insert h S) \<and> locks_free evs"

definition released :: "string \<Rightarrow> backup_event list \<Rightarrow> bool" where
  "released h evs \<longleftrightarrow> (\<forall>S. foldl unremoved_helpers S evs \<subseteq> S - {h}) \<and> locks_free evs"

lemma locks_free_simps [simp]: "locks_free []" "locks_free (es @ [LockTaken] @ fs @ [LockReleased]) \<longleftrightarrow> locks_free (es @ fs)"
    "e \<noteq> LockTaken \<Longrightarrow> e \<noteq> LockReleased \<Longrightarrow> locks_free (e # es) \<longleftrightarrow> locks_free es"
  by (auto simp: locks_free_def)

lemma locks_free_append: "locks_free es \<Longrightarrow> locks_free fs \<Longrightarrow> locks_free (es @ fs)"
  by (simp add: locks_free_def)

lemma tidy_Nil [simp]: "tidy []"
  by (simp add: tidy_def)

lemma tidy_append: "tidy es \<Longrightarrow> tidy fs \<Longrightarrow> tidy (es @ fs)"
  unfolding tidy_def foldl_append using locks_free_append by blast

lemma tidy_Cons: "(\<And>S. unremoved_helpers S e \<subseteq> S) \<Longrightarrow> e \<noteq> LockTaken \<Longrightarrow> e \<noteq> LockReleased \<Longrightarrow> tidy es \<Longrightarrow> tidy (e # es)"
  unfolding tidy_def by simp blast

lemma tidy_locked: "tidy es \<Longrightarrow> tidy (LockTaken # es @ [LockReleased])"
  unfolding tidy_def using locks_free_simps(2) [of "[]" es] by simp

lemma tidy_simps [simp]: "tidy [Asked q]" "tidy [ImagePulled i]" "tidy [Executed c x]" "tidy [HelperWaited h r]" "tidy [HelperRemoved h]"
    "tidy [HelperStarted opts (Inl err)]"
  by (simp_all add: tidy_def locks_free_def)

lemma released_after: "tidy es \<Longrightarrow> released h fs \<Longrightarrow> released h (es @ fs)"
  unfolding tidy_def released_def foldl_append using locks_free_append by blast

lemma holding_after: "tidy es \<Longrightarrow> holding h fs \<Longrightarrow> holding h (es @ fs)"
  unfolding tidy_def holding_def foldl_append using locks_free_append by blast

lemma holding_released: "holding h es \<Longrightarrow> released h fs \<Longrightarrow> tidy (es @ fs)"
  unfolding tidy_def holding_def released_def foldl_append using locks_free_append by blast

abbreviation tidies :: "('w, 'a) backing \<Rightarrow> bool" where
  "tidies m \<equiv> yields (\<lambda>r evs. tidy evs) m"

lemma tidies_bind:
  assumes "tidies m" "\<And>a. tidies (f a)"
  shows "tidies (State_Monad.bind m f)"
  by (rule yields_bind [OF assms(1)], rule yields_mono [OF assms(2)]) (rule tidy_append)

lemma tidies_return: "tidies (State_Monad.return x)"
  by (simp add: yields_return)

lemma tidies_call: "(\<And>r. tidy [ev r]) \<Longrightarrow> tidies (call ev f)"
  by (rule yields_call)

lemmas tidies_rules = tidies_bind tidies_return tidies_call yields_if yields_option yields_sum yields_prod

lemma tidies_each: "(\<And>x. tidies (f x)) \<Longrightarrow> tidies (each f xs)"
  by (induction xs) (auto intro!: tidies_rules)

lemma tidies_with_name: "(\<And>n. tidies (f n)) \<Longrightarrow> tidies (with_name prefix i f)"
  by (simp add: with_name_def tidies_return)

text \<open>A helper that was started: \<open>f\<close> goes on when it was not, \<open>g\<close> works with it and removes it.\<close>

lemma tidies_helper:
  assumes "yields (\<lambda>r evs. case r of Inl err \<Rightarrow> tidy evs | Inr h \<Rightarrow> holding h evs) m"
    and "\<And>err. tidies (f err)" "\<And>h. yields (\<lambda>r evs. released h evs) (g h)"
  shows "tidies (State_Monad.bind m (\<lambda>r. case r of Inl err \<Rightarrow> f err | Inr h \<Rightarrow> g h))"
  by (rule yields_bind [OF assms(1)])
    (auto split: sum.splits intro: yields_mono [OF assms(2)] yields_mono [OF assms(3)] tidy_append holding_released)

lemma releases_bind:
  assumes "tidies m" "\<And>a. yields (\<lambda>r evs. released h evs) (f a)"
  shows "yields (\<lambda>r evs. released h evs) (State_Monad.bind m f)"
  by (rule yields_bind [OF assms(1)], rule yields_mono [OF assms(2)]) (rule released_after)

lemma remove_helper_releases: "yields (\<lambda>r evs. released h evs) (remove_helper env h)"
  unfolding remove_helper_def by (auto intro!: yields_rules simp: released_def locks_free_def)

lemma removed_then_return: "yields (\<lambda>r evs. released h evs) (State_Monad.bind (remove_helper env h) (\<lambda>x. State_Monad.return y))"
  by (rule yields_bind [OF remove_helper_releases]) (auto intro: yields_return)

lemma remove_helper_tidies: "tidies (remove_helper env h)"
  unfolding remove_helper_def by (intro tidies_rules) simp

lemma ensure_tidies: "tidies (ensure env d)"
proof -
  have img: "tidies (ensure_image env)"
    unfolding ensure_image_def by (intro tidies_rules) simp_all
  have "yields (\<lambda>r evs. tidy (LockTaken # evs)) (do {
      result \<leftarrow> ensure_image env; _ \<leftarrow> call (\<lambda>_. LockReleased) (bd_unlock env); State_Monad.return result })"
    by (rule yields_bind [OF img]) (auto intro!: yields_call_then yields_return simp: tidy_locked)
  then show ?thesis
    unfolding ensure_def
    by (intro yields_call_then yields_option yields_return) (auto simp: tidy_def elim!: yields_mono intro: tidy_Cons)
qed

lemma helper_started: "yields (\<lambda>r evs. case r of Inl err \<Rightarrow> tidy evs | Inr h \<Rightarrow> holding h evs) (call (HelperStarted opts) f)"
  by (rule yields_call) (auto simp: tidy_def holding_def locks_free_def split: sum.split)

lemma alpine_started: "yields (\<lambda>r evs. case r of Inl err \<Rightarrow> tidy evs | Inr h \<Rightarrow> holding h evs) (runAlpineHelper env opts)"
  unfolding runAlpineHelper_def Let_def
proof (rule yields_bind [OF ensure_tidies])
  fix r evs assume "tidy evs"
  then show "yields (\<lambda>r evs'. case r of Inl err \<Rightarrow> tidy (evs @ evs') | Inr h \<Rightarrow> holding h (evs @ evs')) (case r of
      Some e \<Rightarrow> State_Monad.return (Inl (''ensuring backup helper image '' @ alpineHelperImage @ '': '' @ e))
    | None \<Rightarrow> call (HelperStarted (opts\<lparr>ro_Image := alpineHelperImage\<rparr>)) (bd_RunContainer env (opts\<lparr>ro_Image := alpineHelperImage\<rparr>)))"
    by (cases r) (auto intro!: yields_return yields_mono [OF helper_started] split: sum.splits intro: tidy_append holding_after)
qed

lemma await_tidies: "tidies (await env w x h)"
  unfolding await_def by (intro tidies_rules) simp

lemma exec_tidies: "tidies (execInHelper env c)"
  unfolding execInHelper_def
  by (intro tidies_bind tidies_call tidies_helper [OF alpine_started] tidies_return releases_bind removed_then_return) simp_all

lemma dump_tidies: "tidies (runDumpViaHelper env cmd d out ty)"
  unfolding runDumpViaHelper_def dump_size_def Let_def
  by (intro yields_prod tidies_with_name tidies_helper [OF helper_started] tidies_return releases_bind removed_then_return
      await_tidies tidies_bind yields_if exec_tidies)

lemma database_tidies: "tidies (databaseBackup env cmd d)"
proof -
  have "tidies (write_dump env cmd d out)" for out
    unfolding write_dump_def
    by (intro tidies_with_name tidies_helper [OF alpine_started] tidies_return releases_bind removed_then_return
        remove_helper_tidies dump_tidies)
  then show ?thesis
    unfolding databaseBackup_def by (intro tidies_rules) auto
qed

lemma volume_tidies: "tidies (volumeBackup env cmd d)"
  unfolding volumeBackup_def
  by (intro yields_if yields_prod tidies_with_name tidies_helper [OF alpine_started] tidies_return releases_bind removed_then_return
      await_tidies tidies_bind exec_tidies)

lemma metadata_tidies: "tidies (writeMetadata env cmd d n files)"
  unfolding writeMetadata_def
  by (intro tidies_bind tidies_call yields_sum tidies_return tidies_with_name tidies_helper [OF alpine_started] releases_bind
      removed_then_return) simp_all

lemma retention_tidies: "tidies (enforceRetention env cmd)"
  unfolding enforceRetention_def Let_def delete_dirs_def by (intro tidies_rules exec_tidies tidies_each)

lemma complete_tidies: "tidies (complete_backup env cmd n files)"
  unfolding complete_backup_def by (intro tidies_bind metadata_tidies) (auto split: run.split intro!: tidies_rules retention_tidies)

lemma then_with_tidies: "(\<And>n files. tidies (f n files)) \<Longrightarrow> tidies (then_with cmd what r f)"
  by (auto simp: then_with_def split: run.split sum.split prod.split intro: tidies_return)

lemma execute_tidies: "tidies (Execute env cmd)"
proof -
  have "tidies (deleteBackup env cmd)"
    unfolding deleteBackup_def
    by (intro tidies_with_name tidies_helper [OF alpine_started] tidies_return releases_bind removed_then_return await_tidies)
  then show ?thesis
    unfolding Execute_def
    by (intro yields_if tidies_bind tidies_return then_with_tidies complete_tidies database_tidies volume_tidies)
qed

text \<open>
  C28. However a backup ends, with a result or in a panic, the removal of every helper container it started
  was asked for after the start (the daemon's answer is ignored), and the lock of the helper image is free.
\<close>

theorem backup_removes_each_helper:
  "yields (\<lambda>r evs. foldl unremoved_helpers {} evs = {} \<and>
     length (filter (\<lambda>e. e = LockTaken) evs) = length (filter (\<lambda>e. e = LockReleased) evs)) (Execute env cmd)"
  by (rule yields_mono [OF execute_tidies]) (auto simp: tidy_def locks_free_def)

subsection \<open>What a reported backup rests on\<close>

definition helper_succeeded :: "string \<Rightarrow> backup_event list \<Rightarrow> bool" where
  "helper_succeeded shellCmd evs \<longleftrightarrow> (\<exists>opts h. HelperStarted opts (Inr h) \<in> set evs \<and> HelperWaited h (Inr 0) \<in> set evs \<and>
     ro_Command opts = [shellCmd])"

lemma helper_succeeded_append [simp]: "helper_succeeded c es \<Longrightarrow> helper_succeeded c (es @ fs)"
    "helper_succeeded c fs \<Longrightarrow> helper_succeeded c (es @ fs)"
    "helper_succeeded c (es @ fs) \<Longrightarrow> helper_succeeded c (es @ fs @ gs)"
  by (auto simp: helper_succeeded_def)

definition dump_command :: "BackupCommand \<Rightarrow> string" where
  "dump_command cmd = snd (dump_shell (bc_DatabaseType cmd) (bc_EnvVars cmd) (bc_ServiceSlug cmd) (backup_dir cmd)
     (case dump_exec (bc_DatabaseType cmd) (bc_EnvVars cmd) of None \<Rightarrow> [] | Some (c, outFile) \<Rightarrow> outFile))"

definition tar_command :: "BackupCommand \<Rightarrow> string" where
  "tar_command cmd = snd (snd (volume_plan (backup_dir cmd) (bc_VolumeMounts cmd)))"

definition part_done :: "(backup_event list \<Rightarrow> bool) \<Rightarrow> (int \<times> string list) result run \<Rightarrow> backup_event list \<Rightarrow> bool" where
  "part_done ok r evs \<longleftrightarrow> (\<forall>part. r = Finished (Inr part) \<longrightarrow> ok evs)"

text \<open>Starting a helper for \<open>c\<close> and waiting for it with success is what \<open>helper_succeeded\<close> asks for.\<close>

lemma awaited: "yields (\<lambda>r evs. r = None \<longrightarrow> HelperWaited h (Inr 0) \<in> set evs) (await env w x h)"
  unfolding await_def by (auto intro!: yields_rules split: sum.splits if_splits)

lemma alpine_command: "yields (\<lambda>r evs. \<forall>h. r = Inr h \<longrightarrow> (\<exists>opts'. HelperStarted opts' (Inr h) \<in> set evs \<and> ro_Command opts' = ro_Command opts))
    (runAlpineHelper env opts)"
  unfolding runAlpineHelper_def Let_def
proof (rule yields_bind [where R = "\<lambda>r evs. True"])
  show "yields (\<lambda>r evs. True) (ensure env helperImagePullTimeout)" by (rule yields_mono [OF ensure_tidies]) simp
  fix r evs
  show "yields (\<lambda>b evs'. \<forall>h. b = Inr h \<longrightarrow> (\<exists>opts'. HelperStarted opts' (Inr h) \<in> set (evs @ evs') \<and> ro_Command opts' = ro_Command opts))
      (case r of Some e \<Rightarrow> State_Monad.return (Inl (''ensuring backup helper image '' @ alpineHelperImage @ '': '' @ e))
       | None \<Rightarrow> call (HelperStarted (opts\<lparr>ro_Image := alpineHelperImage\<rparr>)) (bd_RunContainer env (opts\<lparr>ro_Image := alpineHelperImage\<rparr>)))"
    by (cases r) (auto intro!: yields_return yields_call exI [of _ "opts\<lparr>ro_Image := alpineHelperImage\<rparr>"])
qed

lemma yields_any: "tidies m \<Longrightarrow> (\<And>a evs. R a evs) \<Longrightarrow> yields R m"
  by (rule yields_mono) auto

lemma dump_done: "yields (\<lambda>r evs. \<forall>n. r = Finished (Inr n) \<longrightarrow>
    helper_succeeded (snd (dump_shell ty (bc_EnvVars cmd) (bc_ServiceSlug cmd) d out)) evs) (runDumpViaHelper env cmd d out ty)"
proof -
  obtain img shellCmd where sh: "dump_shell ty (bc_EnvVars cmd) (bc_ServiceSlug cmd) d out = (img, shellCmd)" by fastforce
  have size: "tidies (if b then dump_size env d out else State_Monad.return 0)" for b
    unfolding dump_size_def by (intro yields_if tidies_rules exec_tidies)
  show ?thesis
    unfolding runDumpViaHelper_def with_name_def Let_def sh prod.case snd_conv
    by (intro yields_if yields_return yields_call_then yields_sum yields_bind [OF awaited] yields_bind [OF size]
        yields_bind [OF remove_helper_tidies])
      (fastforce simp: helper_succeeded_def helper_opts_def split: option.splits)+
qed

lemma write_dump_done: "yields (\<lambda>r evs. \<forall>n. r = Finished (Inr n) \<longrightarrow>
    helper_succeeded (snd (dump_shell (bc_DatabaseType cmd) (bc_EnvVars cmd) (bc_ServiceSlug cmd) d out)) evs) (write_dump env cmd d out)"
  unfolding write_dump_def with_name_def
  by (intro yields_if yields_return yields_bind [OF alpine_command] yields_sum yields_bind [OF remove_helper_tidies] yields_bind [OF dump_done])
    (auto split: run.splits sum.splits)

lemma database_done: "yields (part_done (helper_succeeded (dump_command cmd))) (databaseBackup env cmd (backup_dir cmd))"
proof -
  have "yields (\<lambda>r evs. part_done (helper_succeeded (dump_command cmd)) r (pre @ evs)) (write_dump env cmd (backup_dir cmd) out)"
    if "dump_exec (bc_DatabaseType cmd) (bc_EnvVars cmd) = Some (c, out)" for pre c out
    by (rule yields_mono [OF write_dump_done]) (use that in \<open>auto simp: dump_command_def part_done_def\<close>)
  from this [of _ _ "[e, f]" for e f] show ?thesis
    unfolding databaseBackup_def
    by (intro yields_if yields_return yields_call_then yields_prod yields_option yields_sum) (simp_all add: part_done_def)
qed

lemma volume_done:
  "yields (part_done (\<lambda>evs. bc_VolumeMounts cmd \<noteq> [] \<longrightarrow> helper_succeeded (tar_command cmd) evs)) (volumeBackup env cmd (backup_dir cmd))"
proof -
  obtain mounts files shellCmd where plan: "volume_plan (backup_dir cmd) (bc_VolumeMounts cmd) = (mounts, files, shellCmd)"
    by (metis prod_cases3)
  have tidy_size: "tidies (if b then execInHelper env c else State_Monad.return (Inl []))" for b c
    by (intro yields_if tidies_return exec_tidies)
  show ?thesis
    unfolding volumeBackup_def with_name_def plan prod.case
    by (intro yields_if yields_return yields_bind [OF alpine_command] yields_sum yields_bind [OF awaited] yields_bind [OF tidy_size]
        yields_bind [OF remove_helper_tidies])
      (fastforce simp: helper_succeeded_def helper_opts_def tar_command_def plan part_done_def split: option.splits)+
qed

lemma delete_done:
  "yields (\<lambda>r evs. r = Finished None \<longrightarrow> helper_succeeded (''rm -rf /backups/'' @ backup_dir cmd) evs) (deleteBackup env cmd)"
  unfolding deleteBackup_def with_name_def
  by (intro yields_if yields_return yields_bind [OF alpine_command] yields_sum yields_bind [OF awaited] yields_bind [OF remove_helper_tidies])
    (fastforce simp: helper_succeeded_def helper_opts_def shell_helper_def)+

lemma delete_error: "yields (\<lambda>r evs. \<forall>err. r = Finished (Some err) \<longrightarrow> err \<noteq> []) (deleteBackup env cmd)"
proof -
  have failed: "yields (\<lambda>r evs. r \<noteq> Some []) (await env ''waiting for delete: '' ''delete helper'' h)" for h
    unfolding await_def by (auto intro!: yields_rules split: sum.splits if_splits)
  show ?thesis unfolding deleteBackup_def with_name_def
    by (intro yields_if yields_return yields_bind [OF alpine_command] yields_sum yields_bind [OF failed] yields_bind [OF remove_helper_tidies])
      auto
qed

text \<open>What a result of the executor promises.\<close>

definition backup_made :: "BackupCommand \<Rightarrow> backup_event list \<Rightarrow> bool" where
  "backup_made cmd evs \<longleftrightarrow>
     (if bc_DeleteOnly cmd then helper_succeeded (''rm -rf /backups/'' @ backup_dir cmd) evs
      else (bc_BackupType cmd = ''database'' \<or> bc_BackupType cmd = ''volume'' \<or> bc_BackupType cmd = ''all'') \<and>
        (bc_BackupType cmd = ''volume'' \<or> helper_succeeded (dump_command cmd) evs) \<and>
        (bc_BackupType cmd = ''database'' \<or> bc_VolumeMounts cmd = [] \<or> helper_succeeded (tar_command cmd) evs))"

definition result_ok :: "BackupCommand \<Rightarrow> BackupResult run \<Rightarrow> backup_event list \<Rightarrow> bool" where
  "result_ok cmd r evs \<longleftrightarrow> (case r of
     Crashed \<Rightarrow> True
   | Finished res \<Rightarrow> br_CommandId res = bc_CommandId cmd \<and> br_BackupId res = bc_BackupId cmd \<and>
       (if br_Success res then backup_made cmd evs else br_ErrorMessage res \<noteq> []))"

lemma result_failure: "err \<noteq> [] \<Longrightarrow> result_ok cmd (Finished (failure cmd err)) evs"
  by (simp add: result_ok_def failure_def no_result_def)

lemma result_crashed: "result_ok cmd Crashed evs"
  by (simp add: result_ok_def)

lemma result_made: "backup_made cmd evs \<Longrightarrow>
    result_ok cmd (Finished ((no_result cmd)\<lparr>br_Success := True, br_SizeBytes := n, br_Files := files\<rparr>)) evs"
  by (simp add: result_ok_def no_result_def)

lemma complete_ok:
  assumes "\<And>evs. backup_made cmd (pre @ evs)"
  shows "yields (\<lambda>r evs. result_ok cmd r (pre @ evs)) (complete_backup env cmd n files)"
  unfolding complete_backup_def
proof (rule yields_bind [OF metadata_tidies])
  fix written evs
  have retained: "tidies (if b then enforceRetention env cmd else State_Monad.return ())" for b
    by (intro yields_if retention_tidies tidies_return)
  show "yields (\<lambda>r evs'. result_ok cmd r (pre @ evs @ evs')) (case written of
        Finished x \<Rightarrow> do {
          (if bc_RetentionCount cmd > 0 then enforceRetention env cmd else State_Monad.return ());
          State_Monad.return (Finished ((no_result cmd)\<lparr>br_Success := True, br_SizeBytes := n, br_Files := files @ [''metadata.json'']\<rparr>)) }
      | Crashed \<Rightarrow> State_Monad.return Crashed)"
  proof (cases written)
    case (Finished x)
    then show ?thesis unfolding Finished run.case
      by (intro yields_bind [OF retained] yields_return result_made assms)
  qed (simp add: yields_return result_crashed)
qed

lemma then_with_ok:
  assumes "part_done P r pre" "\<And>n files. P pre \<Longrightarrow> yields (\<lambda>r evs. result_ok cmd r (pre @ evs)) (f n files)"
  shows "yields (\<lambda>r evs. result_ok cmd r (pre @ evs)) (then_with cmd what r f)"
  unfolding then_with_def
  by (cases r; use assms in \<open>auto simp: part_done_def split: sum.split intro!: yields_return result_crashed result_failure\<close>)

lemma execute_result: "yields (result_ok cmd) (Execute env cmd)"
proof -
  let ?dir = "backup_dir cmd"
  have delete: "yields (result_ok cmd) (do {
        r \<leftarrow> deleteBackup env cmd;
        State_Monad.return (case r of
            Crashed \<Rightarrow> Crashed
          | Finished (Some err) \<Rightarrow> Finished (failure cmd err)
          | Finished None \<Rightarrow> Finished ((no_result cmd)\<lparr>br_Success := True\<rparr>)) })" if "bc_DeleteOnly cmd"
  proof -
    from yields_conj [OF delete_error delete_done] show ?thesis
      by (rule yields_bind) (use that in \<open>auto intro!: yields_return simp: result_ok_def backup_made_def no_result_def failure_def
        split: run.split option.split\<close>)
  qed
  have database: "yields (result_ok cmd) (do { db \<leftarrow> databaseBackup env cmd ?dir; then_with cmd ''database'' db (complete_backup env cmd) })"
    if "\<not> bc_DeleteOnly cmd" "bc_BackupType cmd = ''database''"
    by (rule yields_bind [OF database_done], rule then_with_ok, assumption, rule complete_ok) (use that in \<open>auto simp: backup_made_def\<close>)
  have volume: "yields (result_ok cmd) (do { vol \<leftarrow> volumeBackup env cmd ?dir; then_with cmd ''volume'' vol (complete_backup env cmd) })"
    if "\<not> bc_DeleteOnly cmd" "bc_BackupType cmd = ''volume''"
    by (rule yields_bind [OF volume_done], rule then_with_ok, assumption, rule complete_ok) (use that in \<open>auto simp: backup_made_def\<close>)
  have both: "yields (result_ok cmd) (do {
        db \<leftarrow> databaseBackup env cmd ?dir;
        then_with cmd ''database'' db (\<lambda>dbSize dbFiles. do {
          vol \<leftarrow> volumeBackup env cmd ?dir;
          then_with cmd ''volume'' vol (\<lambda>volSize volFiles. complete_backup env cmd (int64 (dbSize + volSize)) (dbFiles @ volFiles)) }) })"
    if "\<not> bc_DeleteOnly cmd" "bc_BackupType cmd = ''all''"
  proof (rule yields_bind [OF database_done], erule then_with_ok)
    fix evs n files assume db: "helper_succeeded (dump_command cmd) evs"
    have later: "helper_succeeded (dump_command cmd) (evs @ fs)" for fs using db by simp
    show "yields (\<lambda>r evs'. result_ok cmd r (evs @ evs')) (do {
          vol \<leftarrow> volumeBackup env cmd ?dir;
          then_with cmd ''volume'' vol (\<lambda>volSize volFiles. complete_backup env cmd (int64 (n + volSize)) (files @ volFiles)) })"
    proof (rule yields_bind [OF volume_done])
      fix vol evs'
      assume "part_done (\<lambda>evs. bc_VolumeMounts cmd \<noteq> [] \<longrightarrow> helper_succeeded (tar_command cmd) evs) vol evs'"
      then have "part_done (\<lambda>evs. helper_succeeded (dump_command cmd) evs \<and> (bc_VolumeMounts cmd \<noteq> [] \<longrightarrow> helper_succeeded (tar_command cmd) evs))
          vol (evs @ evs')"
        using db by (auto simp: part_done_def)
      then show "yields (\<lambda>r evs''. result_ok cmd r (evs @ evs' @ evs''))
          (then_with cmd ''volume'' vol (\<lambda>volSize volFiles. complete_backup env cmd (int64 (n + volSize)) (files @ volFiles)))"
        unfolding append_assoc [symmetric]
        by (rule then_with_ok, intro complete_ok) (use that later in \<open>auto simp: backup_made_def\<close>)
    qed
  qed
  show ?thesis
    unfolding Execute_def
    by (intro yields_if delete database volume both yields_return result_failure) simp_all
qed

text \<open>
  C26. A backup is reported as made only when the helper that ran its dump command, and the one that
  ran its archive command where there are volumes, were started and ended with status zero; every
  other result carries an error message.
\<close>

theorem backup_report_exact: "yields (result_ok cmd) (Execute env cmd)"
  by (rule execute_result)

subsection \<open>Sizes\<close>

text \<open>
  What the daemon sends for the output of a helper: a sequence of frames of standard output or
  standard error, whose lines carry time stamps, since the agent asks for both.
\<close>

definition framed :: "string \<Rightarrow> bool" where
  "framed out \<longleftrightarrow> (\<exists>fs. list_all (\<lambda>f. fst f = 1 \<or> fst f = 2) fs \<and> out = encode_frames fs)"

lemma TrimSpace_keeps_first: "\<not> is_space c \<Longrightarrow> TrimSpace (c # cs) = c # rev (dropWhile is_space (rev cs))"
  by (simp add: TrimSpace_def dropWhile_append3)

lemma framed_head:
  assumes "framed out"
  obtains "out = []" | c cs where "out = c # cs" "c = char_of (1 :: nat) \<or> c = char_of (2 :: nat)"
proof -
  obtain fs where fs: "list_all (\<lambda>f. fst f = 1 \<or> fst f = 2) fs" "out = encode_frames fs"
    using assms unfolding framed_def by blast
  show thesis
  proof (cases fs)
    case (Cons f gs)
    obtain k p where f: "f = (k, p)" by fastforce
    show thesis
      by (rule that(2) [of "char_of k"]) (use fs in \<open>auto simp: Cons f encode_frames_def encode_frame_def\<close>)
  qed (use fs that(1) in \<open>simp add: encode_frames_def\<close>)
qed

lemma header_byte:
  assumes "c = char_of (1 :: nat) \<or> c = char_of (2 :: nat)"
  shows "\<not> is_space c \<and> \<not> is_digit c \<and> c \<noteq> CHR ''-'' \<and> c \<noteq> CHR ''+''"
proof -
  have "(of_char c :: nat) \<in> {1, 2}" using assms by auto
  then show ?thesis by (auto simp: is_space_def is_digit_def)
qed

lemma framed_size_zero: "framed out \<Longrightarrow> scan_size (TrimSpace (take k out)) = 0"
proof (erule framed_head)
  fix c cs assume out: "out = c # cs" and c: "c = char_of (1 :: nat) \<or> c = char_of (2 :: nat)"
  show ?thesis
  proof (cases k)
    case (Suc j)
    then show ?thesis using header_byte [OF c] by (simp add: out TrimSpace_keeps_first scan_size_def Let_def)
  qed (simp add: TrimSpace_def scan_size_def)
qed (simp add: TrimSpace_def scan_size_def)

definition framed_logs :: "'w backup_docker \<Rightarrow> bool" where
  "framed_logs env \<longleftrightarrow> (\<forall>h v out. fst (bd_ContainerLogs env h v) = Inr out \<longrightarrow> framed out)"

lemma map_sum_Inr: "map_sum id f r = Inr y \<longleftrightarrow> (\<exists>x. r = Inr x \<and> y = f x)"
  by (cases r) auto

lemma exec_size:
  assumes "framed_logs env"
  shows "yields (\<lambda>r evs. \<forall>out. r = Inr out \<longrightarrow> scan_size (TrimSpace out) = 0) (execInHelper env c)"
proof -
  have logs: "yields (\<lambda>r evs. \<forall>out. r = Inr out \<longrightarrow> framed out) (call (\<lambda>_. Asked ''logs'') (bd_ContainerLogs env h))" for h
    by (rule yields_call_range) (use assms in \<open>auto simp: framed_logs_def\<close>)
  show ?thesis
    unfolding execInHelper_def
    by (intro yields_bind [OF logs] yields_call_then yields_bind [OF alpine_command] yields_sum yields_return
        yields_bind [OF remove_helper_tidies]) (auto simp: framed_size_zero map_sum_Inr)
qed

definition no_size :: "(int \<times> string list) result run \<Rightarrow> bool" where
  "no_size r \<longleftrightarrow> (\<forall>n files. r = Finished (Inr (n, files)) \<longrightarrow> n = 0)"

lemma database_size:
  assumes "framed_logs env"
  shows "yields (\<lambda>r evs. no_size r) (databaseBackup env cmd d)"
proof -
  have "yields (\<lambda>r evs. r = 0) (dump_size env d out)" for out
    unfolding dump_size_def by (rule yields_bind [OF exec_size [OF assms]]) (auto intro!: yields_return split: sum.split)
  then have size: "yields (\<lambda>r evs. r = 0) (if b then dump_size env d out else State_Monad.return 0)" for b out
    by (auto intro: yields_return)
  have dump: "yields (\<lambda>r evs. \<forall>n. r = Finished (Inr n) \<longrightarrow> n = 0) (runDumpViaHelper env cmd d out ty)" for out ty
    unfolding runDumpViaHelper_def with_name_def Let_def
    by (intro yields_prod yields_if yields_return yields_call_then yields_sum yields_bind [OF awaited] yields_bind [OF size]
        yields_bind [OF remove_helper_tidies]) (auto split: option.splits)
  have written: "yields (\<lambda>r evs. no_size r) (write_dump env cmd d out)" for out
    unfolding write_dump_def with_name_def
    by (intro yields_if yields_return yields_bind [OF alpine_command] yields_sum yields_bind [OF remove_helper_tidies] yields_bind [OF dump])
      (auto simp: no_size_def split: run.splits sum.splits)
  show ?thesis
    unfolding databaseBackup_def
    by (intro yields_if yields_return yields_call_then yields_prod yields_option yields_sum written) (simp_all add: no_size_def)
qed

lemma volume_size:
  assumes "framed_logs env"
  shows "yields (\<lambda>r evs. no_size r) (volumeBackup env cmd d)"
proof -
  have size: "yields (\<lambda>r evs. \<forall>out. r = Inr out \<longrightarrow> scan_size (TrimSpace out) = 0)
      (if b then execInHelper env c else State_Monad.return (Inl []))" for b c
    using exec_size [OF assms] by (auto intro: yields_return)
  show ?thesis
    unfolding volumeBackup_def with_name_def
    by (intro yields_if yields_prod yields_return yields_bind [OF alpine_command] yields_sum yields_bind [OF awaited] yields_bind [OF size]
        yields_bind [OF remove_helper_tidies]) (auto simp: no_size_def split: option.splits sum.splits)
qed

text \<open>
  The size of a backup is never measured: while the daemon frames the output of the helpers,
  every result of the executor reports zero bytes.
\<close>

theorem backup_size_always_zero:
  assumes "\<And>h v out. fst (bd_ContainerLogs env h v) = Inr out \<Longrightarrow>
    \<exists>fs. list_all (\<lambda>f. fst f = 1 \<or> fst f = 2) fs \<and> out = encode_frames fs"
  shows "yields (\<lambda>r evs. \<forall>res. r = Finished res \<longrightarrow> br_SizeBytes res = 0) (Execute env cmd)"
proof -
  let ?zero = "\<lambda>r (evs :: backup_event list). \<forall>res. r = Finished res \<longrightarrow> br_SizeBytes res = 0"
  have framed: "framed_logs env" unfolding framed_logs_def framed_def using assms by blast
  have done_with: "yields ?zero (complete_backup env cmd 0 files)" for files
  proof -
    have retained: "tidies (if b then enforceRetention env cmd else State_Monad.return ())" for b
      by (intro yields_if retention_tidies tidies_return)
    show ?thesis unfolding complete_backup_def
    proof (rule yields_bind [OF metadata_tidies])
      fix written :: "unit run"
      show "yields ?zero (case written of
          Finished x \<Rightarrow> do {
            (if bc_RetentionCount cmd > 0 then enforceRetention env cmd else State_Monad.return ());
            State_Monad.return (Finished ((no_result cmd)\<lparr>br_Success := True, br_SizeBytes := 0, br_Files := files @ [''metadata.json'']\<rparr>)) }
        | Crashed \<Rightarrow> State_Monad.return Crashed)"
        by (cases written) (simp_all only: run.case, intro yields_bind [OF retained] yields_return, simp_all add: yields_return)
    qed
  qed
  have failed: "yields ?zero (State_Monad.return (Finished (failure cmd err)))" for err
    by (rule yields_return) (simp add: failure_def no_result_def)
  have sized: "yields ?zero (then_with cmd what r f)" if "no_size r" "\<And>files. yields ?zero (f 0 files)" for what r f
    using that by (auto simp: then_with_def no_size_def split: run.split sum.split intro: failed yields_return)
  show ?thesis
    unfolding Execute_def
  proof (intro yields_if failed)
    show "yields ?zero (do {
        r \<leftarrow> deleteBackup env cmd;
        State_Monad.return (case r of
            Crashed \<Rightarrow> Crashed
          | Finished (Some err) \<Rightarrow> Finished (failure cmd err)
          | Finished None \<Rightarrow> Finished ((no_result cmd)\<lparr>br_Success := True\<rparr>)) })"
      by (rule yields_bind [OF delete_done]) (auto intro!: yields_return simp: failure_def no_result_def split: run.split option.split)
    show "yields ?zero (do { db \<leftarrow> databaseBackup env cmd (backup_dir cmd); then_with cmd ''database'' db (complete_backup env cmd) })"
      by (rule yields_bind [OF database_size [OF framed]], rule sized) (simp_all add: done_with)
    show "yields ?zero (do { vol \<leftarrow> volumeBackup env cmd (backup_dir cmd); then_with cmd ''volume'' vol (complete_backup env cmd) })"
      by (rule yields_bind [OF volume_size [OF framed]], rule sized) (simp_all add: done_with)
    show "yields ?zero (do {
        db \<leftarrow> databaseBackup env cmd (backup_dir cmd);
        then_with cmd ''database'' db (\<lambda>dbSize dbFiles. do {
          vol \<leftarrow> volumeBackup env cmd (backup_dir cmd);
          then_with cmd ''volume'' vol (\<lambda>volSize volFiles. complete_backup env cmd (int64 (dbSize + volSize)) (dbFiles @ volFiles)) }) })"
      by (rule yields_bind [OF database_size [OF framed]], rule sized, assumption,
          rule yields_bind [OF volume_size [OF framed]], rule sized) (simp_all add: done_with int64_def)
  qed
qed

subsection \<open>What a backup does not do\<close>

text \<open>
  Only the image of the helpers is ever pulled: the images that dump a database are expected on the
  host, although nothing puts them there.
\<close>

lemma alpine_pulls: "emits (\<lambda>e. \<forall>i. e = ImagePulled i \<longrightarrow> i = ''alpine:3.20'') (runAlpineHelper env opts)"
  unfolding runAlpineHelper_def ensure_def ensure_image_def alpineHelperImage_def Let_def
  by (intro emits_rules) simp_all

theorem dump_images_not_pulled: "emits (\<lambda>e. \<forall>i. e = ImagePulled i \<longrightarrow> i = ''alpine:3.20'') (Execute env cmd)"
proof -
  let ?P = "\<lambda>e. \<forall>i. e = ImagePulled i \<longrightarrow> i = ''alpine:3.20''"
  note steps = emits_rules alpine_pulls
  have exec: "emits ?P (execInHelper env c)" for c
    unfolding execInHelper_def remove_helper_def by (intro steps) simp_all
  have waiting: "emits ?P (await env w x h)" for w x h
    unfolding await_def by (intro steps) simp
  have removing: "emits ?P (remove_helper env h)" for h
    unfolding remove_helper_def by (intro steps) simp
  have dump: "emits ?P (runDumpViaHelper env cmd d out ty)" for d out ty
    unfolding runDumpViaHelper_def dump_size_def with_name_def Let_def by (intro steps exec waiting removing) simp_all
  have database: "emits ?P (databaseBackup env cmd d)" for d
    unfolding databaseBackup_def write_dump_def with_name_def by (intro steps dump removing) simp_all
  have volume: "emits ?P (volumeBackup env cmd d)" for d
    unfolding volumeBackup_def with_name_def by (intro steps exec waiting removing)
  have metadata: "emits ?P (writeMetadata env cmd d n files)" for d n files
    unfolding writeMetadata_def with_name_def by (intro steps removing) simp_all
  have retained: "emits ?P (enforceRetention env cmd)"
    unfolding enforceRetention_def delete_dirs_def Let_def by (intro steps exec)
  have finished: "emits ?P (complete_backup env cmd n files)" for n files
    unfolding complete_backup_def by (intro emits_bind metadata) (auto split: run.split intro!: steps retained)
  have parts: "emits ?P (then_with cmd what r f)" if "\<And>n files. emits ?P (f n files)" for what r f
    using that by (auto simp: then_with_def split: run.split sum.split intro: emits_return)
  have deletion: "emits ?P (deleteBackup env cmd)"
    unfolding deleteBackup_def with_name_def by (intro steps waiting removing)
  show ?thesis
    unfolding Execute_def by (intro emits_if emits_bind emits_return parts finished database volume deletion)
qed

text \<open>
  A deletion, or a backup of volumes, whose identifier has less than eight bytes panics before
  it does anything, and so never has a result.
\<close>

theorem short_identifier_panics:
  assumes "length (bc_BackupId cmd) < 8" "bc_DeleteOnly cmd \<or> bc_BackupType cmd = ''volume'' \<and> bc_VolumeMounts cmd \<noteq> []"
  shows "yields (\<lambda>r evs. r = Crashed \<and> evs = []) (Execute env cmd)"
proof -
  obtain mounts files shellCmd where plan: "volume_plan (backup_dir cmd) (bc_VolumeMounts cmd) = (mounts, files, shellCmd)"
    by (metis prod_cases3)
  show ?thesis
    using assms
    by (auto simp: Execute_def deleteBackup_def volumeBackup_def with_name_def plan then_with_def intro!: yields_return)
qed

text \<open>
  The identifier of a deletion is a path: with \<open>..\<close> in it the helper removes another service's
  backups, or all of them.
\<close>

theorem deletion_escapes_service:
  "backup_dir (cmd\<lparr>bc_ProjectSlug := ''shop'', bc_ServiceSlug := ''web'', bc_BackupId := ''../../blog''\<rparr>) = ''blog'' \<and>
   backup_dir (cmd\<lparr>bc_ProjectSlug := ''shop'', bc_ServiceSlug := ''web'', bc_BackupId := ''../../.''\<rparr>) = ''.''"
  by (simp add: backup_dir_def filepath_Join_def Clean_def HasPrefix_def Let_def)

text \<open>
  The password of a service is pasted between single quotes into the shell command of a helper that
  mounts the backups of all services: after a quote of its own the rest of it is shell text.
\<close>

theorem password_reaches_shell:
  "snd (dump_shell ''postgres'' [''POSTGRES_PASSWORD'' \<mapsto> [quote] @ ''; rm -rf /backups; '' @ [quote]] ''web'' ''shop/web/1'' ''dump.sql'') =
    ''mkdir -p /backups/shop/web/1 && PGPASSWORD='' @ [quote, quote] @ ''; rm -rf /backups; '' @ [quote, quote] @
    '' pg_dump -h web -U postgres postgres > /backups/shop/web/1/dump.sql''"
  by (simp add: dump_shell_def envOrDefault_def)

subsection \<open>Retention\<close>

text \<open>A daemon for two backups of one service; a helper is named by its command.\<close>

definition sample_docker :: "(string \<Rightarrow> string) \<Rightarrow> unit backup_docker" where
  "sample_docker logs = \<lparr>bd_ImageExists = \<lambda>i w. (Inr True, 0, w), bd_PullImage = \<lambda>i w. (None, 0, w),
     bd_FindContainerByLabel = \<lambda>k v w. ((''c1'', ''web'', None), 0, w), bd_ContainerExec = \<lambda>c x w. (Inr (0, []), 0, w),
     bd_RunContainer = \<lambda>opts w. (Inr (concat (ro_Command opts)), 0, w), bd_StopAndRemove = \<lambda>h w. (None, 0, w),
     bd_WaitContainer = \<lambda>h w. (Inr 0, 0, w), bd_ContainerLogs = \<lambda>h w. (Inr (logs h), 0, w), bd_ctx_err = \<lambda>d w. (None, 0, w),
     bd_lock = \<lambda>w. (None, 0, w), bd_unlock = \<lambda>w. ((), 0, w), bd_UnixNano = \<lambda>w. (1234567, 0, w),
     bd_created_at = \<lambda>w. (''2026-07-30T12:00:00Z'', 0, w), bd_json = \<lambda>m. Inr ''{}''\<rparr>"

definition sample_listing :: "string \<Rightarrow> string" where
  "sample_listing h = (if h = ''ls -1 /backups/shop/web/ 2>/dev/null || true''
     then encode_frames [(1, ''2026-07-30T12:00:00.000000000Z 0c111111'' @ [CHR 0x0A]), (1, ''2026-07-30T12:00:00.000000000Z 5b000000'' @ [CHR 0x0A])]
     else [])"

definition sample_backup :: BackupCommand where
  "sample_backup = \<lparr>bc_CommandId = ''cmd-1'', bc_BackupId = ''0c111111'', bc_ServiceSlug = ''web'', bc_ContainerName = ''web'',
     bc_ProjectSlug = ''shop'', bc_BackupType = ''volume'', bc_DatabaseType = [], bc_EnvVars = Map.empty,
     bc_VolumeMounts = [\<lparr>vm_Name = ''data'', vm_MountPath = ''/data''\<rparr>], bc_RetentionCount = 1, bc_DeleteOnly = False\<rparr>"

fun helper_commands :: "backup_event list \<Rightarrow> string list" where
  "helper_commands [] = []"
| "helper_commands (HelperStarted opts r # es) = concat (ro_Command opts) # helper_commands es"
| "helper_commands (e # es) = helper_commands es"

lemma helper_commands_append [simp]: "helper_commands (es @ fs) = helper_commands es @ helper_commands fs"
  by (induction es rule: helper_commands.induct) simp_all

lemma sample_alpine: "yields (\<lambda>r evs. r = Inr (concat (ro_Command opts)) \<and> helper_commands evs = [concat (ro_Command opts)])
    (runAlpineHelper (sample_docker logs) opts)"
  by (rule yieldsI) (auto simp: runAlpineHelper_def ensure_def ensure_image_def run_state_bind run_call sample_docker_def Let_def)

lemma sample_exec: "yields (\<lambda>r evs. r = Inr (take 65536 (logs c)) \<and> helper_commands evs = [c]) (execInHelper (sample_docker logs) c)"
proof -
  have logs: "yields (\<lambda>r evs. r = Inr (logs h) \<and> evs = [Asked ''logs'']) (call (\<lambda>_. Asked ''logs'') (bd_ContainerLogs (sample_docker logs) h))" for h
    by (rule yields_call_range) (simp add: sample_docker_def)
  have removing: "yields (\<lambda>r evs. helper_commands evs = []) (remove_helper (sample_docker logs) h)" for h
    unfolding remove_helper_def by (intro yields_rules) simp
  show ?thesis
    unfolding execInHelper_def
    by (intro yields_bind [OF logs] yields_call_then yields_bind [OF sample_alpine] yields_sum yields_return yields_bind [OF removing])
      (auto simp: shell_helper_def helper_opts_def)
qed

lemma sample_delete: "yields (\<lambda>r evs. helper_commands evs = map (\<lambda>d. ''rm -rf /backups/'' @ dir @ ''/'' @ d) ds) (delete_dirs (sample_docker logs) dir ds)"
  unfolding delete_dirs_def
proof (induction ds)
  case (Cons d ds)
  show ?case unfolding each.simps State_Monad.bind_assoc
    by (rule yields_bind [OF sample_exec], rule yields_return_then, rule yields_mono [OF Cons.IH]) simp
qed (simp add: yields_return)

text \<open>Retention lists the backups and then removes the first of the words it reads, in alphabetical order.\<close>

lemma sample_retention:
  "yields (\<lambda>r evs. helper_commands evs = (let dir = filepath_Join [bc_ProjectSlug cmd, bc_ServiceSlug cmd];
        ls = ''ls -1 /backups/'' @ dir @ ''/ 2>/dev/null || true'' in
      ls # map (\<lambda>d. ''rm -rf /backups/'' @ dir @ ''/'' @ d)
        (expired (if bc_RetentionCount cmd < 1 then 5 else nat (bc_RetentionCount cmd)) (Fields (TrimSpace (take 65536 (logs ls)))))))
     (enforceRetention (sample_docker logs) cmd)"
  unfolding enforceRetention_def Let_def
proof (rule yields_bind [OF sample_exec], goal_cases)
  case (1 r evs)
  then show ?case by (auto intro!: yields_mono [OF sample_delete])
qed

lemma encode_short: "length p < 256 \<Longrightarrow> encode_frame (k, p) =
    [char_of k, CHR 0x00, CHR 0x00, CHR 0x00, CHR 0x00, CHR 0x00, CHR 0x00, char_of (length p)] @ p"
  by (simp add: encode_frame_def char_of_def)

definition listing_header :: string where
  "listing_header = [CHR 0x01, CHR 0x00, CHR 0x00, CHR 0x00, CHR 0x00, CHR 0x00, CHR 0x00, CHR ''('']"

lemma listing_bytes: "char_of (Suc 0) = CHR 0x01" "char_of (40 :: nat) = CHR ''(''"
  by code_simp+

lemma listing_frame: "length p = 40 \<Longrightarrow> encode_frame (Suc 0, p) = listing_header @ p"
  using encode_short [of p "Suc 0"] by (simp only: listing_bytes listing_header_def)

lemma sample_listing_eq: "sample_listing ''ls -1 /backups/shop/web/ 2>/dev/null || true'' =
    listing_header @ ''2026-07-30T12:00:00.000000000Z 0c111111'' @ [CHR 0x0A] @
    listing_header @ ''2026-07-30T12:00:00.000000000Z 5b000000'' @ [CHR 0x0A]"
  by (simp add: sample_listing_def encode_frames_def listing_frame)

lemma sample_expired: "expired 1 (Fields (TrimSpace (listing_header @ ''2026-07-30T12:00:00.000000000Z 0c111111'' @ [CHR 0x0A] @
    listing_header @ ''2026-07-30T12:00:00.000000000Z 5b000000'' @ [CHR 0x0A]))) =
    [listing_header @ ''2026-07-30T12:00:00.000000000Z'', listing_header @ ''2026-07-30T12:00:00.000000000Z'', ''0c111111'']"
  by code_simp


lemma sample_retained: "yields (\<lambda>r evs. helper_commands evs \<noteq> [] \<and> last (helper_commands evs) = ''rm -rf /backups/shop/web/0c111111'')
    (enforceRetention (sample_docker sample_listing) sample_backup)"
proof -
  have dir: "filepath_Join [bc_ProjectSlug sample_backup, bc_ServiceSlug sample_backup] = ''shop/web''" by code_simp
  have count: "bc_RetentionCount sample_backup = 1" by (simp add: sample_backup_def)
  have "take 65536 (sample_listing ''ls -1 /backups/shop/web/ 2>/dev/null || true'') =
      sample_listing ''ls -1 /backups/shop/web/ 2>/dev/null || true''"
    by (rule take_all) (simp add: sample_listing_eq listing_header_def)
  note listing = this [unfolded sample_listing_eq]
  have ls: "''ls -1 /backups/'' @ ''shop/web'' @ ''/ 2>/dev/null || true'' = ''ls -1 /backups/shop/web/ 2>/dev/null || true''" by simp
  have one: "(if (1 :: int) < 1 then 5 else nat 1) = 1" by simp
  show ?thesis
    by (rule yields_mono [OF sample_retention], unfold Let_def dir count ls one sample_listing_eq listing sample_expired) simp
qed

lemma sample_metadata: "yields (\<lambda>r evs. r = Finished ()) (writeMetadata (sample_docker logs) sample_backup d n files)"
  unfolding writeMetadata_def with_name_def
  by (intro yields_call_then yields_sum yields_if yields_bind [OF sample_alpine] yields_return yields_bind [OF remove_helper_tidies])
    (simp_all add: sample_backup_def sample_docker_def)

lemma sample_volume: "yields (\<lambda>r evs. \<exists>n files. r = Finished (Inr (n, files))) (volumeBackup (sample_docker logs) sample_backup d)"
proof -
  obtain mounts files shellCmd where plan: "volume_plan d (bc_VolumeMounts sample_backup) = (mounts, files, shellCmd)"
    by (metis prod_cases3)
  have waited: "yields (\<lambda>r evs. r = None) (await (sample_docker logs) w x h)" for w x h
    unfolding await_def
    by (rule yields_bind [OF yields_call_range [where R = "\<lambda>r evs. r = Inr 0"]]) (auto simp: sample_docker_def intro!: yields_return)
  have size: "tidies (if b then execInHelper (sample_docker logs) c else State_Monad.return (Inl []))" for b c
    by (intro yields_if tidies_return exec_tidies)
  show ?thesis
    unfolding volumeBackup_def with_name_def plan prod.case
    by (intro yields_if yields_return yields_bind [OF sample_alpine] yields_sum yields_bind [OF waited] yields_bind [OF size]
        yields_bind [OF remove_helper_tidies]) (simp_all add: sample_backup_def)
qed

text \<open>
  Retention removes by name, not by age: a backup of volumes that is reported as made has just
  been removed by the retention that ran after it, and the older one stays.
\<close>

theorem retention_removes_new_backup:
  "yields (\<lambda>r evs. \<exists>res. r = Finished res \<and> br_Success res \<and> br_BackupId res = ''0c111111'' \<and>
      last (helper_commands evs) = ''rm -rf /backups/shop/web/0c111111'') (Execute (sample_docker sample_listing) sample_backup)"
proof -
  let ?made = "\<lambda>pre r evs. \<exists>res. r = Finished res \<and> br_Success res \<and> br_BackupId res = ''0c111111'' \<and>
      last (helper_commands (pre @ evs)) = ''rm -rf /backups/shop/web/0c111111''"
  have cmd: "\<not> bc_DeleteOnly sample_backup" "bc_BackupType sample_backup \<noteq> ''database''" "bc_BackupType sample_backup = ''volume''"
    "bc_RetentionCount sample_backup > 0" "bc_BackupId sample_backup = ''0c111111''"
    by (simp_all add: sample_backup_def)
  have made: "yields (?made pre) (complete_backup (sample_docker sample_listing) sample_backup n files)" for pre n files
    unfolding complete_backup_def
  proof (rule yields_bind [OF sample_metadata])
    fix written evs assume "written = Finished ()"
    then show "yields (\<lambda>r evs'. ?made pre r (evs @ evs')) (case written of
        Finished x \<Rightarrow> do {
          (if bc_RetentionCount sample_backup > 0 then enforceRetention (sample_docker sample_listing) sample_backup else State_Monad.return ());
          State_Monad.return (Finished ((no_result sample_backup)\<lparr>br_Success := True, br_SizeBytes := n, br_Files := files @ [''metadata.json'']\<rparr>)) }
      | Crashed \<Rightarrow> State_Monad.return Crashed)"
      using cmd(4) by (simp only: run.case if_True)
        (rule yields_bind [OF sample_retained], rule yields_return, simp add: no_result_def cmd(5))
  qed
  show ?thesis
    unfolding Execute_def if_not_P [OF cmd(1)] if_not_P [OF cmd(2)] if_P [OF cmd(3)]
  proof (rule yields_bind [OF sample_volume], elim exE)
    fix vol :: "(int \<times> string list) result run" and evs n files assume "vol = Finished (Inr (n, files))"
    then show "yields (?made evs) (then_with sample_backup ''volume'' vol (complete_backup (sample_docker sample_listing) sample_backup))"
      using made [of evs] by (simp add: then_with_def)
  qed
qed

text \<open>Witnesses.\<close>

lemma backup_size_always_zero_witness:
  "yields (\<lambda>r evs. \<forall>res. r = Finished res \<longrightarrow> br_SizeBytes res = 0) (Execute (sample_docker sample_listing) sample_backup)"
proof (rule backup_size_always_zero)
  fix h v out assume out: "fst (bd_ContainerLogs (sample_docker sample_listing) h v) = Inr out"
  define fs :: "(nat \<times> string) list" where "fs = (if h = ''ls -1 /backups/shop/web/ 2>/dev/null || true''
     then [(1, ''2026-07-30T12:00:00.000000000Z 0c111111'' @ [CHR 0x0A]), (1, ''2026-07-30T12:00:00.000000000Z 5b000000'' @ [CHR 0x0A])] else [])"
  have "out = encode_frames fs"
    using out unfolding sample_docker_def sample_listing_def fs_def by (cases "h = ''ls -1 /backups/shop/web/ 2>/dev/null || true''") (simp_all add: encode_frames_def)
  moreover have "list_all (\<lambda>f. fst f = 1 \<or> fst f = 2) fs" by (simp add: fs_def)
  ultimately show "\<exists>fs. list_all (\<lambda>f. fst f = 1 \<or> fst f = 2) fs \<and> out = encode_frames fs" by blast
qed

lemma short_identifier_panics_witness:
  "yields (\<lambda>r evs. r = Crashed \<and> evs = []) (Execute (sample_docker sample_listing) (sample_backup\<lparr>bc_BackupId := ''42''\<rparr>))"
  by (rule short_identifier_panics) (simp_all add: sample_backup_def)

end
