(* ===== verification/Container_Commands.thy ===== *)
theory Container_Commands
  imports Docker_Client Expiry_Guards Go_Utf8
begin

text \<open>
  Container commands of the control plane: \<^verbatim>\<open>HandleContainerCommand\<close> and
  \<^verbatim>\<open>removeServiceContainers\<close> of \<^verbatim>\<open>internal/agent/handler.go\<close>, over the Docker manager of
  \<open>Docker_Client\<close> and the guard of \<open>Expiry_Guards\<close>.
\<close>

datatype container_action = STOP | START | RESTART | REMOVE | OtherAction int

definition action_name :: "container_action \<Rightarrow> string" where
  "action_name a = (case a of STOP \<Rightarrow> ''STOP'' | START \<Rightarrow> ''START'' | RESTART \<Rightarrow> ''RESTART'' | REMOVE \<Rightarrow> ''REMOVE''
     | OtherAction n \<Rightarrow> show_int n)"

record ContainerCommand =
  cc_CommandId :: string
  cc_ContainerName :: string
  cc_Action :: container_action
  cc_ServiceSlug :: string
  cc_VolumeNames :: "string list"

record CommandResult =
  cr_CommandId :: string
  cr_Success :: bool
  cr_Output :: string

subsection \<open>Removal of a service\<close>

text \<open>The error of the last container that could not be removed.\<close>

fun remove_containers :: "'w docker_sdk \<Rightarrow> ContainerInfo list \<Rightarrow> go_error option \<Rightarrow> ('w, go_error option) daemon" where
  "remove_containers sdk [] lastErr = State_Monad.return lastErr"
| "remove_containers sdk (c # cs) lastErr = do {
     err \<leftarrow> StopAndRemove sdk (if cn_ContainerID c = [] then cn_Name c else cn_ContainerID c);
     remove_containers sdk cs (if err = None then lastErr else err) }"

definition remove_volumes :: "'w docker_sdk \<Rightarrow> string list \<Rightarrow> ('w, unit) daemon" where
  "remove_volumes sdk = each (\<lambda>volName. if volName = [] then State_Monad.return ()
     else do { _ \<leftarrow> RemoveVolume sdk volName; State_Monad.return () })"

definition prune_project_network :: "'w docker_sdk \<Rightarrow> ContainerInfo list \<Rightarrow> ('w, unit) daemon" where
  "prune_project_network sdk containers =
     (case containers of
        [] \<Rightarrow> State_Monad.return ()
      | c # cs \<Rightarrow>
         (case cn_Labels c ''traefik.docker.network'' of
            None \<Rightarrow> State_Monad.return ()
          | Some netName \<Rightarrow>
              if netName = [] then State_Monad.return ()
              else do {
                nets \<leftarrow> ListClankProjectNetworks sdk;
                (case nets of
                   Inl err \<Rightarrow> State_Monad.return ()
                 | Inr ns \<Rightarrow>
                    (case first_match (\<lambda>n. ni_Name n = netName) ns of
                       None \<Rightarrow> State_Monad.return ()
                     | Some n \<Rightarrow> do { _ \<leftarrow> RemoveNetworkIfEmpty sdk (ni_ID n); State_Monad.return () })) }))"

definition removeServiceContainers :: "'w docker_sdk \<Rightarrow> ContainerCommand \<Rightarrow> ('w, go_error option) daemon" where
  "removeServiceContainers sdk cmd =
     (let slug = cc_ServiceSlug cmd in
      if slug = [] then
        (if cc_ContainerName cmd = [] then State_Monad.return (Some ''REMOVE requires service_slug or container_name'')
         else StopAndRemove sdk (cc_ContainerName cmd))
      else do {
        listed \<leftarrow> ListContainersByLabel sdk ''clank.service_slug'' slug;
        (case listed of
           Inl err \<Rightarrow> State_Monad.return (Some (''listing containers for slug '' @ slug @ '': '' @ err))
         | Inr containers \<Rightarrow> do {
             lastErr \<leftarrow> remove_containers sdk containers None;
             _ \<leftarrow> RemoveImages sdk (slug_prefix slug);
             _ \<leftarrow> remove_volumes sdk (cc_VolumeNames cmd);
             _ \<leftarrow> prune_project_network sdk containers;
             State_Monad.return (case lastErr of
               Some e \<Rightarrow> Some (''some containers failed to remove: '' @ e)
             | None \<Rightarrow> None) }) })"

subsection \<open>The command\<close>

definition run_action :: "'w docker_sdk \<Rightarrow> ContainerCommand \<Rightarrow> ('w, go_error option) daemon" where
  "run_action sdk cmd =
     (case cc_Action cmd of
        STOP \<Rightarrow> StopContainer sdk (cc_ContainerName cmd)
      | START \<Rightarrow> StartContainer sdk (cc_ContainerName cmd)
      | RESTART \<Rightarrow> RestartContainer sdk (cc_ContainerName cmd)
      | REMOVE \<Rightarrow> removeServiceContainers sdk cmd
      | OtherAction n \<Rightarrow> State_Monad.return (Some (''unknown action: '' @ show_int n)))"

definition execute_command :: "'w docker_sdk \<Rightarrow> ContainerCommand \<Rightarrow> ('w, CommandResult) daemon" where
  "execute_command sdk cmd = do {
     execErr \<leftarrow> run_action sdk cmd;
     State_Monad.return \<lparr>cr_CommandId = cc_CommandId cmd, cr_Success = (execErr = None),
       cr_Output = sanitizeUTF8 (case execErr of
         Some e \<Rightarrow> e
       | None \<Rightarrow> ''Container '' @ cc_ContainerName cmd @ '' '' @ action_name (cc_Action cmd) @ '' successful'')\<rparr> }"

text \<open>Whether a REMOVE is to be skipped, and the table of active deploys, from which an expired entry is dropped.\<close>

definition remove_guard :: "int \<Rightarrow> guard_map \<Rightarrow> ContainerCommand \<Rightarrow> bool \<times> guard_map" where
  "remove_guard t active cmd =
     (if cc_Action cmd = REMOVE \<and> cc_ServiceSlug cmd \<noteq> [] then isDeployActive t (cc_ServiceSlug cmd) active else (False, active))"

text \<open>The answer is the message sent back.\<close>

definition HandleContainerCommand :: "'w docker_sdk \<Rightarrow> guard_map \<Rightarrow> ContainerCommand \<Rightarrow> ('w, CommandResult \<times> guard_map) daemon" where
  "HandleContainerCommand sdk active cmd = do {
     _ \<leftarrow> FindContainerByLabel sdk ''clank.managed'' ''true'';
     t \<leftarrow> now;
     (case remove_guard t active cmd of (busy, active) \<Rightarrow>
        if busy then State_Monad.return
          (\<lparr>cr_CommandId = cc_CommandId cmd, cr_Success = True,
            cr_Output = ''Skipped: deploy in progress for '' @ cc_ServiceSlug cmd\<rparr>, active)
        else do {
          res \<leftarrow> execute_command sdk cmd;
          State_Monad.return (res, active) }) }"

subsection \<open>What a removal does\<close>

definition removal_id :: "ContainerInfo \<Rightarrow> string" where
  "removal_id c = (if cn_ContainerID c = [] then cn_Name c else cn_ContainerID c)"

definition network_event :: "daemon_event \<Rightarrow> bool" where
  "network_event e \<longleftrightarrow> e \<in> {Queried ''NetworkList'', Queried ''NetworkInspect''} \<or> (\<exists>n. e = NetworkRemoved n)"

lemma yields_StopAndRemove: "yields (\<lambda>_ evs. evs = [Stopped c, Removed c]) (StopAndRemove sdk c)"
  unfolding StopAndRemove_def by (rule yields_call_then) (rule yields_call, simp)

lemma yields_remove_containers:
  "yields (\<lambda>_ evs. evs = concat (map (\<lambda>c. [Stopped (removal_id c), Removed (removal_id c)]) cs)) (remove_containers sdk cs lastErr)"
proof (induction cs arbitrary: lastErr)
  case (Cons c cs)
  show ?case unfolding remove_containers.simps
    by (rule yields_bind [OF yields_StopAndRemove], rule yields_mono [OF Cons.IH]) (simp add: removal_id_def)
qed (simp add: yields_return)

lemma yields_remove_volumes:
  "yields (\<lambda>_ evs. evs = map VolumeRemoved (filter (\<lambda>v. v \<noteq> []) vols)) (remove_volumes sdk vols)"
  unfolding remove_volumes_def
proof (induction vols)
  case (Cons v vols)
  have "yields (\<lambda>_ evs. evs = (if v = [] then [] else [VolumeRemoved v]))
      (if v = [] then State_Monad.return () else do { _ \<leftarrow> RemoveVolume sdk v; State_Monad.return () })"
    unfolding RemoveVolume_def by (intro yields_rules) simp_all
  then show ?case unfolding each.simps
    by (rule yields_bind) (rule yields_mono [OF Cons.IH], simp)
qed (simp add: yields_return)

lemma emits_prune_project_network: "emits network_event (prune_project_network sdk cs)"
  unfolding prune_project_network_def ListClankProjectNetworks_def RemoveNetworkIfEmpty_def query_def
  by (cases cs) (auto intro!: emits_rules simp: network_event_def split: option.split)

lemma run_query:
  assumes "fst (op (rg_world s)) = x"
  obtains s1 where "run_state (query what op) s = (x, s1)" "rg_trace s1 = rg_trace s @ [Queried what]" "rg_clock s \<le> rg_clock s1"
  using assms by (cases "op (rg_world s)") (auto simp: query_def call_def)

text \<open>
  C24. Removing a service stops and removes every container the daemon lists for its slug, each
  exactly once and whatever happens to the others, then touches only images tagged for the slug,
  removes exactly the volumes named in the command, and after that nothing but networks.
\<close>

theorem remove_command_exact:
  assumes "cc_ServiceSlug cmd = slug" "slug \<noteq> []"
    and "fst (sdk_ContainerList sdk True ''label'' (''clank.service_slug='' @ slug) (rg_world s)) = Inr cs"
    and "run_state (removeServiceContainers sdk cmd) s = (r, s')"
  shows "\<exists>imgs nets. rg_trace s' = rg_trace s @ Queried ''ContainerList'' #
      concat (map (\<lambda>c. [Stopped (removal_id (container_info c)), Removed (removal_id (container_info c))]) cs) @
      imgs @ map VolumeRemoved (filter (\<lambda>v. v \<noteq> []) (cc_VolumeNames cmd)) @ nets \<and>
    list_all (image_event slug) imgs \<and> list_all network_event nets"
proof -
  let ?cs = "map container_info cs"
  let ?rest = "do {
             lastErr \<leftarrow> remove_containers sdk ?cs None;
             _ \<leftarrow> RemoveImages sdk (slug_prefix slug);
             _ \<leftarrow> remove_volumes sdk (cc_VolumeNames cmd);
             _ \<leftarrow> prune_project_network sdk ?cs;
             State_Monad.return (case lastErr of
               Some e \<Rightarrow> Some (''some containers failed to remove: '' @ e)
             | None \<Rightarrow> None) }"
  have key: "''clank.service_slug'' @ ''='' @ slug = ''clank.service_slug='' @ slug" by simp
  obtain s1 where s1: "run_state (query ''ContainerList'' (sdk_ContainerList sdk True ''label'' (''clank.service_slug='' @ slug))) s = (Inr cs, s1)"
    "rg_trace s1 = rg_trace s @ [Queried ''ContainerList'']" by (rule run_query, rule assms(3))
  have "run_state (removeServiceContainers sdk cmd) s = run_state ?rest s1"
    using assms(2) by (simp only: removeServiceContainers_def ListContainersByLabel_def Let_def assms(1) key if_False run_state_bind s1(1)
        prod.case run_state_return sum.case)
  with assms(4) have run: "run_state ?rest s1 = (r, s')" by simp
  have "yields (\<lambda>_ evs. \<exists>imgs nets. evs = concat (map (\<lambda>c. [Stopped (removal_id c), Removed (removal_id c)]) ?cs) @
      imgs @ map VolumeRemoved (filter (\<lambda>v. v \<noteq> []) (cc_VolumeNames cmd)) @ nets \<and>
    list_all (image_event slug) imgs \<and> list_all network_event nets) ?rest"
    by (rule yields_bind [OF yields_remove_containers], rule yields_bind [OF emits_RemoveImages [unfolded emits_def]],
        rule yields_bind [OF yields_remove_volumes], rule yields_bind [OF emits_prune_project_network [unfolded emits_def]],
        rule yields_return) auto
  from yields_run [OF this run] s1(2) show ?thesis by (auto simp: comp_def)
qed

definition remove_web :: ContainerCommand where
  "remove_web = \<lparr>cc_CommandId = ''c1'', cc_ContainerName = ''clank-web'', cc_Action = REMOVE, cc_ServiceSlug = ''web'',
     cc_VolumeNames = [''data'']\<rparr>"

definition web_container :: sdk_container where
  "web_container = \<lparr>sc_ID = ''0123456789ab'', sc_Names = [''/clank-web''], sc_State = ''running'', sc_Image = ''clank-web:1'',
     sc_Labels = [''traefik.docker.network'' \<mapsto> ''clank-project-a'']\<rparr>"

definition sdk_web :: "unit docker_sdk" where
  "sdk_web = sdk0\<lparr>sdk_ContainerList := \<lambda>a k v w. (Inr [web_container], 0, w)\<rparr>"

definition quiet_rig :: "(daemon_event, unit) rig" where
  "quiet_rig = \<lparr>rg_world = (), rg_clock = 0, rg_trace = []\<rparr>"

lemma remove_command_exact_witness:
  "\<exists>imgs nets. rg_trace (snd (run_state (removeServiceContainers sdk_web remove_web) quiet_rig)) =
     Queried ''ContainerList'' # [Stopped ''0123456789ab'', Removed ''0123456789ab''] @ imgs @ [VolumeRemoved ''data''] @ nets \<and>
     list_all (image_event ''web'') imgs \<and> list_all network_event nets"
proof -
  let ?s' = "run_state (removeServiceContainers sdk_web remove_web) quiet_rig"
  have "fst (sdk_ContainerList sdk_web True ''label'' (''clank.service_slug='' @ ''web'') (rg_world quiet_rig)) = Inr [web_container]"
    by (simp add: sdk_web_def)
  from remove_command_exact [where cmd = remove_web and slug = "''web''" and sdk = sdk_web and s = quiet_rig and r = "fst ?s'" and s' = "snd ?s'", OF _ _ this]
  show ?thesis by (simp add: remove_web_def web_container_def container_info_def removal_id_def quiet_rig_def)
qed

subsection \<open>Guarded removal\<close>

lemma run_find:
  obtains x s1 where "run_state (FindContainerByLabel sdk k v) s = (x, s1)" "rg_trace s1 = rg_trace s @ [Queried ''ContainerList'']"
proof -
  have "yields (\<lambda>_ evs. evs = [Queried ''ContainerList'']) (FindContainerByLabel sdk k v)"
    unfolding FindContainerByLabel_def query_def by (intro yields_rules) simp
  moreover obtain x s1 where "run_state (FindContainerByLabel sdk k v) s = (x, s1)" by (rule prod.exhaust)
  ultimately show thesis using that by (auto elim: yieldsD)
qed

lemma yields_execute: "yields (\<lambda>_ _. True) (execute_command sdk cmd)"
proof -
  have slug: "yields (\<lambda>_ _. True) (RemoveImages sdk p)" for p
  proof -
    have "emits (\<lambda>_. True) (remove_images sdk ts)" for ts by (rule emits_mono [OF emits_remove_images]) simp
    then show ?thesis unfolding RemoveImages_def query_def by (intro yields_rules yields_bind) (auto simp: emits_def)
  qed
  have listed: "yields (\<lambda>_ _. True) (ListContainersByLabel sdk k v)" for k v
    unfolding ListContainersByLabel_def query_def by (intro yields_rules) simp
  have "yields (\<lambda>_ _. True) (removeServiceContainers sdk cmd)"
    unfolding removeServiceContainers_def Let_def
    by (intro yields_rules yields_bind [OF slug] yields_bind [OF listed] yields_mono [OF yields_StopAndRemove] yields_bind [OF yields_remove_containers]
        yields_bind [OF yields_remove_volumes] yields_bind [OF emits_prune_project_network [unfolded emits_def]]) simp_all
  then have "yields (\<lambda>_ _. True) (run_action sdk cmd)"
    unfolding run_action_def StopContainer_def StartContainer_def RestartContainer_def
    by (cases "cc_Action cmd") (auto intro: yields_return yields_call)
  then show ?thesis unfolding execute_command_def by (rule yields_bind) (rule yields_return, simp)
qed

text \<open>
  For five minutes after a successful deploy of a service a REMOVE command for it does
  nothing: it asks the daemon for nothing but the (unused) list and is answered as a success.
\<close>

theorem fresh_deploy_not_removed:
  assumes "cc_Action cmd = REMOVE" "cc_ServiceSlug cmd = slug" "slug \<noteq> []"
    and "run_state (HandleContainerCommand sdk (markDeployDone t slug True active) cmd) s = ((res, active'), s')"
    and "rg_clock s' \<le> t + 5 * minute"
  shows "rg_trace s' = rg_trace s @ [Queried ''ContainerList''] \<and> cr_Success res \<and> active' = markDeployDone t slug True active"
proof -
  have slug: "cc_ServiceSlug cmd \<noteq> []" using assms(2, 3) by simp
  let ?active = "markDeployDone t slug True active"
  obtain x s1 where s1: "run_state (FindContainerByLabel sdk ''clank.managed'' ''true'') s = (x, s1)"
      "rg_trace s1 = rg_trace s @ [Queried ''ContainerList'']" by (rule run_find)
  have guard: "remove_guard (rg_clock s1) ?active cmd = isDeployActive (rg_clock s1) slug ?active"
    using assms(1, 2) slug by (simp add: remove_guard_def)
  show ?thesis
  proof (cases "rg_clock s1 \<le> t + 5 * minute")
    case True
    then have "isDeployActive (rg_clock s1) slug ?active = (True, ?active)"
      by (simp add: guard_simps deployGracePeriod_def)
    with assms(4) guard s1(2) show ?thesis
      by (auto simp: HandleContainerCommand_def run_state_bind s1(1) now_def)
  next
    case False
    have "yields (\<lambda>_ _. True) (case g of (busy, active) \<Rightarrow>
        if busy then State_Monad.return
          (\<lparr>cr_CommandId = cc_CommandId cmd, cr_Success = True,
            cr_Output = ''Skipped: deploy in progress for '' @ cc_ServiceSlug cmd\<rparr>, active)
        else do { res \<leftarrow> execute_command sdk cmd; State_Monad.return (res, active) })" for g
      by (intro yields_rules yields_bind [OF yields_execute]) simp_all
    moreover have "run_state (case remove_guard (rg_clock s1) ?active cmd of (busy, active) \<Rightarrow>
        if busy then State_Monad.return
          (\<lparr>cr_CommandId = cc_CommandId cmd, cr_Success = True,
            cr_Output = ''Skipped: deploy in progress for '' @ cc_ServiceSlug cmd\<rparr>, active)
        else do { res \<leftarrow> execute_command sdk cmd; State_Monad.return (res, active) }) s1 = ((res, active'), s')"
      using assms(4) by (simp add: HandleContainerCommand_def run_state_bind s1(1) now_def)
    ultimately have "rg_clock s1 \<le> rg_clock s'" by (rule yieldsD)
    with False assms(5) show ?thesis by simp
  qed
qed

lemma fresh_deploy_not_removed_witness:
  "case run_state (HandleContainerCommand sdk_web (markDeployDone 0 ''web'' True Map.empty) remove_web) quiet_rig of
     ((res, active), s') \<Rightarrow> rg_trace s' = [Queried ''ContainerList''] \<and> cr_Success res"
proof -
  let ?m = "HandleContainerCommand sdk_web (markDeployDone 0 ''web'' True Map.empty) remove_web"
  obtain res active s' where r: "run_state ?m quiet_rig = ((res, active), s')" by (metis surj_pair)
  have "rg_clock (snd (run_state ?m quiet_rig)) = 0" by code_simp
  with r have "rg_clock s' \<le> 0 + 5 * minute" by (simp add: time_units)
  from fresh_deploy_not_removed [where slug = "''web''", OF _ _ _ r this] show ?thesis
    unfolding r by (simp add: remove_web_def quiet_rig_def)
qed

text \<open>
  The lookup of managed containers has no effect: STOP, START and RESTART act on whatever name the
  command carries, whether the agent manages that container or not.
\<close>

theorem stop_acts_on_any_name:
  assumes "cc_Action cmd = STOP"
  shows "yields (\<lambda>r evs. evs = [Queried ''ContainerList'', Stopped (cc_ContainerName cmd)]) (HandleContainerCommand sdk active cmd)"
  unfolding HandleContainerCommand_def FindContainerByLabel_def query_def
proof (rule yields_bind [where R = "\<lambda>_ evs. evs = [Queried ''ContainerList'']"])
  show "yields (\<lambda>_ evs. evs = [Queried ''ContainerList'']) (do {
      r \<leftarrow> call (\<lambda>_. Queried ''ContainerList'') (sdk_ContainerList sdk False ''label'' (''clank.managed'' @ ''='' @ ''true''));
      State_Monad.return (find_first ''listing containers by label: '' r) })"
    by (intro yields_rules) simp
qed (rule yields_bind [OF yields_now [where R = "\<lambda>_ evs. evs = []"]],
  auto simp: assms remove_guard_def execute_command_def run_action_def StopContainer_def run_state_bind
    intro!: yields_rules)

end
