(* ===== verification/Command_Handlers.thy ===== *)
theory Command_Handlers
  imports Host_Containers Retention_Canary Backup_Executor Credentials Container_Commands
begin

text \<open>
  The remaining handlers of \<^verbatim>\<open>internal/agent/handler.go\<close>: pushing an image to a registry,
  Docker maintenance, the platform tunnel and backups.  Each runs the component it stands for and
  reports over the stream; what the component does shows up in the trace as its own events.  A report
  that cannot be sent is queued for the next connection (\<open>Control_Stream\<close>) where the code queues it.
\<close>

record PushImageCommand =
  pq_DeploymentId :: string
  pq_SourceImage :: string
  pq_TargetImage :: string
  pq_RegistryAuth :: string

datatype maintenance_action = PREVIEW_DOCKER_CLEANUP | APPLY_DOCKER_CLEANUP | CREATE_RETENTION_CANARY | UnknownMaintenance string

record MaintenanceCommand =
  mq_CommandId :: string
  mq_Action :: maintenance_action
  mq_ProtectedImageRefs :: "string list"
  mq_RetentionCanaryId :: string
  mq_RetentionCanaryImageRef :: string

record TunnelConfig =
  tc_TunnelToken :: string
  tc_TunnelId :: string

datatype reply = PushReply PushImageResult | CommandReply CommandResult | BackupReply BackupResult

datatype command_event =
    ImageWork image_event | CanaryWork canary_event | HostWork host_event | BackupWork backup_event
  | DiskUsed | ConfigSaved Config "go_error option" | Replied reply "go_error option" | Queued reply

record 'w command_env =
  ch_images :: "'w image_env"
  ch_canary :: "'w canary_env"
  ch_host :: "'w host_env"
  ch_backup :: "'w backup_docker"
  ch_log :: "'w logger"
  ch_DiskUsage :: "(docker_df result, 'w) op"
  ch_json_summary :: "CleanupSummary \<Rightarrow> string result"
  ch_json_canary :: "RetentionCanaryImage \<Rightarrow> string result"
  ch_SaveConfig :: "Config \<Rightarrow> (go_error option, 'w) op"
  ch_Send :: "reply \<Rightarrow> (go_error option, 'w) op"
  ch_queuePendingResult :: "reply \<Rightarrow> (unit, 'w) op"

type_synonym ('w, 'a) commanding = "(command_event, 'w, 'a) rigged"

definition send_result :: "'w command_env \<Rightarrow> reply \<Rightarrow> ('w, unit) commanding" where
  "send_result env msg = do {
     err \<leftarrow> call (Replied msg) (ch_Send env msg);
     (case err of None \<Rightarrow> State_Monad.return () | Some e \<Rightarrow> call (\<lambda>_. Queued msg) (ch_queuePendingResult env msg)) }"

subsection \<open>Pushing an image\<close>

definition push_auth :: "'w command_env \<Rightarrow> Config \<Rightarrow> PushImageCommand \<Rightarrow> RegistryAuth option" where
  "push_auth env cfg cmd =
     (let auth = (if pq_RegistryAuth cmd \<noteq> [] then DecodeRegistryAuth (ie_json_Unmarshal (ch_images env)) (pq_RegistryAuth cmd) else None) in
      if auth = None \<and> cf_RegistryUsername cfg \<noteq> []
      then Some \<lparr>ra_Username = cf_RegistryUsername cfg, ra_Password = cf_RegistryPassword cfg\<rparr>
      else auth)"

definition push_result :: "PushImageCommand \<Rightarrow> bool \<Rightarrow> string \<Rightarrow> string \<Rightarrow> reply" where
  "push_result cmd success errMsg digest = PushReply
     \<lparr>px_DeploymentId = pq_DeploymentId cmd, px_Success = success, px_ErrorMessage = sanitizeUTF8 errMsg, px_ImageDigest = digest\<rparr>"

definition HandlePushImage :: "'w command_env \<Rightarrow> Config \<Rightarrow> PushImageCommand \<Rightarrow> ('w, unit) commanding" where
  "HandlePushImage env cfg cmd = do {
     tagged \<leftarrow> embed ImageWork (TagImage (ch_images env) (pq_SourceImage cmd) (pq_TargetImage cmd));
     (case tagged of
        Some err \<Rightarrow> send_result env (push_result cmd False (''tag failed: '' @ err) [])
      | None \<Rightarrow> do {
          pushed \<leftarrow> embed ImageWork (PushImage (ch_images env) (pq_TargetImage cmd) (push_auth env cfg cmd) (ch_log env));
          (case pushed of
             Some err \<Rightarrow> send_result env (push_result cmd False (''push failed: '' @ err) [])
           | None \<Rightarrow> do {
               digest \<leftarrow> embed ImageWork (GetImageDigest (ch_images env) (pq_TargetImage cmd));
               send_result env (push_result cmd True [] (case digest of Inl err \<Rightarrow> [] | Inr d \<Rightarrow> d)) }) }) }"

subsection \<open>Maintenance\<close>

text \<open>The outcome of an action before it is marshalled: an error, or the function's result as JSON.\<close>

definition maintain :: "'w command_env \<Rightarrow> MaintenanceCommand \<Rightarrow> ('w, string result result) commanding" where
  "maintain env cmd = (case mq_Action cmd of
     PREVIEW_DOCKER_CLEANUP \<Rightarrow> do {
       du \<leftarrow> call (\<lambda>_. DiskUsed) (ch_DiskUsage env);
       State_Monad.return (case PreviewCleanup du (mq_ProtectedImageRefs cmd) of
         Inl err \<Rightarrow> Inl err | Inr summary \<Rightarrow> Inr (ch_json_summary env summary)) }
   | APPLY_DOCKER_CLEANUP \<Rightarrow>
       State_Monad.return (case ApplyCleanup (mq_ProtectedImageRefs cmd) of
         Inl err \<Rightarrow> Inl err | Inr summary \<Rightarrow> Inr (ch_json_summary env summary))
   | CREATE_RETENTION_CANARY \<Rightarrow> do {
       r \<leftarrow> embed CanaryWork (CreateRetentionCanary (ch_canary env) (mq_RetentionCanaryId cmd) (mq_RetentionCanaryImageRef cmd));
       State_Monad.return (case r of Inl err \<Rightarrow> Inl err | Inr img \<Rightarrow> Inr (ch_json_canary env img)) }
   | UnknownMaintenance name \<Rightarrow> State_Monad.return (Inl (''unknown maintenance action: '' @ name)))"

definition maintenance_result :: "MaintenanceCommand \<Rightarrow> string result result \<Rightarrow> CommandResult" where
  "maintenance_result cmd r =
     (case (case r of
          Inl err \<Rightarrow> (False, err)
        | Inr (Inl err) \<Rightarrow> (False, ''marshal maintenance result: '' @ err)
        | Inr (Inr payload) \<Rightarrow> (True, payload)) of
        (success, output) \<Rightarrow> \<lparr>cr_CommandId = mq_CommandId cmd, cr_Success = success, cr_Output = sanitizeUTF8 output\<rparr>)"

definition HandleMaintenance :: "'w command_env \<Rightarrow> MaintenanceCommand \<Rightarrow> ('w, unit) commanding" where
  "HandleMaintenance env cmd = do {
     r \<leftarrow> maintain env cmd;
     _ \<leftarrow> call (Replied (CommandReply (maintenance_result cmd r))) (ch_Send env (CommandReply (maintenance_result cmd r)));
     State_Monad.return () }"

subsection \<open>The platform tunnel\<close>

text \<open>The configuration in memory is an argument and returned; the tunnel's outcome is only logged.\<close>

definition HandleTunnelConfig :: "'w command_env \<Rightarrow> Config \<Rightarrow> TunnelConfig \<Rightarrow> ('w, Config \<times> host_outcome) commanding" where
  "HandleTunnelConfig env cfg tun = do {
     cfg' \<leftarrow> (let updated = cfg\<lparr>cf_TunnelToken := tc_TunnelToken tun, cf_TunnelID := tc_TunnelId tun\<rparr> in do {
        err \<leftarrow> call (ConfigSaved updated) (ch_SaveConfig env updated);
        State_Monad.return (case err of
          None \<Rightarrow> cfg\<lparr>cf_TunnelToken := tc_TunnelToken tun, cf_TunnelID := tc_TunnelId tun\<rparr>
        | Some e \<Rightarrow> cfg) });
     r \<leftarrow> embed HostWork (EnsureCloudflared (ch_host env) (tc_TunnelToken tun));
     State_Monad.return (cfg', r) }"

subsection \<open>Backups\<close>

definition sanitized_backup :: "BackupResult \<Rightarrow> BackupResult" where
  "sanitized_backup res = (if br_ErrorMessage res \<noteq> [] then res\<lparr>br_ErrorMessage := sanitizeUTF8 (br_ErrorMessage res)\<rparr> else res)"

definition HandleBackup :: "'w command_env \<Rightarrow> BackupCommand \<Rightarrow> ('w, unit run) commanding" where
  "HandleBackup env cmd = do {
     r \<leftarrow> embed BackupWork (Execute (ch_backup env) cmd);
     (case r of
        Crashed \<Rightarrow> State_Monad.return Crashed
      | Finished res \<Rightarrow> do {
          _ \<leftarrow> send_result env (BackupReply (sanitized_backup res));
          State_Monad.return (Finished ()) }) }"

subsection \<open>Reports\<close>

fun is_work :: "command_event \<Rightarrow> bool" where
  "is_work (Replied m e) \<longleftrightarrow> False"
| "is_work (Queued m) \<longleftrightarrow> False"
| "is_work e \<longleftrightarrow> True"

text \<open>The one report of a handler: sent, and queued exactly when sending failed.\<close>

definition reported_once :: "reply \<Rightarrow> command_event list \<Rightarrow> bool" where
  "reported_once m evs \<longleftrightarrow> (\<exists>e. filter (\<lambda>x. \<not> is_work x) evs = Replied m e # (if e = None then [] else [Queued m]))"

lemma yields_send: "yields (\<lambda>u evs. reported_once m evs \<and> filter is_work evs = []) (send_result env m)"
  unfolding send_result_def by (intro yields_call_then yields_option yields_return yields_call) (auto simp: reported_once_def)

lemma work_filter: "list_all is_work evs \<Longrightarrow> filter (\<lambda>x. \<not> is_work x) evs = [] \<and> filter is_work evs = evs"
  by (induction evs) auto

lemma reported_after: "list_all is_work evs \<Longrightarrow> reported_once m (evs @ evs') = reported_once m evs'"
  by (simp add: reported_once_def work_filter)

lemma work_map: "list_all is_work (map ImageWork es)" "list_all is_work (map CanaryWork cs)"
    "list_all is_work (map HostWork hs)" "list_all is_work (map BackupWork bs)"
  by (simp_all add: list_all_iff)

definition pushed_ok :: "string \<Rightarrow> command_event list \<Rightarrow> bool" where
  "pushed_ok tgt evs \<longleftrightarrow> (\<exists>h ans. ImageWork (Pushing tgt h ans) \<in> set evs \<and> accepted tm_Error ans)"

definition push_reported :: "PushImageCommand \<Rightarrow> command_event list \<Rightarrow> bool" where
  "push_reported cmd evs \<longleftrightarrow> (\<exists>res. reported_once (PushReply res) evs \<and> px_DeploymentId res = pq_DeploymentId cmd \<and>
     (px_Success res \<longleftrightarrow> ImageWork (Tagged (pq_SourceImage cmd) (pq_TargetImage cmd) None) \<in> set evs \<and>
        pushed_ok (pq_TargetImage cmd) evs))"

lemma work_tag: "yields (\<lambda>r evs. evs = [ImageWork (Tagged s t r)]) (embed ImageWork (TagImage env s t))"
  unfolding TagImage_def by (rule yields_embed [OF yields_call [where R = "\<lambda>r evs. evs = [Tagged s t r]"]]) simp_all

lemma work_push: "yields (\<lambda>r evs. list_all is_work evs \<and> (r = None \<longleftrightarrow> pushed_ok t evs)) (embed ImageWork (PushImage env t auth lg))"
proof (rule yields_embed [OF yields_push])
  fix r evs
  assume "\<exists>ans. filter asks evs = [Pushing t (encodeRegistryAuth (ie_json_Marshal env) auth) ans] \<and> (r = None \<longleftrightarrow> accepted tm_Error ans)"
  then obtain ans where only: "filter asks evs = [Pushing t (encodeRegistryAuth (ie_json_Marshal env) auth) ans]"
    and r: "r = None \<longleftrightarrow> accepted tm_Error ans" by blast
  have "Pushing t h a \<in> set evs \<longleftrightarrow> h = encodeRegistryAuth (ie_json_Marshal env) auth \<and> a = ans" for h a
  proof -
    have "Pushing t h a \<in> set evs \<longleftrightarrow> Pushing t h a \<in> set (filter asks evs)" by simp
    then show ?thesis unfolding only by simp
  qed
  with r show "list_all is_work (map ImageWork evs) \<and> (r = None \<longleftrightarrow> pushed_ok t (map ImageWork evs))"
    by (auto simp: work_map pushed_ok_def image_iff)
qed

lemma work_digest: "yields (\<lambda>r evs. list_all is_work evs \<and> \<not> pushed_ok t evs) (embed ImageWork (GetImageDigest env ref))"
  unfolding GetImageDigest_def
  by (rule yields_embed [where R = "\<lambda>r evs. \<exists>x. evs = [Inspected ref x]"], intro yields_call_then yields_return)
    (auto simp: pushed_ok_def)

lemma pushed_append: "pushed_ok t (evs @ evs') \<longleftrightarrow> pushed_ok t evs \<or> pushed_ok t evs'"
    "pushed_ok t (ImageWork (Tagged s u e) # evs) \<longleftrightarrow> pushed_ok t evs" "\<not> pushed_ok t []"
  by (auto simp: pushed_ok_def)

lemma replies_no_push: "filter is_work evs = [] \<Longrightarrow> \<not> pushed_ok t evs \<and> ImageWork x \<notin> set evs"
  by (auto simp: pushed_ok_def filter_empty_conv)

text \<open>
  C32. A push command is answered by exactly one result for its deployment, queued when it cannot be
  sent; it reports success exactly when the image was tagged and the registry took the push, with no
  error in any message of its stream.
\<close>

theorem push_command_exact: "yields (\<lambda>u evs. push_reported cmd evs) (HandlePushImage env cfg cmd)"
proof -
  let ?tag = "ImageWork (Tagged (pq_SourceImage cmd) (pq_TargetImage cmd) None)"
  have report: "yields (\<lambda>u evs'. push_reported cmd (evs @ evs')) (send_result env (push_result cmd ok err d))"
    if "list_all is_work evs" "ok \<longleftrightarrow> ?tag \<in> set evs \<and> pushed_ok (pq_TargetImage cmd) evs" for evs ok err d
    by (rule yields_mono [OF yields_send])
      (use that in \<open>auto simp: push_reported_def push_result_def reported_after pushed_append dest: replies_no_push\<close>)
  have digest: "yields (\<lambda>u evs'. push_reported cmd (evs @ evs')) (do {
      digest \<leftarrow> embed ImageWork (GetImageDigest (ch_images env) (pq_TargetImage cmd));
      send_result env (push_result cmd True [] (case digest of Inl err \<Rightarrow> [] | Inr d \<Rightarrow> d)) })"
    if "list_all is_work evs" "?tag \<in> set evs" "pushed_ok (pq_TargetImage cmd) evs" for evs
  proof (rule yields_bind [OF work_digest [where t = "pq_TargetImage cmd"]])
    fix d evs' assume d: "list_all is_work evs' \<and> \<not> pushed_ok (pq_TargetImage cmd) evs'"
    show "yields (\<lambda>u evs''. push_reported cmd (evs @ evs' @ evs''))
        (send_result env (push_result cmd True [] (case d of Inl err \<Rightarrow> [] | Inr d \<Rightarrow> d)))"
      using report [of "evs @ evs'" True] that d by (simp add: pushed_append)
  qed
  have pushing: "yields (\<lambda>u evs'. push_reported cmd ([?tag] @ evs')) (do {
      pushed \<leftarrow> embed ImageWork (PushImage (ch_images env) (pq_TargetImage cmd) (push_auth env cfg cmd) (ch_log env));
      (case pushed of
         Some err \<Rightarrow> send_result env (push_result cmd False (''push failed: '' @ err) [])
       | None \<Rightarrow> do {
           digest \<leftarrow> embed ImageWork (GetImageDigest (ch_images env) (pq_TargetImage cmd));
           send_result env (push_result cmd True [] (case digest of Inl err \<Rightarrow> [] | Inr d \<Rightarrow> d)) }) })"
  proof (rule yields_bind [OF work_push], rule yields_option)
    fix pushed :: "go_error option" and evs assume p: "list_all is_work evs \<and> (pushed = None \<longleftrightarrow> pushed_ok (pq_TargetImage cmd) evs)"
    show "yields (\<lambda>u evs'. push_reported cmd ([?tag] @ evs @ evs')) (do {
        digest \<leftarrow> embed ImageWork (GetImageDigest (ch_images env) (pq_TargetImage cmd));
        send_result env (push_result cmd True [] (case digest of Inl err \<Rightarrow> [] | Inr d \<Rightarrow> d)) })" if "pushed = None"
      using digest [of "[?tag] @ evs"] p that by (simp add: pushed_append)
    show "yields (\<lambda>u evs'. push_reported cmd ([?tag] @ evs @ evs'))
        (send_result env (push_result cmd False (''push failed: '' @ err) []))" if "pushed = Some err" for err
      using report [of "[?tag] @ evs" False] p that pushed_append by simp
  qed
  show ?thesis unfolding HandlePushImage_def
  proof (rule yields_bind [OF work_tag], rule yields_option)
    fix tagged :: "go_error option" and evs
    assume t: "evs = [ImageWork (Tagged (pq_SourceImage cmd) (pq_TargetImage cmd) tagged)]"
    show "yields (\<lambda>u evs'. push_reported cmd (evs @ evs')) (do {
        pushed \<leftarrow> embed ImageWork (PushImage (ch_images env) (pq_TargetImage cmd) (push_auth env cfg cmd) (ch_log env));
        (case pushed of
           Some err \<Rightarrow> send_result env (push_result cmd False (''push failed: '' @ err) [])
         | None \<Rightarrow> do {
             digest \<leftarrow> embed ImageWork (GetImageDigest (ch_images env) (pq_TargetImage cmd));
             send_result env (push_result cmd True [] (case digest of Inl err \<Rightarrow> [] | Inr d \<Rightarrow> d)) }) })" if "tagged = None"
      unfolding t that by (rule pushing)
    show "yields (\<lambda>u evs'. push_reported cmd (evs @ evs'))
        (send_result env (push_result cmd False (''tag failed: '' @ err) []))" if "tagged = Some err" for err
      by (rule report) (simp_all add: t that)
  qed
qed

subsection \<open>Credentials of a push\<close>

definition configured_auth :: "Config \<Rightarrow> RegistryAuth" where
  "configured_auth cfg = \<lparr>ra_Username = cf_RegistryUsername cfg, ra_Password = cf_RegistryPassword cfg\<rparr>"

text \<open>
  A push without credentials of its own, or with credentials that do not decode, sends the registry
  password of the agent's configuration to whatever registry the command names as the target; a deploy
  sends it only for images of the configured registry.
\<close>

theorem push_sends_configured_credentials:
  assumes "DecodeRegistryAuth (ie_json_Unmarshal (ch_images env)) (pq_RegistryAuth cmd) = None"
    and "cf_RegistryUsername cfg \<noteq> []"
  shows "yields (\<lambda>u evs. list_all (\<lambda>e. case e of
        ImageWork (Pushing t h ans) \<Rightarrow> t = pq_TargetImage cmd \<and>
          h = encodeRegistryAuth (ie_json_Marshal (ch_images env)) (Some (configured_auth cfg))
      | _ \<Rightarrow> True) evs) (HandlePushImage env cfg cmd)"
proof -
  let ?ok = "\<lambda>e. case e of ImageWork (Pushing t h ans) \<Rightarrow> t = pq_TargetImage cmd \<and>
      h = encodeRegistryAuth (ie_json_Marshal (ch_images env)) (Some (configured_auth cfg)) | _ \<Rightarrow> True"
  have auth: "push_auth env cfg cmd = Some (configured_auth cfg)"
    using assms by (simp add: push_auth_def configured_auth_def Let_def)
  have "emits ?ok (send_result env m)" for m
    unfolding send_result_def by (intro emits_rules) simp_all
  moreover have "emits ?ok (embed ImageWork (TagImage (ch_images env) s t))" for s t
    unfolding TagImage_def by (rule emits_embed [where P = "\<lambda>e. case e of Tagged s u r \<Rightarrow> True | _ \<Rightarrow> False"], rule emits_call)
      (auto split: image_event.splits)
  moreover have "emits ?ok (embed ImageWork (GetImageDigest (ch_images env) r))" for r
    unfolding GetImageDigest_def by (rule emits_embed [where P = "\<lambda>e. case e of Inspected s r \<Rightarrow> True | _ \<Rightarrow> False"], intro emits_rules)
      (auto split: image_event.splits)
  moreover have "emits ?ok (embed ImageWork (PushImage (ch_images env) (pq_TargetImage cmd) (push_auth env cfg cmd) (ch_log env)))"
    unfolding PushImage_def Let_def auth
    by (rule emits_embed [where P = "\<lambda>e. case e of Logged l \<Rightarrow> True
        | Pushing t h ans \<Rightarrow> t = pq_TargetImage cmd \<and> h = encodeRegistryAuth (ie_json_Marshal (ch_images env)) (Some (configured_auth cfg))
        | _ \<Rightarrow> False"], intro emits_rules) (auto split: image_event.splits)
  ultimately show ?thesis
    unfolding HandlePushImage_def emits_def [symmetric] by (intro emits_bind emits_option)
qed

definition sample_commands :: "unit command_env" where
  "sample_commands = \<lparr>ch_images = offline_images,
     ch_canary = \<lparr>cv_tar = \<lambda>n m t. Inr t, cv_ImageBuild = \<lambda>rq w. (Inr [], 0, w), cv_ImageInspect = \<lambda>r w. (Inl ''none'', 0, w)\<rparr>,
     ch_host = offline_host, ch_backup = sample_docker (\<lambda>h. []), ch_log = \<lambda>line w. ((), 0, w), ch_DiskUsage = \<lambda>w. (Inr sample_df, 0, w),
     ch_json_summary = \<lambda>s. Inr ''{}'', ch_json_canary = \<lambda>i. Inr ''{}'', ch_SaveConfig = \<lambda>c w. (None, 0, w),
     ch_Send = \<lambda>m w. (None, 0, w), ch_queuePendingResult = \<lambda>m w. ((), 0, w)\<rparr>"

definition sample_push :: PushImageCommand where
  "sample_push = \<lparr>pq_DeploymentId = ''d1'', pq_SourceImage = ''clank-web:latest'', pq_TargetImage = ''registry.example/web:1'',
     pq_RegistryAuth = []\<rparr>"

theorem push_sends_configured_credentials_witness:
  "\<forall>cfg. yields (\<lambda>u evs. list_all (\<lambda>e. case e of
        ImageWork (Pushing t h ans) \<Rightarrow> t = ''registry.example/web:1'' \<and>
          h = encodeRegistryAuth sample_marshal (Some \<lparr>ra_Username = ''ci'', ra_Password = ''secret''\<rparr>)
      | _ \<Rightarrow> True) evs)
    (HandlePushImage sample_commands (cfg\<lparr>cf_RegistryUsername := ''ci'', cf_RegistryPassword := ''secret''\<rparr>) sample_push)"
proof
  fix cfg :: Config
  have "DecodeRegistryAuth (ie_json_Unmarshal (ch_images sample_commands)) (pq_RegistryAuth sample_push) = None"
    by (simp add: DecodeRegistryAuth_def sample_push_def)
  moreover have "ie_json_Marshal (ch_images sample_commands) = sample_marshal"
    by (simp add: sample_commands_def offline_images_def)
  moreover have "pq_TargetImage sample_push = ''registry.example/web:1''" by (simp only: sample_push_def PushImageCommand.select_convs)
  ultimately show "yields (\<lambda>u evs. list_all (\<lambda>e. case e of
        ImageWork (Pushing t h ans) \<Rightarrow> t = ''registry.example/web:1'' \<and>
          h = encodeRegistryAuth sample_marshal (Some \<lparr>ra_Username = ''ci'', ra_Password = ''secret''\<rparr>)
      | _ \<Rightarrow> True) evs)
    (HandlePushImage sample_commands (cfg\<lparr>cf_RegistryUsername := ''ci'', cf_RegistryPassword := ''secret''\<rparr>) sample_push)"
    using push_sends_configured_credentials [of sample_commands sample_push "cfg\<lparr>cf_RegistryUsername := ''ci'', cf_RegistryPassword := ''secret''\<rparr>"]
    by (simp add: configured_auth_def)
qed

subsection \<open>Maintenance\<close>

text \<open>What a maintenance command may do besides its report.\<close>

definition maintenance_work :: "maintenance_action \<Rightarrow> command_event \<Rightarrow> bool" where
  "maintenance_work a e \<longleftrightarrow> (case a of
     PREVIEW_DOCKER_CLEANUP \<Rightarrow> e = DiskUsed
   | CREATE_RETENTION_CANARY \<Rightarrow> \<exists>c. e = CanaryWork c
   | _ \<Rightarrow> False)"

definition maintained :: "MaintenanceCommand \<Rightarrow> command_event list \<Rightarrow> bool" where
  "maintained cmd evs \<longleftrightarrow> (\<exists>res e work. evs = work @ [Replied (CommandReply res) e] \<and>
     list_all (maintenance_work (mq_Action cmd)) work \<and> cr_CommandId res = mq_CommandId cmd \<and> ValidString (cr_Output res) \<and>
     (case mq_Action cmd of
        APPLY_DOCKER_CLEANUP \<Rightarrow> \<not> cr_Success res
      | UnknownMaintenance name \<Rightarrow> \<not> cr_Success res
      | CREATE_RETENTION_CANARY \<Rightarrow> cr_Success res \<le>
          (\<exists>ref i. CanaryWork (CanaryInspected ref (Inr i)) \<in> set work \<and> is_canary (mq_RetentionCanaryId cmd) i)
      | PREVIEW_DOCKER_CLEANUP \<Rightarrow> True))"

lemma canary_work: "yields (\<lambda>r evs. list_all (maintenance_work CREATE_RETENTION_CANARY) evs \<and>
    (\<forall>img. r = Inr img \<longrightarrow> (\<exists>ref i. CanaryWork (CanaryInspected ref (Inr i)) \<in> set evs \<and> is_canary c i)))
    (embed CanaryWork (CreateRetentionCanary env c ref))"
proof (rule yields_embed [OF yields_canary])
  fix r evs assume made: "canary_made c ref r evs"
  then have "\<exists>ref i. CanaryInspected ref (Inr i) \<in> set evs \<and> is_canary c i" if "r = Inr img" for img
    using made canary_found that by blast
  then show "list_all (maintenance_work CREATE_RETENTION_CANARY) (map CanaryWork evs) \<and>
      (\<forall>img. r = Inr img \<longrightarrow> (\<exists>ref i. CanaryWork (CanaryInspected ref (Inr i)) \<in> set (map CanaryWork evs) \<and> is_canary c i))"
    by (auto simp: list_all_iff maintenance_work_def image_iff)
qed

lemma maintenance_failed: "\<not> cr_Success (maintenance_result cmd (Inl err))"
    "cr_CommandId (maintenance_result cmd r) = mq_CommandId cmd" "ValidString (cr_Output (maintenance_result cmd r))"
  by (auto simp: maintenance_result_def sanitizeUTF8_valid split: prod.split)

definition maintain_ok :: "MaintenanceCommand \<Rightarrow> string result result \<Rightarrow> command_event list \<Rightarrow> bool" where
  "maintain_ok cmd r work \<longleftrightarrow> list_all (maintenance_work (mq_Action cmd)) work \<and> (case mq_Action cmd of
     APPLY_DOCKER_CLEANUP \<Rightarrow> \<exists>err. r = Inl err
   | UnknownMaintenance name \<Rightarrow> \<exists>err. r = Inl err
   | CREATE_RETENTION_CANARY \<Rightarrow> (\<exists>err. r = Inl err) \<or>
       (\<exists>ref i. CanaryWork (CanaryInspected ref (Inr i)) \<in> set work \<and> is_canary (mq_RetentionCanaryId cmd) i)
   | PREVIEW_DOCKER_CLEANUP \<Rightarrow> True)"

lemma maintain_yields: "yields (maintain_ok cmd) (maintain env cmd)"
proof (cases "mq_Action cmd")
  case PREVIEW_DOCKER_CLEANUP
  then show ?thesis unfolding maintain_def PREVIEW_DOCKER_CLEANUP maintenance_action.case
    by (intro yields_call_then yields_return) (simp add: maintain_ok_def maintenance_work_def PREVIEW_DOCKER_CLEANUP)
next
  case CREATE_RETENTION_CANARY
  show ?thesis unfolding maintain_def CREATE_RETENTION_CANARY maintenance_action.case
    by (rule yields_bind [OF canary_work], rule yields_return)
      (auto simp: maintain_ok_def CREATE_RETENTION_CANARY split: sum.split)
qed (simp_all add: maintain_def maintain_ok_def ApplyCleanup_def yields_return)

text \<open>
  C35. A maintenance command is answered by exactly one result for it, which always marshals.  Clean-up
  only measures the disk: applying it and unknown actions fail without touching the daemon, and a canary
  is reported as created only when the image that was found carries its identity.
\<close>

theorem maintenance_command_exact: "yields (\<lambda>u evs. maintained cmd evs) (HandleMaintenance env cmd)"
  unfolding HandleMaintenance_def
proof (rule yields_bind [OF maintain_yields], intro yields_call_then yields_return)
  fix r work e assume ok: "maintain_ok cmd r work"
  let ?res = "maintenance_result cmd r"
  have "maintained cmd (work @ [Replied (CommandReply ?res) e])"
    unfolding maintained_def
    by (rule exI [of _ ?res], rule exI [of _ e], rule exI [of _ work])
      (use ok in \<open>auto simp: maintain_ok_def maintenance_failed split: maintenance_action.splits\<close>)
  then show "maintained cmd (work @ Replied (CommandReply ?res) e # [])" by simp
qed

subsection \<open>Tunnel and backups\<close>

definition tunnel_configured :: "Config \<Rightarrow> TunnelConfig \<Rightarrow> Config \<times> host_outcome \<Rightarrow> command_event list \<Rightarrow> bool" where
  "tunnel_configured cfg tun r evs \<longleftrightarrow>
     (let updated = cfg\<lparr>cf_TunnelToken := tc_TunnelToken tun, cf_TunnelID := tc_TunnelId tun\<rparr> in
      \<exists>err hosts. evs = ConfigSaved updated err # map HostWork hosts \<and> fst r = (if err = None then updated else cfg) \<and>
        settled (platform_request (tc_TunnelToken tun)) (snd r) hosts)"

text \<open>
  A tunnel configuration changes the configuration in memory exactly when it was saved, in nothing
  but the two tunnel fields; the tunnel container is set up with the new token in either case, by the
  contract of the set-ups.
\<close>

theorem tunnel_config_exact: "yields (tunnel_configured cfg tun) (HandleTunnelConfig env cfg tun)"
proof -
  have start: "yields (\<lambda>r evs. \<exists>hosts. evs = map HostWork hosts \<and> settled (platform_request (tc_TunnelToken tun)) r hosts)
      (embed HostWork (EnsureCloudflared (ch_host env) (tc_TunnelToken tun)))"
    by (rule yields_embed [OF cloudflared.settles]) auto
  let ?updated = "cfg\<lparr>cf_TunnelToken := tc_TunnelToken tun, cf_TunnelID := tc_TunnelId tun\<rparr>"
  have save: "yields (\<lambda>c evs. \<exists>err. evs = [ConfigSaved ?updated err] \<and> c = (if err = None then ?updated else cfg)) (do {
      err \<leftarrow> call (ConfigSaved ?updated) (ch_SaveConfig env ?updated);
      State_Monad.return (case err of None \<Rightarrow> ?updated | Some e \<Rightarrow> cfg) })"
    by (intro yields_call_then yields_return) (auto split: option.split)
  show ?thesis unfolding HandleTunnelConfig_def Let_def
    by (intro yields_bind [OF save] yields_bind [OF start] yields_return)
      (elim exE conjE, unfold tunnel_configured_def Let_def, intro exI conjI, simp_all only: append_Nil append_Cons append_Nil2 fst_conv snd_conv)
qed

definition backup_reported :: "BackupCommand \<Rightarrow> unit run \<Rightarrow> command_event list \<Rightarrow> bool" where
  "backup_reported cmd r evs \<longleftrightarrow> (\<exists>work rest. evs = map BackupWork work @ rest \<and> (case r of
     Crashed \<Rightarrow> rest = []
   | Finished u \<Rightarrow> \<exists>res. result_ok cmd (Finished res) work \<and> filter is_work rest = [] \<and>
       reported_once (BackupReply (sanitized_backup res)) rest))"

text \<open>
  A backup that does not panic is answered by exactly one result, the executor's with its error text
  sanitised, queued when it cannot be sent; a panic is never answered.
\<close>

theorem backup_command_exact: "yields (backup_reported cmd) (HandleBackup env cmd)"
proof -
  have work: "yields (\<lambda>r evs. \<exists>es. evs = map BackupWork es \<and> result_ok cmd r es) (embed BackupWork (Execute (ch_backup env) cmd))"
    by (rule yields_embed [OF execute_result]) auto
  show ?thesis unfolding HandleBackup_def
  proof (rule yields_bind [OF work])
    fix r evs assume "\<exists>es. evs = map BackupWork es \<and> result_ok cmd r es"
    then obtain es where es: "evs = map BackupWork es" "result_ok cmd r es" by blast
    have reply: "yields (\<lambda>r evs'. backup_reported cmd r (evs @ evs')) (do {
        _ \<leftarrow> send_result env (BackupReply (sanitized_backup res));
        State_Monad.return (Finished ()) })" if "r = Finished res" for res
    proof (rule yields_bind [OF yields_send], rule yields_return)
      fix u rest assume "reported_once (BackupReply (sanitized_backup res)) rest \<and> filter is_work rest = []"
      with es that show "backup_reported cmd (Finished ()) (evs @ rest @ [])"
        unfolding backup_reported_def run.case by (intro exI [of _ es] exI [of _ rest]) auto
    qed
    have "backup_reported cmd Crashed (evs @ [])"
      unfolding backup_reported_def run.case es(1) by (intro exI [of _ es] exI [of _ "[]"]) simp
    with reply show "yields (\<lambda>r evs'. backup_reported cmd r (evs @ evs')) (case r of
        Crashed \<Rightarrow> State_Monad.return Crashed
      | Finished res \<Rightarrow> do {
          _ \<leftarrow> send_result env (BackupReply (sanitized_backup res));
          State_Monad.return (Finished ()) })"
      by (cases r) (simp_all add: yields_return)
  qed
qed

end
