(* ===== verification/Endpoint_Providers.thy ===== *)
theory Endpoint_Providers
  imports Effects Go_Utf8 Expiry_Guards
begin

text \<open>
  Endpoint commands: the five providers of \<^verbatim>\<open>internal/endpoint\<close>, their manager, and
  \<^verbatim>\<open>HandleEndpoint\<close> of \<^verbatim>\<open>internal/agent/handler.go\<close>.  HTTP probes, name lookup, the
  \<^verbatim>\<open>tailscale\<close> command and the containers of cloudflared are operations of \<open>endpoint_env\<close>.
  What the manager's callers rely on, whichever provider answers, is the locale \<open>provider\<close>; all five
  are interpretations of it.
\<close>

record ProviderConfig =
  pc_EndpointID :: string
  pc_ServiceSlug :: string
  pc_Hostname :: string
  pc_PathPrefix :: string
  pc_Port :: int
  pc_TLSMode :: string
  pc_Config :: go_map

record ProviderStatus =
  ps_Status :: string
  ps_Message :: string
  ps_ResolvedURL :: string
  ps_VerifiedBy :: string
  ps_RouteStatus :: string
  ps_PublicStatus :: string
  ps_Diagnostics :: go_map

record EndpointStatus =
  es_CommandId :: string
  es_EndpointId :: string
  es_Status :: string
  es_Message :: string
  es_ResolvedUrl :: string
  es_VerifiedBy :: string
  es_RouteStatus :: string
  es_PublicStatus :: string
  es_Diagnostics :: go_map

datatype endpoint_event =
    LocalProbe string string "int result"   \<comment> \<open>host header, URL, answer\<close>
  | PublicProbe string "int result"
  | LookedUp string
  | DialedPort string
  | Ran "string list"
  | TunnelStarted string string
  | TunnelLookedUp string
  | TunnelStopped string
  | ProxyChecked
  | ProxyReconfigured string
  | StatusSent EndpointStatus

record 'w endpoint_env =
  ee_LocalGet :: "string \<Rightarrow> string \<Rightarrow> int \<Rightarrow> (int result, 'w) op"    \<comment> \<open>URL, host header, timeout: the status\<close>
  ee_PublicGet :: "string \<Rightarrow> int \<Rightarrow> (int result, 'w) op"
  ee_LookupHost :: "string \<Rightarrow> (string list result, 'w) op"
  ee_Dial :: "string \<Rightarrow> int \<Rightarrow> (go_error option, 'w) op"
  ee_tailscale :: "string list \<Rightarrow> (string \<times> go_error option, 'w) op"  \<comment> \<open>output and exit\<close>
  ee_parse_status :: "string \<Rightarrow> string result"                         \<comment> \<open>\<open>Self.DNSName\<close> of the JSON text\<close>
  ee_sha256 :: "string \<Rightarrow> string"                                      \<comment> \<open>first six bytes, in hexadecimal\<close>
  ee_EnsureCloudflaredNamed :: "string \<Rightarrow> string \<Rightarrow> (go_error option, 'w) op"
  ee_FindContainerByLabel :: "string \<Rightarrow> string \<Rightarrow> (string \<times> string \<times> go_error option, 'w) op"
  ee_StopAndRemove :: "string \<Rightarrow> (go_error option, 'w) op"
  ee_HasACME :: "(bool, 'w) op"
  ee_TraefikBindIP :: "(string, 'w) op"
  ee_ReconfigureTraefikACME :: "string \<Rightarrow> (go_error option, 'w) op"
  ee_Send :: "EndpointStatus \<Rightarrow> (go_error option, 'w) op"

type_synonym ('w, 'a) endpoint = "(endpoint_event, 'w, 'a) rigged"

definition no_status :: ProviderStatus where
  "no_status = \<lparr>ps_Status = [], ps_Message = [], ps_ResolvedURL = [], ps_VerifiedBy = [], ps_RouteStatus = [],
     ps_PublicStatus = [], ps_Diagnostics = Map.empty\<rparr>"

subsection \<open>Probes\<close>

definition probe_url :: "string \<Rightarrow> string" where
  "probe_url pathPrefix = ''http://127.0.0.1:80'' @ (if pathPrefix = [] then ''/'' else pathPrefix)"

definition localTraefikCheck :: "'w endpoint_env \<Rightarrow> string \<Rightarrow> string \<Rightarrow> int \<Rightarrow> ('w, int result) endpoint" where
  "localTraefikCheck env hostname pathPrefix timeout =
     call (LocalProbe hostname (probe_url pathPrefix)) (ee_LocalGet env (probe_url pathPrefix) hostname timeout)"

definition serving :: "int \<Rightarrow> bool" where
  "serving code \<longleftrightarrow> (code \<ge> 200 \<and> code < 400) \<or> code = 401 \<or> code = 403"

definition verdict :: "int result \<Rightarrow> string" where
  "verdict r = (case r of Inl err \<Rightarrow> ''degraded'' | Inr code \<Rightarrow> if serving code then ''healthy'' else ''degraded'')"

text \<open>The four results of a probe: status, message, code and error.\<close>

definition probed :: "string \<Rightarrow> int result \<Rightarrow> string \<times> string \<times> int \<times> go_error option" where
  "probed what r = (case r of
     Inl err \<Rightarrow> (verdict r, what @ '' probe failed: '' @ err, 0, Some err)
   | Inr code \<Rightarrow> (verdict r, what @ '' returned HTTP '' @ show_int code, code, None))"

definition probeRoutedEndpoint :: "'w endpoint_env \<Rightarrow> string \<Rightarrow> string \<Rightarrow> int
    \<Rightarrow> ('w, string \<times> string \<times> int \<times> go_error option) endpoint" where
  "probeRoutedEndpoint env hostname pathPrefix timeout = do {
     r \<leftarrow> localTraefikCheck env hostname pathPrefix timeout;
     State_Monad.return (probed ''local route'' r) }"

definition probePublicURL :: "'w endpoint_env \<Rightarrow> string \<Rightarrow> int \<Rightarrow> ('w, string \<times> string \<times> int \<times> go_error option) endpoint" where
  "probePublicURL env url timeout = do {
     r \<leftarrow> call (PublicProbe url) (ee_PublicGet env url timeout);
     State_Monad.return (case r of Inl err \<Rightarrow> probed ''public'' r | Inr code \<Rightarrow> probed ''public probe'' r) }"

text \<open>A probe as the health checks use it: its status, and its text for the diagnostics.\<close>

definition check_text :: "string \<Rightarrow> string \<Rightarrow> int \<Rightarrow> go_error option \<Rightarrow> string" where
  "check_text status message code err = (case err of
     Some e \<Rightarrow> message | None \<Rightarrow> status @ '' (status '' @ show_int code @ '')'')"

definition check_route :: "'w endpoint_env \<Rightarrow> string \<Rightarrow> string \<Rightarrow> int \<Rightarrow> ('w, string \<times> string) endpoint" where
  "check_route env hostname pathPrefix timeout = do {
     (status, message, code, err) \<leftarrow> probeRoutedEndpoint env hostname pathPrefix timeout;
     State_Monad.return (status, check_text status message code err) }"

definition check_public :: "'w endpoint_env \<Rightarrow> string \<Rightarrow> int \<Rightarrow> ('w, string \<times> string) endpoint" where
  "check_public env url timeout = do {
     (status, message, code, err) \<leftarrow> probePublicURL env url timeout;
     State_Monad.return (status, check_text status message code err) }"

subsection \<open>LAN and reverse proxy of the user\<close>

definition lan_host :: "ProviderConfig \<Rightarrow> string" where
  "lan_host cfg = (if pc_Hostname cfg = [] then pc_ServiceSlug cfg @ ''.local'' else pc_Hostname cfg)"

definition lan_Ensure :: "'w endpoint_env \<Rightarrow> ProviderConfig \<Rightarrow> ('w, ProviderStatus result) endpoint" where
  "lan_Ensure env cfg = State_Monad.return (Inr (no_status\<lparr>ps_Status := ''active'',
     ps_Message := ''LAN endpoint active at http://'' @ lan_host cfg, ps_ResolvedURL := ''http://'' @ lan_host cfg,
     ps_VerifiedBy := ''agent''\<rparr>))"

definition lan_Disable :: "'w endpoint_env \<Rightarrow> ProviderConfig \<Rightarrow> ('w, ProviderStatus result) endpoint" where
  "lan_Disable env cfg = State_Monad.return (Inr (no_status\<lparr>ps_Status := ''disabled'', ps_Message := ''LAN endpoint disabled''\<rparr>))"

definition lan_Doctor :: "'w endpoint_env \<Rightarrow> ProviderConfig \<Rightarrow> ('w, ProviderStatus result) endpoint" where
  "lan_Doctor env cfg = do {
     (routeStatus, check) \<leftarrow> check_route env (lan_host cfg) (pc_PathPrefix cfg) (5 * second);
     State_Monad.return (Inr (no_status\<lparr>
       ps_Status := (if routeStatus \<noteq> ''healthy'' then ''degraded'' else ''active''),
       ps_Message := (if routeStatus \<noteq> ''healthy'' then ''LAN route is not reachable through Traefik'' else ''LAN endpoint healthy''),
       ps_VerifiedBy := ''agent'', ps_RouteStatus := routeStatus, ps_PublicStatus := ''not_applicable'',
       ps_Diagnostics := [''route_check'' \<mapsto> check]\<rparr>)) }"

definition byo_Ensure :: "'w endpoint_env \<Rightarrow> ProviderConfig \<Rightarrow> ('w, ProviderStatus result) endpoint" where
  "byo_Ensure env cfg = State_Monad.return (Inr (
     if pc_Hostname cfg = []
     then no_status\<lparr>ps_Status := ''error'', ps_Message := ''Hostname is required for byo_proxy endpoints''\<rparr>
     else no_status\<lparr>ps_Status := ''active'',
       ps_Message := ''Configure your reverse proxy to forward '' @ pc_Hostname cfg @ '' to http://<server-ip>:80'',
       ps_ResolvedURL := ''http://'' @ pc_Hostname cfg, ps_VerifiedBy := ''agent''\<rparr>))"

definition byo_Disable :: "'w endpoint_env \<Rightarrow> ProviderConfig \<Rightarrow> ('w, ProviderStatus result) endpoint" where
  "byo_Disable env cfg = State_Monad.return (Inr (no_status\<lparr>ps_Status := ''disabled'', ps_Message := ''BYO proxy endpoint disabled''\<rparr>))"

definition byo_Doctor :: "'w endpoint_env \<Rightarrow> ProviderConfig \<Rightarrow> ('w, ProviderStatus result) endpoint" where
  "byo_Doctor env cfg = do {
     (routeStatus, check) \<leftarrow> check_route env (pc_Hostname cfg) (pc_PathPrefix cfg) (5 * second);
     State_Monad.return (Inr (no_status\<lparr>
       ps_Status := (if routeStatus \<noteq> ''healthy'' then ''degraded'' else ''active''),
       ps_Message := (if routeStatus \<noteq> ''healthy''
         then ''Local route for '' @ pc_Hostname cfg @ '' is unhealthy behind the external proxy''
         else ''BYO proxy endpoint configured for '' @ pc_Hostname cfg @ ''. Verify your proxy is forwarding to http://<server-ip>:80''),
       ps_VerifiedBy := ''agent'', ps_RouteStatus := routeStatus, ps_PublicStatus := ''unknown'',
       ps_Diagnostics := [''note'' \<mapsto> ''Cannot verify external proxy configuration'', ''route_check'' \<mapsto> check]\<rparr>)) }"

subsection \<open>Public address of the host\<close>

definition dns_diag :: "string list \<Rightarrow> string" where
  "dns_diag addrs = ''resolved: ['' @ Join '' '' addrs @ '']''"

definition direct_Ensure :: "'w endpoint_env \<Rightarrow> ProviderConfig \<Rightarrow> ('w, ProviderStatus result) endpoint" where
  "direct_Ensure env cfg =
     (let host = pc_Hostname cfg in
      if host = [] then State_Monad.return (Inr (no_status\<lparr>ps_Status := ''error'',
        ps_Message := ''Hostname is required for public_direct endpoints''\<rparr>))
      else do {
        found \<leftarrow> call (\<lambda>_. LookedUp host) (ee_LookupHost env host);
        (case found of
           Inl err \<Rightarrow> State_Monad.return (Inr (no_status\<lparr>ps_Status := ''error'',
             ps_Message := ''DNS record for '' @ host @ '' doesn'' @ [CHR 0x27] @
               ''t resolve. Create an A record pointing to this server'' @ [CHR 0x27] @ ''s public IP.'',
             ps_VerifiedBy := ''agent'', ps_Diagnostics := [''dns'' \<mapsto> ''error: '' @ err]\<rparr>))
         | Inr addrs \<Rightarrow> do {
             portErr \<leftarrow> call (\<lambda>_. DialedPort (host @ '':80'')) (ee_Dial env (host @ '':80'') (3 * second));
             State_Monad.return (Inr (no_status\<lparr>ps_Status := ''provisioning'',
               ps_Message := (case portErr of
                   Some e \<Rightarrow> ''DNS resolves for '' @ host @ ''. Waiting for HTTPS certificate '' @ em_dash @ '' run a health check to verify.''
                 | None \<Rightarrow> ''DNS and port 80 OK for '' @ host @ ''. Let'' @ [CHR 0x27] @ ''s Encrypt certificate provisioning '' @
                     em_dash @ '' run a health check to verify.''),
               ps_ResolvedURL := ''https://'' @ host, ps_VerifiedBy := ''agent'',
               ps_Diagnostics := [''dns'' \<mapsto> dns_diag addrs,
                 ''port_80'' \<mapsto> (case portErr of Some e \<Rightarrow> ''not reachable: '' @ e | None \<Rightarrow> ''ok'')]\<rparr>)) }) })"

definition direct_Disable :: "'w endpoint_env \<Rightarrow> ProviderConfig \<Rightarrow> ('w, ProviderStatus result) endpoint" where
  "direct_Disable env cfg = State_Monad.return (Inr (no_status\<lparr>ps_Status := ''disabled'', ps_Message := ''Public direct endpoint disabled''\<rparr>))"

definition port_diag :: "go_error option \<Rightarrow> string" where
  "port_diag err = (case err of Some e \<Rightarrow> ''error: '' @ e | None \<Rightarrow> ''ok'')"

text \<open>The verdict of \<^verbatim>\<open>Doctor\<close>: status, message and who verified it, the later checks over the earlier.\<close>

definition direct_verdict :: "string \<Rightarrow> go_error option \<Rightarrow> go_error option \<Rightarrow> string \<Rightarrow> string \<Rightarrow> string \<times> string \<times> string" where
  "direct_verdict host e80 e443 routeStatus publicStatus =
     (let v = (''active'', ''Public endpoint healthy at https://'' @ host, ''public'');
          v = (if port_diag e80 \<noteq> ''ok'' then (''degraded'', ''Port 80 is not reachable. Check your firewall settings.'', ''public'') else v);
          v = (if port_diag e443 \<noteq> ''ok'' then (''degraded'', ''Port 443 is not reachable. Check your firewall settings.'', ''public'') else v) in
      if routeStatus \<noteq> ''healthy'' then (''degraded'', ''Local Traefik route is unhealthy for '' @ host, ''agent'')
      else if publicStatus \<noteq> ''healthy''
      then (''degraded'', ''Public HTTPS check failed even though local routing works'', ''agent'')
      else v)"

definition direct_Doctor :: "'w endpoint_env \<Rightarrow> ProviderConfig \<Rightarrow> ('w, ProviderStatus result) endpoint" where
  "direct_Doctor env cfg =
     (let host = pc_Hostname cfg in do {
        found \<leftarrow> call (\<lambda>_. LookedUp host) (ee_LookupHost env host);
        (case found of
           Inl err \<Rightarrow> State_Monad.return (Inr (no_status\<lparr>ps_Status := ''error'',
             ps_Message := ''DNS record for '' @ host @ '' doesn'' @ [CHR 0x27] @
               ''t resolve to this server. Create an A record pointing to your server'' @ [CHR 0x27] @ ''s public IP.'',
             ps_VerifiedBy := ''agent'', ps_Diagnostics := [''dns'' \<mapsto> ''error: '' @ err]\<rparr>))
         | Inr addrs \<Rightarrow> do {
             e80 \<leftarrow> call (\<lambda>_. DialedPort (host @ '':80'')) (ee_Dial env (host @ '':80'') (5 * second));
             e443 \<leftarrow> call (\<lambda>_. DialedPort (host @ '':443'')) (ee_Dial env (host @ '':443'') (5 * second));
             (routeStatus, routeCheck) \<leftarrow> check_route env host [] (10 * second);
             (publicStatus, publicCheck) \<leftarrow> check_public env (''https://'' @ host @ ''/'') (10 * second);
             (case direct_verdict host e80 e443 routeStatus publicStatus of (status, message, verified) \<Rightarrow>
                State_Monad.return (Inr \<lparr>ps_Status = status, ps_Message = message, ps_ResolvedURL = ''https://'' @ host,
                  ps_VerifiedBy = verified, ps_RouteStatus = routeStatus, ps_PublicStatus = publicStatus,
                  ps_Diagnostics = [''dns'' \<mapsto> dns_diag addrs, ''port_80'' \<mapsto> port_diag e80, ''port_443'' \<mapsto> port_diag e443,
                    ''route_check'' \<mapsto> routeCheck, ''https_check'' \<mapsto> publicCheck]\<rparr>)) }) })"

subsection \<open>Cloudflare tunnels\<close>

definition containerName :: "'w endpoint_env \<Rightarrow> string \<Rightarrow> string" where
  "containerName env token = ''clank-cftunnel-'' @ ee_sha256 env token"

definition tunnel_token :: "ProviderConfig \<Rightarrow> string" where
  "tunnel_token cfg = map_get (pc_Config cfg) ''tunnel_token''"

definition cf_Ensure :: "'w endpoint_env \<Rightarrow> ProviderConfig \<Rightarrow> ('w, ProviderStatus result) endpoint" where
  "cf_Ensure env cfg =
     (let token = tunnel_token cfg; name = containerName env token in
      if token = [] then State_Monad.return (Inr (no_status\<lparr>ps_Status := ''error'',
        ps_Message := ''Cloudflare tunnel token is required. Generate one from the CF dashboard.''\<rparr>))
      else do {
        failed \<leftarrow> call (\<lambda>_. TunnelStarted name token) (ee_EnsureCloudflaredNamed env name token);
        State_Monad.return (Inr (case failed of
            Some err \<Rightarrow> no_status\<lparr>ps_Status := ''error'', ps_Message := ''Failed to start cloudflared: '' @ err,
              ps_Diagnostics := [''container'' \<mapsto> name, ''error'' \<mapsto> err]\<rparr>
          | None \<Rightarrow> no_status\<lparr>ps_Status := ''active'',
              ps_Message := ''Cloudflare tunnel running ('' @ name @ ''). Ensure your Tunnel has a Public Hostname route for '' @
                pc_Hostname cfg @ '' '' @ arrow @ '' http://localhost:80'',
              ps_ResolvedURL := ''https://'' @ pc_Hostname cfg, ps_VerifiedBy := ''agent'',
              ps_Diagnostics := [''container'' \<mapsto> name]\<rparr>)) })"

definition cf_Disable :: "'w endpoint_env \<Rightarrow> ProviderConfig \<Rightarrow> ('w, ProviderStatus result) endpoint" where
  "cf_Disable env cfg =
     (let token = tunnel_token cfg; name = containerName env token;
          disabled = no_status\<lparr>ps_Status := ''disabled'', ps_Message := ''Cloudflare tunnel endpoint disabled''\<rparr> in
      if token = [] then State_Monad.return (Inr disabled)
      else do {
        found \<leftarrow> call (\<lambda>_. TunnelLookedUp name) (ee_FindContainerByLabel env ''clank.cftunnel.name'' name);
        (case found of (cid, cname, err) \<Rightarrow>
           if err = None \<and> cid \<noteq> [] then do {
             _ \<leftarrow> call (\<lambda>_. TunnelStopped cid) (ee_StopAndRemove env cid);
             State_Monad.return (Inr disabled) }
           else State_Monad.return (Inr disabled)) })"

definition cf_examined :: "'w endpoint_env \<Rightarrow> ProviderConfig \<Rightarrow> string \<Rightarrow> string \<Rightarrow> ('w, ProviderStatus result) endpoint" where
  "cf_examined env cfg name containerCheck = do {
     (routeStatus, routeCheck) \<leftarrow> check_route env (pc_Hostname cfg) (pc_PathPrefix cfg) (10 * second);
     (publicStatus, publicCheck) \<leftarrow> check_public env (''https://'' @ pc_Hostname cfg @ pc_PathPrefix cfg) (10 * second);
     State_Monad.return (Inr \<lparr>
       ps_Status = (if routeStatus \<noteq> ''healthy'' \<or> publicStatus \<noteq> ''healthy'' then ''degraded'' else ''active''),
       ps_Message = (if routeStatus \<noteq> ''healthy'' then ''Local route behind the Cloudflare tunnel is unhealthy ('' @ name @ '')''
         else if publicStatus \<noteq> ''healthy'' then ''Cloudflare public endpoint is failing even though local routing works''
         else ''Cloudflare tunnel healthy ('' @ name @ '')''),
       ps_ResolvedURL = ''https://'' @ pc_Hostname cfg @ pc_PathPrefix cfg,
       ps_VerifiedBy = (if routeStatus \<noteq> ''healthy'' \<or> publicStatus \<noteq> ''healthy'' then ''agent'' else ''public''),
       ps_RouteStatus = routeStatus, ps_PublicStatus = publicStatus,
       ps_Diagnostics = [''container_check'' \<mapsto> containerCheck, ''route_check'' \<mapsto> routeCheck, ''public_check'' \<mapsto> publicCheck]\<rparr>) }"

definition cf_Doctor :: "'w endpoint_env \<Rightarrow> ProviderConfig \<Rightarrow> ('w, ProviderStatus result) endpoint" where
  "cf_Doctor env cfg =
     (let token = tunnel_token cfg; name = containerName env token in
      if token = [] then State_Monad.return (Inr (no_status\<lparr>ps_Status := ''error'',
        ps_Message := ''Cloudflare tunnel token is invalid. Generate a new token from the CF dashboard.''\<rparr>))
      else do {
        found \<leftarrow> call (\<lambda>_. TunnelLookedUp name) (ee_FindContainerByLabel env ''clank.cftunnel.name'' name);
        (case found of (cid, cname, err) \<Rightarrow> (case err of
             Some e \<Rightarrow> cf_examined env cfg name (''error: '' @ e)
           | None \<Rightarrow>
               if cid = [] then State_Monad.return (Inr (no_status\<lparr>ps_Status := ''error'',
                 ps_Message := ''Cloudflared container '' @ name @ '' is not running'',
                 ps_Diagnostics := [''container_check'' \<mapsto> ''not running'']\<rparr>))
               else cf_examined env cfg name ''running'')) })"

subsection \<open>Tailscale\<close>

definition getTailscaleHostname :: "'w endpoint_env \<Rightarrow> ('w, string result) endpoint" where
  "getTailscaleHostname env = do {
     r \<leftarrow> call (\<lambda>_. Ran [''tailscale'', ''status'', ''--json'']) (ee_tailscale env [''status'', ''--json'']);
     State_Monad.return (case r of
         (out, Some err) \<Rightarrow> Inl (''tailscale not available: '' @ err)
       | (out, None) \<Rightarrow> (case ee_parse_status env out of
           Inl err \<Rightarrow> Inl (''parsing tailscale status: '' @ err)
         | Inr name \<Rightarrow> (let hostname = TrimSuffix name ''.'' in
             if hostname = [] then Inl (''tailscale DNSName is empty '' @ em_dash @ '' is Tailscale authenticated?'')
             else Inr hostname))) }"

definition tailnet_path :: "ProviderConfig \<Rightarrow> string" where
  "tailnet_path cfg = (if pc_PathPrefix cfg = [] then CHR ''/'' # pc_ServiceSlug cfg else pc_PathPrefix cfg)"

definition ts_served :: "'w endpoint_env \<Rightarrow> ProviderConfig \<Rightarrow> string \<Rightarrow> ('w, ProviderStatus result) endpoint" where
  "ts_served env cfg tsHostname =
     (let path = tailnet_path cfg; url = ''https://'' @ tsHostname @ path;
          st = no_status\<lparr>ps_ResolvedURL := url, ps_VerifiedBy := ''agent'', ps_PublicStatus := ''not_applicable''\<rparr>;
          diag = [''tailscale_hostname'' \<mapsto> tsHostname, ''path_prefix'' \<mapsto> path] in do {
        r \<leftarrow> localTraefikCheck env tsHostname path (5 * second);
        State_Monad.return (Inr (case r of
            Inl err \<Rightarrow> st\<lparr>ps_Status := ''provisioning'',
              ps_Message := ''Tailscale Serve configured. Waiting for service to become reachable at '' @ url,
              ps_RouteStatus := ''unknown'', ps_Diagnostics := diag\<rparr>
          | Inr code \<Rightarrow> (let diag = diag(''http_status'' \<mapsto> show_int code) in
              if code \<ge> 200 \<and> code < 400
              then st\<lparr>ps_Status := ''active'', ps_Message := ''Tailscale HTTPS endpoint active at '' @ url,
                ps_RouteStatus := ''healthy'', ps_Diagnostics := diag\<rparr>
              else st\<lparr>ps_Status := ''provisioning'', ps_Message := ''Tailscale Serve configured but service returned HTTP '' @
                show_int code @ ''. Deploy the service and try again.'', ps_RouteStatus := ''degraded'', ps_Diagnostics := diag\<rparr>))) })"

definition ts_Ensure :: "'w endpoint_env \<Rightarrow> ProviderConfig \<Rightarrow> ('w, ProviderStatus result) endpoint" where
  "ts_Ensure env cfg = do {
     host \<leftarrow> getTailscaleHostname env;
     (case host of
        Inl err \<Rightarrow> State_Monad.return (Inr (no_status\<lparr>ps_Status := ''error'',
          ps_Message := ''Tailscale is not running. Install and authenticate first: '' @ err\<rparr>))
      | Inr tsHostname \<Rightarrow> do {
          r \<leftarrow> call (\<lambda>_. Ran [''tailscale'', ''serve'', ''--bg'', ''--https=443'', ''http://127.0.0.1:80''])
            (ee_tailscale env [''serve'', ''--bg'', ''--https=443'', ''http://127.0.0.1:80'']);
          (case r of
             (output, Some err) \<Rightarrow> State_Monad.return (Inr (no_status\<lparr>ps_Status := ''error'',
               ps_Message := ''Failed to configure tailscale serve: '' @ err @ [CHR 0x0A] @ output,
               ps_Diagnostics := [''tailscale_hostname'' \<mapsto> tsHostname, ''serve_output'' \<mapsto> output]\<rparr>))
           | (output, None) \<Rightarrow> ts_served env cfg tsHostname) }) }"

definition ts_Disable :: "'w endpoint_env \<Rightarrow> ProviderConfig \<Rightarrow> ('w, ProviderStatus result) endpoint" where
  "ts_Disable env cfg = State_Monad.return (Inr (no_status\<lparr>ps_Status := ''disabled'', ps_Message := ''Tailscale endpoint disabled''\<rparr>))"

definition ts_examined :: "'w endpoint_env \<Rightarrow> ProviderConfig \<Rightarrow> string \<Rightarrow> string \<Rightarrow> ('w, ProviderStatus result) endpoint" where
  "ts_examined env cfg tsHostname serveStatus =
     (let path = tailnet_path cfg; url = ''https://'' @ tsHostname @ path;
          diag = [''tailscale_status'' \<mapsto> ''connected'', ''tailscale_hostname'' \<mapsto> tsHostname, ''serve_status'' \<mapsto> serveStatus];
          st = no_status\<lparr>ps_ResolvedURL := url, ps_VerifiedBy := ''agent'', ps_PublicStatus := ''not_applicable''\<rparr> in do {
        r \<leftarrow> localTraefikCheck env tsHostname path (10 * second);
        State_Monad.return (Inr (case r of
            Inl err \<Rightarrow> st\<lparr>ps_Status := ''degraded'',
              ps_Message := ''Tailscale serve configured but endpoint not reachable: '' @ err,
              ps_RouteStatus := ''degraded'', ps_Diagnostics := diag(''agent_verify'' \<mapsto> ''error: '' @ err)\<rparr>
          | Inr code \<Rightarrow> (let diag = diag(''agent_verify'' \<mapsto> ''status '' @ show_int code) in
              if serving code
              then st\<lparr>ps_Status := ''active'', ps_Message := ''Tailscale endpoint healthy at '' @ url @ '' (HTTP '' @ show_int code @ '')'',
                ps_RouteStatus := ''healthy'', ps_Diagnostics := diag\<rparr>
              else st\<lparr>ps_Status := ''degraded'', ps_Message := ''Tailscale Serve is working but service returned HTTP '' @
                show_int code @ ''. Is the service deployed?'', ps_RouteStatus := ''degraded'', ps_Diagnostics := diag\<rparr>))) })"

definition ts_Doctor :: "'w endpoint_env \<Rightarrow> ProviderConfig \<Rightarrow> ('w, ProviderStatus result) endpoint" where
  "ts_Doctor env cfg = do {
     host \<leftarrow> getTailscaleHostname env;
     (case host of
        Inl err \<Rightarrow> State_Monad.return (Inr (no_status\<lparr>ps_Status := ''error'',
          ps_Message := ''Tailscale is not installed on this server. Install it: https://tailscale.com/download'',
          ps_Diagnostics := [''tailscale_status'' \<mapsto> ''error: '' @ err]\<rparr>))
      | Inr tsHostname \<Rightarrow> do {
          r \<leftarrow> call (\<lambda>_. Ran [''tailscale'', ''serve'', ''status'']) (ee_tailscale env [''serve'', ''status'']);
          ts_examined env cfg tsHostname (case r of (out, Some err) \<Rightarrow> ''error: '' @ err | (out, None) \<Rightarrow> TrimSpace out) }) }"

subsection \<open>The manager and the handler\<close>

datatype endpoint_action = ENSURE | DISABLE | DOCTOR | UnknownAction int

type_synonym ('w) provider_op = "'w endpoint_env \<Rightarrow> ProviderConfig \<Rightarrow> ('w, ProviderStatus result) endpoint"

record 'w Provider =
  pv_Name :: string
  pv_Ensure :: "'w provider_op"
  pv_Disable :: "'w provider_op"
  pv_Doctor :: "'w provider_op"

definition providers :: "'w Provider list" where
  "providers =
    [\<lparr>pv_Name = ''lan_only'', pv_Ensure = lan_Ensure, pv_Disable = lan_Disable, pv_Doctor = lan_Doctor\<rparr>,
     \<lparr>pv_Name = ''public_direct'', pv_Ensure = direct_Ensure, pv_Disable = direct_Disable, pv_Doctor = direct_Doctor\<rparr>,
     \<lparr>pv_Name = ''public_tunnel_cloudflare'', pv_Ensure = cf_Ensure, pv_Disable = cf_Disable, pv_Doctor = cf_Doctor\<rparr>,
     \<lparr>pv_Name = ''private_tailscale_https'', pv_Ensure = ts_Ensure, pv_Disable = ts_Disable, pv_Doctor = ts_Doctor\<rparr>,
     \<lparr>pv_Name = ''byo_proxy'', pv_Ensure = byo_Ensure, pv_Disable = byo_Disable, pv_Doctor = byo_Doctor\<rparr>]"

definition Get :: "string \<Rightarrow> 'w Provider option" where
  "Get name = first_match (\<lambda>p. pv_Name p = name) providers"

definition dispatch :: "('w Provider \<Rightarrow> 'w provider_op) \<Rightarrow> 'w endpoint_env \<Rightarrow> ProviderConfig \<Rightarrow> string
    \<Rightarrow> ('w, ProviderStatus result) endpoint" where
  "dispatch action env cfg name = (case Get name of
     None \<Rightarrow> State_Monad.return (Inl (''unknown endpoint provider: '' @ name))
   | Some p \<Rightarrow> action p env cfg)"

definition HandleEnsure :: "'w endpoint_env \<Rightarrow> ProviderConfig \<Rightarrow> string \<Rightarrow> ('w, ProviderStatus result) endpoint" where
  "HandleEnsure = dispatch pv_Ensure"

definition HandleDisable :: "'w endpoint_env \<Rightarrow> ProviderConfig \<Rightarrow> string \<Rightarrow> ('w, ProviderStatus result) endpoint" where
  "HandleDisable = dispatch pv_Disable"

definition HandleDoctor :: "'w endpoint_env \<Rightarrow> ProviderConfig \<Rightarrow> string \<Rightarrow> ('w, ProviderStatus result) endpoint" where
  "HandleDoctor = dispatch pv_Doctor"

record EndpointCommand =
  ec_CommandId :: string
  ec_EndpointId :: string
  ec_Provider :: string
  ec_Action :: endpoint_action
  ec_Config :: ProviderConfig

definition upgrade_proxy :: "'w endpoint_env \<Rightarrow> EndpointCommand \<Rightarrow> ('w, unit) endpoint" where
  "upgrade_proxy env cmd =
     (if ec_Provider cmd = ''public_direct'' \<and> ec_Action cmd = ENSURE then do {
        acme \<leftarrow> call (\<lambda>_. ProxyChecked) (ee_HasACME env);
        if acme then State_Monad.return ()
        else do {
          ip \<leftarrow> call (\<lambda>_. ProxyChecked) (ee_TraefikBindIP env);
          _ \<leftarrow> call (\<lambda>_. ProxyReconfigured ip) (ee_ReconfigureTraefikACME env ip);
          State_Monad.return () } }
      else State_Monad.return ())"

definition status_message :: "EndpointCommand \<Rightarrow> ProviderStatus result \<Rightarrow> EndpointStatus" where
  "status_message cmd r =
     (let st = (case r of
          Inl err \<Rightarrow> no_status\<lparr>ps_Status := ''error'', ps_Message := ''Endpoint operation failed: '' @ err\<rparr>
        | Inr st \<Rightarrow> st) in
      \<lparr>es_CommandId = ec_CommandId cmd, es_EndpointId = ec_EndpointId cmd, es_Status = ps_Status st,
       es_Message = sanitizeUTF8 (ps_Message st), es_ResolvedUrl = ps_ResolvedURL st, es_VerifiedBy = ps_VerifiedBy st,
       es_RouteStatus = ps_RouteStatus st, es_PublicStatus = ps_PublicStatus st, es_Diagnostics = ps_Diagnostics st\<rparr>)"

definition send_status :: "'w endpoint_env \<Rightarrow> EndpointCommand \<Rightarrow> ProviderStatus result \<Rightarrow> ('w, unit) endpoint" where
  "send_status env cmd r = do {
     _ \<leftarrow> call (\<lambda>_. StatusSent (status_message cmd r)) (ee_Send env (status_message cmd r));
     State_Monad.return () }"

definition HandleEndpoint :: "'w endpoint_env \<Rightarrow> EndpointCommand \<Rightarrow> ('w, unit) endpoint" where
  "HandleEndpoint env cmd = do {
     upgrade_proxy env cmd;
     (case ec_Action cmd of
        ENSURE \<Rightarrow> do { r \<leftarrow> HandleEnsure env (ec_Config cmd) (ec_Provider cmd); send_status env cmd r }
      | DISABLE \<Rightarrow> do { r \<leftarrow> HandleDisable env (ec_Config cmd) (ec_Provider cmd); send_status env cmd r }
      | DOCTOR \<Rightarrow> do { r \<leftarrow> HandleDoctor env (ec_Config cmd) (ec_Provider cmd); send_status env cmd r }
      | UnknownAction n \<Rightarrow> State_Monad.return ()) }"

subsection \<open>What every provider promises\<close>

definition local_ok :: "endpoint_event list \<Rightarrow> bool" where
  "local_ok evs \<longleftrightarrow> (\<exists>h url code. LocalProbe h url (Inr code) \<in> set evs \<and> serving code)"

definition public_ok :: "endpoint_event list \<Rightarrow> bool" where
  "public_ok evs \<longleftrightarrow> (\<exists>url code. PublicProbe url (Inr code) \<in> set evs \<and> serving code)"

text \<open>Events that only look.\<close>

definition looks :: "endpoint_event \<Rightarrow> bool" where
  "looks e \<longleftrightarrow> (case e of
     LocalProbe h u r \<Rightarrow> True | PublicProbe u r \<Rightarrow> True | LookedUp h \<Rightarrow> True | DialedPort p \<Rightarrow> True | TunnelLookedUp n \<Rightarrow> True
   | Ran args \<Rightarrow> ''status'' \<in> set args | _ \<Rightarrow> False)"

definition examined :: "ProviderStatus result \<Rightarrow> endpoint_event list \<Rightarrow> bool" where
  "examined r evs \<longleftrightarrow> (\<exists>st. r = Inr st \<and> list_all looks evs \<and>
     (ps_Status st = ''active'' \<or> ps_Status st = ''degraded'' \<or> ps_Status st = ''error'') \<and>
     (ps_Status st = ''active'' \<longrightarrow> ps_RouteStatus st = ''healthy'' \<and> local_ok evs) \<and>
     (ps_VerifiedBy st = ''public'' \<and> ps_Status st = ''active'' \<longrightarrow> public_ok evs))"

definition ensured :: "ProviderStatus result \<Rightarrow> bool" where
  "ensured r \<longleftrightarrow> (\<exists>st. r = Inr st \<and> (ps_Status st = ''active'' \<or> ps_Status st = ''provisioning'' \<or> ps_Status st = ''error'') \<and>
     (ps_Status st = ''error'' \<longrightarrow> ps_Message st \<noteq> []))"

definition silent :: "endpoint_event \<Rightarrow> bool" where
  "silent e \<longleftrightarrow> (case e of StatusSent st \<Rightarrow> False | _ \<Rightarrow> True)"

locale provider =
  fixes ensure disable doctor :: "'w endpoint_env \<Rightarrow> ProviderConfig \<Rightarrow> ('w, ProviderStatus result) endpoint"
  assumes ensure_law: "yields (\<lambda>r evs. ensured r) (ensure env cfg)"
    and disable_law: "yields (\<lambda>r evs. \<exists>st. r = Inr st \<and> ps_Status st = ''disabled'') (disable env cfg)"
    and doctor_law: "yields examined (doctor env cfg)"
    and ensure_silent: "emits silent (ensure env cfg)" and disable_silent: "emits silent (disable env cfg)"
begin

text \<open>An operation and the status its caller is sent.\<close>

lemma ensure_reply: "yields (\<lambda>r evs. list_all silent evs \<and>
    es_Status (status_message cmd r) \<in> {''active'', ''provisioning'', ''error''}) (ensure env cfg)"
  by (rule yields_mono [OF yields_conj [OF ensure_law ensure_silent [unfolded emits_def]]])
    (auto simp: ensured_def status_message_def Let_def)

lemma disable_reply: "yields (\<lambda>r evs. list_all silent evs \<and> es_Status (status_message cmd r) = ''disabled'') (disable env cfg)"
  by (rule yields_mono [OF yields_conj [OF disable_law disable_silent [unfolded emits_def]]])
    (auto simp: status_message_def Let_def)

lemma doctor_reply: "yields (\<lambda>r evs. list_all looks evs \<and> es_Status (status_message cmd r) \<in> {''active'', ''degraded'', ''error''} \<and>
    (es_Status (status_message cmd r) = ''active'' \<longrightarrow> local_ok evs)) (doctor env cfg)"
  by (rule yields_mono [OF doctor_law]) (auto simp: examined_def status_message_def Let_def)

end

lemma verdict_healthy: "verdict r = ''healthy'' \<longleftrightarrow> (\<exists>code. r = Inr code \<and> serving code)"
  by (cases r) (auto simp: verdict_def)

lemma yields_routed: "yields (\<lambda>v evs. list_all looks evs \<and> (fst v = ''healthy'' \<longrightarrow> local_ok evs) \<and> \<not> public_ok evs) (check_route env h p t)"
proof -
  have "yields (\<lambda>v evs. list_all looks evs \<and> (fst v = ''healthy'' \<longrightarrow> local_ok evs) \<and> \<not> public_ok evs) (probeRoutedEndpoint env h p t)"
    unfolding probeRoutedEndpoint_def localTraefikCheck_def
    by (intro yields_call_then yields_return)
      (auto simp: probed_def verdict_healthy local_ok_def public_ok_def looks_def split: sum.splits)
  then show ?thesis unfolding check_route_def
    by (rule yields_bind) (intro yields_prod yields_return, simp)
qed

lemma yields_public: "yields (\<lambda>v evs. list_all looks evs \<and> (fst v = ''healthy'' \<longrightarrow> public_ok evs)) (check_public env url t)"
proof -
  have "yields (\<lambda>v evs. list_all looks evs \<and> (fst v = ''healthy'' \<longrightarrow> public_ok evs)) (probePublicURL env url t)"
    unfolding probePublicURL_def
    by (intro yields_call_then yields_return) (auto simp: probed_def verdict_healthy public_ok_def looks_def split: sum.splits)
  then show ?thesis unfolding check_public_def
    by (rule yields_bind) (intro yields_prod yields_return, simp)
qed

lemma ok_append [simp]: "local_ok (es @ fs) \<longleftrightarrow> local_ok es \<or> local_ok fs" "public_ok (es @ fs) \<longleftrightarrow> public_ok es \<or> public_ok fs"
    "local_ok (LookedUp h # es) = local_ok es" "local_ok (DialedPort q # es) = local_ok es" "local_ok (TunnelLookedUp n # es) = local_ok es"
    "local_ok (Ran a # es) = local_ok es" "public_ok (LookedUp h # es) = public_ok es" "public_ok (DialedPort q # es) = public_ok es"
    "public_ok (TunnelLookedUp n # es) = public_ok es" "public_ok (Ran a # es) = public_ok es"
  by (auto simp: local_ok_def public_ok_def)

lemma looks_simps [simp]: "looks (LookedUp h)" "looks (DialedPort q)" "looks (TunnelLookedUp n)" "looks (LocalProbe h u r)"
    "looks (PublicProbe u r)" "looks (Ran a) \<longleftrightarrow> ''status'' \<in> set a"
  by (simp_all add: looks_def)

lemma silent_simps [simp]: "silent (LookedUp h)" "silent (DialedPort q)" "silent (TunnelLookedUp n)" "silent (LocalProbe h u r)"
    "silent (PublicProbe u r)" "silent (Ran a)" "silent (TunnelStarted n k)" "silent (TunnelStopped n)" "silent ProxyChecked"
    "silent (ProxyReconfigured ip)" "\<not> silent (StatusSent st)"
  by (simp_all add: silent_def)

lemma looks_silent: "looks e \<Longrightarrow> silent e"
  by (cases e) (simp_all add: looks_def)

lemma lan_examined: "yields examined (lan_Doctor env cfg)"
  unfolding lan_Doctor_def
  by (rule yields_bind [OF yields_routed], rule yields_prod, rule yields_return) (auto simp: examined_def no_status_def)

lemma byo_examined: "yields examined (byo_Doctor env cfg)"
  unfolding byo_Doctor_def
  by (rule yields_bind [OF yields_routed], rule yields_prod, rule yields_return) (auto simp: examined_def no_status_def)

interpretation lan: provider lan_Ensure lan_Disable lan_Doctor
  by unfold_locales (auto simp: lan_Ensure_def lan_Disable_def ensured_def no_status_def intro!: yields_return emits_return lan_examined)

interpretation byo: provider byo_Ensure byo_Disable byo_Doctor
  by unfold_locales (auto simp: byo_Ensure_def byo_Disable_def ensured_def no_status_def intro!: yields_return emits_return byo_examined)

lemma direct_verdict_active: "fst (direct_verdict h e80 e443 rs ps) = ''active'' \<longleftrightarrow>
    port_diag e80 = ''ok'' \<and> port_diag e443 = ''ok'' \<and> rs = ''healthy'' \<and> ps = ''healthy''"
  by (simp add: direct_verdict_def Let_def)

lemma direct_verdict_cases: "fst (direct_verdict h e80 e443 rs ps) = ''active'' \<or> fst (direct_verdict h e80 e443 rs ps) = ''degraded''"
  by (simp add: direct_verdict_def Let_def)

lemma direct_examined: "yields examined (direct_Doctor env cfg)"
proof -
  have "yields (\<lambda>r evs. examined r (LookedUp h # DialedPort p # DialedPort q # evs)) (do {
      (routeStatus, routeCheck) \<leftarrow> check_route env (pc_Hostname cfg) [] (10 * second);
      (publicStatus, publicCheck) \<leftarrow> check_public env (''https://'' @ pc_Hostname cfg @ ''/'') (10 * second);
      (case direct_verdict (pc_Hostname cfg) e80 e443 routeStatus publicStatus of (status, message, verified) \<Rightarrow>
         State_Monad.return (Inr \<lparr>ps_Status = status, ps_Message = message, ps_ResolvedURL = ''https://'' @ pc_Hostname cfg,
           ps_VerifiedBy = verified, ps_RouteStatus = routeStatus, ps_PublicStatus = publicStatus,
           ps_Diagnostics = d routeCheck publicCheck\<rparr>)) })" for h p q e80 e443 d
  proof (rule yields_bind [OF yields_routed], rule yields_prod, rule yields_bind [OF yields_public], rule yields_prod)
    fix v w :: "string \<times> string" and evs evs' :: "endpoint_event list" and rs rc ps pc
    assume a: "list_all looks evs \<and> (fst v = ''healthy'' \<longrightarrow> local_ok evs) \<and> \<not> public_ok evs" "v = (rs, rc)"
      "list_all looks evs' \<and> (fst w = ''healthy'' \<longrightarrow> public_ok evs')" "w = (ps, pc)"
    obtain status message verified where s: "direct_verdict (pc_Hostname cfg) e80 e443 rs ps = (status, message, verified)"
      by (metis prod_cases3)
    from direct_verdict_active [of "pc_Hostname cfg" e80 e443 rs ps] direct_verdict_cases [of "pc_Hostname cfg" e80 e443 rs ps]
    show "yields (\<lambda>r evs''. examined r (LookedUp h # DialedPort p # DialedPort q # evs @ evs' @ evs''))
      (case direct_verdict (pc_Hostname cfg) e80 e443 rs ps of (status, message, verified) \<Rightarrow>
         State_Monad.return (Inr \<lparr>ps_Status = status, ps_Message = message, ps_ResolvedURL = ''https://'' @ pc_Hostname cfg,
           ps_VerifiedBy = verified, ps_RouteStatus = rs, ps_PublicStatus = ps, ps_Diagnostics = d rc pc\<rparr>))"
      using a by (auto simp: s examined_def intro!: yields_return)
  qed
  then show ?thesis
    unfolding direct_Doctor_def Let_def
    by (intro yields_call_then yields_sum) (auto simp: examined_def no_status_def intro!: yields_return)
qed

interpretation direct: provider direct_Ensure direct_Disable direct_Doctor
proof unfold_locales
  show "yields (\<lambda>r evs. ensured r) (direct_Ensure env cfg)" for env :: "'w endpoint_env" and cfg
    unfolding direct_Ensure_def Let_def
    by (intro yields_if yields_call_then yields_sum yields_return) (auto simp: ensured_def no_status_def)
  show "emits silent (direct_Ensure env cfg)" for env :: "'w endpoint_env" and cfg
    unfolding direct_Ensure_def Let_def by (intro emits_rules) simp_all
qed (auto simp: direct_Disable_def no_status_def intro!: yields_return emits_return direct_examined)

lemma cf_examined_law: "yields (\<lambda>r evs. examined r (TunnelLookedUp n # evs)) (cf_examined env cfg name check)"
  unfolding cf_examined_def
proof (rule yields_bind [OF yields_routed], rule yields_prod, rule yields_bind [OF yields_public], rule yields_prod, rule yields_return)
  fix v w :: "string \<times> string" and evs evs' :: "endpoint_event list" and rs rc ps pc
  assume "list_all looks evs \<and> (fst v = ''healthy'' \<longrightarrow> local_ok evs) \<and> \<not> public_ok evs" "v = (rs, rc)"
    "list_all looks evs' \<and> (fst w = ''healthy'' \<longrightarrow> public_ok evs')" "w = (ps, pc)"
  then show "examined (Inr \<lparr>
       ps_Status = (if rs \<noteq> ''healthy'' \<or> ps \<noteq> ''healthy'' then ''degraded'' else ''active''),
       ps_Message = (if rs \<noteq> ''healthy'' then ''Local route behind the Cloudflare tunnel is unhealthy ('' @ name @ '')''
         else if ps \<noteq> ''healthy'' then ''Cloudflare public endpoint is failing even though local routing works''
         else ''Cloudflare tunnel healthy ('' @ name @ '')''),
       ps_ResolvedURL = ''https://'' @ pc_Hostname cfg @ pc_PathPrefix cfg,
       ps_VerifiedBy = (if rs \<noteq> ''healthy'' \<or> ps \<noteq> ''healthy'' then ''agent'' else ''public''),
       ps_RouteStatus = rs, ps_PublicStatus = ps,
       ps_Diagnostics = [''container_check'' \<mapsto> check, ''route_check'' \<mapsto> rc, ''public_check'' \<mapsto> pc]\<rparr>)
     (TunnelLookedUp n # evs @ evs' @ [])"
    by (auto simp: examined_def)
qed

interpretation cftunnel: provider cf_Ensure cf_Disable cf_Doctor
proof unfold_locales
  fix env :: "'w endpoint_env" and cfg
  show "yields (\<lambda>r evs. ensured r) (cf_Ensure env cfg)"
    unfolding cf_Ensure_def Let_def
    by (intro yields_if yields_call_then yields_return) (auto simp: ensured_def no_status_def split: option.split)
  show "yields (\<lambda>r evs. \<exists>st. r = Inr st \<and> ps_Status st = ''disabled'') (cf_Disable env cfg)"
    unfolding cf_Disable_def Let_def
    by (intro yields_if yields_call_then yields_prod yields_return) (auto simp: no_status_def)
  show "emits silent (cf_Ensure env cfg)" "emits silent (cf_Disable env cfg)"
    unfolding cf_Ensure_def cf_Disable_def Let_def by (intro emits_rules; simp)+
  show "yields examined (cf_Doctor env cfg)"
    unfolding cf_Doctor_def Let_def
    by (intro yields_if yields_call_then yields_prod yields_option yields_return cf_examined_law) (auto simp: examined_def no_status_def)
qed

lemma hostname_looks: "emits looks (getTailscaleHostname env)"
  unfolding getTailscaleHostname_def by (intro emits_rules) simp

lemma ts_examined_law: "yields examined (ts_examined env cfg host serve)"
  unfolding ts_examined_def localTraefikCheck_def Let_def
  by (intro yields_call_then yields_return) (auto simp: examined_def no_status_def local_ok_def public_ok_def split: sum.split)

lemma examined_after: "list_all looks evs \<Longrightarrow> examined r evs' \<Longrightarrow> examined r (evs @ evs')"
  by (auto simp: examined_def)

interpretation tailscale: provider ts_Ensure ts_Disable ts_Doctor
proof unfold_locales
  fix env :: "'w endpoint_env" and cfg
  have "yields (\<lambda>r evs. ensured r) (ts_served env cfg host)" for host
    unfolding ts_served_def localTraefikCheck_def Let_def
    by (intro yields_call_then yields_return) (auto simp: ensured_def no_status_def split: sum.split)
  then show "yields (\<lambda>r evs. ensured r) (ts_Ensure env cfg)"
    unfolding ts_Ensure_def
    by (intro yields_prefix [OF hostname_looks] yields_sum yields_call_then yields_prod yields_option yields_return)
      (auto simp: ensured_def no_status_def split: option.split)
  show "yields (\<lambda>r evs. \<exists>st. r = Inr st \<and> ps_Status st = ''disabled'') (ts_Disable env cfg)"
    unfolding ts_Disable_def by (rule yields_return) (simp add: no_status_def)
  have "emits silent (getTailscaleHostname env)" by (rule emits_mono [OF hostname_looks looks_silent])
  moreover have "emits silent (ts_served env cfg host)" for host
    unfolding ts_served_def localTraefikCheck_def Let_def by (intro emits_rules) simp
  ultimately show "emits silent (ts_Ensure env cfg)"
    unfolding ts_Ensure_def by (intro emits_rules) simp_all
  show "emits silent (ts_Disable env cfg)" unfolding ts_Disable_def by (rule emits_return)
  show "yields examined (ts_Doctor env cfg)"
    unfolding ts_Doctor_def
  proof (rule yields_prefix [OF hostname_looks])
    fix host
    have "yields (\<lambda>r evs. examined r ([Ran [''tailscale'', ''serve'', ''status'']] @ evs)) (ts_examined env cfg h s)" for h s
      by (rule yields_mono [OF ts_examined_law]) (rule examined_after, simp_all)
    then show "yields examined (case host of
        Inl err \<Rightarrow> State_Monad.return (Inr (no_status\<lparr>ps_Status := ''error'',
          ps_Message := ''Tailscale is not installed on this server. Install it: https://tailscale.com/download'',
          ps_Diagnostics := [''tailscale_status'' \<mapsto> ''error: '' @ err]\<rparr>))
      | Inr tsHostname \<Rightarrow> do {
          r \<leftarrow> call (\<lambda>_. Ran [''tailscale'', ''serve'', ''status'']) (ee_tailscale env [''serve'', ''status'']);
          ts_examined env cfg tsHostname (case r of (out, Some err) \<Rightarrow> ''error: '' @ err | (out, None) \<Rightarrow> TrimSpace out) })"
      by (intro yields_sum yields_call_then yields_return) (auto simp: examined_def no_status_def)
  qed (rule examined_after)
qed

subsection \<open>The handler\<close>

fun sent :: "endpoint_event list \<Rightarrow> EndpointStatus list" where
  "sent [] = []"
| "sent (StatusSent st # es) = st # sent es"
| "sent (e # es) = sent es"

lemma sent_append [simp]: "sent (es @ fs) = sent es @ sent fs"
  by (induction es rule: sent.induct) simp_all

lemma sent_silent: "list_all silent evs \<Longrightarrow> sent evs = []"
  by (induction evs rule: sent.induct) simp_all

text \<open>What the control plane is told about a command.\<close>

text \<open>The events other than a status handed to the stream.\<close>

definition worked :: "endpoint_event list \<Rightarrow> endpoint_event list" where
  "worked evs = filter silent evs"

definition told :: "EndpointCommand \<Rightarrow> endpoint_event list \<Rightarrow> bool" where
  "told cmd evs \<longleftrightarrow> (case ec_Action cmd of
     UnknownAction n \<Rightarrow> sent evs = []
   | a \<Rightarrow> \<exists>st. sent evs = [st] \<and> es_CommandId st = ec_CommandId cmd \<and> es_EndpointId st = ec_EndpointId cmd \<and>
       (a = ENSURE \<longrightarrow> es_Status st \<in> {''active'', ''provisioning'', ''error''}) \<and>
       (a = DISABLE \<longrightarrow> es_Status st \<in> {''disabled'', ''error''}) \<and>
       (a = DOCTOR \<longrightarrow> es_Status st \<in> {''active'', ''degraded'', ''error''} \<and> (es_Status st = ''active'' \<longrightarrow> local_ok evs) \<and>
         list_all looks (worked evs)))"

lemma status_message_ids: "es_CommandId (status_message cmd r) = ec_CommandId cmd" "es_EndpointId (status_message cmd r) = ec_EndpointId cmd"
  by (simp_all add: status_message_def Let_def)

lemma unknown_error: "es_Status (status_message cmd (Inl err)) = ''error''"
  by (simp add: status_message_def no_status_def Let_def)

lemma dispatch_cases:
  assumes "\<And>err. P (State_Monad.return (Inl err))" "P (action \<lparr>pv_Name = ''lan_only'', pv_Ensure = lan_Ensure, pv_Disable = lan_Disable, pv_Doctor = lan_Doctor\<rparr> env cfg)"
    "P (action \<lparr>pv_Name = ''public_direct'', pv_Ensure = direct_Ensure, pv_Disable = direct_Disable, pv_Doctor = direct_Doctor\<rparr> env cfg)"
    "P (action \<lparr>pv_Name = ''public_tunnel_cloudflare'', pv_Ensure = cf_Ensure, pv_Disable = cf_Disable, pv_Doctor = cf_Doctor\<rparr> env cfg)"
    "P (action \<lparr>pv_Name = ''private_tailscale_https'', pv_Ensure = ts_Ensure, pv_Disable = ts_Disable, pv_Doctor = ts_Doctor\<rparr> env cfg)"
    "P (action \<lparr>pv_Name = ''byo_proxy'', pv_Ensure = byo_Ensure, pv_Disable = byo_Disable, pv_Doctor = byo_Doctor\<rparr> env cfg)"
  shows "P (dispatch action env cfg name)"
proof (cases "Get name :: 'a Provider option")
  case None
  then show ?thesis using assms(1) by (simp add: dispatch_def)
next
  case (Some p)
  then have "p \<in> set providers" unfolding Get_def by (auto dest: first_match_SomeD)
  then show ?thesis using assms(2-) by (auto simp: dispatch_def Some providers_def)
qed

lemma ensure_told: "yields (\<lambda>r evs. list_all silent evs \<and> es_Status (status_message cmd r) \<in> {''active'', ''provisioning'', ''error''}) (HandleEnsure env cfg name)"
  unfolding HandleEnsure_def
  by (rule dispatch_cases)
    (simp_all only: Provider.select_convs lan.ensure_reply direct.ensure_reply cftunnel.ensure_reply tailscale.ensure_reply byo.ensure_reply,
      rule yields_return, simp add: unknown_error)

lemma disable_told: "yields (\<lambda>r evs. list_all silent evs \<and> es_Status (status_message cmd r) \<in> {''disabled'', ''error''}) (HandleDisable env cfg name)"
  unfolding HandleDisable_def
proof (rule dispatch_cases)
  show "yields (\<lambda>r evs. list_all silent evs \<and> es_Status (status_message cmd r) \<in> {''disabled'', ''error''}) (State_Monad.return (Inl err))" for err
    by (rule yields_return) (simp add: unknown_error)
qed (simp_all only: Provider.select_convs, (rule yields_mono [OF lan.disable_reply [of cmd]], simp), (rule yields_mono [OF direct.disable_reply [of cmd]], simp),
  (rule yields_mono [OF cftunnel.disable_reply [of cmd]], simp), (rule yields_mono [OF tailscale.disable_reply [of cmd]], simp),
  (rule yields_mono [OF byo.disable_reply [of cmd]], simp))

lemma doctor_told: "yields (\<lambda>r evs. list_all looks evs \<and> es_Status (status_message cmd r) \<in> {''active'', ''degraded'', ''error''} \<and>
    (es_Status (status_message cmd r) = ''active'' \<longrightarrow> local_ok evs)) (HandleDoctor env cfg name)"
  unfolding HandleDoctor_def
  by (rule dispatch_cases)
    (simp_all only: Provider.select_convs lan.doctor_reply direct.doctor_reply cftunnel.doctor_reply tailscale.doctor_reply byo.doctor_reply,
      rule yields_return, simp add: unknown_error)

lemma upgrade_silent: "emits silent (upgrade_proxy env cmd)"
  unfolding upgrade_proxy_def by (intro emits_rules) simp_all

text \<open>
  C20. For every endpoint command with a known action exactly one status is handed to the stream, for its
  command and endpoint, whichever provider handles it (a failed send is only logged).  All a health check does before
  that is look: probes, name look-ups, dials and status commands; and it reports active only when the local
  route answered a probe with a status that counts as serving.
\<close>

theorem endpoint_command_answered: "yields (\<lambda>r evs. told cmd evs) (HandleEndpoint env cmd)"
proof -
  have sending: "yields (\<lambda>u evs. evs = [StatusSent (status_message cmd r)]) (send_status env cmd r)" for r
    unfolding send_status_def by (intro yields_rules) simp
  have quiet: "list_all looks evs \<Longrightarrow> sent evs = []" for evs
    by (rule sent_silent) (auto simp: list_all_iff intro: looks_silent)
  have seen: "list_all looks evs \<Longrightarrow> list_all looks (worked (evs @ [StatusSent st]))" for evs st
    by (auto simp: worked_def list_all_iff silent_def)
  have alone: "upgrade_proxy env cmd = State_Monad.return ()" if "ec_Action cmd \<noteq> ENSURE"
    using that by (simp add: upgrade_proxy_def)
  show ?thesis
  proof (cases "ec_Action cmd")
    case ENSURE
    have early: "told cmd (evs @ evs')" if "list_all silent evs" "told cmd evs'" for evs evs'
      using that sent_silent [OF that(1)] by (auto simp: told_def ENSURE)
    have rest: "yields (\<lambda>r evs. told cmd evs) (do { r \<leftarrow> HandleEnsure env (ec_Config cmd) (ec_Provider cmd); send_status env cmd r })"
      by (intro yields_bind [OF ensure_told [of cmd]] yields_mono [OF sending])
        (auto simp: told_def ENSURE sent_silent status_message_ids)
    show ?thesis unfolding HandleEndpoint_def ENSURE endpoint_action.case
      by (rule yields_prefix [OF upgrade_silent rest early])
  next
    case DISABLE
    then show ?thesis unfolding HandleEndpoint_def alone [unfolded DISABLE, simplified] bind_left_identity DISABLE endpoint_action.case
      by (intro yields_bind [OF disable_told [of cmd]] yields_mono [OF sending])
        (auto simp: told_def DISABLE sent_silent status_message_ids)
  next
    case DOCTOR
    then show ?thesis unfolding HandleEndpoint_def alone [unfolded DOCTOR, simplified] bind_left_identity DOCTOR endpoint_action.case
      by (intro yields_bind [OF doctor_told [of cmd]] yields_mono [OF sending])
        (auto simp: told_def DOCTOR quiet seen status_message_ids)
  next
    case (UnknownAction n)
    then show ?thesis unfolding HandleEndpoint_def alone [unfolded UnknownAction, simplified] bind_left_identity UnknownAction
        endpoint_action.case
      by (simp add: told_def UnknownAction yields_return)
  qed
qed

end
