(* ===== verification/Semver.thy ===== *)
theory Semver
  imports Go_Strings "HOL-Library.Product_Lexorder"
begin

text \<open>
  Version comparison of the self-updater (\<^verbatim>\<open>parseSemver\<close> and \<^verbatim>\<open>isDowngrade\<close> of
  \<^verbatim>\<open>internal/selfupdate/selfupdate.go\<close>).  Errors of \<^verbatim>\<open>strconv.Atoi\<close> are dropped, so a part that
  is no number counts as 0 and one out of range as the nearest 64-bit integer.
\<close>

definition parseSemver :: "string \<Rightarrow> int \<times> int \<times> int" where
  "parseSemver v = (case SplitN (TrimPrefix v ''v'') (CHR ''.'') 3 of
     [a, b, c] \<Rightarrow> (Atoi_value a, Atoi_value b, Atoi_value (SplitN c (CHR ''-'') 2 ! 0))
   | _ \<Rightarrow> (0, 0, 0))"

definition isDowngrade :: "string \<Rightarrow> string \<Rightarrow> bool" where
  "isDowngrade currentVersion newVersion =
     (case (parseSemver currentVersion, parseSemver newVersion) of
        ((cMaj, cMin, cPatch), (nMaj, nMin, nPatch)) \<Rightarrow>
          if nMaj \<noteq> cMaj then nMaj < cMaj
          else if nMin \<noteq> cMin then nMin < cMin
          else nPatch < cPatch)"

text \<open>A release as it is written, with an optional prefix and an optional pre-release.\<close>

definition version_text :: "bool \<Rightarrow> nat \<times> nat \<times> nat \<Rightarrow> string option \<Rightarrow> string" where
  "version_text v r pre = (case r of (a, b, c) \<Rightarrow>
     (if v then ''v'' else []) @ show_nat a @ ''.'' @ show_nat b @ ''.'' @ show_nat c @
     (case pre of None \<Rightarrow> [] | Some p \<Rightarrow> ''-'' @ p))"

lemma SplitN_append:
  assumes "sep \<notin> set xs" "1 < n"
  shows "SplitN (xs @ sep # ys) sep n = xs # SplitN ys sep (n - 1)"
  using assms by (induction xs) auto

lemma SplitN_absent: "sep \<notin> set xs \<Longrightarrow> SplitN xs sep n = [xs]"
  by (induction xs) auto

lemma SplitN_1: "SplitN xs sep 1 = [xs]"
  by (induction xs) auto

lemma digits_free: "\<not> is_digit c \<Longrightarrow> c \<notin> set (show_nat n)"
  using show_nat_digits by blast

lemma atoi_parse_show_nat: "atoi_parse (show_nat n) = Some (int n)"
proof -
  obtain c cs where s: "show_nat n = c # cs" using show_nat_not_Nil by (metis neq_Nil_conv)
  then have "is_digit c" using show_nat_digits [of n] by simp
  then show ?thesis using nat_of_digits_show_nat [of n] by (simp add: atoi_parse_def s digit_not_special)
qed

lemma Atoi_show_nat: "int n \<le> max_int64 \<Longrightarrow> Atoi_value (show_nat n) = int n"
  by (simp add: Atoi_value_def min_int64_def atoi_parse_show_nat)

text \<open>
  Parsing inverts writing: the three numbers of a release are read back, with or without the
  prefix and whatever the pre-release part is, as long as they are 64-bit integers.
\<close>

theorem parseSemver_version_text:
  assumes "int a \<le> max_int64" "int b \<le> max_int64" "int c \<le> max_int64"
  shows "parseSemver (version_text v (a, b, c) pre) = (int a, int b, int c)"
proof -
  let ?rest = "case pre of None \<Rightarrow> [] | Some p \<Rightarrow> CHR ''-'' # p"
  have dot: "CHR ''.'' \<notin> set (show_nat n)" "CHR ''-'' \<notin> set (show_nat n)" "CHR ''v'' \<notin> set (show_nat n)" for n
    by (rule digits_free, simp add: is_digit_def)+
  have written: "version_text v (a, b, c) pre = (if v then ''v'' else []) @
      show_nat a @ CHR ''.'' # show_nat b @ CHR ''.'' # show_nat c @ ?rest"
    by (simp add: version_text_def split: option.split)
  have "hd (show_nat a) \<noteq> CHR ''v''" using dot(3) [of a] hd_in_set [OF show_nat_not_Nil, of a] by metis
  then have trim: "TrimPrefix (version_text v (a, b, c) pre) ''v'' =
      show_nat a @ CHR ''.'' # show_nat b @ CHR ''.'' # show_nat c @ ?rest"
    unfolding written TrimPrefix_def by (cases "show_nat a") (auto simp: HasPrefix_def)
  have split: "SplitN (show_nat a @ CHR ''.'' # show_nat b @ CHR ''.'' # show_nat c @ ?rest) (CHR ''.'') 3 =
      [show_nat a, show_nat b, show_nat c @ ?rest]"
    using dot(1) by (simp add: SplitN_append SplitN_1 [simplified])
  have patch: "SplitN (show_nat c @ ?rest) (CHR ''-'') 2 ! 0 = show_nat c"
    using dot(2) by (cases pre) (simp_all add: SplitN_append SplitN_absent)
  show ?thesis
    unfolding parseSemver_def trim split by (simp add: patch Atoi_show_nat assms)
qed

lemma parseSemver_version_text_witness:
  "parseSemver (version_text True (1, 12, 3) (Some ''rc.1'')) = (1, 12, 3)"
  using parseSemver_version_text [of 1 12 3 True "Some ''rc.1''"] by (simp add: max_int64_def)

text \<open>
  C38. A version is a downgrade exactly when its numbers are lexicographically smaller: the
  comparison is the library's linear order on triples, so no version is a downgrade of itself and
  a chain of accepted updates never goes back.
\<close>

theorem isDowngrade_lexicographic: "isDowngrade cur new \<longleftrightarrow> parseSemver new < parseSemver cur"
  by (cases "parseSemver cur"; cases "parseSemver new") (auto simp: isDowngrade_def)

text \<open>
  Pre-releases are not told apart from their release, and a current version that is no
  release (such as \<^verbatim>\<open>dev\<close>) accepts every version.
\<close>

lemma prerelease_not_downgrade: "\<not> isDowngrade ''1.2.3'' ''1.2.3-rc1''" "\<not> isDowngrade ''dev'' ''0.0.1''"
  by code_simp+

end
