(* ===== verification/Self_Update.thy ===== *)
theory Self_Update
  imports Semver Files
begin

text \<open>
  The self-updater (\<^verbatim>\<open>internal/selfupdate\<close>), the update command (\<^verbatim>\<open>HandleUpdate\<close> of
  \<^verbatim>\<open>internal/agent/handler.go\<close>) and the check after a restart (\<^verbatim>\<open>checkPendingUpdate\<close> of
  \<^verbatim>\<open>internal/agent/agent.go\<close>), over the file system of \<open>Files\<close>.  Downloading, hashing, archive
  decoding, PEM, PKIX and ECDSA are library work: the parameters of \<open>update_env\<close>.  An archive is
  decoded into its entries, in order, and the error that ended the decoding, if one did.
\<close>

record archive_entry =
  ar_Name :: "string list"   \<comment> \<open>the components of the path\<close>
  ar_Regular :: bool
  ar_Content :: string

datatype public_key = EcdsaKey string | OtherKey string   \<comment> \<open>key, name of its type\<close>

record update_env =
  ue_Executable :: "(path \<times> string) result"   \<comment> \<open>directory and base name\<close>
  ue_EvalSymlinks :: "path \<times> string \<Rightarrow> path \<times> string"   \<comment> \<open>the argument itself when it fails\<close>
  ue_tempDir :: path
  ue_Get :: "nat \<Rightarrow> string \<Rightarrow> string result"   \<comment> \<open>by attempt\<close>
  ue_sha256 :: "string \<Rightarrow> string"   \<comment> \<open>hexadecimal digest\<close>
  ue_untar :: "string \<Rightarrow> archive_entry list \<times> go_error option"
  ue_pem :: "string \<Rightarrow> string option"
  ue_ParsePKIX :: "string \<Rightarrow> public_key result"
  ue_unhex :: "string \<Rightarrow> string result"
  ue_VerifyASN1 :: "string \<Rightarrow> string \<Rightarrow> string \<Rightarrow> bool"
  ue_SigningPublicKey :: string

record PhaseError =
  pe_Phase :: string
  pe_Err :: go_error

definition phase_error :: "string \<Rightarrow> go_error \<Rightarrow> PhaseError" where
  "phase_error phase err = \<lparr>pe_Phase = phase, pe_Err = err\<rparr>"

definition IsRetryable :: "PhaseError \<Rightarrow> bool" where
  "IsRetryable err \<longleftrightarrow> pe_Phase err = ''download''"

subsection \<open>Files\<close>

definition create_file :: "path \<Rightarrow> bool fsm" where
  "create_file p = attempt (CreateFile p) (AList.update p [])"

definition copyFile :: "path \<Rightarrow> path \<Rightarrow> bool fsm" where
  "copyFile src dst = do {
     content \<leftarrow> read_file src;
     (case content of
        None \<Rightarrow> State_Monad.return False
      | Some c \<Rightarrow> do {
          ok \<leftarrow> create_file dst;
          if \<not> ok then State_Monad.return False else write_file dst c }) }"

definition suffixed :: "path \<times> string \<Rightarrow> string \<Rightarrow> path" where
  "suffixed p ext = fst p @ [snd p @ ext]"

definition replaceFile :: "path \<Rightarrow> path \<times> string \<Rightarrow> go_error option fsm" where
  "replaceFile src dst =
     (let staged = suffixed dst ''.new''; backup = suffixed dst ''.old''; target = suffixed dst [] in do {
        ok \<leftarrow> copyFile src staged;
        if \<not> ok then State_Monad.return (Some (''staging new binary: '' @ os_error)) else do {
        ok \<leftarrow> attempt (Chmod staged) (\<lambda>d. d);
        if \<not> ok then do { _ \<leftarrow> remove_file staged; State_Monad.return (Some (''chmod staged binary: '' @ os_error)) } else do {
        _ \<leftarrow> remove_file backup;
        ok \<leftarrow> rename_file target backup;
        if \<not> ok then do { _ \<leftarrow> remove_file staged; State_Monad.return (Some (''rename current to .old: '' @ os_error)) } else do {
        ok \<leftarrow> rename_file staged target;
        if \<not> ok then do { _ \<leftarrow> rename_file backup target; State_Monad.return (Some (''rename .new into place: '' @ os_error)) } else do {
        _ \<leftarrow> remove_file backup;
        State_Monad.return None } } } } })"

text \<open>The path of the running binary: stale suffixes of an earlier update are removed.\<close>

definition resolveExecPath :: "update_env \<Rightarrow> (path \<times> string) result fsm" where
  "resolveExecPath env = (case ue_Executable env of
     Inl err \<Rightarrow> State_Monad.return (Inl err)
   | Inr (dir, raw) \<Rightarrow>
      (let base = TrimSuffix raw '' (deleted)'' in
       if HasSuffix base ''.old'' \<or> HasSuffix base ''.new'' then
         (let canonical = TrimSuffix (TrimSuffix base ''.old'') ''.new'' in do {
            exists \<leftarrow> regularFile (dir @ [canonical]);
            State_Monad.return (Inr (ue_EvalSymlinks env (dir, if exists then canonical else base))) })
       else State_Monad.return (Inr (ue_EvalSymlinks env (dir, base)))))"

subsection \<open>Verification\<close>

definition VerifySignature :: "update_env \<Rightarrow> string \<Rightarrow> string \<Rightarrow> string \<Rightarrow> go_error option" where
  "VerifySignature env fileHashHex signatureHex pubKeyPEM =
     (if length pubKeyPEM = 0 then Some ''no signing public key embedded in binary''
      else case ue_pem env pubKeyPEM of
        None \<Rightarrow> Some ''failed to decode PEM public key''
      | Some block \<Rightarrow>
         (case ue_ParsePKIX env block of
            Inl err \<Rightarrow> Some (''failed to parse public key: '' @ err)
          | Inr (OtherKey t) \<Rightarrow> Some (''public key is not ECDSA (got '' @ t @ '')'')
          | Inr (EcdsaKey key) \<Rightarrow>
             (case ue_unhex env fileHashHex of
                Inl err \<Rightarrow> Some (''invalid file hash hex: '' @ err)
              | Inr hash \<Rightarrow>
                 (case ue_unhex env signatureHex of
                    Inl err \<Rightarrow> Some (''invalid signature hex: '' @ err)
                  | Inr sig \<Rightarrow>
                      if ue_VerifyASN1 env key hash sig then None
                      else Some (''signature verification failed '' @ em_dash @ '' binary may have been tampered with'')))))"

fun find_binary :: "archive_entry list \<Rightarrow> go_error option \<Rightarrow> string result" where
  "find_binary [] ending = (case ending of Some err \<Rightarrow> Inl err | None \<Rightarrow> Inl ''clank-agent binary not found in archive'')"
| "find_binary (e # es) ending =
     (if ar_Name e \<noteq> [] \<and> HasPrefix (last (ar_Name e)) ''clank-agent'' \<and> ar_Regular e then Inr (ar_Content e)
      else find_binary es ending)"

definition archive_binary :: "update_env \<Rightarrow> string \<Rightarrow> string result" where
  "archive_binary env archive = (case ue_untar env archive of (es, ending) \<Rightarrow> find_binary es ending)"

definition extractBinary :: "update_env \<Rightarrow> path \<Rightarrow> path \<Rightarrow> go_error option fsm" where
  "extractBinary env archivePath destPath = do {
     content \<leftarrow> read_file archivePath;
     (case content of
        None \<Rightarrow> State_Monad.return (Some os_error)
      | Some archive \<Rightarrow>
         (case archive_binary env archive of
            Inl err \<Rightarrow> State_Monad.return (Some err)
          | Inr binary \<Rightarrow> do {
              ok \<leftarrow> create_file destPath;
              if \<not> ok then State_Monad.return (Some os_error) else do {
              ok \<leftarrow> write_file destPath binary;
              State_Monad.return (if ok then None else Some os_error) } })) }"

definition downloadFile :: "update_env \<Rightarrow> nat \<Rightarrow> string \<Rightarrow> path \<Rightarrow> go_error option fsm" where
  "downloadFile env n url dest = (case ue_Get env n url of
     Inl err \<Rightarrow> State_Monad.return (Some err)
   | Inr body \<Rightarrow> do {
       ok \<leftarrow> create_file dest;
       if \<not> ok then State_Monad.return (Some os_error) else do {
       ok \<leftarrow> write_file dest body;
       State_Monad.return (if ok then None else Some os_error) } })"

record update_command =
  uc_DownloadUrl :: string
  uc_Sha256 :: string
  uc_Signature :: string
  uc_CurrentVersion :: string
  uc_Version :: string

definition downgrade_rejected :: "update_command \<Rightarrow> PhaseError" where
  "downgrade_rejected cmd = phase_error ''version'' (''downgrade rejected: '' @ uc_CurrentVersion cmd @ '' '' @ arrow @ '' '' @
     uc_Version cmd @ '' (current > requested)'')"

text \<open>The checks on the archive: checksum, then signature.\<close>

definition check_archive :: "update_env \<Rightarrow> update_command \<Rightarrow> path \<Rightarrow> PhaseError option fsm" where
  "check_archive env cmd archivePath = do {
     content \<leftarrow> (if uc_Sha256 cmd = [] then State_Monad.return (Some []) else read_file archivePath);
     (case content of
        None \<Rightarrow> State_Monad.return (Some (phase_error ''checksum'' (''computing checksum: '' @ os_error)))
      | Some c \<Rightarrow>
          if uc_Sha256 cmd \<noteq> [] \<and> \<not> EqualFold (ue_sha256 env c) (uc_Sha256 cmd)
          then State_Monad.return (Some (phase_error ''checksum''
            (''checksum mismatch: expected '' @ uc_Sha256 cmd @ '', got '' @ ue_sha256 env c)))
          else if uc_Signature cmd \<noteq> [] \<and> length (ue_SigningPublicKey env) > 0 then do {
            signed \<leftarrow> read_file archivePath;
            State_Monad.return (case signed of
              None \<Rightarrow> Some (phase_error ''signature'' (''computing hash for signature: '' @ os_error))
            | Some a \<Rightarrow> (case VerifySignature env (ue_sha256 env a) (uc_Signature cmd) (ue_SigningPublicKey env) of
                Some err \<Rightarrow> Some (phase_error ''signature'' err)
              | None \<Rightarrow> None)) }
          else if uc_Signature cmd = [] \<and> length (ue_SigningPublicKey env) > 0
          then State_Monad.return (Some (phase_error ''signature''
            (''unsigned update rejected '' @ em_dash @ '' signing key is embedded but no signature was provided'')))
          else State_Monad.return None) }"

text \<open>The steps of an update that work below the temporary directory, which is removed afterwards.\<close>

definition install_extracted :: "path \<Rightarrow> path \<times> string \<Rightarrow> PhaseError option fsm" where
  "install_extracted newBinaryPath execPath = do {
     ok \<leftarrow> attempt (Chmod newBinaryPath) (\<lambda>d. d);
     if \<not> ok then State_Monad.return (Some (phase_error ''extract'' (''setting permissions: '' @ os_error)))
     else do {
     err \<leftarrow> replaceFile newBinaryPath execPath;
     State_Monad.return (map_option (\<lambda>e. phase_error ''replace'' (''replacing binary: '' @ e)) err) } }"

definition install_checked :: "update_env \<Rightarrow> path \<Rightarrow> path \<Rightarrow> path \<times> string \<Rightarrow> PhaseError option fsm" where
  "install_checked env archivePath newBinaryPath execPath = do {
     err \<leftarrow> extractBinary env archivePath newBinaryPath;
     (case err of
        None \<Rightarrow> install_extracted newBinaryPath execPath
      | Some e \<Rightarrow> State_Monad.return (Some (phase_error ''extract'' (''extracting binary: '' @ e)))) }"

definition install_fetched :: "update_env \<Rightarrow> update_command \<Rightarrow> path \<Rightarrow> path \<Rightarrow> path \<times> string \<Rightarrow> PhaseError option fsm" where
  "install_fetched env cmd archivePath newBinaryPath execPath = do {
     err \<leftarrow> check_archive env cmd archivePath;
     (case err of
        None \<Rightarrow> install_checked env archivePath newBinaryPath execPath
      | Some e \<Rightarrow> State_Monad.return (Some e)) }"

definition fetch_and_replace :: "update_env \<Rightarrow> nat \<Rightarrow> update_command \<Rightarrow> path \<times> string \<Rightarrow> PhaseError option fsm" where
  "fetch_and_replace env n cmd execPath =
     (let archivePath = ue_tempDir env @ [''archive.tar.gz'']; newBinaryPath = ue_tempDir env @ [''clank-agent''] in do {
      err \<leftarrow> downloadFile env n (uc_DownloadUrl cmd) archivePath;
      (case err of
         None \<Rightarrow> install_fetched env cmd archivePath newBinaryPath execPath
       | Some e \<Rightarrow> State_Monad.return (Some (phase_error ''download'' (''downloading archive: '' @ e)))) })"

definition Apply :: "update_env \<Rightarrow> nat \<Rightarrow> update_command \<Rightarrow> PhaseError option fsm" where
  "Apply env n cmd =
     (if uc_CurrentVersion cmd = uc_Version cmd then State_Monad.return None
      else if isDowngrade (uc_CurrentVersion cmd) (uc_Version cmd)
      then State_Monad.return (Some (downgrade_rejected cmd))
      else do {
        resolved \<leftarrow> resolveExecPath env;
        (case resolved of
           Inl err \<Rightarrow> State_Monad.return (Some (phase_error ''replace'' (''resolving executable path: '' @ err)))
         | Inr execPath \<Rightarrow> do {
             ok \<leftarrow> mkdir (ue_tempDir env);
             if \<not> ok then State_Monad.return (Some (phase_error ''download'' (''creating temp dir: '' @ os_error)))
             else do {
             result \<leftarrow> fetch_and_replace env n cmd execPath;
             _ \<leftarrow> remove_all (ue_tempDir env);
             State_Monad.return result } }) })"

definition prev_path :: "path \<times> string \<Rightarrow> path" where
  "prev_path execPath = fst execPath @ [''clank-agent.prev'']"

definition BackupAndApply :: "update_env \<Rightarrow> nat \<Rightarrow> update_command \<Rightarrow> PhaseError option fsm" where
  "BackupAndApply env n cmd =
     (if uc_CurrentVersion cmd = uc_Version cmd then State_Monad.return None
      else if isDowngrade (uc_CurrentVersion cmd) (uc_Version cmd)
      then State_Monad.return (Some (downgrade_rejected cmd))
      else do {
        resolved \<leftarrow> resolveExecPath env;
        (case resolved of
           Inl err \<Rightarrow> State_Monad.return (Some (phase_error ''backup'' (''resolving executable path: '' @ err)))
         | Inr execPath \<Rightarrow> do {
             let backupPath = prev_path execPath;
             ok \<leftarrow> copyFile (suffixed execPath []) backupPath;
             if \<not> ok then State_Monad.return (Some (phase_error ''backup'' (''creating backup: '' @ os_error)))
             else do {
             ok \<leftarrow> attempt (Chmod backupPath) (\<lambda>d. d);
             if \<not> ok then do {
               _ \<leftarrow> remove_file backupPath;
               State_Monad.return (Some (phase_error ''backup'' (''setting backup permissions: '' @ os_error))) }
             else do {
             err \<leftarrow> Apply env n cmd;
             (case err of
                None \<Rightarrow> State_Monad.return None
              | Some e \<Rightarrow> do {
                  _ \<leftarrow> replaceFile backupPath execPath;
                  State_Monad.return (Some e) }) } } }) })"

definition Rollback_update :: "update_env \<Rightarrow> go_error option fsm" where
  "Rollback_update env = do {
     resolved \<leftarrow> resolveExecPath env;
     (case resolved of
        Inl err \<Rightarrow> State_Monad.return (Some (''resolving executable path: '' @ err))
      | Inr execPath \<Rightarrow> do {
          exists \<leftarrow> regularFile (prev_path execPath);
          if \<not> exists then State_Monad.return (Some (''no backup found at /'' @ Join ''/'' (prev_path execPath)))
          else do {
          err \<leftarrow> replaceFile (prev_path execPath) execPath;
          State_Monad.return (case err of None \<Rightarrow> None | Some e \<Rightarrow> Some (''restoring backup: '' @ e)) } }) }"

subsection \<open>What the file operations do\<close>

lemma runs_create_then:
  assumes "\<not> is_temp p" "I (v(p \<mapsto> []))" "runs_reliably I (v(p \<mapsto> [])) (f True) Q" "runs_reliably I v (f False) Q"
  shows "runs_reliably I v (State_Monad.bind (create_file p) f) Q"
proof (rule runs_bind)
  show "runs_reliably I v (create_file p) (\<lambda>ok w. w = (if ok then v(p \<mapsto> []) else v))"
    unfolding runs_reliably_def create_file_def by (rule safe_attempt) (use assms(1, 2) in \<open>simp add: view_update\<close>)
qed (use assms(3, 4) in \<open>simp split: if_splits\<close>)

lemma runs_rename_ok:
  assumes "\<not> is_temp p" "\<not> is_temp q" "p \<noteq> q" "v p = Some c" "I (v(p := None, q \<mapsto> c))" "runs_reliably I (v(p := None, q \<mapsto> c)) n Q"
  shows "runs_reliably I v (do { ok \<leftarrow> rename_file p q; if \<not> ok then m else n }) Q"
  by (rule runs_rename_then [where c = c]) (simp_all add: assms)

definition partly_copied :: "named \<Rightarrow> path \<Rightarrow> string \<Rightarrow> named \<Rightarrow> bool" where
  "partly_copied v p c w \<longleftrightarrow> w = v \<or> (\<exists>k. w = v(p \<mapsto> take k c))"

lemma partly_copied_simps [simp]: "partly_copied v p c v" "partly_copied v p c (v(p \<mapsto> take k c))"
    "partly_copied v p c (v(p \<mapsto> []))" "partly_copied v p c (v(p \<mapsto> c))"
  by (auto simp: partly_copied_def intro: exI [of _ "0::nat"] exI [of _ "length c"])

lemma runs_fill_then:
  assumes "\<not> is_temp p" "\<And>w. partly_copied v p c w \<Longrightarrow> I w" "\<And>w. partly_copied v p c w \<Longrightarrow> runs_reliably I w m Q"
    "runs_reliably I (v(p \<mapsto> c)) (f True) Q" "\<And>w. partly_copied v p c w \<Longrightarrow> runs_reliably I w (f False) Q"
  shows "runs_reliably I v (do { ok \<leftarrow> create_file p; if \<not> ok then m else State_Monad.bind (write_file p c) f }) Q"
proof (rule runs_create_then)
  have "runs_reliably I (v(p \<mapsto> [])) (State_Monad.bind (write_file p c) f) Q"
    by (rule runs_write_file_then) (use assms in simp_all)
  then show "runs_reliably I (v(p \<mapsto> [])) (if \<not> True then m else State_Monad.bind (write_file p c) f) Q" by simp
qed (use assms in simp_all)

lemma runs_copyFile_then:
  assumes "\<not> is_temp src" "\<not> is_temp dst" "v src = Some c" "\<And>w. partly_copied v dst c w \<Longrightarrow> I w"
    "runs_reliably I (v(dst \<mapsto> c)) (f True) Q" "\<And>w. partly_copied v dst c w \<Longrightarrow> runs_reliably I w (f False) Q"
  shows "runs_reliably I v (State_Monad.bind (copyFile src dst) f) Q"
proof (rule runs_bind)
  let ?R = "\<lambda>ok w. if ok then w = v(dst \<mapsto> c) else partly_copied v dst c w"
  have "runs_reliably I v (do { ok \<leftarrow> create_file dst; if \<not> ok then State_Monad.return False
      else State_Monad.bind (write_file dst c) State_Monad.return }) ?R"
    by (rule runs_fill_then) (use assms in \<open>simp_all add: runs_return\<close>)
  then show "runs_reliably I v (copyFile src dst) ?R"
    unfolding copyFile_def bind_right_identity using assms(1, 3, 4) by (intro runs_read_then) simp_all
qed (use assms(5, 6) in \<open>simp split: if_splits\<close>)

definition same_but :: "path set \<Rightarrow> named \<Rightarrow> named \<Rightarrow> bool" where
  "same_but X v w \<longleftrightarrow> (\<forall>p. p \<notin> X \<longrightarrow> w p = v p)"

lemma same_but_refl [simp]: "same_but X v v"
  by (simp add: same_but_def)

lemma same_but_update: "p \<in> X \<Longrightarrow> same_but X v w \<Longrightarrow> same_but X v (w(p := c))"
  by (auto simp: same_but_def)

lemma same_but_copied: "partly_copied u p c w \<Longrightarrow> p \<in> X \<Longrightarrow> same_but X v u \<Longrightarrow> same_but X v w"
  by (auto simp: partly_copied_def same_but_update)

text \<open>The names an installation of the binary at \<open>dst\<close> touches, and what it leaves at each moment.\<close>

definition install_names :: "path \<times> string \<Rightarrow> path set" where
  "install_names dst = {suffixed dst [], suffixed dst ''.new'', suffixed dst ''.old''}"

definition installing :: "path \<times> string \<Rightarrow> string \<Rightarrow> string \<Rightarrow> named \<Rightarrow> named \<Rightarrow> bool" where
  "installing dst b c v w \<longleftrightarrow> same_but (install_names dst) v w \<and>
     (w (suffixed dst []) = Some b \<or> w (suffixed dst []) = Some c \<or>
      w (suffixed dst []) = None \<and> w (suffixed dst ''.old'') = Some b)"

lemma suffixed_distinct [simp]:
  "suffixed dst x = suffixed dst y \<longleftrightarrow> x = y"
  by (simp add: suffixed_def)

lemma install_names_simps [simp]:
  "suffixed dst [] \<in> install_names dst" "suffixed dst ''.new'' \<in> install_names dst" "suffixed dst ''.old'' \<in> install_names dst"
  by (simp_all add: install_names_def)

lemma runs_replaceFile:
  assumes names: "\<And>x. x \<in> install_names dst \<Longrightarrow> \<not> is_temp x" "\<not> is_temp src" "src \<notin> install_names dst"
    and v: "v src = Some c" "v (suffixed dst []) = Some b"
    and I: "\<And>w. installing dst b c v w \<Longrightarrow> I w"
    and ok: "\<And>w. same_but (install_names dst) v w \<Longrightarrow> w (suffixed dst []) = Some c \<Longrightarrow> Q None w"
    and failed: "\<And>e w. same_but (install_names dst) v w \<Longrightarrow> w (suffixed dst []) = Some b \<Longrightarrow> Q (Some e) w"
  shows "runs_reliably I v (replaceFile src dst) Q"
proof -
  let ?t = "suffixed dst []" and ?n = "suffixed dst ''.new''" and ?o = "suffixed dst ''.old''"
  have nt: "\<not> is_temp ?t" "\<not> is_temp ?n" "\<not> is_temp ?o" by (rule names(1), simp add: install_names_def)+
  let ?w = "v(?n \<mapsto> c)"
  have keep: "installing dst b c v w" if "same_but (install_names dst) v w" "w ?t = Some b" for w
    using that by (simp add: installing_def)
  have part: "same_but (install_names dst) v w" "w ?t = Some b" if "partly_copied v ?n c w" for w
    using that v(2) by (auto simp: partly_copied_def install_names_def same_but_update)
  have swap: "runs_reliably I w (do {
        ok \<leftarrow> rename_file ?t ?o;
        if \<not> ok then do { _ \<leftarrow> remove_file ?n; State_Monad.return (Some (''rename current to .old: '' @ os_error)) } else do {
        ok \<leftarrow> rename_file ?n ?t;
        if \<not> ok then do { _ \<leftarrow> rename_file ?o ?t; State_Monad.return (Some (''rename .new into place: '' @ os_error)) } else do {
        _ \<leftarrow> remove_file ?o;
        State_Monad.return None } } }) Q"
    if w: "same_but (install_names dst) v w" "w ?t = Some b" "w ?n = Some c" for w
  proof -
    show ?thesis
    proof (rule runs_rename_ok [where c = b])
      show "runs_reliably I (w(?t := None, ?o \<mapsto> b)) (do {
        ok \<leftarrow> rename_file ?n ?t;
        if \<not> ok then do { _ \<leftarrow> rename_file ?o ?t; State_Monad.return (Some (''rename .new into place: '' @ os_error)) } else do {
        _ \<leftarrow> remove_file ?o;
        State_Monad.return None } }) Q"
      proof (rule runs_rename_ok [where c = c])
        show "runs_reliably I (w(?t := None, ?o \<mapsto> b, ?n := None, ?t \<mapsto> c)) (do { _ \<leftarrow> remove_file ?o; State_Monad.return None }) Q"
          by (rule runs_remove_then) (auto simp: nt installing_def intro!: I runs_return ok same_but_update w(1))
      qed (auto simp: nt w installing_def intro!: I same_but_update)
    qed (auto simp: nt w installing_def intro!: I same_but_update)
  qed
  show ?thesis unfolding replaceFile_def Let_def
  proof (rule runs_copyFile_then, simp_all only: not_True_eq_False not_False_eq_True if_True if_False)
    show "runs_reliably I w (State_Monad.return (Some (''staging new binary: '' @ os_error))) Q" if "partly_copied v ?n c w" for w
      by (rule runs_return) (rule failed [OF part [OF that]])
    have n: "same_but (install_names dst) v ?w" "?w ?t = Some b" using part [of ?w] by simp_all
    show "runs_reliably I ?w (do {
        ok \<leftarrow> attempt (Chmod ?n) (\<lambda>d. d);
        if \<not> ok then do { _ \<leftarrow> remove_file ?n; State_Monad.return (Some (''chmod staged binary: '' @ os_error)) } else do {
        _ \<leftarrow> remove_file ?o;
        ok \<leftarrow> rename_file ?t ?o;
        if \<not> ok then do { _ \<leftarrow> remove_file ?n; State_Monad.return (Some (''rename current to .old: '' @ os_error)) } else do {
        ok \<leftarrow> rename_file ?n ?t;
        if \<not> ok then do { _ \<leftarrow> rename_file ?o ?t; State_Monad.return (Some (''rename .new into place: '' @ os_error)) } else do {
        _ \<leftarrow> remove_file ?o;
        State_Monad.return None } } } }) Q"
    proof (rule runs_keep_then, rule I, rule keep [OF n], rule runs_if)
      show "runs_reliably I ?w (do { _ \<leftarrow> remove_file ?n; State_Monad.return (Some (''chmod staged binary: '' @ os_error)) }) Q"
        by (rule runs_remove_then)
          (auto simp: nt v(2) intro!: I keep same_but_update runs_return failed)
      show "runs_reliably I ?w (do {
        _ \<leftarrow> remove_file ?o;
        ok \<leftarrow> rename_file ?t ?o;
        if \<not> ok then do { _ \<leftarrow> remove_file ?n; State_Monad.return (Some (''rename current to .old: '' @ os_error)) } else do {
        ok \<leftarrow> rename_file ?n ?t;
        if \<not> ok then do { _ \<leftarrow> rename_file ?o ?t; State_Monad.return (Some (''rename .new into place: '' @ os_error)) } else do {
        _ \<leftarrow> remove_file ?o;
        State_Monad.return None } } }) Q"
        by (rule runs_remove_then)
          (auto simp: nt v(2) intro!: I keep same_but_update swap)
    qed
  qed (use nt names v I keep part in auto)
qed
subsection \<open>What an update can install\<close>

definition archive_checked :: "update_env \<Rightarrow> update_command \<Rightarrow> string \<Rightarrow> bool" where
  "archive_checked env cmd a \<longleftrightarrow> (uc_Sha256 cmd \<noteq> [] \<longrightarrow> EqualFold (ue_sha256 env a) (uc_Sha256 cmd)) \<and>
     (ue_SigningPublicKey env \<noteq> [] \<longrightarrow> uc_Signature cmd \<noteq> [] \<and>
        VerifySignature env (ue_sha256 env a) (uc_Signature cmd) (ue_SigningPublicKey env) = None)"

definition authentic :: "update_env \<Rightarrow> update_command \<Rightarrow> string \<Rightarrow> bool" where
  "authentic env cmd c \<longleftrightarrow> \<not> isDowngrade (uc_CurrentVersion cmd) (uc_Version cmd) \<and>
     (\<exists>n a. ue_Get env n (uc_DownloadUrl cmd) = Inr a \<and> archive_checked env cmd a \<and> archive_binary env a = Inr c)"

text \<open>
  The binary is at \<open>exec\<close>, under an ordinary name, and the temporary directory is elsewhere.
\<close>

definition update_setup :: "update_env \<Rightarrow> path \<times> string \<Rightarrow> bool" where
  "update_setup env exec \<longleftrightarrow> (\<exists>dir raw. ue_Executable env = Inr (dir, raw) \<and>
       \<not> HasSuffix (TrimSuffix raw '' (deleted)'') ''.old'' \<and> \<not> HasSuffix (TrimSuffix raw '' (deleted)'') ''.new'' \<and>
       ue_EvalSymlinks env (dir, TrimSuffix raw '' (deleted)'') = exec) \<and>
     snd exec \<noteq> [] \<and> hd (snd exec) \<noteq> CHR ''.'' \<and> snd exec \<noteq> ''clank-agent.prev'' \<and> snd exec \<noteq> ''update-state.json'' \<and>
     (\<forall>x. \<not> below (ue_tempDir env) (fst exec @ [x]))"

text \<open>What a crash can leave: the old binary, an authentic new one, or the old one under its second name.\<close>

definition binary_state :: "update_env \<Rightarrow> update_command \<Rightarrow> path \<times> string \<Rightarrow> string \<Rightarrow> named \<Rightarrow> bool" where
  "binary_state env cmd exec b w \<longleftrightarrow>
     w (suffixed exec []) = Some b \<or> (\<exists>c. authentic env cmd c \<and> w (suffixed exec []) = Some c) \<or>
     w (suffixed exec []) = None \<and> w (suffixed exec ''.old'') = Some b"

lemma resolve_setup: "update_setup env exec \<Longrightarrow> resolveExecPath env = State_Monad.return (Inr exec)"
  by (auto simp: update_setup_def resolveExecPath_def Let_def)

lemma exec_names:
  assumes "update_setup env exec"
  shows "x \<in> install_names exec \<Longrightarrow> \<not> is_temp x" "\<not> is_temp (prev_path exec)" "prev_path exec \<notin> install_names exec"
    "x \<in> install_names exec \<Longrightarrow> \<not> below (ue_tempDir env) x" "\<not> below (ue_tempDir env) (prev_path exec)"
proof -
  from assms have n: "snd exec \<noteq> []" "hd (snd exec) \<noteq> CHR ''.''" "snd exec \<noteq> ''clank-agent.prev''"
    and b: "\<not> below (ue_tempDir env) (fst exec @ [y])" for y
    unfolding update_setup_def by blast+
  have nt: "\<not> is_temp (fst exec @ [snd exec @ y])" for y
    using n(1, 2) by (cases "snd exec") (simp_all add: is_temp_def HasPrefix_def)
  show "\<not> is_temp x" "\<not> below (ue_tempDir env) x" if "x \<in> install_names exec"
    using that nt b unfolding install_names_def suffixed_def by blast+
  show "\<not> is_temp (prev_path exec)" by (simp add: is_temp_def prev_path_def HasPrefix_def)
  show "\<not> below (ue_tempDir env) (prev_path exec)" unfolding prev_path_def by (rule b)
  have "snd exec @ y \<noteq> ''clank-agent.prev''" if "y \<noteq> []" "last y \<noteq> CHR ''v''" for y
  proof
    assume "snd exec @ y = ''clank-agent.prev''"
    then have "last (snd exec @ y) = CHR ''v''" by simp
    with that show False by simp
  qed
  from this [of "''.new''"] this [of "''.old''"] n(3) show "prev_path exec \<notin> install_names exec"
    by (simp add: install_names_def suffixed_def prev_path_def eq_commute [where b = "snd exec"] eq_commute [where b = "snd exec @ y" for y])
qed

lemma temp_names [simp]: "\<not> is_temp (dir @ [''archive.tar.gz''])" "\<not> is_temp (dir @ [''clank-agent''])"
  by (simp_all add: is_temp_def HasPrefix_def)

lemma outside_copied: "outside dir u v \<Longrightarrow> partly_copied v (dir @ p) c w \<Longrightarrow> outside dir u w"
  by (auto simp: partly_copied_def outside_update)

text \<open>The three steps below the temporary directory.\<close>

lemma runs_downloadFile:
  assumes I: "\<And>w. outside dir u w \<Longrightarrow> I w" and v: "outside dir u v" and p: "p = dir @ [x]" "\<not> is_temp p"
  shows "runs_reliably I v (downloadFile env n url p)
    (\<lambda>err w. outside dir u w \<and> (err = None \<longrightarrow> (\<exists>a. ue_Get env n url = Inr a \<and> w p = Some a)))"
proof (cases "ue_Get env n url")
  case (Inl e)
  then show ?thesis using v by (simp add: downloadFile_def runs_return)
next
  case (Inr a)
  have part: "outside dir u w" if "partly_copied v p a w" for w using that v unfolding p(1) by (rule outside_copied [rotated])
  have done_: "outside dir u (v(p \<mapsto> a))" by (rule part) simp
  show ?thesis unfolding downloadFile_def Inr sum.case
    by (rule runs_fill_then [where c = a, OF p(2)]) (use done_ in \<open>auto intro!: runs_return I part\<close>)
qed

lemma runs_check_archive:
  assumes p: "\<not> is_temp p" and v: "v p = Some a" "I v"
  shows "runs_reliably I v (check_archive env cmd p) (\<lambda>err w. w = v \<and> (err = None \<longrightarrow> archive_checked env cmd a))"
proof -
  let ?Q = "\<lambda>err w. w = v \<and> (err = None \<longrightarrow> archive_checked env cmd a)"
  have "runs_reliably I v (if uc_Sha256 cmd = [] then State_Monad.return (Some []) else read_file p)
      (\<lambda>r w. w = v \<and> (uc_Sha256 cmd \<noteq> [] \<longrightarrow> r = Some a))"
    by (intro runs_if runs_return runs_read) (use v p in simp_all)
  then show ?thesis unfolding check_archive_def
  proof (rule runs_bind)
    fix content w assume w: "w = v \<and> (uc_Sha256 cmd \<noteq> [] \<longrightarrow> content = Some a)"
    let ?signed = "State_Monad.bind (read_file p) (\<lambda>signed. State_Monad.return (case signed of
              None \<Rightarrow> Some (phase_error ''signature'' (''computing hash for signature: '' @ os_error))
            | Some a \<Rightarrow> (case VerifySignature env (ue_sha256 env a) (uc_Signature cmd) (ue_SigningPublicKey env) of
                Some err \<Rightarrow> Some (phase_error ''signature'' err)
              | None \<Rightarrow> None)))"
    have signed: "runs_reliably I v ?signed ?Q" if "uc_Sha256 cmd \<noteq> [] \<longrightarrow> EqualFold (ue_sha256 env a) (uc_Sha256 cmd)" "uc_Signature cmd \<noteq> []"
      by (rule runs_read_then, rule p, rule v(2)) (use that v(1) in \<open>auto simp: archive_checked_def intro!: runs_return split: option.split\<close>)
    show "runs_reliably I w (case content of
        None \<Rightarrow> State_Monad.return (Some (phase_error ''checksum'' (''computing checksum: '' @ os_error)))
      | Some c \<Rightarrow>
          if uc_Sha256 cmd \<noteq> [] \<and> \<not> EqualFold (ue_sha256 env c) (uc_Sha256 cmd)
          then State_Monad.return (Some (phase_error ''checksum''
            (''checksum mismatch: expected '' @ uc_Sha256 cmd @ '', got '' @ ue_sha256 env c)))
          else if uc_Signature cmd \<noteq> [] \<and> length (ue_SigningPublicKey env) > 0 then ?signed
          else if uc_Signature cmd = [] \<and> length (ue_SigningPublicKey env) > 0
          then State_Monad.return (Some (phase_error ''signature''
            (''unsigned update rejected '' @ em_dash @ '' signing key is embedded but no signature was provided'')))
          else State_Monad.return None) ?Q"
      by (intro runs_option runs_if runs_return)
        (use w signed in \<open>auto simp: archive_checked_def\<close>)
  qed
qed

lemma runs_extractBinary:
  assumes I: "\<And>w. outside dir u w \<Longrightarrow> I w" and v: "outside dir u v" "v a = Some archive"
    and p: "\<not> is_temp a" "p = dir @ [x]" "\<not> is_temp p"
  shows "runs_reliably I v (extractBinary env a p)
    (\<lambda>err w. outside dir u w \<and> (err = None \<longrightarrow> (\<exists>c. archive_binary env archive = Inr c \<and> w p = Some c)))"
    (is "runs_reliably I v _ ?Q")
proof (cases "archive_binary env archive")
  case (Inl e)
  then show ?thesis unfolding extractBinary_def
    by (intro runs_read_then) (use v p I in \<open>auto intro!: runs_return\<close>)
next
  case (Inr c)
  have part: "outside dir u w" if "partly_copied v p c w" for w using that v(1) unfolding p(2) by (rule outside_copied [rotated])
  have whole: "outside dir u (v(p \<mapsto> c))" by (rule part) simp
  have "runs_reliably I v (do { ok \<leftarrow> create_file p; if \<not> ok then State_Monad.return (Some os_error) else do {
      ok \<leftarrow> write_file p c; State_Monad.return (if ok then None else Some os_error) } }) ?Q"
    by (rule runs_fill_then [where c = c, OF p(3)]) (use whole in \<open>auto intro!: runs_return I part simp: Inr\<close>)
  then show ?thesis unfolding extractBinary_def
    by (intro runs_read_then) (use v p I in \<open>auto simp: Inr\<close>)
qed

lemma runs_step:
  assumes "runs_reliably I v m R" "\<And>w. R None w \<Longrightarrow> runs_reliably I w h Q" "\<And>e w. R (Some e) w \<Longrightarrow> Q (g e) w"
  shows "runs_reliably I v (do { r \<leftarrow> m; (case r of None \<Rightarrow> h | Some e \<Rightarrow> State_Monad.return (g e)) }) Q"
  using assms(1) by (rule runs_bind) (use assms(2, 3) in \<open>auto split: option.split intro: runs_return\<close>)

text \<open>What a step of the update guarantees: on an error the old binary is still there.\<close>

definition update_step :: "update_env \<Rightarrow> update_command \<Rightarrow> path \<times> string \<Rightarrow> string \<Rightarrow> named \<Rightarrow> PhaseError option \<Rightarrow> named \<Rightarrow> bool" where
  "update_step env cmd exec b v r w \<longleftrightarrow> w (prev_path exec) = v (prev_path exec) \<and>
     (if r = None then \<exists>c. authentic env cmd c \<and> w (suffixed exec []) = Some c else w (suffixed exec []) = Some b)"

lemma outside_steps:
  assumes su: "update_setup env exec" and v: "v (suffixed exec []) = Some b" and w: "outside (ue_tempDir env) v w"
  shows "w (suffixed exec []) = Some b" "w (prev_path exec) = v (prev_path exec)"
    "binary_state env cmd exec b w" "update_step env cmd exec b v (Some e) w"
  using outsideD [OF w] exec_names(4) [OF su, of "suffixed exec []"] exec_names(5) [OF su] v
  by (simp_all add: binary_state_def update_step_def)

lemma runs_install_extracted:
  assumes su: "update_setup env exec" and v: "v (suffixed exec []) = Some b" and w: "outside (ue_tempDir env) v w"
    and c: "w (ue_tempDir env @ [''clank-agent'']) = Some c" "authentic env cmd c"
  shows "runs_reliably (binary_state env cmd exec b) w (install_extracted (ue_tempDir env @ [''clank-agent'']) exec)
    (update_step env cmd exec b v)"
  unfolding install_extracted_def
proof (rule runs_keep_then, rule outside_steps(3), rule su, rule v, rule w, rule runs_if)
  let ?b = "ue_tempDir env @ [''clank-agent'']"
  note names = exec_names [OF su]
  show "runs_reliably (binary_state env cmd exec b) w (State_Monad.return (Some (phase_error ''extract'' (''setting permissions: '' @ os_error))))
      (update_step env cmd exec b v)"
    by (intro runs_return outside_steps(4)) (rule su v w)+
  have src: "?b \<notin> install_names exec" using names(4) by (metis below_append)
  have "runs_reliably (binary_state env cmd exec b) w (replaceFile ?b exec)
      (\<lambda>err. update_step env cmd exec b v (map_option (\<lambda>e. phase_error ''replace'' (''replacing binary: '' @ e)) err))"
  proof (rule runs_replaceFile [where b = b and c = c])
    show "binary_state env cmd exec b w'" if "installing exec b c w w'" for w'
      using that c by (auto simp: installing_def binary_state_def)
  qed (use names src c outside_steps(1, 2) [where v = v and w = w, OF su v w] in \<open>auto simp: same_but_def update_step_def\<close>)
  then show "runs_reliably (binary_state env cmd exec b) w (do { err \<leftarrow> replaceFile ?b exec;
      State_Monad.return (map_option (\<lambda>e. phase_error ''replace'' (''replacing binary: '' @ e)) err) }) (update_step env cmd exec b v)"
    by (rule runs_bind) (rule runs_return)
qed

lemma runs_fetch_and_replace:
  assumes su: "update_setup env exec" and v: "v (suffixed exec []) = Some b"
    and newer: "\<not> isDowngrade (uc_CurrentVersion cmd) (uc_Version cmd)"
  shows "runs_reliably (binary_state env cmd exec b) v (fetch_and_replace env n cmd exec) (update_step env cmd exec b v)"
    (is "runs_reliably ?I v _ ?Q")
proof -
  let ?T = "ue_tempDir env" and ?a = "ue_tempDir env @ [''archive.tar.gz'']" and ?b = "ue_tempDir env @ [''clank-agent'']"
  note I = outside_steps(3) [where v = v, OF su v] and stop = outside_steps(4) [where v = v, OF su v]
  have checked: "runs_reliably ?I w (install_checked env ?a ?b exec) ?Q"
    if "outside ?T v w" "w ?a = Some a" "ue_Get env n (uc_DownloadUrl cmd) = Inr a" "archive_checked env cmd a" for w a
    unfolding install_checked_def
    by (rule runs_step [OF runs_extractBinary [where dir = ?T and u = v and archive = a]])
      (use that newer in \<open>auto intro!: I stop runs_install_extracted [where v = v, OF su v] simp: authentic_def, blast\<close>)
  have "runs_reliably ?I w (install_fetched env cmd ?a ?b exec) ?Q"
    if "outside ?T v w" "w ?a = Some a" "ue_Get env n (uc_DownloadUrl cmd) = Inr a" for w a
    unfolding install_fetched_def
    by (rule runs_step [OF runs_check_archive [where a = a]]) (use that in \<open>auto intro!: I stop checked [where a = a]\<close>)
  then show ?thesis unfolding fetch_and_replace_def Let_def
    by (intro runs_step [OF runs_downloadFile [where dir = ?T and u = v]]) (auto intro!: I stop)
qed

lemma runs_Apply:
  assumes su: "update_setup env exec" and v: "v (suffixed exec []) = Some b" and other: "uc_CurrentVersion cmd \<noteq> uc_Version cmd"
  shows "runs_reliably (binary_state env cmd exec b) v (Apply env n cmd) (update_step env cmd exec b v)"
    (is "runs_reliably ?I v _ ?Q")
proof -
  have now: "?I v" "\<And>e. ?Q (Some e) v" using outside_steps(3, 4) [where v = v and w = v, OF su v] by simp_all
  have "runs_reliably ?I w (do { _ \<leftarrow> remove_all (ue_tempDir env); State_Monad.return r }) ?Q" if w: "?Q r w" for r w
  proof (rule runs_bind)
    have kept: "?Q r u \<and> ?I u" if "outside (ue_tempDir env) w u" for u
      using w outsideD [OF that] exec_names(4) [OF su, of "suffixed exec []"] exec_names(5) [OF su]
      by (auto simp: update_step_def binary_state_def split: if_splits)
    then show "runs_reliably ?I w (remove_all (ue_tempDir env)) (\<lambda>_. ?Q r)" by (intro runs_remove_all) blast+
  qed (rule runs_return)
  then have "runs_reliably ?I v (do { r \<leftarrow> fetch_and_replace env n cmd exec; _ \<leftarrow> remove_all (ue_tempDir env); State_Monad.return r }) ?Q"
    if "\<not> isDowngrade (uc_CurrentVersion cmd) (uc_Version cmd)"
    by (rule runs_bind [OF runs_fetch_and_replace [where v = v, OF su v that]])
  then show ?thesis
    unfolding Apply_def resolve_setup [OF su] bind_left_identity sum.case
    by (intro runs_if runs_mkdir_then runs_return) (simp_all add: now other)
qed

lemma runs_BackupAndApply:
  assumes su: "update_setup env exec" and v: "v (suffixed exec []) = Some b" and other: "uc_CurrentVersion cmd \<noteq> uc_Version cmd"
  shows "runs_reliably (binary_state env cmd exec b) v (BackupAndApply env n cmd)
    (\<lambda>r w. if r = None then \<exists>c. authentic env cmd c \<and> w (suffixed exec []) = Some c else w (suffixed exec []) = Some b)"
    (is "runs_reliably ?I v _ ?Q")
proof -
  let ?p = "prev_path exec"
  note names = exec_names [OF su]
  have prev: "suffixed exec [] \<noteq> ?p" using names(3) by (metis install_names_simps(1))
  have I: "?I w" if "w (suffixed exec []) = Some b" for w using that by (simp add: binary_state_def)
  have stop: "runs_reliably ?I w (State_Monad.return (Some e)) ?Q" if "w (suffixed exec []) = Some b" for w e
    using that by (intro runs_return) simp
  have restore: "runs_reliably ?I w (do { _ \<leftarrow> replaceFile ?p exec; State_Monad.return (Some e) }) ?Q"
    if "w ?p = Some b" "w (suffixed exec []) = Some b" for w e
  proof (rule runs_bind)
    show "runs_reliably ?I w (replaceFile ?p exec) (\<lambda>_ w'. w' (suffixed exec []) = Some b)"
    proof (rule runs_replaceFile [where b = b and c = b])
      show "?I w'" if "installing exec b b w w'" for w' using that by (auto simp: installing_def binary_state_def)
    qed (use names that in auto)
  qed (rule stop)
  have update: "runs_reliably ?I w (do { err \<leftarrow> Apply env n cmd; (case err of None \<Rightarrow> State_Monad.return None
      | Some e \<Rightarrow> do { _ \<leftarrow> replaceFile ?p exec; State_Monad.return (Some e) }) }) ?Q"
    if w: "w ?p = Some b" "w (suffixed exec []) = Some b" for w
    by (rule runs_bind [OF runs_Apply [where v = w, OF su w(2) other]], intro runs_option runs_return restore)
      (use w in \<open>simp_all add: update_step_def\<close>)
  have "runs_reliably ?I (v(?p \<mapsto> b)) (do { ok \<leftarrow> attempt (Chmod ?p) (\<lambda>d. d);
      if \<not> ok then do { _ \<leftarrow> remove_file ?p; State_Monad.return (Some (phase_error ''backup'' (''setting backup permissions: '' @ os_error))) }
      else do { err \<leftarrow> Apply env n cmd; (case err of None \<Rightarrow> State_Monad.return None
      | Some e \<Rightarrow> do { _ \<leftarrow> replaceFile ?p exec; State_Monad.return (Some e) }) } }) ?Q"
    by (intro runs_keep_then runs_if runs_remove_then stop update I) (use v names prev in auto)
  then show ?thesis
    unfolding BackupAndApply_def resolve_setup [OF su] bind_left_identity sum.case Let_def
    by (intro runs_if runs_copyFile_then [where c = b] runs_return)
      (use v names prev other in \<open>auto simp: partly_copied_def intro!: I stop\<close>)
qed

end
