(* ===== verification/Update_Commands.thy ===== *)
theory Update_Commands
  imports Self_Update Go_Utf8 Expiry_Guards "HOL-Library.Word"
begin

text \<open>
  The update command and the check after a restart: \<^verbatim>\<open>internal/selfupdate/state.go\<close>,
  \<^verbatim>\<open>HandleUpdate\<close> and \<^verbatim>\<open>sendUpdateResult\<close> of \<^verbatim>\<open>internal/agent/handler.go\<close>, and
  \<^verbatim>\<open>checkPendingUpdate\<close> of \<^verbatim>\<open>internal/agent/agent.go\<close>.  The JSON text of the state file is a
  parameter, and so is the outcome of \<^verbatim>\<open>verifyConnectivity\<close>.
\<close>

record UpdateState =
  us_Status :: string
  us_FromVersion :: string
  us_ToVersion :: string
  us_Attempts :: "64 word"

record agent_env =
  updater :: update_env
  ue_osTempDir :: path
  ue_json_Marshal :: "UpdateState \<Rightarrow> string"
  ue_json_Unmarshal :: "string \<Rightarrow> UpdateState option"

definition BinDir :: "agent_env \<Rightarrow> path fsm" where
  "BinDir env = do {
     resolved \<leftarrow> resolveExecPath (updater env);
     State_Monad.return (case resolved of Inl err \<Rightarrow> ue_osTempDir env | Inr execPath \<Rightarrow> fst execPath) }"

definition state_path :: "path \<Rightarrow> path" where
  "state_path dir = dir @ [''update-state.json'']"

definition LoadState :: "agent_env \<Rightarrow> path \<Rightarrow> UpdateState option fsm" where
  "LoadState env dir = do {
     content \<leftarrow> read_file (state_path dir);
     State_Monad.return (case content of None \<Rightarrow> None | Some text \<Rightarrow> ue_json_Unmarshal env text) }"

definition SaveState :: "agent_env \<Rightarrow> path \<Rightarrow> UpdateState \<Rightarrow> bool fsm" where
  "SaveState env dir s = do {
     ok \<leftarrow> create_file (state_path dir);
     if \<not> ok then State_Monad.return False else write_file (state_path dir) (ue_json_Marshal env s) }"

definition ClearState :: "path \<Rightarrow> remove_result fsm" where
  "ClearState dir = remove_file (state_path dir)"

definition CleanupBackup :: "agent_env \<Rightarrow> remove_result fsm" where
  "CleanupBackup env = do {
     dir \<leftarrow> BinDir env;
     remove_file (dir @ [''clank-agent.prev'']) }"

subsection \<open>After a restart\<close>

text \<open>The answer is the exit status when the process ends.\<close>

definition checkPendingUpdate :: "agent_env \<Rightarrow> bool \<Rightarrow> nat option fsm" where
  "checkPendingUpdate env connects = do {
     binDir \<leftarrow> BinDir env;
     loaded \<leftarrow> LoadState env binDir;
     (case loaded of
        None \<Rightarrow> State_Monad.return None
      | Some s \<Rightarrow>
          if us_Status s \<noteq> ''pending'' then State_Monad.return None
          else let st = s\<lparr>us_Attempts := us_Attempts s + 1\<rparr> in
            if 3 < sint (us_Attempts st) then do {
              _ \<leftarrow> Rollback_update (updater env);
              _ \<leftarrow> ClearState binDir;
              State_Monad.return (Some 1) }
            else do {
              _ \<leftarrow> SaveState env binDir st;
              if connects then do {
                _ \<leftarrow> ClearState binDir;
                _ \<leftarrow> CleanupBackup env;
                State_Monad.return None }
              else State_Monad.return None }) }"

text \<open>A number of starts without a connection, each of which may end at once.\<close>

fun starts_without_connection :: "agent_env \<Rightarrow> nat \<Rightarrow> nat option list fsm" where
  "starts_without_connection env 0 = State_Monad.return []"
| "starts_without_connection env (Suc n) = do {
     r \<leftarrow> checkPendingUpdate env False;
     rs \<leftarrow> starts_without_connection env n;
     State_Monad.return (r # rs) }"

subsection \<open>The update command\<close>

record UpdateResult =
  ur_FromVersion :: string
  ur_ToVersion :: string
  ur_Success :: bool
  ur_ErrorMessage :: string
  ur_FailedPhase :: string

definition PhaseError_Error :: "PhaseError \<Rightarrow> string" where
  "PhaseError_Error e = pe_Phase e @ '': '' @ pe_Err e"

definition sendUpdateResult :: "update_command \<Rightarrow> PhaseError option \<Rightarrow> UpdateResult" where
  "sendUpdateResult cmd err = \<lparr>ur_FromVersion = uc_CurrentVersion cmd, ur_ToVersion = uc_Version cmd, ur_Success = (err = None),
     ur_ErrorMessage = (case err of None \<Rightarrow> [] | Some e \<Rightarrow> sanitizeUTF8 (PhaseError_Error e)),
     ur_FailedPhase = (case err of None \<Rightarrow> [] | Some e \<Rightarrow> pe_Phase e)\<rparr>"

datatype update_outcome =
    Interrupted   \<comment> \<open>the context ended in a wait; nothing is sent\<close>
  | Reported UpdateResult
  | Restarting UpdateResult   \<comment> \<open>exit status 0\<close>

definition update_backoffs :: "int list" where
  "update_backoffs = [10 * second, 30 * second, 60 * second]"

text \<open>One attempt, and another after each wait; \<open>cancelled\<close> tells whether the context ends in the wait.\<close>

fun update_attempts :: "update_env \<Rightarrow> (nat \<Rightarrow> bool) \<Rightarrow> update_command \<Rightarrow> nat \<Rightarrow> int list \<Rightarrow> PhaseError option option fsm" where
  "update_attempts env cancelled cmd n [] = do {
     err \<leftarrow> BackupAndApply env n cmd;
     State_Monad.return (Some err) }"
| "update_attempts env cancelled cmd n (wait # waits) = do {
     err \<leftarrow> BackupAndApply env n cmd;
     (case err of
        None \<Rightarrow> State_Monad.return (Some None)
      | Some e \<Rightarrow>
          if \<not> IsRetryable e then State_Monad.return (Some (Some e))
          else if cancelled n then State_Monad.return None
          else update_attempts env cancelled cmd (Suc n) waits) }"

definition HandleUpdate :: "agent_env \<Rightarrow> (nat \<Rightarrow> bool) \<Rightarrow> update_command \<Rightarrow> update_outcome fsm" where
  "HandleUpdate env cancelled cmd =
     (if uc_CurrentVersion cmd = uc_Version cmd then State_Monad.return (Reported (sendUpdateResult cmd None))
      else do {
        binDir \<leftarrow> BinDir env;
        _ \<leftarrow> SaveState env binDir \<lparr>us_Status = ''pending'', us_FromVersion = uc_CurrentVersion cmd,
               us_ToVersion = uc_Version cmd, us_Attempts = 0\<rparr>;
        r \<leftarrow> update_attempts (updater env) cancelled cmd 0 update_backoffs;
        (case r of
           None \<Rightarrow> State_Monad.return Interrupted
         | Some (Some e) \<Rightarrow> do {
             _ \<leftarrow> ClearState binDir;
             State_Monad.return (Reported (sendUpdateResult cmd (Some e))) }
         | Some None \<Rightarrow> State_Monad.return (Restarting (sendUpdateResult cmd None))) })"

subsection \<open>The binary survives\<close>

lemma BinDir_setup: "update_setup (updater env) exec \<Longrightarrow> BinDir env = State_Monad.return (fst exec)"
  by (simp add: BinDir_def resolve_setup bind_left_identity)

lemma state_path_names:
  assumes "update_setup env exec"
  shows "\<not> is_temp (state_path (fst exec))" "state_path (fst exec) \<notin> install_names exec" "state_path (fst exec) \<noteq> prev_path exec"
proof -
  have n: "snd exec \<noteq> ''update-state.json''" using assms unfolding update_setup_def by blast
  have "snd exec @ y \<noteq> ''update-state.json''" if "y \<noteq> []" "last y \<noteq> CHR ''n''" for y
  proof
    assume "snd exec @ y = ''update-state.json''"
    then have "last (snd exec @ y) = CHR ''n''" by simp
    with that show False by simp
  qed
  from this [of "''.new''"] this [of "''.old''"] n show "state_path (fst exec) \<notin> install_names exec"
    by (simp add: install_names_def suffixed_def state_path_def eq_commute [where b = "snd exec"] eq_commute [where b = "snd exec @ y" for y])
  show "\<not> is_temp (state_path (fst exec))" by (simp add: state_path_def is_temp_def HasPrefix_def)
  show "state_path (fst exec) \<noteq> prev_path exec" by (simp add: state_path_def prev_path_def)
qed

lemma runs_update_attempts:
  assumes su: "update_setup env exec" and other: "uc_CurrentVersion cmd \<noteq> uc_Version cmd" and v: "v (suffixed exec []) = Some b"
  shows "runs_reliably (binary_state env cmd exec b) v (update_attempts env cancelled cmd n waits)
    (\<lambda>r w. if r = Some None then \<exists>c. authentic env cmd c \<and> w (suffixed exec []) = Some c else w (suffixed exec []) = Some b)"
  using v
proof (induction waits arbitrary: n v)
  case Nil
  then show ?case unfolding update_attempts.simps
    by (intro runs_bind [OF runs_BackupAndApply [where v = v, OF su Nil other]] runs_return) simp
next
  case (Cons wait waits)
  show ?case unfolding update_attempts.simps
  proof (rule runs_bind [OF runs_BackupAndApply [where v = v, OF su Cons.prems other]], rule runs_option)
    fix r :: "PhaseError option" and w assume r: "if r = None then \<exists>c. authentic env cmd c \<and> w (suffixed exec []) = Some c else w (suffixed exec []) = Some b"
    show "runs_reliably (binary_state env cmd exec b) w (State_Monad.return (Some None))
      (\<lambda>r w. if r = Some None then \<exists>c. authentic env cmd c \<and> w (suffixed exec []) = Some c else w (suffixed exec []) = Some b)"
      if "r = None" using r that by (intro runs_return) simp
    show "runs_reliably (binary_state env cmd exec b) w (if \<not> IsRetryable e then State_Monad.return (Some (Some e))
          else if cancelled n then State_Monad.return None else update_attempts env cancelled cmd (Suc n) waits)
      (\<lambda>r w. if r = Some None then \<exists>c. authentic env cmd c \<and> w (suffixed exec []) = Some c else w (suffixed exec []) = Some b)"
      if "r = Some e" for e using r that by (intro runs_if runs_return Cons.IH) simp_all
  qed
qed

text \<open>
  C7. As long as renames, reads and stats work (\<open>runs_reliably\<close>), whatever other operation of an
  update fails and at whatever moment the agent is killed, the binary is never lost: at its path is the old
  binary or one that came out of an archive passing every check that is configured (the signature only
  with a key, the checksum only when the command carries one) and whose version is not lower, or the path is empty
  and the old binary beside it.  The agent restarts only with such a new binary in place, and otherwise keeps the old one.
\<close>

theorem update_command_safe:
  assumes "update_setup (updater env) exec" "v (suffixed exec []) = Some b"
  shows "runs_reliably (binary_state (updater env) cmd exec b) v (HandleUpdate env cancelled cmd)
    (\<lambda>r w. case r of Restarting m \<Rightarrow> \<exists>c. authentic (updater env) cmd c \<and> w (suffixed exec []) = Some c
                   | _ \<Rightarrow> w (suffixed exec []) = Some b)"
    (is "runs_reliably ?I v _ ?Q")
proof (cases "uc_CurrentVersion cmd = uc_Version cmd")
  case True
  then show ?thesis using assms(2) unfolding HandleUpdate_def by (intro runs_if runs_return) simp_all
next
  case False
  let ?s = "state_path (fst exec)"
  note names = state_path_names [OF assms(1)]
  have I: "?I w" if "w (suffixed exec []) = Some b" for w using that by (simp add: binary_state_def)
  have other: "?s \<noteq> suffixed exec []" using names(2) by (metis install_names_simps(1))
  have save: "runs_reliably ?I v (SaveState env (fst exec) s) (\<lambda>_ w. w (suffixed exec []) = Some b)" for s
  proof -
    have "runs_reliably ?I v (do { ok \<leftarrow> create_file ?s; if \<not> ok then State_Monad.return False
        else State_Monad.bind (write_file ?s (ue_json_Marshal env s)) State_Monad.return }) (\<lambda>_ w. w (suffixed exec []) = Some b)"
      by (rule runs_fill_then [where c = "ue_json_Marshal env s", OF names(1)])
        (use other assms(2) in \<open>auto simp: partly_copied_def intro!: runs_return I\<close>)
    then show ?thesis unfolding SaveState_def bind_right_identity .
  qed
  have clear: "runs_reliably ?I w (do { _ \<leftarrow> ClearState (fst exec); State_Monad.return (Reported m) }) ?Q"
    if "w (suffixed exec []) = Some b" for w m
    unfolding ClearState_def using that names(1) other by (intro runs_remove_then runs_return I) simp_all
  have attempts: "runs_reliably ?I w (do { r \<leftarrow> update_attempts (updater env) cancelled cmd 0 update_backoffs;
      (case r of None \<Rightarrow> State_Monad.return Interrupted
         | Some (Some e) \<Rightarrow> do { _ \<leftarrow> ClearState (fst exec); State_Monad.return (Reported (sendUpdateResult cmd (Some e))) }
         | Some None \<Rightarrow> State_Monad.return (Restarting (sendUpdateResult cmd None))) }) ?Q"
    if w: "w (suffixed exec []) = Some b" for w
    by (rule runs_bind [OF runs_update_attempts [where v = w, OF assms(1) False w]], intro runs_option runs_return clear) simp_all
  show ?thesis unfolding HandleUpdate_def BinDir_setup [OF assms(1)] bind_left_identity
    by (simp only: False if_False) (rule runs_bind [OF save attempts])
qed

subsection \<open>A broken update is rolled back\<close>

lemma delivers_create_then:
  "\<not> is_temp p \<Longrightarrow> delivers (v(p \<mapsto> [])) (f True) r w \<Longrightarrow> delivers v (State_Monad.bind (create_file p) f) r w"
  by (rule delivers_bind [where u = "v(p \<mapsto> [])" and r = True])
    (auto simp: delivers_def create_file_def attempt_def healthy_def view_update)

lemma delivers_copyFile:
  assumes "\<not> is_temp src" "\<not> is_temp dst" "v src = Some c"
  shows "delivers v (copyFile src dst) True (v(dst \<mapsto> c))"
  unfolding copyFile_def
  by (intro delivers_read_then)
    (use assms delivers_write_file [of dst "v(dst \<mapsto> [])" c] in \<open>auto intro!: delivers_create_then\<close>)

definition replaced :: "path \<times> string \<Rightarrow> string \<Rightarrow> named \<Rightarrow> named" where
  "replaced dst c v = v(suffixed dst ''.new'' := None, suffixed dst ''.old'' := None, suffixed dst [] \<mapsto> c)"

lemma delivers_replaceFile:
  assumes names: "\<And>x. x \<in> install_names dst \<Longrightarrow> \<not> is_temp x" "\<not> is_temp src" "src \<notin> install_names dst"
    and v: "v src = Some c" "v (suffixed dst []) = Some b"
  shows "delivers v (replaceFile src dst) None (replaced dst c v)"
proof -
  let ?t = "suffixed dst []" and ?n = "suffixed dst ''.new''" and ?o = "suffixed dst ''.old''"
  have nt: "\<not> is_temp ?t" "\<not> is_temp ?n" "\<not> is_temp ?o" by (rule names(1), simp)+
  let ?w = "v(?n \<mapsto> c, ?o := None, ?t := None, ?o \<mapsto> b, ?n := None, ?t \<mapsto> c, ?o := None)"
  have w: "?w = replaced dst c v" by (auto simp: replaced_def fun_eq_iff)
  have "delivers v (replaceFile src dst) None ?w"
    unfolding replaceFile_def Let_def
    by (rule delivers_bind, rule delivers_copyFile [where c = c],
        simp_all only: nt names v not_True_eq_False not_False_eq_True if_False,
        rule delivers_keep_then, simp only: not_True_eq_False if_False, rule delivers_remove_then, rule nt,
        rule delivers_rename_then [where c = b], rule nt, rule nt, simp add: v, simp only: not_True_eq_False if_False,
        rule delivers_rename_then [where c = c], rule nt, rule nt, simp, simp only: not_True_eq_False if_False,
        rule delivers_remove_then, rule nt, rule delivers_return)
  then show ?thesis unfolding w .
qed

lemma delivers_SaveState:
  "\<not> is_temp (state_path dir) \<Longrightarrow> delivers v (SaveState env dir s) True (v(state_path dir \<mapsto> ue_json_Marshal env s))"
  unfolding SaveState_def
  by (rule delivers_create_then) (use delivers_write_file [of "state_path dir" "v(state_path dir \<mapsto> [])"] in simp_all)

lemma delivers_LoadState_then:
  assumes "\<not> is_temp (state_path dir)" "v (state_path dir) = Some (ue_json_Marshal env s)"
    and "ue_json_Unmarshal env (ue_json_Marshal env s) = Some s" "delivers v (f (Some s)) r w"
  shows "delivers v (State_Monad.bind (LoadState env dir) f) r w"
proof (rule delivers_bind)
  show "delivers v (LoadState env dir) (Some s) v"
    unfolding LoadState_def using assms(1-3) by (intro delivers_read_then) (simp_all add: delivers_return)
qed (rule assms(4))

text \<open>The text of a state is read back, whatever its count.\<close>

definition json_state :: "agent_env \<Rightarrow> UpdateState \<Rightarrow> bool" where
  "json_state env s \<longleftrightarrow> (\<forall>k. ue_json_Unmarshal env (ue_json_Marshal env (s\<lparr>us_Attempts := k\<rparr>)) = Some (s\<lparr>us_Attempts := k\<rparr>))"

lemma failing_start:
  assumes su: "update_setup (updater env) exec" and json: "json_state env s" and pending: "us_Status s = ''pending''"
    and k: "sint (k + 1) \<le> 3" and v: "v (state_path (fst exec)) = Some (ue_json_Marshal env (s\<lparr>us_Attempts := k\<rparr>))"
  shows "delivers v (checkPendingUpdate env False) None (v(state_path (fst exec) \<mapsto> ue_json_Marshal env (s\<lparr>us_Attempts := k + 1\<rparr>)))"
proof -
  note nt = state_path_names(1) [OF su]
  have save: "delivers v (State_Monad.bind (SaveState env (fst exec) (s\<lparr>us_Attempts := k + 1\<rparr>)) (\<lambda>_. State_Monad.return None)) None
      (v(state_path (fst exec) \<mapsto> ue_json_Marshal env (s\<lparr>us_Attempts := k + 1\<rparr>)))"
    by (rule delivers_bind [OF delivers_SaveState [OF nt] delivers_return])
  show ?thesis
    unfolding checkPendingUpdate_def BinDir_setup [OF su] bind_left_identity
    by (rule delivers_LoadState_then [where s = "s\<lparr>us_Attempts := k\<rparr>"])
      (use nt v json pending k save in \<open>simp_all add: json_state_def Let_def\<close>)
qed

lemma fourth_start:
  assumes su: "update_setup (updater env) exec" and json: "json_state env s" and pending: "us_Status s = ''pending''"
    and k: "3 < sint (k + 1)" and v: "v (state_path (fst exec)) = Some (ue_json_Marshal env (s\<lparr>us_Attempts := k\<rparr>))"
    and files: "v (prev_path exec) = Some b" "v (suffixed exec []) = Some c"
  shows "delivers v (checkPendingUpdate env False) (Some 1) ((replaced exec b v)(state_path (fst exec) := None))"
proof -
  note nt = state_path_names(1) [OF su] and names = exec_names [OF su]
  have "delivers v (Rollback_update (updater env)) None (replaced exec b v)"
    unfolding Rollback_update_def resolve_setup [OF su] bind_left_identity sum.case
    by (rule delivers_regular_then, rule names, simp only: files option.simps not_False_eq_True not_True_eq_False if_False,
        rule delivers_bind [OF delivers_replaceFile [where b = c and c = b]])
      (use names files in \<open>auto intro: delivers_return\<close>)
  then have "delivers v (do { _ \<leftarrow> Rollback_update (updater env); _ \<leftarrow> ClearState (fst exec); State_Monad.return (Some 1) }) (Some 1)
      ((replaced exec b v)(state_path (fst exec) := None))"
    unfolding ClearState_def by (rule delivers_bind) (intro delivers_remove_then nt delivers_return)
  then show ?thesis
    unfolding checkPendingUpdate_def BinDir_setup [OF su] bind_left_identity
    by (intro delivers_LoadState_then [where s = "s\<lparr>us_Attempts := k\<rparr>"])
      (use nt v json pending k in \<open>simp_all add: json_state_def Let_def del: One_nat_def\<close>)
qed

text \<open>
  C9. An update whose binary starts but never reaches the control plane is undone: on a working
  file system the first three starts count, and the fourth puts the backup back, removes the
  state file and ends the process with status 1 for the restart.
\<close>

theorem failing_update_rolled_back:
  assumes "update_setup (updater env) exec" "json_state env s" "us_Status s = ''pending''" "us_Attempts s = 0"
    and "v (state_path (fst exec)) = Some (ue_json_Marshal env s)" "v (prev_path exec) = Some b" "v (suffixed exec []) = Some c"
  shows "\<exists>w. delivers v (starts_without_connection env 4) [None, None, None, Some 1] w \<and>
    w (suffixed exec []) = Some b \<and> w (state_path (fst exec)) = None"
proof -
  let ?p = "state_path (fst exec)" and ?m = "\<lambda>k. ue_json_Marshal env (s\<lparr>us_Attempts := k\<rparr>)"
  have names: "?p \<noteq> suffixed exec []" "?p \<noteq> prev_path exec"
    using state_path_names(2, 3) [OF assms(1)] by (metis install_names_simps(1), blast)
  have s: "s\<lparr>us_Attempts := 0\<rparr> = s" using assms(4) by (cases s) simp
  have start: "delivers (v(?p \<mapsto> ?m k)) (checkPendingUpdate env False) None (v(?p \<mapsto> ?m (k + 1)))" if "sint (k + 1) \<le> 3" for k
    using failing_start [OF assms(1-3) that, of "v(?p \<mapsto> ?m k)"] by simp
  let ?w = "(replaced exec b (v(?p \<mapsto> ?m 3)))(?p := None)"
  have "delivers (v(?p \<mapsto> ?m 3)) (checkPendingUpdate env False) (Some 1) ?w"
    using names assms(6, 7) by (intro fourth_start [OF assms(1-3), where k = 3 and c = c]) simp_all
  then have "delivers (v(?p \<mapsto> ?m 0)) (starts_without_connection env (Suc (Suc (Suc (Suc 0))))) [None, None, None, Some 1] ?w"
    unfolding starts_without_connection.simps
    using start [of 0] start [of 1] start [of 2] by (auto intro!: delivers_bind delivers_return)
  moreover have "v(?p \<mapsto> ?m 0) = v" using assms(5) by (simp add: s fun_upd_idem)
  ultimately show ?thesis using names by (intro exI [of _ ?w]) (simp add: numeral_eq_Suc replaced_def)
qed

subsection \<open>A concrete host\<close>

definition sample_updater :: update_env where
  "sample_updater = \<lparr>ue_Executable = Inr ([''opt'', ''bin''], ''clank-agent''), ue_EvalSymlinks = \<lambda>p. p, ue_tempDir = [''tmp'', ''u1''],
     ue_Get = \<lambda>n url. Inr ''archive'', ue_sha256 = \<lambda>a. ''abc'',
     ue_untar = \<lambda>a. ([\<lparr>ar_Name = [''README''], ar_Regular = True, ar_Content = ''text''\<rparr>,
       \<lparr>ar_Name = [''dist'', ''clank-agent-linux-amd64''], ar_Regular = True, ar_Content = ''NEW''\<rparr>], None),
     ue_pem = Some, ue_ParsePKIX = \<lambda>b. Inr (EcdsaKey b), ue_unhex = Inr, ue_VerifyASN1 = \<lambda>key hash sig. sig = ''good'',
     ue_SigningPublicKey = ''pem''\<rparr>"

definition sample_json :: "string \<Rightarrow> UpdateState option" where
  "sample_json text = (case atoi_parse text of None \<Rightarrow> None
     | Some k \<Rightarrow> Some \<lparr>us_Status = ''pending'', us_FromVersion = ''1.0.0'', us_ToVersion = ''1.1.0'', us_Attempts = word_of_int k\<rparr>)"

definition sample_agent :: agent_env where
  "sample_agent = \<lparr>updater = sample_updater, ue_osTempDir = [''tmp''], ue_json_Marshal = \<lambda>s. show_nat (unat (us_Attempts s)),
     ue_json_Unmarshal = sample_json\<rparr>"

definition sample_update :: update_command where
  "sample_update = \<lparr>uc_DownloadUrl = ''https://example'', uc_Sha256 = ''ABC'', uc_Signature = ''good'',
     uc_CurrentVersion = ''1.0.0'', uc_Version = ''1.1.0''\<rparr>"

definition sample_exec :: "path \<times> string" where
  "sample_exec = ([''opt'', ''bin''], ''clank-agent'')"

definition sample_state :: UpdateState where
  "sample_state = \<lparr>us_Status = ''pending'', us_FromVersion = ''1.0.0'', us_ToVersion = ''1.1.0'', us_Attempts = 0\<rparr>"

lemma sample_updater: "updater sample_agent = sample_updater"
  by (simp add: sample_agent_def)

lemma sample_update_setup: "update_setup (updater sample_agent) sample_exec"
  by (simp add: update_setup_def sample_agent_def sample_updater_def sample_exec_def HasSuffix_def TrimSuffix_def below_def)

lemma update_command_safe_witness:
  "runs_reliably (binary_state sample_updater sample_update sample_exec ''OLD'') [suffixed sample_exec [] \<mapsto> ''OLD'']
     (HandleUpdate sample_agent (\<lambda>n. False) sample_update)
     (\<lambda>r w. case r of Restarting m \<Rightarrow> \<exists>c. authentic sample_updater sample_update c \<and> w (suffixed sample_exec []) = Some c
                   | _ \<Rightarrow> w (suffixed sample_exec []) = Some ''OLD'')"
  using update_command_safe [OF sample_update_setup, of "[suffixed sample_exec [] \<mapsto> ''OLD'']" "''OLD''" sample_update "\<lambda>n. False"]
  unfolding sample_updater by simp

text \<open>On a working file system the update of this host succeeds.\<close>

lemma sample_update_succeeds:
  "case run_state (HandleUpdate sample_agent (\<lambda>n. False) sample_update) (fs_with (\<lambda>x. False) [(suffixed sample_exec [], ''OLD'')]) of
     (r, s) \<Rightarrow> r = Restarting (sendUpdateResult sample_update None) \<and>
       map_of (fs_disk s) (suffixed sample_exec []) = Some ''NEW'' \<and> map_of (fs_disk s) (prev_path sample_exec) = Some ''OLD''"
  by code_simp

lemma sample_json_state: "json_state sample_agent sample_state"
  by (simp add: json_state_def sample_agent_def sample_state_def sample_json_def atoi_parse_show_nat)

lemma failing_update_rolled_back_witness:
  "let v = [state_path (fst sample_exec) \<mapsto> ''0'', prev_path sample_exec \<mapsto> ''OLD'', suffixed sample_exec [] \<mapsto> ''NEW''] in
   \<exists>w. delivers v (starts_without_connection sample_agent 4) [None, None, None, Some 1] w \<and>
     w (suffixed sample_exec []) = Some ''OLD'' \<and> w (state_path (fst sample_exec)) = None"
  unfolding Let_def
proof (rule failing_update_rolled_back [OF sample_update_setup sample_json_state, where c = "''NEW''"])
  have "show_nat 0 = ''0''" by code_simp
  then show "[state_path (fst sample_exec) \<mapsto> ''0'', prev_path sample_exec \<mapsto> ''OLD'', suffixed sample_exec [] \<mapsto> ''NEW'']
      (state_path (fst sample_exec)) = Some (ue_json_Marshal sample_agent sample_state)"
    by (simp add: sample_state_def sample_agent_def sample_exec_def state_path_def prev_path_def suffixed_def)
qed (simp_all add: sample_state_def sample_exec_def state_path_def prev_path_def suffixed_def)

subsection \<open>What a crash can do\<close>

text \<open>
  Replacing the binary is not atomic: there is a moment without any file at its path, and a
  crash then leaves a host whose agent cannot be started.
\<close>

theorem replacement_leaves_gap:
  "list_ex (\<lambda>d. map_of d (suffixed sample_exec []) = None)
     (fs_history (snd (run_state (HandleUpdate sample_agent (\<lambda>n. False) sample_update)
       (fs_with (\<lambda>x. False) [(suffixed sample_exec [], ''OLD'')]))))"
  by code_simp

text \<open>
  The pending state is written before the backup.  When the agent is killed while it copies the
  backup and the control plane then stays away for four starts, the roll-back installs the
  truncated copy over the binary that never was replaced.
\<close>

theorem interrupted_backup_installed:
  "list_ex (\<lambda>d. map_of d (suffixed sample_exec []) = Some ''OLD'' \<and>
       (case run_state (starts_without_connection sample_agent 4) (fs_with (\<lambda>x. False) d) of
          (exits, s) \<Rightarrow> exits = [None, None, None, Some 1] \<and> map_of (fs_disk s) (suffixed sample_exec []) = Some []))
     (fs_history (snd (run_state (HandleUpdate sample_agent (\<lambda>n. False) sample_update)
       (fs_with (\<lambda>x. False) [(suffixed sample_exec [], ''OLD'')]))))"
  by code_simp

end
