(* ===== verification/Metrics_Collector.thy ===== *)
theory Metrics_Collector
  imports Channels Docker_Types Go_Strings Artifact_Cleanup Telemetry_Streams
begin

text \<open>
  The metrics collector (\<^verbatim>\<open>internal/metrics/collector.go\<close>): every minute a batch for the running
  containers and one for the host, every five minutes one for the disk usage of the daemon, put into
  a bounded channel.  What the daemon, the statistics library and the clock answer is a record; a
  value is the exact number, before it is rounded to a double.
\<close>

definition metricsChannelSize :: nat where "metricsChannelSize = 64"

record Metric =
  me_Name :: string
  me_Value :: rat
  me_TimestampNs :: int
  me_Labels :: go_map

type_synonym MetricBatch = "Metric list"

subsection \<open>The statistics of a container\<close>

record dockerStats =
  ds_TotalUsage :: int
  ds_SystemCPUUsage :: int
  ds_OnlineCPUs :: int
  ds_PreTotalUsage :: int
  ds_PreSystemCPUUsage :: int
  ds_Usage :: int
  ds_Limit :: int
  ds_InactiveFile :: int
  ds_Networks :: "string \<rightharpoonup> int \<times> int"

definition zero_stats :: dockerStats where
  "zero_stats = \<lparr>ds_TotalUsage = 0, ds_SystemCPUUsage = 0, ds_OnlineCPUs = 0, ds_PreTotalUsage = 0,
     ds_PreSystemCPUUsage = 0, ds_Usage = 0, ds_Limit = 0, ds_InactiveFile = 0, ds_Networks = Map.empty\<rparr>"

text \<open>
  Decoding.  \<^verbatim>\<open>encoding/json\<close> reads an object member by member into the structure, by the exact name
  of the field or else without regard to case; a null changes nothing, a value of another type or an
  integer out of range leaves the field and makes the whole call fail at its end.
\<close>

datatype json =
    JNull
  | JBool bool
  | JInt int                                  \<comment> \<open>a number without fraction and exponent\<close>
  | JFloat string
  | JString string
  | JArray "json list"
  | JObject "(string \<times> json) list"

type_synonym 's decoder = "json \<Rightarrow> 's \<Rightarrow> 's \<times> bool"   \<comment> \<open>and whether every value fitted\<close>

definition int64_field :: "(int \<Rightarrow> 's \<Rightarrow> 's) \<Rightarrow> 's decoder" where
  "int64_field put j s = (case j of
     JNull \<Rightarrow> (s, True)
   | JInt n \<Rightarrow> if min_int64 \<le> n \<and> n \<le> max_int64 then (put n s, True) else (s, False)
   | _ \<Rightarrow> (s, False))"

definition field_named :: "(string \<times> 's decoder) list \<Rightarrow> string \<Rightarrow> 's decoder option" where
  "field_named fs name = (case map_of fs name of
     Some d \<Rightarrow> Some d
   | None \<Rightarrow> map_option snd (first_match (\<lambda>(n, d). EqualFold n name) fs))"

fun members :: "(string \<times> 's decoder) list \<Rightarrow> (string \<times> json) list \<Rightarrow> 's \<Rightarrow> 's \<times> bool" where
  "members fs [] s = (s, True)"
| "members fs ((name, j) # ms) s =
     (let (s, ok) = (case field_named fs name of None \<Rightarrow> (s, True) | Some d \<Rightarrow> d j s);
          (s, oks) = members fs ms s in (s, ok \<and> oks))"

definition struct :: "(string \<times> 's decoder) list \<Rightarrow> 's decoder" where
  "struct fs j s = (case j of
     JNull \<Rightarrow> (s, True)
   | JObject ms \<Rightarrow> members fs ms s
   | _ \<Rightarrow> (s, False))"

definition network_field :: "(int \<times> int) decoder" where
  "network_field = struct [(''rx_bytes'', int64_field (\<lambda>n (rx, tx). (n, tx))),
                           (''tx_bytes'', int64_field (\<lambda>n (rx, tx). (rx, n)))]"

fun map_entries :: "(string \<times> json) list \<Rightarrow> (string \<rightharpoonup> int \<times> int) \<Rightarrow> (string \<rightharpoonup> int \<times> int) \<times> bool" where
  "map_entries [] m = (m, True)"
| "map_entries ((name, j) # ms) m =
     (let (net, ok) = network_field j (0, 0);
          (m, oks) = map_entries ms (m(name \<mapsto> net)) in (m, ok \<and> oks))"

definition networks_field :: "dockerStats decoder" where
  "networks_field j s = (case j of
     JNull \<Rightarrow> (s\<lparr>ds_Networks := Map.empty\<rparr>, True)
   | JObject ms \<Rightarrow> (let (m, ok) = map_entries ms (ds_Networks s) in (s\<lparr>ds_Networks := m\<rparr>, ok))
   | _ \<Rightarrow> (s, False))"

definition stats_fields :: "(string \<times> dockerStats decoder) list" where
  "stats_fields =
     [(''cpu_stats'', struct
        [(''cpu_usage'', struct [(''total_usage'', int64_field (\<lambda>n s. s\<lparr>ds_TotalUsage := n\<rparr>))]),
         (''system_cpu_usage'', int64_field (\<lambda>n s. s\<lparr>ds_SystemCPUUsage := n\<rparr>)),
         (''online_cpus'', int64_field (\<lambda>n s. s\<lparr>ds_OnlineCPUs := n\<rparr>))]),
      (''precpu_stats'', struct
        [(''cpu_usage'', struct [(''total_usage'', int64_field (\<lambda>n s. s\<lparr>ds_PreTotalUsage := n\<rparr>))]),
         (''system_cpu_usage'', int64_field (\<lambda>n s. s\<lparr>ds_PreSystemCPUUsage := n\<rparr>))]),
      (''memory_stats'', struct
        [(''usage'', int64_field (\<lambda>n s. s\<lparr>ds_Usage := n\<rparr>)),
         (''limit'', int64_field (\<lambda>n s. s\<lparr>ds_Limit := n\<rparr>)),
         (''stats'', struct [(''inactive_file'', int64_field (\<lambda>n s. s\<lparr>ds_InactiveFile := n\<rparr>))])]),
      (''networks'', networks_field)]"

text \<open>\<open>body\<close> is what reading the first JSON value of the body gives.\<close>

definition parseStats :: "json result \<Rightarrow> dockerStats result" where
  "parseStats body = (case body of
     Inl err \<Rightarrow> Inl (''decoding stats JSON: '' @ err)
   | Inr j \<Rightarrow> (let (stats, ok) = struct stats_fields j zero_stats in
       if ok then Inr stats else Inl ''decoding stats JSON: json: cannot unmarshal a value into dockerStats''))"

definition sub64 :: "int \<Rightarrow> int \<Rightarrow> int" where
  "sub64 a b = signed_take_bit 63 (a - b)"

definition calculateCPUPercent :: "dockerStats \<Rightarrow> rat" where
  "calculateCPUPercent stats =
     (let cpuDelta = of_int (sub64 (ds_TotalUsage stats) (ds_PreTotalUsage stats));
          systemDelta = of_int (sub64 (ds_SystemCPUUsage stats) (ds_PreSystemCPUUsage stats)) in
      if systemDelta \<le> 0 \<or> cpuDelta < 0 then 0
      else let cpus = (if ds_OnlineCPUs stats = 0 then 1 else ds_OnlineCPUs stats) in
        (cpuDelta / systemDelta) * of_int cpus * 100)"

definition memUsage :: "dockerStats \<Rightarrow> int" where
  "memUsage parsed =
     (let m = sub64 (ds_Usage parsed) (ds_InactiveFile parsed) in if m < 0 then ds_Usage parsed else m)"

text \<open>\<open>nets\<close> is the map's content in the order in which the loop happens to visit it.\<close>

definition network_totals :: "(int \<times> int) list \<Rightarrow> int \<times> int" where
  "network_totals nets = (total64 (map fst nets), total64 (map snd nets))"

subsection \<open>Batches\<close>

record metrics_source =
  ms_now :: int
  ms_containers :: "ContainerInfo list result"                  \<comment> \<open>\<^verbatim>\<open>ListManagedContainers\<close>\<close>
  ms_stats :: "string \<Rightarrow> json result result"                    \<comment> \<open>the one-shot statistics: the call, then reading its body\<close>
  ms_visit :: "(string \<rightharpoonup> int \<times> int) \<Rightarrow> (int \<times> int) list"       \<comment> \<open>the order of a loop over a map\<close>
  ms_disk :: "docker_df result"

definition container_labels :: "string \<Rightarrow> ContainerInfo \<Rightarrow> go_map" where
  "container_labels serverID ci =
     [''deployment_id'' \<mapsto> map_get (cn_Labels ci) ''clank.deployment_id'',
      ''service_slug'' \<mapsto> map_get (cn_Labels ci) ''clank.service_slug'',
      ''container_name'' \<mapsto> cn_Name ci,
      ''server_id'' \<mapsto> serverID]"

definition container_metrics :: "metrics_source \<Rightarrow> go_map \<Rightarrow> dockerStats \<Rightarrow> Metric list" where
  "container_metrics src labels parsed =
     (let cpuSeconds = of_int (ds_TotalUsage parsed) / 1000000000;
          (rxBytes, txBytes) = network_totals (ms_visit src (ds_Networks parsed));
          metric = (\<lambda>name v. \<lparr>me_Name = name, me_Value = v, me_TimestampNs = ms_now src, me_Labels = labels\<rparr>) in
      [metric ''container_cpu_usage_seconds_total'' cpuSeconds,
       metric ''container_memory_usage_bytes'' (of_int (memUsage parsed)),
       metric ''container_spec_memory_limit_bytes'' (of_int (ds_Limit parsed)),
       metric ''container_network_receive_bytes_total'' (of_int rxBytes),
       metric ''container_network_transmit_bytes_total'' (of_int txBytes)])"

fun collected :: "string \<Rightarrow> metrics_source \<Rightarrow> ContainerInfo list \<Rightarrow> Metric list \<Rightarrow> Metric list" where
  "collected serverID src [] metrics = metrics"
| "collected serverID src (ci # cs) metrics =
     (if cn_State ci \<noteq> ''running'' then collected serverID src cs metrics
      else if map_get (cn_Labels ci) ''clank.deployment_id'' = [] then collected serverID src cs metrics
      else case ms_stats src (cn_ContainerID ci) of
        Inl err \<Rightarrow> collected serverID src cs metrics
      | Inr body \<Rightarrow> (case parseStats body of
          Inl err \<Rightarrow> collected serverID src cs metrics
        | Inr parsed \<Rightarrow> collected serverID src cs
            (metrics @ container_metrics src (container_labels serverID ci) parsed)))"

definition send_batch :: "MetricBatch \<Rightarrow> MetricBatch channel \<Rightarrow> MetricBatch channel" where
  "send_batch batch ch = snd (offer metricsChannelSize batch ch)"

definition collect :: "string \<Rightarrow> metrics_source \<Rightarrow> MetricBatch channel \<Rightarrow> MetricBatch channel" where
  "collect serverID src ch = (case ms_containers src of
     Inl err \<Rightarrow> ch
   | Inr containers \<Rightarrow>
       let metrics = collected serverID src containers [] in
       if length metrics = 0 then ch else send_batch metrics ch)"

definition copyLabels :: "go_map \<Rightarrow> go_map" where
  "copyLabels src = src"

definition base_labels :: "string \<Rightarrow> go_map" where
  "base_labels serverID = [''server_id'' \<mapsto> serverID]"

record cpu_times =
  ct_User :: rat
  ct_System :: rat
  ct_Idle :: rat
  ct_Iowait :: rat
  ct_Nice :: rat
  ct_Irq :: rat
  ct_Softirq :: rat
  ct_Steal :: rat

text \<open>What the statistics library reports of the host; \<open>hs_order\<close> is the order of a loop over a map.\<close>

record host_source =
  hs_now :: int
  hs_windows :: bool
  hs_times :: "cpu_times list result"
  hs_order :: "(string \<times> rat) list \<Rightarrow> (string \<times> rat) list"
  hs_load :: "(rat \<times> rat \<times> rat) result"
  hs_memory :: "(nat \<times> nat) result"                     \<comment> \<open>total and available\<close>
  hs_filesystem :: "string \<Rightarrow> (nat \<times> nat) result"         \<comment> \<open>total and free\<close>
  hs_io :: "(string \<times> nat \<times> nat) list result"            \<comment> \<open>bytes read and written of each device\<close>

definition modes :: "cpu_times \<Rightarrow> (string \<times> rat) list" where
  "modes t = [(''user'', ct_User t), (''system'', ct_System t), (''idle'', ct_Idle t), (''iowait'', ct_Iowait t),
     (''nice'', ct_Nice t), (''irq'', ct_Irq t), (''softirq'', ct_Softirq t), (''steal'', ct_Steal t)]"

definition host_metrics :: "string \<Rightarrow> host_source \<Rightarrow> Metric list" where
  "host_metrics serverID src =
     (let baseLabels = base_labels serverID;
          metric = (\<lambda>name v labels. \<lparr>me_Name = name, me_Value = v, me_TimestampNs = hs_now src, me_Labels = labels\<rparr>);
          rootPath = (if hs_windows src then [CHR ''C'', CHR '':'', CHR 0x5C] else ''/'') in
      (case hs_times src of
         Inr (t # _) \<Rightarrow> map (\<lambda>(mode, val). metric ''node_cpu_seconds_total'' val ((copyLabels baseLabels)(''mode'' \<mapsto> mode)))
           (hs_order src (modes t))
       | _ \<Rightarrow> []) @
      (case hs_load src of
         Inr (load1, load5, load15) \<Rightarrow> [metric ''node_load1'' load1 (copyLabels baseLabels),
           metric ''node_load5'' load5 (copyLabels baseLabels), metric ''node_load15'' load15 (copyLabels baseLabels)]
       | Inl _ \<Rightarrow> []) @
      (case hs_memory src of
         Inr (all_bytes, available) \<Rightarrow> [metric ''node_memory_MemTotal_bytes'' (of_nat all_bytes) (copyLabels baseLabels),
           metric ''node_memory_MemAvailable_bytes'' (of_nat available) (copyLabels baseLabels)]
       | Inl _ \<Rightarrow> []) @
      (case hs_filesystem src rootPath of
         Inr (all_bytes, free) \<Rightarrow> (let fsLabels = (copyLabels baseLabels)(''mountpoint'' \<mapsto> rootPath) in
           [metric ''node_filesystem_size_bytes'' (of_nat all_bytes) fsLabels,
            metric ''node_filesystem_avail_bytes'' (of_nat free) fsLabels])
       | Inl _ \<Rightarrow> []) @
      (case hs_io src of
         Inr counters \<Rightarrow> concat (map (\<lambda>(device, readBytes, writeBytes).
           let dl = (copyLabels baseLabels)(''device'' \<mapsto> device) in
           [metric ''node_disk_read_bytes_total'' (of_nat readBytes) dl,
            metric ''node_disk_written_bytes_total'' (of_nat writeBytes) dl]) counters)
       | Inl _ \<Rightarrow> []))"

definition collectHost :: "string \<Rightarrow> host_source \<Rightarrow> MetricBatch channel \<Rightarrow> MetricBatch channel" where
  "collectHost serverID src ch =
     (let metrics = host_metrics serverID src in if length metrics = 0 then ch else send_batch metrics ch)"

definition disk_metrics :: "string \<Rightarrow> int \<Rightarrow> DiskUsageResult \<Rightarrow> Metric list" where
  "disk_metrics serverID ts du =
     (let baseLabels = base_labels serverID;
          metric = (\<lambda>name v labels. \<lparr>me_Name = name, me_Value = of_int v, me_TimestampNs = ts, me_Labels = labels\<rparr>) in
      [metric ''docker_disk_images_bytes'' (dur_ImagesBytes du) (copyLabels baseLabels),
       metric ''docker_disk_buildcache_bytes'' (dur_BuildCacheBytes du) (copyLabels baseLabels),
       metric ''docker_disk_containers_bytes'' (dur_ContainersBytes du) (copyLabels baseLabels)] @
      map (\<lambda>vol. metric ''docker_volume_size_bytes'' (vu_SizeBytes vol)
            ((copyLabels baseLabels)(''volume_name'' \<mapsto> vu_Name vol))) (dur_Volumes du))"

definition collectDiskUsage :: "string \<Rightarrow> metrics_source \<Rightarrow> MetricBatch channel \<Rightarrow> MetricBatch channel" where
  "collectDiskUsage serverID src ch = (case DiskUsage (ms_disk src) of
     Inl err \<Rightarrow> ch
   | Inr du \<Rightarrow> send_batch (disk_metrics serverID (ms_now src) du) ch)"

text \<open>The loop's steps, and what the metric stream takes; the first three come once at the start.\<close>

datatype metrics_action =
    CollectContainers metrics_source
  | CollectHost host_source
  | CollectDiskUsage metrics_source
  | TakeBatch

fun metrics_act :: "string \<Rightarrow> metrics_action \<Rightarrow> MetricBatch channel \<Rightarrow> MetricBatch channel" where
  "metrics_act serverID (CollectContainers src) ch = collect serverID src ch"
| "metrics_act serverID (CollectHost src) ch = collectHost serverID src ch"
| "metrics_act serverID (CollectDiskUsage src) ch = collectDiskUsage serverID src ch"
| "metrics_act serverID TakeBatch ch = (case receive ch of None \<Rightarrow> ch | Some (batch, ch) \<Rightarrow> ch)"

definition metrics_run :: "string \<Rightarrow> metrics_action list \<Rightarrow> MetricBatch channel" where
  "metrics_run serverID as = fold (metrics_act serverID) as empty_channel"


subsection \<open>Decoding keeps the range of the integers\<close>

definition keeps :: "('s \<Rightarrow> bool) \<Rightarrow> 's decoder \<Rightarrow> bool" where
  "keeps I d \<longleftrightarrow> (\<forall>j s. I s \<longrightarrow> I (fst (d j s)))"

definition in_int64 :: "int \<Rightarrow> bool" where
  "in_int64 n \<longleftrightarrow> min_int64 \<le> n \<and> n \<le> max_int64"

lemma keeps_int64_field: "(\<And>n s. in_int64 n \<Longrightarrow> I s \<Longrightarrow> I (put n s)) \<Longrightarrow> keeps I (int64_field put)"
  by (simp add: keeps_def int64_field_def in_int64_def split: json.split)

lemma field_named_in: "field_named fs name = Some d \<Longrightarrow> d \<in> snd ` set fs"
  by (auto simp: field_named_def split: option.splits dest: map_of_SomeD first_match_SomeD intro: rev_image_eqI)

lemma keeps_struct:
  assumes "\<forall>d \<in> snd ` set fs. keeps I d"
  shows "keeps I (struct fs)"
proof -
  have members: "I s \<Longrightarrow> I (fst (members fs ms s))" for ms s
  proof (induction ms arbitrary: s)
    case (Cons m ms)
    obtain name j where m: "m = (name, j)" by (cases m)
    let ?r = "case field_named fs name of None \<Rightarrow> (s, True) | Some d \<Rightarrow> d j s"
    have "I (fst ?r)"
    proof (cases "field_named fs name")
      case (Some d)
      with assms field_named_in have "keeps I d" by blast
      with Some Cons.prems show ?thesis by (simp add: keeps_def)
    qed (use Cons.prems in simp)
    from Cons.IH [OF this] show ?case by (simp add: m Let_def case_prod_unfold)
  qed simp
  then show ?thesis by (simp add: keeps_def struct_def split: json.split)
qed

definition stats_in_range :: "dockerStats \<Rightarrow> bool" where
  "stats_in_range s \<longleftrightarrow> in_int64 (ds_TotalUsage s) \<and> in_int64 (ds_SystemCPUUsage s) \<and> in_int64 (ds_OnlineCPUs s) \<and>
     in_int64 (ds_PreTotalUsage s) \<and> in_int64 (ds_PreSystemCPUUsage s) \<and> in_int64 (ds_Usage s) \<and>
     in_int64 (ds_Limit s) \<and> in_int64 (ds_InactiveFile s) \<and>
     (\<forall>(rx, tx) \<in> ran (ds_Networks s). in_int64 rx \<and> in_int64 tx)"

lemma keeps_network:
  "keeps (\<lambda>(rx, tx). in_int64 rx \<and> in_int64 tx) network_field"
  unfolding network_field_def by (intro keeps_struct) (simp add: keeps_int64_field split: prod.splits)

lemma keeps_networks: "keeps stats_in_range networks_field"
proof -
  have entries: "\<forall>(rx, tx) \<in> ran m. in_int64 rx \<and> in_int64 tx \<Longrightarrow>
      \<forall>(rx, tx) \<in> ran (fst (map_entries ms m)). in_int64 rx \<and> in_int64 tx" for ms m
  proof (induction ms m rule: map_entries.induct)
    case (2 name j ms m)
    have "case fst (network_field j (0, 0)) of (rx, tx) \<Rightarrow> in_int64 rx \<and> in_int64 tx"
      using keeps_network unfolding keeps_def by (simp add: in_int64_def min_int64_def max_int64_def)
    with 2(2) have "\<forall>(rx, tx) \<in> ran (m(name \<mapsto> fst (network_field j (0, 0)))). in_int64 rx \<and> in_int64 tx"
      by (auto simp: ran_def split: if_splits)
    from 2(1) [OF refl prod.collapse this] show ?case
      by (simp add: Let_def case_prod_unfold del: fun_upd_apply)
  qed simp
  show ?thesis
    unfolding keeps_def
  proof (intro allI impI)
    fix j s assume s: "stats_in_range s"
    then have "\<forall>(rx, tx) \<in> ran (fst (map_entries ms (ds_Networks s))). in_int64 rx \<and> in_int64 tx" for ms
      unfolding stats_in_range_def by (intro entries) blast
    with s show "stats_in_range (fst (networks_field j s))"
      by (simp add: networks_field_def stats_in_range_def Let_def case_prod_unfold split: json.split)
  qed
qed

lemma keeps_stats: "keeps stats_in_range (struct stats_fields)"
  unfolding stats_fields_def
  by (auto intro!: keeps_struct keeps_int64_field keeps_networks simp: stats_in_range_def)

lemma parsed_in_range:
  assumes "parseStats body = Inr stats"
  shows "stats_in_range stats"
proof -
  have "stats_in_range zero_stats"
    by (simp add: stats_in_range_def zero_stats_def in_int64_def min_int64_def max_int64_def)
  with keeps_stats have "stats_in_range (fst (struct stats_fields j zero_stats))" for j by (simp add: keeps_def)
  with assms show ?thesis by (auto simp: parseStats_def Let_def case_prod_unfold split: sum.splits if_splits)
qed

lemma memUsage_bounds:
  assumes "stats_in_range s" "0 \<le> ds_Usage s" "0 \<le> ds_InactiveFile s"
  shows "0 \<le> memUsage s \<and> memUsage s \<le> ds_Usage s"
proof -
  from assms have "sub64 (ds_Usage s) (ds_InactiveFile s) = ds_Usage s - ds_InactiveFile s"
    unfolding sub64_def by (intro signed_take_bit_int_eq_self) (auto simp: stats_in_range_def in_int64_def max_int64_def)
  with assms(2,3) show ?thesis by (simp add: memUsage_def Let_def)
qed

lemma foldl_add64: "foldl add64 (signed_take_bit 63 a) xs = signed_take_bit 63 (a + sum_list xs)"
proof (induction xs arbitrary: a)
  case (Cons x xs)
  have "add64 (signed_take_bit 63 a) x = signed_take_bit 63 (a + x)"
    unfolding add64_def using signed_take_bit_add [of 63 "signed_take_bit 63 a" x] signed_take_bit_add [of 63 a x] by simp
  with Cons show ?case by (simp add: add.assoc)
qed simp

lemma total64_sum: "total64 xs = signed_take_bit 63 (sum_list xs)"
  using foldl_add64 [of 0 xs] by (simp add: total64_def)


subsection \<open>Properties\<close>

text \<open>The containers a batch is about, with their statistics.\<close>

definition measured :: "metrics_source \<Rightarrow> ContainerInfo list \<Rightarrow> (ContainerInfo \<times> dockerStats) list" where
  "measured src cs = concat (map (\<lambda>ci. case ms_stats src (cn_ContainerID ci) of
     Inl err \<Rightarrow> []
   | Inr body \<Rightarrow> (case parseStats body of Inl err \<Rightarrow> [] | Inr parsed \<Rightarrow> [(ci, parsed)])) (filter followed cs))"

lemma collected_measured:
  "collected serverID src cs metrics =
   metrics @ concat (map (\<lambda>(ci, parsed). container_metrics src (container_labels serverID ci) parsed) (measured src cs))"
  by (induction serverID src cs metrics rule: collected.induct)
    (auto simp: measured_def followed_def split: sum.splits)

lemma container_metrics_length: "length (container_metrics src labels parsed) = 5"
  by (simp add: container_metrics_def Let_def split: prod.split)

lemma collected_empty: "collected serverID src cs [] = [] \<longleftrightarrow> measured src cs = []"
proof -
  have "length (concat (map (\<lambda>(ci, parsed). container_metrics src (container_labels serverID ci) parsed) ms)) = 5 * length ms"
    for ms by (induction ms) (auto simp: container_metrics_length)
  from this [of "measured src cs"] show ?thesis
    by (metis collected_measured append_Nil length_0_conv mult_eq_0_iff zero_neq_numeral)
qed

lemma container_metrics_memory:
  assumes "m \<in> set (container_metrics src labels parsed)" "me_Name m = ''container_memory_usage_bytes''"
  shows "me_Value m = of_int (memUsage parsed) \<and> me_Labels m = labels"
  using assms by (auto simp: container_metrics_def Let_def split: prod.splits)

text \<open>
  C25.  A container batch is about exactly the running containers with a deployment label whose statistics
  could be read (the proxy and the tunnel have none), five metrics for each, and none is sent when there
  is no such container.  When Docker reports a usage and an amount of inactive file pages that are not
  negative, the memory value lies between zero and that usage, although the difference is taken in 64 bits; the
  network totals are the sums over the interfaces in 64 bits, in whatever order they are visited.
\<close>

theorem container_batch_exact:
  "collect serverID src ch = (case ms_containers src of
     Inl err \<Rightarrow> ch
   | Inr cs \<Rightarrow> if measured src cs = [] then ch
       else send_batch (concat (map (\<lambda>(ci, parsed).
         container_metrics src (container_labels serverID ci) parsed) (measured src cs))) ch) \<and>
   list_all (\<lambda>(ci, parsed). followed ci \<and> length (container_metrics src (container_labels serverID ci) parsed) = 5 \<and>
     (if 0 \<le> ds_Usage parsed \<and> 0 \<le> ds_InactiveFile parsed
      then 0 \<le> memUsage parsed \<and> memUsage parsed \<le> ds_Usage parsed else True)) (measured src cs) \<and>
   network_totals nets =
     (signed_take_bit 63 (sum_list (map fst nets)), signed_take_bit 63 (sum_list (map snd nets)))"
proof (intro conjI)
  show "network_totals nets =
     (signed_take_bit 63 (sum_list (map fst nets)), signed_take_bit 63 (sum_list (map snd nets)))"
    by (simp add: network_totals_def total64_sum)
  have "followed ci \<and> stats_in_range parsed" if "(ci, parsed) \<in> set (measured src cs)" for ci parsed
    using that by (auto simp: measured_def parsed_in_range split: sum.splits)
  then show "list_all (\<lambda>(ci, parsed). followed ci \<and> length (container_metrics src (container_labels serverID ci) parsed) = 5 \<and>
     (if 0 \<le> ds_Usage parsed \<and> 0 \<le> ds_InactiveFile parsed
      then 0 \<le> memUsage parsed \<and> memUsage parsed \<le> ds_Usage parsed else True)) (measured src cs)"
    using memUsage_bounds by (auto simp: list_all_iff container_metrics_length)
  show "collect serverID src ch = (case ms_containers src of
     Inl err \<Rightarrow> ch
   | Inr cs \<Rightarrow> if measured src cs = [] then ch
       else send_batch (concat (map (\<lambda>(ci, parsed).
         container_metrics src (container_labels serverID ci) parsed) (measured src cs))) ch)"
    unfolding collect_def Let_def length_0_conv collected_empty by (simp add: collected_measured split: sum.split)
qed


lemma metrics_act_ok: "channel_ok metricsChannelSize ch \<Longrightarrow> channel_ok metricsChannelSize (metrics_act serverID a ch)"
  by (cases a) (auto simp: collect_def collectHost_def collectDiskUsage_def send_batch_def offer_ok Let_def
      split: sum.split option.split intro: receive_ok)

lemma metrics_run_ok: "channel_ok metricsChannelSize (metrics_run serverID as)"
proof -
  have "channel_ok metricsChannelSize ch \<Longrightarrow> channel_ok metricsChannelSize (fold (metrics_act serverID) as ch)" for ch
    by (induction as arbitrary: ch) (simp_all add: metrics_act_ok)
  then show ?thesis by (simp add: metrics_run_def)
qed

text \<open>
   Batches are bounded, accounted for and handed over in order: after any steps of the loop at most 64
  batches wait, every batch was taken, waits or was dropped as a whole, and if the metric streams receive
  what was taken, what they deliver is a subsequence of the batches made.
\<close>

theorem metric_batches_accounted:
  "let ch = metrics_run serverID as in
   length (ch_buffer ch) \<le> metricsChannelSize \<and>
   mset (ch_offered ch) = mset (ch_taken ch) + mset (ch_buffer ch) + mset (ch_lost ch) \<and>
   subseq (ch_taken ch @ ch_buffer ch) (ch_offered ch)"
  using metrics_run_ok [of serverID as] by (simp add: channel_ok_def Let_def)

theorem metric_batches_sent_in_order:
  assumes "messages es = ch_taken (metrics_run serverID as)"
    and "runMetricStreamer sds es = (lg, waits, rest)"
  shows "subseq (handed lg) (ch_offered (metrics_run serverID as)) \<and> length (failures lg) \<le> length waits + 1"
proof -
  from metrics_run_ok [of serverID as] have "subseq (ch_taken (metrics_run serverID as)) (ch_offered (metrics_run serverID as))"
    by (auto simp: channel_ok_def intro: subseq_order.trans [rotated] prefix_imp_subseq)
  moreover from batches.run_received [of sds es lg waits rest] assms
  have "ch_taken (metrics_run serverID as) = map fst lg @ messages rest" by (simp add: runMetricStreamer_def)
  then have "subseq (handed lg) (ch_taken (metrics_run serverID as))"
    using handed_subseq [of lg] prefix_imp_subseq [of "map fst lg" "map fst lg @ messages rest"]
    by (auto intro: subseq_order.trans)
  ultimately have "subseq (handed lg) (ch_offered (metrics_run serverID as))" by (rule subseq_order.trans [rotated])
  with batches.run_failures [of sds es lg waits rest] assms(2) show ?thesis by (simp add: runMetricStreamer_def)
qed

lemma share_bounds:
  assumes "0 \<le> (q :: rat)" "0 \<le> n"
  shows "0 \<le> q * n * 100" "q \<le> 1 \<Longrightarrow> q * n * 100 \<le> 100 * n"
  using assms mult_left_le_one_le [of n q] by (simp_all add: mult.commute)

text \<open>
   The CPU percentage is never negative, for counters that have been reset and for a machine whose
  number of processors is unknown; and when the container used no more than the machine did, it is at
  most a hundred for each processor.
\<close>

theorem cpu_percent_bounds:
  assumes "0 \<le> ds_OnlineCPUs s"
  shows "0 \<le> calculateCPUPercent s \<and>
    (sub64 (ds_TotalUsage s) (ds_PreTotalUsage s) \<le> sub64 (ds_SystemCPUUsage s) (ds_PreSystemCPUUsage s) \<longrightarrow>
     calculateCPUPercent s \<le> 100 * of_int (max 1 (ds_OnlineCPUs s)))"
proof -
  let ?c = "of_int (sub64 (ds_TotalUsage s) (ds_PreTotalUsage s)) :: rat"
  let ?y = "of_int (sub64 (ds_SystemCPUUsage s) (ds_PreSystemCPUUsage s)) :: rat"
  let ?n = "if ds_OnlineCPUs s = 0 then 1 else ds_OnlineCPUs s"
  have n: "(0 :: rat) \<le> of_int ?n" "?n = max 1 (ds_OnlineCPUs s)" using assms by simp_all
  show ?thesis
  proof (cases "?y \<le> 0 \<or> ?c < 0")
    case True
    then have "calculateCPUPercent s = 0" by (simp add: calculateCPUPercent_def Let_def)
    then show ?thesis by (simp add: max_def)
  next
    case False
    then have p: "calculateCPUPercent s = ?c / ?y * of_int ?n * 100" by (simp add: calculateCPUPercent_def Let_def)
    from False have q: "0 \<le> ?c / ?y" by simp
    have "?c / ?y \<le> 1" if "sub64 (ds_TotalUsage s) (ds_PreTotalUsage s) \<le> sub64 (ds_SystemCPUUsage s) (ds_PreSystemCPUUsage s)"
      using that False by (simp add: divide_le_eq)
    with share_bounds [OF q n(1)] show ?thesis unfolding p n(2) [symmetric] by blast
  qed
qed


subsection \<open>Witnesses\<close>

lemma cpu_percent_bounds_witness:
  "0 \<le> ds_OnlineCPUs (zero_stats\<lparr>ds_TotalUsage := 50, ds_SystemCPUUsage := 100, ds_OnlineCPUs := 4\<rparr>) \<and>
   0 \<le> calculateCPUPercent (zero_stats\<lparr>ds_TotalUsage := 50, ds_SystemCPUUsage := 100, ds_OnlineCPUs := 4\<rparr>)"
proof -
  have cpus: "0 \<le> ds_OnlineCPUs (zero_stats\<lparr>ds_TotalUsage := 50, ds_SystemCPUUsage := 100, ds_OnlineCPUs := 4\<rparr>)" by simp
  from cpu_percent_bounds [OF this] cpus show ?thesis by blast
qed

definition sample_disk :: metrics_source where
  "sample_disk = \<lparr>ms_now = 0, ms_containers = Inl ''no daemon'', ms_stats = (\<lambda>i. Inl ''no daemon''), ms_visit = (\<lambda>m. []),
     ms_disk = Inr \<lparr>df_LayersSize = 7, df_Containers = [], df_Images = [], df_BuildCache = [], df_Volumes = []\<rparr>\<rparr>"

definition metric_sender :: "MetricBatch sender" where
  "metric_sender = \<lparr>sd_open = None, sd_send = (\<lambda>n e. None), sd_close = None, sd_ended = False, sd_random = 0, sd_pauseEnds = False\<rparr>"

lemma metric_batches_sent_in_order_witness:
  "\<exists>batch. runMetricStreamer [metric_sender] [Message batch] = ([(batch, True)], [], []) \<and>
     subseq [batch] (ch_offered (metrics_run ''s1'' [CollectDiskUsage sample_disk, TakeBatch]))"
proof -
  obtain du where du: "DiskUsage (ms_disk sample_disk) = Inr du" by (auto simp: DiskUsage_def sample_disk_def)
  let ?batch = "disk_metrics ''s1'' 0 du"
  have "collectDiskUsage ''s1'' sample_disk empty_channel = send_batch ?batch empty_channel"
    unfolding collectDiskUsage_def du by (simp add: sample_disk_def)
  then have "ch_taken (metrics_run ''s1'' [CollectDiskUsage sample_disk, TakeBatch]) = [?batch]"
    by (simp add: metrics_run_def send_batch_def offer_def receive_def empty_channel_def metricsChannelSize_def)
  then have taken: "messages [Message ?batch] = ch_taken (metrics_run ''s1'' [CollectDiskUsage sample_disk, TakeBatch])" by simp
  have run: "runMetricStreamer [metric_sender] [Message ?batch] = ([(?batch, True)], [], [])"
    by (simp add: runMetricStreamer_def StreamMetrics_def metric_sender_def)
  from metric_batches_sent_in_order [OF taken run] run show ?thesis
    by (intro exI [of _ ?batch]) (simp add: handed_def)
qed

end
