(* ===== verification/System_Info.thy ===== *)
theory System_Info
  imports Host_Containers Go_Strings "HOL-Library.Word"
begin

text \<open>
  What the agent reports of its host (\<^verbatim>\<open>internal/sysinfo\<close>) and the heartbeat that carries it
  (\<^verbatim>\<open>SendHeartbeat\<close>, \<^verbatim>\<open>collectInfo\<close>).  The answers of the operating system, of the
  tailscale command and of the address service are a record.
\<close>

unbundle bit_operations_syntax

subsection \<open>Addresses\<close>

type_synonym ip = "8 word list"

record ip_net =
  net_IP :: ip
  net_Mask :: ip

definition To4 :: "ip \<Rightarrow> ip option" where
  "To4 a =
     (if length a = 4 then Some a
      else if length a = 16 \<and> take 12 a = replicate 10 0 @ [255, 255] then Some (drop 12 a)
      else None)"

fun mask_bytes :: "nat \<Rightarrow> nat \<Rightarrow> ip" where
  "mask_bytes 0 n = []"
| "mask_bytes (Suc l) n = (if n \<ge> 8 then 255 # mask_bytes l (n - 8) else NOT (drop_bit n 255) # mask_bytes l 0)"

definition CIDRMask :: "nat \<Rightarrow> nat \<Rightarrow> ip" where
  "CIDRMask ones bits = mask_bytes (bits div 8) ones"

text \<open>\<^verbatim>\<open>IPNet.Contains\<close>, for a network of four bytes.\<close>

definition net_Contains :: "ip_net \<Rightarrow> ip \<Rightarrow> bool" where
  "net_Contains n a =
     (let a = (case To4 a of Some x \<Rightarrow> x | None \<Rightarrow> a) in
      length a = length (net_IP n) \<and>
      list_all (\<lambda>((x, m), y). x AND m = y AND m) (zip (zip (net_IP n) (net_Mask n)) a))"

definition isPrivateIP :: "ip \<Rightarrow> bool" where
  "isPrivateIP a = list_ex (\<lambda>n. net_Contains n a)
     [\<lparr>net_IP = [10, 0, 0, 0], net_Mask = CIDRMask 8 32\<rparr>,
      \<lparr>net_IP = [172, 16, 0, 0], net_Mask = CIDRMask 12 32\<rparr>,
      \<lparr>net_IP = [192, 168, 0, 0], net_Mask = CIDRMask 16 32\<rparr>]"

text \<open>\<^verbatim>\<open>IP.String\<close> of four bytes.\<close>

definition ip_String :: "ip \<Rightarrow> string" where
  "ip_String a = Join ''.'' (map (\<lambda>b. show_nat (unat b)) a)"

text \<open>
  \<^verbatim>\<open>net.ParseIP\<close>, as far as whether it accepts: four decimal numbers without leading zeros, or up
  to eight groups of hexadecimal digits with at most one \<^verbatim>\<open>::\<close>, the last two perhaps as four decimal
  numbers.
\<close>

definition valid_octet :: "string \<Rightarrow> bool" where
  "valid_octet f \<longleftrightarrow> f \<noteq> [] \<and> (length f = 1 \<or> hd f \<noteq> CHR ''0'') \<and>
     (case nat_of_digits 0 f of Some n \<Rightarrow> n \<le> 255 | None \<Rightarrow> False)"

definition valid_ipv4 :: "string \<Rightarrow> bool" where
  "valid_ipv4 s = (let fs = Split s CHR ''.'' in length fs = 4 \<and> list_all valid_octet fs)"

definition is_hex_digit :: "char \<Rightarrow> bool" where
  "is_hex_digit c \<longleftrightarrow> is_digit c \<or> (of_char (lower_char c) :: nat) \<in> {97..102}"

text \<open>\<open>k\<close> groups can still come; \<open>ell\<close>: a \<^verbatim>\<open>::\<close> was read.\<close>

fun valid_groups :: "nat \<Rightarrow> bool \<Rightarrow> string \<Rightarrow> bool" where
  "valid_groups 0 ell s = (s = [] \<and> \<not> ell)"
| "valid_groups (Suc k) ell s =
     (let h = takeWhile is_hex_digit s; t = dropWhile is_hex_digit s in
      if h = [] \<or> length h > 4 then False
      else case t of
        [] \<Rightarrow> (k = 0) \<noteq> ell
      | c # u \<Rightarrow>
          if c = CHR ''.'' then (ell \<or> k = 1) \<and> 1 \<le> k \<and> valid_ipv4 s \<and> (k = 1) \<noteq> ell
          else if c \<noteq> CHR '':'' then False
          else case u of
            [] \<Rightarrow> False
          | d # v \<Rightarrow>
              if d = CHR '':'' then (if ell then False else if v = [] then k \<noteq> 0 else valid_groups k True v)
              else valid_groups k ell u)"

definition valid_ipv6 :: "string \<Rightarrow> bool" where
  "valid_ipv6 s =
     (if HasPrefix s ''::'' then (let r = drop 2 s in r = [] \<or> valid_groups 8 True r) else valid_groups 8 False s)"

definition ParseIP_ok :: "string \<Rightarrow> bool" where
  "ParseIP_ok s = (case filter (\<lambda>c. c = CHR ''.'' \<or> c = CHR '':'' \<or> c = CHR ''%'') s of
     [] \<Rightarrow> False
   | c # _ \<Rightarrow> if c = CHR ''.'' then valid_ipv4 s else if c = CHR '':'' then valid_ipv6 s else False)"

subsection \<open>The host\<close>

datatype interface_addr = IPNet ip | OtherAddr

record interface =
  if_Name :: string
  if_Loopback :: bool
  if_Up :: bool
  if_Addrs :: "interface_addr list result"

record http_answer =
  ha_Status :: int
  ha_Body :: string
  ha_ReadError :: "go_error option"                  \<comment> \<open>the error after these bytes, if any\<close>

record tailscaleStatus =
  tss_TailscaleIPs :: "string list"
  tss_DNSName :: string

record host =
  ho_Hostname :: string                              \<comment> \<open>\<^verbatim>\<open>os.Hostname\<close>, empty when it fails\<close>
  ho_OS :: string
  ho_Arch :: string
  ho_NumCPU :: int
  ho_Memory :: "nat result"
  ho_docker_version :: "string result"
  ho_Interfaces :: "interface list result"
  ho_ipify :: "http_answer result"
  ho_tailscale_path :: "string result"
  ho_tailscale_status :: "string result"
  ho_json_status :: "string \<Rightarrow> tailscaleStatus result"

record HostNetwork =
  hn_LANIPs :: "string list"
  hn_PublicIP :: string
  hn_TailscaleIP :: string
  hn_TailscaleHostname :: string
  hn_TailscaleCLIAvailable :: bool

definition TraefikBindIP :: "HostNetwork \<Rightarrow> string" where
  "TraefikBindIP n =
     (if hn_TailscaleIP n = [] then []
      else if length (hn_LANIPs n) > 0 then hn_LANIPs n ! 0
      else [])"

definition isDockerInterface :: "string \<Rightarrow> bool" where
  "isDockerInterface name =
     (if name = ''docker0'' then True
      else if HasPrefix name ''br-'' then True
      else if HasPrefix name ''veth'' then True
      else False)"

fun addr_ips :: "interface_addr list \<Rightarrow> string list" where
  "addr_ips [] = []"
| "addr_ips (a # as) = (case a of
     OtherAddr \<Rightarrow> addr_ips as
   | IPNet x \<Rightarrow> (case To4 x of
       None \<Rightarrow> addr_ips as
     | Some x \<Rightarrow> if isPrivateIP x then ip_String x # addr_ips as else addr_ips as))"

fun interface_ips :: "interface list \<Rightarrow> string list" where
  "interface_ips [] = []"
| "interface_ips (i # is) =
     (if if_Loopback i then interface_ips is
      else if \<not> if_Up i then interface_ips is
      else if isDockerInterface (if_Name i) then interface_ips is
      else case if_Addrs i of Inl err \<Rightarrow> interface_ips is | Inr addrs \<Rightarrow> addr_ips addrs @ interface_ips is)"

definition collectLANIPs :: "host \<Rightarrow> string list" where
  "collectLANIPs h = (case ho_Interfaces h of Inl err \<Rightarrow> [] | Inr ifaces \<Rightarrow> interface_ips ifaces)"

definition detectPublicIP :: "host \<Rightarrow> string" where
  "detectPublicIP h = (case ho_ipify h of
     Inl err \<Rightarrow> []
   | Inr resp \<Rightarrow>
       if ha_Status resp \<noteq> 200 then []
       else if ha_ReadError resp \<noteq> None \<and> length (ha_Body resp) < 64 then []
       else let a = TrimSpace (take 64 (ha_Body resp)) in
         if \<not> ParseIP_ok a then [] else a)"

definition detectTailscale :: "host \<Rightarrow> string \<times> string \<times> bool" where
  "detectTailscale h = (case ho_tailscale_path h of
     Inl err \<Rightarrow> ([], [], False)
   | Inr path \<Rightarrow> (case ho_tailscale_status h of
       Inl err \<Rightarrow> ([], [], True)
     | Inr out \<Rightarrow> (case ho_json_status h out of
         Inl err \<Rightarrow> ([], [], True)
       | Inr status \<Rightarrow>
           (if length (tss_TailscaleIPs status) > 0 then tss_TailscaleIPs status ! 0 else [],
            TrimSuffix (tss_DNSName status) ''.'', True))))"

definition CollectNetworkInfo :: "host \<Rightarrow> HostNetwork" where
  "CollectNetworkInfo h =
     (let (a, name, cli) = detectTailscale h in
      \<lparr>hn_LANIPs = collectLANIPs h, hn_PublicIP = detectPublicIP h, hn_TailscaleIP = a, hn_TailscaleHostname = name,
       hn_TailscaleCLIAvailable = cli\<rparr>)"

definition detectDocker :: "host \<Rightarrow> string" where
  "detectDocker h = (case ho_docker_version h of Inl err \<Rightarrow> [] | Inr out \<Rightarrow> TrimSpace out)"

record Info =
  in_Hostname :: string
  in_OS :: string
  in_Arch :: string
  in_CPUCores :: int
  in_MemoryBytes :: int
  in_DockerVersion :: string
  in_AgentVersion :: string
  in_LANIPs :: "string list"
  in_PublicIP :: string
  in_TailscaleIP :: string
  in_TailscaleHostname :: string
  in_TailscaleCLIAvailable :: bool

definition Collect_info :: "host \<Rightarrow> Info" where
  "Collect_info h =
     (let memBytes = (case ho_Memory h of Inl err \<Rightarrow> 0 | Inr n \<Rightarrow> signed_take_bit 63 (int n));
          netInfo = CollectNetworkInfo h in
      \<lparr>in_Hostname = ho_Hostname h, in_OS = ho_OS h, in_Arch = ho_Arch h, in_CPUCores = ho_NumCPU h,
       in_MemoryBytes = memBytes, in_DockerVersion = detectDocker h, in_AgentVersion = [],
       in_LANIPs = hn_LANIPs netInfo, in_PublicIP = hn_PublicIP netInfo, in_TailscaleIP = hn_TailscaleIP netInfo,
       in_TailscaleHostname = hn_TailscaleHostname netInfo,
       in_TailscaleCLIAvailable = hn_TailscaleCLIAvailable netInfo\<rparr>)"

subsection \<open>The heartbeat\<close>

record ContainerStatus =
  cst_ContainerID :: string
  cst_Name :: string
  cst_State :: string
  cst_Image :: string

text \<open>\<open>managed\<close> is the answer of \<^verbatim>\<open>ListManagedContainers\<close>.\<close>

definition collectInfo :: "host \<Rightarrow> string \<Rightarrow> ContainerInfo list result \<Rightarrow> Info \<times> ContainerStatus list" where
  "collectInfo h agentVersion managed =
     ((Collect_info h)\<lparr>in_AgentVersion := agentVersion\<rparr>,
      (case managed of
         Inl err \<Rightarrow> []
       | Inr cs \<Rightarrow> map (\<lambda>c. \<lparr>cst_ContainerID = cn_ContainerID c, cst_Name = cn_Name c, cst_State = cn_State c,
           cst_Image = cn_Image c\<rparr>) cs))"

definition allIPs :: "Info \<Rightarrow> string list" where
  "allIPs info = in_LANIPs info @ (if in_PublicIP info \<noteq> [] then [in_PublicIP info] else [])"

record SystemInfo =
  sy_Hostname :: string
  sy_Os :: string
  sy_Arch :: string
  sy_CpuCores :: int
  sy_MemoryBytes :: int
  sy_DockerVersion :: string
  sy_AgentVersion :: string
  sy_LanIps :: "string list"
  sy_TailscaleIp :: string
  sy_TailscaleHostname :: string
  sy_TailscaleCliAvailable :: bool
  sy_Capabilities :: "string list"

record Heartbeat =
  hb_SystemInfo :: SystemInfo
  hb_Containers :: "ContainerStatus list"

definition heartbeat_message :: "Info \<Rightarrow> ContainerStatus list \<Rightarrow> Heartbeat" where
  "heartbeat_message info containers =
     \<lparr>hb_SystemInfo = \<lparr>sy_Hostname = in_Hostname info, sy_Os = in_OS info, sy_Arch = in_Arch info,
        sy_CpuCores = in_CPUCores info, sy_MemoryBytes = in_MemoryBytes info, sy_DockerVersion = in_DockerVersion info,
        sy_AgentVersion = in_AgentVersion info, sy_LanIps = allIPs info, sy_TailscaleIp = in_TailscaleIP info,
        sy_TailscaleHostname = in_TailscaleHostname info, sy_TailscaleCliAvailable = in_TailscaleCLIAvailable info,
        sy_Capabilities = [''credential_rotation_v1'']\<rparr>,
      hb_Containers = containers\<rparr>"

definition SendHeartbeat :: "(Heartbeat \<Rightarrow> go_error option) \<Rightarrow> Info \<Rightarrow> ContainerStatus list \<Rightarrow> go_error option" where
  "SendHeartbeat stream_Send info containers = stream_Send (heartbeat_message info containers)"

subsection \<open>Private addresses\<close>

lemma masks:
  "CIDRMask 8 32 = [255, 0, 0, 0]" "CIDRMask 12 32 = [255, 240, 0, 0]" "CIDRMask 16 32 = [255, 255, 0, 0]"
  by code_simp+

lemma full_mask: "(a :: 8 word) AND 255 = a"
proof -
  have "(255 :: 8 word) = - 1" by simp
  then show ?thesis by (simp only: and.right_neutral)
qed

definition mask_240 :: "nat \<Rightarrow> bool" where
  "mask_240 n = (((word_of_nat n :: 8 word) AND 240 = 16) = (16 \<le> n \<and> n \<le> 31))"

lemma mask_240_bytes: "list_all mask_240 [0..<256]"
  by code_simp

lemma half_mask: "(a :: 8 word) AND 240 = 16 \<longleftrightarrow> 16 \<le> a \<and> a \<le> 31"
proof -
  have "unat a < 256" using unsigned_less [of a] by simp
  then have "mask_240 (unat a)" using mask_240_bytes by (simp add: list_all_iff del: upt.simps)
  then show ?thesis by (simp add: mask_240_def word_le_nat_alt)
qed

text \<open>The three ranges of RFC 1918.\<close>

definition rfc1918 :: "8 word \<Rightarrow> 8 word \<Rightarrow> bool" where
  "rfc1918 a b \<longleftrightarrow> a = 10 \<or> (a = 172 \<and> 16 \<le> b \<and> b \<le> 31) \<or> (a = 192 \<and> b = 168)"

lemma net_Contains_four:
  "net_Contains \<lparr>net_IP = [p, q, r, s], net_Mask = [k, l, m, n]\<rparr> [a, b, c, d] \<longleftrightarrow>
     p AND k = a AND k \<and> q AND l = b AND l \<and> r AND m = c AND m \<and> s AND n = d AND n"
  by (simp add: net_Contains_def To4_def)

lemma private_networks:
  "net_Contains \<lparr>net_IP = [10, 0, 0, 0], net_Mask = CIDRMask 8 32\<rparr> [a, b, c, d] \<longleftrightarrow> a = 10"
  "net_Contains \<lparr>net_IP = [172, 16, 0, 0], net_Mask = CIDRMask 12 32\<rparr> [a, b, c, d] \<longleftrightarrow> a = 172 \<and> b AND 240 = 16"
  "net_Contains \<lparr>net_IP = [192, 168, 0, 0], net_Mask = CIDRMask 16 32\<rparr> [a, b, c, d] \<longleftrightarrow> a = 192 \<and> b = 168"
proof -
  have "(16 :: 8 word) AND 240 = 16" by code_simp
  then show
    "net_Contains \<lparr>net_IP = [10, 0, 0, 0], net_Mask = CIDRMask 8 32\<rparr> [a, b, c, d] \<longleftrightarrow> a = 10"
    "net_Contains \<lparr>net_IP = [172, 16, 0, 0], net_Mask = CIDRMask 12 32\<rparr> [a, b, c, d] \<longleftrightarrow> a = 172 \<and> b AND 240 = 16"
    "net_Contains \<lparr>net_IP = [192, 168, 0, 0], net_Mask = CIDRMask 16 32\<rparr> [a, b, c, d] \<longleftrightarrow> a = 192 \<and> b = 168"
    unfolding masks net_Contains_four full_mask
    by (simp_all only: and_zero_eq simp_thms eq_commute [of _ a] eq_commute [of _ b] eq_commute [of _ "b AND 240"])
qed

lemma isPrivateIP_rfc1918: "isPrivateIP [a, b, c, d] \<longleftrightarrow> rfc1918 a b"
proof -
  have three: "list_ex P [x, y, z] \<longleftrightarrow> P x \<or> P y \<or> P z" for P :: "ip_net \<Rightarrow> bool" and x y z by simp
  show ?thesis unfolding isPrivateIP_def three private_networks rfc1918_def half_mask by (rule refl)
qed

lemma four_bytes: "length a = 4 \<Longrightarrow> \<exists>w x y z. a = [w, x, y, z]"
  by (auto simp: numeral_eq_Suc length_Suc_conv)

definition private_text :: "string \<Rightarrow> bool" where
  "private_text s \<longleftrightarrow> (\<exists>w x y z. s = ip_String [w, x, y, z] \<and> rfc1918 w x)"

lemma addr_ips_private: "list_all private_text (addr_ips as)"
proof (induction as)
  case (Cons a as)
  have "private_text (ip_String b)" if "To4 x = Some b" "isPrivateIP b" for x b
  proof -
    from that(1) have "length b = 4" by (auto simp: To4_def split: if_splits)
    then obtain p q r t where "b = [p, q, r, t]" using four_bytes by blast
    with that(2) show ?thesis unfolding private_text_def using isPrivateIP_rfc1918 by blast
  qed
  with Cons show ?case by (simp split: interface_addr.split option.split)
qed simp

lemma collectLANIPs_private: "list_all private_text (collectLANIPs h)"
proof -
  have "list_all private_text (interface_ips is)" for "is"
    by (induction "is") (auto simp: addr_ips_private split: sum.split)
  then show ?thesis by (simp add: collectLANIPs_def split: sum.split)
qed

text \<open>What \<^verbatim>\<open>String\<close> prints, \<^verbatim>\<open>ParseIP\<close> accepts.\<close>

lemma Split_field: "CHR ''.'' \<notin> set f \<Longrightarrow> Split (f @ CHR ''.'' # s) CHR ''.'' = f # Split s CHR ''.''"
  by (induction f) auto

lemma Split_last: "CHR ''.'' \<notin> set f \<Longrightarrow> Split f CHR ''.'' = [f]"
  by (induction f) auto

lemma hd_show_nat: "0 < n \<Longrightarrow> hd (show_nat n) \<noteq> CHR ''0''"
proof (induction n rule: show_nat.induct)
  case (1 n)
  show ?case
  proof (cases "n < 10")
    case True
    have "(of_char (digit_char n) :: nat) \<noteq> of_char (CHR ''0'')" using True 1(2) by (simp add: of_char_digit_char)
    then have "digit_char n \<noteq> CHR ''0''" by metis
    with True show ?thesis by (subst show_nat.simps) simp
  next
    case False
    with 1(1) have "hd (show_nat (n div 10)) \<noteq> CHR ''0''" by simp
    with False show ?thesis by (subst show_nat.simps) simp
  qed
qed

lemma valid_octet_byte: "valid_octet (show_nat (unat (b :: 8 word)))"
proof -
  have "unat b < 256" using unsigned_less [of b] by simp
  moreover have "length (show_nat n) = 1 \<or> hd (show_nat n) \<noteq> CHR ''0''" for n
  proof (cases "n = 0")
    case True
    then show ?thesis by (simp add: show_nat_0)
  qed (simp add: hd_show_nat)
  ultimately show ?thesis by (simp add: valid_octet_def nat_of_digits_show_nat)
qed

lemma no_special_digits: "filter (\<lambda>c. c = CHR ''.'' \<or> c = CHR '':'' \<or> c = CHR ''%'') (show_nat n) = []"
proof -
  have "\<not> (c = CHR ''.'' \<or> c = CHR '':'' \<or> c = CHR ''%'')" if "is_digit c" for c
    using that by (auto simp: is_digit_def)
  then show ?thesis using show_nat_digits [of n] by (simp add: filter_empty_conv)
qed

lemma no_dot_digits: "CHR ''.'' \<notin> set (show_nat n)"
  using show_nat_digits [of n] digit_not_special by blast

lemma ParseIP_String: "ParseIP_ok (ip_String [a, b, c, d])"
proof -
  let ?n = "\<lambda>b :: 8 word. show_nat (unat b)"
  have s: "ip_String [a, b, c, d] = ?n a @ CHR ''.'' # ?n b @ CHR ''.'' # ?n c @ CHR ''.'' # ?n d"
    by (simp add: ip_String_def)
  have "Split (ip_String [a, b, c, d]) CHR ''.'' = [?n a, ?n b, ?n c, ?n d]"
    unfolding s by (simp only: Split_field Split_last no_dot_digits not_False_eq_True)
  then have "valid_ipv4 (ip_String [a, b, c, d])" by (simp add: valid_ipv4_def valid_octet_byte)
  moreover have "filter (\<lambda>c. c = CHR ''.'' \<or> c = CHR '':'' \<or> c = CHR ''%'') (ip_String [a, b, c, d]) = ''...''"
    unfolding s by (simp add: no_special_digits)
  ultimately show ?thesis by (simp add: ParseIP_ok_def)
qed

lemma private_text_valid: "private_text s \<Longrightarrow> ParseIP_ok s"
  by (auto simp: private_text_def ParseIP_String)

subsection \<open>Properties\<close>

lemma TrimSpace_length: "length (TrimSpace s) \<le> length s"
  using length_dropWhile_le [of is_space "rev (dropWhile is_space s)"] length_dropWhile_le [of is_space s]
  by (simp add: TrimSpace_def)

text \<open>
  C29.  The addresses of the local network and the public address in a heartbeat are addresses:
  whatever the interfaces and the address service answer, each address of the local network is the text
  of four bytes in a private range, and what is reported as the public address, at most 64 bytes, is
  accepted by the parser of addresses.  The Tailscale address is not checked: it is reported as the tailscale
  command gave it.  The containers are those of the daemon's answer, in its order.
\<close>

theorem heartbeat_addresses_valid:
  "let (info, containers) = collectInfo h version managed;
       hb = heartbeat_message info containers in
   list_all private_text (in_LANIPs info) \<and> length (in_PublicIP info) \<le> 64 \<and>
   list_all ParseIP_ok (sy_LanIps (hb_SystemInfo hb)) \<and>
   sy_AgentVersion (hb_SystemInfo hb) = version \<and>
   map cst_ContainerID (hb_Containers hb) = (case managed of Inl _ \<Rightarrow> [] | Inr cs \<Rightarrow> map cn_ContainerID cs)"
proof -
  have lan: "list_all private_text (collectLANIPs h)" by (rule collectLANIPs_private)
  then have "list_all ParseIP_ok (collectLANIPs h)" by (auto simp: list_all_iff private_text_valid)
  moreover have "detectPublicIP h = [] \<or> ParseIP_ok (detectPublicIP h)"
    by (simp add: detectPublicIP_def Let_def split: sum.split)
  moreover have "length (detectPublicIP h) \<le> 64"
    using TrimSpace_length [of "take 64 s" for s] by (auto simp: detectPublicIP_def Let_def split: sum.split intro: order.trans)
  ultimately show ?thesis
    using lan by (auto simp: collectInfo_def heartbeat_message_def allIPs_def Collect_info_def CollectNetworkInfo_def Let_def
        split: prod.split sum.split)
qed

text \<open>
   On a host in a tailnet that has an address of a private network, the proxy is published on
  private addresses and on the loopback only: its public address is never bound.
\<close>

theorem tailscale_binds_private_only:
  assumes "hn_TailscaleIP (CollectNetworkInfo h) \<noteq> []" "collectLANIPs h \<noteq> []"
  shows "list_all (\<lambda>(port, bindings). list_all (\<lambda>(a, p). a = ''127.0.0.1'' \<or> private_text a) bindings \<and> bindings \<noteq> [])
    (traefikPortBindings (TraefikBindIP (CollectNetworkInfo h)))"
proof -
  have lan: "hn_LANIPs (CollectNetworkInfo h) = collectLANIPs h"
    by (simp add: CollectNetworkInfo_def split: prod.split)
  then have t: "TraefikBindIP (CollectNetworkInfo h) = collectLANIPs h ! 0" using assms by (simp add: TraefikBindIP_def)
  then have p: "private_text (TraefikBindIP (CollectNetworkInfo h))"
    using collectLANIPs_private [of h] assms(2) by (simp add: list_all_length)
  then have "ParseIP_ok (TraefikBindIP (CollectNetworkInfo h))" by (rule private_text_valid)
  then have "TraefikBindIP (CollectNetworkInfo h) \<noteq> []" by (auto simp: ParseIP_ok_def)
  with p show ?thesis by (simp add: traefikPortBindings_def)
qed

subsection \<open>Witnesses\<close>

definition sample_host :: host where
  "sample_host = \<lparr>ho_Hostname = ''box'', ho_OS = ''linux'', ho_Arch = ''amd64'', ho_NumCPU = 4, ho_Memory = Inr 1024,
     ho_docker_version = Inr ''27.0'',
     ho_Interfaces = Inr [\<lparr>if_Name = ''eth1'', if_Loopback = False, if_Up = True, if_Addrs = Inr [IPNet [10, 0, 0, 5]]\<rparr>],
     ho_ipify = Inr \<lparr>ha_Status = 200, ha_Body = ''203.0.113.7'', ha_ReadError = None\<rparr>,
     ho_tailscale_path = Inr ''/usr/bin/tailscale'', ho_tailscale_status = Inr ''{}'',
     ho_json_status = (\<lambda>s. Inr \<lparr>tss_TailscaleIPs = [''100.64.0.1''], tss_DNSName = ''box.ts.net.''\<rparr>)\<rparr>"

lemma tailscale_binds_private_only_witness:
  "detectPublicIP sample_host = ''203.0.113.7'' \<and>
   list_all (\<lambda>(port, bindings). list_all (\<lambda>(a, p). a = ''127.0.0.1'' \<or> private_text a) bindings \<and> bindings \<noteq> [])
    (traefikPortBindings (TraefikBindIP (CollectNetworkInfo sample_host)))"
proof -
  have "hn_TailscaleIP (CollectNetworkInfo sample_host) \<noteq> []"
    by (simp add: CollectNetworkInfo_def detectTailscale_def sample_host_def)
  moreover have "isPrivateIP [10, 0, 0, 5]" by (simp add: isPrivateIP_rfc1918 rfc1918_def)
  then have "collectLANIPs sample_host \<noteq> []"
    by (simp add: collectLANIPs_def sample_host_def isDockerInterface_def To4_def)
  moreover have "detectPublicIP sample_host = ''203.0.113.7''" by code_simp
  ultimately show ?thesis using tailscale_binds_private_only by blast
qed

end
