(* ===== verification/Go_Http.thy ===== *)
theory Go_Http
  imports System_Info
begin

text \<open>
  The part of \<^verbatim>\<open>net/http\<close> that decides to whom a request goes: a client sends it, and unless it
  is told to use the last response follows the redirections, with the body for the statuses 307 and
  308 and as a GET without it for 301, 302 and 303.  One exchange with a server, and the parsing of
  URLs, are parameters.  A computation returns, beside its result, every request it sent.
\<close>

record 'b http_request =
  hq_Method :: string
  hq_URL :: string
  hq_Body :: "'b option"

record http_response = http_answer +
  hp_Location :: string

record 'b http_world =
  hw_exchange :: "'b http_request \<Rightarrow> http_response result"
  hw_Parse :: "string \<Rightarrow> (string \<times> string) result"           \<comment> \<open>\<^verbatim>\<open>url.Parse\<close>: scheme and host\<close>
  hw_Resolve :: "string \<Rightarrow> string \<Rightarrow> string result"             \<comment> \<open>a location relative to a URL\<close>

definition redirect_status :: "int \<Rightarrow> bool" where
  "redirect_status c \<longleftrightarrow> c \<in> {301, 302, 303, 307, 308}"

definition redirected :: "'b http_request \<Rightarrow> int \<Rightarrow> string \<Rightarrow> 'b http_request" where
  "redirected req status u =
     (if status = 307 \<or> status = 308 then req\<lparr>hq_URL := u\<rparr>
      else req\<lparr>hq_URL := u, hq_Method := (if hq_Method req \<noteq> ''GET'' \<and> hq_Method req \<noteq> ''HEAD'' then ''GET'' else hq_Method req),
               hq_Body := None\<rparr>)"

text \<open>\<open>n\<close> more redirections are allowed; the default is ten requests in all.\<close>

fun http_Do :: "'b http_world \<Rightarrow> bool \<Rightarrow> nat \<Rightarrow> 'b http_request \<Rightarrow> 'b http_request list \<times> http_response result" where
  "http_Do w use_last n req = (case hw_exchange w req of
     Inl err \<Rightarrow> ([req], Inl err)
   | Inr resp \<Rightarrow>
       if \<not> redirect_status (ha_Status resp) \<or> hp_Location resp = [] then ([req], Inr resp)
       else case hw_Resolve w (hq_URL req) (hp_Location resp) of
         Inl err \<Rightarrow> ([req], Inl (''failed to parse Location header: '' @ err))
       | Inr u \<Rightarrow>
           if use_last then ([req], Inr resp)
           else (case n of
             0 \<Rightarrow> ([req], Inl ''stopped after 10 redirects'')
           | Suc m \<Rightarrow> (let (sent, r) = http_Do w use_last m (redirected req (ha_Status resp) u) in (req # sent, r))))"

declare http_Do.simps [simp del]

lemma http_Do_last: "fst (http_Do w True n req) = [req]"
  by (subst http_Do.simps) (simp split: sum.split)

lemma http_Do_bounded: "length (fst (http_Do w use_last n req)) \<le> Suc n"
proof (induction n arbitrary: req)
  case 0
  show ?case by (subst http_Do.simps) (simp split: sum.split)
next
  case (Suc n)
  then show ?case by (cases use_last; subst http_Do.simps) (auto simp: case_prod_unfold Let_def split: sum.split)
qed

lemma http_Do_first: "\<exists>rest. fst (http_Do w use_last n req) = req # rest"
  by (subst http_Do.simps) (auto simp: Let_def case_prod_unfold split: sum.split nat.split)

text \<open>A request only ever carries the body of the first one.\<close>

lemma http_Do_body: "\<forall>q \<in> set (fst (http_Do w use_last n req)). hq_Body q = hq_Body req \<or> hq_Body q = None"
proof (induction n arbitrary: req)
  case 0
  show ?case by (subst http_Do.simps) (simp split: sum.split)
next
  case (Suc n)
  have "\<forall>q \<in> set (fst (http_Do w use_last n (redirected req c u))). hq_Body q = hq_Body req \<or> hq_Body q = None" for c u
    using Suc [of "redirected req c u"] by (auto simp: redirected_def split: if_splits)
  then show ?case by (cases use_last; subst http_Do.simps) (auto simp: case_prod_unfold Let_def split: sum.split)
qed

text \<open>Reading at most \<open>limit\<close> bytes of a body.\<close>

definition read_limited :: "nat option \<Rightarrow> http_response \<Rightarrow> string result" where
  "read_limited limit resp = (case ha_ReadError resp of
     None \<Rightarrow> Inr (case limit of None \<Rightarrow> ha_Body resp | Some n \<Rightarrow> take n (ha_Body resp))
   | Some err \<Rightarrow> (case limit of
       None \<Rightarrow> Inl err
     | Some n \<Rightarrow> if length (ha_Body resp) < n then Inl err else Inr (take n (ha_Body resp))))"

end
