(* ===== verification/Enrollment.thy ===== *)
theory Enrollment
  imports Go_Http Go_Base64 Credential_Cutover
begin

text \<open>
  How an agent gets its identity: the connections it opens (\<^verbatim>\<open>internal/grpcclient/client.go\<close>), the
  enrollment and renewal requests (\<^verbatim>\<open>enrollment.go\<close>) and the command that stores what enrollment
  returns (\<^verbatim>\<open>cmd/enroll.go\<close>).  TLS, SHA-256 and JSON are parameters.
\<close>

subsection \<open>Connections\<close>

text \<open>What a TLS client checks: the chain against the system's roots unless told not to, and a pinned hash.\<close>

record tls_config =
  tc_ServerName :: string
  tc_InsecureSkipVerify :: bool
  tc_Pinned :: "string option"

datatype transport = Plaintext | TLS tls_config

record client_options =
  dl_Target :: string
  dl_Transport :: transport
  dl_Authority :: "string option"
  dl_Bearer :: "string option"

text \<open>\<open>nc\<close> is \<^verbatim>\<open>grpc.NewClient\<close>, which connects only when the connection is used.\<close>

definition new_client :: "(client_options \<Rightarrow> go_error option) \<Rightarrow> string \<Rightarrow> client_options \<Rightarrow> client_options result" where
  "new_client nc shown opts = (case nc opts of
     Some err \<Rightarrow> Inl (''connecting to '' @ shown @ '': '' @ err)
   | None \<Rightarrow> Inr opts)"

definition Dial :: "(client_options \<Rightarrow> go_error option) \<Rightarrow> string \<Rightarrow> transport \<Rightarrow> client_options result" where
  "Dial nc endpoint creds = new_client nc endpoint
     \<lparr>dl_Target = endpoint, dl_Transport = creds, dl_Authority = None, dl_Bearer = None\<rparr>"

definition expected_hex :: "string \<Rightarrow> string" where
  "expected_hex caFingerprint = TrimPrefix (ToLower caFingerprint) ''sha256:''"

definition DialEnrollment :: "(client_options \<Rightarrow> go_error option) \<Rightarrow> string \<Rightarrow> string \<Rightarrow> client_options result" where
  "DialEnrollment nc endpoint caFingerprint = new_client nc endpoint
     \<lparr>dl_Target = endpoint,
      dl_Transport = TLS \<lparr>tc_ServerName = [], tc_InsecureSkipVerify = True,
        tc_Pinned = (if caFingerprint \<noteq> [] then Some (expected_hex caFingerprint) else None)\<rparr>,
      dl_Authority = None, dl_Bearer = None\<rparr>"

definition tunnelTarget :: "string \<Rightarrow> string" where
  "tunnelTarget endpoint = (if \<not> Contains endpoint '':'' then endpoint @ '':443'' else endpoint)"

definition tunnelHost :: "string \<Rightarrow> string" where
  "tunnelHost endpoint = (case index_byte CHR '':'' endpoint of
     Some idx \<Rightarrow> if idx > 0 then take idx endpoint else endpoint
   | None \<Rightarrow> endpoint)"

definition tunnel_options :: "string \<Rightarrow> string option \<Rightarrow> client_options" where
  "tunnel_options endpoint bearer =
     \<lparr>dl_Target = ''dns:///'' @ tunnelTarget endpoint,
      dl_Transport = TLS \<lparr>tc_ServerName = tunnelHost endpoint, tc_InsecureSkipVerify = False, tc_Pinned = None\<rparr>,
      dl_Authority = Some (tunnelHost endpoint), dl_Bearer = bearer\<rparr>"

definition DialTunnel :: "(client_options \<Rightarrow> go_error option) \<Rightarrow> string \<Rightarrow> client_options result" where
  "DialTunnel nc endpoint = new_client nc (tunnelTarget endpoint) (tunnel_options endpoint None)"

definition DialTunnelWithAuth :: "(client_options \<Rightarrow> go_error option) \<Rightarrow> string \<Rightarrow> string \<Rightarrow> client_options result" where
  "DialTunnelWithAuth nc endpoint authToken = new_client nc (tunnelTarget endpoint) (tunnel_options endpoint (Some authToken))"

definition DialPlaintext :: "(client_options \<Rightarrow> go_error option) \<Rightarrow> string \<Rightarrow> client_options result" where
  "DialPlaintext nc endpoint = new_client nc endpoint
     \<lparr>dl_Target = endpoint, dl_Transport = Plaintext, dl_Authority = None, dl_Bearer = None\<rparr>"

text \<open>The metadata of every call, and whether the library may send it without TLS.\<close>

definition GetRequestMetadata :: "string \<Rightarrow> go_map" where
  "GetRequestMetadata token = [''authorization'' \<mapsto> ''Bearer '' @ token]"

definition RequireTransportSecurity :: bool where "RequireTransportSecurity = True"

definition hex_digit :: "nat \<Rightarrow> char" where
  "hex_digit n = (if n < 10 then char_of (48 + n) else char_of (87 + n))"

definition hex_EncodeToString :: "string \<Rightarrow> string" where
  "hex_EncodeToString s = concat (map (\<lambda>c. [hex_digit (of_char c div 16), hex_digit (of_char c mod 16)]) s)"

text \<open>The server at the other end: its certificates, whether the system's roots vouch for a name.\<close>

record peer =
  pe_RawCerts :: "string list"
  pe_ChainError :: "string \<Rightarrow> go_error option"

definition VerifyPeerCertificate :: "(string \<Rightarrow> string) \<Rightarrow> string \<Rightarrow> string list \<Rightarrow> go_error option" where
  "VerifyPeerCertificate sha256 expectedHex rawCerts = (case rawCerts of
     [] \<Rightarrow> Some ''server presented no certificate''
   | leaf # _ \<Rightarrow>
       let actualHex = hex_EncodeToString (sha256 leaf) in
       if actualHex \<noteq> expectedHex
       then Some (''server certificate fingerprint mismatch:'' @ [CHR 0x0A] @ ''  expected: sha256:'' @ expectedHex @
              [CHR 0x0A] @ ''  actual:   sha256:'' @ actualHex)
       else None)"

definition handshake :: "(string \<Rightarrow> string) \<Rightarrow> peer \<Rightarrow> transport \<Rightarrow> go_error option" where
  "handshake sha256 p t = (case t of
     Plaintext \<Rightarrow> None
   | TLS cfg \<Rightarrow>
      (case (if tc_InsecureSkipVerify cfg then None else pe_ChainError p (tc_ServerName cfg)) of
         Some err \<Rightarrow> Some err
       | None \<Rightarrow> (case tc_Pinned cfg of
           None \<Rightarrow> None
         | Some expectedHex \<Rightarrow> VerifyPeerCertificate sha256 expectedHex (pe_RawCerts p))))"

subsection \<open>Requests and answers\<close>

record EnrollRequest =
  er_Token :: string
  er_SystemInfo :: SystemInfo

record EnrollResponse =
  en_ServerId :: string
  en_ClientCert :: string
  en_ClientKey :: string
  en_CaCert :: string
  en_GrpcEndpoint :: string
  en_AuthToken :: string
  en_TunnelEndpoint :: string
  en_RegistryUrl :: string
  en_RegistryUsername :: string
  en_RegistryPassword :: string
  en_RenewalToken :: string
  en_CredentialExpiresUnix :: int
  en_AuthGeneration :: int
  en_RenewalEndpoint :: string

record restSystemInfo =
  rs_Hostname :: string
  rs_OS :: string
  rs_Arch :: string
  rs_CPUCores :: int
  rs_MemoryBytes :: int
  rs_DockerVersion :: string
  rs_AgentVersion :: string

record restEnrollRequest =
  rq_Token :: string
  rq_AuthMode :: string
  rq_SystemInfo :: restSystemInfo

record restEnrollResponse =
  re_ServerID :: string
  re_ClientCert :: string
  re_ClientKey :: string
  re_CACert :: string
  re_GRPCEndpoint :: string
  re_AuthToken :: string
  re_TunnelEndpoint :: string
  re_RegistryURL :: string
  re_RegistryUsername :: string
  re_RegistryPassword :: string
  re_RenewalToken :: string
  re_CredentialExpiresUnix :: int
  re_AuthGeneration :: int
  re_RenewalEndpoint :: string

record restRenewRequest =
  rn_ServerID :: string
  rn_RenewalToken :: string
  rn_RequestID :: string
  rn_CSRPem :: string
  rn_AuthMode :: string

record restRenewResponse =
  rp_RequestID :: string
  rp_ClientCert :: string
  rp_CACert :: string
  rp_AuthToken :: string
  rp_RenewalToken :: string
  rp_CredentialExpiresUnix :: int
  rp_AuthGeneration :: int

datatype rest_body = EnrollBody restEnrollRequest | RenewBody restRenewRequest

record enroll_env =
  ee_NewClient :: "client_options \<Rightarrow> go_error option"
  ee_sha256 :: "string \<Rightarrow> string"
  ee_peer :: peer
  ee_Enroll :: "EnrollRequest \<Rightarrow> EnrollResponse result"
  ee_http :: "rest_body http_world"
  ee_json_Marshal :: "rest_body \<Rightarrow> go_error option"
  ee_NewRequest :: "string \<Rightarrow> go_error option"
  ee_json_detail :: "string \<Rightarrow> string result"
  ee_json_enroll :: "string \<Rightarrow> restEnrollResponse result"
  ee_json_renew :: "string \<Rightarrow> restRenewResponse result"

text \<open>\<^verbatim>\<open>callEnrollRPC\<close>: the requests that reached the server, and the answer.\<close>

definition callEnrollRPC :: "enroll_env \<Rightarrow> client_options \<Rightarrow> string \<Rightarrow> Info \<Rightarrow> EnrollRequest list \<times> EnrollResponse result" where
  "callEnrollRPC env conn token info =
     (let req = \<lparr>er_Token = token, er_SystemInfo = \<lparr>sy_Hostname = in_Hostname info, sy_Os = in_OS info, sy_Arch = in_Arch info,
            sy_CpuCores = in_CPUCores info, sy_MemoryBytes = in_MemoryBytes info, sy_DockerVersion = in_DockerVersion info,
            sy_AgentVersion = in_AgentVersion info, sy_LanIps = [], sy_TailscaleIp = [], sy_TailscaleHostname = [],
            sy_TailscaleCliAvailable = False, sy_Capabilities = []\<rparr>\<rparr> in
      case handshake (ee_sha256 env) (ee_peer env) (dl_Transport conn) of
        Some err \<Rightarrow> ([], Inl (''enroll RPC: '' @ err))
      | None \<Rightarrow> ([req], case ee_Enroll env req of Inl err \<Rightarrow> Inl (''enroll RPC: '' @ err) | Inr resp \<Rightarrow> Inr resp))"

definition Enroll :: "enroll_env \<Rightarrow> string \<Rightarrow> string \<Rightarrow> string \<Rightarrow> Info \<Rightarrow> EnrollRequest list \<times> EnrollResponse result" where
  "Enroll env endpoint token caFingerprint info =
     (case DialEnrollment (ee_NewClient env) endpoint caFingerprint of
        Inl err \<Rightarrow> ([], Inl err)
      | Inr conn \<Rightarrow> callEnrollRPC env conn token info)"

definition decode_pem :: "string \<Rightarrow> string \<Rightarrow> string result" where
  "decode_pem what s = (case base64_decode std_alphabet s of
     None \<Rightarrow> Inl (''decoding '' @ what @ '': illegal base64 data'')
   | Some t \<Rightarrow> Inr t)"

text \<open>The error of an answer other than 200.\<close>

definition rejection :: "enroll_env \<Rightarrow> string \<Rightarrow> int \<Rightarrow> string \<Rightarrow> go_error" where
  "rejection env what status body = (case ee_json_detail env body of
     Inr detail \<Rightarrow> if detail \<noteq> [] then what @ '': '' @ detail else what @ '': HTTP '' @ show_int status
   | Inl _ \<Rightarrow> what @ '': HTTP '' @ show_int status)"

definition enroll_url :: "string \<Rightarrow> string" where
  "enroll_url endpoint =
     (let host = (if length endpoint > 5 \<and> take 5 endpoint = ''grpc.'' then drop 5 endpoint else endpoint) in
      ''https://'' @ host @ ''/api/agent/enroll'')"

definition enroll_response :: "enroll_env \<Rightarrow> string \<Rightarrow> EnrollResponse result" where
  "enroll_response env respBody = (case ee_json_enroll env respBody of
     Inl err \<Rightarrow> Inl (''parsing response: '' @ err)
   | Inr r \<Rightarrow> (case decode_pem ''client_cert'' (re_ClientCert r) of
       Inl err \<Rightarrow> Inl err
     | Inr clientCert \<Rightarrow> (case decode_pem ''client_key'' (re_ClientKey r) of
         Inl err \<Rightarrow> Inl err
       | Inr clientKey \<Rightarrow> (case decode_pem ''ca_cert'' (re_CACert r) of
           Inl err \<Rightarrow> Inl err
         | Inr caCert \<Rightarrow> Inr
             \<lparr>en_ServerId = re_ServerID r, en_ClientCert = clientCert, en_ClientKey = clientKey, en_CaCert = caCert,
              en_GrpcEndpoint = re_GRPCEndpoint r, en_AuthToken = re_AuthToken r, en_TunnelEndpoint = re_TunnelEndpoint r,
              en_RegistryUrl = re_RegistryURL r, en_RegistryUsername = re_RegistryUsername r,
              en_RegistryPassword = re_RegistryPassword r, en_RenewalToken = re_RenewalToken r,
              en_CredentialExpiresUnix = re_CredentialExpiresUnix r, en_AuthGeneration = re_AuthGeneration r,
              en_RenewalEndpoint = re_RenewalEndpoint r\<rparr>))))"

definition EnrollTunnel :: "enroll_env \<Rightarrow> string \<Rightarrow> string \<Rightarrow> Info \<Rightarrow> rest_body http_request list \<times> EnrollResponse result" where
  "EnrollTunnel env endpoint token info =
     (let apiURL = enroll_url endpoint;
          body = EnrollBody \<lparr>rq_Token = token, rq_AuthMode = ''token'',
            rq_SystemInfo = \<lparr>rs_Hostname = in_Hostname info, rs_OS = in_OS info, rs_Arch = in_Arch info,
              rs_CPUCores = in_CPUCores info, rs_MemoryBytes = in_MemoryBytes info,
              rs_DockerVersion = in_DockerVersion info, rs_AgentVersion = in_AgentVersion info\<rparr>\<rparr> in
      case ee_json_Marshal env body of
        Some err \<Rightarrow> ([], Inl (''marshaling request: '' @ err))
      | None \<Rightarrow> (case ee_NewRequest env apiURL of
          Some err \<Rightarrow> ([], Inl (''creating request: '' @ err))
        | None \<Rightarrow>
            (let (sent, r) = http_Do (ee_http env) False 9 \<lparr>hq_Method = ''POST'', hq_URL = apiURL, hq_Body = Some body\<rparr> in
             (sent, case r of
                Inl err \<Rightarrow> Inl (''enrollment request to '' @ apiURL @ '': '' @ err)
              | Inr resp \<Rightarrow> (case read_limited None resp of
                  Inl err \<Rightarrow> Inl (''reading response: '' @ err)
                | Inr respBody \<Rightarrow>
                    if ha_Status resp \<noteq> 200 then Inl (rejection env ''enrollment failed'' (ha_Status resp) respBody)
                    else enroll_response env respBody)))))"

definition renew_response :: "enroll_env \<Rightarrow> string \<Rightarrow> CredentialRotation result" where
  "renew_response env responseBody = (case ee_json_renew env responseBody of
     Inl err \<Rightarrow> Inl (''parsing credential renewal response: '' @ err)
   | Inr decoded \<Rightarrow> (case decode_pem ''renewed client certificate'' (rp_ClientCert decoded) of
       Inl err \<Rightarrow> Inl err
     | Inr certPEM \<Rightarrow> (case decode_pem ''renewed CA certificate'' (rp_CACert decoded) of
         Inl err \<Rightarrow> Inl err
       | Inr caPEM \<Rightarrow> Inr
           \<lparr>ro_RequestId = rp_RequestID decoded, ro_ErrorCode = [], ro_ClientCert = certPEM, ro_CaCert = caPEM,
            ro_AuthToken = rp_AuthToken decoded, ro_RenewalToken = rp_RenewalToken decoded,
            ro_ExpiresUnix = rp_CredentialExpiresUnix decoded, ro_AuthGeneration = rp_AuthGeneration decoded\<rparr>)))"

definition renewal_allowed :: "enroll_env \<Rightarrow> string \<Rightarrow> bool" where
  "renewal_allowed env endpoint = (case hw_Parse (ee_http env) endpoint of
     Inl err \<Rightarrow> False
   | Inr (scheme, host) \<Rightarrow> scheme = ''https'' \<and> host \<noteq> [])"

definition RenewCredentials :: "enroll_env \<Rightarrow> string \<Rightarrow> string \<Rightarrow> string \<Rightarrow> string \<Rightarrow> string \<Rightarrow> string
    \<Rightarrow> rest_body http_request list \<times> CredentialRotation result" where
  "RenewCredentials env endpoint serverID renewalToken requestID authMode csrPEM =
     (if endpoint = [] then ([], Inl ''credential renewal endpoint is not configured'')
      else if \<not> renewal_allowed env endpoint then ([], Inl ''credential renewal endpoint must use HTTPS'')
      else let body = RenewBody \<lparr>rn_ServerID = serverID, rn_RenewalToken = renewalToken, rn_RequestID = requestID,
                 rn_CSRPem = base64_encode std_alphabet csrPEM, rn_AuthMode = authMode\<rparr> in
        case ee_json_Marshal env body of
          Some err \<Rightarrow> ([], Inl (''marshaling renewal request: '' @ err))
        | None \<Rightarrow> (case ee_NewRequest env endpoint of
            Some err \<Rightarrow> ([], Inl (''creating renewal request: '' @ err))
          | None \<Rightarrow>
              (let (sent, r) = http_Do (ee_http env) True 9 \<lparr>hq_Method = ''POST'', hq_URL = endpoint, hq_Body = Some body\<rparr> in
               (sent, case r of
                  Inl err \<Rightarrow> Inl (''credential renewal request failed: '' @ err)
                | Inr resp \<Rightarrow> (case read_limited (Some 1048576) resp of
                    Inl err \<Rightarrow> Inl (''reading credential renewal response: '' @ err)
                  | Inr responseBody \<Rightarrow>
                      if ha_Status resp \<noteq> 200
                      then Inl (rejection env ''credential renewal rejected'' (ha_Status resp) responseBody)
                      else renew_response env responseBody)))))"


subsection \<open>The command\<close>

record enroll_flags =
  ef_token :: string
  ef_server :: string
  ef_caFingerprint :: string
  ef_mode :: string
  ef_cfgFile :: "path option"

definition enroll_dir :: "path \<Rightarrow> enroll_flags \<Rightarrow> path" where
  "enroll_dir defaultDir fl = (case ef_cfgFile fl of Some d \<Rightarrow> d | None \<Rightarrow> defaultDir)"

text \<open>The configuration that is written for an answer.\<close>

definition enroll_config :: "bool \<Rightarrow> path \<Rightarrow> EnrollResponse \<Rightarrow> Config" where
  "enroll_config isTunnel configDir resp =
     (let authMode = (if isTunnel then ''token'' else ''mtls'');
          authToken = (if isTunnel then en_AuthToken resp else []);
          grpcEndpoint = (if isTunnel \<and> en_TunnelEndpoint resp \<noteq> [] then en_TunnelEndpoint resp else en_GrpcEndpoint resp) in
      \<lparr>cf_ServerID = en_ServerId resp, cf_GRPCEndpoint = grpcEndpoint, cf_CertDir = configDir, cf_AuthMode = authMode,
       cf_AuthToken = authToken, cf_RenewalToken = en_RenewalToken resp, cf_RenewalEndpoint = en_RenewalEndpoint resp,
       cf_CredentialExpiresUnix = en_CredentialExpiresUnix resp, cf_AuthGeneration = en_AuthGeneration resp,
       cf_RenewalStatus = ''healthy'', cf_RenewalAttempts = 0, cf_RenewalLastError = [], cf_RenewalLastSuccessUnix = 0,
       cf_RenewalNextRetryUnix = 0, cf_PendingRotationID = [], cf_PendingAuthToken = [], cf_PendingRenewalToken = [],
       cf_PendingExpiresUnix = 0, cf_PendingAuthGeneration = 0, cf_PendingPreviousBundle = [], cf_PendingHadPointer = False,
       cf_TunnelToken = [], cf_TunnelID = [], cf_RegistryURL = en_RegistryUrl resp,
       cf_RegistryUsername = en_RegistryUsername resp, cf_RegistryPassword = en_RegistryPassword resp,
       cf_MaxConcurrentBuilds = 0\<rparr>)"

definition enroll_answer :: "enroll_env \<Rightarrow> enroll_flags \<Rightarrow> Info \<Rightarrow> EnrollResponse result" where
  "enroll_answer env fl info =
     (if ef_mode fl = ''tunnel'' then snd (EnrollTunnel env (ef_server fl) (ef_token fl) info)
      else snd (Enroll env (ef_server fl) (ef_token fl) (ef_caFingerprint fl) info))"

text \<open>
  \<open>defaultDir\<close> is the default directory, \<open>drawn\<close> the identifier of the new bundle, \<open>order\<close> the order
  of a loop over a map; what is printed is left out.
\<close>

definition runEnroll :: "enroll_env \<Rightarrow> cred_env \<Rightarrow> int \<Rightarrow> string result \<Rightarrow> ((string \<times> string) list \<Rightarrow> (string \<times> string) list)
    \<Rightarrow> path \<Rightarrow> string \<Rightarrow> host \<Rightarrow> enroll_flags \<Rightarrow> go_error option fsm" where
  "runEnroll env cenv ts drawn order defaultDir version h fl =
     (if ef_token fl = [] then State_Monad.return (Some ''--token is required'')
      else if ef_server fl = [] then State_Monad.return (Some ''--server is required'')
      else
        let isTunnel = (ef_mode fl = ''tunnel'');
            configDir = enroll_dir defaultDir fl;
            info = (Collect_info h)\<lparr>in_AgentVersion := version\<rparr> in
        (case enroll_answer env fl info of
           Inl err \<Rightarrow> State_Monad.return (Some (''enrollment failed: '' @ err))
         | Inr resp \<Rightarrow> do {
             saved \<leftarrow> Save (ce_x509 cenv) ts configDir drawn order (en_ClientCert resp) (en_ClientKey resp) (en_CaCert resp);
             (case saved of
                Some err \<Rightarrow> State_Monad.return (Some (''saving certificates: '' @ err))
              | None \<Rightarrow> do {
                  stored \<leftarrow> SaveConfig cenv configDir (enroll_config isTunnel configDir resp);
                  State_Monad.return (case stored of
                    Some err \<Rightarrow> Some (''saving config: '' @ err)
                  | None \<Rightarrow> None) }) }))"

subsection \<open>Who learns a secret\<close>

text \<open>
  A renewal sends its token once, in one request to the configured endpoint, which the parser of addresses
  took for an HTTPS address with a host; it follows no redirection, so no answer can send the token elsewhere.
\<close>

lemma renewal_token_over_https:
  assumes "fst (RenewCredentials env endpoint serverID renewalToken requestID authMode csrPEM) \<noteq> []"
  shows "\<exists>host q. host \<noteq> [] \<and> hw_Parse (ee_http env) endpoint = Inr (''https'', host) \<and> hq_URL q = endpoint \<and>
    hq_Method q = ''POST'' \<and> fst (RenewCredentials env endpoint serverID renewalToken requestID authMode csrPEM) = [q]"
proof -
  have "renewal_allowed env endpoint"
    by (rule contrapos_np [OF assms]) (simp add: RenewCredentials_def)
  then obtain host where "hw_Parse (ee_http env) endpoint = Inr (''https'', host)" "host \<noteq> []"
    by (auto simp: renewal_allowed_def split: sum.splits)
  with assms show ?thesis
    by (auto simp: RenewCredentials_def Let_def case_prod_unfold http_Do_last split: option.split option.splits if_splits)
qed


text \<open>
  Enrollment through a tunnel follows redirections: the token goes, with status 307 or 308, wherever the
  answer says, over HTTPS or not.
\<close>

theorem enrollment_token_redirected:
  assumes "ee_json_Marshal env body = None" "ee_NewRequest env (enroll_url endpoint) = None"
    and "body = EnrollBody \<lparr>rq_Token = token, rq_AuthMode = ''token'',
       rq_SystemInfo = \<lparr>rs_Hostname = in_Hostname info, rs_OS = in_OS info, rs_Arch = in_Arch info,
         rs_CPUCores = in_CPUCores info, rs_MemoryBytes = in_MemoryBytes info,
         rs_DockerVersion = in_DockerVersion info, rs_AgentVersion = in_AgentVersion info\<rparr>\<rparr>"
    and "hw_exchange (ee_http env) \<lparr>hq_Method = ''POST'', hq_URL = enroll_url endpoint, hq_Body = Some body\<rparr> = Inr resp"
    and "ha_Status resp = 307" "hp_Location resp \<noteq> []"
    and "hw_Resolve (ee_http env) (enroll_url endpoint) (hp_Location resp) = Inr u"
  shows "\<lparr>hq_Method = ''POST'', hq_URL = u, hq_Body = Some body\<rparr> \<in> set (fst (EnrollTunnel env endpoint token info))"
proof -
  let ?req = "\<lparr>hq_Method = ''POST'', hq_URL = enroll_url endpoint, hq_Body = Some body\<rparr>"
  have "fst (http_Do (ee_http env) False (Suc 8) ?req) = ?req # fst (http_Do (ee_http env) False 8 (redirected ?req 307 u))"
    by (subst http_Do.simps) (use assms in \<open>simp add: redirect_status_def Let_def case_prod_unfold\<close>)
  moreover obtain rest where "fst (http_Do (ee_http env) False 8 (redirected ?req 307 u)) = redirected ?req 307 u # rest"
    using http_Do_first by blast
  ultimately have "redirected ?req 307 u \<in> set (fst (http_Do (ee_http env) False 9 ?req))"
    by (simp add: eval_nat_numeral)
  with assms(1-3) show ?thesis
    by (simp add: EnrollTunnel_def Let_def case_prod_unfold redirected_def)
qed

text \<open>
   The bearer token of a tunnel connection is only configured together with TLS that is verified for
  the host it is dialled and addressed by, and the port is 443 unless another is given.
\<close>

theorem bearer_only_over_verified_tls:
  "(case DialTunnelWithAuth nc endpoint authToken of
      Inl err \<Rightarrow> True
    | Inr conn \<Rightarrow> dl_Bearer conn = Some authToken \<and>
        dl_Transport conn = TLS \<lparr>tc_ServerName = tunnelHost endpoint, tc_InsecureSkipVerify = False, tc_Pinned = None\<rparr> \<and>
        dl_Authority conn = Some (tunnelHost endpoint)) \<and>
   Contains (tunnelTarget endpoint) '':''"
proof -
  have "Contains (endpoint @ '':443'') '':''" unfolding Contains_iff by (metis append_Cons append_Nil)
  then show ?thesis by (simp add: DialTunnelWithAuth_def new_client_def tunnel_options_def tunnelTarget_def split: option.split)
qed


subsection \<open>What is stored\<close>

definition files_written :: "path \<Rightarrow> (string \<times> string) list \<Rightarrow> named \<Rightarrow> named \<Rightarrow> bool" where
  "files_written b fs w u \<longleftrightarrow> (\<forall>(n, c) \<in> set fs. u (b @ [n]) = Some c) \<and> (\<forall>n. n \<notin> fst ` set fs \<longrightarrow> u (b @ [n]) = w (b @ [n]))"

lemma files_written_Cons:
  "n \<notin> fst ` set fs \<Longrightarrow> files_written b fs (w(b @ [n] \<mapsto> c)) u \<Longrightarrow> files_written b ((n, c) # fs) w u"
  by (auto simp: files_written_def)

lemma runs_write_bundle_files:
  assumes I: "\<And>w. outside b v w \<Longrightarrow> I w"
  shows "outside b v w \<Longrightarrow> distinct (map fst fs) \<Longrightarrow> \<forall>n \<in> fst ` set fs. \<not> is_temp (b @ [n]) \<Longrightarrow>
    runs_reliably I w (write_bundle_files b fs) (\<lambda>r u. outside b v u \<and> (r = None \<longrightarrow> files_written b fs w u))"
proof (induction fs arbitrary: w)
  case Nil
  then show ?case by (auto intro: runs_return simp: files_written_def)
next
  case (Cons f fs)
  obtain n c where f: "f = (n, c)" by (cases f)
  let ?Q = "\<lambda>r u. outside b v u \<and> (r = None \<longrightarrow> files_written b (f # fs) w u)"
  have out: "outside b v (w(b @ [n] \<mapsto> c))" using Cons.prems(1) by (simp add: outside_update)
  have removed: "runs_reliably I w (State_Monad.bind (remove_all b) (\<lambda>_. State_Monad.return (Some e))) ?Q" for e
  proof (rule runs_bind [OF runs_remove_all [where Q = "\<lambda>_. outside b v"]])
    show "I u" "outside b v u" if "outside b w u" for u
      using that Cons.prems(1) I by (auto intro: outside_trans)
  qed (rule runs_return, simp)
  have "runs_reliably I (w(b @ [n] \<mapsto> c)) (write_bundle_files b fs) ?Q"
    by (rule runs_mono [OF Cons.IH [OF out]]) (use Cons.prems f in \<open>auto intro: files_written_Cons simp del: fun_upd_apply\<close>)
  moreover have "\<not> is_temp (b @ [n])" using Cons.prems(3) f by simp
  ultimately show ?case unfolding f write_bundle_files.simps
    by (intro runs_atomicWrite_then) (use I [OF Cons.prems(1)] I [OF out] removed f in \<open>simp_all del: fun_upd_apply\<close>)
qed

lemma runs_Save:
  assumes I: "\<And>w. outside (bundlePath dir bundle) v w \<Longrightarrow> I w"
    and I': "\<And>w. outside (bundlePath dir bundle) v w \<Longrightarrow> complete (bundlePath dir bundle) w \<Longrightarrow>
      I (w(dir @ [currentFile] \<mapsto> bundle @ [CHR 0x0A]))"
    and failed: "\<And>err w. outside (bundlePath dir bundle) v w \<Longrightarrow> Q (Some err) w"
    and ok: "\<And>w. outside (bundlePath dir bundle) v w \<Longrightarrow> w (bundlePath dir bundle @ [clientCertFile]) = Some cert \<Longrightarrow>
      w (bundlePath dir bundle @ [clientKeyFile]) = Some key \<Longrightarrow> w (bundlePath dir bundle @ [caCertFile]) = Some ca \<Longrightarrow>
      Q None (w(dir @ [currentFile] \<mapsto> bundle @ [CHR 0x0A]))"
    and order: "mset (order [(clientCertFile, cert), (clientKeyFile, key), (caCertFile, ca)]) =
      mset [(clientCertFile, cert), (clientKeyFile, key), (caCertFile, ca)]"
  shows "runs_reliably I v (Save x ts dir (Inr bundle) order cert key ca) Q"
proof -
  let ?b = "bundlePath dir bundle" and ?files = "order [(clientCertFile, cert), (clientKeyFile, key), (caCertFile, ca)]"
  have files: "set ?files = {(clientCertFile, cert), (clientKeyFile, key), (caCertFile, ca)}"
    using mset_eq_setD [OF order] by simp
  have "mset (map fst ?files) = mset (map fst [(clientCertFile, cert), (clientKeyFile, key), (caCertFile, ca)])"
    using order by (simp only: mset_map)
  then have "distinct (map fst ?files)" by (rule mset_eq_imp_distinct_iff [THEN iffD2]) simp
  with files have written: "runs_reliably I v (write_bundle_files ?b ?files) (\<lambda>r u. outside ?b v u \<and> (r = None \<longrightarrow> files_written ?b ?files v u))"
    by (intro runs_write_bundle_files I) simp_all
  have bundled: "runs_reliably I v (writeCompleteBundle dir bundle ?files) (\<lambda>r u. outside ?b v u \<and> (r = None \<longrightarrow> files_written ?b ?files v u))"
    unfolding writeCompleteBundle_def
    by (intro runs_mkdir_then runs_if runs_return written I) simp_all
  have pointer: "runs_reliably I u (State_Monad.bind (atomicWrite (dir @ [currentFile]) (bundle @ [CHR 0x0A])) (\<lambda>err. case err of
        Some e \<Rightarrow> State_Monad.bind (remove_all ?b) (\<lambda>_. State_Monad.return (Some (''activating enrollment credentials: '' @ e)))
      | None \<Rightarrow> State_Monad.return None)) Q" if u: "outside ?b v u" "files_written ?b ?files v u" for u
  proof (rule runs_atomicWrite_then)
    from u(2) have c: "u (?b @ [clientCertFile]) = Some cert" "u (?b @ [clientKeyFile]) = Some key" "u (?b @ [caCertFile]) = Some ca"
      by (auto simp: files_written_def files)
    then have "complete ?b u" by (simp add: complete_def)
    with u(1) show "I (u(dir @ [currentFile] \<mapsto> bundle @ [CHR 0x0A]))" by (rule I')
    from u(1) c have "Q None (u(dir @ [currentFile] \<mapsto> bundle @ [CHR 0x0A]))" by (rule ok)
    then show "runs_reliably I (u(dir @ [currentFile] \<mapsto> bundle @ [CHR 0x0A])) (case None of
        Some e \<Rightarrow> State_Monad.bind (remove_all ?b) (\<lambda>_. State_Monad.return (Some (''activating enrollment credentials: '' @ e)))
      | None \<Rightarrow> State_Monad.return None) Q" by (simp add: runs_return)
    show "runs_reliably I u (case Some err of
        Some e \<Rightarrow> State_Monad.bind (remove_all ?b) (\<lambda>_. State_Monad.return (Some (''activating enrollment credentials: '' @ e)))
      | None \<Rightarrow> State_Monad.return None) Q" for err
      unfolding option.case
    proof (rule runs_bind [OF runs_remove_all [where Q = "\<lambda>_. outside ?b v"]])
      show "I w" "outside ?b v w" if "outside ?b u w" for w using that u(1) I by (auto intro: outside_trans)
    qed (rule runs_return, rule failed)
  qed (use u(1) I in simp_all)
  have "runs_reliably I v (State_Monad.bind (writeCompleteBundle dir bundle ?files) (\<lambda>err. case err of
        Some e \<Rightarrow> State_Monad.return (Some e)
      | None \<Rightarrow> State_Monad.bind (atomicWrite (dir @ [currentFile]) (bundle @ [CHR 0x0A])) (\<lambda>err. case err of
        Some e \<Rightarrow> State_Monad.bind (remove_all ?b) (\<lambda>_. State_Monad.return (Some (''activating enrollment credentials: '' @ e)))
      | None \<Rightarrow> State_Monad.return None))) Q"
    by (rule runs_bind [OF bundled]) (auto intro!: runs_return failed pointer split: option.split)
  moreover have "runs_reliably I v (State_Monad.return (Some err)) Q" for err
    by (rule runs_return) (rule failed, rule outside_refl)
  ultimately show ?thesis unfolding Save_def sum.case by (cases "validateBundle x ts cert key ca []") (simp_all only: option.case)
qed

lemma runs_SaveConfig:
  assumes "I v" "\<And>text. ce_yaml_Marshal env cfg = Inr text \<Longrightarrow> I (v(config_path dir \<mapsto> text))"
    and "\<And>err. Q (Some err) v" "\<And>text. ce_yaml_Marshal env cfg = Inr text \<Longrightarrow> Q None (v(config_path dir \<mapsto> text))"
  shows "runs_reliably I v (SaveConfig env dir cfg) Q"
  unfolding SaveConfig_def
  by (intro runs_mkdir_then runs_if runs_return) (use assms in \<open>auto split: sum.split intro!: runs_return runs_write\<close>)

text \<open>
  The three stages a directory can be in while a server enrolls: as it was but for the new bundle,
  the new bundle in use, and the new configuration beside it.
\<close>

datatype enroll_phase = Before | Switched | Enrolled

fun enroll_stage :: "cred_env \<Rightarrow> path \<Rightarrow> string \<Rightarrow> EnrollResponse \<Rightarrow> bool \<Rightarrow> named \<Rightarrow> enroll_phase \<Rightarrow> named \<Rightarrow> bool" where
  "enroll_stage cenv dir bundle resp tunnel v Before w = outside (bundlePath dir bundle) v w"
| "enroll_stage cenv dir bundle resp tunnel v Switched w =
     (\<exists>u. outside (bundlePath dir bundle) v u \<and> complete (bundlePath dir bundle) u \<and> w = u(dir @ [currentFile] \<mapsto> bundle @ [CHR 0x0A]))"
| "enroll_stage cenv dir bundle resp tunnel v Enrolled w =
     (\<exists>u text. outside (bundlePath dir bundle) v u \<and>
        u (bundlePath dir bundle @ [clientCertFile]) = Some (en_ClientCert resp) \<and>
        u (bundlePath dir bundle @ [clientKeyFile]) = Some (en_ClientKey resp) \<and>
        u (bundlePath dir bundle @ [caCertFile]) = Some (en_CaCert resp) \<and>
        ce_yaml_Marshal cenv (enroll_config tunnel dir resp) = Inr text \<and>
        w = u(dir @ [currentFile] \<mapsto> bundle @ [CHR 0x0A], config_path dir \<mapsto> text))"


text \<open>Every state on the way, and the outcome, given the answer of the control plane.\<close>

definition enroll_state :: "cred_env \<Rightarrow> path \<Rightarrow> string \<Rightarrow> bool \<Rightarrow> named \<Rightarrow> named \<Rightarrow> bool" where
  "enroll_state cenv dir bundle tunnel v w \<longleftrightarrow> w = v \<or> (\<exists>resp phase. enroll_stage cenv dir bundle resp tunnel v phase w)"

definition enroll_outcome :: "cred_env \<Rightarrow> path \<Rightarrow> string \<Rightarrow> EnrollResponse result \<Rightarrow> bool \<Rightarrow> named \<Rightarrow> go_error option \<Rightarrow> named \<Rightarrow> bool" where
  "enroll_outcome cenv dir bundle answer tunnel v r w \<longleftrightarrow>
     (if r = None then \<exists>resp. answer = Inr resp \<and> enroll_stage cenv dir bundle resp tunnel v Enrolled w
      else outside (bundlePath dir bundle) v w \<or> (\<exists>resp. answer = Inr resp \<and> enroll_stage cenv dir bundle resp tunnel v Switched w))"

lemma config_not_below [simp]: "\<not> below (bundlePath dir bundle) (config_path dir)"
  by (simp add: config_path_def)

lemma runEnroll_stages:
  assumes "\<And>fs. mset (order fs) = mset fs"
  shows "runs_reliably (enroll_state cenv (enroll_dir defaultDir fl) bundle (ef_mode fl = ''tunnel'') v) v
    (runEnroll env cenv ts (Inr bundle) order defaultDir version h fl)
    (enroll_outcome cenv (enroll_dir defaultDir fl) bundle
      (enroll_answer env fl ((Collect_info h)\<lparr>in_AgentVersion := version\<rparr>)) (ef_mode fl = ''tunnel'') v)"
    (is "runs_reliably ?I v _ ?Q")
proof -
  define dir where "dir = enroll_dir defaultDir fl"
  define info where "info = (Collect_info h)\<lparr>in_AgentVersion := version\<rparr>"
  let ?t = "ef_mode fl = ''tunnel''"
  have fail: "runs_reliably ?I v (State_Monad.return (Some err)) ?Q" for err by (rule runs_return) (simp add: enroll_outcome_def)
  show ?thesis
  proof (cases "ef_token fl = [] \<or> ef_server fl = []")
    case True
    then show ?thesis using fail by (auto simp: runEnroll_def)
  next
    case False
    show ?thesis
    proof (cases "enroll_answer env fl info")
      case (Inl err)
      with False fail show ?thesis by (simp add: runEnroll_def Let_def info_def)
    next
      case (Inr resp)
      have before: "?I w" if "outside (bundlePath dir bundle) v w" for w
        unfolding enroll_state_def using that by (intro disjI2 exI [of _ resp] exI [of _ Before]) (simp add: dir_def)
      have switched: "?I (w(dir @ [currentFile] \<mapsto> bundle @ [CHR 0x0A]))"
        if "outside (bundlePath dir bundle) v w" "complete (bundlePath dir bundle) w" for w
        unfolding enroll_state_def using that by (intro disjI2 exI [of _ resp] exI [of _ Switched]) (auto simp: dir_def)
      have enrolled: "enroll_stage cenv dir bundle resp ?t v Enrolled (w(dir @ [currentFile] \<mapsto> bundle @ [CHR 0x0A], config_path dir \<mapsto> yaml))"
        if "outside (bundlePath dir bundle) v w" "w (bundlePath dir bundle @ [clientCertFile]) = Some (en_ClientCert resp)"
          "w (bundlePath dir bundle @ [clientKeyFile]) = Some (en_ClientKey resp)"
          "w (bundlePath dir bundle @ [caCertFile]) = Some (en_CaCert resp)"
          "ce_yaml_Marshal cenv (enroll_config ?t dir resp) = Inr yaml" for w yaml
        using that by auto
      let ?store = "\<lambda>saved. case saved of
          Some err \<Rightarrow> State_Monad.return (Some (''saving certificates: '' @ err))
        | None \<Rightarrow> State_Monad.bind (SaveConfig cenv dir (enroll_config ?t dir resp)) (\<lambda>stored. State_Monad.return (case stored of
            Some err \<Rightarrow> Some (''saving config: '' @ err) | None \<Rightarrow> None))"
      have saved: "runs_reliably ?I v (Save (ce_x509 cenv) ts dir (Inr bundle) order (en_ClientCert resp) (en_ClientKey resp) (en_CaCert resp))
        (\<lambda>r w. runs_reliably ?I w (?store r) ?Q)"
      proof (rule runs_Save)
        show "?I w" if "outside (bundlePath dir bundle) v w" for w using that by (rule before)
        show "?I (w(dir @ [currentFile] \<mapsto> bundle @ [CHR 0x0A]))"
          if "outside (bundlePath dir bundle) v w" "complete (bundlePath dir bundle) w" for w using that by (rule switched)
      next
        fix err w
        assume "outside (bundlePath dir bundle) v w"
        then show "runs_reliably ?I w (?store (Some err)) ?Q" by (auto simp: dir_def enroll_outcome_def intro: runs_return)
      next
        fix w
        assume out: "outside (bundlePath dir bundle) v w"
          and files: "w (bundlePath dir bundle @ [clientCertFile]) = Some (en_ClientCert resp)"
            "w (bundlePath dir bundle @ [clientKeyFile]) = Some (en_ClientKey resp)"
            "w (bundlePath dir bundle @ [caCertFile]) = Some (en_CaCert resp)"
        let ?w = "w(dir @ [currentFile] \<mapsto> bundle @ [CHR 0x0A])"
        have c: "complete (bundlePath dir bundle) w" using files by (simp add: complete_def)
        have "runs_reliably ?I ?w (SaveConfig cenv dir (enroll_config ?t dir resp))
          (\<lambda>r u. ?Q (case r of Some err \<Rightarrow> Some (''saving config: '' @ err) | None \<Rightarrow> None) u)"
        proof (rule runs_SaveConfig)
          show "?I ?w" by (rule switched [OF out c])
          show "?I (?w(config_path dir \<mapsto> yaml))" if "ce_yaml_Marshal cenv (enroll_config ?t dir resp) = Inr yaml" for yaml
            using enrolled [OF out files that] unfolding dir_def [symmetric] enroll_state_def by blast
          show "?Q (case None of Some err \<Rightarrow> Some (''saving config: '' @ err) | None \<Rightarrow> None) (?w(config_path dir \<mapsto> yaml))"
            if "ce_yaml_Marshal cenv (enroll_config ?t dir resp) = Inr yaml" for yaml
            using enrolled [OF out files that] Inr unfolding dir_def [symmetric] info_def enroll_outcome_def by simp
          show "?Q (case Some err of Some err \<Rightarrow> Some (''saving config: '' @ err) | None \<Rightarrow> None) ?w" for err
            using out c Inr unfolding dir_def [symmetric] info_def enroll_outcome_def by auto
        qed
        then show "runs_reliably ?I ?w (?store None) ?Q" unfolding option.case by (rule runs_bind) (rule runs_return)
      qed (rule assms)
      from False have given: "ef_token fl \<noteq> []" "ef_server fl \<noteq> []" by simp_all
      have "runEnroll env cenv ts (Inr bundle) order defaultDir version h fl =
          State_Monad.bind (Save (ce_x509 cenv) ts dir (Inr bundle) order (en_ClientCert resp) (en_ClientKey resp) (en_CaCert resp)) ?store"
        unfolding runEnroll_def info_def [symmetric] dir_def [symmetric] Let_def if_not_P [OF given(1)] if_not_P [OF given(2)]
          Inr sum.case by (rule refl)
      then show ?thesis by (simp only:) (rule runs_bind [OF saved])
    qed
  qed
qed

text \<open>
  C15.  As long as renames, reads and stats work (\<open>runs_reliably\<close>), whatever other operation fails
  and whenever the command is killed, enrolling leaves the directory in one of
  three stages: nothing but the new bundle is touched, or the new bundle, complete, is the one in use, or
  the configuration of the answer stands beside it.  It reports success only in the last, where the
  three files are those of the answer; and a refused enrollment, or an invalid certificate, changes
  no file outside the new bundle.
\<close>

theorem enrollment_crash_safe:
  assumes "\<And>fs. mset (order fs) = mset fs"
  shows "runs_reliably (enroll_state cenv (enroll_dir defaultDir fl) bundle (ef_mode fl = ''tunnel'') v) v
    (runEnroll env cenv ts (Inr bundle) order defaultDir version h fl)
    (enroll_outcome cenv (enroll_dir defaultDir fl) bundle
      (enroll_answer env fl ((Collect_info h)\<lparr>in_AgentVersion := version\<rparr>)) (ef_mode fl = ''tunnel'') v)"
  using assms by (rule runEnroll_stages)

subsection \<open>Witnesses\<close>

definition sample_answer :: EnrollResponse where
  "sample_answer = \<lparr>en_ServerId = ''s1'', en_ClientCert = ''cert'', en_ClientKey = ''key'', en_CaCert = ''ca'',
     en_GrpcEndpoint = ''grpc.example.org:443'', en_AuthToken = [], en_TunnelEndpoint = [], en_RegistryUrl = [],
     en_RegistryUsername = [], en_RegistryPassword = [], en_RenewalToken = ''r1'', en_CredentialExpiresUnix = 0,
     en_AuthGeneration = 1, en_RenewalEndpoint = ''https://example.org/renew''\<rparr>"

definition sample_location :: "rest_body http_request \<Rightarrow> http_response result" where
  "sample_location q = Inr \<lparr>ha_Status = 307, ha_Body = [], ha_ReadError = None, hp_Location = ''http://other.example/''\<rparr>"

definition sample_enroll_env :: enroll_env where
  "sample_enroll_env = \<lparr>ee_NewClient = (\<lambda>opts. None), ee_sha256 = (\<lambda>s. s),
     ee_peer = \<lparr>pe_RawCerts = [''leaf''], pe_ChainError = (\<lambda>name. None)\<rparr>, ee_Enroll = (\<lambda>q. Inr sample_answer),
     ee_http = \<lparr>hw_exchange = sample_location, hw_Parse = (\<lambda>u. Inr (''https'', ''example.org'')), hw_Resolve = (\<lambda>u l. Inr l)\<rparr>,
     ee_json_Marshal = (\<lambda>b. None), ee_NewRequest = (\<lambda>u. None), ee_json_detail = (\<lambda>s. Inl ''no JSON''),
     ee_json_enroll = (\<lambda>s. Inl ''no JSON''), ee_json_renew = (\<lambda>s. Inl ''no JSON'')\<rparr>"

definition sample_flags :: enroll_flags where
  "sample_flags = \<lparr>ef_token = ''t1'', ef_server = ''grpc.example.org:443'', ef_caFingerprint = ''SHA256:6C656166'',
     ef_mode = ''direct'', ef_cfgFile = None\<rparr>"

lemma sample_pin: "hex_EncodeToString ''leaf'' = expected_hex ''SHA256:6C656166''"
  by code_simp

lemma sample_enrolled:
  "Enroll sample_enroll_env ''grpc.example.org:443'' ''t1'' ''SHA256:6C656166'' info =
   ([\<lparr>er_Token = ''t1'', er_SystemInfo = \<lparr>sy_Hostname = in_Hostname info, sy_Os = in_OS info, sy_Arch = in_Arch info,
      sy_CpuCores = in_CPUCores info, sy_MemoryBytes = in_MemoryBytes info, sy_DockerVersion = in_DockerVersion info,
      sy_AgentVersion = in_AgentVersion info, sy_LanIps = [], sy_TailscaleIp = [], sy_TailscaleHostname = [],
      sy_TailscaleCliAvailable = False, sy_Capabilities = []\<rparr>\<rparr>], Inr sample_answer)"
  using sample_pin
  by (simp only: Enroll_def DialEnrollment_def new_client_def callEnrollRPC_def handshake_def VerifyPeerCertificate_def
      sample_enroll_env_def enroll_env.simps peer.simps client_options.simps tls_config.simps transport.case Let_def
      option.case sum.case list.case list.distinct if_True if_False simp_thms) 


lemma enrollment_crash_safe_witness:
  "runs_reliably (enroll_state sample_cred_env [''etc''] ''b1'' False Map.empty) Map.empty
     (runEnroll sample_enroll_env sample_cred_env 0 (Inr ''b1'') (\<lambda>fs. fs) [''etc''] ''1.0'' sample_host sample_flags)
     (enroll_outcome sample_cred_env [''etc''] ''b1''
       (enroll_answer sample_enroll_env sample_flags ((Collect_info sample_host)\<lparr>in_AgentVersion := ''1.0''\<rparr>)) False Map.empty)"
proof -
  have f: "ef_mode sample_flags = ''direct''" "enroll_dir [''etc''] sample_flags = [''etc'']"
    by (simp_all add: sample_flags_def enroll_dir_def)
  have m: "(''direct'' = ''tunnel'') = False" by simp
  have "mset ((\<lambda>fs. fs) fs) = mset fs" for fs :: "(string \<times> string) list" by simp
  from enrollment_crash_safe [OF this, of sample_cred_env "[''etc'']" sample_flags "''b1''" Map.empty sample_enroll_env 0
      "''1.0''" sample_host]
  show ?thesis unfolding f m .
qed

lemma enrollment_token_redirected_witness:
  "\<exists>q \<in> set (fst (EnrollTunnel sample_enroll_env ''grpc.example.org'' ''t1'' (Collect_info sample_host))).
     hq_URL q = ''http://other.example/'' \<and> hq_Body q \<noteq> None"
proof -
  let ?resp = "\<lparr>ha_Status = 307, ha_Body = [], ha_ReadError = None, hp_Location = ''http://other.example/''\<rparr> :: http_response"
  have "ee_json_Marshal sample_enroll_env b = None" "ee_NewRequest sample_enroll_env u = None"
    "hw_exchange (ee_http sample_enroll_env) q = Inr ?resp"
    "hw_Resolve (ee_http sample_enroll_env) u l = Inr l" for b u q l
    by (simp_all add: sample_enroll_env_def sample_location_def)
  note env = this
  have "ha_Status ?resp = 307" "hp_Location ?resp \<noteq> []" by simp_all
  from enrollment_token_redirected [where endpoint = "''grpc.example.org''" and token = "''t1''"
      and info = "Collect_info sample_host", OF env(1, 2) refl env(3) this env(4)]
  show ?thesis by (rule bexI [rotated]) simp
qed

end
