(* ===== verification/Doctor.thy ===== *)
theory Doctor
  imports Enrollment
begin

text \<open>
  The diagnostic commands: the checks of \<^verbatim>\<open>internal/doctor/doctor.go\<close>, \<^verbatim>\<open>cmd/doctor.go\<close> and
  \<^verbatim>\<open>cmd/status.go\<close>, with \<^verbatim>\<open>LoadConfig\<close> and \<^verbatim>\<open>DefaultConfigDir\<close> of
  \<^verbatim>\<open>internal/agent/config.go\<close> and the detection of Docker at the end of
  \<^verbatim>\<open>internal/docker/client.go\<close>.  What the host answers is a record; the texts of a duration and of
  a date are parameters; what is printed is left out, what the commands return is not.
\<close>

subsection \<open>The host\<close>

record diag_host =
  dx_GOOS :: string
  dx_Stat :: "string \<Rightarrow> bool"                              \<comment> \<open>\<^verbatim>\<open>os.Stat\<close> succeeds\<close>
  dx_Exists :: "path \<Rightarrow> bool"                         \<comment> \<open>the same of a path the agent joined\<close>
  dx_IsDir :: "path \<Rightarrow> bool"
  dx_HomeDir :: "path result"
  dx_TempDir :: path
  dx_Uid :: int
  dx_DOCKER_HOST :: string
  dx_docker_version :: "string result"
  dx_DialTimeout :: "string \<Rightarrow> go_error option"
  dx_disk_Free :: "string \<Rightarrow> nat result"
  dx_systemctl :: "string \<times> go_error option"
  dx_CurrentUser :: "string result"
  dx_GroupIds :: "string list result"
  dx_LookupGroup :: "string \<Rightarrow> string result"
  dx_tailscale_path :: "string result"
  dx_tailscale_status :: "string result"
  dx_json_dns_name :: "string \<Rightarrow> string result"
  dx_tailscale_serve :: "string result"
  dx_Duration :: "int \<Rightarrow> string"
  dx_Date :: "int \<Rightarrow> string"
  dx_RFC3339 :: "int \<Rightarrow> string"
  dx_yaml_Unmarshal :: "string \<Rightarrow> Config result"
  dx_managed :: "ContainerInfo list result"               \<comment> \<open>\<^verbatim>\<open>NewManager\<close> and \<^verbatim>\<open>ListManagedContainers\<close>\<close>

definition path_text :: "path \<Rightarrow> string" where
  "path_text p = concat (map (\<lambda>c. ''/'' @ c) p)"

definition sysDir :: path where "sysDir = [''etc'', ''clank-agent'']"

definition DefaultConfigDir :: "diag_host \<Rightarrow> path" where
  "DefaultConfigDir h =
     (let fallback = (case dx_HomeDir h of
            Inl err \<Rightarrow> dx_TempDir h @ [''clank-agent'']
          | Inr home \<Rightarrow> home @ [''.clank-agent'']) in
      if dx_GOOS h = ''linux'' then
        if dx_Exists h (config_path sysDir) then sysDir
        else if (case dx_HomeDir h of
            Inl err \<Rightarrow> False
          | Inr home \<Rightarrow> dx_Exists h (config_path (home @ [''.clank-agent''])))
        then fallback
        else if dx_Exists h sysDir \<and> dx_IsDir h sysDir then sysDir
        else if dx_Uid h = 0 then sysDir
        else fallback
      else fallback)"

text \<open>The directory a command works in: \<open>cfgFile\<close> is the flag \<^verbatim>\<open>--config\<close>, if it was given.\<close>

definition command_dir :: "diag_host \<Rightarrow> path option \<Rightarrow> path" where
  "command_dir h cfgFile = (case cfgFile of None \<Rightarrow> DefaultConfigDir h | Some dir \<Rightarrow> dir)"

definition LoadConfig :: "diag_host \<Rightarrow> path \<Rightarrow> Config result fsm" where
  "LoadConfig h dir = do {
     data \<leftarrow> read_file (config_path dir);
     State_Monad.return (case data of
       None \<Rightarrow> Inl (''reading '' @ path_text (config_path dir) @ '': '' @ os_error)
     | Some d \<Rightarrow> (case dx_yaml_Unmarshal h d of
         Inl err \<Rightarrow> Inl (''parsing config: '' @ err)
       | Inr cfg \<Rightarrow> if cf_ServerID cfg = [] \<or> cf_GRPCEndpoint cfg = []
           then Inl ''config missing server_id or grpc_endpoint'' else Inr cfg)) }"

definition DetectDockerSocket :: "diag_host \<Rightarrow> string" where
  "DetectDockerSocket h =
     (if dx_DOCKER_HOST h \<noteq> [] then dx_DOCKER_HOST h
      else if dx_GOOS h = ''windows'' then ''npipe:////./pipe/docker_engine''
      else if dx_GOOS h = ''darwin'' then
        (if dx_Stat h ''/var/run/docker.sock'' then ''unix:///var/run/docker.sock''
         else case dx_HomeDir h of
           Inl err \<Rightarrow> ''unix:///var/run/docker.sock''
         | Inr home \<Rightarrow> (let alt = path_text (home @ [''.docker'', ''run'', ''docker.sock'']) in
             if dx_Stat h alt then ''unix://'' @ alt else ''unix:///var/run/docker.sock''))
      else ''unix:///var/run/docker.sock'')"

definition IsDockerAvailable :: "diag_host \<Rightarrow> bool \<times> string" where
  "IsDockerAvailable h = (case dx_docker_version h of
     Inl err \<Rightarrow> (False, ''docker not reachable: '' @ err)
   | Inr out \<Rightarrow> (let v = TrimSpace out in
       if v = [] then (False, ''docker returned empty version'') else (True, v)))"

subsection \<open>Checks\<close>

datatype Severity = OK | Warn | Error

fun Severity_String :: "Severity \<Rightarrow> string" where
  "Severity_String OK = ''ok''"
| "Severity_String Warn = ''warn''"
| "Severity_String Error = ''error''"

record CheckResult =
  cr_Name :: string
  cr_Status :: Severity
  cr_Message :: string
  cr_Fix :: string

definition check_result :: "Severity \<Rightarrow> string \<Rightarrow> string \<Rightarrow> CheckResult" where
  "check_result st msg fix_text = \<lparr>cr_Name = [], cr_Status = st, cr_Message = msg, cr_Fix = fix_text\<rparr>"

definition CheckDocker :: "diag_host \<Rightarrow> CheckResult" where
  "CheckDocker h = (case IsDockerAvailable h of
     (False, detail) \<Rightarrow> check_result Error detail ''Install Docker Engine: https://docs.docker.com/engine/install/''
   | (True, detail) \<Rightarrow>
       (case SplitN detail CHR ''.'' 2 of
          major # _ \<Rightarrow>
            if Atoi_ok major \<and> Atoi_value major < 24
            then check_result Warn (''Docker '' @ detail @ '' (minimum recommended: 24.x)'')
              ''Upgrade Docker Engine: https://docs.docker.com/engine/install/''
            else check_result OK (''Docker '' @ detail) []
        | [] \<Rightarrow> check_result OK (''Docker '' @ detail) []))"

definition CheckDockerSocket :: "diag_host \<Rightarrow> CheckResult" where
  "CheckDockerSocket h =
     (let sock = DetectDockerSocket h;
          file = (if HasPrefix sock ''unix://'' then TrimPrefix sock ''unix://'' else sock) in
      if HasPrefix sock ''npipe:'' then check_result OK (''Docker socket: '' @ sock) []
      else if \<not> dx_Stat h file then check_result Error (''Docker socket not found: '' @ file)
        ''Ensure Docker is running: sudo systemctl start docker''
      else check_result OK (''Docker socket: '' @ sock) [])"

definition CheckGRPCConnectivity :: "diag_host \<Rightarrow> string \<Rightarrow> CheckResult" where
  "CheckGRPCConnectivity h endpoint =
     (if endpoint = [] then check_result Warn ''no gRPC endpoint configured (not enrolled yet)'' []
      else let target = (if \<not> Contains endpoint '':'' then endpoint @ '':443'' else endpoint) in
        case dx_DialTimeout h target of
          Some err \<Rightarrow> check_result Error (''cannot reach '' @ target @ '': '' @ err)
            (''Check network/firewall '' @ em_dash @ '' agent needs outbound TCP to the control plane'')
        | None \<Rightarrow> check_result OK (''reachable: '' @ target) [])"

text \<open>\<^verbatim>\<open>%.1f\<close> of a number of bytes in gigabytes, which a double holds exactly: rounded half to even.\<close>

definition show_gb :: "nat \<Rightarrow> string" where
  "show_gb bytes =
     (let q = 10 * bytes div 2 ^ 30; r = 10 * bytes mod 2 ^ 30;
          t = (if 2 * r > 2 ^ 30 \<or> (2 * r = 2 ^ 30 \<and> odd q) then q + 1 else q) in
      show_nat (t div 10) @ ''.'' @ show_nat (t mod 10))"

definition CheckDiskSpace :: "diag_host \<Rightarrow> CheckResult" where
  "CheckDiskSpace h =
     (let root = (if dx_GOOS h = ''windows'' then [CHR ''C'', CHR '':'', CHR 0x5C] else ''/'') in
      case dx_disk_Free h root of
        Inl err \<Rightarrow> check_result Warn (''cannot check disk: '' @ err) []
      | Inr free \<Rightarrow>
          if free < 2 * 2 ^ 30
          then check_result Warn (show_gb free @ '' GB free (recommended: >= 2 GB)'')
            (''Free up disk space '' @ em_dash @ '' Docker images and builds require storage'')
          else check_result OK (show_gb free @ '' GB free'') [])"

definition CheckConfigExists :: "path \<Rightarrow> CheckResult fsm" where
  "CheckConfigExists configDir = do {
     there \<leftarrow> regularFile (config_path configDir);
     State_Monad.return (if \<not> there
       then check_result Error (''config not found: '' @ path_text (config_path configDir)) (''Run '' @ [CHR 0x27] @ ''clank-agent enroll'' @ [CHR 0x27] @ '' to register with the control plane'')
       else check_result OK (''config: '' @ path_text (config_path configDir)) []) }"

definition normalizedMode :: "string \<Rightarrow> string" where
  "normalizedMode mode = (if mode = ''token'' then ''JWT'' else ''mTLS'')"

text \<open>\<^verbatim>\<open>Duration.Round\<close>, within the range of durations.\<close>

definition Round :: "int \<Rightarrow> int \<Rightarrow> int" where
  "Round d m =
     (let r = \<bar>d\<bar> mod m; down = \<bar>d\<bar> - r; a = (if 2 * r < m then down else down + m) in
      if d < 0 then - a else a)"

text \<open>\<open>ts\<close> is the clock.\<close>

definition CheckCredentials :: "diag_host \<Rightarrow> cred_env \<Rightarrow> int \<Rightarrow> path \<Rightarrow> string \<Rightarrow> string \<Rightarrow> int \<Rightarrow> string \<Rightarrow> string \<Rightarrow> CheckResult fsm" where
  "CheckCredentials h env ts configDir authMode authToken configuredExpiry renewalStatus renewalError = do {
     expires \<leftarrow> Expiry env authMode authToken configDir configuredExpiry;
     State_Monad.return (case expires of
       Inl err \<Rightarrow> check_result Error ''control credential unavailable''
         (''Run '' @ [CHR 0x27] @ ''clank-agent enroll'' @ [CHR 0x27] @ '' to restore agent credentials'')
     | Inr expiresAt \<Rightarrow>
         let remaining = expiresAt - ts in
         if remaining \<le> 0
         then check_result Error (normalizedMode authMode @ '' credential expired '' @ dx_Duration h (Round (- remaining) hour) @ '' ago'')
           ''Automatic recovery will use the renewal credential; re-enroll if recovery is unavailable''
         else if remaining \<le> RenewalWindow \<and> renewalStatus = ''failed''
         then check_result Error (normalizedMode authMode @ '' credential expires in '' @ dx_Duration h (Round remaining hour) @
             ''; automatic renewal unhealthy ('' @ (if renewalError = [] then ''unknown'' else renewalError) @ '')'')
           ''Check agent connectivity and logs; re-enroll before expiry if renewal does not recover''
         else if remaining \<le> RenewalWindow
         then check_result Warn (normalizedMode authMode @ '' credential expires in '' @ dx_Duration h (Round remaining hour) @
             ''; renewal status: '' @ renewalStatus)
           ''The agent will rotate it automatically; investigate if status changes to failed''
         else check_result OK (normalizedMode authMode @ '' credential valid until '' @ dx_Date h expiresAt @ '' ('' @
             dx_Duration h (Round remaining (24 * hour)) @ '' remaining); renewal status: '' @ renewalStatus) []) }"

definition CheckSystemdService :: "diag_host \<Rightarrow> CheckResult" where
  "CheckSystemdService h =
     (if dx_GOOS h \<noteq> ''linux'' then check_result OK ''skipped (not Linux)'' []
      else let (out, err) = dx_systemctl h; st = TrimSpace out in
        if err \<noteq> None \<or> st \<noteq> ''active''
        then check_result Warn (''systemd service: '' @ (if st = [] then ''not found'' else st))
          ''Enable the service: sudo systemctl enable --now clank-agent''
        else check_result OK ''systemd service: active'' [])"

definition CheckDockerGroup :: "diag_host \<Rightarrow> CheckResult" where
  "CheckDockerGroup h =
     (if dx_GOOS h \<noteq> ''linux'' then check_result OK ''skipped (not Linux)'' []
      else case dx_CurrentUser h of
        Inl err \<Rightarrow> check_result Warn (''cannot determine user: '' @ err) []
      | Inr u \<Rightarrow> (case dx_GroupIds h of
          Inl err \<Rightarrow> check_result Warn (''cannot read groups: '' @ err) []
        | Inr groups \<Rightarrow> (case dx_LookupGroup h ''docker'' of
            Inl err \<Rightarrow> check_result Warn ''docker group does not exist'' ''Create docker group: sudo groupadd docker''
          | Inr gid \<Rightarrow>
              if gid \<in> set groups then check_result OK (''user '' @ u @ '' in docker group'') []
              else check_result Warn (''user '' @ u @ '' not in docker group'')
                (''sudo usermod -aG docker '' @ u @ '' && newgrp docker''))))"

definition CheckTailscale :: "diag_host \<Rightarrow> CheckResult" where
  "CheckTailscale h = (case dx_tailscale_path h of
     Inl err \<Rightarrow> check_result OK ''Tailscale not installed (optional)''
       ''Install for private HTTPS access: https://tailscale.com/download''
   | Inr _ \<Rightarrow> (case dx_tailscale_status h of
       Inl err \<Rightarrow> check_result Warn ''Tailscale installed but not running or not connected'' ''Run: sudo tailscale up''
     | Inr out \<Rightarrow> (case dx_json_dns_name h out of
         Inl err \<Rightarrow> check_result Warn (''cannot parse Tailscale status: '' @ err) []
       | Inr dns \<Rightarrow>
           let hostname = TrimSuffix dns ''.'' in
           if hostname = [] then check_result Warn ''Tailscale connected but no DNS name assigned''
             ''Enable MagicDNS in Tailscale admin console''
           else let serveStatus = (case dx_tailscale_serve h of
                    Inl err \<Rightarrow> ''not configured''
                  | Inr serveOut \<Rightarrow> (let s = TrimSpace serveOut in if s \<noteq> [] then s else ''not configured'')) in
             check_result OK (''connected as '' @ hostname @ '' (serve: '' @ serveStatus @ '')'') [])))"

subsection \<open>The commands\<close>

fun Run :: "(string \<times> CheckResult fsm) list \<Rightarrow> CheckResult list fsm" where
  "Run [] = State_Monad.return []"
| "Run ((name, fn) # checks) = do {
     r \<leftarrow> fn;
     rs \<leftarrow> Run checks;
     State_Monad.return (r\<lparr>cr_Name := name\<rparr> # rs) }"

fun HasErrors :: "CheckResult list \<Rightarrow> bool" where
  "HasErrors [] = False"
| "HasErrors (r # rs) = (if cr_Status r = Error then True else HasErrors rs)"

definition check_enrolled :: "diag_host \<Rightarrow> cred_env \<Rightarrow> int \<Rightarrow> path \<Rightarrow> Config result \<Rightarrow> CheckResult fsm" where
  "check_enrolled h env ts configDir loaded = (case loaded of
     Inl err \<Rightarrow> State_Monad.return (check_result Error ''agent is not enrolled'' [])
   | Inr cfg \<Rightarrow> CheckCredentials h env ts (if cf_CertDir cfg = [] then configDir else cf_CertDir cfg) (cf_AuthMode cfg)
       (cf_AuthToken cfg) (cf_CredentialExpiresUnix cfg) (cf_RenewalStatus cfg) (cf_RenewalLastError cfg))"

definition checks :: "diag_host \<Rightarrow> cred_env \<Rightarrow> int \<Rightarrow> path \<Rightarrow> Config result \<Rightarrow> (string \<times> CheckResult fsm) list" where
  "checks h env ts configDir loaded =
     [(''docker'', State_Monad.return (CheckDocker h)),
      (''docker_socket'', State_Monad.return (CheckDockerSocket h)),
      (''docker_group'', State_Monad.return (CheckDockerGroup h)),
      (''disk_space'', State_Monad.return (CheckDiskSpace h)),
      (''config'', CheckConfigExists configDir),
      (''control_credentials'', check_enrolled h env ts configDir loaded),
      (''grpc'', State_Monad.return (CheckGRPCConnectivity h (case loaded of Inr cfg \<Rightarrow> cf_GRPCEndpoint cfg | Inl _ \<Rightarrow> []))),
      (''systemd'', State_Monad.return (CheckSystemdService h)),
      (''tailscale'', State_Monad.return (CheckTailscale h))]"

text \<open>\<open>encode\<close> is the error of writing the results as JSON, when that was asked for.\<close>

definition runDoctor :: "diag_host \<Rightarrow> cred_env \<Rightarrow> int \<Rightarrow> path option \<Rightarrow> bool \<Rightarrow> (CheckResult list \<Rightarrow> go_error option)
    \<Rightarrow> (CheckResult list \<times> go_error option) fsm" where
  "runDoctor h env ts cfgFile doctorJSON encode = do {
     let configDir = command_dir h cfgFile;
     loaded \<leftarrow> LoadConfig h configDir;
     results \<leftarrow> Run (checks h env ts configDir loaded);
     State_Monad.return (results,
       case (if doctorJSON then encode results else None) of
         Some err \<Rightarrow> Some err
       | None \<Rightarrow> if HasErrors results then Some ''diagnostic checks failed'' else None) }"

record statusInfo =
  st_Version :: string
  st_ServerID :: string
  st_Endpoint :: string
  st_ConfigDir :: path
  st_CertExpiry :: string
  st_AuthMode :: string
  st_RenewalStatus :: string
  st_RenewalError :: string
  st_RenewalNextRetry :: string
  st_SystemdState :: string
  st_ContainerCount :: int

definition formatCredentialExpiry :: "diag_host \<Rightarrow> int \<Rightarrow> int \<Rightarrow> string" where
  "formatCredentialExpiry h ts expiresAt =
     (let remaining = expiresAt - ts in
      if remaining \<le> 0 then ''EXPIRED ('' @ dx_Date h expiresAt @ '')''
      else dx_Date h expiresAt @ '' ('' @ dx_Duration h (Round remaining (24 * hour)) @ '' remaining)'')"

definition getSystemdState :: "diag_host \<Rightarrow> string" where
  "getSystemdState h =
     (if dx_GOOS h \<noteq> ''linux'' then ''n/a''
      else let (out, err) = dx_systemctl h in
        if err \<noteq> None then (let st = TrimSpace out in if st \<noteq> [] then st else ''not installed'') else TrimSpace out)"

definition countManagedContainers :: "diag_host \<Rightarrow> int" where
  "countManagedContainers h = (case dx_managed h of Inl err \<Rightarrow> 0 | Inr cs \<Rightarrow> int (length cs))"

text \<open>The clock is read three times: \<open>clock 0\<close> for the text, the others for the verdict.\<close>

definition credential_status :: "diag_host \<Rightarrow> cred_env \<Rightarrow> (nat \<Rightarrow> int) \<Rightarrow> path \<Rightarrow> Config \<Rightarrow> (string \<times> bool) fsm" where
  "credential_status h env clock configDir cfg = do {
     expires \<leftarrow> Expiry env (cf_AuthMode cfg) (cf_AuthToken cfg) (if cf_CertDir cfg = [] then configDir else cf_CertDir cfg)
       (cf_CredentialExpiresUnix cfg);
     State_Monad.return (case expires of
       Inl err \<Rightarrow> (''unavailable'', True)
     | Inr expiresAt \<Rightarrow> (formatCredentialExpiry h (clock 0) expiresAt,
         expiresAt - clock 1 \<le> 0 \<or> (expiresAt - clock 2 \<le> RenewalWindow \<and> cf_RenewalStatus cfg = ''failed''))) }"

definition runStatus :: "diag_host \<Rightarrow> cred_env \<Rightarrow> (nat \<Rightarrow> int) \<Rightarrow> string \<Rightarrow> path option \<Rightarrow> bool \<Rightarrow> (statusInfo \<Rightarrow> go_error option)
    \<Rightarrow> (statusInfo \<times> go_error option) fsm" where
  "runStatus h env clock version cfgFile statusJSON encode = do {
     let configDir = command_dir h cfgFile;
     let info = \<lparr>st_Version = version, st_ServerID = [], st_Endpoint = [], st_ConfigDir = configDir, st_CertExpiry = [],
       st_AuthMode = [], st_RenewalStatus = [], st_RenewalError = [], st_RenewalNextRetry = [], st_SystemdState = [],
       st_ContainerCount = 0\<rparr>;
     loaded \<leftarrow> LoadConfig h configDir;
     (info, credentialUnhealthy) \<leftarrow> (case loaded of
        Inl err \<Rightarrow> State_Monad.return (info\<lparr>st_ServerID := ''(not enrolled)'', st_Endpoint := ''(not enrolled)''\<rparr>, False)
      | Inr cfg \<Rightarrow> do {
          (expiry, unhealthy) \<leftarrow> credential_status h env clock configDir cfg;
          State_Monad.return (info\<lparr>st_ServerID := cf_ServerID cfg, st_Endpoint := cf_GRPCEndpoint cfg,
            st_AuthMode := (if cf_AuthMode cfg = [] then ''mtls'' else cf_AuthMode cfg),
            st_RenewalStatus := cf_RenewalStatus cfg, st_RenewalError := cf_RenewalLastError cfg,
            st_RenewalNextRetry := (if cf_RenewalNextRetryUnix cfg > 0 then dx_RFC3339 h (cf_RenewalNextRetryUnix cfg) else []),
            st_CertExpiry := expiry\<rparr>, unhealthy) });
     let info = info\<lparr>st_SystemdState := getSystemdState h, st_ContainerCount := countManagedContainers h\<rparr>;
     State_Monad.return (info,
       case (if statusJSON then encode info else None) of
         Some err \<Rightarrow> Some err
       | None \<Rightarrow> if credentialUnhealthy then Some ''control credential requires attention'' else None) }"

subsection \<open>Reading\<close>

text \<open>An operation that changes no file, and whose answer on a healthy file system is a function of the files.\<close>

definition reading :: "'a fsm \<Rightarrow> bool" where
  "reading m \<longleftrightarrow>
     (\<forall>s. fs_disk (snd (run_state m s)) = fs_disk s \<and> fs_fail (snd (run_state m s)) = fs_fail s) \<and>
     (\<exists>f. \<forall>s. healthy s \<longrightarrow> fst (run_state m s) = f (fs_disk s))"

named_theorems reads

lemma reading_disk: "reading m \<Longrightarrow> fs_disk (snd (run_state m s)) = fs_disk s"
  by (simp add: reading_def)

lemma reading_healthy: "reading m \<Longrightarrow> healthy s \<Longrightarrow> healthy (snd (run_state m s))"
  by (simp add: reading_def healthy_def)

lemma reading_same:
  assumes "reading m" "healthy s" "healthy t" "fs_disk s = fs_disk t"
  shows "fst (run_state m s) = fst (run_state m t)"
  using assms unfolding reading_def by metis

lemma reading_return [reads]: "reading (State_Monad.return x)"
  by (auto simp: reading_def State_Monad.return_def)

lemma run_bind: "run_state (State_Monad.bind m f) s = run_state (f (fst (run_state m s))) (snd (run_state m s))"
  by (simp add: State_Monad.bind_def split: prod.split)

lemma reading_bind [reads]:
  assumes m: "reading m" and f: "\<And>x. reading (f x)"
  shows "reading (State_Monad.bind m f)"
proof -
  from f obtain g where g: "\<And>x s. healthy s \<Longrightarrow> fst (run_state (f x) s) = g x (fs_disk s)"
    unfolding reading_def by metis
  from m obtain k where k: "\<And>s. healthy s \<Longrightarrow> fst (run_state m s) = k (fs_disk s)"
    unfolding reading_def by metis
  have "fst (run_state (State_Monad.bind m f) s) = g (k (fs_disk s)) (fs_disk s)" if "healthy s" for s
    by (simp only: run_bind g [OF reading_healthy [OF m that]] k [OF that] reading_disk [OF m])
  moreover have "fs_disk (snd (run_state (State_Monad.bind m f) s)) = fs_disk s \<and>
      fs_fail (snd (run_state (State_Monad.bind m f) s)) = fs_fail s" for s
    using m f unfolding run_bind reading_def by (metis (no_types))
  ultimately show ?thesis
    unfolding reading_def by (intro conjI allI exI [where x = "\<lambda>d. g (k d) d"]) simp_all
qed

lemma reading_read_file [reads]: "reading (read_file p)"
  unfolding reading_def
  by (intro conjI allI exI [where x = "\<lambda>d. map_of d p"])
    (simp_all add: read_file_def attempt_def healthy_def run_bind)

lemma reading_regularFile [reads]: "reading (regularFile p)"
  unfolding reading_def
  by (intro conjI allI exI [where x = "\<lambda>d. map_of d p \<noteq> None"])
    (simp_all add: regularFile_def attempt_def healthy_def run_bind)

lemma reading_completeBundle [reads]: "reading (completeBundle p)"
  unfolding completeBundle_def by (auto intro!: reads)

lemma reading_readPointer [reads]: "reading (readPointer dir)"
  unfolding readPointer_def by (auto intro!: reads)

lemma reading_ActivePaths [reads]: "reading (ActivePaths dir)"
  unfolding ActivePaths_def Let_def by (intro reads; auto intro!: reads split: option.split)

lemma reading_Expiry [reads]: "reading (Expiry env mode token dir expires)"
  unfolding Expiry_def by (auto intro!: reads)

lemma reading_LoadConfig [reads]: "reading (LoadConfig h dir)"
  unfolding LoadConfig_def by (auto intro!: reads)

lemma reading_CheckConfigExists [reads]: "reading (CheckConfigExists dir)"
  unfolding CheckConfigExists_def by (auto intro!: reads)

lemma reading_CheckCredentials [reads]: "reading (CheckCredentials h env ts dir mode token expires st msg)"
  unfolding CheckCredentials_def by (auto intro!: reads)

lemma reading_check_enrolled [reads]: "reading (check_enrolled h env ts dir loaded)"
  unfolding check_enrolled_def by (cases loaded) (auto intro!: reads)

lemma reading_credential_status [reads]: "reading (credential_status h env clock dir cfg)"
  unfolding credential_status_def by (auto intro!: reads)

lemma reading_Run [reads]: "\<forall>c \<in> set cs. reading (snd c) \<Longrightarrow> reading (Run cs)"
proof (induction cs)
  case (Cons c cs)
  then show ?case by (cases c) (auto intro!: reads)
qed (auto intro!: reads)

lemma reading_checks: "\<forall>c \<in> set (checks h env ts dir loaded). reading (snd c)"
  by (simp add: checks_def reading_return reading_CheckConfigExists reading_check_enrolled)

lemma reading_runDoctor [reads]: "reading (runDoctor h env ts cfgFile json encode)"
  unfolding runDoctor_def Let_def by (intro reads reading_checks)

lemma reading_runStatus [reads]: "reading (runStatus h env clock version cfgFile json encode)"
  unfolding runStatus_def Let_def
  by (intro reads; auto intro!: reads split: sum.split)

subsection \<open>The list of checks\<close>

lemma run_return: "run_state (State_Monad.return x) s = (x, s)"
  by (simp add: State_Monad.return_def)

lemma Run_names: "map cr_Name (fst (run_state (Run cs) s)) = map fst cs"
proof (induction cs arbitrary: s)
  case (Cons c cs)
  then show ?case by (cases c) (simp add: split_beta run_bind run_return)
qed (simp add: run_return)

lemma Run_same:
  assumes "\<forall>c \<in> set cs. reading (snd c)" "healthy s"
  shows "fst (run_state (Run cs) s) = map (\<lambda>(name, fn). fst (run_state fn s)\<lparr>cr_Name := name\<rparr>) cs"
  using assms
proof (induction cs arbitrary: s)
  case (Cons c cs)
  obtain name fn where c: "c = (name, fn)" by (cases c)
  let ?s = "snd (run_state fn s)"
  from Cons.prems c have fn: "reading fn" and cs: "\<forall>c \<in> set cs. reading (snd c)" by simp_all
  have h: "healthy ?s" by (rule reading_healthy [OF fn Cons.prems(2)])
  have "fst (run_state (Run cs) ?s) = fst (run_state (Run cs) s)"
    by (rule reading_same [OF reading_Run [OF cs] h Cons.prems(2) reading_disk [OF fn]])
  with Cons.IH [OF cs Cons.prems(2)] show ?case
    by (simp add: c split_beta run_bind run_return)
qed (simp add: run_return)

lemma HasErrors_iff: "HasErrors rs \<longleftrightarrow> (\<exists>r \<in> set rs. cr_Status r = Error)"
  by (induction rs) auto

lemma HasErrors_status: "HasErrors rs \<longleftrightarrow> Error \<in> set (map cr_Status rs)"
  by (induction rs) auto

text \<open>The verdict of the credential check, on the same files and at the same moment.\<close>

lemma credential_verdict:
  "snd (fst (run_state (credential_status h env (\<lambda>_. ts) dir cfg) s)) \<longleftrightarrow>
   cr_Status (fst (run_state (check_enrolled h env ts dir (Inr cfg)) s)) = Error"
  by (simp add: credential_status_def check_enrolled_def CheckCredentials_def check_result_def split_beta run_bind run_return Let_def
      split: sum.split)

lemma runStatus_error:
  "snd (fst (run_state (runStatus h env clock version cfgFile json encode) s)) \<noteq> None \<longleftrightarrow>
   json \<and> encode (fst (fst (run_state (runStatus h env clock version cfgFile json encode) s))) \<noteq> None \<or>
   (case run_state (LoadConfig h (command_dir h cfgFile)) s of
      (Inl err, s') \<Rightarrow> False
    | (Inr cfg, s') \<Rightarrow> snd (fst (run_state (credential_status h env clock (command_dir h cfgFile) cfg) s')))"
  unfolding runStatus_def Let_def
  by (simp add: split_beta run_bind run_return split: sum.split option.split)

lemma runDoctor_results:
  assumes "healthy s"
  shows "fst (run_state (runDoctor h env ts cfgFile json encode) s) =
     (let loaded = fst (run_state (LoadConfig h (command_dir h cfgFile)) s);
          rs = map (\<lambda>(name, fn). fst (run_state fn s)\<lparr>cr_Name := name\<rparr>) (checks h env ts (command_dir h cfgFile) loaded)
      in (rs, case (if json then encode rs else None) of
           Some err \<Rightarrow> Some err
         | None \<Rightarrow> if HasErrors rs then Some ''diagnostic checks failed'' else None))"
proof -
  let ?dir = "command_dir h cfgFile"
  let ?loaded = "fst (run_state (LoadConfig h ?dir) s)" and ?s = "snd (run_state (LoadConfig h ?dir) s)"
  let ?cs = "checks h env ts ?dir ?loaded"
  have h: "healthy ?s" by (rule reading_healthy [OF reading_LoadConfig assms])
  have "fst (run_state (Run ?cs) ?s) = fst (run_state (Run ?cs) s)"
    by (rule reading_same [OF reading_Run [OF reading_checks] h assms reading_disk [OF reading_LoadConfig]])
  with Run_same [OF reading_checks assms] show ?thesis
    unfolding runDoctor_def Let_def
    by (simp add: split_beta run_bind run_return)
qed

subsection \<open>What the diagnosis shows\<close>

text \<open>
  C39. \<^verbatim>\<open>status\<close> and \<^verbatim>\<open>doctor\<close> judge the control credential alike.  On the same files, at the
  same moment and on a healthy file system, \<^verbatim>\<open>status\<close> fails exactly when its JSON output was asked for
  and cannot be written, or the configuration loads and the \<open>control_credentials\<close> check of \<^verbatim>\<open>doctor\<close> is an
  error; \<^verbatim>\<open>doctor\<close> fails exactly when its JSON output cannot be written or one of its nine checks is an
  error.  So a failure of \<^verbatim>\<open>status\<close> that is not one of writing is a failure of \<^verbatim>\<open>doctor\<close> too.  Neither command
  changes a file.
\<close>

theorem doctor_status_agree:
  assumes "healthy s" "healthy t" "fs_disk t = fs_disk s"
  shows "let (results, doctor_err) = fst (run_state (runDoctor h env ts cfgFile doctorJSON encode) s);
             (info, status_err) = fst (run_state (runStatus h env (\<lambda>_. ts) version cfgFile statusJSON encode') t)
         in map cr_Name results = [''docker'', ''docker_socket'', ''docker_group'', ''disk_space'', ''config'',
               ''control_credentials'', ''grpc'', ''systemd'', ''tailscale''] \<and>
            (doctor_err \<noteq> None \<longleftrightarrow> doctorJSON \<and> encode results \<noteq> None \<or> Error \<in> set (map cr_Status results)) \<and>
            (status_err \<noteq> None \<longleftrightarrow> statusJSON \<and> encode' info \<noteq> None \<or>
               \<not> isl (fst (run_state (LoadConfig h (command_dir h cfgFile)) s)) \<and> cr_Status (results ! 5) = Error) \<and>
            (status_err \<noteq> None \<and> \<not> (statusJSON \<and> encode' info \<noteq> None) \<longrightarrow> doctor_err \<noteq> None) \<and>
            fs_disk (snd (run_state (runDoctor h env ts cfgFile doctorJSON encode) s)) = fs_disk s \<and>
            fs_disk (snd (run_state (runStatus h env (\<lambda>_. ts) version cfgFile statusJSON encode') t)) = fs_disk s"
proof -
  let ?dir = "command_dir h cfgFile"
  let ?L = "run_state (LoadConfig h ?dir)" and ?check = "\<lambda>l. check_enrolled h env ts ?dir l"
  let ?loaded = "fst (?L s)"
  let ?rs = "map (\<lambda>c. fst (run_state (snd c) s)\<lparr>cr_Name := fst c\<rparr>) (checks h env ts ?dir ?loaded)"
  have load: "fst (?L t) = ?loaded" by (rule reading_same [OF reading_LoadConfig assms(2, 1, 3)])
  have h: "healthy (snd (?L t))" by (rule reading_healthy [OF reading_LoadConfig assms(2)])
  have d: "fs_disk (snd (?L t)) = fs_disk s" by (simp add: reading_disk [OF reading_LoadConfig] assms(3))
  have verdict: "cr_Status (?rs ! 5) = cr_Status (fst (run_state (?check ?loaded) s))" by (simp add: checks_def)
  have same: "fst (run_state (?check l) (snd (?L t))) = fst (run_state (?check l) s)" for l
    by (rule reading_same [OF reading_check_enrolled h assms(1) d])
  have status: "snd (fst (run_state (runStatus h env (\<lambda>_. ts) version cfgFile statusJSON encode') t)) \<noteq> None \<longleftrightarrow>
      statusJSON \<and> encode' (fst (fst (run_state (runStatus h env (\<lambda>_. ts) version cfgFile statusJSON encode') t))) \<noteq> None \<or>
      \<not> isl ?loaded \<and> cr_Status (?rs ! 5) = Error"
    unfolding runStatus_error [where encode = encode'] verdict
    by (cases ?loaded) (simp_all add: load same split_beta credential_verdict)
  have errors: "HasErrors ?rs \<longleftrightarrow> Error \<in> set (map cr_Status ?rs)"
    by (rule HasErrors_status)
  have "?rs ! 5 \<in> set ?rs" by (rule nth_mem) (simp add: checks_def)
  then have sixth: "cr_Status (?rs ! 5) = Error \<Longrightarrow> Error \<in> set (map cr_Status ?rs)"
    unfolding errors [symmetric] HasErrors_iff by blast
  have names: "map cr_Name ?rs = [''docker'', ''docker_socket'', ''docker_group'', ''disk_space'', ''config'',
      ''control_credentials'', ''grpc'', ''systemd'', ''tailscale'']" by (simp add: checks_def)
  let ?D = "fst (run_state (runDoctor h env ts cfgFile doctorJSON encode) s)"
  have results: "fst ?D = ?rs" by (simp only: runDoctor_results [OF assms(1)] Let_def case_prod_unfold fst_conv)
  have doctor: "snd ?D \<noteq> None \<longleftrightarrow> doctorJSON \<and> encode ?rs \<noteq> None \<or> Error \<in> set (map cr_Status ?rs)"
    unfolding runDoctor_results [OF assms(1)] Let_def case_prod_unfold snd_conv errors [symmetric] by (simp split: option.split)
  show ?thesis
    unfolding Let_def split_beta results reading_disk [OF reading_runDoctor] reading_disk [OF reading_runStatus] assms(3)
  proof (intro conjI)
    show "snd (fst (run_state (runStatus h env (\<lambda>_. ts) version cfgFile statusJSON encode') t)) \<noteq> None \<and>
        \<not> (statusJSON \<and> encode' (fst (fst (run_state (runStatus h env (\<lambda>_. ts) version cfgFile statusJSON encode') t))) \<noteq> None) \<longrightarrow>
        snd ?D \<noteq> None"
      unfolding status doctor using sixth by blast
  qed (rule names doctor status refl)+
qed

definition sample_diag :: diag_host where
  "sample_diag = \<lparr>dx_GOOS = ''linux'', dx_Stat = \<lambda>p. False,
     dx_Exists = \<lambda>p. p = [''root'', ''.clank-agent'', ''config.yaml''], dx_IsDir = \<lambda>p. True,
     dx_HomeDir = Inr [''root''], dx_TempDir = [''tmp''], dx_Uid = 0, dx_DOCKER_HOST = ''tcp://127.0.0.1:2375'',
     dx_docker_version = Inr ''27.1.1'', dx_DialTimeout = \<lambda>a. None, dx_disk_Free = \<lambda>p. Inl ''no answer'',
     dx_systemctl = (''active'', None), dx_CurrentUser = Inr ''root'', dx_GroupIds = Inr [''0'', ''999''],
     dx_LookupGroup = \<lambda>g. Inr ''999'', dx_tailscale_path = Inl ''not found'', dx_tailscale_status = Inl ''not found'',
     dx_json_dns_name = \<lambda>j. Inl ''no JSON'', dx_tailscale_serve = Inl ''not found'', dx_Duration = \<lambda>d. ''0s'',
     dx_Date = \<lambda>t. ''1970-01-01'', dx_RFC3339 = \<lambda>t. ''1970-01-01T00:00:00Z'', dx_yaml_Unmarshal = \<lambda>y. Inr sample_config,
     dx_managed = Inr []\<rparr>"

abbreviation sample_fs :: fs where "sample_fs \<equiv> fs_with (\<lambda>x. False) sample_disk"

text \<open>An enrolled agent whose certificate is gone: both commands fail.\<close>

lemma doctor_status_agree_witness:
  "snd (fst (run_state (runStatus sample_diag sample_cred_env (\<lambda>_. 0) ''1.0'' (Some [''etc'']) True (\<lambda>_. None)) sample_fs)) \<noteq> None \<and>
   snd (fst (run_state (runDoctor sample_diag sample_cred_env 0 (Some [''etc'']) False (\<lambda>_. None)) sample_fs)) \<noteq> None"
proof
  have h: "healthy sample_fs" by (simp add: healthy_def fs_with_def)
  show *: "snd (fst (run_state (runStatus sample_diag sample_cred_env (\<lambda>_. 0) ''1.0'' (Some [''etc'']) True (\<lambda>_. None)) sample_fs)) \<noteq> None"
    by code_simp
  with doctor_status_agree [OF h h refl, where h = sample_diag and env = sample_cred_env and ts = 0 and cfgFile = "Some [''etc'']"
      and doctorJSON = False and version = "''1.0''" and statusJSON = True and encode = "\<lambda>_. None" and encode' = "\<lambda>_. None"]
  show "snd (fst (run_state (runDoctor sample_diag sample_cred_env 0 (Some [''etc'']) False (\<lambda>_. None)) sample_fs)) \<noteq> None"
    unfolding Let_def split_beta by blast
qed

text \<open>
  A saved configuration is loaded again: on a healthy file system, when what the YAML library
  writes for a configuration it also reads back, \<^verbatim>\<open>LoadConfig\<close> after \<^verbatim>\<open>SaveConfig\<close> returns the
  configuration that was saved, and no other file has changed.
\<close>

theorem config_saved_then_loaded:
  assumes "ce_yaml_Marshal env cfg = Inr y" "dx_yaml_Unmarshal h y = Inr cfg"
    and "cf_ServerID cfg \<noteq> []" "cf_GRPCEndpoint cfg \<noteq> []"
  shows "delivers v (State_Monad.bind (SaveConfig env dir cfg) (\<lambda>err. State_Monad.bind (LoadConfig h dir)
      (\<lambda>loaded. State_Monad.return (err, loaded)))) (None, Inr cfg) (v(config_path dir \<mapsto> y))"
proof (rule delivers_bind)
  have cp: "\<not> is_temp (config_path dir)" by (simp add: config_path_def is_temp_def)
  show "delivers v (SaveConfig env dir cfg) None (v(config_path dir \<mapsto> y))"
    unfolding SaveConfig_def by (rule delivers_bind [OF delivers_mkdir]) (simp add: assms(1) delivers_write cp)
  have "delivers (v(config_path dir \<mapsto> y)) (LoadConfig h dir) (Inr cfg) (v(config_path dir \<mapsto> y))"
    unfolding LoadConfig_def
    by (rule delivers_bind [OF delivers_read [OF cp]]) (simp only: fun_upd_same option.case assms sum.case simp_thms if_False delivers_return)
  then show "delivers (v(config_path dir \<mapsto> y)) (State_Monad.bind (LoadConfig h dir) (\<lambda>loaded. State_Monad.return (None, loaded)))
      (None, Inr cfg) (v(config_path dir \<mapsto> y))"
    by (rule delivers_bind) (rule delivers_return)
qed

lemma config_saved_then_loaded_witness:
  "delivers (view sample_disk) (State_Monad.bind (SaveConfig sample_cred_env [''etc''] sample_config) (\<lambda>err.
      State_Monad.bind (LoadConfig sample_diag [''etc'']) (\<lambda>loaded. State_Monad.return (err, loaded))))
    (None, Inr sample_config) ((view sample_disk)(config_path [''etc''] \<mapsto> ''old/''))"
  by (rule config_saved_then_loaded)
    (simp_all add: sample_cred_env_def sample_diag_def sample_config_def)

text \<open>
  The default directory is one that holds a configuration, on Linux, when either of the two
  candidates holds one; without any, it is the system directory for the superuser.
\<close>

theorem default_config_dir_found:
  assumes "dx_GOOS h = ''linux''"
  shows "(if dx_Exists h (config_path sysDir) \<or> (\<exists>home. dx_HomeDir h = Inr home \<and> dx_Exists h (config_path (home @ [''.clank-agent''])))
      then dx_Exists h (config_path (DefaultConfigDir h))
      else (if dx_Uid h = 0 then DefaultConfigDir h = sysDir else True))"
  using assms by (cases "dx_HomeDir h") (simp_all add: DefaultConfigDir_def Let_def)

lemma default_config_dir_found_witness:
  "dx_Exists sample_diag (config_path (DefaultConfigDir sample_diag))"
  using default_config_dir_found [of sample_diag] by (simp add: sample_diag_def config_path_def sysDir_def)

text \<open>
  With \<^verbatim>\<open>DOCKER_HOST\<close> naming a TCP address, the socket check looks for a file of that name:
  Docker answers, and the diagnosis fails all the same.
\<close>

theorem tcp_docker_host_fails_doctor:
  "cr_Status (CheckDocker sample_diag) = OK \<and>
   CheckDockerSocket sample_diag = check_result Error ''Docker socket not found: tcp://127.0.0.1:2375''
     ''Ensure Docker is running: sudo systemctl start docker''"
  by code_simp

end
