(* ===== verification/Command_Line.thy ===== *)
theory Command_Line
  imports Doctor
begin

text \<open>
  The commands that start and remove the agent: \<^verbatim>\<open>cmd/run.go\<close> with \<^verbatim>\<open>New\<close> of
  \<^verbatim>\<open>internal/agent/agent.go\<close>, \<^verbatim>\<open>cmd/uninstall.go\<close> and \<^verbatim>\<open>cmd/service.go\<close>.  A command acts on the
  files and calls programs and Docker; the calls are recorded in order, what is printed is left out.
  A symbolic link counts as a file.
\<close>

subsection \<open>Starting\<close>

text \<open>\<open>dockerErr\<close> is the error of \<^verbatim>\<open>docker.NewManager\<close>; the rest of \<^verbatim>\<open>New\<close> wires the parts together.\<close>

definition New :: "go_error option \<Rightarrow> Config \<Rightarrow> go_error option fsm" where
  "New dockerErr cfg = do {
     ok \<leftarrow> (if cf_AuthMode cfg \<noteq> ''token'' then Exists (cf_CertDir cfg) else State_Monad.return True);
     State_Monad.return (if \<not> ok
       then Some (''certificates not found in '' @ path_text (cf_CertDir cfg) @ '' '' @ em_dash @ '' run '' @ [CHR 0x27] @
         ''clank-agent enroll'' @ [CHR 0x27] @ '' first'')
       else case dockerErr of Some err \<Rightarrow> Some (''initializing docker: '' @ err) | None \<Rightarrow> None) }"

text \<open>The answer is the configuration that the agent is made with; its \<^verbatim>\<open>Run\<close> is modelled in \<open>Agent_Start\<close> and \<open>Agent_Loop\<close>.\<close>

definition runAgent :: "diag_host \<Rightarrow> go_error option \<Rightarrow> path option \<Rightarrow> Config result fsm" where
  "runAgent h dockerErr cfgFile = do {
     let configDir = command_dir h cfgFile;
     loaded \<leftarrow> LoadConfig h configDir;
     (case loaded of
        Inl err \<Rightarrow> State_Monad.return (Inl (''loading config: '' @ err @ [CHR 0x0A] @ ''Run '' @ [CHR 0x27] @
          ''clank-agent enroll'' @ [CHR 0x27] @ '' first''))
      | Inr cfg \<Rightarrow> do {
          err \<leftarrow> New dockerErr cfg;
          State_Monad.return (case err of
            Some e \<Rightarrow> Inl (''initializing agent: '' @ e)
          | None \<Rightarrow> Inr cfg) }) }"

subsection \<open>Removing\<close>

datatype host_call =
    Systemctl "string list"
  | Launchctl "string list"
  | StopAndRemoveContainer string

type_synonym 'a cli = "(fs \<times> host_call list, 'a) state"

definition on_files :: "'a fsm \<Rightarrow> 'a cli" where
  "on_files m = State (\<lambda>(s, calls). case run_state m s of (a, s') \<Rightarrow> (a, (s', calls)))"

definition host_call :: "host_call \<Rightarrow> unit cli" where
  "host_call c = State (\<lambda>(s, calls). ((), (s, calls @ [c])))"

definition serviceName :: string where "serviceName = ''clank-agent''"
definition serviceFile :: path where "serviceFile = [''etc'', ''systemd'', ''system'', ''clank-agent.service'']"
definition installDir :: path where "installDir = [''opt'', ''clank'']"
definition symlinkPath :: path where "symlinkPath = [''usr'', ''local'', ''bin'', ''clank-agent'']"

record uninstall_flags =
  uf_force :: bool
  uf_keepContainers :: bool
  uf_answer :: string      \<comment> \<open>the line that is read, when one is\<close>
  uf_cfgFile :: "path option"

fun remove_managed :: "ContainerInfo list \<Rightarrow> unit cli" where
  "remove_managed [] = State_Monad.return ()"
| "remove_managed (c # cs) = do {
     _ \<leftarrow> host_call (StopAndRemoveContainer (cn_ContainerID c));
     remove_managed cs }"

definition removeAllManagedContainers :: "diag_host \<Rightarrow> unit cli" where
  "removeAllManagedContainers h = (case dx_managed h of
     Inl err \<Rightarrow> State_Monad.return ()
   | Inr containers \<Rightarrow> remove_managed containers)"

definition removeSystemdService :: "unit cli" where
  "removeSystemdService = do {
     _ \<leftarrow> host_call (Systemctl [''stop'', serviceName]);
     _ \<leftarrow> host_call (Systemctl [''disable'', serviceName]);
     _ \<leftarrow> on_files (remove_file serviceFile);
     host_call (Systemctl [''daemon-reload'']) }"

definition confirmed :: "uninstall_flags \<Rightarrow> bool" where
  "confirmed fl \<longleftrightarrow> uf_force fl \<or>
     (let answer = TrimSpace (ToLower (uf_answer fl)) in answer = ''y'' \<or> answer = ''yes'')"

definition runUninstall :: "diag_host \<Rightarrow> uninstall_flags \<Rightarrow> go_error option cli" where
  "runUninstall h fl =
     (if dx_GOOS h = ''linux'' \<and> dx_Uid h \<noteq> 0
      then State_Monad.return (Some ''uninstall must be run as root (use sudo)'')
      else
        let configDir = command_dir h (uf_cfgFile fl) in
        if \<not> confirmed fl then State_Monad.return None
        else do {
          _ \<leftarrow> (if \<not> uf_keepContainers fl then removeAllManagedContainers h else State_Monad.return ());
          _ \<leftarrow> (if dx_GOOS h = ''linux'' then removeSystemdService else State_Monad.return ());
          _ \<leftarrow> on_files (remove_all installDir);
          _ \<leftarrow> on_files (remove_file symlinkPath);
          _ \<leftarrow> on_files (remove_all configDir);
          State_Monad.return None })"

subsection \<open>The service of macOS\<close>

definition launchdLabel :: string where "launchdLabel = ''com.clank.agent''"

definition plistPath :: path where
  "plistPath = [''Library'', ''LaunchDaemons'', launchdLabel @ ''.plist'']"

definition logPath :: string where "logPath = ''/var/log/clank-agent.log''"

text \<open>The lines of the property list.\<close>

definition dquote :: string where "dquote = [CHR 0x22]"

definition plist_lines :: "string \<Rightarrow> string \<Rightarrow> string list" where
  "plist_lines binPath configDir =
    [''<?xml version='' @ dquote @ ''1.0'' @ dquote @ '' encoding='' @ dquote @ ''UTF-8'' @ dquote @ ''?>'',
     ''<!DOCTYPE plist PUBLIC '' @ dquote @ ''-//Apple//DTD PLIST 1.0//EN'' @ dquote @ '' '' @ dquote @
       ''http://www.apple.com/DTDs/PropertyList-1.0.dtd'' @ dquote @ ''>'',
     ''<plist version='' @ dquote @ ''1.0'' @ dquote @ ''>'',
     ''<dict>'',
     ''    <key>Label</key>'',
     ''    <string>'' @ launchdLabel @ ''</string>'',
     ''    <key>ProgramArguments</key>'',
     ''    <array>'',
     ''        <string>'' @ binPath @ ''</string>'',
     ''        <string>run</string>'',
     ''        <string>--config='' @ configDir @ ''</string>'',
     ''    </array>'',
     ''    <key>RunAtLoad</key>'',
     ''    <true/>'',
     ''    <key>KeepAlive</key>'',
     ''    <true/>'',
     ''    <key>StandardOutPath</key>'',
     ''    <string>'' @ logPath @ ''</string>'',
     ''    <key>StandardErrorPath</key>'',
     ''    <string>'' @ logPath @ ''</string>'',
     ''</dict>'',
     ''</plist>'']"

fun join_lines :: "string list \<Rightarrow> string" where
  "join_lines [] = []"
| "join_lines [l] = l"
| "join_lines (l # ls) = l @ [CHR 0x0A] @ join_lines ls"

text \<open>\<^verbatim>\<open>filepath.Abs\<close> of the first argument, which may be a bare name; \<open>cwd\<close> is the working directory.\<close>

definition Abs :: "string result \<Rightarrow> string \<Rightarrow> string result" where
  "Abs cwd p = (if HasPrefix p ''/'' then Inr p else case cwd of
     Inl err \<Rightarrow> Inl err
   | Inr d \<Rightarrow> Inr (d @ ''/'' @ p))"

definition service_config :: "path option \<Rightarrow> path" where
  "service_config cfgFile = (case cfgFile of None \<Rightarrow> sysDir | Some d \<Rightarrow> d)"

text \<open>\<open>bootstrap\<close> and \<open>load\<close> are the outputs and errors of the two ways to load the service.\<close>

definition installLaunchd :: "string result \<Rightarrow> string \<Rightarrow> path option \<Rightarrow> go_error option \<Rightarrow> string \<times> go_error option
    \<Rightarrow> go_error option cli" where
  "installLaunchd cwd arg0 cfgFile bootstrap load = do {
     let binPath = (case Abs cwd arg0 of Inl err \<Rightarrow> ''/opt/clank/bin/clank-agent'' | Inr p \<Rightarrow> p);
     let plist = join_lines (plist_lines binPath (path_text (service_config cfgFile)));
     ok \<leftarrow> on_files (write_file plistPath plist);
     if \<not> ok then State_Monad.return (Some (''writing plist: '' @ os_error @ '' (try running with sudo)''))
     else do {
       _ \<leftarrow> host_call (Launchctl [''bootout'', ''system/'' @ launchdLabel]);
       _ \<leftarrow> host_call (Launchctl [''bootstrap'', ''system'', path_text plistPath]);
       if bootstrap = None then State_Monad.return None
       else do {
         _ \<leftarrow> host_call (Launchctl [''load'', ''-w'', path_text plistPath]);
         State_Monad.return (if snd load \<noteq> None then Some (''loading service: '' @ TrimSpace (fst load)) else None) } } }"

definition uninstallLaunchd :: "go_error option cli" where
  "uninstallLaunchd = do {
     _ \<leftarrow> host_call (Launchctl [''bootout'', ''system/'' @ launchdLabel]);
     r \<leftarrow> on_files (remove_file plistPath);
     State_Monad.return (if r = RemoveFailed then Some (''removing plist: '' @ os_error) else None) }"

definition statusLaunchd :: "go_error option cli" where
  "statusLaunchd = do {
     _ \<leftarrow> host_call (Launchctl [''print'', ''system/'' @ launchdLabel]);
     State_Monad.return None }"

definition serviceInstallCmd :: "diag_host \<Rightarrow> string result \<Rightarrow> string \<Rightarrow> path option \<Rightarrow> go_error option \<Rightarrow> string \<times> go_error option
    \<Rightarrow> go_error option cli" where
  "serviceInstallCmd h cwd arg0 cfgFile bootstrap load =
     (if dx_GOOS h = ''darwin'' then installLaunchd cwd arg0 cfgFile bootstrap load
      else if dx_GOOS h = ''linux'' then State_Monad.return None
      else State_Monad.return (Some (''service install is not supported on '' @ dx_GOOS h)))"

definition serviceUninstallCmd :: "diag_host \<Rightarrow> go_error option cli" where
  "serviceUninstallCmd h =
     (if dx_GOOS h = ''darwin'' then uninstallLaunchd
      else State_Monad.return (Some (''service uninstall is not supported on '' @ dx_GOOS h)))"

definition serviceStatusCmd :: "diag_host \<Rightarrow> go_error option cli" where
  "serviceStatusCmd h =
     (if dx_GOOS h = ''darwin'' then statusLaunchd
      else State_Monad.return (Some (''service status is not supported on '' @ dx_GOOS h)))"

subsection \<open>An enrolled agent starts\<close>

text \<open>The directory and the file that exist once a configuration was saved.\<close>

definition with_config :: "path \<Rightarrow> diag_host \<Rightarrow> diag_host" where
  "with_config dir h = h\<lparr>dx_Exists := (\<lambda>p. p = dir \<or> p = config_path dir \<or> dx_Exists h p)\<rparr>"

lemma config_path_inj: "config_path d = config_path e \<longleftrightarrow> d = e"
  by (simp add: config_path_def)

text \<open>The default directory a command chose before it saved a configuration there is chosen again.\<close>

lemma command_dir_stable: "command_dir (with_config (command_dir h cfgFile) h) cfgFile = command_dir h cfgFile"
  by (cases cfgFile; cases "dx_HomeDir h")
    (auto simp: command_dir_def DefaultConfigDir_def with_config_def config_path_inj config_path_def sysDir_def Let_def)

lemma Unmarshal_with_config: "dx_yaml_Unmarshal (with_config dir h) = dx_yaml_Unmarshal h"
  by (simp add: with_config_def)

lemma LoadConfig_with_config: "LoadConfig (with_config dir h) dir' = LoadConfig h dir'"
  by (simp only: LoadConfig_def Unmarshal_with_config)

lemma delivers_Exists:
  assumes "bundleIDPattern bundle" "pointer_of dir v = Some bundle" "complete (bundlePath dir bundle) v"
  shows "delivers v (Exists dir) True v"
proof -
  let ?p = "bundlePath dir bundle"
  have paths: "delivers v (ActivePaths dir) (?p @ [clientCertFile], ?p @ [clientKeyFile], ?p @ [caCertFile]) v"
    unfolding ActivePaths_def Let_def
    by (rule delivers_bind [OF delivers_readPointer], simp only: assms(2) option.case,
        rule delivers_bind [OF delivers_completeBundle [OF assms(3)]], simp only: if_True, rule delivers_return)
  have files: "v (?p @ [clientCertFile]) \<noteq> None" "v (?p @ [clientKeyFile]) \<noteq> None" "v (?p @ [caCertFile]) \<noteq> None"
    using assms(3) by (simp_all add: complete_def)
  have temps: "\<not> is_temp (?p @ [clientCertFile])" "\<not> is_temp (?p @ [clientKeyFile])" "\<not> is_temp (?p @ [caCertFile])"
    by (simp_all add: is_temp_def file_names)
  from files temps have "delivers v (case (?p @ [clientCertFile], ?p @ [clientKeyFile], ?p @ [caCertFile]) of (cert, key, ca) \<Rightarrow> do {
        a \<leftarrow> regularFile cert;
        if \<not> a then State_Monad.return False else do {
        b \<leftarrow> regularFile key;
        if \<not> b then State_Monad.return False else regularFile ca } }) True v"
    using delivers_regular [OF temps(3), of v]
    by (auto intro!: delivers_regular_then)
  then show ?thesis unfolding Exists_def by (rule delivers_bind [OF paths])
qed

lemma delivers_LoadConfig:
  assumes "v (config_path dir) = Some yaml" "dx_yaml_Unmarshal h yaml = Inr cfg"
  shows "delivers v (LoadConfig h dir)
    (if cf_ServerID cfg = [] \<or> cf_GRPCEndpoint cfg = [] then Inl ''config missing server_id or grpc_endpoint'' else Inr cfg) v"
proof -
  have cp: "\<not> is_temp (config_path dir)" by (simp add: config_path_def is_temp_def)
  show ?thesis unfolding LoadConfig_def
    by (rule delivers_bind [OF delivers_read [OF cp]]) (simp only: assms option.case sum.case delivers_return)
qed

lemma delivers_New:
  assumes "cf_AuthMode cfg = ''token'' \<or> delivers v (Exists (cf_CertDir cfg)) True v"
  shows "delivers v (New dockerErr cfg) (map_option (\<lambda>err. ''initializing docker: '' @ err) dockerErr) v"
proof (cases "cf_AuthMode cfg = ''token''")
  case True
  show ?thesis unfolding New_def
    by (rule delivers_bind [where r = True and u = v]) (simp_all add: True delivers_return split: option.split)
next
  case False
  with assms have e: "delivers v (Exists (cf_CertDir cfg)) True v" by simp
  show ?thesis unfolding New_def if_P [OF False]
    by (rule delivers_bind [OF e]) (simp add: delivers_return split: option.split)
qed

definition missing_config :: string where
  "missing_config = ''loading config: '' @ ''config missing server_id or grpc_endpoint'' @ [CHR 0x0A] @ ''Run '' @ [CHR 0x27] @
     ''clank-agent enroll'' @ [CHR 0x27] @ '' first''"

text \<open>
  What \<^verbatim>\<open>run\<close> answers on a working file system when it is started on the files \<open>w\<close> that an enrollment
  left: the configuration of the enrollment, unless that lacks an entry or the Docker client cannot be made.
\<close>

definition start_answer :: "go_error option \<Rightarrow> Config \<Rightarrow> Config result" where
  "start_answer dockerErr cfg =
     (if cf_ServerID cfg = [] \<or> cf_GRPCEndpoint cfg = [] then Inl missing_config
      else case dockerErr of
          Some err \<Rightarrow> Inl (''initializing agent: '' @ ''initializing docker: '' @ err)
        | None \<Rightarrow> Inr cfg)"

definition starts_enrolled :: "diag_host \<Rightarrow> go_error option \<Rightarrow> path option \<Rightarrow> Config \<Rightarrow> named \<Rightarrow> bool" where
  "starts_enrolled h dockerErr cfgFile cfg w \<longleftrightarrow>
     delivers w (runAgent (with_config (command_dir h cfgFile) h) dockerErr cfgFile) (start_answer dockerErr cfg) w"

lemma enrolled_starts:
  assumes "enroll_stage cenv (command_dir h cfgFile) bundle resp tunnel v Enrolled w" "bundleIDPattern bundle"
    and cfg: "cfg = enroll_config tunnel (command_dir h cfgFile) resp"
    and yaml: "\<And>yml. ce_yaml_Marshal cenv cfg = Inr yml \<Longrightarrow> dx_yaml_Unmarshal h yml = Inr cfg"
  shows "starts_enrolled h dockerErr cfgFile cfg w"
proof -
  let ?dir = "command_dir h cfgFile"
  let ?b = "bundlePath ?dir bundle"
  from assms(1) obtain u yml where files: "u (?b @ [clientCertFile]) = Some (en_ClientCert resp)"
      "u (?b @ [clientKeyFile]) = Some (en_ClientKey resp)" "u (?b @ [caCertFile]) = Some (en_CaCert resp)"
    and yml: "ce_yaml_Marshal cenv cfg = Inr yml"
    and w: "w = u(?dir @ [currentFile] \<mapsto> bundle @ [CHR 0x0A], config_path ?dir \<mapsto> yml)"
    unfolding cfg by auto
  have other: "config_path ?dir \<noteq> ?dir @ [currentFile]" by (simp add: config_path_def currentFile_def)
  have ptr: "pointer_of ?dir w = Some bundle"
    unfolding w by (simp only: pointer_of_other [OF other] pointer_of_update [OF assms(2)])
  have complete: "complete ?b w"
    using files by (simp add: complete_def w bundlePath_def config_path_def)
  have dir: "cf_CertDir cfg = ?dir" by (simp add: cfg enroll_config_def Let_def)
  have exists: "delivers w (Exists (cf_CertDir cfg)) True w"
    unfolding dir by (rule delivers_Exists [OF assms(2) ptr complete])
  have load: "delivers w (LoadConfig h ?dir)
      (if cf_ServerID cfg = [] \<or> cf_GRPCEndpoint cfg = [] then Inl ''config missing server_id or grpc_endpoint'' else Inr cfg) w"
    by (rule delivers_LoadConfig [OF _ yaml [OF yml]]) (simp add: w)
  show ?thesis
    unfolding starts_enrolled_def runAgent_def Let_def command_dir_stable LoadConfig_with_config
  proof (rule delivers_bind [OF load], cases "cf_ServerID cfg = [] \<or> cf_GRPCEndpoint cfg = []")
    case True
    show "delivers w (case if cf_ServerID cfg = [] \<or> cf_GRPCEndpoint cfg = [] then Inl ''config missing server_id or grpc_endpoint''
          else Inr cfg of
        Inl err \<Rightarrow> State_Monad.return (Inl (''loading config: '' @ err @ [CHR 0x0A] @ ''Run '' @ [CHR 0x27] @
          ''clank-agent enroll'' @ [CHR 0x27] @ '' first''))
      | Inr cfg \<Rightarrow> do { err \<leftarrow> New dockerErr cfg; State_Monad.return (case err of Some e \<Rightarrow> Inl (''initializing agent: '' @ e) | None \<Rightarrow> Inr cfg) })
      (start_answer dockerErr cfg) w"
      unfolding start_answer_def if_P [OF True] sum.case missing_config_def by (rule delivers_return)
  next
    case False
    have "delivers w (New dockerErr cfg) (map_option (\<lambda>err. ''initializing docker: '' @ err) dockerErr) w"
      by (rule delivers_New) (simp add: exists)
    then show "delivers w (case if cf_ServerID cfg = [] \<or> cf_GRPCEndpoint cfg = [] then Inl ''config missing server_id or grpc_endpoint''
          else Inr cfg of
        Inl err \<Rightarrow> State_Monad.return (Inl (''loading config: '' @ err @ [CHR 0x0A] @ ''Run '' @ [CHR 0x27] @
          ''clank-agent enroll'' @ [CHR 0x27] @ '' first''))
      | Inr cfg \<Rightarrow> do { err \<leftarrow> New dockerErr cfg; State_Monad.return (case err of Some e \<Rightarrow> Inl (''initializing agent: '' @ e) | None \<Rightarrow> Inr cfg) })
      (start_answer dockerErr cfg) w"
      unfolding start_answer_def if_not_P [OF False] sum.case
      by (rule delivers_bind, cases dockerErr) (simp_all only: option.map option.case delivers_return)
  qed
qed

text \<open>
  C17. An enrollment that reports success leaves an agent that can be started.  Renames, reads and
  stats worked during \<^verbatim>\<open>enroll\<close> (\<open>runs_reliably\<close>), any other operation may have failed; the YAML
  library reads back what it wrote; and the file system works when \<^verbatim>\<open>run\<close> is started.  Then, once \<^verbatim>\<open>enroll\<close> has reported success, \<^verbatim>\<open>run\<close> with the
  same flags finds that directory again, loads the configuration of the answer and finds its
  certificates, and the agent is made with it, with two exceptions: an answer without a server identifier or
  an endpoint, which \<^verbatim>\<open>enroll\<close> accepts and \<^verbatim>\<open>run\<close> refuses, and a Docker client that cannot be made, whose
  error \<^verbatim>\<open>run\<close> returns.
\<close>

theorem enrolled_agent_starts:
  assumes "\<And>fs. mset (order fs) = mset fs" "bundleIDPattern bundle"
    and "enroll_answer env fl ((Collect_info host)\<lparr>in_AgentVersion := version\<rparr>) = Inr resp"
    and "cfg = enroll_config (ef_mode fl = ''tunnel'') (command_dir h (ef_cfgFile fl)) resp"
    and "\<And>yml. ce_yaml_Marshal cenv cfg = Inr yml \<Longrightarrow> dx_yaml_Unmarshal h yml = Inr cfg"
  shows "runs_reliably (\<lambda>_. True) v (runEnroll env cenv ts (Inr bundle) order (DefaultConfigDir h) version host fl)
    (\<lambda>err w. err = None \<longrightarrow> starts_enrolled h dockerErr (ef_cfgFile fl) cfg w)"
proof (rule runs_mono [OF runs_strengthen [OF runEnroll_stages [OF assms(1)]]])
  have dir: "enroll_dir (DefaultConfigDir h) fl = command_dir h (ef_cfgFile fl)"
    by (simp add: enroll_dir_def command_dir_def split: option.split)
  fix err w
  assume "enroll_outcome cenv (enroll_dir (DefaultConfigDir h) fl) bundle
      (enroll_answer env fl ((Collect_info host)\<lparr>in_AgentVersion := version\<rparr>)) (ef_mode fl = ''tunnel'') v err w"
  then show "err = None \<longrightarrow> starts_enrolled h dockerErr (ef_cfgFile fl) cfg w"
    unfolding enroll_outcome_def dir assms(3)
    using enrolled_starts [OF _ assms(2, 4, 5)] by (auto simp del: enroll_stage.simps)
qed simp

lemma sample_answered:
  "enroll_answer sample_enroll_env sample_flags info = Inr sample_answer"
proof -
  have "enroll_answer sample_enroll_env sample_flags info =
      snd (Enroll sample_enroll_env ''grpc.example.org:443'' ''t1'' ''SHA256:6C656166'' info)"
    by (simp add: enroll_answer_def sample_flags_def)
  then show ?thesis by (simp only: sample_enrolled snd_conv)
qed

lemma enrolled_agent_starts_witness:
  "\<exists>h cfg. cf_ServerID cfg = ''s1'' \<and> cf_GRPCEndpoint cfg = ''grpc.example.org:443'' \<and>
     runs_reliably (\<lambda>_. True) Map.empty (runEnroll sample_enroll_env sample_cred_env 0 (Inr ''b1'') (\<lambda>fs. fs) (DefaultConfigDir h) ''1.0''
       sample_host sample_flags) (\<lambda>err w. err = None \<longrightarrow> starts_enrolled h None None cfg w)"
proof -
  define cfg where "cfg = enroll_config False [''root'', ''.clank-agent''] sample_answer"
  define h where "h = sample_diag\<lparr>dx_yaml_Unmarshal := (\<lambda>y. Inr cfg)\<rparr>"
  have mode: "(ef_mode sample_flags = ''tunnel'') = False" "ef_cfgFile sample_flags = None"
    by (simp_all add: sample_flags_def)
  have "command_dir h (ef_cfgFile sample_flags) = [''root'', ''.clank-agent'']"
    by (simp add: mode command_dir_def h_def sample_diag_def DefaultConfigDir_def config_path_def sysDir_def)
  then have cfg: "cfg = enroll_config (ef_mode sample_flags = ''tunnel'') (command_dir h (ef_cfgFile sample_flags)) sample_answer"
    by (simp only: mode cfg_def)
  have yaml: "dx_yaml_Unmarshal h yml = Inr cfg" for yml by (simp add: h_def)
  have id: "bundleIDPattern ''b1''" by (simp add: bundleIDPattern_def id_char_def)
  have "runs_reliably (\<lambda>_. True) Map.empty (runEnroll sample_enroll_env sample_cred_env 0 (Inr ''b1'') (\<lambda>fs. fs) (DefaultConfigDir h) ''1.0''
       sample_host sample_flags) (\<lambda>err w. err = None \<longrightarrow> starts_enrolled h None (ef_cfgFile sample_flags) cfg w)"
    by (rule enrolled_agent_starts [OF refl id sample_answered cfg yaml])
  moreover have "cf_ServerID cfg = ''s1''" "cf_GRPCEndpoint cfg = ''grpc.example.org:443''"
    by (simp_all add: cfg_def enroll_config_def sample_answer_def Let_def)
  ultimately show ?thesis unfolding mode by blast
qed

subsection \<open>What is removed\<close>

text \<open>\<open>s'\<close> is \<open>s\<close> without files that satisfy \<open>P\<close>: without all of them when the file system works.\<close>

definition cleared :: "(path \<Rightarrow> bool) \<Rightarrow> fs \<Rightarrow> fs \<Rightarrow> bool" where
  "cleared P s s' \<longleftrightarrow> fs_fail s' = fs_fail s \<and>
     (\<forall>q. map_of (fs_disk s') q = (if P q \<and> healthy s then None else map_of (fs_disk s) q) \<or>
          P q \<and> map_of (fs_disk s') q = None)"

lemma cleared_refl: "cleared (\<lambda>q. False) s s"
  by (simp add: cleared_def)

lemma cleared_trans:
  assumes "cleared P s t" "cleared Q t u"
  shows "cleared (\<lambda>q. P q \<or> Q q) s u"
proof -
  have h: "healthy t = healthy s" using assms(1) by (simp add: cleared_def healthy_def)
  show ?thesis unfolding cleared_def
  proof (intro conjI allI)
    show "fs_fail u = fs_fail s" using assms by (simp add: cleared_def)
    fix q
    from assms(1) have "map_of (fs_disk t) q = (if P q \<and> healthy s then None else map_of (fs_disk s) q) \<or>
        P q \<and> map_of (fs_disk t) q = None" by (simp add: cleared_def)
    moreover from assms(2) have "map_of (fs_disk u) q = (if Q q \<and> healthy s then None else map_of (fs_disk t) q) \<or>
        Q q \<and> map_of (fs_disk u) q = None" by (simp add: cleared_def h)
    ultimately show "map_of (fs_disk u) q = (if (P q \<or> Q q) \<and> healthy s then None else map_of (fs_disk s) q) \<or>
        (P q \<or> Q q) \<and> map_of (fs_disk u) q = None" by (auto split: if_splits)
  qed
qed

lemma cleared_remove_file: "cleared (\<lambda>q. q = p) s (snd (run_state (remove_file p) s))"
  by (auto simp: cleared_def remove_file_def attempt_def run_bind run_return delete_conv' healthy_def)

lemma cleared_remove_each: "cleared (\<lambda>q. q \<in> set ps) s (snd (run_state (remove_each ps) s))"
proof (induction ps arbitrary: s)
  case Nil
  then show ?case by (simp add: run_return cleared_refl)
next
  case (Cons p ps)
  from cleared_trans [OF cleared_remove_file Cons.IH] show ?case
    by (simp add: run_bind run_return split_beta)
qed

lemma cleared_remove_all: "cleared (below dir) s (snd (run_state (remove_all dir) s))"
proof -
  let ?ps = "filter (below dir) (map fst (fs_disk s))"
  have "snd (run_state (remove_all dir) s) = snd (run_state (remove_each ?ps) s)"
    by (simp add: remove_all_def run_bind run_return split_beta)
  moreover have "cleared (below dir) s t" if c: "cleared (\<lambda>q. below dir q \<and> map_of (fs_disk s) q \<noteq> None) s t" for t
    unfolding cleared_def
  proof (intro conjI allI)
    show "fs_fail t = fs_fail s" using c by (simp add: cleared_def)
    fix q
    from c show "map_of (fs_disk t) q = (if below dir q \<and> healthy s then None else map_of (fs_disk s) q) \<or>
        below dir q \<and> map_of (fs_disk t) q = None"
      unfolding cleared_def by (cases "map_of (fs_disk s) q") (auto split: if_splits dest!: spec [where x = q])
  qed
  moreover have "q \<in> set ?ps \<longleftrightarrow> below dir q \<and> map_of (fs_disk s) q \<noteq> None" for q
    by (auto simp: map_of_eq_None_iff)
  ultimately show ?thesis using cleared_remove_each [of ?ps s] by simp
qed

text \<open>A command that makes the calls \<open>cs\<close> and clears \<open>P\<close>, whatever it answers.\<close>

definition wipes :: "(path \<Rightarrow> bool) \<Rightarrow> host_call list \<Rightarrow> 'a cli \<Rightarrow> bool" where
  "wipes P cs m \<longleftrightarrow> (\<forall>s calls. \<exists>r s'. run_state m (s, calls) = (r, (s', calls @ cs)) \<and> cleared P s s')"

lemma wipes_bind:
  assumes "wipes P cs m" "\<And>x. wipes Q ds (f x)"
  shows "wipes (\<lambda>q. P q \<or> Q q) (cs @ ds) (State_Monad.bind m f)"
  unfolding wipes_def
proof (intro allI)
  fix s calls
  from assms(1) obtain r s' where m: "run_state m (s, calls) = (r, (s', calls @ cs))" "cleared P s s'"
    unfolding wipes_def by blast
  from assms(2) [of r] obtain r' s'' where f: "run_state (f r) (s', calls @ cs) = (r', (s'', (calls @ cs) @ ds))" "cleared Q s' s''"
    unfolding wipes_def by blast
  have "run_state (State_Monad.bind m f) (s, calls) = (r', (s'', calls @ cs @ ds))" by (simp add: run_bind m f)
  moreover have "cleared (\<lambda>q. P q \<or> Q q) s s''" by (rule cleared_trans [OF m(2) f(2)])
  ultimately show "\<exists>r s'. run_state (State_Monad.bind m f) (s, calls) = (r, (s', calls @ cs @ ds)) \<and> cleared (\<lambda>q. P q \<or> Q q) s s'"
    by blast
qed

lemma wipes_return: "wipes (\<lambda>q. False) [] (State_Monad.return x)"
  by (simp add: wipes_def run_return cleared_refl)

lemma wipes_call: "wipes (\<lambda>q. False) [c] (host_call c)"
  by (simp add: wipes_def host_call_def cleared_refl)

lemma wipes_files: "(\<And>s. cleared P s (snd (run_state m s))) \<Longrightarrow> wipes P [] (on_files m)"
  by (simp add: wipes_def on_files_def split_beta)

lemma wipes_if: "(b \<Longrightarrow> wipes P cs m) \<Longrightarrow> (\<not> b \<Longrightarrow> wipes Q ds m') \<Longrightarrow>
    wipes (\<lambda>q. if b then P q else Q q) (if b then cs else ds) (if b then m else m')"
  by (cases b) simp_all

lemma wipes_eq: "wipes P cs m \<Longrightarrow> (\<And>q. P q = Q q) \<Longrightarrow> cs = ds \<Longrightarrow> wipes Q ds m"
  by (simp add: ext [of P Q])

lemma wipes_remove_managed: "wipes (\<lambda>q. False) (map (StopAndRemoveContainer \<circ> cn_ContainerID) cs) (remove_managed cs)"
proof (induction cs)
  case (Cons c cs)
  from wipes_bind [OF wipes_call Cons.IH] show ?case
    unfolding remove_managed.simps by (rule wipes_eq) simp_all
qed (simp add: wipes_return)

definition managed :: "diag_host \<Rightarrow> ContainerInfo list" where
  "managed h = (case dx_managed h of Inl err \<Rightarrow> [] | Inr cs \<Rightarrow> cs)"

lemma wipes_managed: "wipes (\<lambda>q. False) (map (StopAndRemoveContainer \<circ> cn_ContainerID) (managed h)) (removeAllManagedContainers h)"
  by (auto simp: removeAllManagedContainers_def managed_def wipes_return wipes_remove_managed split: sum.split)

definition systemd_calls :: "host_call list" where
  "systemd_calls = [Systemctl [''stop'', serviceName], Systemctl [''disable'', serviceName], Systemctl [''daemon-reload'']]"

lemma wipes_systemd: "wipes (\<lambda>q. q = serviceFile) systemd_calls removeSystemdService"
proof -
  have "wipes (\<lambda>q. False \<or> (False \<or> (q = serviceFile \<or> False)))
      ([Systemctl [''stop'', serviceName]] @ [Systemctl [''disable'', serviceName]] @ [] @ [Systemctl [''daemon-reload'']])
      removeSystemdService"
    unfolding removeSystemdService_def
    by (intro wipes_bind wipes_call wipes_files cleared_remove_file)
  then show ?thesis by (rule wipes_eq) (simp_all add: systemd_calls_def)
qed

text \<open>
  C36. Uninstalling.  Without the rights, or without a confirmation, nothing is touched.  Otherwise the managed containers are
  asked to be removed unless they are to be kept, on Linux the service is stopped before its file goes, and then the binary,
  the link and the directory of the configuration go: exactly these files, all of them when the file system works and no
  other in any case.  The answer is no error, whatever failed.
\<close>

theorem uninstall_exact:
  "case run_state (runUninstall h fl) (s, calls) of (err, s', calls') \<Rightarrow>
     if dx_GOOS h = ''linux'' \<and> dx_Uid h \<noteq> 0 then err \<noteq> None \<and> s' = s \<and> calls' = calls
     else if \<not> confirmed fl then err = None \<and> s' = s \<and> calls' = calls
     else err = None \<and>
       calls' = calls @ (if uf_keepContainers fl then [] else map (StopAndRemoveContainer \<circ> cn_ContainerID) (managed h)) @
         (if dx_GOOS h = ''linux'' then systemd_calls else []) \<and>
       cleared (\<lambda>q. below installDir q \<or> q = symlinkPath \<or> below (command_dir h (uf_cfgFile fl)) q \<or>
         dx_GOOS h = ''linux'' \<and> q = serviceFile) s s'"
proof -
  let ?dir = "command_dir h (uf_cfgFile fl)"
  let ?go = "do {
      _ \<leftarrow> (if \<not> uf_keepContainers fl then removeAllManagedContainers h else State_Monad.return ());
      _ \<leftarrow> (if dx_GOOS h = ''linux'' then removeSystemdService else State_Monad.return ());
      _ \<leftarrow> on_files (remove_all installDir);
      _ \<leftarrow> on_files (remove_file symlinkPath);
      _ \<leftarrow> on_files (remove_all ?dir);
      State_Monad.return (None :: go_error option) }"
  let ?cs = "(if uf_keepContainers fl then [] else map (StopAndRemoveContainer \<circ> cn_ContainerID) (managed h)) @
         (if dx_GOOS h = ''linux'' then systemd_calls else [])"
  let ?P = "\<lambda>q. below installDir q \<or> q = symlinkPath \<or> below ?dir q \<or> dx_GOOS h = ''linux'' \<and> q = serviceFile"
  have "wipes (\<lambda>q. (if \<not> uf_keepContainers fl then False else False) \<or> ((if dx_GOOS h = ''linux'' then q = serviceFile else False) \<or>
        (below installDir q \<or> (q = symlinkPath \<or> (below ?dir q \<or> False)))))
      ((if \<not> uf_keepContainers fl then map (StopAndRemoveContainer \<circ> cn_ContainerID) (managed h) else []) @
        (if dx_GOOS h = ''linux'' then systemd_calls else []) @ [] @ [] @ [] @ []) ?go"
    by (intro wipes_bind wipes_if wipes_managed wipes_systemd wipes_files cleared_remove_all cleared_remove_file wipes_return)
  then have "wipes ?P ?cs ?go" by (rule wipes_eq) auto
  then obtain r s' where go: "run_state ?go (s, calls) = (r, (s', calls @ ?cs))" "cleared ?P s s'"
    unfolding wipes_def by blast
  from go(1) have "r = None" by (simp add: run_bind run_return split_beta)
  with go show ?thesis
    by (cases "dx_GOOS h = ''linux'' \<and> dx_Uid h \<noteq> 0"; cases "confirmed fl")
      (simp_all only: runUninstall_def Let_def if_True if_False simp_thms run_return prod.case option.distinct)
qed

subsection \<open>The service\<close>

lemma wipes_install_first:
  "healthy s \<Longrightarrow> \<exists>s'. run_state (write_file p c) s = (True, s') \<and> healthy s' \<and>
     (\<forall>q. map_of (fs_disk s') q = (if q = p then Some c else map_of (fs_disk s) q))"
  by (auto simp: write_file_def Let_def healthy_def update_conv')

text \<open>
  Installing the service of macOS and removing it again leaves the files as they were, but for the
  property list, which is gone, on a file system that works; both report success when the service could be loaded.
\<close>

theorem launchd_install_uninstall:
  assumes "healthy s" "bootstrap = None \<or> snd load = None"
  shows "case run_state (State_Monad.bind (installLaunchd cwd arg0 cfgFile bootstrap load)
        (\<lambda>installed. State_Monad.bind uninstallLaunchd (\<lambda>removed. State_Monad.return (installed, removed)))) (s, calls) of
      (answers, s', calls') \<Rightarrow> answers = (None, None) \<and>
        (\<forall>q. map_of (fs_disk s') q = (if q = plistPath then None else map_of (fs_disk s) q))"
proof -
  let ?plist = "join_lines (plist_lines (case Abs cwd arg0 of Inl err \<Rightarrow> ''/opt/clank/bin/clank-agent'' | Inr p \<Rightarrow> p)
      (path_text (service_config cfgFile)))"
  obtain t where t: "run_state (write_file plistPath ?plist) s = (True, t)" "healthy t"
      "\<forall>q. map_of (fs_disk t) q = (if q = plistPath then Some ?plist else map_of (fs_disk s) q)"
    using wipes_install_first [OF assms(1)] by blast
  from t(3) have "map_of (fs_disk t) plistPath = Some ?plist" by simp
  with t(2) have gone: "run_state (remove_file plistPath) t = (Gone, snd (run_state (remove_file plistPath) t))"
    by (simp add: remove_file_def attempt_def run_bind run_return healthy_def)
  from cleared_remove_file [of plistPath t] t(2, 3)
  have disk: "map_of (fs_disk (snd (run_state (remove_file plistPath) t))) q =
      (if q = plistPath then None else map_of (fs_disk s) q)" for q
    unfolding cleared_def by (auto split: if_splits)
  obtain cs where installed: "run_state (installLaunchd cwd arg0 cfgFile bootstrap load) (s, calls) = (None, (t, cs))"
    using assms(2)
    by (cases "bootstrap = None")
      (auto simp: installLaunchd_def Let_def run_bind run_return on_files_def host_call_def t(1) split_beta)
  have removed: "run_state uninstallLaunchd (t, cs) =
      (None, (snd (run_state (remove_file plistPath) t), cs @ [Launchctl [''bootout'', ''system/'' @ launchdLabel]]))"
    unfolding uninstallLaunchd_def
    by (simp only: run_bind run_return on_files_def host_call_def state.sel split_beta fst_conv snd_conv prod.case gone [THEN arg_cong [where f = fst]]
        remove_result.distinct if_False)
  show ?thesis by (simp only: run_bind run_return installed removed fst_conv snd_conv prod.case disk simp_thms)
qed

lemma launchd_install_uninstall_witness:
  "\<exists>s' calls'. run_state (State_Monad.bind (installLaunchd (Inr ''/home'') ''/opt/clank/bin/clank-agent'' None None ([], None))
        (\<lambda>installed. State_Monad.bind uninstallLaunchd (\<lambda>removed. State_Monad.return (installed, removed)))) (sample_fs, []) =
      ((None, None), (s', calls')) \<and> map_of (fs_disk s') plistPath = None"
proof -
  have "healthy sample_fs" by (simp add: healthy_def fs_with_def)
  from launchd_install_uninstall [OF this, of None "([], None)" "Inr ''/home''" "''/opt/clank/bin/clank-agent''" None "[]"]
  show ?thesis unfolding split_beta by (simp only: prod.collapse prod_eq_iff) (metis prod.collapse fst_conv snd_conv)
qed

text \<open>
  On macOS \<^verbatim>\<open>enroll\<close> and \<^verbatim>\<open>service install\<close> do not agree on the default directory: the service is
  started with a directory no enrollment without \<^verbatim>\<open>--config\<close> writes to, and the agent does not start.
\<close>

theorem launchd_misses_config:
  assumes "dx_GOOS h = ''darwin''" "dx_HomeDir h = Inr home" "w (config_path sysDir) = None"
  shows "service_config None \<noteq> command_dir h None \<and>
    (\<exists>err. delivers w (runAgent h None (Some (service_config None))) (Inl err) w)"
proof
  show "service_config None \<noteq> command_dir h None"
    using assms(1, 2) by (simp add: service_config_def command_dir_def DefaultConfigDir_def sysDir_def)
  have cp: "\<not> is_temp (config_path sysDir)" by (simp add: config_path_def is_temp_def)
  have "delivers w (LoadConfig h sysDir) (Inl (''reading '' @ path_text (config_path sysDir) @ '': '' @ os_error)) w"
    unfolding LoadConfig_def
    by (rule delivers_bind [OF delivers_read [OF cp]]) (simp only: assms(3) option.case delivers_return)
  then show "\<exists>err. delivers w (runAgent h None (Some (service_config None))) (Inl err) w"
    unfolding runAgent_def command_dir_def service_config_def Let_def option.case
    by (intro exI) (erule delivers_bind, simp only: sum.case, rule delivers_return)
qed

lemma launchd_misses_config_witness:
  "\<exists>err. delivers Map.empty (runAgent (sample_diag\<lparr>dx_GOOS := ''darwin''\<rparr>) None (Some (service_config None))) (Inl err) Map.empty"
  by (rule launchd_misses_config [where home = "[''root'']", THEN conjunct2]) (simp_all add: sample_diag_def)

end
