(* ===== verification/Agent_Start.thy ===== *)
theory Agent_Start
  imports System_Info Agent_Loop
begin

text \<open>
  What the agent does when it starts, before its main loop (\<^verbatim>\<open>Run\<close> of \<^verbatim>\<open>internal/agent/agent.go\<close>): the
  proxy and the tunnel of the host, the networks of the proxy, and the goroutine that prunes networks.
  The check of a pending update that precedes them is in \<open>Update_Commands\<close>, the collectors that are started
  after them in \<open>Log_Collector\<close> and \<open>Metrics_Collector\<close>.
\<close>

subsection \<open>Set-up of the host\<close>

text \<open>False when a container identifier too short for the log makes the agent panic; errors are only logged.\<close>

definition start_tunnel :: "'w host_env \<Rightarrow> string \<Rightarrow> ('w, bool) hosting" where
  "start_tunnel env tunnelToken =
     (if tunnelToken \<noteq> [] then do {
        r \<leftarrow> EnsureCloudflared env tunnelToken;
        State_Monad.return (r \<noteq> IdTooShort) }
      else State_Monad.return True)"

definition start_up :: "'w host_env \<Rightarrow> host \<Rightarrow> string \<Rightarrow> ('w, bool) hosting" where
  "start_up env h tunnelToken = do {
     r \<leftarrow> EnsureTraefik env (TraefikBindIP (CollectNetworkInfo h));
     (if r = IdTooShort then State_Monad.return False
      else do {
        _ \<leftarrow> docker (reconnectTraefikToProjectNetworks (hn_sdk env));
        start_tunnel env tunnelToken }) }"

subsection \<open>Pruning\<close>

definition networkPruneInterval :: int where "networkPruneInterval = 30 * minute"

datatype pruner_event = Docker daemon_event | Waited int

text \<open>A number of ticks, until the context ends.\<close>

fun prune_ticks :: "'w docker_sdk \<Rightarrow> (unit, 'w) op \<Rightarrow> nat \<Rightarrow> (pruner_event, 'w, unit) rigged" where
  "prune_ticks sdk timer 0 = State_Monad.return ()"
| "prune_ticks sdk timer (Suc n) = do {
     _ \<leftarrow> call_wait networkPruneInterval (\<lambda>_. Waited networkPruneInterval) timer;
     _ \<leftarrow> embed Docker (pruneOrphanedNetworks sdk);
     prune_ticks sdk timer n }"

text \<open>\<open>ticks\<close> is \<open>None\<close> when the context ends before the first pruning.\<close>

definition runNetworkPruner :: "'w docker_sdk \<Rightarrow> (unit, 'w) op \<Rightarrow> nat option \<Rightarrow> (pruner_event, 'w, unit) rigged" where
  "runNetworkPruner sdk timer ticks = (case ticks of
     None \<Rightarrow> State_Monad.return ()
   | Some n \<Rightarrow> do {
       _ \<leftarrow> call_wait (2 * minute) (\<lambda>_. Waited (2 * minute)) timer;
       _ \<leftarrow> embed Docker (pruneOrphanedNetworks sdk);
       prune_ticks sdk timer n })"

subsection \<open>What the set-up does\<close>

lemma requests_none: "requests evs = [] \<Longrightarrow> list_all quiet evs"
  by (induction evs rule: requests.induct) (simp_all add: quiet_def)

lemma settled_requests: "settled rq r evs \<Longrightarrow> requests evs = [] \<or> requests evs = [rq]"
  by (simp add: settled_def)

lemma settled_short: "settled rq IdTooShort evs \<Longrightarrow> requests evs = [rq]"
  using quiet_prefix [OF requests_none] by (auto simp: settled_def)

lemma networks_quiet: "yields (\<lambda>r evs. requests evs = []) (docker (reconnectTraefikToProjectNetworks sdk))"
proof -
  have "emits quiet (docker (reconnectTraefikToProjectNetworks sdk))"
    unfolding emits_def
    by (rule yields_embed [OF traefik_joins_once]) (auto simp: list_all_iff quiet_def)
  then show ?thesis unfolding emits_def by (rule yields_mono) (simp add: quiet_prefix)
qed

text \<open>What the set-up may have asked for, and that only a container it asked for can make it panic.\<close>

definition start_requests :: "string \<Rightarrow> string \<Rightarrow> bool \<Rightarrow> host_request list \<Rightarrow> bool" where
  "start_requests ip token r rqs \<longleftrightarrow>
     (rqs \<in> {[], [traefik_request ip]} \<or> token \<noteq> [] \<and> rqs \<in> {[platform_request token], [traefik_request ip, platform_request token]}) \<and>
     (r \<or> rqs \<noteq> [])"

lemma tunnel_requests: "yields (\<lambda>r evs. requests evs \<in> (if token = [] then {[]} else {[], [platform_request token]}) \<and>
    (r \<or> requests evs \<noteq> [])) (start_tunnel env token)"
  unfolding start_tunnel_def
  by (intro yields_if yields_bind [OF cloudflared.settles] yields_return)
    (auto dest: settled_requests settled_short)

text \<open>
  Starting the agent asks for at most one proxy and at most one tunnel, the tunnel only with a token and
  after the proxy, whatever Docker answers; it ends in a panic only after a container it asked for was
  given an identifier too short for the log.
\<close>

theorem start_up_requests:
  "yields (\<lambda>r evs. start_requests (TraefikBindIP (CollectNetworkInfo h)) token r (requests evs)) (start_up env h token)"
  unfolding start_up_def
  by (intro yields_bind [OF traefik.settles] yields_if yields_return yields_bind [OF networks_quiet] yields_mono [OF tunnel_requests])
    (auto simp: start_requests_def requests_append dest: settled_requests settled_short split: if_splits)

lemma prune_spares:
  assumes "\<And>v ns n. fst (sdk_NetworkList sdk v) = Inr ns \<Longrightarrow> n \<in> set ns \<Longrightarrow> sn_ID n = nid \<Longrightarrow>
    \<not> HasPrefix (sn_Name n) ''clank-project-''"
  shows "emits (\<lambda>e. e \<noteq> Docker (NetworkRemoved nid)) (embed Docker (pruneOrphanedNetworks sdk))"
  by (rule emits_embed [OF pruning_spares_other_networks [OF assms]]) auto

text \<open>
  However long it runs, the goroutine that prunes networks never removes a network that is not listed
  as a project network of the agent.
\<close>

theorem pruner_spares_other_networks:
  assumes "\<And>v ns n. fst (sdk_NetworkList sdk v) = Inr ns \<Longrightarrow> n \<in> set ns \<Longrightarrow> sn_ID n = nid \<Longrightarrow>
    \<not> HasPrefix (sn_Name n) ''clank-project-''"
  shows "emits (\<lambda>e. e \<noteq> Docker (NetworkRemoved nid)) (runNetworkPruner sdk timer ticks)"
proof -
  note prune = prune_spares [of sdk nid, OF assms]
  have "emits (\<lambda>e. e \<noteq> Docker (NetworkRemoved nid)) (prune_ticks sdk timer n)" for n
    by (induction n) (auto intro!: emits_bind emits_return emits_call_wait prune)
  then show ?thesis unfolding runNetworkPruner_def
    by (auto intro!: emits_option emits_bind emits_return emits_call_wait prune)
qed

end
