(* ===== verification/Docker_Inspect.thy ===== *)
theory Docker_Inspect
  imports Docker_Client Disk_Guard "HOL-Library.Char_ord" "HOL-Library.List_Lexorder"
begin

text \<open>
  What the Docker manager reads of images and containers (\<^verbatim>\<open>internal/docker/introspect.go\<close>), and the
  calls of \<^verbatim>\<open>internal/docker/client.go\<close> that run a command in a container or wait for one.  A Go map of
  the SDK is the list of its entries in the order of the iteration, which Go chooses at random.  A
  nil pointer is \<open>None\<close>; \<open>show_duration\<close> is \<^verbatim>\<open>Duration.String\<close>.
\<close>

subsection \<open>Answers of the SDK\<close>

record sdk_image_config =
  sg_ExposedPorts :: "string list"
  sg_Cmd :: "string list"
  sg_Entrypoint :: "string list"
  sg_Volumes :: "string list"
  sg_Healthcheck :: "HealthConfig option"

record sdk_state =
  ss_Status :: string
  ss_ExitCode :: int
  ss_OOMKilled :: bool
  ss_Health :: "string option"

record sdk_settings =
  st_IPAddress :: string
  st_Networks :: "(string \<times> string) list"

record container_json =
  cj_State :: "sdk_state option"
  cj_NetworkSettings :: "sdk_settings option"

datatype inspect_event =
    Asked string
  | ExecCreated string "string list"
  | ExecAttached string
  | ConnectedTo string string "string list"

text \<open>What ends a wait: an answer on the channel of errors, or a status.\<close>

datatype wait_end = WaitError "go_error option" | WaitStatus int

record 'w inspect_sdk =
  iw_ImageInspect :: "string \<Rightarrow> (sdk_image_config option result, 'w) op"
  iw_ContainerInspect :: "string \<Rightarrow> (container_json result, 'w) op"
  iw_ExecCreate :: "string \<Rightarrow> string list \<Rightarrow> (string result, 'w) op"
  iw_ExecAttach :: "string \<Rightarrow> (string result, 'w) op"      \<comment> \<open>all output that could be read\<close>
  iw_ExecInspect :: "string \<Rightarrow> (int result, 'w) op"
  iw_ContainerWait :: "string \<Rightarrow> (wait_end, 'w) op"
  iw_NetworkConnect :: "string \<Rightarrow> string \<Rightarrow> string list \<Rightarrow> (go_error option, 'w) op"
  iw_DockerRootDir :: "(string result, 'w) op"
  iw_disk_Usage :: "string \<Rightarrow> ((64 word \<times> 64 word \<times> 64 word) result, 'w) op"

type_synonym ('w, 'a) inspector = "(inspect_event, 'w, 'a) rigged"

definition asked :: "string \<Rightarrow> ('r, 'w) op \<Rightarrow> ('w, 'r) inspector" where
  "asked what f = call (\<lambda>_. Asked what) f"

subsection \<open>Images\<close>

definition port_number :: "string \<Rightarrow> string" where
  "port_number spec = (case Split spec CHR ''/'' of p # ps \<Rightarrow> p | [] \<Rightarrow> [])"

fun numbered_ports :: "string list \<Rightarrow> int list" where
  "numbered_ports [] = []"
| "numbered_ports (spec # specs) =
     (if Atoi_ok (port_number spec) then Atoi_value (port_number spec) # numbered_ports specs else numbered_ports specs)"

definition image_meta :: "(int \<Rightarrow> string) \<Rightarrow> sdk_image_config option \<Rightarrow> ImageMeta" where
  "image_meta show_duration config = (case config of
     None \<Rightarrow> \<lparr>im_ExposedPorts = [], im_Healthcheck = None, im_Cmd = [], im_Entrypoint = [], im_Volumes = []\<rparr>
   | Some c \<Rightarrow>
       \<lparr>im_ExposedPorts = sort (numbered_ports (sg_ExposedPorts c)),
        im_Healthcheck = (case sg_Healthcheck c of
            None \<Rightarrow> None
          | Some hc \<Rightarrow> if length (hc_Test hc) > 0
              then Some \<lparr>hm_Test = hc_Test hc, hm_Interval = show_duration (hc_Interval hc),
                hm_Timeout = show_duration (hc_Timeout hc), hm_Retries = hc_Retries hc\<rparr>
              else None),
        im_Cmd = sg_Cmd c, im_Entrypoint = sg_Entrypoint c,
        im_Volumes = (if length (sg_Volumes c) > 0 then sort (sg_Volumes c) else [])\<rparr>)"

definition InspectImage :: "'w inspect_sdk \<Rightarrow> (int \<Rightarrow> string) \<Rightarrow> string \<Rightarrow> ('w, ImageMeta result) inspector" where
  "InspectImage sdk show_duration imageRef = do {
     r \<leftarrow> asked ''image'' (iw_ImageInspect sdk imageRef);
     State_Monad.return (case r of
       Inl err \<Rightarrow> Inl (''inspecting image '' @ imageRef @ '': '' @ err)
     | Inr config \<Rightarrow> Inr (image_meta show_duration config)) }"

subsection \<open>Containers\<close>

fun network_ip :: "string \<Rightarrow> (string \<times> string) list \<Rightarrow> string" where
  "network_ip ip [] = ip"
| "network_ip ip ((name, addr) # nets) =
     network_ip (if ip = [] \<and> addr \<noteq> [] then addr else ip) nets"

definition container_inspection :: "container_json \<Rightarrow> ContainerInspection" where
  "container_inspection j =
     (let ci = \<lparr>ci_State = [], ci_ExitCode = 0, ci_OOMKilled = False, ci_IP = [], ci_Networks = [], ci_Ports = []\<rparr>;
          ci = (case cj_State j of
             None \<Rightarrow> ci
           | Some st \<Rightarrow> ci\<lparr>ci_State := ss_Status st, ci_ExitCode := ss_ExitCode st, ci_OOMKilled := ss_OOMKilled st\<rparr>) in
      case cj_NetworkSettings j of
        None \<Rightarrow> ci
      | Some ns \<Rightarrow> ci\<lparr>ci_IP := network_ip (st_IPAddress ns) (st_Networks ns), ci_Networks := sort (map fst (st_Networks ns))\<rparr>)"

definition InspectContainer :: "'w inspect_sdk \<Rightarrow> string \<Rightarrow> ('w, ContainerInspection result) inspector" where
  "InspectContainer sdk containerID = do {
     r \<leftarrow> asked ''container'' (iw_ContainerInspect sdk containerID);
     State_Monad.return (case r of
       Inl err \<Rightarrow> Inl (''inspecting container '' @ containerID @ '': '' @ err)
     | Inr j \<Rightarrow> Inr (container_inspection j)) }"

definition health_of :: "container_json \<Rightarrow> string" where
  "health_of j = (case cj_State j of
     None \<Rightarrow> []
   | Some st \<Rightarrow> (case ss_Health st of None \<Rightarrow> [] | Some h \<Rightarrow> h))"

definition GetHealthStatus :: "'w inspect_sdk \<Rightarrow> string \<Rightarrow> ('w, string) inspector" where
  "GetHealthStatus sdk containerID = do {
     r \<leftarrow> asked ''container'' (iw_ContainerInspect sdk containerID);
     State_Monad.return (case r of Inl err \<Rightarrow> [] | Inr j \<Rightarrow> health_of j) }"

subsection \<open>Commands, waiting, networks and the disk\<close>

text \<open>The status, the output and the error, as the code returns all three.\<close>

definition ContainerExec :: "'w inspect_sdk \<Rightarrow> string \<Rightarrow> string list \<Rightarrow> ('w, int \<times> string \<times> go_error option) inspector" where
  "ContainerExec sdk containerID cmd = do {
     created \<leftarrow> call (\<lambda>_. ExecCreated containerID cmd) (iw_ExecCreate sdk containerID cmd);
     (case created of
        Inl err \<Rightarrow> State_Monad.return (- 1, [], Some (''creating exec: '' @ err))
      | Inr execID \<Rightarrow> do {
          hijack \<leftarrow> call (\<lambda>_. ExecAttached execID) (iw_ExecAttach sdk execID);
          (case hijack of
             Inl err \<Rightarrow> State_Monad.return (- 1, [], Some (''attaching exec: '' @ err))
           | Inr output \<Rightarrow> do {
               inspect \<leftarrow> asked ''exec'' (iw_ExecInspect sdk execID);
               State_Monad.return (case inspect of
                 Inl err \<Rightarrow> (- 1, output, Some (''inspecting exec: '' @ err))
               | Inr code \<Rightarrow> (code, output, None)) }) }) }"

definition WaitContainer :: "'w inspect_sdk \<Rightarrow> string \<Rightarrow> ('w, int \<times> go_error option) inspector" where
  "WaitContainer sdk containerID = do {
     r \<leftarrow> asked ''wait'' (iw_ContainerWait sdk containerID);
     State_Monad.return (case r of
       WaitError (Some err) \<Rightarrow> (- 1, Some err)
     | WaitError None \<Rightarrow> (0, None)
     | WaitStatus code \<Rightarrow> (code, None)) }"

definition ConnectToNetwork :: "'w inspect_sdk \<Rightarrow> string \<Rightarrow> string \<Rightarrow> string list \<Rightarrow> ('w, go_error option) inspector" where
  "ConnectToNetwork sdk containerID networkName aliases =
     call (\<lambda>_. ConnectedTo networkName containerID aliases) (iw_NetworkConnect sdk networkName containerID aliases)"

definition GetDockerRootUsage :: "'w inspect_sdk \<Rightarrow> ('w, DockerRootUsage result) inspector" where
  "GetDockerRootUsage sdk = do {
     info \<leftarrow> asked ''info'' (iw_DockerRootDir sdk);
     (case info of
        Inl err \<Rightarrow> State_Monad.return (Inl (''docker info: '' @ err))
      | Inr dir \<Rightarrow> do {
          let dockerRoot = (if dir = [] then ''/var/lib/docker'' else dir);
          usage \<leftarrow> asked ''disk'' (iw_disk_Usage sdk dockerRoot);
          State_Monad.return (case usage of
            Inl err \<Rightarrow> Inl (''disk usage for '' @ dockerRoot @ '': '' @ err)
          | Inr (total_bytes, used, free) \<Rightarrow> Inr \<lparr>du_DockerRootDir = dockerRoot, du_TotalBytes = total_bytes,
              du_UsedBytes = used, du_FreeBytes = free\<rparr>) }) }"

subsection \<open>What does not depend on the order of a map\<close>

lemma sort_mset: "mset xs = mset ys \<Longrightarrow> sort xs = sort (ys :: 'a::linorder list)"
  by (rule properties_for_sort) simp_all

lemma mset_numbered_ports: "mset (numbered_ports specs) =
    image_mset (\<lambda>s. Atoi_value (port_number s)) (filter_mset (\<lambda>s. Atoi_ok (port_number s)) (mset specs))"
  by (induction specs) simp_all

lemma set_numbered_ports: "set (numbered_ports specs) = {Atoi_value (port_number s) | s. s \<in> set specs \<and> Atoi_ok (port_number s)}"
  by (induction specs) auto

lemma network_ip_some: "network_ip ip nets = ip \<or> ip = [] \<and> network_ip ip nets \<in> snd ` set nets"
  by (induction ip nets rule: network_ip.induct) (auto split: if_splits)

lemma network_ip_kept [simp]: "ip \<noteq> [] \<Longrightarrow> network_ip ip nets = ip"
  by (induction ip nets rule: network_ip.induct) auto

text \<open>
  What is read of an image and of a container does not depend on the order in which Go goes through
  the maps of the SDK: the ports and volumes of an image, its health check and commands, and the
  state and networks of a container, are the same for every order.  The address of a container is
  the only exception, and it is the one of its default network or of one of its networks.
\<close>

theorem inspection_order_free:
  assumes "mset ports = mset (sg_ExposedPorts c)" "mset vols = mset (sg_Volumes c)" "mset nets = mset (st_Networks ns)"
  shows "image_meta f (Some (c\<lparr>sg_ExposedPorts := ports, sg_Volumes := vols\<rparr>)) = image_meta f (Some c) \<and>
    (let r = container_inspection \<lparr>cj_State = st, cj_NetworkSettings = Some (ns\<lparr>st_Networks := nets\<rparr>)\<rparr>;
         r' = container_inspection \<lparr>cj_State = st, cj_NetworkSettings = Some ns\<rparr>
     in r\<lparr>ci_IP := ip\<rparr> = r'\<lparr>ci_IP := ip\<rparr> \<and>
        (ci_IP r = st_IPAddress ns \<or> st_IPAddress ns = [] \<and> ci_IP r \<in> snd ` set (st_Networks ns)))"
proof -
  have "sort (numbered_ports ports) = sort (numbered_ports (sg_ExposedPorts c))"
    by (rule sort_mset) (simp only: mset_numbered_ports assms(1))
  moreover have "sort vols = sort (sg_Volumes c)" by (rule sort_mset) (rule assms(2))
  moreover have "(vols = []) = (sg_Volumes c = [])" using assms(2) by (metis mset_zero_iff)
  moreover have "sort (map fst nets) = sort (map fst (st_Networks ns))" by (rule sort_mset) (simp only: mset_map assms(3))
  moreover have "set nets = set (st_Networks ns)" using assms(3) by (rule mset_eq_setD)
  ultimately show ?thesis
    using network_ip_some [of "st_IPAddress ns" nets]
    by (cases st) (simp_all add: image_meta_def container_inspection_def Let_def)
qed

text \<open>
  The address of a container that is only in project networks depends on the order: with two
  networks the agent reports one or the other.
\<close>

theorem container_address_random:
  assumes "a \<noteq> []" "b \<noteq> []" "a \<noteq> b"
  shows "ci_IP (container_inspection \<lparr>cj_State = None, cj_NetworkSettings = Some \<lparr>st_IPAddress = [], st_Networks = [(m, a), (n, b)]\<rparr>\<rparr>) \<noteq>
    ci_IP (container_inspection \<lparr>cj_State = None, cj_NetworkSettings = Some \<lparr>st_IPAddress = [], st_Networks = [(n, b), (m, a)]\<rparr>\<rparr>)"
  using assms by (simp add: container_inspection_def Let_def)

lemma container_address_random_witness:
  "ci_IP (container_inspection \<lparr>cj_State = None, cj_NetworkSettings = Some \<lparr>st_IPAddress = [],
      st_Networks = [(''net1'', ''172.18.0.2''), (''net2'', ''172.19.0.2'')]\<rparr>\<rparr>) \<noteq>
   ci_IP (container_inspection \<lparr>cj_State = None, cj_NetworkSettings = Some \<lparr>st_IPAddress = [],
      st_Networks = [(''net2'', ''172.19.0.2''), (''net1'', ''172.18.0.2'')]\<rparr>\<rparr>)"
  by (rule container_address_random) simp_all

text \<open>
  The protocol of an exposed port is dropped: a port for UDP counts like one for TCP, and an image that
  exposes one port for both is taken for one with two ports.
\<close>

theorem udp_port_counted:
  "im_ExposedPorts (image_meta f (Some \<lparr>sg_ExposedPorts = [''53/udp''], sg_Cmd = [], sg_Entrypoint = [], sg_Volumes = [],
      sg_Healthcheck = None\<rparr>)) = [53] \<and>
   im_ExposedPorts (image_meta f (Some \<lparr>sg_ExposedPorts = [''53/udp'', ''53/tcp''], sg_Cmd = [], sg_Entrypoint = [], sg_Volumes = [],
      sg_Healthcheck = None\<rparr>)) = [53, 53]"
proof -
  have "Atoi_ok (port_number ''53/udp'')" "Atoi_ok (port_number ''53/tcp'')" by code_simp+
  moreover have "Atoi_value (port_number ''53/udp'') = 53" "Atoi_value (port_number ''53/tcp'') = 53" by code_simp+
  ultimately show ?thesis by (simp add: image_meta_def)
qed

text \<open>
  A command in a container: it is run at most once, in that container; a status other than minus one is
  that of the command, and with an error the status is minus one.
\<close>

theorem container_exec_exact:
  "yields (\<lambda>(code, output, err) evs.
      (\<exists>rest. evs = ExecCreated containerID cmd # rest \<and> list_all (\<lambda>e. \<not> (case e of ExecCreated c x \<Rightarrow> True | _ \<Rightarrow> False)) rest) \<and>
      (if err = None then Asked ''exec'' \<in> set evs else code = - 1))
    (ContainerExec sdk containerID cmd)"
proof -
  have "yields (\<lambda>(code, output, err) evs. \<exists>rest. evs = ExecCreated containerID cmd # rest \<and>
      (rest = [] \<and> code = - 1 \<and> err \<noteq> None \<or> (\<exists>i. rest = [ExecAttached i]) \<and> code = - 1 \<and> err \<noteq> None \<or>
       (\<exists>i. rest = [ExecAttached i, Asked ''exec'']) \<and> (err = None \<or> code = - 1)))
    (ContainerExec sdk containerID cmd)"
    unfolding ContainerExec_def asked_def
    by (intro yields_call_then) (auto intro!: yields_sum yields_call_then yields_return split: sum.split sum.split_asm)
  then show ?thesis by (rule yields_mono) (auto split: prod.splits)
qed

end
