(* ===== verification/Update_Start.thy ===== *)
theory Update_Start
  imports Update_Commands Enrollment
begin

text \<open>
  The verdict on a new binary: \<^verbatim>\<open>verifyConnectivity\<close> of \<^verbatim>\<open>internal/agent/agent.go\<close> over the connections of
  \<open>Enrollment\<close>, and what the check of a pending update makes of it.
\<close>

subsection \<open>Connectivity\<close>

text \<open>
  \<open>tlsCreds\<close> is the answer of \<^verbatim>\<open>TransportCredentials\<close>, \<open>open_stream\<close> what opening the stream over a
  connection gives within thirty seconds: an error, or the stream's \<^verbatim>\<open>Send\<close>.
\<close>

definition verify_dial :: "(client_options \<Rightarrow> go_error option) \<Rightarrow> Config \<Rightarrow> transport result \<Rightarrow> client_options result" where
  "verify_dial nc cfg tlsCreds =
     (if cf_AuthMode cfg = ''token'' then DialTunnelWithAuth nc (cf_GRPCEndpoint cfg) (cf_AuthToken cfg)
      else case tlsCreds of
          Inl credErr \<Rightarrow> Inl credErr
        | Inr creds \<Rightarrow> Dial nc (cf_GRPCEndpoint cfg) creds)"

definition verifyConnectivity :: "(client_options \<Rightarrow> go_error option) \<Rightarrow> Config \<Rightarrow> transport result
    \<Rightarrow> (client_options \<Rightarrow> (Heartbeat \<Rightarrow> go_error option) result) \<Rightarrow> Info \<Rightarrow> ContainerStatus list \<Rightarrow> bool" where
  "verifyConnectivity nc cfg tlsCreds open_stream info containers =
     (case verify_dial nc cfg tlsCreds of
        Inl err \<Rightarrow> False
      | Inr conn \<Rightarrow> (case open_stream conn of
          Inl err \<Rightarrow> False
        | Inr stream_Send \<Rightarrow> (case SendHeartbeat stream_Send info containers of
            Some err \<Rightarrow> False
          | None \<Rightarrow> True)))"

subsection \<open>An update that connects\<close>

lemma delivers_CleanupBackup:
  assumes "update_setup (updater env) exec"
  shows "delivers v (State_Monad.bind (CleanupBackup env) (\<lambda>_. State_Monad.return x)) x (v(prev_path exec := None))"
  unfolding CleanupBackup_def BinDir_setup [OF assms] bind_left_identity prev_path_def [symmetric]
  by (intro delivers_remove_then exec_names(2) [OF assms] delivers_return)

lemma connected_start:
  assumes su: "update_setup (updater env) exec" and json: "json_state env s" and pending: "us_Status s = ''pending''"
    and k: "sint (us_Attempts s + 1) \<le> 3" and v: "v (state_path (fst exec)) = Some (ue_json_Marshal env s)"
  shows "delivers v (checkPendingUpdate env True) None (v(state_path (fst exec) := None, prev_path exec := None))"
proof -
  note nt = state_path_names(1) [OF su]
  let ?p = "state_path (fst exec)" and ?s = "s\<lparr>us_Attempts := us_Attempts s + 1\<rparr>"
  have s: "s\<lparr>us_Attempts := us_Attempts s\<rparr> = s" by simp
  have read: "ue_json_Unmarshal env (ue_json_Marshal env s) = Some s"
    using json [unfolded json_state_def, THEN spec [where x = "us_Attempts s"]] unfolding s .
  have clear: "delivers (v(?p \<mapsto> y)) (do { _ \<leftarrow> ClearState (fst exec); _ \<leftarrow> CleanupBackup env; State_Monad.return None }) None
      (v(?p := None, prev_path exec := None))" for y
    unfolding ClearState_def
    by (intro delivers_remove_then nt) (simp only: fun_upd_upd, rule delivers_CleanupBackup [OF su])
  have save: "delivers v (do { _ \<leftarrow> SaveState env (fst exec) ?s; _ \<leftarrow> ClearState (fst exec); _ \<leftarrow> CleanupBackup env;
      State_Monad.return None }) None (v(?p := None, prev_path exec := None))"
    by (rule delivers_bind [OF delivers_SaveState [OF nt] clear])
  show ?thesis
    unfolding checkPendingUpdate_def BinDir_setup [OF su] bind_left_identity
    by (rule delivers_LoadState_then [where v = v and s = s, OF nt v read])
      (use pending k save in \<open>simp_all add: Let_def\<close>)
qed

text \<open>
  C19. A new binary is confirmed exactly when its connection carries a heartbeat.  On a working file system, within the
  three starts it has, a start whose connection carries a heartbeat clears the state of the update and
  the backup and touches nothing else; one whose connection does not only counts the attempt.
\<close>

theorem update_confirmed_by_heartbeat:
  assumes "update_setup (updater env) exec" "json_state env s" "us_Status s = ''pending''" "sint (us_Attempts s + 1) \<le> 3"
    and "v (state_path (fst exec)) = Some (ue_json_Marshal env s)"
  shows "delivers v (checkPendingUpdate env (verifyConnectivity nc cfg tlsCreds open_stream info containers)) None
    (if \<exists>conn stream_Send. verify_dial nc cfg tlsCreds = Inr conn \<and> open_stream conn = Inr stream_Send \<and>
        stream_Send (heartbeat_message info containers) = None
     then v(state_path (fst exec) := None, prev_path exec := None)
     else v(state_path (fst exec) \<mapsto> ue_json_Marshal env (s\<lparr>us_Attempts := us_Attempts s + 1\<rparr>)))"
proof -
  have verdict: "verifyConnectivity nc cfg tlsCreds open_stream info containers \<longleftrightarrow>
      (\<exists>conn stream_Send. verify_dial nc cfg tlsCreds = Inr conn \<and> open_stream conn = Inr stream_Send \<and>
        stream_Send (heartbeat_message info containers) = None)"
    by (auto simp: verifyConnectivity_def SendHeartbeat_def split: sum.split option.split)
  have "s\<lparr>us_Attempts := us_Attempts s\<rparr> = s" by simp
  then have v: "v (state_path (fst exec)) = Some (ue_json_Marshal env (s\<lparr>us_Attempts := us_Attempts s\<rparr>))" using assms(5) by simp
  from connected_start [where v = v, OF assms] failing_start [where v = v and k = "us_Attempts s", OF assms(1-4) v] show ?thesis
    unfolding verdict [symmetric] by (cases "verifyConnectivity nc cfg tlsCreds open_stream info containers") simp_all
qed

lemma update_confirmed_by_heartbeat_witness:
  "delivers [state_path (fst sample_exec) \<mapsto> ''0'', prev_path sample_exec \<mapsto> ''OLD'', suffixed sample_exec [] \<mapsto> ''NEW'']
     (checkPendingUpdate sample_agent (verifyConnectivity (\<lambda>opts. None) sample_config (Inr Plaintext)
        (\<lambda>conn. Inr (\<lambda>m. None)) (Collect_info sample_host) [])) None [suffixed sample_exec [] \<mapsto> ''NEW'']"
proof -
  let ?v = "[state_path (fst sample_exec) \<mapsto> ''0'', prev_path sample_exec \<mapsto> ''OLD'', suffixed sample_exec [] \<mapsto> ''NEW'']"
  have "show_nat 0 = ''0''" by code_simp
  then have v: "?v (state_path (fst sample_exec)) = Some (ue_json_Marshal sample_agent sample_state)"
    by (simp add: sample_state_def sample_agent_def sample_exec_def state_path_def prev_path_def suffixed_def)
  have pending: "us_Status sample_state = ''pending''" "sint (us_Attempts sample_state + 1) \<le> 3"
    by (simp_all add: sample_state_def)
  have conn: "\<exists>conn stream_Send. verify_dial (\<lambda>opts. None) sample_config (Inr Plaintext) = Inr conn \<and>
      Inr (\<lambda>m :: Heartbeat. None) = (Inr stream_Send :: (Heartbeat \<Rightarrow> go_error option) result) \<and>
      stream_Send (heartbeat_message (Collect_info sample_host) []) = None"
    by (simp add: verify_dial_def sample_config_def Dial_def new_client_def)
  have w: "?v(state_path (fst sample_exec) := None, prev_path sample_exec := None) = [suffixed sample_exec [] \<mapsto> ''NEW'']"
    by (auto simp: fun_eq_iff sample_exec_def state_path_def prev_path_def suffixed_def)
  from update_confirmed_by_heartbeat [where v = ?v and nc = "\<lambda>opts. None" and cfg = sample_config and
      tlsCreds = "Inr Plaintext" and open_stream = "\<lambda>conn. Inr (\<lambda>m. None)" and info = "Collect_info sample_host" and
      containers = "[]", OF sample_update_setup sample_json_state pending v]
  show ?thesis unfolding if_P [OF conn] w .
qed

end
