(* ===== verification/Spec2Isabelle.thy ===== *)
theory Spec2Isabelle
  imports Deploy_Admission Control_Stream Log_Frames Disk_Guard Deploy_Handler Artifact_Cleanup Credential_Cutover Agent_Loop Command_Handlers Endpoint_Providers
    Update_Commands Container_Commands Metrics_Collector Command_Line Agent_Start Docker_Inspect Update_Start
begin

text \<open>
  Verification development for the clank host agent: the program that runs on a server, takes
  commands from a control plane over one gRPC stream, and builds, deploys and removes services as
  Docker containers.

  \<^bold>\<open>The program.\<close>  \<^verbatim>\<open>internal/agent\<close> keeps the connection and hands each command to a
  goroutine of its \<^verbatim>\<open>CommandHandler\<close>.  A deploy passes the admission guards and the disk guard,
  is built from source (\<^verbatim>\<open>internal/build\<close>) or pulled, and deployed (\<^verbatim>\<open>internal/deploy\<close>) through
  the Docker manager (\<^verbatim>\<open>internal/docker\<close>); its progress goes back over whatever connection is
  live, or into a queue.  Beside that the agent rotates its control credential
  (\<^verbatim>\<open>internal/agent/credentials.go\<close>, \<^verbatim>\<open>internal/certs\<close>), updates its own binary
  (\<^verbatim>\<open>internal/selfupdate\<close>) and cleans up Docker artifacts.

  \<^bold>\<open>Three ways of modelling.\<close>
  \<^item> Calls into the outside world (\<open>Effects\<close>): a computation over an arbitrary world, a clock and
    a trace of events; each external operation is a field of an environment record, so a theorem
    about all environments holds for every behaviour of Docker, git, the network and the clock.
    \<open>yields R m\<close> says that every run of \<open>m\<close> relates its result and its events by \<open>R\<close>; \<open>emits P m\<close>
    that it adds only events with \<open>P\<close>.
  \<^item> Files (\<open>Files\<close>): a disk, an oracle that says which operation fails this time, and the history of
    all contents the disk had, which are the states a crash can leave.  \<open>runs_reliably I v m Q\<close> says that
    every state on the way satisfies \<open>I\<close> and the answer and the final files \<open>Q\<close>, as long as renames, reads
    and stats work, whatever other operation fails; \<open>delivers v m r w\<close> is total correctness without faults.
  \<^item> Interleaving: inductive steps of the handlers (\<open>Deploy_Admission\<close>) and of connections, reports and
    drains (\<open>Control_Stream\<close>), with invariants by rule induction.

  \<^bold>\<open>Theories and sources.\<close>
  \<^item> \<open>Prelude\<close>, \<open>Go_Strings\<close>, \<open>Go_Utf8\<close>: results, maps, the string functions of the Go library the
    agent uses, UTF-8 validity and repair (\<^verbatim>\<open>sanitizeUTF8\<close>).
  \<^item> \<open>Expiry_Guards\<close>, \<open>Deploy_Admission\<close>: the two guard maps, build slots and duplicate check of
    \<^verbatim>\<open>handler.go\<close>; \<open>Disk_Guard\<close>: the disk guard in 64-bit arithmetic; \<open>Progress_Messages\<close>: the
    messages of a deploy; \<open>Control_Stream\<close>: \<^verbatim>\<open>stream_router.go\<close> and the queue of results.
  \<^item> \<open>Docker_Types\<close>, \<open>Docker_Client\<close>, \<open>Artifact_Cleanup\<close>: \<^verbatim>\<open>internal/docker/types.go\<close> and
    \<^verbatim>\<open>client.go\<close> over the calls of the Docker SDK; \<open>Log_Frames\<close>: \<^verbatim>\<open>introspect.go\<close>.
  \<^item> \<open>Endpoint_Env\<close>, \<open>Traefik_Labels\<close>, \<open>Deploy_Env\<close>, \<open>Deployer\<close>, \<open>Deployer_Laws\<close>, \<open>Deploy_Properties\<close>:
    \<^verbatim>\<open>internal/deploy/deployer.go\<close> and \<^verbatim>\<open>probe.go\<close>.  \<open>Deployer_Laws\<close> states what an outcome law owes
    at each leaf as a locale and proves it for all leaves once; the laws are interpretations.
  \<^item> \<open>Source_Build\<close>: \<^verbatim>\<open>internal/build\<close>; \<open>Deploy_Handler\<close>: \<^verbatim>\<open>HandleDeploy\<close>, which runs disk
    guard, builder and deployer on one world and translates their progress into reports.
  \<^item> \<open>Container_Commands\<close>: stop, start, restart and remove.
  \<^item> \<open>Files\<close>, \<open>Cert_Store\<close>, \<open>Credentials\<close>, \<open>Credential_Cutover\<close>: \<^verbatim>\<open>internal/certs/store.go\<close>,
    \<^verbatim>\<open>internal/agent/credentials.go\<close>, \<^verbatim>\<open>internal/credentials/status.go\<close> and \<^verbatim>\<open>SaveConfig\<close>.
  \<^item> \<open>Agent_Loop\<close>: the main loop of \<^verbatim>\<open>internal/agent/agent.go\<close> with one connection, heartbeats and the
    upkeep of networks, and \<^verbatim>\<open>ReceiveCommands\<close> of \<^verbatim>\<open>internal/grpcclient/stream.go\<close>.
  \<^item> \<open>Backup_Executor\<close>: \<^verbatim>\<open>internal/backup/executor.go\<close> over its interface to Docker, with every shell
    command it gives to a helper container.
  \<^item> \<open>Endpoint_Providers\<close>: \<^verbatim>\<open>internal/endpoint\<close> and \<^verbatim>\<open>HandleEndpoint\<close>; the five providers are
    interpretations of one locale, which states what the manager may rely on.
  \<^item> \<open>Go_Base64\<close>, \<open>Image_Transfer\<close>: base64 with its two alphabets, and the transfers of images at the
    beginning of \<^verbatim>\<open>client.go\<close>; \<open>Host_Containers\<close>: \<^verbatim>\<open>traefik.go\<close> and \<^verbatim>\<open>cloudflared.go\<close>, four set-ups
    that satisfy one contract (locale \<open>host_service\<close>); \<open>Retention_Canary\<close>: \<^verbatim>\<open>retention_canary.go\<close>.
  \<^item> \<open>Command_Handlers\<close>: the handlers of pushes, maintenance, tunnels and backups, over the components above.
  \<^item> \<open>Semver\<close>, \<open>Self_Update\<close>, \<open>Update_Commands\<close>: \<^verbatim>\<open>internal/selfupdate\<close>, \<^verbatim>\<open>HandleUpdate\<close> and
    \<^verbatim>\<open>checkPendingUpdate\<close>; \<open>Update_Start\<close>: \<^verbatim>\<open>verifyConnectivity\<close> and the start that confirms an update.
  \<^item> \<open>Channels\<close>, \<open>Log_Collector\<close>, \<open>Telemetry_Streams\<close>: bounded channels with non-blocking sends,
    \<^verbatim>\<open>internal/logs\<close> as a state with the actions of its goroutines in any order, and the streams of
    \<^verbatim>\<open>logstream.go\<close> and \<^verbatim>\<open>metricstream.go\<close> with the loops that reopen them (locale
    \<open>streaming_call\<close>, interpreted for both).  \<open>Metrics_Collector\<close>: \<^verbatim>\<open>internal/metrics\<close>, with the decoding
    of statistics.  \<open>System_Info\<close>: \<^verbatim>\<open>internal/sysinfo\<close> and the heartbeat.
  \<^item> \<open>Go_Http\<close>, \<open>Enrollment\<close>: which requests an HTTP client sends when it is redirected;
    \<^verbatim>\<open>internal/grpcclient/client.go\<close> and \<^verbatim>\<open>enrollment.go\<close>, and \<^verbatim>\<open>cmd/enroll.go\<close> on the files.
  \<^item> \<open>Doctor\<close>: \<^verbatim>\<open>internal/doctor\<close>, \<^verbatim>\<open>cmd/doctor.go\<close>, \<^verbatim>\<open>cmd/status.go\<close> and the rest of
    \<^verbatim>\<open>internal/agent/config.go\<close>; \<open>Command_Line\<close>: \<^verbatim>\<open>cmd/run.go\<close>, \<^verbatim>\<open>uninstall.go\<close> and \<^verbatim>\<open>service.go\<close> on the
    files; \<open>Agent_Start\<close>: what \<^verbatim>\<open>Run\<close> does before its loop, and the pruner of networks;
    \<open>Docker_Inspect\<close>: the inspection of images and containers and the commands run in them.

  \<^bold>\<open>What is shown.\<close>  End to end: an admitted deploy that does not panic is reported to its end
  (\<open>deploy_reported_to_end\<close>), reports active exactly when it succeeded, keeps the old container until
  then when it is blue-green (unless the daemon names that one as the new one), and cleans up after a failure but
  for three named cases.  Crashes: as long as renames and reads work, a credential rotation, an enrollment and a
  self-update leave one of a few good states whatever else fails and whenever
  the agent dies, and a restart completes the rotation, or rolls a broken update back; a failing rename can
  lose the configuration (\<open>failed_rename_loses_config\<close>).  Safety of what is asked of Docker: hardened
  containers, scoped removals, images kept; theorems on removals say that the removal is asked for, since the
  code ignores the daemon's answer.  Results: none of a deploy, a backup or a push is lost but for two named reasons.  The main loop keeps its waits bounded and returns when
  its context ends.  A backup asks for the removal of every helper
  it started, and one reported as made rests on helpers that ended well.  Endpoint, push and maintenance commands are answered exactly once,
  and what the answer says is what happened.  Log lines and batches of metrics are handed to
  gRPC in order, none twice, with every loss on the way there counted; receipt is not acknowledged and not
  claimed.  The tokens of enrollment and renewal go only where they should, but for one named case; an agent
  whose enrollment reported success can be made with what it was given, and an updated one is kept when
  it reaches the control plane.  Together with these the development proves what the code
  does not keep: the theorems about panics, gaps, leaks and unchecked texts, which the list of findings names.

  \<^bold>\<open>Bounds and termination.\<close>  Loops of the source are recursion on lists or on a count, or
  functions with a measure; the main loop and the heartbeats, which do not end by themselves, are
  given for any number of turns (\<open>turns\<close>, \<open>beats\<close>), and their theorems hold for every number.  The clock advances by at least what a wait asks for.
  Byte counts and attempt counters are 64-bit words; other Go integers are unbounded and cut
  where the code converts them (\<open>int32\<close>).  Strings are lists of bytes.

  \<^bold>\<open>Not modelled.\<close>  Dialling, TLS, gRPC and the Docker SDK are libraries: their operations are the
  parameters.  So are the syntax of JSON, YAML, X.509, ECDSA, tar and the exchange of HTTP messages.  A
  measured value is the exact number, before its rounding to a double.  Log lines that only reach
  the local log are left out.  A power failure that loses data already written is not modelled.
  The parsing of flags, signals, what a command prints, and methods that only hand one call of the SDK
  on are left out.
\<close>

end
